(* ===== verification/Kernel_Prelude.thy ===== *)
theory Kernel_Prelude
  imports Main "HOL-Library.AList" "HOL-Library.Char_ord" "HOL-Library.List_Lexorder"
    "HOL-Library.Sublist"
begin

section \<open>Prelude: Python results, strings and dictionaries\<close>

text \<open>
  What every component of the kernel model shares.

  \<^item> The exceptions the kernel raises and catches (\<open>exn\<close>) and the result type of a fallible
    Python function (\<open>'a res\<close>: \<open>Inl\<close> is the exception raised, \<open>Inr\<close> the value returned), with
    the sequencing combinators the definitions are written in.
  \<^item> Python text. A \<open>str\<close> is modelled by its UTF-8 bytes, so a \<open>string\<close> of the model is a byte
    sequence, \<open>len (s.encode ('utf-8'))\<close> is \<open>length s\<close>, and the order of code points is the
    lexicographic order of bytes. Blankness, code-point slicing, \<open>repr\<close>, decimal printing and the
    bounded identifier and digest patterns of the kernel are defined on it.
  \<^item> Insertion-ordered dictionaries as association lists (\<open>map_of\<close> reads, \<open>AList.update\<close> writes in
    place or appends, as \<open>d[k] = v\<close> does).

  The collections \<open>res_simps\<close> and \<open>py_defs\<close> carry the automation of the component proofs.
\<close>

named_theorems res_simps "unfolding successful and failing runs of the result combinators"
named_theorems py_defs "definitions of the Python-level helpers"

subsection \<open>Exceptions and results\<close>

text \<open>
  The constructors from \<open>UnicodeError\<close> to \<open>BoundaryError\<close> are subclasses of \<open>ValueError\<close> in the code: an \<open>except ValueError\<close> catches them, see \<open>is_value_error\<close>. \<open>Suspended\<close> is the
  signal of the durable runtime that parks an invocation at an await; no handler of the kernel catches it.
\<close>

datatype exn =
    ValueError string
  | UnicodeError string
  | AmendmentDenied string
  | AmendmentConflict string
  | ContextError string
  | ProjectionError string
  | SuiteError string
  | SubmitError string
  | WorktreeError string
  | ControlRejected string
  | BoundaryError string
  | TypeError string
  | KeyError string
  | IndexError string
  | AttributeError string
  | OSError string
  | ProviderUnavailable string
  | ResponseLost string
  | OverflowError string
  | UnsupportedCapability string
  | ControlPathError string
  | Refused string
  | Suspended
  | TerminalError string nat

fun is_value_error :: "exn \<Rightarrow> bool" where
  "is_value_error (ValueError m) = True"
| "is_value_error (UnicodeError m) = True"
| "is_value_error (AmendmentDenied m) = True"
| "is_value_error (AmendmentConflict m) = True"
| "is_value_error (ContextError m) = True"
| "is_value_error (ProjectionError m) = True"
| "is_value_error (SuiteError m) = True"
| "is_value_error (SubmitError m) = True"
| "is_value_error (WorktreeError m) = True"
| "is_value_error (ControlRejected m) = True"
| "is_value_error (BoundaryError m) = True"
| "is_value_error e = False"

fun is_type_error :: "exn \<Rightarrow> bool" where
  "is_type_error (TypeError m) = True"
| "is_type_error e = False"

fun is_key_error :: "exn \<Rightarrow> bool" where
  "is_key_error (KeyError m) = True"
| "is_key_error e = False"

fun is_os_error :: "exn \<Rightarrow> bool" where
  "is_os_error (OSError m) = True"
| "is_os_error e = False"

text \<open>\<open>str (error)\<close>: the text of an exception as the code embeds it in a detail or reason.\<close>

fun exn_str :: "exn \<Rightarrow> string" where
  "exn_str (ValueError m) = m"
| "exn_str (UnicodeError m) = m"
| "exn_str (AmendmentDenied m) = m"
| "exn_str (AmendmentConflict m) = m"
| "exn_str (ContextError m) = ''Context Plane: '' @ m"
| "exn_str (ProjectionError m) = m"
| "exn_str (SuiteError m) = m"
| "exn_str (SubmitError m) = m"
| "exn_str (WorktreeError m) = m"
| "exn_str (ControlRejected m) = m"
| "exn_str (BoundaryError m) = m"
| "exn_str (TypeError m) = m"
| "exn_str (KeyError m) = m"
| "exn_str (IndexError m) = m"
| "exn_str (AttributeError m) = m"
| "exn_str (OSError m) = m"
| "exn_str (OverflowError m) = m"
| "exn_str (UnsupportedCapability m) = m"
| "exn_str (ControlPathError m) = m"
| "exn_str (Refused m) = m"
| "exn_str Suspended = []"
| "exn_str (ProviderUnavailable m) = m"
| "exn_str (ResponseLost m) = m"
| "exn_str (TerminalError m n) = m"

type_synonym 'a res = "exn + 'a"

definition bindR :: "'a res \<Rightarrow> ('a \<Rightarrow> 'b res) \<Rightarrow> 'b res" where
  "bindR m f = (case m of Inl e \<Rightarrow> Inl e | Inr x \<Rightarrow> f x)"

abbreviation (input) seqR :: "'a res \<Rightarrow> 'b res \<Rightarrow> 'b res" where
  "seqR m n \<equiv> bindR m (\<lambda>_. n)"

text \<open>\<open>if b: raise e\<close>.\<close>

definition raise_if :: "bool \<Rightarrow> exn \<Rightarrow> unit res" where
  "raise_if b e = (if b then Inl e else Inr ())"

text \<open>A block of statements run in order; the first exception ends it.\<close>

fun checks :: "unit res list \<Rightarrow> unit res" where
  "checks [] = Inr ()"
| "checks (c # cs) = (case c of Inl e \<Rightarrow> Inl e | Inr _ \<Rightarrow> checks cs)"

text \<open>\<open>for x in xs: f (x)\<close>, and the list comprehension \<open>[f (x) for x in xs]\<close>.\<close>

fun forR :: "('a \<Rightarrow> 'b res) \<Rightarrow> 'a list \<Rightarrow> unit res" where
  "forR f [] = Inr ()"
| "forR f (x # xs) = (case f x of Inl e \<Rightarrow> Inl e | Inr _ \<Rightarrow> forR f xs)"

fun mapR :: "('a \<Rightarrow> 'b res) \<Rightarrow> 'a list \<Rightarrow> 'b list res" where
  "mapR f [] = Inr []"
| "mapR f (x # xs) = (case f x of Inl e \<Rightarrow> Inl e
     | Inr y \<Rightarrow> (case mapR f xs of Inl e \<Rightarrow> Inl e | Inr ys \<Rightarrow> Inr (y # ys)))"

fun foldR :: "('s \<Rightarrow> 'a \<Rightarrow> 's res) \<Rightarrow> 's \<Rightarrow> 'a list \<Rightarrow> 's res" where
  "foldR f s [] = Inr s"
| "foldR f s (x # xs) = (case f s x of Inl e \<Rightarrow> Inl e | Inr s' \<Rightarrow> foldR f s' xs)"

text \<open>Statements evaluated for their exceptions only.\<close>

definition voidR :: "'a res \<Rightarrow> unit res" where
  "voidR m = (case m of Inl e \<Rightarrow> Inl e | Inr _ \<Rightarrow> Inr ())"

definition is_ok :: "'a res \<Rightarrow> bool" where
  "is_ok m = (case m of Inl _ \<Rightarrow> False | Inr _ \<Rightarrow> True)"

lemma bindR_Inl [simp]: "bindR (Inl e) f = Inl e"
  and bindR_Inr [simp]: "bindR (Inr x) f = f x"
  by (simp_all add: bindR_def)

lemma bindR_eq_Inr [res_simps]: "bindR m f = Inr y \<longleftrightarrow> (\<exists>x. m = Inr x \<and> f x = Inr y)"
  by (cases m) auto

lemma bindR_eq_Inl: "bindR m f = Inl e \<longleftrightarrow> m = Inl e \<or> (\<exists>x. m = Inr x \<and> f x = Inl e)"
  by (cases m) auto

lemma bindR_assoc: "bindR (bindR m f) g = bindR m (\<lambda>x. bindR (f x) g)"
  by (cases m) auto

lemma raise_if_eq_Inr [res_simps, simp]: "raise_if b e = Inr u \<longleftrightarrow> \<not> b"
  by (simp add: raise_if_def)

lemma raise_if_True [simp]: "raise_if True e = Inl e"
  and raise_if_False [simp]: "raise_if False e = Inr ()"
  by (simp_all add: raise_if_def)

lemma voidR_eq_Inr [res_simps, simp]: "voidR m = Inr u \<longleftrightarrow> (\<exists>x. m = Inr x)"
  by (cases m) (auto simp: voidR_def)

lemma voidR_Inr [simp]: "voidR (Inr x) = Inr ()"
  and voidR_Inl [simp]: "voidR (Inl e) = Inl e"
  by (simp_all add: voidR_def)

lemma checks_eq_Inr [res_simps]: "checks cs = Inr u \<longleftrightarrow> (\<forall>c\<in>set cs. c = Inr ())"
  by (induction cs) (auto split: sum.splits)

lemma forR_eq_Inr [res_simps]: "forR f xs = Inr u \<longleftrightarrow> (\<forall>x\<in>set xs. \<exists>y. f x = Inr y)"
  by (induction xs) (auto split: sum.splits)

lemma mapR_eq_Inr [res_simps]: "mapR f xs = Inr ys \<longleftrightarrow> list_all2 (\<lambda>x y. f x = Inr y) xs ys"
proof (induction xs arbitrary: ys)
  case Nil
  then show ?case by auto
next
  case (Cons x xs)
  show ?case
    by (cases "f x"; cases "mapR f xs") (auto simp: list_all2_Cons1 Cons.IH [symmetric])
qed

lemma mapR_length: "mapR f xs = Inr ys \<Longrightarrow> length ys = length xs"
  by (auto simp: mapR_eq_Inr dest: list_all2_lengthD)

lemma mapR_same: "mapR f xs = Inr ys \<Longrightarrow> (\<And>x y. x \<in> set xs \<Longrightarrow> f x = Inr y \<Longrightarrow> y = x) \<Longrightarrow> ys = xs"
  by (induction xs arbitrary: ys) (auto split: sum.splits)

lemma foldR_append:
  "foldR f s (xs @ ys) = bindR (foldR f s xs) (\<lambda>s'. foldR f s' ys)"
  by (induction xs arbitrary: s) (auto split: sum.splits)

lemma foldR_invariant:
  assumes "foldR f s xs = Inr t" and "P s"
    and "\<And>s x s'. x \<in> set xs \<Longrightarrow> P s \<Longrightarrow> f s x = Inr s' \<Longrightarrow> P s'"
  shows "P t"
  using assms
proof (induction xs arbitrary: s)
  case Nil
  then show ?case by simp
next
  case (Cons x xs)
  from Cons.prems(1) obtain s' where s': "f s x = Inr s'" and rest: "foldR f s' xs = Inr t"
    by (auto split: sum.splits)
  have "P s'" using Cons.prems(2) s' by (rule Cons.prems(3) [rotated]) simp
  with rest show ?case using Cons.prems(3) by (intro Cons.IH) auto
qed

lemma checks_Cons [simp]: "checks (c # cs) = bindR c (\<lambda>_. checks cs)"
  by (simp add: bindR_def)

lemma forR_Cons [simp]: "forR f (x # xs) = bindR (f x) (\<lambda>_. forR f xs)"
  by (simp add: bindR_def)

declare checks.simps(2) [simp del] forR.simps(2) [simp del]

text \<open>A loop that may return early: the first \<open>Some\<close> ends it.\<close>

fun firstR :: "('a \<Rightarrow> 'b option res) \<Rightarrow> 'a list \<Rightarrow> 'b option res" where
  "firstR f [] = Inr None"
| "firstR f (x # xs) = (case f x of Inl e \<Rightarrow> Inl e | Inr (Some y) \<Rightarrow> Inr (Some y) | Inr None \<Rightarrow> firstR f xs)"

lemma firstR_None: "firstR f xs = Inr None \<longleftrightarrow> (\<forall>x\<in>set xs. f x = Inr None)"
  by (induction xs) (auto split: sum.splits option.splits)

lemma is_ok_simps [simp]: "is_ok (Inr x)" "\<not> is_ok (Inl e)"
  by (simp_all add: is_ok_def)

lemma is_ok_iff: "is_ok m \<longleftrightarrow> (\<exists>x. m = Inr x)"
  by (cases m) auto

subsection \<open>Python text as UTF-8 bytes\<close>

text \<open>
  \<open>not value.strip ()\<close>: only white space. The code points Python's \<open>str.strip\<close> removes, as
  UTF-8: the ASCII ones, U+0085, U+00A0, U+1680, U+2000 to U+200A, U+2028, U+2029, U+202F, U+205F,
  U+3000.
\<close>

definition ascii_spaces :: string where
  "ascii_spaces = [CHR 0x09, CHR 0x0A, CHR 0x0B, CHR 0x0C, CHR 0x0D, CHR 0x1C, CHR 0x1D, CHR 0x1E,
     CHR 0x1F, CHR 0x20]"

definition spaces2 :: "string list" where
  "spaces2 = [[CHR 0xC2, CHR 0x85], [CHR 0xC2, CHR 0xA0]]"

definition spaces3 :: "string list" where
  "spaces3 = [[CHR 0xE1, CHR 0x9A, CHR 0x80],
     [CHR 0xE2, CHR 0x80, CHR 0x80], [CHR 0xE2, CHR 0x80, CHR 0x81], [CHR 0xE2, CHR 0x80, CHR 0x82],
     [CHR 0xE2, CHR 0x80, CHR 0x83], [CHR 0xE2, CHR 0x80, CHR 0x84], [CHR 0xE2, CHR 0x80, CHR 0x85],
     [CHR 0xE2, CHR 0x80, CHR 0x86], [CHR 0xE2, CHR 0x80, CHR 0x87], [CHR 0xE2, CHR 0x80, CHR 0x88],
     [CHR 0xE2, CHR 0x80, CHR 0x89], [CHR 0xE2, CHR 0x80, CHR 0x8A], [CHR 0xE2, CHR 0x80, CHR 0xA8],
     [CHR 0xE2, CHR 0x80, CHR 0xA9], [CHR 0xE2, CHR 0x80, CHR 0xAF], [CHR 0xE2, CHR 0x81, CHR 0x9F],
     [CHR 0xE3, CHR 0x80, CHR 0x80]]"

fun py_blank :: "string \<Rightarrow> bool" where
  "py_blank [] = True"
| "py_blank (a # s) =
     (if a \<in> set ascii_spaces then py_blank s
      else (case s of [] \<Rightarrow> False
        | b # s1 \<Rightarrow> if [a, b] \<in> set spaces2 then py_blank s1
            else (case s1 of [] \<Rightarrow> False
              | c # s2 \<Rightarrow> if [a, b, c] \<in> set spaces3 then py_blank s2 else False)))"

declare py_blank.simps(2) [simp del]

lemma py_blank_printable [simp]:
  assumes "33 \<le> (of_char c :: nat)" and "(of_char c :: nat) < 127"
  shows "\<not> py_blank (c # s)"
proof -
  have "c \<notin> set ascii_spaces" using assms by (auto simp: ascii_spaces_def)
  moreover have "c # r \<notin> set spaces2" "c # r \<notin> set spaces3" for r
    using assms by (auto simp: spaces2_def spaces3_def)
  ultimately show ?thesis by (simp add: py_blank.simps split: list.splits)
qed

text \<open>\<open>s[:n]\<close> counts code points: continuation bytes ride with their leading byte.\<close>

definition is_cont :: "char \<Rightarrow> bool" where
  "is_cont c \<longleftrightarrow> 128 \<le> (of_char c :: nat) \<and> (of_char c :: nat) < 192"

fun py_take :: "nat \<Rightarrow> string \<Rightarrow> string" where
  "py_take n [] = []"
| "py_take n (c # cs) =
     (if is_cont c then c # py_take n cs
      else (case n of 0 \<Rightarrow> [] | Suc m \<Rightarrow> c # py_take m cs))"

lemma py_take_prefix: "prefix (py_take n s) s"
  by (induction n s rule: py_take.induct) (auto split: nat.splits)

declare py_take.simps [simp del]

text \<open>\<open>len (s)\<close> counts code points.\<close>

definition py_len :: "string \<Rightarrow> nat" where
  "py_len s = length (filter (\<lambda>c. \<not> is_cont c) s)"

text \<open>Valid UTF-8, as \<open>bytes.decode ('utf-8')\<close> accepts it (no overlong forms, no surrogates).\<close>

fun utf8_seq :: "nat list \<Rightarrow> bool" where
  "utf8_seq [a] = (a < 128)"
| "utf8_seq [a, b] = (194 \<le> a \<and> a \<le> 223 \<and> 128 \<le> b \<and> b \<le> 191)"
| "utf8_seq [a, b, c] = (128 \<le> c \<and> c \<le> 191 \<and>
     (a = 224 \<and> 160 \<le> b \<and> b \<le> 191 \<or> 225 \<le> a \<and> a \<le> 236 \<and> 128 \<le> b \<and> b \<le> 191
      \<or> a = 237 \<and> 128 \<le> b \<and> b \<le> 159 \<or> 238 \<le> a \<and> a \<le> 239 \<and> 128 \<le> b \<and> b \<le> 191))"
| "utf8_seq [a, b, c, d] = (128 \<le> c \<and> c \<le> 191 \<and> 128 \<le> d \<and> d \<le> 191 \<and>
     (a = 240 \<and> 144 \<le> b \<and> b \<le> 191 \<or> 241 \<le> a \<and> a \<le> 243 \<and> 128 \<le> b \<and> b \<le> 191
      \<or> a = 244 \<and> 128 \<le> b \<and> b \<le> 143))"
| "utf8_seq ns = False"

declare utf8_seq.simps [simp del]

fun utf8_valid :: "nat list \<Rightarrow> bool" where
  "utf8_valid [] = True"
| "utf8_valid (a # s) =
     (if utf8_seq [a] then utf8_valid s
      else (case s of [] \<Rightarrow> False
        | b # s1 \<Rightarrow> if utf8_seq [a, b] then utf8_valid s1
            else (case s1 of [] \<Rightarrow> False
              | c # s2 \<Rightarrow> if utf8_seq [a, b, c] then utf8_valid s2
                  else (case s2 of [] \<Rightarrow> False
                    | d # s3 \<Rightarrow> if utf8_seq [a, b, c, d] then utf8_valid s3 else False))))"

definition decode_utf8 :: "string \<Rightarrow> string res" where
  "decode_utf8 bs = (if utf8_valid (map of_char bs) then Inr bs
     else Inl (UnicodeError ''invalid utf-8''))"

text \<open>
  \<open>bs.decode ('utf-8', errors='replace')\<close>: every maximal invalid part becomes U+FFFD. A part is the
  longest prefix of two or three bytes that some valid sequence starts with, or one byte.
\<close>

definition replacement :: string where
  "replacement = [CHR 0xEF, CHR 0xBF, CHR 0xBD]"

definition bad_prefix :: "nat list \<Rightarrow> nat" where
  "bad_prefix bs =
     (if 3 \<le> length bs \<and> utf8_seq (take 3 bs @ [128]) then 3
      else if 2 \<le> length bs \<and> (utf8_seq (take 2 bs @ [128]) \<or> utf8_seq (take 2 bs @ [128, 128])) then 2 else 1)"

definition good_prefix :: "nat list \<Rightarrow> nat option" where
  "good_prefix bs = find (\<lambda>k. k \<le> length bs \<and> utf8_seq (take k bs)) [1, 2, 3, 4]"

fun decode_replace :: "nat \<Rightarrow> string \<Rightarrow> string" where
  "decode_replace 0 bs = []"
| "decode_replace (Suc n) bs =
     (if bs = [] then []
      else case good_prefix (map of_char bs) of
        Some k \<Rightarrow> take k bs @ decode_replace n (drop k bs)
      | None \<Rightarrow> replacement @ decode_replace n (drop (bad_prefix (map of_char bs)) bs))"

lemma decode_utf8_Inr: "decode_utf8 bs = Inr s \<Longrightarrow> s = bs"
  by (simp add: decode_utf8_def split: if_splits)


subsection \<open>Decimal printing, joining, splitting and searching\<close>

definition digit_char :: "nat \<Rightarrow> char" where
  "digit_char d = char_of (48 + d)"

fun show_nat :: "nat \<Rightarrow> string" where
  "show_nat n = (if n < 10 then [digit_char n] else show_nat (n div 10) @ [digit_char (n mod 10)])"

declare show_nat.simps [simp del]

definition show_int :: "int \<Rightarrow> string" where
  "show_int i = (if i < 0 then CHR ''-'' # show_nat (nat (- i)) else show_nat (nat i))"

text \<open>\<open>sep.join (xs)\<close>.\<close>

fun join_with :: "string \<Rightarrow> string list \<Rightarrow> string" where
  "join_with sep [] = []"
| "join_with sep [x] = x"
| "join_with sep (x # y # ys) = x @ sep @ join_with sep (y # ys)"

text \<open>\<open>s.split (c)\<close> for a one-byte separator; always at least one piece.\<close>

fun split_on :: "char \<Rightarrow> string \<Rightarrow> string list" where
  "split_on c [] = [[]]"
| "split_on c (x # xs) =
     (if x = c then [] # split_on c xs
      else (case split_on c xs of [] \<Rightarrow> [[x]] | p # ps \<Rightarrow> (x # p) # ps))"

lemma split_on_nonempty [simp]: "split_on c s \<noteq> []"
  by (induction s) (auto split: list.splits)

lemma join_split_on: "join_with [c] (split_on c s) = s"
proof (induction s)
  case Nil
  then show ?case by simp
next
  case (Cons x xs)
  obtain p ps where ps: "split_on c xs = p # ps" by (cases "split_on c xs") auto
  with Cons show ?case by (cases ps) auto
qed

text \<open>\<open>needle in haystack\<close> on text.\<close>

fun py_contains :: "string \<Rightarrow> string \<Rightarrow> bool" where
  "py_contains n [] = (n = [])"
| "py_contains n (c # cs) = (prefix n (c # cs) \<or> py_contains n cs)"

lemma py_contains_iff: "py_contains n s \<longleftrightarrow> sublist n s"
proof (induction s)
  case Nil
  then show ?case by simp
next
  case (Cons c s)
  then show ?case by (auto simp: sublist_Cons_right)
qed

text \<open>
  \<open>repr\<close> of a string and of a list of strings, as \<open>f'{names}'\<close> prints them. Text beyond ASCII is
  taken as printable.
\<close>

definition hex_digit :: "nat \<Rightarrow> char" where
  "hex_digit d = (if d < 10 then char_of (48 + d) else char_of (87 + d))"

definition repr_char :: "char \<Rightarrow> char \<Rightarrow> string" where
  "repr_char q c =
     (if c = q \<or> c = CHR 0x5C then [CHR 0x5C, c]
      else if c = CHR 0x0A then [CHR 0x5C, CHR ''n'']
      else if c = CHR 0x0D then [CHR 0x5C, CHR ''r'']
      else if c = CHR 0x09 then [CHR 0x5C, CHR ''t'']
      else if (of_char c :: nat) < 32 \<or> (of_char c :: nat) = 127 then
        [CHR 0x5C, CHR ''x'', hex_digit (of_char c div 16), hex_digit (of_char c mod 16)]
      else [c])"

definition py_repr :: "string \<Rightarrow> string" where
  "py_repr s =
     (let q = (if CHR 0x27 \<in> set s \<and> CHR 0x22 \<notin> set s then CHR 0x22 else CHR 0x27)
      in [q] @ concat (map (repr_char q) s) @ [q])"

definition py_repr_list :: "string list \<Rightarrow> string" where
  "py_repr_list xs = ''['' @ join_with '', '' (map py_repr xs) @ '']''"

subsection \<open>The bounded patterns of the kernel\<close>

text \<open>\<open>re.fullmatch (r'[A-Za-z0-9_-]{1,80}', s)\<close>.\<close>

definition ident_char :: "char \<Rightarrow> bool" where
  "ident_char c \<longleftrightarrow> (let n = (of_char c :: nat) in
     65 \<le> n \<and> n \<le> 90 \<or> 97 \<le> n \<and> n \<le> 122 \<or> 48 \<le> n \<and> n \<le> 57 \<or> n = 95 \<or> n = 45)"

definition is_ident :: "string \<Rightarrow> bool" where
  "is_ident s \<longleftrightarrow> 1 \<le> length s \<and> length s \<le> 80 \<and> list_all ident_char s"

text \<open>\<open>re.fullmatch (r'[0-9a-f]{64}', s)\<close>.\<close>

definition hex_char :: "char \<Rightarrow> bool" where
  "hex_char c \<longleftrightarrow> (let n = (of_char c :: nat) in 48 \<le> n \<and> n \<le> 57 \<or> 97 \<le> n \<and> n \<le> 102)"

definition is_hex64 :: "string \<Rightarrow> bool" where
  "is_hex64 s \<longleftrightarrow> length s = 64 \<and> list_all hex_char s"

text \<open>\<open>re.fullmatch (r'sha256:[0-9a-f]{64}', s)\<close>.\<close>

definition is_digest :: "string \<Rightarrow> bool" where
  "is_digest s \<longleftrightarrow> prefix ''sha256:'' s \<and> is_hex64 (drop 7 s)"

text \<open>
  \<open>re.fullmatch (r'artifact://([A-Za-z0-9_-]{1,80})/sha256:([0-9a-f]{64})', s)\<close>: the two groups of
  the match. No identifier character is a slash, so the first group is the longest run of them.
\<close>

definition strip_prefix :: "string \<Rightarrow> string \<Rightarrow> string option" where
  "strip_prefix p s = (if prefix p s then Some (drop (length p) s) else None)"

lemma strip_prefix_iff: "strip_prefix p s = Some r \<longleftrightarrow> s = p @ r"
  by (auto simp: strip_prefix_def prefix_def)

definition match_ref :: "string \<Rightarrow> (string \<times> string) option" where
  "match_ref s =
     (case strip_prefix ''artifact://'' s of
        None \<Rightarrow> None
      | Some r \<Rightarrow>
          (case strip_prefix ''/sha256:'' (dropWhile ident_char r) of
             None \<Rightarrow> None
           | Some d \<Rightarrow>
               if is_ident (takeWhile ident_char r) \<and> is_hex64 d
               then Some (takeWhile ident_char r, d) else None))"

definition is_ref :: "string \<Rightarrow> bool" where
  "is_ref s \<longleftrightarrow> match_ref s \<noteq> None"

definition mk_ref :: "string \<Rightarrow> string \<Rightarrow> string" where
  "mk_ref task_id digest = ''artifact://'' @ task_id @ ''/sha256:'' @ digest"

lemma ident_span:
  assumes "is_ident t"
  shows "takeWhile ident_char (t @ ''/sha256:'' @ d) = t"
    and "dropWhile ident_char (t @ ''/sha256:'' @ d) = ''/sha256:'' @ d"
proof -
  have all: "\<And>c. c \<in> set t \<Longrightarrow> ident_char c" using assms by (simp add: is_ident_def list_all_iff)
  have slash: "\<not> ident_char (CHR ''/'')" by (simp add: ident_char_def)
  show "takeWhile ident_char (t @ ''/sha256:'' @ d) = t"
    using all slash by (simp add: takeWhile_append2)
  show "dropWhile ident_char (t @ ''/sha256:'' @ d) = ''/sha256:'' @ d"
    using all slash by (simp add: dropWhile_append2)
qed

lemma match_ref_mk_ref:
  assumes "is_ident t" and "is_hex64 d"
  shows "match_ref (mk_ref t d) = Some (t, d)"
proof -
  have a: "strip_prefix ''artifact://'' (mk_ref t d) = Some (t @ ''/sha256:'' @ d)"
    by (simp only: strip_prefix_iff mk_ref_def)
  have b: "strip_prefix ''/sha256:'' (''/sha256:'' @ d) = Some d"
    by (simp only: strip_prefix_iff)
  show ?thesis
    unfolding match_ref_def a option.case ident_span [OF assms(1)] b using assms by simp
qed

lemma match_ref_SomeD:
  assumes "match_ref s = Some (t, d)"
  shows "s = mk_ref t d \<and> is_ident t \<and> is_hex64 d"
proof -
  from assms obtain r where r: "strip_prefix ''artifact://'' s = Some r"
    unfolding match_ref_def by (cases "strip_prefix ''artifact://'' s") simp_all
  from assms r obtain z where z: "strip_prefix ''/sha256:'' (dropWhile ident_char r) = Some z"
    unfolding match_ref_def
    by (cases "strip_prefix ''/sha256:'' (dropWhile ident_char r)") simp_all
  from assms r z have td: "is_ident t" "is_hex64 d" "t = takeWhile ident_char r" "d = z"
    unfolding match_ref_def by (simp_all split: if_splits)
  have "r = takeWhile ident_char r @ dropWhile ident_char r" by simp
  also have "\<dots> = t @ ''/sha256:'' @ d" using z td by (simp only: strip_prefix_iff)
  finally have "s = mk_ref t d" using r by (simp only: strip_prefix_iff mk_ref_def)
  with td show ?thesis by blast
qed

lemma match_ref_iff: "match_ref s = Some (t, d) \<longleftrightarrow> s = mk_ref t d \<and> is_ident t \<and> is_hex64 d"
  using match_ref_mk_ref match_ref_SomeD by blast

lemma is_ref_iff: "is_ref s \<longleftrightarrow> (\<exists>t d. s = mk_ref t d \<and> is_ident t \<and> is_hex64 d)"
  unfolding is_ref_def by (metis match_ref_iff not_None_eq old.prod.exhaust)

lemma mk_ref_inject:
  "is_ident t \<Longrightarrow> is_hex64 d \<Longrightarrow> is_ident t' \<Longrightarrow> is_hex64 d' \<Longrightarrow>
     mk_ref t d = mk_ref t' d' \<longleftrightarrow> t = t' \<and> d = d'"
  by (metis match_ref_mk_ref option.inject prod.inject)

subsection \<open>Insertion-ordered dictionaries\<close>

text \<open>\<open>{**d, **e}\<close>, \<open>dict (pairs)\<close> and \<open>d.pop (k)\<close>.\<close>

definition dict_merge :: "(string \<times> 'v) list \<Rightarrow> (string \<times> 'v) list \<Rightarrow> (string \<times> 'v) list" where
  "dict_merge d e = fold (\<lambda>(k, v). AList.update k v) e d"

lemma map_of_dict_merge: "map_of (dict_merge d e) = (\<lambda>k. case map_of (rev e) k of None \<Rightarrow> map_of d k | Some v \<Rightarrow> Some v)"
proof (induction e rule: rev_induct)
  case Nil
  then show ?case by (simp add: dict_merge_def)
next
  case (snoc x xs)
  then show ?case by (cases x) (auto simp: dict_merge_def update_conv' fun_eq_iff)
qed

lemma dom_update_keys: "fst ` set (AList.update k v d) = insert k (fst ` set d)"
  by (induction d) auto

text \<open>Python's \<open>sorted (set (names))\<close> on text.\<close>

definition sorted_set :: "string list \<Rightarrow> string list" where
  "sorted_set xs = sort (remdups xs)"

lemma set_sorted_set [simp]: "set (sorted_set xs) = set xs"
  and distinct_sorted_set [simp]: "distinct (sorted_set xs)"
  and sorted_sorted_set [simp]: "sorted (sorted_set xs)"
  by (simp_all add: sorted_set_def)

text \<open>Duplicate-free lists are no longer than the set that holds them.\<close>

lemma distinct_length_le: "distinct xs \<Longrightarrow> set xs \<subseteq> set ys \<Longrightarrow> length xs \<le> length ys"
  by (metis List.finite_set card_length card_mono distinct_card le_trans)

end
