(* ===== verification/Json_Codec.thy ===== *)
theory Json_Codec
  imports Json
begin

section \<open>Canonical JSON bytes and their parser\<close>

text \<open>
  \<open>encode\<close> of runtime/kernel/contracts.py (sorted keys, compact separators, \<open>ensure_ascii=False\<close>) and
  \<open>json.loads\<close>, with the two facts the artifact boundary rests on: parsing the canonical bytes gives
  back the value with its keys sorted (\<open>loads_encode\<close>), and values that differ only in key order
  have the same bytes (\<open>encode_perm\<close>).

  The parser takes fuel; \<open>json_loads\<close> supplies one unit per byte and one more, and every nested call
  is made after at least one byte, so \<open>loads_encode\<close> shows the fuel is enough for every document the
  kernel writes. \<open>NaN\<close> and the infinities, which \<open>encode\<close> refuses to write, are not parsed.
\<close>

subsection \<open>Printing\<close>

fun canon :: "json \<Rightarrow> json"
  and canon_list :: "json list \<Rightarrow> json list"
  and canon_items :: "(string \<times> json) list \<Rightarrow> (string \<times> json) list" where
  "canon (JList xs) = JList (canon_list xs)"
| "canon (JObj d) = JObj (sort_key fst (canon_items d))"
| "canon v = v"
| "canon_list [] = []"
| "canon_list (x # xs) = canon x # canon_list xs"
| "canon_items [] = []"
| "canon_items ((k, v) # d) = (k, canon v) # canon_items d"

definition esc_char :: "char \<Rightarrow> string" where
  "esc_char c =
     (if c = CHR 0x22 then [CHR 0x5C, CHR 0x22]
      else if c = CHR 0x5C then [CHR 0x5C, CHR 0x5C]
      else if c = CHR 0x0A then [CHR 0x5C, CHR ''n'']
      else if c = CHR 0x0D then [CHR 0x5C, CHR ''r'']
      else if c = CHR 0x09 then [CHR 0x5C, CHR ''t'']
      else if c = CHR 0x0C then [CHR 0x5C, CHR ''f'']
      else if c = CHR 0x08 then [CHR 0x5C, CHR ''b'']
      else if (of_char c :: nat) < 32 then
        [CHR 0x5C, CHR ''u'', CHR ''0'', CHR ''0'', hex_digit (of_char c div 16), hex_digit (of_char c mod 16)]
      else [c])"

definition dumps_str :: "string \<Rightarrow> string" where
  "dumps_str s = CHR 0x22 # concat (map esc_char s) @ [CHR 0x22]"

text \<open>\<open>repr\<close> of the decimal \<open>m / 10 ^ e\<close>: integer part, point, \<open>e\<close> fraction digits.\<close>

fun show_padded :: "nat \<Rightarrow> nat \<Rightarrow> string" where
  "show_padded 0 n = []"
| "show_padded (Suc k) n = show_padded k (n div 10) @ [digit_char (n mod 10)]"

definition show_decimal :: "int \<Rightarrow> nat \<Rightarrow> string" where
  "show_decimal m e =
     (let a = nat \<bar>m\<bar> in (if m < 0 then ''-'' else []) @ show_nat (a div 10 ^ e) @ ''.'' @ show_padded e (a mod 10 ^ e))"

fun dumps :: "json \<Rightarrow> string"
  and dumps_list :: "json list \<Rightarrow> string"
  and dumps_items :: "(string \<times> json) list \<Rightarrow> string" where
  "dumps JNull = ''null''"
| "dumps (JBool b) = (if b then ''true'' else ''false'')"
| "dumps (JInt i) = show_int i"
| "dumps (JFloat m e) = show_decimal m e"
| "dumps (JStr s) = dumps_str s"
| "dumps (JList xs) = CHR ''['' # dumps_list xs @ '']''"
| "dumps (JObj d) = CHR ''{'' # dumps_items d @ ''}''"
| "dumps_list [] = []"
| "dumps_list (x # xs) = dumps x @ (if xs = [] then [] else CHR '','' # dumps_list xs)"
| "dumps_items [] = []"
| "dumps_items ((k, v) # d) =
     dumps_str k @ CHR '':'' # dumps v @ (if d = [] then [] else CHR '','' # dumps_items d)"

definition encode :: "json \<Rightarrow> string" where
  "encode v = dumps (canon v)"

subsection \<open>Parsing\<close>

definition json_space :: "char \<Rightarrow> bool" where
  "json_space c \<longleftrightarrow> c = CHR 0x20 \<or> c = CHR 0x09 \<or> c = CHR 0x0A \<or> c = CHR 0x0D"

definition skip_ws :: "string \<Rightarrow> string" where
  "skip_ws s = dropWhile json_space s"

definition is_digit :: "char \<Rightarrow> bool" where
  "is_digit c \<longleftrightarrow> 48 \<le> (of_char c :: nat) \<and> (of_char c :: nat) \<le> 57"

definition digits_val :: "string \<Rightarrow> nat" where
  "digits_val s = foldl (\<lambda>a c. 10 * a + (of_char c - 48)) 0 s"

fun hex_val :: "char \<Rightarrow> nat option" where
  "hex_val c = (let n = (of_char c :: nat) in
     if 48 \<le> n \<and> n \<le> 57 then Some (n - 48)
     else if 97 \<le> n \<and> n \<le> 102 then Some (n - 87)
     else if 65 \<le> n \<and> n \<le> 70 then Some (n - 55) else None)"

declare hex_val.simps [simp del]

definition hex4 :: "char \<Rightarrow> char \<Rightarrow> char \<Rightarrow> char \<Rightarrow> nat option" where
  "hex4 a b c d = (case (hex_val a, hex_val b, hex_val c, hex_val d) of
     (Some w, Some x, Some y, Some z) \<Rightarrow> Some (w * 4096 + x * 256 + y * 16 + z) | _ \<Rightarrow> None)"

text \<open>The UTF-8 bytes of a code point (a lone surrogate keeps its three-byte form).\<close>

definition utf8_of :: "nat \<Rightarrow> string" where
  "utf8_of n =
     (if n < 128 then [char_of n]
      else if n < 2048 then [char_of (192 + n div 64), char_of (128 + n mod 64)]
      else if n < 65536 then [char_of (224 + n div 4096), char_of (128 + n div 64 mod 64), char_of (128 + n mod 64)]
      else [char_of (240 + n div 262144), char_of (128 + n div 4096 mod 64), char_of (128 + n div 64 mod 64), char_of (128 + n mod 64)])"

fun simple_escape :: "char \<Rightarrow> char option" where
  "simple_escape c =
     (if c = CHR 0x22 then Some (CHR 0x22) else if c = CHR 0x5C then Some (CHR 0x5C)
      else if c = CHR ''/'' then Some (CHR ''/'') else if c = CHR ''b'' then Some (CHR 0x08)
      else if c = CHR ''f'' then Some (CHR 0x0C) else if c = CHR ''n'' then Some (CHR 0x0A)
      else if c = CHR ''r'' then Some (CHR 0x0D) else if c = CHR ''t'' then Some (CHR 0x09) else None)"

declare simple_escape.simps [simp del]

text \<open>The body of a string literal, after its opening quote.\<close>

fun parse_str :: "string \<Rightarrow> (string \<times> string) option" where
  "parse_str [] = None"
| "parse_str (c # s) =
     (if c = CHR 0x22 then Some ([], s)
      else if c = CHR 0x5C then
        (case s of
           [] \<Rightarrow> None
         | e # r \<Rightarrow>
             if e = CHR ''u'' then
               (case r of
                  h1 # h2 # h3 # h4 # r1 \<Rightarrow>
                    (case hex4 h1 h2 h3 h4 of
                       None \<Rightarrow> None
                     | Some n \<Rightarrow>
                         (case r1 of
                            b1 # u1 # g1 # g2 # g3 # g4 # r2 \<Rightarrow>
                              (case hex4 g1 g2 g3 g4 of
                                 Some m \<Rightarrow>
                                   if 55296 \<le> n \<and> n \<le> 56319 \<and> b1 = CHR 0x5C \<and> u1 = CHR ''u'' \<and> 56320 \<le> m \<and> m \<le> 57343
                                   then map_option (\<lambda>(t, q). (utf8_of (65536 + (n - 55296) * 1024 + (m - 56320)) @ t, q)) (parse_str r2)
                                   else map_option (\<lambda>(t, q). (utf8_of n @ t, q)) (parse_str r1)
                               | None \<Rightarrow> map_option (\<lambda>(t, q). (utf8_of n @ t, q)) (parse_str r1))
                          | _ \<Rightarrow> map_option (\<lambda>(t, q). (utf8_of n @ t, q)) (parse_str r1)))
                | _ \<Rightarrow> None)
             else (case simple_escape e of None \<Rightarrow> None
                   | Some c' \<Rightarrow> map_option (\<lambda>(t, q). (c' # t, q)) (parse_str r)))
      else if (of_char c :: nat) < 32 then None
      else map_option (\<lambda>(t, q). (c # t, q)) (parse_str s))"

text \<open>A decimal in the normal form of \<open>repr\<close>: at least one fraction digit, no trailing zero.\<close>

fun norm_decimal :: "int \<Rightarrow> nat \<Rightarrow> json" where
  "norm_decimal m 0 = JFloat (10 * m) 1"
| "norm_decimal m (Suc 0) = JFloat m 1"
| "norm_decimal m (Suc (Suc e)) = (if m mod 10 = 0 then norm_decimal (m div 10) (Suc e) else JFloat m (Suc (Suc e)))"

definition parse_exponent :: "string \<Rightarrow> (int \<times> string) option" where
  "parse_exponent s =
     (case s of [] \<Rightarrow> None
      | c # r \<Rightarrow>
          if c = CHR ''e'' \<or> c = CHR ''E'' then
            (let neg = (r \<noteq> [] \<and> hd r = CHR ''-'');
                 q = (if r \<noteq> [] \<and> (hd r = CHR ''-'' \<or> hd r = CHR ''+'') then tl r else r);
                 ds = takeWhile is_digit q
             in if ds = [] then None
                else Some (if neg then - int (digits_val ds) else int (digits_val ds), dropWhile is_digit q))
          else None)"

definition scale_decimal :: "int \<Rightarrow> nat \<Rightarrow> int \<Rightarrow> json" where
  "scale_decimal m e x = (if int e \<le> x then norm_decimal (m * 10 ^ nat (x - int e)) 0 else norm_decimal m (nat (int e - x)))"

definition parse_int_part :: "string \<Rightarrow> string \<times> string" where
  "parse_int_part s =
     (if s \<noteq> [] \<and> hd s = CHR ''0'' then (''0'', tl s) else (takeWhile is_digit s, dropWhile is_digit s))"

definition parse_frac_part :: "string \<Rightarrow> string \<times> string" where
  "parse_frac_part s =
     (case s of [] \<Rightarrow> ([], s)
      | c # r \<Rightarrow> if c = CHR ''.'' \<and> takeWhile is_digit r \<noteq> [] then (takeWhile is_digit r, dropWhile is_digit r)
          else ([], s))"

definition parse_unsigned :: "int \<Rightarrow> string \<Rightarrow> (json \<times> string) option" where
  "parse_unsigned sign s =
     (case parse_int_part s of (ip, s2) \<Rightarrow>
        if ip = [] then None
        else (case parse_frac_part s2 of (fp, s3) \<Rightarrow>
          (case parse_exponent s3 of
             Some (x, s4) \<Rightarrow> Some (scale_decimal (sign * int (digits_val (ip @ fp))) (length fp) x, s4)
           | None \<Rightarrow> Some (if fp = [] then JInt (sign * int (digits_val ip))
               else norm_decimal (sign * int (digits_val (ip @ fp))) (length fp), s3))))"

definition parse_number :: "string \<Rightarrow> (json \<times> string) option" where
  "parse_number s =
     (if s \<noteq> [] \<and> hd s = CHR ''-'' then parse_unsigned (- 1) (tl s) else parse_unsigned 1 s)"

fun parse_value :: "nat \<Rightarrow> string \<Rightarrow> (json \<times> string) option"
  and parse_elems :: "nat \<Rightarrow> string \<Rightarrow> (json list \<times> string) option"
  and parse_members :: "nat \<Rightarrow> string \<Rightarrow> ((string \<times> json) list \<times> string) option" where
  "parse_value 0 s = None"
| "parse_value (Suc n) s =
     (case s of [] \<Rightarrow> None
      | c # r \<Rightarrow>
          if c = CHR 0x22 then map_option (\<lambda>(t, q). (JStr t, q)) (parse_str r)
          else if c = CHR ''{'' then
            (case skip_ws r of [] \<Rightarrow> None
             | d # r' \<Rightarrow> if d = CHR ''}'' then Some (JObj [], r')
                 else map_option (\<lambda>(ps, q). (JObj (dict_merge [] ps), q)) (parse_members n (d # r')))
          else if c = CHR ''['' then
            (case skip_ws r of [] \<Rightarrow> None
             | d # r' \<Rightarrow> if d = CHR '']'' then Some (JList [], r')
                 else map_option (\<lambda>(xs, q). (JList xs, q)) (parse_elems n (d # r')))
          else if prefix ''null'' s then Some (JNull, drop 4 s)
          else if prefix ''true'' s then Some (JBool True, drop 4 s)
          else if prefix ''false'' s then Some (JBool False, drop 5 s)
          else parse_number s)"
| "parse_elems 0 s = None"
| "parse_elems (Suc n) s =
     (case parse_value n s of None \<Rightarrow> None
      | Some (v, r) \<Rightarrow>
          (case skip_ws r of [] \<Rightarrow> None
           | c # r' \<Rightarrow> if c = CHR '']'' then Some ([v], r')
               else if c = CHR '','' then map_option (\<lambda>(vs, q). (v # vs, q)) (parse_elems n (skip_ws r'))
               else None))"
| "parse_members 0 s = None"
| "parse_members (Suc n) s =
     (case s of [] \<Rightarrow> None
      | c # r \<Rightarrow>
          if c \<noteq> CHR 0x22 then None
          else (case parse_str r of None \<Rightarrow> None
                | Some (k, r1) \<Rightarrow>
                    (case skip_ws r1 of [] \<Rightarrow> None
                     | c1 # r2 \<Rightarrow>
                         if c1 \<noteq> CHR '':'' then None
                         else (case parse_value n (skip_ws r2) of None \<Rightarrow> None
                               | Some (v, r3) \<Rightarrow>
                                   (case skip_ws r3 of [] \<Rightarrow> None
                                    | c2 # r4 \<Rightarrow> if c2 = CHR ''}'' then Some ([(k, v)], r4)
                                        else if c2 = CHR '','' then
                                          map_option (\<lambda>(ps, q). ((k, v) # ps, q)) (parse_members n (skip_ws r4))
                                        else None)))))"

definition json_loads :: "string \<Rightarrow> json res" where
  "json_loads bs =
     (if \<not> utf8_valid (map of_char bs) then Inl (UnicodeError ''invalid utf-8'')
      else (case parse_value (Suc (length bs)) (skip_ws bs) of
              Some (v, rest) \<Rightarrow> if skip_ws rest = [] then Inr v else Inl (ValueError ''Extra data'')
            | None \<Rightarrow> Inl (ValueError ''Expecting value'')))"



subsection \<open>Numbers\<close>

lemma of_char_digit_char [simp]: "d < 10 \<Longrightarrow> (of_char (digit_char d) :: nat) = 48 + d"
  by (simp add: digit_char_def)

lemma is_digit_digit_char [simp]: "d < 10 \<Longrightarrow> is_digit (digit_char d)"
  by (simp add: is_digit_def)

lemma digits_val_snoc: "digits_val (s @ [c]) = 10 * digits_val s + (of_char c - 48)"
  by (simp add: digits_val_def)

lemma digits_val_Nil [simp]: "digits_val [] = 0"
  by (simp add: digits_val_def)

lemma show_nat_digits: "\<forall>c\<in>set (show_nat n). is_digit c"
proof (induction n rule: show_nat.induct)
  case (1 n)
  then show ?case by (subst show_nat.simps) (auto simp: show_nat.simps [of n])
qed

lemma show_nat_val: "digits_val (show_nat n) = n"
proof (induction n rule: show_nat.induct)
  case (1 n)
  show ?case
  proof (cases "n < 10")
    case True
    then show ?thesis by (simp add: show_nat.simps [of n] digits_val_def)
  next
    case False
    with 1 show ?thesis by (simp add: show_nat.simps [of n] digits_val_snoc)
  qed
qed

lemma show_nat_nonempty [simp]: "show_nat n \<noteq> []"
  by (subst show_nat.simps) simp

lemma show_nat_lead: "hd (show_nat n) = CHR ''0'' \<longleftrightarrow> n = 0"
proof (induction n rule: show_nat.induct)
  case (1 n)
  show ?case
  proof (cases "n < 10")
    case True
    have "digit_char n = CHR ''0'' \<longleftrightarrow> (of_char (digit_char n) :: nat) = of_char (CHR ''0'')"
      by (simp only: of_char_eq_iff)
    with True show ?thesis by (simp add: show_nat.simps [of n])
  next
    case False
    with 1 show ?thesis by (simp add: show_nat.simps [of n])
  qed
qed

lemma show_nat_0: "show_nat 0 = ''0''"
  by (simp add: show_nat.simps digit_char_def) code_simp

definition delim :: "string \<Rightarrow> bool" where
  "delim r \<longleftrightarrow> (r = [] \<or> hd r \<in> {CHR '','', CHR '']'', CHR ''}''})"

lemma delim_simps [simp]:
  "delim []" "delim (CHR '','' # r)" "delim (CHR '']'' # r)" "delim (CHR ''}'' # r)"
  by (simp_all add: delim_def)

lemma parse_exponent_delim: "delim r \<Longrightarrow> parse_exponent r = None"
  by (cases r) (auto simp: delim_def parse_exponent_def)

lemma takeWhile_digits:
  "\<forall>c\<in>set ds. is_digit c \<Longrightarrow> r = [] \<or> \<not> is_digit (hd r) \<Longrightarrow> takeWhile is_digit (ds @ r) = ds"
  by (cases r) (auto simp: takeWhile_append2)

lemma delim_not_digit: "delim r \<Longrightarrow> r = [] \<or> \<not> is_digit (hd r)"
  by (auto simp: delim_def is_digit_def)

lemma dropWhile_digits:
  "\<forall>c\<in>set ds. is_digit c \<Longrightarrow> r = [] \<or> \<not> is_digit (hd r) \<Longrightarrow> dropWhile is_digit (ds @ r) = r"
  by (cases r) (auto simp: dropWhile_append2)

lemma parse_int_part_show:
  assumes "r = [] \<or> \<not> is_digit (hd r)"
  shows "parse_int_part (show_nat n @ r) = (show_nat n, r)"
proof (cases "n = 0")
  case True
  then show ?thesis by (simp add: show_nat_0 parse_int_part_def)
next
  case False
  then have "hd (show_nat n @ r) \<noteq> CHR ''0''" using show_nat_lead [of n] by simp
  then show ?thesis
    using takeWhile_digits [OF show_nat_digits assms] dropWhile_digits [OF show_nat_digits assms]
    by (simp add: parse_int_part_def)
qed

lemma parse_frac_part_delim: "delim r \<Longrightarrow> parse_frac_part r = ([], r)"
  by (cases r) (auto simp: delim_def parse_frac_part_def)

lemma show_nat_not_minus: "hd (show_nat n) \<noteq> CHR ''-''"
proof -
  have "is_digit (hd (show_nat n))" using show_nat_digits [of n] by (simp add: hd_in_set)
  then show ?thesis by (auto simp: is_digit_def)
qed

lemma parse_unsigned_nat:
  "delim r \<Longrightarrow> parse_unsigned sg (show_nat n @ r) = Some (JInt (sg * int n), r)"
  by (simp add: parse_unsigned_def parse_int_part_show delim_not_digit parse_frac_part_delim
      parse_exponent_delim show_nat_val)

lemma parse_number_sign:
  "parse_number (show_nat n @ r) = parse_unsigned 1 (show_nat n @ r)"
  "parse_number (CHR ''-'' # s) = parse_unsigned (- 1) s"
  using show_nat_not_minus [of n] by (simp_all add: parse_number_def)

lemma parse_number_int: "delim r \<Longrightarrow> parse_number (show_int i @ r) = Some (JInt i, r)"
  by (simp add: show_int_def parse_number_sign parse_unsigned_nat)

lemma show_padded_length [simp]: "length (show_padded k n) = k"
  by (induction k n rule: show_padded.induct) auto

lemma show_padded_digits: "\<forall>c\<in>set (show_padded k n). is_digit c"
  by (induction k n rule: show_padded.induct) auto

lemma digits_val_append: "digits_val (s @ t) = digits_val s * 10 ^ length t + digits_val t"
proof (induction t rule: rev_induct)
  case Nil
  then show ?case by simp
next
  case (snoc c t)
  have "digits_val (s @ t @ [c]) = digits_val ((s @ t) @ [c])" by simp
  also have "\<dots> = 10 * digits_val (s @ t) + (of_char c - 48)" by (simp only: digits_val_snoc)
  finally show ?case using snoc by (simp add: digits_val_snoc algebra_simps)
qed

lemma show_padded_val: "digits_val (show_padded k n) = n mod 10 ^ k"
proof (induction k n rule: show_padded.induct)
  case (1 n)
  then show ?case by simp
next
  case (2 k n)
  have "n mod (10 * 10 ^ k) = 10 * (n div 10 mod 10 ^ k) + n mod 10"
    by (simp add: mod_mult2_eq)
  with 2 show ?case by (simp add: digits_val_snoc)
qed

lemma norm_decimal_id: "1 \<le> e \<Longrightarrow> e = 1 \<or> m mod 10 \<noteq> 0 \<Longrightarrow> norm_decimal m e = JFloat m e"
  by (cases "(m, e)" rule: norm_decimal.cases) auto

lemma parse_unsigned_decimal:
  assumes "delim r" and "1 \<le> e"
  shows "parse_unsigned sg (show_nat (a div 10 ^ e) @ CHR ''.'' # show_padded e (a mod 10 ^ e) @ r)
     = Some (norm_decimal (sg * int a) e, r)"
proof -
  let ?I = "show_nat (a div 10 ^ e)" and ?F = "show_padded e (a mod 10 ^ e)"
  have ip: "parse_int_part (?I @ CHR ''.'' # ?F @ r) = (?I, CHR ''.'' # ?F @ r)"
    by (rule parse_int_part_show) (simp add: is_digit_def)
  have ne: "?F \<noteq> []" using assms(2) by (metis show_padded_length list.size(3) not_one_le_zero)
  have fp: "parse_frac_part (CHR ''.'' # ?F @ r) = (?F, r)"
    using takeWhile_digits [OF show_padded_digits delim_not_digit [OF assms(1)]]
      dropWhile_digits [OF show_padded_digits delim_not_digit [OF assms(1)]] ne
    by (simp add: parse_frac_part_def)
  have "digits_val (?I @ ?F) = a"
    by (simp add: digits_val_append show_nat_val show_padded_val div_mult_mod_eq)
  then show ?thesis by (simp add: parse_unsigned_def ip fp ne parse_exponent_delim [OF assms(1)])
qed

lemma parse_number_decimal:
  assumes "delim r" and "1 \<le> e" and "e = 1 \<or> m mod 10 \<noteq> 0"
  shows "parse_number (show_decimal m e @ r) = Some (JFloat m e, r)"
  using parse_unsigned_decimal [OF assms(1,2)] norm_decimal_id [OF assms(2,3)]
  by (cases "m < 0") (simp_all add: show_decimal_def Let_def parse_number_sign)


subsection \<open>Strings\<close>

lemma hex_val_hex_digit: "d < 16 \<Longrightarrow> hex_val (hex_digit d) = Some d"
  by (auto simp: hex_val.simps hex_digit_def Let_def)

lemma hex4_control:
  assumes "n < 32"
  shows "hex4 (CHR ''0'') (CHR ''0'') (hex_digit (n div 16)) (hex_digit (n mod 16)) = Some n"
proof -
  have z: "hex_val (CHR ''0'') = Some 0" by (simp add: hex_val.simps)
  have "hex_val (hex_digit (n div 16)) = Some (n div 16)" using assms by (intro hex_val_hex_digit) simp
  moreover have "hex_val (hex_digit (n mod 16)) = Some (n mod 16)" by (intro hex_val_hex_digit) simp
  ultimately show ?thesis by (simp add: hex4_def z)
qed

declare parse_str.simps(2) [simp del]

lemma parse_str_u00:
  assumes "hex4 a b c d = Some n" and "n < 55296"
  shows "parse_str (CHR 0x5C # CHR ''u'' # a # b # c # d # r)
     = map_option (\<lambda>(t, q). (utf8_of n @ t, q)) (parse_str r)"
  using assms
  by (subst parse_str.simps(2)) (simp split: list.split option.split)

lemma parse_str_simple:
  assumes "simple_escape e = Some c" and "e \<noteq> CHR ''u''"
  shows "parse_str (CHR 0x5C # e # r) = map_option (\<lambda>(t, q). (c # t, q)) (parse_str r)"
  using assms by (subst parse_str.simps(2)) simp

lemma parse_str_plain:
  assumes "c \<noteq> CHR 0x22" and "c \<noteq> CHR 0x5C" and "\<not> (of_char c :: nat) < 32"
  shows "parse_str (c # r) = map_option (\<lambda>(t, q). (c # t, q)) (parse_str r)"
  using assms by (subst parse_str.simps(2)) simp

lemma parse_str_quote: "parse_str (CHR 0x22 # r) = Some ([], r)"
  by (subst parse_str.simps(2)) simp

lemma parse_str_esc: "parse_str (esc_char c @ r) = map_option (\<lambda>(t, q). (c # t, q)) (parse_str r)"
proof -
  have simple: "simple_escape (CHR 0x22) = Some (CHR 0x22)" "simple_escape (CHR 0x5C) = Some (CHR 0x5C)"
    "simple_escape (CHR ''n'') = Some (CHR 0x0A)" "simple_escape (CHR ''r'') = Some (CHR 0x0D)"
    "simple_escape (CHR ''t'') = Some (CHR 0x09)" "simple_escape (CHR ''f'') = Some (CHR 0x0C)"
    "simple_escape (CHR ''b'') = Some (CHR 0x08)"
    by (simp_all add: simple_escape.simps)
  consider (special) "c \<in> {CHR 0x22, CHR 0x5C, CHR 0x0A, CHR 0x0D, CHR 0x09, CHR 0x0C, CHR 0x08}"
    | (control) "c \<notin> {CHR 0x22, CHR 0x5C, CHR 0x0A, CHR 0x0D, CHR 0x09, CHR 0x0C, CHR 0x08}" "(of_char c :: nat) < 32"
    | (plain) "c \<notin> {CHR 0x22, CHR 0x5C, CHR 0x0A, CHR 0x0D, CHR 0x09, CHR 0x0C, CHR 0x08}" "\<not> (of_char c :: nat) < 32"
    by blast
  then show ?thesis
  proof cases
    case special
    then show ?thesis by (auto simp: esc_char_def parse_str_simple simple)
  next
    case control
    have u: "utf8_of (of_char c) = [c]" using control by (simp add: utf8_of_def)
    from control(1) have "esc_char c = [CHR 0x5C, CHR ''u'', CHR ''0'', CHR ''0'',
        hex_digit (of_char c div 16), hex_digit (of_char c mod 16)]"
      using control(2) by (simp add: esc_char_def)
    then show ?thesis
      using parse_str_u00 [OF hex4_control [OF control(2)]] control(2) by (simp add: u)
  next
    case plain
    then have "esc_char c = [c]" by (simp add: esc_char_def)
    with plain show ?thesis by (simp add: parse_str_plain)
  qed
qed

lemma parse_str_dumps: "parse_str (concat (map esc_char s) @ CHR 0x22 # r) = Some (s, r)"
  by (induction s) (simp_all add: parse_str_quote parse_str_esc)

lemma parse_dumps_str: "dumps_str s @ r = CHR 0x22 # q \<Longrightarrow> parse_str q = Some (s, r)"
  using parse_str_dumps [of s r] by (auto simp: dumps_str_def)

subsection \<open>UTF-8 of what is printed\<close>

lemma utf8_seq2_lead: "utf8_seq [a, b] \<Longrightarrow> \<not> utf8_seq [a]"
  by (simp add: utf8_seq.simps)

lemma utf8_seq3_lead: "utf8_seq [a, b, c] \<Longrightarrow> \<not> utf8_seq [a] \<and> \<not> utf8_seq [a, b]"
  by (simp add: utf8_seq.simps) linarith

lemma utf8_seq4_lead:
  "utf8_seq [a, b, c, d] \<Longrightarrow> \<not> utf8_seq [a] \<and> \<not> utf8_seq [a, b] \<and> \<not> utf8_seq [a, b, c]"
  by (simp add: utf8_seq.simps) linarith

lemma utf8_seq_not_Nil: "\<not> utf8_seq []"
  by (simp add: utf8_seq.simps)

lemma utf8_seq_step: "utf8_seq c \<Longrightarrow> utf8_valid (c @ r) \<longleftrightarrow> utf8_valid r"
  by (cases c rule: utf8_seq.cases)
    (simp_all add: utf8_seq2_lead utf8_seq3_lead utf8_seq4_lead utf8_seq.simps(5-))

text \<open>Valid text is a sequence of encoded code points.\<close>

lemma utf8_induct [consumes 1, case_names Nil Seq]:
  assumes "utf8_valid xs" and nil: "P []"
    and seq: "\<And>c r. utf8_seq c \<Longrightarrow> utf8_valid r \<Longrightarrow> P r \<Longrightarrow> P (c @ r)"
  shows "P xs"
  using assms(1)
proof (induction xs rule: utf8_valid.induct)
  case 1
  show ?case by (rule nil)
next
  case (2 a s)
  show ?case
  proof (cases "utf8_seq [a]")
    case True
    with 2 seq [of "[a]" s] show ?thesis by simp
  next
    case n1: False
    with 2(5) obtain b s1 where s: "s = b # s1" by (cases s) auto
    show ?thesis
    proof (cases "utf8_seq [a, b]")
      case True
      with n1 2(2) [OF n1 s True] 2(5) s seq [of "[a, b]" s1] show ?thesis by simp
    next
      case n2: False
      with n1 2(5) s obtain c s2 where s1: "s1 = c # s2" by (cases s1) auto
      show ?thesis
      proof (cases "utf8_seq [a, b, c]")
        case True
        with n1 n2 2(3) [OF n1 s n2 s1 True] 2(5) s s1 seq [of "[a, b, c]" s2] show ?thesis by simp
      next
        case n3: False
        with n1 n2 2(5) s s1 obtain d s3 where s2: "s2 = d # s3" by (cases s2) auto
        have four: "utf8_seq [a, b, c, d]" using n1 n2 n3 2(5) s s1 s2 by (simp split: if_splits)
        with n1 n2 n3 2(4) [OF n1 s n2 s1 n3 s2 four] 2(5) s s1 s2 seq [of "[a, b, c, d]" s3]
        show ?thesis by simp
      qed
    qed
  qed
qed

lemma utf8_valid_append: "utf8_valid xs \<Longrightarrow> utf8_valid ys \<Longrightarrow> utf8_valid (xs @ ys)"
  by (induction xs rule: utf8_induct) (simp_all add: utf8_seq_step)

lemma utf8_valid_ascii: "\<forall>n\<in>set ns. n < 128 \<Longrightarrow> utf8_valid ns"
  by (induction ns) (auto simp: utf8_seq.simps)

definition utf8_str :: "string \<Rightarrow> bool" where
  "utf8_str s \<longleftrightarrow> utf8_valid (map of_char s)"

lemma utf8_str_append: "utf8_str s \<Longrightarrow> utf8_str t \<Longrightarrow> utf8_str (s @ t)"
  by (simp add: utf8_str_def utf8_valid_append)

lemma utf8_str_ascii: "\<forall>c\<in>set s. (of_char c :: nat) < 128 \<Longrightarrow> utf8_str s"
  by (simp add: utf8_str_def utf8_valid_ascii)

lemma esc_char_high: "128 \<le> (of_char c :: nat) \<Longrightarrow> esc_char c = [c]"
proof -
  assume high: "128 \<le> (of_char c :: nat)"
  have ne: "c \<noteq> k" if "(of_char k :: nat) < 128" for k using that high by (metis not_le)
  show ?thesis unfolding esc_char_def using high
    by (simp only: ne [of "CHR 0x22", simplified] ne [of "CHR 0x5C", simplified] ne [of "CHR 0x0A", simplified]
        ne [of "CHR 0x0D", simplified] ne [of "CHR 0x09", simplified] ne [of "CHR 0x0C", simplified]
        ne [of "CHR 0x08", simplified] if_False) simp
qed

lemma hex_digit_ascii: "d < 16 \<Longrightarrow> (of_char (hex_digit d) :: nat) < 128"
  by (auto simp: hex_digit_def)

lemma esc_char_ascii:
  assumes "(of_char c :: nat) < 128"
  shows "\<forall>x\<in>set (esc_char c). (of_char x :: nat) < 128"
proof -
  define h l where "h = hex_digit (of_char c div 16)" and "l = hex_digit (of_char c mod 16)"
  have "(of_char h :: nat) < 128" "(of_char l :: nat) < 128"
    unfolding h_def l_def using assms by (intro hex_digit_ascii; simp)+
  then show ?thesis using assms unfolding esc_char_def h_def [symmetric] l_def [symmetric] by simp
qed

lemma utf8_seq_high: "utf8_seq (a # b # s) \<Longrightarrow> n \<in> set (a # b # s) \<Longrightarrow> 128 \<le> n"
  by (cases "a # b # s" rule: utf8_seq.cases) (auto simp: utf8_seq.simps)

lemma utf8_valid_escape:
  assumes high: "\<And>n. 128 \<le> n \<Longrightarrow> n < 256 \<Longrightarrow> f n = [n]"
    and low: "\<And>n. n < 128 \<Longrightarrow> utf8_valid (f n)"
  shows "utf8_valid ns \<Longrightarrow> \<forall>n\<in>set ns. n < 256 \<Longrightarrow> utf8_valid (concat (map f ns))"
proof (induction ns rule: utf8_induct)
  case Nil
  then show ?case by simp
next
  case (Seq c r)
  have "utf8_valid (concat (map f c))"
  proof (cases "\<exists>a. c = [a]")
    case True
    with Seq.hyps(1) low show ?thesis by (auto simp: utf8_seq.simps)
  next
    case False
    with Seq.hyps(1) obtain a b s where c: "c = a # b # s"
      using utf8_seq_not_Nil by (cases c rule: utf8_seq.cases) auto
    have "map f c = map (\<lambda>n. [n]) c"
      using Seq.prems high utf8_seq_high Seq.hyps(1) unfolding c by (intro map_cong) auto
    then have "concat (map f c) = concat (map (\<lambda>n. [n]) c)" by (rule arg_cong)
    then have "concat (map f c) = c" by (simp only: concat_map_singleton map_ident)
    moreover have "utf8_valid c" using utf8_seq_step [OF Seq.hyps(1), of "[]"] by simp
    ultimately show ?thesis by simp
  qed
  with Seq show ?case by (simp add: utf8_valid_append)
qed

lemma utf8_str_dumps_str:
  assumes "utf8_str s"
  shows "utf8_str (dumps_str s)"
proof -
  define f where "f = (\<lambda>n :: nat. map of_char (esc_char (char_of n)) :: nat list)"
  have "utf8_valid (concat (map f (map of_char s)))"
  proof (rule utf8_valid_escape)
    show "f n = [n]" if "128 \<le> n" "n < 256" for n
      using that esc_char_high [of "char_of n"] by (simp add: f_def)
    show "utf8_valid (f n)" if "n < 128" for n
      using that esc_char_ascii [of "char_of n"] by (simp add: f_def utf8_valid_ascii)
    show "utf8_valid (map of_char s)" using assms by (simp add: utf8_str_def)
    show "\<forall>n\<in>set (map of_char s). n < (256 :: nat)" by auto
  qed
  then have "utf8_str (concat (map esc_char s))"
    by (simp add: utf8_str_def map_concat comp_def f_def)
  then show ?thesis unfolding dumps_str_def
    using utf8_str_append [of "[CHR 0x22]"] utf8_str_append [of _ "[CHR 0x22]"]
    by (auto simp: utf8_str_ascii)
qed


subsection \<open>Well-formed documents\<close>

text \<open>What a Python value can be: text is valid UTF-8, dictionary keys are distinct, a float is in
  the normal form of its \<open>repr\<close>.\<close>

fun wfj :: "json \<Rightarrow> bool"
  and wfj_list :: "json list \<Rightarrow> bool"
  and wfj_items :: "(string \<times> json) list \<Rightarrow> bool" where
  "wfj (JFloat m e) = (1 \<le> e \<and> (e = 1 \<or> m mod 10 \<noteq> 0))"
| "wfj (JStr s) = utf8_str s"
| "wfj (JList xs) = wfj_list xs"
| "wfj (JObj d) = (distinct (map fst d) \<and> wfj_items d)"
| "wfj v = True"
| "wfj_list [] = True"
| "wfj_list (x # xs) = (wfj x \<and> wfj_list xs)"
| "wfj_items [] = True"
| "wfj_items ((k, v) # d) = (utf8_str k \<and> wfj v \<and> wfj_items d)"

lemma wfj_list_iff: "wfj_list xs \<longleftrightarrow> (\<forall>x\<in>set xs. wfj x)"
  by (induction xs) auto

lemma wfj_items_iff: "wfj_items d \<longleftrightarrow> (\<forall>(k, v)\<in>set d. utf8_str k \<and> wfj v)"
  by (induction d) auto

lemma canon_list_map: "canon_list xs = map canon xs"
  by (induction xs) auto

lemma canon_items_map: "canon_items d = map (\<lambda>(k, v). (k, canon v)) d"
  by (induction d) auto

lemma canon_keys: "map fst (canon_items d) = map fst d"
  by (induction d) auto

lemma wfj_canon:
  "wfj v \<Longrightarrow> wfj (canon v)"
  "wfj_list xs \<Longrightarrow> wfj_list (canon_list xs)"
  "wfj_items d \<Longrightarrow> wfj_items (canon_items d)"
proof (induction v and xs and d rule: canon_canon_list_canon_items.induct)
  case (2 d)
  have "distinct (map fst (canon_items d))" using 2(2) by (simp add: canon_keys)
  then have "distinct (map fst (sort_key fst (canon_items d)))" by (simp add: distinct_map)
  with 2 show ?case by (auto simp: wfj_items_iff)
qed auto

subsection \<open>Parsing what was printed\<close>

lemma dumps_str_hd: "dumps_str s = CHR 0x22 # tl (dumps_str s)"
  by (simp add: dumps_str_def)

lemma show_nat_hd: "is_digit (hd (show_nat n))"
  using show_nat_digits [of n] by (simp add: hd_in_set)

lemma show_int_hd: "is_digit (hd (show_int i)) \<or> hd (show_int i) = CHR ''-''"
  using show_nat_hd by (auto simp: show_int_def)

lemma show_decimal_hd: "is_digit (hd (show_decimal m e)) \<or> hd (show_decimal m e) = CHR ''-''"
  using show_nat_hd by (auto simp: show_decimal_def Let_def hd_append)

lemma dumps_nonempty: "dumps v \<noteq> []"
  by (cases v) (auto simp: dumps_str_def show_int_def show_decimal_def Let_def)

text \<open>The byte a printed value starts with is no white space and closes nothing.\<close>

definition starts_value :: "char \<Rightarrow> bool" where
  "starts_value c \<longleftrightarrow> is_digit c \<or> c \<in> set ''-ntf[{'' \<or> c = CHR 0x22"

lemma dumps_start: "starts_value (hd (dumps v))"
  using show_int_hd show_decimal_hd
  by (cases v) (auto simp: starts_value_def dumps_str_def)

lemma starts_value_facts: "starts_value c \<Longrightarrow> \<not> json_space c \<and> c \<noteq> CHR '']'' \<and> c \<noteq> CHR ''}''"
  by (auto simp: starts_value_def json_space_def is_digit_def)

lemma skip_ws_nospace: "s \<noteq> [] \<Longrightarrow> \<not> json_space (hd s) \<Longrightarrow> skip_ws s = s"
  by (cases s) (auto simp: skip_ws_def)

lemma skip_ws_dumps [simp]: "skip_ws (dumps v @ r) = dumps v @ r"
  using dumps_start [of v] starts_value_facts dumps_nonempty [of v]
  by (intro skip_ws_nospace) (auto simp: hd_append)

lemma skip_ws_dumps_str [simp]: "skip_ws (dumps_str k @ r) = dumps_str k @ r"
  by (intro skip_ws_nospace) (auto simp: dumps_str_def json_space_def)

lemma skip_ws_punct [simp]:
  "skip_ws (CHR '','' # r) = CHR '','' # r" "skip_ws (CHR '']'' # r) = CHR '']'' # r"
  "skip_ws (CHR ''}'' # r) = CHR ''}'' # r" "skip_ws (CHR '':'' # r) = CHR '':'' # r"
  "skip_ws (CHR 0x22 # r) = CHR 0x22 # r" "skip_ws [] = []"
  by (simp_all add: skip_ws_def json_space_def)

lemma dict_merge_distinct: "distinct (map fst (e @ d)) \<Longrightarrow> dict_merge e d = e @ d"
proof (induction d arbitrary: e)
  case Nil
  then show ?case by (simp add: dict_merge_def)
next
  case (Cons x d)
  obtain k v where x: "x = (k, v)" by (cases x)
  have "k \<notin> fst ` set e" using Cons.prems x by auto
  then have "AList.update k v e = e @ [(k, v)]" by (induction e) auto
  moreover have "dict_merge (e @ [(k, v)]) d = (e @ [(k, v)]) @ d"
    by (rule Cons.IH) (use Cons.prems x in auto)
  ultimately show ?case by (simp add: dict_merge_def x)
qed

lemma parse_value_number:
  assumes "parse_number s = Some p" and "s \<noteq> []" and "is_digit (hd s) \<or> hd s = CHR ''-''"
  shows "parse_value (Suc n) s = Some p"
proof -
  obtain c r where s: "s = c # r" using assms(2) by (cases s) auto
  have "c \<notin> {CHR 0x22, CHR ''{'', CHR ''['', CHR ''n'', CHR ''t'', CHR ''f''}"
    using assms(3) s by (auto simp: is_digit_def)
  then show ?thesis using assms(1) s by auto
qed

lemma length_dumps_pos: "1 \<le> length (dumps v)"
  using dumps_nonempty [of v] by (cases "dumps v") auto

lemma parse_dumps:
  "wfj v \<Longrightarrow> delim r \<Longrightarrow> length (dumps v) \<le> n \<Longrightarrow> parse_value n (dumps v @ r) = Some (v, r)"
  "wfj_list xs \<Longrightarrow> xs \<noteq> [] \<Longrightarrow> length (dumps_list xs) < n \<Longrightarrow>
     parse_elems n (dumps_list xs @ CHR '']'' # r) = Some (xs, r)"
  "wfj_items d \<Longrightarrow> d \<noteq> [] \<Longrightarrow> length (dumps_items d) < n \<Longrightarrow>
     parse_members n (dumps_items d @ CHR ''}'' # r) = Some (d, r)"
proof (induction v and xs and d arbitrary: n r and n r and n r rule: dumps_dumps_list_dumps_items.induct)
  case (1 n r)
  then show ?case by (cases n) auto
next
  case (2 b n r)
  then show ?case by (cases n; cases b) auto
next
  case (3 i n r)
  then obtain k where "n = Suc k" using length_dumps_pos [of "JInt i"] by (cases n) auto
  moreover have "show_int i @ r \<noteq> []" "is_digit (hd (show_int i @ r)) \<or> hd (show_int i @ r) = CHR ''-''"
    using show_int_hd [of i] dumps_nonempty [of "JInt i"] by (auto simp: hd_append)
  ultimately show ?case using parse_value_number [OF parse_number_int [OF \<open>delim r\<close>]] by simp
next
  case (4 m e n r)
  then obtain k where "n = Suc k" using length_dumps_pos [of "JFloat m e"] by (cases n) auto
  moreover have "show_decimal m e @ r \<noteq> []"
    "is_digit (hd (show_decimal m e @ r)) \<or> hd (show_decimal m e @ r) = CHR ''-''"
    using show_decimal_hd [of m e] dumps_nonempty [of "JFloat m e"] by (auto simp: hd_append)
  ultimately show ?case using parse_value_number [OF parse_number_decimal [OF \<open>delim r\<close>]] 4 by simp
next
  case (5 s n r)
  then obtain k where "n = Suc k" by (cases n) (auto simp: dumps_str_def)
  then show ?case using parse_str_dumps [of s r] by (simp add: dumps_str_def)
next
  case (6 xs n r)
  then obtain k where n: "n = Suc k" by (cases n) auto
  show ?case
  proof (cases "xs = []")
    case True
    with n show ?thesis by simp
  next
    case False
    then obtain y ys where xs: "xs = y # ys" by (cases xs) auto
    have "parse_elems k (dumps_list xs @ CHR '']'' # r) = Some (xs, r)"
      using 6 False n by simp
    moreover obtain c q where cq: "dumps_list xs @ CHR '']'' # r = c # q" and c: "starts_value c"
      using dumps_nonempty [of y] dumps_start [of y] xs by (cases "dumps y") auto
    moreover have "skip_ws (c # q) = c # q"
      using starts_value_facts [OF c] by (intro skip_ws_nospace) auto
    ultimately show ?thesis using n starts_value_facts [OF c] by simp
  qed
next
  case (7 d n r)
  then obtain k where n: "n = Suc k" by (cases n) auto
  show ?case
  proof (cases "d = []")
    case True
    with n show ?thesis by simp
  next
    case False
    then obtain y v ys where d: "d = (y, v) # ys" by (cases d) auto
    have "parse_members k (dumps_items d @ CHR ''}'' # r) = Some (d, r)"
      using 7 False n by simp
    moreover obtain q where "dumps_items d @ CHR ''}'' # r = CHR 0x22 # q"
      using d by (simp add: dumps_str_def)
    moreover have "dict_merge [] d = d" using 7(2) dict_merge_distinct [of "[]" d] by simp
    ultimately show ?thesis using n by simp
  qed
next
  case (8 n r)
  then show ?case by simp
next
  case (9 x xs n r)
  then obtain k where n: "n = Suc k" by (cases n) auto
  show ?case
  proof (cases "xs = []")
    case True
    with 9 n show ?thesis by simp
  next
    case False
    have "parse_value k (dumps x @ CHR '','' # dumps_list xs @ CHR '']'' # r)
        = Some (x, CHR '','' # dumps_list xs @ CHR '']'' # r)"
      using 9 False n by simp
    moreover have "parse_elems k (dumps_list xs @ CHR '']'' # r) = Some (xs, r)"
      using 9 False n length_dumps_pos [of x] by simp
    moreover have "skip_ws (dumps_list xs @ CHR '']'' # r) = dumps_list xs @ CHR '']'' # r"
      using False by (cases xs) auto
    ultimately show ?thesis using n False by simp
  qed
next
  case (10 n r)
  then show ?case by simp
next
  case (11 y v d n r)
  then obtain k where n: "n = Suc k" by (cases n) auto
  have str: "parse_str (concat (map esc_char y) @ CHR 0x22 # q) = Some (y, q)" for q
    by (rule parse_str_dumps)
  show ?case
  proof (cases "d = []")
    case True
    with 11 n show ?thesis by (simp add: dumps_str_def str)
  next
    case False
    have "parse_value k (dumps v @ CHR '','' # dumps_items d @ CHR ''}'' # r)
        = Some (v, CHR '','' # dumps_items d @ CHR ''}'' # r)"
      using 11 False n by simp
    moreover have "parse_members k (dumps_items d @ CHR ''}'' # r) = Some (d, r)"
      using 11 False n length_dumps_pos [of v] by simp
    moreover have "skip_ws (dumps_items d @ CHR ''}'' # r) = dumps_items d @ CHR ''}'' # r"
      using False by (cases d) auto
    ultimately show ?thesis using n False by (simp add: dumps_str_def str)
  qed
qed

lemma utf8_str_show: "utf8_str (show_int i)" "utf8_str (show_decimal m e)"
proof -
  have dig: "(of_char c :: nat) < 128" if "is_digit c" for c using that by (simp add: is_digit_def)
  have sn: "utf8_str (show_nat n)" for n using show_nat_digits [of n] dig by (auto intro!: utf8_str_ascii)
  have sp: "utf8_str (show_padded k n)" for k n using show_padded_digits [of k n] dig by (auto intro!: utf8_str_ascii)
  show "utf8_str (show_int i)"
    using utf8_str_append [of "''-''"] sn by (auto simp: show_int_def utf8_str_ascii)
  have "utf8_str (''.'' @ show_padded e n)" for n by (rule utf8_str_append) (auto simp: utf8_str_ascii sp)
  then have body: "utf8_str (show_nat k @ ''.'' @ show_padded e n)" for k n by (rule utf8_str_append [OF sn])
  have sgn: "utf8_str (if m < 0 then ''-'' else [])" by (simp add: utf8_str_ascii)
  show "utf8_str (show_decimal m e)"
    unfolding show_decimal_def Let_def by (rule utf8_str_append [OF sgn body])
qed

lemma utf8_str_Cons: "(of_char c :: nat) < 128 \<Longrightarrow> utf8_str s \<Longrightarrow> utf8_str (c # s)"
  using utf8_str_append [of "[c]" s] by (simp add: utf8_str_ascii)

lemma utf8_str_Nil [simp]: "utf8_str []"
  by (simp add: utf8_str_def)

lemma utf8_str_dumps:
  "wfj v \<Longrightarrow> utf8_str (dumps v)"
  "wfj_list xs \<Longrightarrow> utf8_str (dumps_list xs)"
  "wfj_items d \<Longrightarrow> utf8_str (dumps_items d)"
  by (induction v and xs and d rule: dumps_dumps_list_dumps_items.induct)
    (auto intro!: utf8_str_append utf8_str_Cons utf8_str_show utf8_str_dumps_str
      simp: utf8_str_ascii)

lemma loads_dumps: "wfj v \<Longrightarrow> json_loads (dumps v) = Inr v"
  using parse_dumps(1) [of v "[]" "Suc (length (dumps v))"] utf8_str_dumps(1) [of v] skip_ws_dumps [of v "[]"]
  by (simp add: json_loads_def utf8_str_def)

lemma loads_encode: "wfj v \<Longrightarrow> json_loads (encode v) = Inr (canon v)"
  by (simp add: encode_def loads_dumps wfj_canon)

lemma encode_inject: "wfj v \<Longrightarrow> wfj w \<Longrightarrow> encode v = encode w \<Longrightarrow> canon v = canon w"
  by (metis loads_encode sum.inject(2))

subsection \<open>The canonical form\<close>

lemma canon_items_fixed:
  "canon_items d = d \<Longrightarrow> (k, v) \<in> set d \<Longrightarrow> canon v = v"
  by (induction d) auto

lemma canon_items_sort_fixed:
  assumes "canon_items d = d"
  shows "canon_items (sort_key fst d) = sort_key fst d"
proof -
  have "(case x of (k, v) \<Rightarrow> (k, canon v)) = x" if "x \<in> set (sort_key fst d)" for x
  proof -
    obtain k v where x: "x = (k, v)" by force
    with that have "(k, v) \<in> set d" by simp
    from canon_items_fixed [OF assms this] x show ?thesis by simp
  qed
  then show ?thesis unfolding canon_items_map by (intro map_idI) blast
qed

lemma canon_idem:
  "canon (canon v) = canon v"
  "canon_list (canon_list xs) = canon_list xs"
  "canon_items (canon_items d) = canon_items d"
proof (induction v and xs and d rule: canon_canon_list_canon_items.induct)
  case (2 d)
  have "sorted (map fst (sort_key fst (canon_items d)))" by simp
  then have "sort_key fst (sort_key fst (canon_items d)) = sort_key fst (canon_items d)"
    by (rule sort_key_id_if_sorted)
  with canon_items_sort_fixed [OF 2] show ?case by simp
qed simp_all

lemma encode_canon: "encode (canon v) = encode v"
  by (simp add: encode_def canon_idem)

lemma wfj_canon_iff_keys: "distinct (map fst d) \<Longrightarrow> map_of (sort_key fst (canon_items d)) k = map_option canon (map_of d k)"
proof -
  assume d: "distinct (map fst d)"
  then have "distinct (map fst (canon_items d))" by (simp add: canon_keys)
  then have "map_of (sort_key fst (canon_items d)) = map_of (canon_items d)"
    by (intro map_of_eqI) (auto simp: distinct_map)
  moreover have "map_of (canon_items d) k = map_option canon (map_of d k)"
    by (induction d) auto
  ultimately show ?thesis by simp
qed

text \<open>Two dictionaries with the same items have the same bytes, in whatever order they were built.\<close>

lemma encode_perm:
  assumes d: "distinct (map fst d)" and d': "distinct (map fst d')" and eq: "set d = set d'"
  shows "encode (JObj d) = encode (JObj d')"
proof -
  let ?c = "\<lambda>d. sort_key fst (canon_items d)"
  have dist: "distinct (map fst (?c e))" if "distinct (map fst e)" for e
  proof -
    have "distinct (map fst (canon_items e))" using that by (simp only: canon_keys)
    then show ?thesis by (simp only: distinct_map set_sort distinct_sort)
  qed
  have seteq: "set (?c d) = set (?c d')"
    using eq by (simp add: canon_items_map)
  have "?c d = ?c d'"
  proof (rule map_sorted_distinct_set_unique [where f = fst])
    show "inj_on fst (set (?c d) \<union> set (?c d'))"
      using dist [OF d] by (simp only: seteq [symmetric] distinct_map Un_absorb)
  qed (simp_all only: dist [OF d] dist [OF d'] seteq sorted_sort_key)
  then show ?thesis by (simp add: encode_def)
qed

subsection \<open>A bound on the encoded size\<close>

fun jsize :: "json \<Rightarrow> nat"
  and jsize_list :: "json list \<Rightarrow> nat"
  and jsize_items :: "(string \<times> json) list \<Rightarrow> nat" where
  "jsize (JInt i) = length (show_int i)"
| "jsize (JFloat m e) = length (show_decimal m e)"
| "jsize (JStr s) = 2 + 6 * length s"
| "jsize (JList xs) = 2 + jsize_list xs"
| "jsize (JObj d) = 2 + jsize_items d"
| "jsize v = 5"
| "jsize_list [] = 0"
| "jsize_list (x # xs) = 1 + jsize x + jsize_list xs"
| "jsize_items [] = 0"
| "jsize_items ((k, v) # d) = 4 + 6 * length k + jsize v + jsize_items d"

lemma length_esc_char: "length (esc_char c) \<le> 6"
  by (simp add: esc_char_def)

lemma length_dumps_str: "length (dumps_str s) \<le> 2 + 6 * length s"
proof -
  have "length (concat (map esc_char s)) \<le> 6 * length s"
    by (induction s) (auto intro: add_le_mono [OF length_esc_char, THEN order_trans])
  then show ?thesis by (simp add: dumps_str_def)
qed

lemma length_dumps:
  "length (dumps v) \<le> jsize v"
  "length (dumps_list xs) \<le> jsize_list xs"
  "length (dumps_items d) \<le> jsize_items d"
proof (induction v and xs and d rule: dumps_dumps_list_dumps_items.induct)
  case (11 k v d)
  then show ?case using length_dumps_str [of k] by (cases "d = []") auto
qed (use length_dumps_str in auto)

lemma jsize_items_sum: "jsize_items d = sum_list (map (\<lambda>(k, v). 4 + 6 * length k + jsize v) d)"
  by (induction d) auto

lemma jsize_items_insort: "jsize_items (insort_key f x d) = jsize_items (x # d)"
  by (induction d) (auto simp: jsize_items_sum)

lemma jsize_items_sort: "jsize_items (sort_key f d) = jsize_items d"
proof (induction d)
  case (Cons x d)
  then show ?case by (cases x) (simp add: jsize_items_insort)
qed simp

lemma jsize_canon:
  "jsize (canon v) = jsize v"
  "jsize_list (canon_list xs) = jsize_list xs"
  "jsize_items (canon_items d) = jsize_items d"
  by (induction v and xs and d rule: canon_canon_list_canon_items.induct) (simp_all add: jsize_items_sort)

lemma length_encode: "length (encode v) \<le> jsize v"
  using length_dumps(1) [of "canon v"] by (simp add: encode_def jsize_canon)

lemma length_encode_le: "jsize v \<le> n \<Longrightarrow> length (encode v) \<le> n"
  using length_encode le_trans by blast

lemmas jsize_eval = show_int_def show_nat.simps digit_char_def

end
