(* ===== verification/Sha256.thy ===== *)
theory Sha256
  imports Kernel_Prelude "HOL-Library.Word"
begin

section \<open>SHA-256\<close>

text \<open>
  \<open>hashlib.sha256 (data).hexdigest ()\<close>, the content address of every artifact, child Task and
  effect of the kernel (FIPS 180-4, on 32-bit words with wrap-around addition).

  Proofs about the kernel treat the digest as a function into 64 hexadecimal characters, the law
  \<open>digest_fun\<close> names; none assumes that it is injective. Where the kernel relies on collision
  resistance, the theorem says so: the data are equal or the two are a collision.
\<close>

unbundle bit_operations_syntax

subsection \<open>Words and constants\<close>

type_synonym w32 = "32 word"

text \<open>
  The constants are the first 32 bits of the fractional parts of the cube roots of the first 64
  primes, and of the square roots of the first eight; the roots are computed bit by bit.
\<close>

fun root_bits :: "nat \<Rightarrow> nat \<Rightarrow> int \<Rightarrow> int \<Rightarrow> int" where
  "root_bits e 0 n r = r"
| "root_bits e (Suc i) n r = root_bits e i n (if (r + 2 ^ i) ^ e \<le> n then r + 2 ^ i else r)"

fun first_primes :: "nat \<Rightarrow> nat \<Rightarrow> int list \<Rightarrow> int list" where
  "first_primes 0 k ps = ps"
| "first_primes (Suc i) k ps =
     first_primes i (k + 1) (if list_ex (\<lambda>p. int k mod p = 0) ps then ps else ps @ [int k])"

definition sha_primes :: "int list" where
  "sha_primes = first_primes 310 2 []"

definition sha_k :: "w32 list" where
  "sha_k = map (\<lambda>p. of_int (root_bits 3 36 (p * 2 ^ 96) 0)) sha_primes"

datatype sha_state = Sha w32 w32 w32 w32 w32 w32 w32 w32

definition sha_init :: sha_state where
  "sha_init = (let h = (\<lambda>p. of_int (root_bits 2 36 (p * 2 ^ 64) 0))
     in Sha (h 2) (h 3) (h 5) (h 7) (h 11) (h 13) (h 17) (h 19))"

definition rotr :: "nat \<Rightarrow> w32 \<Rightarrow> w32" where
  "rotr n x = drop_bit n x OR push_bit (32 - n) x"

definition sha_ch :: "w32 \<Rightarrow> w32 \<Rightarrow> w32 \<Rightarrow> w32" where
  "sha_ch x y z = (x AND y) XOR (NOT x AND z)"

definition sha_maj :: "w32 \<Rightarrow> w32 \<Rightarrow> w32 \<Rightarrow> w32" where
  "sha_maj x y z = (x AND y) XOR (x AND z) XOR (y AND z)"

definition sha_S0 :: "w32 \<Rightarrow> w32" where
  "sha_S0 x = rotr 2 x XOR rotr 13 x XOR rotr 22 x"

definition sha_S1 :: "w32 \<Rightarrow> w32" where
  "sha_S1 x = rotr 6 x XOR rotr 11 x XOR rotr 25 x"

definition sha_s0 :: "w32 \<Rightarrow> w32" where
  "sha_s0 x = rotr 7 x XOR rotr 18 x XOR drop_bit 3 x"

definition sha_s1 :: "w32 \<Rightarrow> w32" where
  "sha_s1 x = rotr 17 x XOR rotr 19 x XOR drop_bit 10 x"

subsection \<open>Padding, schedule and compression\<close>

definition sha_pad :: "int list \<Rightarrow> int list" where
  "sha_pad bs = (let n = length bs; z = (119 - n mod 64) mod 64; l = 8 * int n in
     bs @ [128] @ replicate z 0 @ map (\<lambda>i. (l div 256 ^ i) mod 256) [7, 6, 5, 4, 3, 2, 1, 0])"

fun sha_words :: "int list \<Rightarrow> w32 list" where
  "sha_words (a # b # c # d # r) = of_int (((a * 256 + b) * 256 + c) * 256 + d) # sha_words r"
| "sha_words r = []"

text \<open>The sixteen latest words of the message schedule, newest last.\<close>

fun sha_rounds :: "w32 list \<Rightarrow> w32 list \<Rightarrow> sha_state \<Rightarrow> sha_state" where
  "sha_rounds [] ws s = s"
| "sha_rounds (k # ks) ws (Sha a b c d e f g h) =
     (let w = hd ws;
          t1 = h + sha_S1 e + sha_ch e f g + k + w;
          t2 = sha_S0 a + sha_maj a b c;
          w' = sha_s1 (ws ! 14) + ws ! 9 + sha_s0 (ws ! 1) + w
      in sha_rounds ks (tl ws @ [w']) (Sha (t1 + t2) a b c (d + t1) e f g))"

fun sha_add :: "sha_state \<Rightarrow> sha_state \<Rightarrow> sha_state" where
  "sha_add (Sha a b c d e f g h) (Sha a' b' c' d' e' f' g' h') =
     Sha (a + a') (b + b') (c + c') (d + d') (e + e') (f + f') (g + g') (h + h')"

fun sha_blocks :: "nat \<Rightarrow> w32 list \<Rightarrow> sha_state \<Rightarrow> sha_state" where
  "sha_blocks 0 ws s = s"
| "sha_blocks (Suc n) ws s = sha_blocks n (drop 16 ws) (sha_add s (sha_rounds sha_k (take 16 ws) s))"

fun hex_word :: "nat \<Rightarrow> int \<Rightarrow> string" where
  "hex_word 0 n = []"
| "hex_word (Suc k) n = hex_word k (n div 16) @ [hex_digit (nat (n mod 16))]"

fun sha_hex :: "sha_state \<Rightarrow> string" where
  "sha_hex (Sha a b c d e f g h) = concat (map (\<lambda>w. hex_word 8 (uint w)) [a, b, c, d, e, f, g, h])"

definition sha256_hex :: "string \<Rightarrow> string" where
  "sha256_hex bs = (let p = sha_pad (map of_char bs)
     in sha_hex (sha_blocks (length p div 64) (sha_words p) sha_init))"

subsection \<open>The law the kernel relies on\<close>

locale digest_fun =
  fixes hexdigest :: "string \<Rightarrow> string"
  assumes hexdigest_hex64: "is_hex64 (hexdigest bs)"
begin

lemma digest_length: "length (hexdigest bs) = 64"
  using hexdigest_hex64 by (simp add: is_hex64_def)

lemma address_is_ref: "is_ident t \<Longrightarrow> is_ref (mk_ref t (hexdigest bs))"
  using hexdigest_hex64 is_ref_iff by blast

lemma address_match: "is_ident t \<Longrightarrow> match_ref (mk_ref t (hexdigest bs)) = Some (t, hexdigest bs)"
  by (simp add: match_ref_mk_ref hexdigest_hex64)

lemma address_eqD:
  "is_ident t \<Longrightarrow> is_ident t' \<Longrightarrow> mk_ref t (hexdigest bs) = mk_ref t' (hexdigest bs') \<Longrightarrow>
     t = t' \<and> hexdigest bs = hexdigest bs'"
  by (simp add: mk_ref_inject hexdigest_hex64)

lemma prefixed_is_digest: "is_digest (''sha256:'' @ hexdigest bs)"
  by (simp add: is_digest_def hexdigest_hex64)

end

lemma hex_word_length: "length (hex_word k n) = k"
  by (induction k arbitrary: n) auto

lemma hex_char_hex_digit: "d < 16 \<Longrightarrow> hex_char (hex_digit d)"
  by (auto simp: hex_char_def hex_digit_def Let_def)

lemma hex_word_chars: "list_all hex_char (hex_word k n)"
  by (induction k arbitrary: n) (simp_all add: hex_char_hex_digit nat_less_iff)

lemma sha256_hex64: "is_hex64 (sha256_hex bs)"
proof -
  obtain a b c d e f g h where
    "sha_blocks (length (sha_pad (map of_char bs)) div 64) (sha_words (sha_pad (map of_char bs))) sha_init
       = Sha a b c d e f g h" by (cases "sha_blocks (length (sha_pad (map of_char bs)) div 64)
           (sha_words (sha_pad (map of_char bs))) sha_init") blast
  then show ?thesis
    by (simp add: sha256_hex_def Let_def is_hex64_def hex_word_length hex_word_chars del: hex_word.simps)
qed

interpretation sha: digest_fun sha256_hex
  by unfold_locales (rule sha256_hex64)

end
