(* ===== verification/Contracts.thy ===== *)
theory Contracts
  imports Json_Codec Sha256
begin

section \<open>The contract primitives of the kernel\<close>

text \<open>
  The first part of runtime/kernel/contracts.py: the size limits, the versioned message envelope,
  the field, text and identifier validators every other contract is written with, and the
  deterministic identity of a child Task.

  A validator returns the value it accepted or the \<open>ValueError\<close> it raises. The lemmas
  characterise acceptance exactly, so that a component proof can rewrite "the validator returned"
  into the facts it established; the locale \<open>codec\<close> is the contract between these envelopes and the
  byte encoding.
\<close>

definition MAX_TURNS :: nat where "MAX_TURNS = 16"
definition MAX_CONTENT :: nat where "MAX_CONTENT = 4096"
definition MAX_PACKET :: nat where "MAX_PACKET = 16384"
definition MAX_RESULT :: nat where "MAX_RESULT = 8192"
definition MAX_CHILDREN :: nat where "MAX_CHILDREN = 4"

definition SPECIALISTS :: "(string \<times> string) list" where
  "SPECIALISTS =
     [(''coordinator'', ''Coordinate the accepted objective using permitted actions.''),
      (''specialist'', ''Produce the required exact artifact and request verification.'')]"

definition CAPABILITIES :: "string list" where
  "CAPABILITIES = [''artifact.write'', ''artifact.read'', ''fixture.effect'', ''human.request'',
     ''youtrack.read'', ''worker.run'', ''workspace.read'', ''text.stats'', ''context.request'',
     ''workspace.write'', ''workspace.exec'']"

definition message :: "string \<Rightarrow> json \<Rightarrow> json" where
  "message kind payload =
     JObj [(''version'', JInt 1), (''kind'', JStr kind), (''payload'', payload)]"

definition py_fields :: "json \<Rightarrow> string list \<Rightarrow> string list \<Rightarrow> json res" where
  "py_fields v required optional =
     (if \<not> is_dict v \<or> \<not> set required \<subseteq> set (jkeys v)
         \<or> (\<exists>k\<in>set (jkeys v). k \<notin> set required \<and> k \<notin> set optional)
      then Inl (ValueError ''Invalid object fields'') else Inr v)"

definition py_text :: "json \<Rightarrow> nat \<Rightarrow> json res" where
  "py_text v limit =
     (if \<not> is_str v \<or> py_blank (jstr v) \<or> limit < length (jstr v)
      then Inl (ValueError ''Expected bounded nonblank text'') else Inr v)"

definition py_identifier :: "json \<Rightarrow> json res" where
  "py_identifier v =
     (if \<not> is_str v \<or> \<not> is_ident (jstr v) then Inl (ValueError ''Invalid identifier'') else Inr v)"

definition child_slot :: "json \<Rightarrow> json list res" where
  "child_slot slot =
     (if slot = JNull then Inr []
      else if \<not> is_int slot \<or> \<not> (0 \<le> jint slot \<and> jint slot < int MAX_CHILDREN)
      then Inl (ValueError ''Invalid child slot'') else Inr [slot])"

definition child_task_id :: "json \<Rightarrow> json \<Rightarrow> json \<Rightarrow> string res" where
  "child_task_id parent_id decision_id slot =
     bindR (py_identifier parent_id) (\<lambda>p.
     bindR (py_text decision_id 100) (\<lambda>d.
     bindR (child_slot slot) (\<lambda>s.
     Inr (''child-'' @ sha256_hex (encode (JList ([p, d] @ s)))))))"

definition unpack :: "json \<Rightarrow> string \<Rightarrow> json res" where
  "unpack v kind =
     bindR (py_fields v [''version'', ''kind'', ''payload''] []) (\<lambda>obj.
     seqR (checks
       [raise_if (\<not> is_int (dget obj ''version'') \<or> jint (dget obj ''version'') \<noteq> 1
            \<or> dget obj ''kind'' \<noteq> JStr kind)
          (ValueError ''Unsupported contract version or kind''),
        raise_if (MAX_PACKET < length (encode obj)) (ValueError ''Contract exceeds size limit''),
        raise_if (\<not> is_dict (dget obj ''payload'')) (ValueError ''Expected object payload'')])
     (Inr (dget obj ''payload'')))"

subsection \<open>What acceptance means\<close>

lemma py_fields_eq_Inr [res_simps]:
  "py_fields v req opt = Inr w \<longleftrightarrow> w = v \<and> is_dict v \<and> set req \<subseteq> set (jkeys v)
     \<and> set (jkeys v) \<subseteq> set req \<union> set opt"
  by (auto simp: py_fields_def)

lemma py_fields_exact [res_simps]:
  "py_fields v req [] = Inr w \<longleftrightarrow> w = v \<and> is_dict v \<and> set (jkeys v) = set req"
  by (auto simp: py_fields_def)

lemma py_fields_key: "py_fields v req opt = Inr w \<Longrightarrow> k \<in> set req \<Longrightarrow> has_key v k"
  by (auto simp: py_fields_eq_Inr has_key_iff)

lemma py_text_eq_Inr [res_simps]:
  "py_text v n = Inr w \<longleftrightarrow> w = v \<and> is_str v \<and> \<not> py_blank (jstr v) \<and> length (jstr v) \<le> n"
  by (auto simp: py_text_def)

lemma py_identifier_eq_Inr [res_simps]:
  "py_identifier v = Inr w \<longleftrightarrow> w = v \<and> is_str v \<and> is_ident (jstr v)"
  by (auto simp: py_identifier_def)

lemma child_slot_eq_Inr [res_simps]:
  "child_slot s = Inr l \<longleftrightarrow> s = JNull \<and> l = [] \<or> (\<exists>i. s = JInt i \<and> 0 \<le> i \<and> i < 4 \<and> l = [s])"
  by (cases s) (auto simp: child_slot_def MAX_CHILDREN_def)

lemma unpack_eq_Inr [res_simps]:
  "unpack v kind = Inr p \<longleftrightarrow>
     py_fields v [''version'', ''kind'', ''payload''] [] = Inr v
     \<and> dget v ''version'' = JInt 1 \<and> dget v ''kind'' = JStr kind
     \<and> length (encode v) \<le> MAX_PACKET \<and> dget v ''payload'' = p \<and> is_dict p"
proof (cases "py_fields v [''version'', ''kind'', ''payload''] []")
  case (Inl e)
  then show ?thesis by (simp add: unpack_def)
next
  case (Inr w)
  then have "w = v" by (simp only: py_fields_exact)
  with Inr show ?thesis by (auto simp: unpack_def bindR_eq_Inr raise_if_def is_int_iff split: if_splits)
qed

lemma message_access [simp]:
  "is_dict (message k p)" "dget (message k p) ''version'' = JInt 1"
  "dget (message k p) ''kind'' = JStr k" "dget (message k p) ''payload'' = p"
  "jkeys (message k p) = [''version'', ''kind'', ''payload'']"
  by (simp_all add: message_def dget_def jkeys_def)

lemma unpack_message:
  "unpack (message k p) k' = Inr q \<longleftrightarrow>
     k' = k \<and> q = p \<and> is_dict p \<and> length (encode (message k p)) \<le> MAX_PACKET"
  by (auto simp: unpack_eq_Inr py_fields_exact)

lemma validators_value_error:
  "py_fields v req opt = Inl e \<Longrightarrow> is_value_error e"
  "py_text v n = Inl e \<Longrightarrow> is_value_error e"
  "py_identifier v = Inl e \<Longrightarrow> is_value_error e"
  by (simp_all add: py_fields_def py_text_def py_identifier_def split: if_splits)
    (drule sym, simp)+

lemma unpack_value_error: "unpack v kind = Inl e \<Longrightarrow> is_value_error e"
  by (cases "py_fields v [''version'', ''kind'', ''payload''] []")
    (auto simp: unpack_def raise_if_def dest: validators_value_error split: if_splits)

lemma wfj_message: "wfj (message k p) \<longleftrightarrow> utf8_str k \<and> wfj p"
  by (simp add: message_def utf8_str_ascii)

subsection \<open>The byte encoding as an interface\<close>

text \<open>
  What the content-addressed components use of \<open>encode\<close> and \<open>json.loads\<close>: parsing gives back the
  canonical form of a representable document, and the canonical form prints to the same bytes.
\<close>

locale codec =
  fixes enc :: "json \<Rightarrow> string" and dec :: "string \<Rightarrow> json res" and norm :: "json \<Rightarrow> json"
    and ok :: "json \<Rightarrow> bool"
  assumes dec_enc: "ok v \<Longrightarrow> dec (enc v) = Inr (norm v)"
    and enc_norm: "enc (norm v) = enc v"
    and ok_norm: "ok v \<Longrightarrow> ok (norm v)"
begin

lemma enc_eqD: "ok v \<Longrightarrow> ok w \<Longrightarrow> enc v = enc w \<Longrightarrow> norm v = norm w"
  by (metis dec_enc sum.inject(2))

lemma reencode: "ok v \<Longrightarrow> dec (enc v) = Inr w \<Longrightarrow> enc w = enc v"
  by (simp add: dec_enc) (metis enc_norm)

lemma enc_eq_iff: "ok v \<Longrightarrow> ok w \<Longrightarrow> enc v = enc w \<longleftrightarrow> norm v = norm w"
  using enc_eqD enc_norm by metis

end

interpretation json_codec: codec encode json_loads canon wfj
  by unfold_locales (simp_all add: loads_encode encode_canon wfj_canon)

subsection \<open>Child identity\<close>

definition child_parts :: "json \<Rightarrow> json \<Rightarrow> json \<Rightarrow> json" where
  "child_parts p d s = JList ([p, d] @ (if s = JNull then [] else [s]))"

lemma child_task_id_eq_Inr [res_simps]:
  "child_task_id p d s = Inr c \<longleftrightarrow>
     py_identifier p = Inr p \<and> py_text d 100 = Inr d \<and> is_ok (child_slot s)
     \<and> c = ''child-'' @ sha256_hex (encode (child_parts p d s))"
  unfolding child_task_id_def bindR_eq_Inr child_parts_def is_ok_iff
  by (auto simp: py_identifier_eq_Inr py_text_eq_Inr child_slot_eq_Inr)

lemma child_parts_canon:
  assumes "child_task_id p d s = Inr c" "child_task_id p' d' s' = Inr c'"
    and "canon (child_parts p d s) = canon (child_parts p' d' s')"
  shows "p = p' \<and> d = d' \<and> s = s'"
  using assms unfolding child_task_id_eq_Inr
  by (auto simp: child_slot_eq_Inr is_ok_iff is_str_iff child_parts_def py_identifier_eq_Inr
      py_text_eq_Inr split: if_splits)

lemma wfj_child_parts:
  assumes "child_task_id p d s = Inr c" "utf8_str (jstr d)"
  shows "wfj (child_parts p d s)"
proof -
  have "utf8_str (jstr p)"
    using assms(1) by (intro utf8_str_ascii)
      (auto simp: child_task_id_eq_Inr py_identifier_eq_Inr is_ident_def list_all_iff ident_char_def Let_def)
  with assms show ?thesis
    by (auto simp: child_task_id_eq_Inr is_str_iff child_slot_eq_Inr child_parts_def is_ok_iff
        py_identifier_eq_Inr py_text_eq_Inr)
qed

lemma is_ident_prefix_hex:
  assumes "is_hex64 h" "is_ident q" "length q \<le> 16"
  shows "is_ident (q @ h)"
proof -
  have "ident_char c" if "hex_char c" for c
    using that by (auto simp: hex_char_def ident_char_def Let_def)
  with assms show ?thesis by (auto simp: is_ident_def is_hex64_def list_all_iff)
qed

text \<open>
  A child Task id is itself an admissible identifier: whatever parent, decision and slot
  \<open>child_task_id\<close> accepts, the id it returns passes \<open>identifier\<close>, so it can own artifacts and have
  children of its own.
\<close>

lemma child_task_id_identifier:
  assumes "child_task_id p d s = Inr c"
  shows "py_identifier (JStr c) = Inr (JStr c)"
proof -
  have "is_ident ''child-''" by (simp add: is_ident_def ident_char_def)
  then have "is_ident (''child-'' @ sha256_hex (encode (child_parts p d s)))"
    by (intro is_ident_prefix_hex sha.hexdigest_hex64) simp_all
  with assms show ?thesis unfolding child_task_id_eq_Inr py_identifier_eq_Inr by auto
qed

lemma child_task_id_identifier_witness:
  "child_task_id (JStr ''task-1'') (JStr ''task-1/3'') (JInt 2)
     = Inr (''child-'' @ sha256_hex (encode (child_parts (JStr ''task-1'') (JStr ''task-1/3'') (JInt 2))))
   \<and> is_ok (py_identifier (JStr (''child-'' @
        sha256_hex (encode (child_parts (JStr ''task-1'') (JStr ''task-1/3'') (JInt 2))))))"
proof -
  have ok: "child_task_id (JStr ''task-1'') (JStr ''task-1/3'') (JInt 2)
     = Inr (''child-'' @ sha256_hex (encode (child_parts (JStr ''task-1'') (JStr ''task-1/3'') (JInt 2))))"
    by (simp add: child_task_id_eq_Inr py_identifier_eq_Inr py_text_eq_Inr is_ok_iff child_slot_eq_Inr
        is_ident_def ident_char_def)
  from child_task_id_identifier [OF ok] ok show ?thesis by simp
qed

text \<open>
  Child identity is injective up to SHA-256: two accepted relationships with the same child id
  are the same parent, decision and slot, or their encodings are two different byte strings with
  one SHA-256 digest.
\<close>

lemma child_task_id_injective:
  assumes "child_task_id p d s = Inr c" and "child_task_id p' d' s' = Inr c"
    and "utf8_str (jstr d)" and "utf8_str (jstr d')"
  shows "p = p' \<and> d = d' \<and> s = s' \<or>
    (let x = encode (child_parts p d s); y = encode (child_parts p' d' s')
     in x \<noteq> y \<and> sha256_hex x = sha256_hex y)"
proof (cases "encode (child_parts p d s) = encode (child_parts p' d' s')")
  case True
  then have "canon (child_parts p d s) = canon (child_parts p' d' s')"
    by (rule json_codec.enc_eqD [rotated 2]) (use assms in \<open>auto intro: wfj_child_parts\<close>)
  with assms show ?thesis using child_parts_canon by blast
next
  case False
  with assms show ?thesis by (auto simp: child_task_id_eq_Inr)
qed

lemma child_task_id_injective_witness:
  "\<exists>c. child_task_id (JStr ''a'') (JStr ''a/1'') JNull = Inr c
     \<and> child_task_id (JStr ''a'') (JStr ''a/1'') JNull = Inr c \<and> utf8_str ''a/1''"
proof -
  have ok: "child_task_id (JStr ''a'') (JStr ''a/1'') JNull
     = Inr (''child-'' @ sha256_hex (encode (child_parts (JStr ''a'') (JStr ''a/1'') JNull)))"
    by (simp add: child_task_id_eq_Inr py_identifier_eq_Inr py_text_eq_Inr is_ok_iff child_slot_eq_Inr
        is_ident_def ident_char_def)
  have "utf8_str ''a/1''" by (rule utf8_str_ascii) simp
  with ok child_task_id_injective [OF ok ok] show ?thesis by auto
qed

end
