(* ===== verification/Human.thy ===== *)
theory Human
  imports Contracts
begin

section \<open>Human decisions\<close>

text \<open>
  runtime/kernel/human.py: the bounded question a Task may put to a human, the digest that names
  one exact question, and the acceptance of an answer. An answer is admitted only for the Task,
  the request, the revision and the digest it was given for, and only inside the allowed set.
\<close>

definition validate_request :: "json \<Rightarrow> json res" where
  "validate_request raw =
     bindR (unpack raw ''HumanDecisionRequest'') (\<lambda>p.
     bindR (py_fields p [''task_id'', ''origin_task_id'', ''request_id'', ''revision'', ''question'',
              ''allowed_responses''] []) (\<lambda>request.
     let choices = dget request ''allowed_responses'' in
     seqR (checks
       [forR (\<lambda>name. py_identifier (dget request name)) [''task_id'', ''origin_task_id'', ''request_id''],
        voidR (py_text (dget request ''request_id'') 64),
        raise_if (\<not> is_int (dget request ''revision'') \<or> jint (dget request ''revision'') < 0)
          (ValueError ''Invalid human request revision''),
        voidR (py_text (dget request ''question'') 512),
        raise_if (\<not> is_list choices \<or> \<not> (1 \<le> length (jlist choices) \<and> length (jlist choices) \<le> 8))
          (ValueError ''Expected bounded response set''),
        forR (\<lambda>choice. py_text choice 80) (jlist choices),
        raise_if (\<not> py_distinct (jlist choices)) (ValueError ''Duplicate allowed response'')])
     (Inr request)))"

definition request_digest :: "json \<Rightarrow> string res" where
  "request_digest raw = seqR (validate_request raw) (Inr (sha256_hex (encode raw)))"

definition validate_response :: "json \<Rightarrow> json \<Rightarrow> string \<Rightarrow> json res" where
  "validate_response raw accepted_request task_id =
     bindR (validate_request accepted_request) (\<lambda>request.
     bindR (unpack raw ''HumanDecisionResponse'') (\<lambda>p.
     bindR (py_fields p [''task_id'', ''request_id'', ''request_revision'', ''request_digest'',
              ''response_id'', ''value''] []) (\<lambda>response.
     seqR (py_identifier (dget response ''response_id''))
     (bindR (request_digest accepted_request) (\<lambda>digest.
     seqR (checks
       [raise_if (dget request ''task_id'' \<noteq> JStr task_id \<or> dget response ''task_id'' \<noteq> JStr task_id
            \<or> dget response ''request_id'' \<noteq> dget request ''request_id''
            \<or> \<not> is_int (dget response ''request_revision'')
            \<or> dget response ''request_revision'' \<noteq> dget request ''revision''
            \<or> dget response ''request_digest'' \<noteq> JStr digest)
          (ValueError ''Response does not match accepted Task/request revision and digest''),
        raise_if (\<not> is_str (dget response ''value'')
            \<or> \<not> py_mem (dget response ''value'') (lget request ''allowed_responses''))
          (ValueError ''Response is outside the allowed set'')])
     (Inr response))))))"

text \<open>\<open>c['evidence'].get ('verifier') == 'human_response'\<close>, the test the kernel writes throughout.\<close>

definition is_human :: "json \<Rightarrow> bool" where
  "is_human evidence \<longleftrightarrow> dget evidence ''verifier'' = JStr ''human_response''"

definition human_request_id :: "json \<Rightarrow> json" where
  "human_request_id evidence = dget (dget (dget evidence ''request'') ''payload'') ''request_id''"

definition human_requirement :: "json \<Rightarrow> json \<Rightarrow> json res" where
  "human_requirement spec request_id =
     (case filter (\<lambda>ev. is_human ev \<and> py_eq (human_request_id ev) request_id)
             (map (\<lambda>c. dget c ''evidence'') (lget spec ''completion'')) of
        [m] \<Rightarrow> Inr m
      | _ \<Rightarrow> Inl (ValueError ''Expected one accepted human request''))"

subsection \<open>Acceptance\<close>

lemma validate_request_Inr:
  assumes "validate_request raw = Inr r"
  shows "unpack raw ''HumanDecisionRequest'' = Inr r"
    and "\<forall>n\<in>{''task_id'', ''origin_task_id'', ''request_id''}. py_identifier (dget r n) = Inr (dget r n)"
    and "\<exists>i. dget r ''revision'' = JInt i \<and> 0 \<le> i"
    and "is_str (dget r ''question'')"
    and "\<exists>ss. dget r ''allowed_responses'' = JList (map JStr ss) \<and> distinct ss \<and> 1 \<le> length ss
           \<and> length ss \<le> 8 \<and> (\<forall>s\<in>set ss. \<not> py_blank s \<and> length s \<le> 80)"
proof -
  from assms obtain p where p: "unpack raw ''HumanDecisionRequest'' = Inr p" "r = p"
    and c: "forR (\<lambda>name. py_identifier (dget r name)) [''task_id'', ''origin_task_id'', ''request_id''] = Inr ()"
      "\<exists>x. py_text (dget r ''question'') 512 = Inr x"
      "\<not> (\<not> is_int (dget r ''revision'') \<or> jint (dget r ''revision'') < 0)"
      "\<not> (\<not> is_list (dget r ''allowed_responses'') \<or> \<not> (1 \<le> length (lget r ''allowed_responses'')
          \<and> length (lget r ''allowed_responses'') \<le> 8))"
      "forR (\<lambda>choice. py_text choice 80) (lget r ''allowed_responses'') = Inr ()"
      "py_distinct (lget r ''allowed_responses'')"
    unfolding validate_request_def bindR_eq_Inr py_fields_exact Let_def checks_eq_Inr by auto
  show "unpack raw ''HumanDecisionRequest'' = Inr r" using p by simp
  show "\<forall>n\<in>{''task_id'', ''origin_task_id'', ''request_id''}. py_identifier (dget r n) = Inr (dget r n)"
    using c(1) unfolding forR_eq_Inr by (auto simp: py_identifier_eq_Inr)
  show "\<exists>i. dget r ''revision'' = JInt i \<and> 0 \<le> i" using c(3) by (auto simp: is_int_iff)
  show "is_str (dget r ''question'')" using c(2) by (auto simp: py_text_eq_Inr)
  have strs: "\<forall>v\<in>set (lget r ''allowed_responses''). is_str v \<and> \<not> py_blank (jstr v) \<and> length (jstr v) \<le> 80"
    using c(5) by (auto simp: forR_eq_Inr py_text_eq_Inr)
  then have eq: "map JStr (map jstr (lget r ''allowed_responses'')) = lget r ''allowed_responses''"
    by (simp add: map_idI)
  from c(4) have l: "JList (lget r ''allowed_responses'') = dget r ''allowed_responses''" by simp
  show "\<exists>ss. dget r ''allowed_responses'' = JList (map JStr ss) \<and> distinct ss \<and> 1 \<le> length ss
           \<and> length ss \<le> 8 \<and> (\<forall>s\<in>set ss. \<not> py_blank s \<and> length s \<le> 80)"
  proof (intro exI conjI)
    show "dget r ''allowed_responses'' = JList (map JStr (map jstr (lget r ''allowed_responses'')))"
      using eq l by simp
    show "distinct (map jstr (lget r ''allowed_responses''))"
      using c(6) eq py_distinct_strs by metis
  qed (use strs c(4) in auto)
qed

lemma validate_response_Inr:
  assumes "validate_response raw acc task_id = Inr r"
  obtains req where "validate_request acc = Inr req"
    and "unpack raw ''HumanDecisionResponse'' = Inr r"
    and "dget req ''task_id'' = JStr task_id" and "dget r ''task_id'' = JStr task_id"
    and "dget r ''request_id'' = dget req ''request_id''"
    and "dget r ''request_revision'' = dget req ''revision''"
    and "dget r ''request_digest'' = JStr (sha256_hex (encode acc))"
    and "is_str (dget r ''value'')" and "py_mem (dget r ''value'') (lget req ''allowed_responses'')"
  using assms unfolding validate_response_def request_digest_def bindR_eq_Inr py_fields_exact checks_eq_Inr
  by auto

text \<open>
  A well-formed human request, said without the validator: the versioned envelope within the packet
  limit, exactly the six fields, three identifiers, a revision that is not negative, a question of
  at most 512 characters and one to eight distinct non-blank answers of at most 80.
\<close>

definition exact_fields :: "json \<Rightarrow> string list \<Rightarrow> bool" where
  "exact_fields v names \<longleftrightarrow> is_dict v \<and> set (jkeys v) = set names"

definition bounded_text :: "json \<Rightarrow> nat \<Rightarrow> bool" where
  "bounded_text v limit \<longleftrightarrow> is_str v \<and> \<not> py_blank (jstr v) \<and> length (jstr v) \<le> limit"

definition ident_text :: "json \<Rightarrow> bool" where
  "ident_text v \<longleftrightarrow> is_str v \<and> is_ident (jstr v)"

definition wf_request :: "json \<Rightarrow> bool" where
  "wf_request raw \<longleftrightarrow>
     (let r = dget raw ''payload''; choices = dget r ''allowed_responses'' in
      exact_fields raw [''version'', ''kind'', ''payload''] \<and> dget raw ''version'' = JInt 1
      \<and> dget raw ''kind'' = JStr ''HumanDecisionRequest'' \<and> length (encode raw) \<le> MAX_PACKET
      \<and> exact_fields r [''task_id'', ''origin_task_id'', ''request_id'', ''revision'', ''question'', ''allowed_responses'']
      \<and> ident_text (dget r ''task_id'') \<and> ident_text (dget r ''origin_task_id'')
      \<and> ident_text (dget r ''request_id'') \<and> bounded_text (dget r ''request_id'') 64
      \<and> is_int (dget r ''revision'') \<and> 0 \<le> jint (dget r ''revision'')
      \<and> bounded_text (dget r ''question'') 512
      \<and> is_list choices \<and> 1 \<le> length (jlist choices) \<and> length (jlist choices) \<le> 8
      \<and> list_all (\<lambda>c. bounded_text c 80) (jlist choices) \<and> py_distinct (jlist choices))"

lemma exact_fields_iff: "py_fields v names [] = Inr w \<longleftrightarrow> w = v \<and> exact_fields v names"
  by (simp add: py_fields_exact exact_fields_def)

lemma bounded_text_iff: "py_text v n = Inr w \<longleftrightarrow> w = v \<and> bounded_text v n"
  by (simp add: py_text_eq_Inr bounded_text_def)

lemma ident_text_iff: "py_identifier v = Inr w \<longleftrightarrow> w = v \<and> ident_text v"
  by (simp add: py_identifier_eq_Inr ident_text_def)

lemma wf_request_iff: "is_ok (validate_request raw) \<longleftrightarrow> wf_request raw"
proof -
  have "is_dict (dget raw ''payload'')" if "exact_fields (dget raw ''payload'') names" for names
    using that by (simp add: exact_fields_def)
  then show ?thesis
    unfolding is_ok_iff validate_request_def bindR_eq_Inr exact_fields_iff Let_def checks_eq_Inr unpack_eq_Inr wf_request_def
    by (auto simp: forR_eq_Inr exact_fields_iff bounded_text_iff ident_text_iff raise_if_eq_Inr bindR_eq_Inr list_all_iff)
qed

text \<open>
  A human answer counts only for the exact question it was given for. When
  \<open>validate_response\<close> accepts, the accepted request belongs to this Task, the answer names that
  Task, request and revision and the SHA-256 of the request's canonical bytes, and its value is one
  of the request's distinct allowed responses.
\<close>

lemma validate_response_bound:
  assumes "validate_response raw acc task_id = Inr r"
  shows "\<exists>req ss v. validate_request acc = Inr req
     \<and> dget req ''allowed_responses'' = JList (map JStr ss) \<and> distinct ss
     \<and> dget req ''task_id'' = JStr task_id \<and> dget r ''task_id'' = JStr task_id
     \<and> dget r ''request_id'' = dget req ''request_id''
     \<and> dget r ''request_revision'' = dget req ''revision''
     \<and> request_digest acc = Inr (sget r ''request_digest'')
     \<and> dget r ''value'' = JStr v \<and> v \<in> set ss"
proof -
  obtain req where req: "validate_request acc = Inr req" and rest:
    "dget req ''task_id'' = JStr task_id" "dget r ''task_id'' = JStr task_id"
    "dget r ''request_id'' = dget req ''request_id''"
    "dget r ''request_revision'' = dget req ''revision''"
    "dget r ''request_digest'' = JStr (sha256_hex (encode acc))"
    "is_str (dget r ''value'')" "py_mem (dget r ''value'') (lget req ''allowed_responses'')"
    using validate_response_Inr [OF assms] by metis
  obtain ss where ss: "dget req ''allowed_responses'' = JList (map JStr ss)" "distinct ss"
    using validate_request_Inr(5) [OF req] by blast
  obtain v where v: "dget r ''value'' = JStr v" using rest(6) by (auto simp: is_str_iff)
  with rest(7) ss have "v \<in> set ss" by (auto simp: py_mem_strs)
  with req rest ss v show ?thesis by (auto simp: request_digest_def)
qed

text \<open>A concrete question and its answer.\<close>

definition example_request_body :: json where
  "example_request_body =
     JObj [(''task_id'', JStr ''t1''), (''origin_task_id'', JStr ''t1''), (''request_id'', JStr ''q1''),
           (''revision'', JInt 0), (''question'', JStr ''Deploy?''),
           (''allowed_responses'', JList [JStr ''yes'', JStr ''no''])]"

abbreviation example_request :: json where
  "example_request \<equiv> message ''HumanDecisionRequest'' example_request_body"

definition example_response_body :: "string \<Rightarrow> json" where
  "example_response_body digest =
     JObj [(''task_id'', JStr ''t1''), (''request_id'', JStr ''q1''), (''request_revision'', JInt 0),
           (''request_digest'', JStr digest), (''response_id'', JStr ''r1''), (''value'', JStr ''yes'')]"

abbreviation example_response :: json where
  "example_response \<equiv>
     message ''HumanDecisionResponse'' (example_response_body (sha256_hex (encode example_request)))"

lemma example_request_valid: "validate_request example_request = Inr example_request_body"
proof -
  have "length (encode example_request) \<le> MAX_PACKET"
    by (rule length_encode_le) (simp add: example_request_body_def message_def MAX_PACKET_def jsize_eval)
  then have "unpack example_request ''HumanDecisionRequest'' = Inr example_request_body"
    by (simp add: unpack_message) (simp add: example_request_body_def)
  then show ?thesis
    by (simp add: validate_request_def)
      (simp add: example_request_body_def py_fields_def py_defs py_identifier_def py_text_def
        is_ident_def ident_char_def)
qed

lemma example_response_valid:
  "validate_response example_response example_request ''t1''
     = Inr (example_response_body (sha256_hex (encode example_request)))"
proof -
  define h where "h = sha256_hex (encode example_request)"
  have "length h = 64" by (simp add: h_def sha.digest_length)
  then have "length (encode (message ''HumanDecisionResponse'' (example_response_body h))) \<le> MAX_PACKET"
    by (intro length_encode_le) (simp add: example_response_body_def message_def MAX_PACKET_def jsize_eval)
  then have u: "unpack (message ''HumanDecisionResponse'' (example_response_body h)) ''HumanDecisionResponse''
      = Inr (example_response_body h)"
    by (simp add: unpack_message) (simp add: example_response_body_def)
  show ?thesis
    unfolding validate_response_def request_digest_def example_request_valid h_def [symmetric] bindR_Inr u
    by (simp add: example_request_body_def example_response_body_def py_fields_def py_defs py_identifier_def
        is_ident_def ident_char_def py_mem_def)
qed

lemma validate_response_bound_witness:
  "\<exists>req ss v. validate_request example_request = Inr req
     \<and> dget req ''allowed_responses'' = JList (map JStr ss) \<and> distinct ss
     \<and> dget (example_response_body (sha256_hex (encode example_request))) ''value'' = JStr v \<and> v \<in> set ss"
  using validate_response_bound [OF example_response_valid] by blast

end
