(* ===== verification/Routing.thy ===== *)
theory Routing
  imports Contracts
begin

section \<open>Execution grants and local-first routing\<close>

text \<open>
  runtime/kernel/routing.py: the external execution grant and its validation, the intersection
  that gives a Task its effective capabilities, the narrowing of a grant for a child Task, the
  deterministic escalation conditions and the admission decision at the trusted boundary, and the
  routing record.

  Authority is a set of capability names. The lemmas show that every step of the chain
  \<open>grant \<rightarrow> effective capabilities \<rightarrow> child grant \<rightarrow> child's effective capabilities\<close> only narrows.
\<close>

definition LOCAL_TURN_BUDGET :: nat where "LOCAL_TURN_BUDGET = 8"
definition REPETITION_THRESHOLD :: nat where "REPETITION_THRESHOLD = 3"
definition LOCAL_BINDING :: string where "LOCAL_BINDING = ''local''"
definition POLICY :: string where "POLICY = ''local-first-bounded-escalation''"

definition ESCALATION_REASONS :: "string list" where
  "ESCALATION_REASONS = [''local_turn_budget_reached'', ''repeated_verifier_rejection'']"

definition ADMISSIONS :: "string list" where
  "ADMISSIONS = [''admitted'', ''denied_no_grant'', ''denied_not_authorized'', ''denied_binding_unavailable'']"

text \<open>\<open>sorted (xs)\<close> on a list of JSON strings, and \<open>set (xs)\<close> of one.\<close>

definition sorted_strs :: "json \<Rightarrow> json" where
  "sorted_strs v = JList (map JStr (sort (map jstr (jlist v))))"

definition str_set :: "json \<Rightarrow> string set" where
  "str_set v = set (map jstr (jlist v))"

text \<open>\<open>isinstance (xs, list)\<close>, at most sixteen members, all distinct.\<close>

definition bounded_unique :: "json \<Rightarrow> string \<Rightarrow> unit res" where
  "bounded_unique v msg =
     checks [raise_if (\<not> is_list v \<or> 16 < length (jlist v)) (ValueError msg),
             py_hashable_all (jlist v),
             raise_if (\<not> py_distinct (jlist v)) (ValueError msg)]"

definition grant_list :: "json \<Rightarrow> json \<Rightarrow> string \<Rightarrow> json res" where
  "grant_list grant accepted key =
     (if has_key grant key then
        let items = dget grant key in
        seqR (bounded_unique items (''Expected a bounded unique '' @ key @ '' list''))
        (seqR (forR (\<lambda>i. if key \<noteq> ''ask_before'' then py_identifier i else py_text i 64) (jlist items))
        (Inr (dset accepted key (sorted_strs items))))
      else Inr accepted)"

definition validate_grant :: "json \<Rightarrow> json res" where
  "validate_grant v =
     bindR (py_fields v [''capabilities''] [''escalation_binding'', ''workspaces'', ''profiles'', ''ask_before'']) (\<lambda>grant.
     let allowed = dget grant ''capabilities''; binding = dget grant ''escalation_binding'' in
     seqR (bounded_unique allowed ''Expected a bounded unique capability grant'')
     (seqR (forR (\<lambda>c. py_text c 128) (jlist allowed))
     (seqR (if binding \<noteq> JNull then voidR (py_identifier binding) else Inr ())
     (foldR (grant_list grant)
        (JObj [(''capabilities'', sorted_strs allowed), (''escalation_binding'', binding)])
        [''workspaces'', ''profiles'', ''ask_before'']))))"

definition effective_capabilities :: "json \<Rightarrow> json option \<Rightarrow> string set" where
  "effective_capabilities spec grant =
     (let requested = str_set (dget spec ''capabilities'') \<inter> str_set (dget (dget spec ''autonomy'') ''allowed'')
      in case grant of None \<Rightarrow> requested | Some g \<Rightarrow> requested \<inter> str_set (dget g ''capabilities''))"

definition narrow_grant :: "json option \<Rightarrow> json option \<Rightarrow> json option res" where
  "narrow_grant parent requested =
     (case parent of None \<Rightarrow> Inr None
      | Some p \<Rightarrow>
          (case requested of None \<Rightarrow> Inr (Some p)
           | Some r \<Rightarrow>
               let narrowed = sorted_list_of_set (str_set (dget r ''capabilities'') \<inter> str_set (dget p ''capabilities''));
                   binding = dget r ''escalation_binding'' in
               if binding \<noteq> JNull \<and> \<not> py_eq binding (dget p ''escalation_binding'')
               then Inl (ValueError ''Child Task cannot obtain a binding its parent lacks'')
               else Inr (Some (JObj [(''capabilities'', JList (map JStr narrowed)),
                                     (''escalation_binding'', binding)]))))"

definition verifier_shape :: "json \<Rightarrow> (string \<times> string) list \<Rightarrow> json" where
  "verifier_shape evaluation artifacts =
     (let payload = dget evaluation ''payload'';
          v2 = dget evaluation ''version'' = JInt 2;
          key = (if v2 then ''id'' else ''criterion'');
          verdict = (if v2 then ''status'' else ''outcome'')
      in JList [dget payload ''outcome'',
           JList (map (\<lambda>item. JList [dget item key, dget item verdict]) (lget payload ''criteria'')),
           JList (map (\<lambda>(k, v). JList [JStr k, JStr v]) (sort_key fst artifacts))])"

definition verifier_signature :: "json \<Rightarrow> (string \<times> string) list \<Rightarrow> string" where
  "verifier_signature evaluation artifacts = sha256_hex (encode (verifier_shape evaluation artifacts))"

text \<open>\<open>verifier_history[-REPETITION_THRESHOLD:]\<close> is the last three entries.\<close>

definition escalation_condition :: "nat \<Rightarrow> string list \<Rightarrow> string option" where
  "escalation_condition iteration verifier_history =
     (if LOCAL_TURN_BUDGET \<le> iteration then Some ''local_turn_budget_reached''
      else let recent = drop (length verifier_history - REPETITION_THRESHOLD) verifier_history in
        if length recent = REPETITION_THRESHOLD \<and> length (remdups recent) = 1
        then Some ''repeated_verifier_rejection'' else None)"

record admission =
  adm_outcome :: string
  adm_binding :: "string option"

definition admit_escalation :: "json option \<Rightarrow> string option \<Rightarrow> admission" where
  "admit_escalation grant deployed_binding =
     (let outcome =
        (case grant of None \<Rightarrow> ''denied_no_grant''
         | Some g \<Rightarrow>
             if \<not> py_true (dget g ''escalation_binding'') then ''denied_not_authorized''
             else if deployed_binding = None \<or> map_option JStr deployed_binding \<noteq> Some (dget g ''escalation_binding'')
             then ''denied_binding_unavailable'' else ''admitted'')
      in \<lparr>adm_outcome = outcome, adm_binding = (if outcome = ''admitted'' then deployed_binding else None)\<rparr>)"

record routing_record =
  rr_task_id :: string
  rr_outcome :: string
  rr_externally_bounded :: bool
  rr_effective_capabilities :: "string list"
  rr_initial_binding :: string
  rr_final_binding :: string
  rr_local_turns :: int
  rr_total_turns :: int
  rr_escalated :: bool
  rr_escalation_iteration :: "int option"
  rr_escalation_reason :: "string option"
  rr_escalation_admission :: "string option"
  rr_completion_ref :: "string option"
  rr_result_ref :: "string option"
  rr_context_refs :: "string list"
  rr_concerns :: "string list"
  rr_usage :: json

definition jopt :: "('a \<Rightarrow> json) \<Rightarrow> 'a option \<Rightarrow> json" where
  "jopt f x = (case x of None \<Rightarrow> JNull | Some y \<Rightarrow> f y)"

definition routing_payload :: "routing_record \<Rightarrow> json" where
  "routing_payload r = JObj [
     (''version'', JInt 1), (''policy'', JStr POLICY), (''policy_version'', JInt 1),
     (''task_id'', JStr (rr_task_id r)), (''outcome'', JStr (rr_outcome r)),
     (''externally_bounded'', JBool (rr_externally_bounded r)),
     (''effective_capabilities'', JList (map JStr (rr_effective_capabilities r))),
     (''initial_binding'', JStr (rr_initial_binding r)), (''final_binding'', JStr (rr_final_binding r)),
     (''started_local'', JBool (rr_initial_binding r = LOCAL_BINDING)),
     (''local_turns'', JInt (rr_local_turns r)), (''total_turns'', JInt (rr_total_turns r)),
     (''max_turns'', JInt (int MAX_TURNS)), (''local_turn_budget'', JInt (int LOCAL_TURN_BUDGET)),
     (''repetition_threshold'', JInt (int REPETITION_THRESHOLD)),
     (''thresholds_are'', JStr ''initial experimental defaults, revisable from observed evidence''),
     (''escalated'', JBool (rr_escalated r)), (''escalation_iteration'', jopt JInt (rr_escalation_iteration r)),
     (''escalation_reason'', jopt JStr (rr_escalation_reason r)),
     (''escalation_admission'', jopt JStr (rr_escalation_admission r)),
     (''escalation_interpretation'', JStr ''local execution required another tier; cause unclassified''),
     (''completion_ref'', jopt JStr (rr_completion_ref r)), (''result_ref'', jopt JStr (rr_result_ref r)),
     (''context_refs'', JList (map JStr (rr_context_refs r))), (''concerns'', JList (map JStr (rr_concerns r))),
     (''usage'', rr_usage r)]"

subsection \<open>Validated grants\<close>

lemma bounded_unique_Inr [res_simps]:
  "bounded_unique v msg = Inr u \<longleftrightarrow> is_list v \<and> length (jlist v) \<le> 16 \<and> (\<forall>x\<in>set (jlist v). hashable x)
     \<and> py_distinct (jlist v)"
  by (auto simp: bounded_unique_def py_hashable_all_def raise_if_def find_None_iff find_Some_iff
      split: option.splits)

lemma str_set_sorted [simp]: "str_set (sorted_strs v) = str_set v"
  by (simp add: str_set_def sorted_strs_def)

lemma str_set_JList [simp]: "str_set (JList (map JStr xs)) = set xs"
  by (simp add: str_set_def image_image)

lemma finite_str_set [simp]: "finite (str_set v)"
  by (simp add: str_set_def)

lemma grant_list_Inr:
  assumes "grant_list g a k = Inr a'"
  shows "has_key g k \<Longrightarrow> a' = dset a k (sorted_strs (dget g k))" "\<not> has_key g k \<Longrightarrow> a' = a"
  using assms by (auto simp: grant_list_def Let_def bindR_eq_Inr split: if_splits)

lemma grant_list_keeps:
  assumes "grant_list g a k = Inr a'" "n \<noteq> k"
  shows "dget a' n = dget a n"
  using grant_list_Inr [OF assms(1)] assms(2) by (cases "has_key g k") auto

lemma validate_grant_Inr:
  assumes "validate_grant v = Inr g"
  shows "dget g ''capabilities'' = sorted_strs (dget v ''capabilities'')"
    and "dget g ''escalation_binding'' = dget v ''escalation_binding''"
    and "dget v ''escalation_binding'' = JNull \<or> py_identifier (dget v ''escalation_binding'') = Inr (dget v ''escalation_binding'')"
    and "\<forall>c\<in>set (lget v ''capabilities''). py_text c 128 = Inr c"
    and "length (lget v ''capabilities'') \<le> 16"
proof -
  let ?a0 = "JObj [(''capabilities'', sorted_strs (dget v ''capabilities'')),
                   (''escalation_binding'', dget v ''escalation_binding'')]"
  from assms obtain a1 a2 where steps: "grant_list v ?a0 ''workspaces'' = Inr a1"
      "grant_list v a1 ''profiles'' = Inr a2" "grant_list v a2 ''ask_before'' = Inr g"
    and b: "bounded_unique (dget v ''capabilities'') ''Expected a bounded unique capability grant'' = Inr ()"
    and t: "forR (\<lambda>c. py_text c 128) (lget v ''capabilities'') = Inr ()"
    and i: "(if dget v ''escalation_binding'' \<noteq> JNull
             then voidR (py_identifier (dget v ''escalation_binding'')) else Inr ()) = Inr ()"
    by (auto simp: validate_grant_def bindR_eq_Inr py_fields_eq_Inr Let_def split: sum.splits)
  have keep: "dget g n = dget ?a0 n" if "n \<notin> {''workspaces'', ''profiles'', ''ask_before''}" for n
    using that grant_list_keeps [OF steps(1), of n] grant_list_keeps [OF steps(2), of n]
      grant_list_keeps [OF steps(3), of n] by auto
  show "dget g ''capabilities'' = sorted_strs (dget v ''capabilities'')"
    and "dget g ''escalation_binding'' = dget v ''escalation_binding''"
    by (subst keep; simp add: py_defs)+
  show "dget v ''escalation_binding'' = JNull \<or> py_identifier (dget v ''escalation_binding'') = Inr (dget v ''escalation_binding'')"
    using i by (auto simp: py_identifier_eq_Inr split: if_splits)
  show "\<forall>c\<in>set (lget v ''capabilities''). py_text c 128 = Inr c"
    using t by (auto simp: forR_eq_Inr py_text_eq_Inr)
  show "length (lget v ''capabilities'') \<le> 16" using b by (simp add: bounded_unique_Inr)
qed

subsection \<open>Authority only narrows\<close>

lemma JStr_eq_sym: "JStr s = dget v k \<longleftrightarrow> dget v k = JStr s"
  by auto

lemma effective_requested:
  "effective_capabilities spec grant \<subseteq> str_set (dget spec ''capabilities'')"
  "effective_capabilities spec grant \<subseteq> str_set (dget (dget spec ''autonomy'') ''allowed'')"
  by (auto simp: effective_capabilities_def Let_def split: option.splits)

lemma effective_granted: "effective_capabilities spec (Some g) \<subseteq> str_set (dget g ''capabilities'')"
  by (auto simp: effective_capabilities_def Let_def)

lemma narrow_grant_Some:
  assumes "narrow_grant (Some p) r = Inr g"
  obtains c where "g = Some c" and "str_set (dget c ''capabilities'') \<subseteq> str_set (dget p ''capabilities'')"
    and "dget c ''escalation_binding'' = JNull \<or> py_eq (dget c ''escalation_binding'') (dget p ''escalation_binding'')
         \<or> dget c ''escalation_binding'' = dget p ''escalation_binding''"
proof (cases r)
  case None
  with assms have "g = Some p" by (simp add: narrow_grant_def)
  then show ?thesis by (rule that) simp_all
next
  case (Some q)
  let ?c = "JObj [(''capabilities'', JList (map JStr (sorted_list_of_set (str_set (dget q ''capabilities'') \<inter> str_set (dget p ''capabilities''))))),
                  (''escalation_binding'', dget q ''escalation_binding'')]"
  from assms Some have g: "g = Some ?c"
    and b: "dget q ''escalation_binding'' = JNull \<or> py_eq (dget q ''escalation_binding'') (dget p ''escalation_binding'')"
    by (auto simp: narrow_grant_def Let_def split: if_splits)
  from g show ?thesis by (rule that) (use b in \<open>auto simp: py_defs\<close>)
qed

text \<open>
  Delegation never widens authority: whatever grant the parent has and whatever a child's
  specification requests, the effective capabilities of the child under the narrowed grant are
  among those its parent was granted; and the child can escalate only to its parent's binding or
  to none.
\<close>

lemma child_authority_narrows:
  assumes "narrow_grant (Some p) r = Inr g"
  shows "effective_capabilities child_spec g \<subseteq> str_set (dget p ''capabilities'')
     \<and> (\<forall>d b. adm_binding (admit_escalation g d) = Some b \<longrightarrow> dget p ''escalation_binding'' = JStr b)"
proof -
  from assms obtain c where c: "g = Some c" "str_set (dget c ''capabilities'') \<subseteq> str_set (dget p ''capabilities'')"
    and b: "dget c ''escalation_binding'' = JNull \<or> py_eq (dget c ''escalation_binding'') (dget p ''escalation_binding'')
        \<or> dget c ''escalation_binding'' = dget p ''escalation_binding''"
    by (rule narrow_grant_Some)
  have "effective_capabilities child_spec g \<subseteq> str_set (dget p ''capabilities'')"
    using c effective_granted by blast
  moreover have "dget p ''escalation_binding'' = JStr x" if "adm_binding (admit_escalation g d) = Some x" for d x
    using that b unfolding c(1) admit_escalation_def
    by (cases d) (auto simp: Let_def JStr_eq_sym split: if_splits)
  ultimately show ?thesis by blast
qed

lemma child_authority_narrows_witness:
  "\<exists>g. narrow_grant (Some (JObj [(''capabilities'', JList [JStr ''artifact.read'']), (''escalation_binding'', JStr ''remote'')]))
        (Some (JObj [(''capabilities'', JList [JStr ''artifact.read'', JStr ''worker.run'']), (''escalation_binding'', JStr ''remote'')]))
      = Inr g \<and> effective_capabilities (JObj []) g \<subseteq> {''artifact.read''}"
proof -
  let ?p = "JObj [(''capabilities'', JList [JStr ''artifact.read'']), (''escalation_binding'', JStr ''remote'')]"
  let ?r = "JObj [(''capabilities'', JList [JStr ''artifact.read'', JStr ''worker.run'']), (''escalation_binding'', JStr ''remote'')]"
  obtain g where g: "narrow_grant (Some ?p) (Some ?r) = Inr g"
    by (simp add: narrow_grant_def Let_def py_defs)
  from child_authority_narrows [OF g, of "JObj []"] have "effective_capabilities (JObj []) g \<subseteq> {''artifact.read''}"
    by (simp add: py_defs str_set_def)
  with g show ?thesis by blast
qed

text \<open>
  Escalation is admitted exactly when both sides agree: there is a grant, it names a
  non-empty binding, and the deployment provides that very binding. A binding is returned only with
  an admission, and every outcome is one of the four recorded admissions.
\<close>

lemma admit_escalation_iff:
  "(adm_outcome (admit_escalation grant d) = ''admitted'' \<longleftrightarrow>
      (\<exists>g b. grant = Some g \<and> d = Some b \<and> b \<noteq> [] \<and> dget g ''escalation_binding'' = JStr b))
   \<and> (adm_binding (admit_escalation grant d) \<noteq> None \<longleftrightarrow> adm_outcome (admit_escalation grant d) = ''admitted'')
   \<and> adm_outcome (admit_escalation grant d) \<in> set ADMISSIONS"
  by (cases grant; cases d) (auto simp: admit_escalation_def ADMISSIONS_def JStr_eq_sym)

lemma drop_last_three:
  "length xs = n + 3 \<Longrightarrow> drop n xs = [xs ! n, xs ! Suc n, xs ! Suc (Suc n)]"
  by (simp add: list_eq_iff_nth_eq less_Suc_eq numeral_3_eq_3 all_conj_distrib nth_Cons')

text \<open>
  The escalation conditions are exactly the documented ones: a Task escalates from local
  execution when its turn reached the local budget, or when its three latest verifier rejections
  carry one and the same signature; nothing else triggers it, and a Task with fewer than three
  rejections under the budget never escalates.
\<close>

lemma escalation_condition_iff:
  "(escalation_condition it h = Some ''local_turn_budget_reached'' \<longleftrightarrow> LOCAL_TURN_BUDGET \<le> it)
   \<and> (escalation_condition it h = Some ''repeated_verifier_rejection'' \<longleftrightarrow>
        it < LOCAL_TURN_BUDGET \<and> (\<exists>older s. h = older @ [s, s, s]))
   \<and> (escalation_condition it h = None \<longleftrightarrow>
        it < LOCAL_TURN_BUDGET \<and> (\<nexists>older s. h = older @ [s, s, s]))"
proof -
  have rep: "(length (drop (length h - 3) h) = 3 \<and> length (remdups (drop (length h - 3) h)) = 1)
      \<longleftrightarrow> (\<exists>older s. h = older @ [s, s, s])"
  proof
    assume a: "length (drop (length h - 3) h) = 3 \<and> length (remdups (drop (length h - 3) h)) = 1"
    then have l: "length h = (length h - 3) + 3" by (simp, arith)
    obtain a b c where abc: "drop (length h - 3) h = [a, b, c]" using drop_last_three [OF l] by blast
    with a have "a = b" "b = c" by (auto split: if_splits)
    with abc show "\<exists>older s. h = older @ [s, s, s]" by (metis append_take_drop_id)
  qed auto
  show ?thesis
    unfolding escalation_condition_def REPETITION_THRESHOLD_def Let_def rep by (auto simp: not_le)
qed

end
