(* ===== verification/Task_Contracts.thy ===== *)
theory Task_Contracts
  imports Human Routing
begin

section \<open>Task specifications, decisions, results and state\<close>

text \<open>
  The rest of runtime/kernel/contracts.py: the Task state, the validators of a TaskSpec, of a
  cognitive decision and of a Task result, the expansion of a SPAWN_TASK action into bounded child
  specifications, and the acceptance of the trusted request envelope.

  Documents stay JSON values; a validator returns the document it accepted. \<open>task_state\<close> is the
  durable state one Task object keeps: references and counters only.
\<close>

subsection \<open>Task state\<close>

datatype lifecycle = RUNNING | WAITING | COMPLETED | FAILED | CANCELLED

datatype wait =
    WaitInput (wait_id: string) (wait_input_type: string) (wait_revision: int) (wait_promise: string)
      (wait_request_ref: "string option")
  | WaitChild (wait_child: string) (wait_revision: int)
  | WaitChildren (wait_children: "string list") (wait_revision: int)
  | WaitWorkspace (wait_revision: int) (wait_promise: string) (wait_ws_ref: string)

record task_state =
  ts_task_id :: string
  ts_revision :: int
  ts_lifecycle :: lifecycle
  ts_iteration :: int
  ts_active_specialist :: string
  ts_spec_ref :: string
  ts_decision_id :: "string option"
  ts_decision_ref :: "string option"
  ts_context_ref :: "string option"
  ts_observation_ref :: "string option"
  ts_wait :: "wait option"
  ts_artifacts :: "(string \<times> string) list"
  ts_human_responses :: "(string \<times> string) list"
  ts_completion_ref :: "string option"
  ts_result_ref :: "string option"
  ts_remaining_children :: int
  ts_children :: "(string \<times> json) list"
  ts_parent :: "json option"
  ts_invocation_id :: "string option"
  ts_request_digest :: "string option"
  ts_initial_action :: "json option"
  ts_contract_ref :: "string option"
  ts_contract_revision :: "int option"
  ts_authority_ref :: "string option"
  ts_journal_head :: "string option"
  ts_journal_length :: int
  ts_semantic_reviews :: "(string \<times> json) list"
  ts_effects :: "(string \<times> json) list"

record capability_result =
  cr_operation_id :: string
  cr_outcome :: string
  cr_output :: json
  cr_artifacts :: "(string \<times> string) list"
  cr_error :: "string option"

subsection \<open>Task specifications\<close>

definition check_evidence :: "json \<Rightarrow> unit res" where
  "check_evidence ev =
     seqR (if is_dict ev \<and> is_human ev then
             seqR (py_fields ev [''artifact'', ''verifier'', ''request''] [])
               (voidR (validate_request (dget ev ''request'')))
           else
             seqR (py_fields ev [''artifact'', ''sha256''] [])
               (raise_if (\<not> is_str (dget ev ''sha256'') \<or> \<not> is_hex64 (sget ev ''sha256''))
                 (ValueError ''Expected exact SHA-256 completion evidence'')))
     (voidR (py_identifier (dget ev ''artifact'')))"

definition check_criterion :: "json \<Rightarrow> unit res" where
  "check_criterion c =
     seqR (py_fields c [''criterion'', ''evidence''] [])
     (seqR (py_text (dget c ''criterion'') 512) (check_evidence (dget c ''evidence'')))"

definition human_ids :: "json list \<Rightarrow> json list" where
  "human_ids criteria =
     map human_request_id (filter is_human (map (\<lambda>c. dget c ''evidence'') criteria))"

definition check_capability_names :: "json \<Rightarrow> unit res" where
  "check_capability_names names =
     seqR (raise_if (\<not> is_list names \<or> 8 < length (jlist names)) (ValueError ''Expected bounded capability list''))
     (forR (\<lambda>name. seqR (py_text name 80)
        (raise_if (jstr name \<notin> set CAPABILITIES) (ValueError ''Unsupported capability grant/requirement'')))
      (jlist names))"

definition validate_spec_body :: "json \<Rightarrow> json res" where
  "validate_spec_body spec =
     (let criteria = dget spec ''completion'';
          capabilities = dget_or spec ''capabilities'' (JList []) in
      seqR (py_text (dget spec ''objective'') 1024)
      (seqR (raise_if (\<not> is_list criteria \<or> \<not> (1 \<le> length (jlist criteria) \<and> length (jlist criteria) \<le> 8))
              (ValueError ''Expected 1..8 completion criteria''))
      (seqR (forR check_criterion (jlist criteria))
      (seqR (raise_if (\<not> py_distinct (human_ids (jlist criteria))) (ValueError ''Duplicate human request identity''))
      (bindR (py_fields (dget_or spec ''autonomy'' (JObj [(''allowed'', JList [])])) [''allowed''] [''child_tasks'']) (\<lambda>autonomy.
       let child_tasks = dget_or autonomy ''child_tasks'' (JInt 0) in
       seqR (raise_if (\<not> is_int child_tasks \<or> \<not> (0 \<le> jint child_tasks \<and> jint child_tasks \<le> int MAX_CHILDREN))
              (ValueError ''Invalid child Task allocation''))
       (seqR (forR check_capability_names [capabilities, dget autonomy ''allowed''])
       (Inr (dset (dset spec ''capabilities'' capabilities) ''autonomy'' autonomy)))))))))"

definition validate_spec :: "json \<Rightarrow> json res" where
  "validate_spec v =
     bindR (unpack v ''TaskSpec'') (\<lambda>p.
     bindR (py_fields p [''objective'', ''completion''] [''capabilities'', ''autonomy'']) validate_spec_body)"

subsection \<open>Spawning\<close>

definition spawn_specs :: "json \<Rightarrow> (json \<times> json) list res" where
  "spawn_specs action =
     (if has_key action ''task_spec'' then
        seqR (py_fields action [''type'', ''task_spec''] [])
        (bindR (validate_spec (dget action ''task_spec'')) (\<lambda>s. Inr [(JNull, s)]))
      else
        seqR (py_fields action [''type'', ''task_specs'', ''independent''] [])
        (seqR (raise_if (dget action ''independent'' \<noteq> JBool True \<or> \<not> is_list (dget action ''task_specs'')
                  \<or> \<not> (2 \<le> length (lget action ''task_specs'') \<and> length (lget action ''task_specs'') \<le> MAX_CHILDREN))
                (ValueError ''Expected 2..4 explicitly independent children''))
        (mapR (\<lambda>(slot, spec). bindR (validate_spec spec) (\<lambda>s. Inr (JInt (int slot), s)))
           (enumerate 0 (lget action ''task_specs'')))))"

definition child_request :: "string \<Rightarrow> string \<Rightarrow> json \<Rightarrow> json \<Rightarrow> json option \<Rightarrow> json" where
  "child_request parent_id decision_id slot spec grant =
     message ''ChildTaskRequest'' (JObj
       ([(''parent'', JObj [(''task_id'', JStr parent_id), (''decision_id'', JStr decision_id), (''slot'', slot)]),
         (''task_spec'', message ''TaskSpec'' spec)]
        @ (case grant of None \<Rightarrow> [] | Some g \<Rightarrow> [(''grant'', g)])))"

subsection \<open>Decisions\<close>

definition check_action :: "json \<Rightarrow> unit res" where
  "check_action action =
     (if dget action ''type'' = JStr ''INVOKE_CAPABILITY'' then
        seqR (py_fields action [''type'', ''capability'', ''input''] [])
        (seqR (py_text (dget action ''capability'') 80)
        (raise_if (\<not> is_dict (dget action ''input'')) (ValueError ''Capability input must be an object'')))
      else if dget action ''type'' = JStr ''HANDOFF'' then
        seqR (py_fields action [''type'', ''specialist''] []) (voidR (py_identifier (dget action ''specialist'')))
      else if dget action ''type'' = JStr ''SPAWN_TASK'' then voidR (spawn_specs action)
      else if dget action ''type'' = JStr ''WAIT'' then
        seqR (py_fields action [''type'', ''wait_id'', ''input_type''] [])
        (seqR (py_identifier (dget action ''wait_id''))
        (raise_if (dget action ''input_type'' \<noteq> JStr ''text'' \<and> dget action ''input_type'' \<noteq> JStr ''human_response'')
          (ValueError ''Unsupported wait input type'')))
      else if dget action ''type'' = JStr ''COMPLETE'' then voidR (py_fields action [''type''] [])
      else Inl (ValueError ''Unknown NextAction''))"

definition validate_decision :: "json \<Rightarrow> json res" where
  "validate_decision v =
     bindR (unpack v ''CognitiveDecision'') (\<lambda>p.
     bindR (py_fields p [''task_id'', ''task_revision'', ''turn_id'', ''next_action''] [''reason'']) (\<lambda>decision.
     seqR (checks
       [voidR (py_identifier (dget decision ''task_id'')),
        raise_if (\<not> is_int (dget decision ''task_revision'') \<or> jint (dget decision ''task_revision'') < 0)
          (ValueError ''Invalid Task revision''),
        voidR (py_text (dget decision ''turn_id'') 100),
        (if has_key decision ''reason'' then voidR (py_text (dget decision ''reason'') 256) else Inr ()),
        raise_if (\<not> is_dict (dget decision ''next_action'')) (ValueError ''Invalid NextAction''),
        check_action (dget decision ''next_action'')])
     (Inr decision)))"

subsection \<open>Task intake\<close>

definition accept_grant :: "json \<Rightarrow> json option res" where
  "accept_grant request =
     (if has_key request ''grant'' then bindR (validate_grant (dget request ''grant'')) (\<lambda>g. Inr (Some g))
      else Inr None)"

definition intake_decision :: "string \<Rightarrow> json \<Rightarrow> json" where
  "intake_decision task_id action =
     message ''CognitiveDecision'' (JObj [(''task_id'', JStr task_id), (''task_revision'', JInt 0),
       (''turn_id'', JStr (task_id @ ''/1'')), (''next_action'', action)])"

definition accept_task_request :: "json \<Rightarrow> string \<Rightarrow> (json \<times> json option \<times> json option) res" where
  "accept_task_request v task_id =
     (if \<not> is_dict v then Inl (ValueError ''Task request must be an object'')
      else if dget v ''kind'' = JStr ''TaskRequest'' then
        bindR (unpack v ''TaskRequest'') (\<lambda>p.
        bindR (py_fields p [''task_spec''] [''initial_action'', ''grant'', ''contract'']) (\<lambda>request.
        seqR (if has_key request ''initial_action'' then
                bindR (validate_decision (intake_decision task_id (dget request ''initial_action''))) (\<lambda>decision.
                raise_if (dget (dget decision ''next_action'') ''type'' \<noteq> JStr ''INVOKE_CAPABILITY'')
                  (ValueError ''Task intake accepts one bounded capability action''))
              else raise_if (\<not> (has_key request ''contract'' \<and> has_key request ''grant''))
                (ValueError ''Task intake without an initial action requires a contract and a grant''))
        (bindR (accept_grant request) (\<lambda>grant.
         bindR (validate_spec (dget request ''task_spec'')) (\<lambda>spec. Inr (spec, None, grant))))))
      else if dget v ''kind'' \<noteq> JStr ''ChildTaskRequest'' then
        bindR (validate_spec v) (\<lambda>spec. Inr (spec, None, None))
      else
        bindR (unpack v ''ChildTaskRequest'') (\<lambda>p.
        bindR (py_fields p [''parent'', ''task_spec''] [''grant'']) (\<lambda>request.
        bindR (py_fields (dget request ''parent'') [''task_id'', ''decision_id'', ''slot''] []) (\<lambda>parent.
        bindR (child_task_id (dget parent ''task_id'') (dget parent ''decision_id'') (dget parent ''slot'')) (\<lambda>cid.
        seqR (raise_if (task_id \<noteq> cid) (ValueError ''Child identity does not match its explicit relationship''))
        (bindR (accept_grant request) (\<lambda>grant.
         bindR (validate_spec (dget request ''task_spec'')) (\<lambda>spec. Inr (spec, Some parent, grant)))))))))"

subsection \<open>Task results\<close>

definition result_refs :: "json \<Rightarrow> json list" where
  "result_refs result = map snd (jitems (dget result ''artifacts''))
     @ (if dget result ''completion_ref'' \<noteq> JNull then [dget result ''completion_ref''] else [])"

definition validate_result :: "json \<Rightarrow> string \<Rightarrow> json res" where
  "validate_result v task_id =
     bindR (unpack v ''TaskResult'') (\<lambda>p.
     bindR (py_fields p [''task_id'', ''outcome'', ''artifacts'', ''completion_ref'', ''concerns''] []) (\<lambda>result.
     seqR (checks
       [raise_if (MAX_RESULT < length (encode v)) (ValueError ''Oversized or misaddressed TaskResult''),
        voidR (py_identifier (JStr task_id)),
        raise_if (dget result ''task_id'' \<noteq> JStr task_id) (ValueError ''Oversized or misaddressed TaskResult''),
        raise_if (dget result ''outcome'' \<notin> JStr ` {''COMPLETED'', ''FAILED'', ''CANCELLED''})
          (ValueError ''Invalid TaskResult outcome''),
        raise_if (\<not> is_dict (dget result ''artifacts'') \<or> 16 < length (jitems (dget result ''artifacts'')))
          (ValueError ''Invalid TaskResult artifacts''),
        forR (\<lambda>name. py_identifier (JStr name)) (jkeys (dget result ''artifacts'')),
        forR (\<lambda>ref. raise_if (\<not> is_str ref \<or> map_option fst (match_ref (jstr ref)) \<noteq> Some task_id)
            (ValueError ''Invalid TaskResult evidence reference'')) (result_refs result),
        raise_if (dget result ''outcome'' = JStr ''COMPLETED'' \<and> dget result ''completion_ref'' = JNull)
          (ValueError ''Completed TaskResult requires verifier evidence''),
        raise_if (\<not> is_list (dget result ''concerns'') \<or> 8 < length (lget result ''concerns''))
          (ValueError ''Invalid TaskResult concerns''),
        forR (\<lambda>c. py_text c 512) (lget result ''concerns'')])
     (Inr result)))"

subsection \<open>What an accepted specification satisfies\<close>

definition wf_capabilities :: "json \<Rightarrow> bool" where
  "wf_capabilities v \<longleftrightarrow> is_list v \<and> length (jlist v) \<le> 8 \<and>
     list_all (\<lambda>n. is_str n \<and> jstr n \<in> set CAPABILITIES) (jlist v)"

text \<open>
  The evidence of a criterion is one of two documents, and which one does not depend on the
  checker: the exact SHA-256 of a named artifact, or a well-formed human request.
\<close>

definition digest_evidence :: "json \<Rightarrow> bool" where
  "digest_evidence ev \<longleftrightarrow> exact_fields ev [''artifact'', ''sha256''] \<and> ident_text (dget ev ''artifact'')
     \<and> is_str (dget ev ''sha256'') \<and> length (sget ev ''sha256'') = 64
     \<and> list_all (\<lambda>c. c \<in> set ''0123456789abcdef'') (sget ev ''sha256'')"

definition human_evidence :: "json \<Rightarrow> bool" where
  "human_evidence ev \<longleftrightarrow> exact_fields ev [''artifact'', ''verifier'', ''request''] \<and> ident_text (dget ev ''artifact'')
     \<and> dget ev ''verifier'' = JStr ''human_response'' \<and> wf_request (dget ev ''request'')"

definition wf_criterion :: "json \<Rightarrow> bool" where
  "wf_criterion c \<longleftrightarrow> exact_fields c [''criterion'', ''evidence''] \<and> bounded_text (dget c ''criterion'') 512
     \<and> (digest_evidence (dget c ''evidence'') \<or> human_evidence (dget c ''evidence''))"

definition wf_spec :: "json \<Rightarrow> bool" where
  "wf_spec s \<longleftrightarrow> exact_fields s [''objective'', ''completion'', ''capabilities'', ''autonomy'']
     \<and> bounded_text (dget s ''objective'') 1024
     \<and> is_list (dget s ''completion'') \<and> 1 \<le> length (lget s ''completion'') \<and> length (lget s ''completion'') \<le> 8
     \<and> list_all wf_criterion (lget s ''completion'') \<and> py_distinct (human_ids (lget s ''completion''))
     \<and> wf_capabilities (dget s ''capabilities'')
     \<and> is_ok (py_fields (dget s ''autonomy'') [''allowed''] [''child_tasks''])
     \<and> wf_capabilities (dget (dget s ''autonomy'') ''allowed'')
     \<and> (let n = dget_or (dget s ''autonomy'') ''child_tasks'' (JInt 0) in is_int n \<and> 0 \<le> jint n \<and> jint n \<le> 4)"

lemma hex64_digits: "is_hex64 s \<longleftrightarrow> length s = 64 \<and> list_all (\<lambda>c. c \<in> set ''0123456789abcdef'') s"
proof -
  have "hex_char c \<longleftrightarrow> c \<in> set ''0123456789abcdef''" for c
  proof
    assume "hex_char c"
    then have "(of_char c :: nat) \<in> of_char ` set ''0123456789abcdef''"
      by (simp add: hex_char_def Let_def) arith
    then show "c \<in> set ''0123456789abcdef''" by (auto simp only: image_iff of_char_eq_iff)
  qed (auto simp: hex_char_def)
  then have "hex_char = (\<lambda>c. c \<in> set ''0123456789abcdef'')" by (rule ext)
  then show ?thesis by (simp only: is_hex64_def)
qed

lemma check_evidence_iff: "check_evidence ev = Inr u \<longleftrightarrow> digest_evidence ev \<or> human_evidence ev"
proof -
  have "\<not> is_human ev" if "digest_evidence ev"
  proof -
    from that have "\<not> has_key ev ''verifier''" by (auto simp: digest_evidence_def exact_fields_def has_key_iff)
    then show ?thesis by (simp add: is_human_def dget_def has_key_def split: option.splits)
  qed
  moreover have "is_dict ev" if "human_evidence ev" using that by (simp add: human_evidence_def exact_fields_def)
  ultimately show ?thesis
    unfolding check_evidence_def digest_evidence_def human_evidence_def wf_request_iff [symmetric] is_ok_iff
    by (auto simp: bindR_eq_Inr exact_fields_iff ident_text_iff raise_if_eq_Inr hex64_digits is_human_def)
qed

lemma wf_criterion_iff: "is_ok (check_criterion c) \<longleftrightarrow> wf_criterion c"
  unfolding is_ok_iff check_criterion_def wf_criterion_def
  by (auto simp: bindR_eq_Inr exact_fields_iff bounded_text_iff check_evidence_iff)

lemma check_criterion_Inr: "check_criterion c = Inr u \<longleftrightarrow> wf_criterion c"
  unfolding wf_criterion_iff [symmetric] is_ok_iff by simp

lemma check_capability_names_Inr [res_simps]:
  "check_capability_names v = Inr u \<longleftrightarrow> wf_capabilities v \<and> (\<forall>n\<in>set (jlist v). is_ok (py_text n 80))"
  by (auto simp: check_capability_names_def wf_capabilities_def bindR_eq_Inr forR_eq_Inr py_text_eq_Inr
      list_all_iff is_ok_iff)

lemma capability_text: "jstr n \<in> set CAPABILITIES \<Longrightarrow> is_str n \<Longrightarrow> py_text n 80 = Inr n"
  by (auto simp: CAPABILITIES_def py_text_eq_Inr)

lemma check_capability_names_iff: "check_capability_names v = Inr u \<longleftrightarrow> wf_capabilities v"
  by (auto simp: check_capability_names_Inr wf_capabilities_def list_all_iff capability_text)

lemma jkeys_dset: "set (jkeys (dset v k w)) = insert k (set (jkeys v))"
  by (simp add: jkeys_def dset_def dom_update_keys)

lemma dget_or_key: "has_key v k \<Longrightarrow> dget_or v k w = dget v k"
  by (auto simp: dget_or_def dget_def has_key_def split: option.splits)

lemma dset_same: "is_dict v \<Longrightarrow> has_key v k \<Longrightarrow> dset v k (dget v k) = v"
  by (cases v) (auto simp: dset_def dget_def has_key_def update_triv split: option.splits)

lemma validate_spec_body_Inr:
  "validate_spec_body p = Inr s \<longleftrightarrow>
     (let cs = lget p ''completion''; caps = dget_or p ''capabilities'' (JList []);
          aut = dget_or p ''autonomy'' (JObj [(''allowed'', JList [])]);
          n = dget_or aut ''child_tasks'' (JInt 0) in
      is_ok (py_text (dget p ''objective'') 1024) \<and> is_list (dget p ''completion'') \<and> 1 \<le> length cs \<and> length cs \<le> 8
      \<and> list_all wf_criterion cs \<and> py_distinct (human_ids cs)
      \<and> is_ok (py_fields aut [''allowed''] [''child_tasks''])
      \<and> is_int n \<and> 0 \<le> jint n \<and> jint n \<le> 4 \<and> wf_capabilities caps \<and> wf_capabilities (dget aut ''allowed'')
      \<and> s = dset (dset p ''capabilities'' caps) ''autonomy'' aut)"
  unfolding validate_spec_body_def Let_def bindR_eq_Inr forR_eq_Inr raise_if_eq_Inr is_ok_iff list_all_iff
    check_criterion_Inr
  by (auto simp: check_capability_names_iff MAX_CHILDREN_def py_fields_eq_Inr)

lemma validate_spec_Inr:
  "validate_spec v = Inr s \<longleftrightarrow>
     (\<exists>p. unpack v ''TaskSpec'' = Inr p
        \<and> is_ok (py_fields p [''objective'', ''completion''] [''capabilities'', ''autonomy''])
        \<and> validate_spec_body p = Inr s)"
  by (auto simp: validate_spec_def bindR_eq_Inr py_fields_eq_Inr is_ok_iff)

lemma validate_spec_wf:
  assumes "validate_spec v = Inr s"
  shows "wf_spec s"
proof -
  from assms obtain p where p: "unpack v ''TaskSpec'' = Inr p"
    and f: "is_ok (py_fields p [''objective'', ''completion''] [''capabilities'', ''autonomy''])"
    and b: "validate_spec_body p = Inr s" by (auto simp: validate_spec_Inr)
  have keys: "set (jkeys s) = {''objective'', ''completion'', ''capabilities'', ''autonomy''}"
  proof -
    from b have "set (jkeys s) = insert ''autonomy'' (insert ''capabilities'' (set (jkeys p)))"
      by (simp add: validate_spec_body_Inr Let_def jkeys_dset)
    moreover have "set [''objective'', ''completion''] \<subseteq> set (jkeys p)"
      "set (jkeys p) \<subseteq> set [''objective'', ''completion''] \<union> set [''capabilities'', ''autonomy'']"
      using f by (simp_all only: is_ok_iff py_fields_eq_Inr) auto
    ultimately show ?thesis by auto
  qed
  from b have d: "is_dict s" by (auto simp: validate_spec_body_Inr Let_def)
  have "exact_fields s [''objective'', ''completion'', ''capabilities'', ''autonomy'']"
    using keys d by (simp add: exact_fields_def)
  moreover from b have "dget s ''objective'' = dget p ''objective''" "dget s ''completion'' = dget p ''completion''"
    "dget s ''capabilities'' = dget_or p ''capabilities'' (JList [])"
    "dget s ''autonomy'' = dget_or p ''autonomy'' (JObj [(''allowed'', JList [])])"
    by (auto simp: validate_spec_body_Inr Let_def)
  ultimately show ?thesis
    using b unfolding validate_spec_body_Inr Let_def wf_spec_def by (simp add: is_ok_iff bounded_text_iff)
qed

lemma wf_spec_revalidate:
  assumes "wf_spec s" and "length (encode (message ''TaskSpec'' s)) \<le> MAX_PACKET"
  shows "validate_spec (message ''TaskSpec'' s) = Inr s"
proof -
  from assms(1) have d: "is_dict s" and k: "set (jkeys s) = {''objective'', ''completion'', ''capabilities'', ''autonomy''}"
    by (auto simp: wf_spec_def exact_fields_def)
  have has: "has_key s ''capabilities''" "has_key s ''autonomy''" using k by (auto simp: has_key_iff)
  have "validate_spec_body s = Inr s"
    using assms(1) d has unfolding validate_spec_body_Inr Let_def wf_spec_def
    by (simp add: dget_or_key dset_same is_ok_iff bounded_text_iff)
  moreover have "is_ok (py_fields s [''objective'', ''completion''] [''capabilities'', ''autonomy''])"
    using d k by (simp add: is_ok_iff py_fields_eq_Inr)
  ultimately show ?thesis using assms(2) d by (auto simp: validate_spec_Inr unpack_message)
qed

text \<open>
  C40. Every TaskSpec that \<open>validate_spec\<close> accepts is well formed: a bounded non-blank objective,
  one to eight criteria each with one exact digest or one well-formed human request, pairwise
  distinct human requests, at most eight capabilities all of them known, at most eight allowed
  capabilities all of them known, and between zero and four child Tasks. It has exactly the four
  normalised fields, and validating the normalised specification again gives it back unchanged
  whenever it still fits the packet limit.
\<close>

theorem validate_spec_sound:
  assumes "validate_spec v = Inr s"
  shows "wf_spec s \<and>
    (length (encode (message ''TaskSpec'' s)) \<le> MAX_PACKET \<longrightarrow> validate_spec (message ''TaskSpec'' s) = Inr s)"
  using validate_spec_wf [OF assms] wf_spec_revalidate by blast

definition example_spec :: json where
  "example_spec = JObj [(''objective'', JStr ''Write the report''),
     (''completion'', JList [JObj [(''criterion'', JStr ''report''),
        (''evidence'', JObj [(''artifact'', JStr ''report''), (''sha256'', JStr (replicate 64 (CHR ''a'')))])]]),
     (''capabilities'', JList [JStr ''artifact.write'']),
     (''autonomy'', JObj [(''allowed'', JList [JStr ''artifact.write'']), (''child_tasks'', JInt 2)])]"

lemma example_hex: "is_hex64 (replicate 64 (CHR ''a''))"
  by (simp add: is_hex64_def hex_char_def list_all_iff)

lemma example_spec_wf: "wf_spec example_spec"
proof -
  have "digest_evidence (JObj [(''artifact'', JStr ''report''), (''sha256'', JStr (replicate 64 (CHR ''a'')))])"
    using example_hex
    by (simp add: digest_evidence_def exact_fields_def ident_text_def py_defs is_ident_def ident_char_def hex64_digits)
  then have "wf_criterion (JObj [(''criterion'', JStr ''report''),
        (''evidence'', JObj [(''artifact'', JStr ''report''), (''sha256'', JStr (replicate 64 (CHR ''a'')))])])"
    by (simp add: wf_criterion_def exact_fields_def bounded_text_def py_defs)
  then show ?thesis
    by (simp add: wf_spec_def example_spec_def exact_fields_def bounded_text_def py_defs py_fields_def human_ids_def
        is_human_def wf_capabilities_def CAPABILITIES_def)
qed

lemma example_spec_valid: "validate_spec (message ''TaskSpec'' example_spec) = Inr example_spec"
proof (rule wf_spec_revalidate [OF example_spec_wf])
  show "length (encode (message ''TaskSpec'' example_spec)) \<le> MAX_PACKET"
    by (rule length_encode_le)
      (simp add: example_spec_def message_def MAX_PACKET_def jsize_eval)
qed

theorem validate_spec_sound_witness:
  "validate_spec (message ''TaskSpec'' example_spec) = Inr example_spec \<and> wf_spec example_spec"
  using validate_spec_sound [OF example_spec_valid] example_spec_valid by blast

subsection \<open>Spawning is bounded\<close>

lemma mapR_enumerate_spec:
  assumes "mapR (\<lambda>(slot, spec). bindR (validate_spec spec) (\<lambda>s. Inr (JInt (int slot), s))) (enumerate n xs) = Inr ys"
  shows "map fst ys = map (\<lambda>i. JInt (int i)) [n..<n + length xs] \<and> list_all2 (\<lambda>x y. validate_spec x = Inr (snd y)) xs ys"
  using assms
proof (induction xs arbitrary: n ys)
  case Nil
  then show ?case by simp
next
  case (Cons x xs)
  then obtain s zs where s: "validate_spec x = Inr s" and ys: "ys = (JInt (int n), s) # zs"
    and z: "mapR (\<lambda>(slot, spec). bindR (validate_spec spec) (\<lambda>s. Inr (JInt (int slot), s))) (enumerate (Suc n) xs) = Inr zs"
    by (auto simp: bindR_eq_Inr split: sum.splits)
  have "[n..<n + length (x # xs)] = n # [Suc n..<Suc n + length xs]" by (simp add: upt_rec)
  with Cons.IH [OF z] s ys show ?case by simp
qed

text \<open>
  A SPAWN_TASK action that is accepted names between one and four children: one joined child
  without a slot, or two to four explicitly independent children in the slots 0, 1, 2, 3 in order.
  Each of them carries a well-formed specification, and under any admissible parent and decision
  every slot gives a child Task id.
\<close>

lemma spawn_specs_bounded:
  assumes "spawn_specs action = Inr children"
  shows "(map fst children = [JNull] \<or>
          2 \<le> length children \<and> length children \<le> MAX_CHILDREN
          \<and> map fst children = map (\<lambda>i. JInt (int i)) [0..<length children])
    \<and> (\<forall>(slot, spec)\<in>set children. wf_spec spec \<and> is_ok (child_slot slot))"
proof (cases "has_key action ''task_spec''")
  case True
  with assms obtain s where "validate_spec (dget action ''task_spec'') = Inr s" "children = [(JNull, s)]"
    by (auto simp: spawn_specs_def bindR_eq_Inr)
  then show ?thesis by (auto dest: validate_spec_wf simp: child_slot_def)
next
  case False
  let ?xs = "lget action ''task_specs''"
  from False assms have m: "mapR (\<lambda>(slot, spec). bindR (validate_spec spec) (\<lambda>s. Inr (JInt (int slot), s)))
        (enumerate 0 ?xs) = Inr children"
    and b: "2 \<le> length ?xs" "length ?xs \<le> MAX_CHILDREN"
    by (auto simp: spawn_specs_def bindR_eq_Inr)
  from mapR_enumerate_spec [OF m] have fsts: "map fst children = map (\<lambda>i. JInt (int i)) [0..<length ?xs]"
    and all: "list_all2 (\<lambda>x y. validate_spec x = Inr (snd y)) ?xs children" by auto
  have len: "length children = length ?xs" using all by (simp add: list_all2_lengthD)
  have "wf_spec sp \<and> is_ok (child_slot sl)" if mem: "(sl, sp) \<in> set children" for sl sp
  proof -
    have "sl \<in> set (map fst children)" using mem by force
    then obtain i where "sl = JInt (int i)" "i < length ?xs" using fsts by auto
    moreover obtain j where "j < length children" "children ! j = (sl, sp)"
      using mem unfolding in_set_conv_nth by blast
    then have "validate_spec (?xs ! j) = Inr sp" using list_all2_nthD2 [OF all, of j] by simp
    ultimately show ?thesis using b
      by (auto dest: validate_spec_wf simp: is_ok_iff child_slot_eq_Inr MAX_CHILDREN_def)
  qed
  with fsts len b show ?thesis by auto
qed

lemma spawn_specs_bounded_witness:
  "spawn_specs (JObj [(''type'', JStr ''SPAWN_TASK''), (''task_spec'', message ''TaskSpec'' example_spec)])
     = Inr [(JNull, example_spec)] \<and> wf_spec example_spec"
proof -
  have ok: "spawn_specs (JObj [(''type'', JStr ''SPAWN_TASK''), (''task_spec'', message ''TaskSpec'' example_spec)])
     = Inr [(JNull, example_spec)]"
    by (simp add: spawn_specs_def py_defs py_fields_def example_spec_valid)
  from spawn_specs_bounded [OF ok] ok show ?thesis by simp
qed

subsection \<open>The trusted envelope\<close>

text \<open>
  The child envelope the kernel builds is the one it accepts: for an admissible parent,
  decision and slot, a well-formed specification and a grant (or none) that validates, the request
  made by \<open>child_request\<close> is accepted under the derived child id, and gives back the specification,
  the relationship and the grant, provided envelope and specification fit the packet limit. Under
  any other Task id it is refused.
\<close>

lemma child_request_roundtrip:
  assumes cid: "child_task_id (JStr p) (JStr d) slot = Inr c" and spec: "wf_spec s"
    and grant: "(case g of None \<Rightarrow> Inr None | Some x \<Rightarrow> bindR (validate_grant x) (\<lambda>y. Inr (Some y))) = Inr g'"
    and fits: "length (encode (child_request p d slot s g)) \<le> MAX_PACKET"
      "length (encode (message ''TaskSpec'' s)) \<le> MAX_PACKET"
  shows "accept_task_request (child_request p d slot s g) task_id =
    (if task_id = c then
       Inr (s, Some (JObj [(''task_id'', JStr p), (''decision_id'', JStr d), (''slot'', slot)]), g')
     else Inl (ValueError ''Child identity does not match its explicit relationship''))"
proof -
  let ?par = "JObj [(''task_id'', JStr p), (''decision_id'', JStr d), (''slot'', slot)]"
  define body where "body = JObj ([(''parent'', ?par), (''task_spec'', message ''TaskSpec'' s)]
      @ (case g of None \<Rightarrow> [] | Some x \<Rightarrow> [(''grant'', x)]))"
  have req: "child_request p d slot s g = message ''ChildTaskRequest'' body"
    by (simp add: child_request_def body_def)
  have u: "unpack (message ''ChildTaskRequest'' body) ''ChildTaskRequest'' = Inr body"
    using fits(1) by (simp add: unpack_message req) (simp add: body_def)
  have f: "py_fields body [''parent'', ''task_spec''] [''grant''] = Inr body"
    by (cases g) (simp_all add: body_def py_fields_def py_defs)
  have dg: "dget body ''parent'' = ?par" "dget body ''task_spec'' = message ''TaskSpec'' s"
    by (simp_all add: body_def py_defs)
  have pf: "py_fields ?par [''task_id'', ''decision_id'', ''slot''] [] = Inr ?par"
    by (simp add: py_fields_def py_defs)
  have ag: "accept_grant body = Inr g'"
    using grant by (cases g) (simp_all add: accept_grant_def body_def py_defs)
  have dp: "dget ?par ''task_id'' = JStr p" "dget ?par ''decision_id'' = JStr d" "dget ?par ''slot'' = slot"
    by (simp_all add: py_defs)
  show ?thesis
    unfolding accept_task_request_def req
    by (simp add: u f dg pf dp cid ag wf_spec_revalidate [OF spec fits(2)])
qed

lemma child_request_roundtrip_witness:
  "\<exists>c. child_task_id (JStr ''a'') (JStr ''a/1'') JNull = Inr c \<and>
     accept_task_request (child_request ''a'' ''a/1'' JNull example_spec None) c
       = Inr (example_spec, Some (JObj [(''task_id'', JStr ''a''), (''decision_id'', JStr ''a/1''), (''slot'', JNull)]), None)"
proof -
  obtain c where c: "child_task_id (JStr ''a'') (JStr ''a/1'') JNull = Inr c"
    by (simp add: child_task_id_eq_Inr py_identifier_eq_Inr py_text_eq_Inr is_ok_iff child_slot_eq_Inr
        is_ident_def ident_char_def)
  have fits: "length (encode (child_request ''a'' ''a/1'' JNull example_spec None)) \<le> MAX_PACKET"
      "length (encode (message ''TaskSpec'' example_spec)) \<le> MAX_PACKET"
    by (rule length_encode_le;
        simp add: child_request_def example_spec_def message_def MAX_PACKET_def jsize_eval)+
  from child_request_roundtrip [OF c example_spec_wf _ fits, of None c] c show ?thesis by auto
qed

subsection \<open>Task results\<close>

text \<open>
  A Task result that is accepted belongs to its Task: it names that Task, every artifact and
  completion reference in it is a content address of that Task (never of another one), it carries
  at most sixteen artifacts with admissible names and at most eight bounded concerns, and a
  COMPLETED result has completion evidence.
\<close>

lemma validate_result_sound:
  assumes "validate_result v task_id = Inr r"
  shows "dget r ''task_id'' = JStr task_id \<and> is_ident task_id
    \<and> (\<forall>(n, x)\<in>set (jitems (dget r ''artifacts'')). is_ident n \<and> (\<exists>h. is_hex64 h \<and> x = JStr (mk_ref task_id h)))
    \<and> length (jitems (dget r ''artifacts'')) \<le> 16 \<and> length (lget r ''concerns'') \<le> 8
    \<and> (dget r ''completion_ref'' = JNull \<or> (\<exists>h. is_hex64 h \<and> dget r ''completion_ref'' = JStr (mk_ref task_id h)))
    \<and> (dget r ''outcome'' = JStr ''COMPLETED'' \<longrightarrow> dget r ''completion_ref'' \<noteq> JNull)
    \<and> dget r ''outcome'' \<in> JStr ` {''COMPLETED'', ''FAILED'', ''CANCELLED''}"
proof -
  from assms have tid: "dget r ''task_id'' = JStr task_id" "is_ident task_id"
    and out: "dget r ''outcome'' \<in> JStr ` {''COMPLETED'', ''FAILED'', ''CANCELLED''}"
      "\<not> (dget r ''outcome'' = JStr ''COMPLETED'' \<and> dget r ''completion_ref'' = JNull)"
    and len: "length (jitems (dget r ''artifacts'')) \<le> 16" "length (lget r ''concerns'') \<le> 8"
    and names: "forR (\<lambda>name. py_identifier (JStr name)) (jkeys (dget r ''artifacts'')) = Inr ()"
    and refs: "forR (\<lambda>ref. raise_if (\<not> is_str ref \<or> map_option fst (match_ref (jstr ref)) \<noteq> Some task_id)
            (ValueError ''Invalid TaskResult evidence reference'')) (result_refs r) = Inr ()"
    unfolding validate_result_def bindR_eq_Inr py_fields_exact checks_eq_Inr
    by (auto simp: py_identifier_eq_Inr)
  have ref: "\<exists>h. is_hex64 h \<and> x = JStr (mk_ref task_id h)" if "x \<in> set (result_refs r)" for x
    using that refs by (fastforce simp: forR_eq_Inr is_str_iff match_ref_iff)
  have ids: "is_ident n" if "(n, x) \<in> set (jitems (dget r ''artifacts''))" for n x
    using that names by (force simp: forR_eq_Inr py_identifier_eq_Inr jkeys_def)
  have arts: "is_ident n \<and> (\<exists>h. is_hex64 h \<and> x = JStr (mk_ref task_id h))"
    if "(n, x) \<in> set (jitems (dget r ''artifacts''))" for n x
    using that ids ref [of x] by (force simp: result_refs_def)
  have "dget r ''completion_ref'' = JNull \<or> (\<exists>h. is_hex64 h \<and> dget r ''completion_ref'' = JStr (mk_ref task_id h))"
    using ref [of "dget r ''completion_ref''"] by (auto simp: result_refs_def)
  with tid out len arts show ?thesis by blast
qed

definition example_result :: json where
  "example_result = JObj [(''task_id'', JStr ''t1''), (''outcome'', JStr ''FAILED''), (''artifacts'', JObj []),
     (''completion_ref'', JNull), (''concerns'', JList [JStr ''provider unavailable''])]"

lemma validate_result_sound_witness:
  "validate_result (message ''TaskResult'' example_result) ''t1'' = Inr example_result
   \<and> dget example_result ''task_id'' = JStr ''t1'' \<and> is_ident ''t1''"
proof -
  have small: "length (encode (message ''TaskResult'' example_result)) \<le> MAX_RESULT"
    by (rule length_encode_le) (simp add: example_result_def message_def MAX_RESULT_def jsize_eval)
  then have "unpack (message ''TaskResult'' example_result) ''TaskResult'' = Inr example_result"
    by (simp add: unpack_message MAX_RESULT_def MAX_PACKET_def) (simp add: example_result_def)
  then have ok: "validate_result (message ''TaskResult'' example_result) ''t1'' = Inr example_result"
    using small unfolding validate_result_def
    by (simp add: not_less) (simp add: example_result_def py_fields_def py_defs py_identifier_def is_ident_def
        ident_char_def result_refs_def py_text_def)
  from validate_result_sound [OF ok] ok show ?thesis by blast
qed

end
