(* ===== verification/Artifacts.thy ===== *)
theory Artifacts
  imports Contracts
begin

section \<open>The artifact store\<close>

text \<open>
  runtime/kernel/artifacts.py: the immutable content-addressed store. Its state is the directory
  tree the class works on: a file per Task and digest, and the Task directories that are symbolic
  links. Anything outside the kernel may have changed the tree, so files may hold bytes that do not
  match their name and may be links; \<open>sound_store\<close> describes a tree only the store itself wrote.
  Operating-system failures other than a missing file are not modelled.

  The locale \<open>content_store\<close> is the contract the journal, the completion evaluator and the workflow rely
  on: what was put is read back, and no later put changes what a reference reads. \<open>document_store\<close>
  extends it with the byte encoding to JSON documents. Both are interpreted on the store.
\<close>

datatype node = Bytes string | Symlink

record artifact_store =
  files :: "string \<times> string \<rightharpoonup> node"
  dir_links :: "string set"

definition new_store :: artifact_store where
  "new_store = \<lparr>files = Map.empty, dir_links = {}\<rparr>"

definition read :: "artifact_store \<Rightarrow> string \<Rightarrow> json \<Rightarrow> string res" where
  "read st task_id ref =
     seqR (py_identifier (JStr task_id))
     (if \<not> is_str ref then Inl (ValueError ''Invalid artifact reference'')
      else case match_ref (jstr ref) of
        None \<Rightarrow> Inl (ValueError ''Invalid or cross-Task artifact reference'')
      | Some (owner, digest) \<Rightarrow>
          if owner \<noteq> task_id then Inl (ValueError ''Invalid or cross-Task artifact reference'')
          else if task_id \<in> dir_links st \<or> files st (task_id, digest) = Some Symlink
          then Inl (ValueError ''Artifact path cannot be a symlink'')
          else (case files st (task_id, digest) of
              Some (Bytes data) \<Rightarrow>
                if sha256_hex data \<noteq> digest then Inl (ValueError ''Artifact digest mismatch'') else Inr data
            | _ \<Rightarrow> Inl (OSError ''No such file or directory'')))"

definition put :: "artifact_store \<Rightarrow> string \<Rightarrow> string \<Rightarrow> string res \<times> artifact_store" where
  "put st task_id content =
     (case py_identifier (JStr task_id) of Inl e \<Rightarrow> (Inl e, st)
      | Inr _ \<Rightarrow>
          let digest = sha256_hex content in
          if task_id \<in> dir_links st then (Inl (ValueError ''Artifact directory cannot be a symlink''), st)
          else
            let st' = (if files st (task_id, digest) = None
                       then st\<lparr>files := (files st)((task_id, digest) \<mapsto> Bytes content)\<rparr> else st);
                ref = mk_ref task_id digest in
            case read st' task_id (JStr ref) of Inl e \<Rightarrow> (Inl e, st')
            | Inr data \<Rightarrow> if data \<noteq> content then (Inl (ValueError ''Artifact collision or corruption''), st')
                          else (Inr ref, st'))"

definition put_json :: "artifact_store \<Rightarrow> string \<Rightarrow> json \<Rightarrow> string res \<times> artifact_store" where
  "put_json st task_id v = put st task_id (encode v)"

definition read_json :: "artifact_store \<Rightarrow> string \<Rightarrow> json \<Rightarrow> json res" where
  "read_json st task_id ref = bindR (read st task_id ref) json_loads"

subsection \<open>The store as an interface\<close>

locale content_store =
  fixes putf :: "'s \<Rightarrow> string \<Rightarrow> string \<Rightarrow> string res \<times> 's"
    and readf :: "'s \<Rightarrow> string \<Rightarrow> json \<Rightarrow> string res"
  assumes put_read: "putf s t c = (Inr a, s') \<Longrightarrow> readf s' t (JStr a) = Inr c"
    and put_keeps: "readf s t r = Inr c \<Longrightarrow> putf s t' c' = (x, s') \<Longrightarrow> readf s' t r = Inr c"
begin

fun put_all :: "'s \<Rightarrow> (string \<times> string) list \<Rightarrow> 's" where
  "put_all s [] = s"
| "put_all s ((t, c) # ws) = put_all (snd (putf s t c)) ws"

lemma put_all_keeps: "readf s t r = Inr c \<Longrightarrow> readf (put_all s ws) t r = Inr c"
proof (induction ws arbitrary: s)
  case (Cons w ws)
  obtain t' c' where w: "w = (t', c')" by force
  obtain x s' where p: "putf s t' c' = (x, s')" by force
  show ?case using Cons.IH [OF put_keeps [OF Cons.prems p]] by (simp add: w p)
qed simp

lemma put_read_later: "putf s t c = (Inr r, s') \<Longrightarrow> readf (put_all s' ws) t (JStr r) = Inr c"
  by (rule put_all_keeps) (rule put_read)

end

locale document_store = content_store putf readf + codec enc dec norm ok
  for putf :: "'s \<Rightarrow> string \<Rightarrow> string \<Rightarrow> string res \<times> 's" and readf :: "'s \<Rightarrow> string \<Rightarrow> json \<Rightarrow> string res"
    and enc :: "json \<Rightarrow> string" and dec :: "string \<Rightarrow> json res" and norm :: "json \<Rightarrow> json"
    and ok :: "json \<Rightarrow> bool"
begin

lemma put_doc_read_later:
  "ok v \<Longrightarrow> putf s t (enc v) = (Inr r, s') \<Longrightarrow>
     bindR (readf (put_all s' ws) t (JStr r)) dec = Inr (norm v)"
  by (simp add: put_read_later dec_enc)

end

subsection \<open>The store implements it\<close>

lemma read_Inr:
  "read st t r = Inr c \<longleftrightarrow> is_ident t \<and> t \<notin> dir_links st \<and> r = JStr (mk_ref t (sha256_hex c))
     \<and> files st (t, sha256_hex c) = Some (Bytes c)"
proof
  assume a: "read st t r = Inr c"
  then have t: "is_ident t"
    and b: "(if \<not> is_str r then Inl (ValueError ''Invalid artifact reference'')
      else case match_ref (jstr r) of
        None \<Rightarrow> Inl (ValueError ''Invalid or cross-Task artifact reference'')
      | Some (owner, digest) \<Rightarrow>
          if owner \<noteq> t then Inl (ValueError ''Invalid or cross-Task artifact reference'')
          else if t \<in> dir_links st \<or> files st (t, digest) = Some Symlink
          then Inl (ValueError ''Artifact path cannot be a symlink'')
          else (case files st (t, digest) of
              Some (Bytes data) \<Rightarrow>
                if sha256_hex data \<noteq> digest then Inl (ValueError ''Artifact digest mismatch'') else Inr data
            | _ \<Rightarrow> Inl (OSError ''No such file or directory''))) = Inr c"
    unfolding read_def bindR_eq_Inr py_identifier_eq_Inr by simp_all
  from b have s: "is_str r" by (simp split: if_splits)
  with b obtain od where "match_ref (jstr r) = Some od" by (simp split: option.splits)
  then obtain ow d where m: "match_ref (jstr r) = Some (ow, d)" by (cases od) simp
  from b s m have o: "ow = t" "t \<notin> dir_links st" by (simp_all split: if_splits)
  with b s m have "files st (t, d) = Some (Bytes c)" "sha256_hex c = d"
    by (simp_all split: if_splits option.splits node.splits)
  moreover have "r = JStr (mk_ref ow d)" using m s by (simp add: match_ref_iff is_str_iff) fastforce
  ultimately show "is_ident t \<and> t \<notin> dir_links st \<and> r = JStr (mk_ref t (sha256_hex c))
     \<and> files st (t, sha256_hex c) = Some (Bytes c)" using t o by simp
next
  assume "is_ident t \<and> t \<notin> dir_links st \<and> r = JStr (mk_ref t (sha256_hex c))
     \<and> files st (t, sha256_hex c) = Some (Bytes c)"
  then show "read st t r = Inr c" by (simp add: read_def py_identifier_def sha.address_match)
qed

lemma put_state:
  assumes "put st t c = (x, st')"
  shows "dir_links st' = dir_links st" and "files st k = Some n \<Longrightarrow> files st' k = Some n"
    and "files st' k = Some n \<Longrightarrow> files st k = Some n \<or> k = (t, sha256_hex c) \<and> n = Bytes c"
  using assms by (auto simp: put_def Let_def split: sum.splits if_splits)

lemma put_Inr:
  assumes "put st t c = (Inr r, st')"
  shows "r = mk_ref t (sha256_hex c)" and "read st' t (JStr r) = Inr c"
  using assms by (auto simp: put_def Let_def split: sum.splits if_splits)

interpretation store: content_store put read
proof unfold_locales
  show "read s' t (JStr r) = Inr c" if "put s t c = (Inr r, s')" for s t c r s'
    using that by (rule put_Inr)
  show "read s' t r = Inr c" if "read s t r = Inr c" "put s t' c' = (x, s')" for s t r c t' c' x s'
    using that(1) put_state(1) [OF that(2)] put_state(2) [OF that(2)] by (simp add: read_Inr)
qed

interpretation docs: document_store put read encode json_loads canon wfj
  by unfold_locales

subsection \<open>A tree only the store wrote\<close>

definition sound_store :: "artifact_store \<Rightarrow> bool" where
  "sound_store st \<longleftrightarrow> dir_links st = {} \<and>
     (\<forall>t d n. files st (t, d) = Some n \<longrightarrow> (\<exists>c. n = Bytes c \<and> sha256_hex c = d \<and> is_ident t))"

lemma sound_new_store: "sound_store new_store"
  by (simp add: sound_store_def new_store_def)

lemma put_sound:
  assumes "sound_store st"
  shows "sound_store (snd (put st t c))"
proof (cases "is_ident t")
  case True
  obtain x st' where p: "put st t c = (x, st')" by force
  show ?thesis
    using assms put_state(1) [OF p] put_state(3) [OF p] True by (force simp: sound_store_def p)
next
  case False
  with assms show ?thesis by (simp add: put_def py_identifier_def)
qed

lemma put_total:
  assumes "sound_store st" and "is_ident t"
  shows "fst (put st t c) = Inr (mk_ref t (sha256_hex c)) \<or>
    (\<exists>c'. files st (t, sha256_hex c) = Some (Bytes c') \<and> c' \<noteq> c \<and> sha256_hex c' = sha256_hex c)"
proof (cases "files st (t, sha256_hex c)")
  case None
  with assms show ?thesis
    by (simp add: put_def py_identifier_def sound_store_def read_def sha.address_match Let_def)
next
  case (Some n)
  with assms obtain c' where c': "n = Bytes c'" "sha256_hex c' = sha256_hex c" unfolding sound_store_def by blast
  with Some assms show ?thesis
    by (simp add: put_def py_identifier_def sound_store_def read_def sha.address_match Let_def)
qed

subsection \<open>Properties\<close>

text \<open>
  Artifacts are immutable: once \<open>put\<close> returned a reference, reading that reference for the same
  Task gives exactly the bytes that were put, after any sequence of further puts by any Task.
\<close>

lemma put_read_immutable:
  assumes "put st t c = (Inr r, st')"
  shows "read (fold (\<lambda>(t', c') s. snd (put s t' c')) later st') t (JStr r) = Inr c"
proof -
  have "store.put_all s later = fold (\<lambda>(t', c') s. snd (put s t' c')) later s" for s
    by (induction later arbitrary: s) auto
  with store.put_read_later [OF assms, of later] show ?thesis by simp
qed

lemma put_read_immutable_witness:
  "\<exists>st'. put new_store ''t1'' ''hello'' = (Inr (mk_ref ''t1'' (sha256_hex ''hello'')), st')
     \<and> read (snd (put st' ''t2'' ''other'')) ''t1'' (JStr (mk_ref ''t1'' (sha256_hex ''hello''))) = Inr ''hello''"
proof -
  have "is_ident ''t1''" by (simp add: is_ident_def ident_char_def)
  with put_total [OF sound_new_store, of "''t1''" "''hello''"] obtain st' where
    p: "put new_store ''t1'' ''hello'' = (Inr (mk_ref ''t1'' (sha256_hex ''hello'')), st')"
    by (cases "put new_store ''t1'' ''hello''") (auto simp: new_store_def)
  from put_read_immutable [OF p, of "[(''t2'', ''other'')]"] p show ?thesis by simp
qed

text \<open>
  Reading is integrity checked and Task scoped: bytes are returned only for a reference that
  names this Task and the SHA-256 of exactly these bytes; a reference of another Task, a malformed
  reference, a link and a tampered file are all refused, whatever the tree holds.
\<close>

lemma read_integrity:
  "read st t r = Inr c \<Longrightarrow> r = JStr (mk_ref t (sha256_hex c)) \<and> is_ident t \<and> t \<notin> dir_links st
     \<and> (\<forall>t'. t' \<noteq> t \<longrightarrow> (\<exists>e. read st t' r = Inl e \<and> is_value_error e))"
proof -
  assume a: "read st t r = Inr c"
  have "\<exists>e. read st t' r = Inl e \<and> is_value_error e" if ne: "t' \<noteq> t" for t'
  proof (cases "is_ident t'")
    case True
    from a have "r = JStr (mk_ref t (sha256_hex c))" "is_ident t" by (simp_all add: read_Inr)
    with ne True show ?thesis by (simp add: read_def py_identifier_def sha.address_match)
  qed (simp add: read_def py_identifier_def)
  with a show ?thesis by (simp add: read_Inr)
qed

lemma read_integrity_witness:
  "\<exists>st e. read st ''t1'' (JStr (mk_ref ''t1'' (sha256_hex ''hello''))) = Inr ''hello''
     \<and> read st ''t2'' (JStr (mk_ref ''t1'' (sha256_hex ''hello''))) = Inl e \<and> is_value_error e"
proof -
  let ?st = "\<lparr>files = [(''t1'', sha256_hex ''hello'') \<mapsto> Bytes ''hello''], dir_links = {}\<rparr>"
  have ok: "read ?st ''t1'' (JStr (mk_ref ''t1'' (sha256_hex ''hello''))) = Inr ''hello''"
    by (simp add: read_Inr is_ident_def ident_char_def)
  from read_integrity [OF ok] have "\<exists>e. read ?st ''t2'' (JStr (mk_ref ''t1'' (sha256_hex ''hello''))) = Inl e \<and> is_value_error e"
    by simp
  with ok show ?thesis by blast
qed

text \<open>
  Retained documents read back: a representable JSON document that was put is returned by
  \<open>read_json\<close> in canonical form after any later puts, and in a tree only the store wrote \<open>put_json\<close>
  succeeds for every admissible Task unless an artifact of that Task with different bytes has the
  same SHA-256.
\<close>

lemma put_json_roundtrip:
  assumes "sound_store st" and "is_ident t" and "wfj v"
  shows "(\<exists>r st'. put_json st t v = (Inr r, st') \<and> sound_store st' \<and>
            (\<forall>later. read_json (fold (\<lambda>(t', c') s. snd (put s t' c')) later st') t (JStr r) = Inr (canon v)))
    \<or> (\<exists>c. files st (t, sha256_hex (encode v)) = Some (Bytes c) \<and> c \<noteq> encode v
            \<and> sha256_hex c = sha256_hex (encode v))"
proof -
  obtain x st' where p: "put st t (encode v) = (x, st')" by force
  have sound: "sound_store st'" using put_sound [OF assms(1), of t "encode v"] p by simp
  have all: "store.put_all s later = fold (\<lambda>(t', c') s. snd (put s t' c')) later s" for s later
    by (induction later arbitrary: s) auto
  show ?thesis
  proof (cases x)
    case (Inr r)
    have "read_json (fold (\<lambda>(t', c') s. snd (put s t' c')) later st') t (JStr r) = Inr (canon v)" for later
      using docs.put_doc_read_later [OF assms(3) p [unfolded Inr], of later] by (simp add: read_json_def all)
    with p Inr sound show ?thesis by (simp add: put_json_def)
  next
    case (Inl e)
    with put_total [OF assms(1,2), of "encode v"] p show ?thesis by auto
  qed
qed

lemma put_json_roundtrip_witness:
  "\<exists>r st'. put_json new_store ''t1'' (JObj [(''b'', JInt 1), (''a'', JNull)]) = (Inr r, st')
     \<and> read_json st' ''t1'' (JStr r) = Inr (JObj [(''a'', JNull), (''b'', JInt 1)])"
proof -
  let ?v = "JObj [(''b'', JInt 1), (''a'', JNull)]"
  have i: "is_ident ''t1''" by (simp add: is_ident_def ident_char_def)
  have w: "wfj ?v" by (simp add: utf8_str_ascii)
  have c: "canon ?v = JObj [(''a'', JNull), (''b'', JInt 1)]" by code_simp
  from put_json_roundtrip [OF sound_new_store i w] obtain r st' where
    p: "put_json new_store ''t1'' ?v = (Inr r, st')"
    and all: "\<forall>later. read_json (fold (\<lambda>(t', c') s. snd (put s t' c')) later st') ''t1'' (JStr r) = Inr (canon ?v)"
    by (auto simp: new_store_def)
  from all [rule_format, of "[]"] p show ?thesis unfolding c by auto
qed

end
