(* ===== verification/Effect_Contracts.thy ===== *)
theory Effect_Contracts
  imports Task_Contracts Artifacts
begin

section \<open>Contracts of target effects\<close>

text \<open>
  The input side of runtime/kernel/effects.py: reviewed command profiles, confined workspace paths,
  the inputs of \<open>workspace.read\<close>, \<open>workspace.write\<close> and \<open>workspace.exec\<close>, and the lowering of an admitted
  intent into a deterministic effect request. Also the reference and digest helpers of
  runtime/kernel/journal.py they use.

  \<open>PurePosixPath\<close> is modelled by what the code uses of it: absoluteness and the components, without
  empty ones and ones that are a single dot. Python floats are decimals; the poll bound divides
  them exactly.
\<close>

definition WRITE :: string where "WRITE = ''workspace.write''"
definition EXEC :: string where "EXEC = ''workspace.exec''"

definition OPERATIONS :: "(string \<times> string) list" where
  "OPERATIONS = [(WRITE, ''write_file''), (EXEC, ''run_profile'')]"

definition MAX_WRITE_BYTES :: nat where "MAX_WRITE_BYTES = 65536"
definition MAX_ARGS :: nat where "MAX_ARGS = 16"
definition MAX_OUTPUT_BYTES :: int where "MAX_OUTPUT_BYTES = 1048576"

text \<open>\<open>ref\<close> and \<open>digest\<close> of runtime/kernel/journal.py.\<close>

definition py_ref :: "json \<Rightarrow> json res" where
  "py_ref v = (if \<not> is_str v \<or> \<not> is_ref (jstr v) then Inl (ValueError ''Invalid artifact reference'') else Inr v)"

definition json_digest :: "json \<Rightarrow> string" where
  "json_digest v = ''sha256:'' @ sha256_hex (encode v)"

lemma py_ref_eq_Inr [res_simps]: "py_ref v = Inr w \<longleftrightarrow> w = v \<and> is_str v \<and> is_ref (jstr v)"
  by (auto simp: py_ref_def)

subsection \<open>Command profiles\<close>

text \<open>\<open>isinstance (v, (int, float)) and 0 < v <= bound\<close>; a \<open>bool\<close> is an \<open>int\<close>.\<close>

fun num_in :: "json \<Rightarrow> int \<Rightarrow> bool" where
  "num_in (JInt i) b = (0 < i \<and> i \<le> b)"
| "num_in (JFloat m e) b = (0 < m \<and> m \<le> b * 10 ^ e)"
| "num_in (JBool t) b = (t \<and> 1 \<le> b)"
| "num_in v b = False"

text \<open>A number as a fraction: numerator and positive denominator.\<close>

fun num_frac :: "json \<Rightarrow> int \<times> int" where
  "num_frac (JInt i) = (i, 1)"
| "num_frac (JFloat m e) = (m, 10 ^ e)"
| "num_frac (JBool t) = (of_bool t, 1)"
| "num_frac v = (0, 1)"

definition check_args :: "json \<Rightarrow> string \<Rightarrow> unit res" where
  "check_args v msg =
     seqR (raise_if (\<not> is_list v \<or> MAX_ARGS < length (jlist v)) (ValueError msg))
     (forR (\<lambda>token. py_text token 256) (jlist v))"

record exec_profile =
  ep_id :: string
  ep_executable :: string
  ep_args :: "string list"
  ep_allowed_args :: "string list"
  ep_timeout_seconds :: json
  ep_poll_seconds :: json
  ep_output_cap_bytes :: int
  ep_environment :: string

definition profile_payload :: "exec_profile \<Rightarrow> json res" where
  "profile_payload p =
     bindR (py_identifier (JStr (ep_id p))) (\<lambda>i.
     bindR (py_text (JStr (ep_executable p)) 512) (\<lambda>x.
     Inr (JObj [(''id'', i), (''executable'', x), (''args'', JList (map JStr (ep_args p))),
       (''allowed_args'', JList (map JStr (ep_allowed_args p))), (''timeout_seconds'', ep_timeout_seconds p),
       (''poll_seconds'', ep_poll_seconds p), (''output_cap_bytes'', JInt (ep_output_cap_bytes p)),
       (''environment'', JStr (ep_environment p))])))"

definition validate_profile :: "json \<Rightarrow> json res" where
  "validate_profile v =
     bindR (py_fields v [''id'', ''executable'', ''args'', ''allowed_args'', ''timeout_seconds'', ''poll_seconds'',
              ''output_cap_bytes'', ''environment''] []) (\<lambda>profile.
     seqR (checks
       [voidR (py_identifier (dget profile ''id'')),
        voidR (py_text (dget profile ''executable'') 512),
        raise_if (\<exists>c\<in>set '' ;|&$`''. c \<in> set (sget profile ''executable''))
          (ValueError ''A profile names an exact executable, not shell text''),
        forR (\<lambda>key. check_args (dget profile key) ''Expected bounded profile arguments'') [''args'', ''allowed_args''],
        forR (\<lambda>key. raise_if (\<not> num_in (dget profile key) 3600) (ValueError ''Invalid profile bound''))
          [''timeout_seconds'', ''poll_seconds''],
        raise_if (\<not> is_int (dget profile ''output_cap_bytes'') \<or>
            \<not> (0 < jint (dget profile ''output_cap_bytes'') \<and> jint (dget profile ''output_cap_bytes'') \<le> MAX_OUTPUT_BYTES))
          (ValueError ''Invalid output cap''),
        raise_if (dget profile ''environment'' \<noteq> JStr ''minimal'')
          (ValueError ''Only the minimal environment policy exists'')])
     (Inr profile))"

definition profile_digest :: "json \<Rightarrow> string res" where
  "profile_digest profile = bindR (validate_profile profile) (\<lambda>p. Inr (''sha256:'' @ sha256_hex (encode p)))"

definition max_polls :: "json \<Rightarrow> nat" where
  "max_polls profile =
     (case (num_frac (dget profile ''timeout_seconds''), num_frac (dget profile ''poll_seconds'')) of
        ((a, b), (c, d)) \<Rightarrow> max 1 (nat (- ((- (a * d)) div (b * c)))))"

subsection \<open>Confined paths\<close>

definition path_parts :: "string \<Rightarrow> string list" where
  "path_parts p = filter (\<lambda>c. c \<noteq> [] \<and> c \<noteq> ''.'') (split_on (CHR ''/'') p)"

definition is_absolute :: "string \<Rightarrow> bool" where
  "is_absolute p \<longleftrightarrow> prefix ''/'' p"

definition ascii_alpha :: "char \<Rightarrow> bool" where
  "ascii_alpha c \<longleftrightarrow> (let n = (of_char c :: nat) in 65 \<le> n \<and> n \<le> 90 \<or> 97 \<le> n \<and> n \<le> 122)"

definition scheme_char :: "char \<Rightarrow> bool" where
  "scheme_char c \<longleftrightarrow> ascii_alpha c \<or> (48 \<le> (of_char c :: nat) \<and> (of_char c :: nat) \<le> 57) \<or> c \<in> set ''+.-''"

text \<open>\<open>re.match (r'^[A-Za-z][A-Za-z0-9+.-]*:', path)\<close>.\<close>

fun has_scheme :: "string \<Rightarrow> bool" where
  "has_scheme [] = False"
| "has_scheme (c # cs) = (ascii_alpha c \<and> prefix '':'' (dropWhile scheme_char cs))"

definition confined :: "json \<Rightarrow> json res" where
  "confined path =
     seqR (py_text path 512)
     (let p = jstr path in
      if is_absolute p \<or> ''..'' \<in> set (path_parts p) \<or> path_parts p = []
         \<or> CHR 0x5C \<in> set p \<or> CHR 0x00 \<in> set p \<or> has_scheme p
      then Inl (ValueError ''Expected a confined workspace-relative path'') else Inr path)"

subsection \<open>Effect inputs\<close>

definition validate_read_input :: "json \<Rightarrow> json res" where
  "validate_read_input v =
     seqR (py_fields v [''form'', ''workspace_id'', ''path'', ''artifact''] [])
     (seqR (checks
       [raise_if (dget v ''form'' \<noteq> JStr ''file'') (ValueError ''Unsupported workspace.read form''),
        voidR (py_identifier (dget v ''workspace_id'')),
        voidR (confined (dget v ''path'')),
        voidR (py_identifier (dget v ''artifact''))])
     (Inr v))"

definition check_precondition :: "json \<Rightarrow> unit res" where
  "check_precondition precondition =
     (case jitems precondition of
        [(kind, expected)] \<Rightarrow>
          if kind = ''absent'' then raise_if (expected \<noteq> JBool True) (ValueError ''absent precondition must be true'')
          else if kind = ''sha256'' then
            raise_if (\<not> is_str expected \<or> \<not> is_hex64 (jstr expected)) (ValueError ''Expected exact SHA-256 precondition'')
          else if kind = ''receipt'' then voidR (py_ref expected)
          else Inl (ValueError ''Precondition must be absent, sha256 or an admitted read receipt'')
      | _ \<Rightarrow> Inl (ValueError ''A write names exactly one precondition''))"

definition validate_write_input :: "json \<Rightarrow> json res" where
  "validate_write_input v =
     seqR (py_fields v [''workspace_id'', ''path'', ''precondition'', ''content_ref''] [])
     (seqR (checks
       [voidR (py_identifier (dget v ''workspace_id'')),
        voidR (confined (dget v ''path'')),
        voidR (py_ref (dget v ''content_ref'')),
        check_precondition (dget v ''precondition'')])
     (Inr v))"

definition validate_exec_input :: "json \<Rightarrow> json res" where
  "validate_exec_input v =
     seqR (py_fields v [''workspace_id'', ''profile''] [''args''])
     (seqR (checks
       [voidR (py_identifier (dget v ''workspace_id'')),
        voidR (py_identifier (dget v ''profile'')),
        check_args (dget_or v ''args'' (JList [])) ''Expected bounded structured arguments''])
     (Inr v))"

text \<open>\<open>set (xs) <= set (ys)\<close> on document lists.\<close>

definition subset_of :: "json list \<Rightarrow> json list \<Rightarrow> bool res" where
  "subset_of xs ys = seqR (py_hashable_all xs) (seqR (py_hashable_all ys) (Inr (list_all (\<lambda>x. py_mem x ys) xs)))"

definition admit_exec :: "json \<Rightarrow> json \<Rightarrow> json res" where
  "admit_exec v authority =
     (let profile = dget (dget authority ''profiles'') (sget v ''profile'') in
      if profile = JNull then Inl (ValueError ''Command profile is not in effective authority'')
      else bindR (subset_of (jlist (dget_or v ''args'' (JList []))) (lget profile ''allowed_args'')) (\<lambda>ok.
        if \<not> ok then Inl (ValueError ''Arguments outside the reviewed profile'') else Inr profile))"

subsection \<open>Lowering an intent to a request\<close>

definition read_receipt_precondition :: "json \<Rightarrow> json \<Rightarrow> json res" where
  "read_receipt_precondition receipt v =
     (let refuse = Inl (ValueError ''Precondition receipt is not a whole-file read of this target'') in
      if \<not> py_eq (dget receipt ''workspace_id'') (dget v ''workspace_id'') then refuse
      else bindR (item receipt ''source'') (\<lambda>source. bindR (item source ''path'') (\<lambda>path.
        if \<not> py_eq path (dget v ''path'') \<or> py_true (dget receipt ''truncated'')
           \<or> dget receipt ''state'' \<noteq> JStr ''SUCCESS'' then refuse
        else item receipt ''response_sha256'')))"

definition lower_base :: "string \<Rightarrow> string \<Rightarrow> string \<Rightarrow> json \<Rightarrow> string \<Rightarrow> int \<Rightarrow> (string \<times> json) list" where
  "lower_base task_id operation_id capability v authority_ref contract_revision =
     [(''task_id'', JStr task_id), (''operation_id'', JStr operation_id), (''operation_class'', JStr capability),
      (''operation'', JStr (the (map_of OPERATIONS capability))), (''workspace_id'', dget v ''workspace_id''),
      (''authority_ref'', JStr authority_ref), (''contract_revision'', JInt contract_revision)]"

definition write_request :: "(string \<times> json) list \<Rightarrow> json \<Rightarrow> string \<Rightarrow> json \<Rightarrow> json \<Rightarrow> json" where
  "write_request base v content precondition evidence =
     message ''EffectRequest'' (JObj (base @
       [(''path'', dget v ''path''), (''precondition'', precondition), (''precondition_evidence'', evidence),
        (''content_ref'', dget v ''content_ref''), (''content_sha256'', JStr (sha256_hex content)),
        (''content_bytes'', JInt (int (length content)))]))"

definition lower_precondition :: "(string \<times> json) list \<Rightarrow> string \<Rightarrow> json \<Rightarrow> artifact_store \<Rightarrow> string set \<Rightarrow> string \<Rightarrow> json res" where
  "lower_precondition base task_id v store receipts content =
     (let kind = fst (hd (jitems (dget v ''precondition''))); expected = snd (hd (jitems (dget v ''precondition''))) in
      if kind = ''receipt'' then
        if expected \<notin> JStr ` receipts then Inl (ValueError ''Precondition receipt was not admitted by this Task'')
        else bindR (read_json store task_id expected) (\<lambda>raw.
             bindR (unpack raw ''WorkspaceReadReceipt'') (\<lambda>receipt.
             bindR (read_receipt_precondition receipt v) (\<lambda>h.
             Inr (write_request base v content (JObj [(''sha256'', h)]) expected))))
      else if kind = ''absent'' then Inr (write_request base v content (JObj [(''absent'', JBool True)]) JNull)
      else Inr (write_request base v content (JObj [(''sha256'', expected)]) JNull))"

definition lower_write :: "(string \<times> json) list \<Rightarrow> string \<Rightarrow> json \<Rightarrow> task_state \<Rightarrow> artifact_store \<Rightarrow> string set \<Rightarrow> json res" where
  "lower_write base task_id v state store receipts =
     seqR (raise_if (dget v ''content_ref'' \<notin> JStr ` set (map snd (ts_artifacts state)))
            (ValueError ''Write content must be an admitted Task artifact''))
     (bindR (read store task_id (dget v ''content_ref'')) (\<lambda>content.
      seqR (raise_if (MAX_WRITE_BYTES < length content) (ValueError ''Write exceeds the size cap''))
      (seqR (decode_utf8 content) (lower_precondition base task_id v store receipts content))))"

definition lower_exec :: "(string \<times> json) list \<Rightarrow> json \<Rightarrow> json \<Rightarrow> json res" where
  "lower_exec base v authority =
     bindR (admit_exec v authority) (\<lambda>profile.
     bindR (profile_digest profile) (\<lambda>digest.
     Inr (message ''EffectRequest'' (JObj (base @
       [(''profile'', JObj [(''id'', dget profile ''id''), (''digest'', JStr digest)]),
        (''command'', JObj [(''executable'', dget profile ''executable''),
           (''args'', JList (lget profile ''args'' @ jlist (dget_or v ''args'' (JList []))))]),
        (''timeout_seconds'', dget profile ''timeout_seconds''), (''poll_seconds'', dget profile ''poll_seconds''),
        (''output_cap_bytes'', dget profile ''output_cap_bytes''), (''environment'', dget profile ''environment'')])))))"

definition lower :: "string \<Rightarrow> string \<Rightarrow> string \<Rightarrow> json \<Rightarrow> task_state \<Rightarrow> artifact_store \<Rightarrow> string \<Rightarrow> json \<Rightarrow> string set \<Rightarrow> json res" where
  "lower task_id operation_id capability v state store authority_ref authority receipts =
     (case (map_of OPERATIONS capability, ts_contract_revision state) of
        (None, _) \<Rightarrow> Inl (KeyError (py_repr capability))
      | (_, None) \<Rightarrow> Inl (KeyError ''contract_revision'')
      | (Some operation, Some revision) \<Rightarrow>
          let base = lower_base task_id operation_id capability v authority_ref revision in
          if capability = WRITE then lower_write base task_id v state store receipts
          else lower_exec base v authority)"

definition effect_digest :: "json \<Rightarrow> string" where
  "effect_digest request = ''sha256:'' @ sha256_hex (encode request)"

definition approval_request :: "string \<Rightarrow> string \<Rightarrow> json \<Rightarrow> json" where
  "approval_request task_id request_id request =
     (let payload = dget request ''payload'';
          target = (if py_true (dget payload ''path'') then dget payload ''path'' else dget (dget payload ''profile'') ''id'')
      in message ''HumanDecisionRequest'' (JObj
        [(''task_id'', JStr task_id), (''origin_task_id'', JStr task_id), (''request_id'', JStr request_id),
         (''revision'', JInt 0),
         (''question'', JStr (''Approve '' @ sget payload ''operation_class'' @ '' '' @ jstr target @ '' in ''
             @ sget payload ''workspace_id'' @ '' (operation '' @ sget payload ''operation_id'' @ '', request ''
             @ take 16 (drop 7 (effect_digest request)) @ '')?'')),
         (''allowed_responses'', JList [JStr ''APPROVE'', JStr ''DENY''])]))"

subsection \<open>Paths stay inside the workspace\<close>

text \<open>
  Lexical resolution of path components against a directory: a parent component removes the last
  directory (and is a no-op at the top).
\<close>

fun resolve_parts :: "string list \<Rightarrow> string list \<Rightarrow> string list" where
  "resolve_parts dir [] = dir"
| "resolve_parts dir (c # cs) =
     (if c = [] \<or> c = ''.'' then resolve_parts dir cs
      else if c = ''..'' then resolve_parts (butlast dir) cs
      else resolve_parts (dir @ [c]) cs)"

lemma resolve_parts_no_parent:
  "''..'' \<notin> set cs \<Longrightarrow> resolve_parts dir cs = dir @ filter (\<lambda>c. c \<noteq> [] \<and> c \<noteq> ''.'') cs"
  by (induction cs arbitrary: dir) auto

lemma confined_Inr:
  "confined v = Inr w \<longleftrightarrow> w = v \<and> py_text v 512 = Inr v \<and> \<not> is_absolute (jstr v)
     \<and> ''..'' \<notin> set (path_parts (jstr v)) \<and> path_parts (jstr v) \<noteq> []
     \<and> CHR 0x5C \<notin> set (jstr v) \<and> CHR 0x00 \<notin> set (jstr v) \<and> \<not> has_scheme (jstr v)"
  by (auto simp: confined_def bindR_eq_Inr Let_def py_text_eq_Inr)

text \<open>
  A path that \<open>confined\<close> accepts stays strictly inside any workspace: resolving its components
  from a workspace root gives that root followed by at least one ordinary component, so no accepted
  path names the root itself, leaves it or escapes through a parent component; and it is not
  absolute, contains neither a backslash nor a NUL and has no URL scheme.
\<close>

lemma confined_stays_inside:
  assumes "confined (JStr p) = Inr v"
  shows "\<exists>cs. cs \<noteq> [] \<and> resolve_parts ws (split_on (CHR ''/'') p) = ws @ cs
     \<and> (\<forall>c\<in>set cs. c \<noteq> [] \<and> c \<noteq> ''.'' \<and> c \<noteq> ''..'')
     \<and> \<not> is_absolute p \<and> CHR 0x5C \<notin> set p \<and> CHR 0x00 \<notin> set p \<and> \<not> has_scheme p"
proof -
  from assms have c: "\<not> is_absolute p" "''..'' \<notin> set (path_parts p)" "path_parts p \<noteq> []"
    "CHR 0x5C \<notin> set p" "CHR 0x00 \<notin> set p" "\<not> has_scheme p"
    by (simp_all add: confined_Inr)
  from c(2) have "''..'' \<notin> set (split_on (CHR ''/'') p)" by (auto simp: path_parts_def)
  then have "resolve_parts ws (split_on (CHR ''/'') p) = ws @ path_parts p"
    by (simp add: resolve_parts_no_parent path_parts_def)
  moreover have "\<forall>c\<in>set (path_parts p). c \<noteq> [] \<and> c \<noteq> ''.'' \<and> c \<noteq> ''..''"
    using c(2) by (auto simp: path_parts_def)
  ultimately show ?thesis using c by blast
qed

lemma confined_stays_inside_witness:
  "confined (JStr ''src/a.txt'') = Inr (JStr ''src/a.txt'') \<and>
   (\<exists>cs. resolve_parts [''w''] (split_on (CHR ''/'') ''src/a.txt'') = [''w''] @ cs)"
proof -
  have ok: "confined (JStr ''src/a.txt'') = Inr (JStr ''src/a.txt'')"
    by (simp add: confined_Inr py_text_eq_Inr is_absolute_def path_parts_def ascii_alpha_def scheme_char_def)
  from confined_stays_inside [OF ok, of "[''w'']"] ok show ?thesis by blast
qed

subsection \<open>A request does only what was admitted\<close>

lemma dget_append: "dget (JObj (d @ e)) k = (if has_key (JObj d) k then dget (JObj d) k else dget (JObj e) k)"
  by (auto simp: dget_def has_key_def map_add_def split: option.splits)

lemma subset_of_True: "subset_of xs ys = Inr True \<Longrightarrow> x \<in> set xs \<Longrightarrow> is_str x \<Longrightarrow> x \<in> set ys"
  by (auto simp: subset_of_def bindR_eq_Inr list_all_iff py_mem_def list_ex_iff is_str_iff)

lemma admit_exec_Inr:
  assumes "admit_exec v a = Inr p"
  shows "p = dget (dget a ''profiles'') (sget v ''profile'')" and "p \<noteq> JNull"
    and "x \<in> set (jlist (dget_or v ''args'' (JList []))) \<Longrightarrow> is_str x \<Longrightarrow> x \<in> set (lget p ''allowed_args'')"
  using assms subset_of_True by (auto simp: admit_exec_def Let_def bindR_eq_Inr split: if_splits)

text \<open>
  A process request runs only a reviewed command: when \<open>lower\<close> turns a validated
  \<open>workspace.exec\<close> input into a request, the profile is the one pinned in the effective authority
  under the requested name, the executable is that profile's executable, the arguments are the
  profile's fixed arguments followed by requested ones that are all on the profile's allow list, and
  the request carries the digest of the full profile definition.
\<close>

lemma lower_exec_reviewed:
  assumes "lower task_id op EXEC v state store aref authority receipts = Inr request"
    and "validate_exec_input v = Inr v"
  shows "\<exists>profile extra. profile = dget (dget authority ''profiles'') (sget v ''profile'')
     \<and> validate_profile profile = Inr profile
     \<and> extra = jlist (dget_or v ''args'' (JList [])) \<and> set extra \<subseteq> set (lget profile ''allowed_args'')
     \<and> dget (dget request ''payload'') ''command'' =
         JObj [(''executable'', dget profile ''executable''), (''args'', JList (lget profile ''args'' @ extra))]
     \<and> dget (dget (dget request ''payload'') ''profile'') ''digest'' = JStr (json_digest profile)
     \<and> dget (dget request ''payload'') ''operation_id'' = JStr op"
proof -
  let ?extra = "jlist (dget_or v ''args'' (JList []))"
  from assms(1) obtain cr where l: "lower_exec (lower_base task_id op EXEC v aref cr) v authority = Inr request"
    by (auto simp: lower_def Let_def OPERATIONS_def WRITE_def EXEC_def split: option.splits)
  then obtain p dg where p: "admit_exec v authority = Inr p" and dg: "profile_digest p = Inr dg"
    and r: "request = message ''EffectRequest'' (JObj (lower_base task_id op EXEC v aref cr @
       [(''profile'', JObj [(''id'', dget p ''id''), (''digest'', JStr dg)]),
        (''command'', JObj [(''executable'', dget p ''executable''), (''args'', JList (lget p ''args'' @ ?extra))]),
        (''timeout_seconds'', dget p ''timeout_seconds''), (''poll_seconds'', dget p ''poll_seconds''),
        (''output_cap_bytes'', dget p ''output_cap_bytes''), (''environment'', dget p ''environment'')]))"
    by (auto simp: lower_exec_def bindR_eq_Inr)
  from dg have vp: "validate_profile p = Inr p" "dg = json_digest p"
    by (auto simp: profile_digest_def bindR_eq_Inr validate_profile_def py_fields_exact json_digest_def)
  have strs: "\<forall>x\<in>set ?extra. is_str x"
    using assms(2) by (auto simp: validate_exec_input_def bindR_eq_Inr checks_eq_Inr check_args_def forR_eq_Inr
        py_text_eq_Inr)
  have "set ?extra \<subseteq> set (lget p ''allowed_args'')" using admit_exec_Inr(3) [OF p] strs by blast
  with admit_exec_Inr(1) [OF p] vp show ?thesis
    by (simp add: r dget_append lower_base_def py_defs)
qed

text \<open>
  A write request carries exactly the admitted bytes: when \<open>lower\<close> turns a \<open>workspace.write\<close> input
  into a request, the content is an artifact of this Task's own state, at most 64 KiB of valid
  UTF-8, the request names its SHA-256 and its length, and the precondition is either absence or an
  exact digest: the one the input names, or the digest in a read receipt this Task admitted.
\<close>

lemma lower_write_bound:
  assumes "lower task_id op WRITE v state store aref authority receipts = Inr request"
    and "validate_write_input v = Inr v"
  shows "\<exists>content. read store task_id (dget v ''content_ref'') = Inr content
     \<and> dget v ''content_ref'' \<in> JStr ` set (map snd (ts_artifacts state))
     \<and> length content \<le> MAX_WRITE_BYTES \<and> decode_utf8 content = Inr content
     \<and> dget (dget request ''payload'') ''content_sha256'' = JStr (sha256_hex content)
     \<and> dget (dget request ''payload'') ''path'' = dget v ''path''
     \<and> dget (dget request ''payload'') ''workspace_id'' = dget v ''workspace_id''
     \<and> (let pre = dget (dget request ''payload'') ''precondition'' in
          pre = JObj [(''absent'', JBool True)] \<and> dget v ''precondition'' = pre
          \<or> (\<exists>h. pre = JObj [(''sha256'', h)] \<and>
               (dget v ''precondition'' = pre \<or> (\<exists>r\<in>receipts. dget v ''precondition'' = JObj [(''receipt'', JStr r)]))))"
proof -
  from assms(1) obtain cr where l: "lower_write (lower_base task_id op WRITE v aref cr) task_id v state store receipts = Inr request"
    by (auto simp: lower_def Let_def OPERATIONS_def WRITE_def EXEC_def split: option.splits)
  let ?base = "lower_base task_id op WRITE v aref cr"
  have pre: "check_precondition (dget v ''precondition'') = Inr ()"
    using assms(2) by (auto simp: validate_write_input_def bindR_eq_Inr checks_eq_Inr)
  then obtain k x where it: "jitems (dget v ''precondition'') = [(k, x)]"
    by (auto simp: check_precondition_def split: list.splits)
  then have pv: "dget v ''precondition'' = JObj [(k, x)]"
    by (cases "dget v ''precondition''") simp_all
  from pre it have k: "k = ''absent'' \<and> x = JBool True \<or> k = ''sha256'' \<or> k = ''receipt''"
    by (auto simp: check_precondition_def split: if_splits)
  from l obtain content where c: "read store task_id (dget v ''content_ref'') = Inr content"
    and in_state: "dget v ''content_ref'' \<in> JStr ` set (map snd (ts_artifacts state))"
    and len: "length content \<le> MAX_WRITE_BYTES" and dec: "decode_utf8 content = Inr content"
    and rest: "lower_precondition ?base task_id v store receipts content = Inr request"
    by (auto simp: lower_write_def bindR_eq_Inr not_less dest: decode_utf8_Inr)
  obtain p e where r: "request = write_request ?base v content p e"
    and p: "if k = ''receipt'' then x \<in> JStr ` receipts \<and> (\<exists>h. p = JObj [(''sha256'', h)])
            else if k = ''absent'' then p = JObj [(''absent'', JBool True)] else p = JObj [(''sha256'', x)]"
    using rest by (cases "k = ''receipt''"; cases "k = ''absent''")
      (auto simp: lower_precondition_def it bindR_eq_Inr split: if_splits)
  have payload: "dget (dget request ''payload'') ''content_sha256'' = JStr (sha256_hex content)"
    "dget (dget request ''payload'') ''path'' = dget v ''path''"
    "dget (dget request ''payload'') ''workspace_id'' = dget v ''workspace_id''"
    "dget (dget request ''payload'') ''precondition'' = p"
    by (simp_all add: r write_request_def dget_append lower_base_def py_defs)
  have "p = JObj [(''absent'', JBool True)] \<and> dget v ''precondition'' = p
      \<or> (\<exists>h. p = JObj [(''sha256'', h)] \<and>
           (dget v ''precondition'' = p \<or> (\<exists>r\<in>receipts. dget v ''precondition'' = JObj [(''receipt'', JStr r)])))"
    using k p pv by auto
  with c in_state len dec payload show ?thesis unfolding Let_def by blast
qed

subsection \<open>Concrete requests\<close>

definition example_state :: task_state where
  "example_state = \<lparr>ts_task_id = ''t1'', ts_revision = 1, ts_lifecycle = RUNNING, ts_iteration = 1,
     ts_active_specialist = ''coordinator'', ts_spec_ref = [], ts_decision_id = None, ts_decision_ref = None,
     ts_context_ref = None, ts_observation_ref = None, ts_wait = None,
     ts_artifacts = [(''note'', mk_ref ''t1'' (sha256_hex ''hi''))], ts_human_responses = [],
     ts_completion_ref = None, ts_result_ref = None, ts_remaining_children = 0, ts_children = [],
     ts_parent = None, ts_invocation_id = None, ts_request_digest = None, ts_initial_action = None,
     ts_contract_ref = None, ts_contract_revision = Some 0, ts_authority_ref = None, ts_journal_head = None,
     ts_journal_length = 0, ts_semantic_reviews = [], ts_effects = []\<rparr>"

definition example_store :: artifact_store where
  "example_store = \<lparr>files = [(''t1'', sha256_hex ''hi'') \<mapsto> Bytes ''hi''], dir_links = {}\<rparr>"

definition example_profile :: json where
  "example_profile = JObj [(''id'', JStr ''tests''), (''executable'', JStr ''pytest''), (''args'', JList [JStr ''tests'']),
     (''allowed_args'', JList [JStr ''-q'']), (''timeout_seconds'', JInt 60), (''poll_seconds'', JInt 1),
     (''output_cap_bytes'', JInt 1024), (''environment'', JStr ''minimal'')]"

definition example_exec :: json where
  "example_exec = JObj [(''workspace_id'', JStr ''w''), (''profile'', JStr ''tests''), (''args'', JList [JStr ''-q''])]"

definition example_write :: json where
  "example_write = JObj [(''workspace_id'', JStr ''w''), (''path'', JStr ''a.txt''),
     (''precondition'', JObj [(''absent'', JBool True)]), (''content_ref'', JStr (mk_ref ''t1'' (sha256_hex ''hi'')))]"

lemma example_ident: "is_ident ''t1''" "is_ident ''w''" "is_ident ''tests''"
  by (simp_all add: is_ident_def ident_char_def)

lemma example_profile_valid: "validate_profile example_profile = Inr example_profile"
  by (simp add: validate_profile_def example_profile_def py_fields_def py_defs py_identifier_def example_ident
      py_text_def check_args_def MAX_ARGS_def MAX_OUTPUT_BYTES_def)

lemma lower_exec_reviewed_witness:
  "\<exists>request. lower ''t1'' ''op1'' EXEC example_exec example_state example_store ''a''
       (JObj [(''profiles'', JObj [(''tests'', example_profile)])]) {} = Inr request
     \<and> dget (dget request ''payload'') ''command'' =
         JObj [(''executable'', JStr ''pytest''), (''args'', JList [JStr ''tests'', JStr ''-q''])]"
proof -
  let ?a = "JObj [(''profiles'', JObj [(''tests'', example_profile)])]"
  have v: "validate_exec_input example_exec = Inr example_exec"
    by (simp add: validate_exec_input_def example_exec_def py_fields_def py_defs py_identifier_def example_ident
        check_args_def MAX_ARGS_def py_text_def)
  have p: "dget (dget ?a ''profiles'') (sget example_exec ''profile'') = example_profile"
    by (simp add: py_defs example_exec_def)
  have "admit_exec example_exec ?a = Inr example_profile"
    unfolding admit_exec_def p by (simp add: example_profile_def example_exec_def py_defs subset_of_def
        py_hashable_all_def py_mem_def)
  then obtain request where l: "lower ''t1'' ''op1'' EXEC example_exec example_state example_store ''a'' ?a {} = Inr request"
    by (simp add: lower_def OPERATIONS_def WRITE_def EXEC_def example_state_def lower_exec_def profile_digest_def
        example_profile_valid)
  from lower_exec_reviewed [OF l v] l show ?thesis
    unfolding p by (auto simp: example_profile_def example_exec_def py_defs)
qed

lemma lower_write_bound_witness:
  "\<exists>request. lower ''t1'' ''op1'' WRITE example_write example_state example_store ''a'' (JObj []) {} = Inr request
     \<and> dget (dget request ''payload'') ''content_sha256'' = JStr (sha256_hex ''hi'')"
proof -
  have "confined (JStr ''a.txt'') = Inr (JStr ''a.txt'')"
    by (simp add: confined_Inr py_text_def is_absolute_def path_parts_def ascii_alpha_def scheme_char_def)
  then have v: "validate_write_input example_write = Inr example_write"
    using sha.address_is_ref [OF example_ident(1)]
    by (simp add: validate_write_input_def example_write_def py_fields_def py_defs py_identifier_def example_ident
        py_ref_def check_precondition_def)
  have r: "read example_store ''t1'' (dget example_write ''content_ref'') = Inr ''hi''"
    by (simp add: read_Inr example_store_def example_write_def py_defs example_ident)
  have d: "decode_utf8 ''hi'' = Inr ''hi''" by (simp add: decode_utf8_def utf8_seq.simps)
  obtain request where l: "lower ''t1'' ''op1'' WRITE example_write example_state example_store ''a'' (JObj []) {} = Inr request"
    using r d by (simp add: lower_def OPERATIONS_def example_state_def lower_write_def MAX_WRITE_BYTES_def
        lower_precondition_def) (simp add: example_write_def py_defs Let_def)
  from lower_write_bound [OF l v] r l show ?thesis by auto
qed

end
