(* ===== verification/Journal.thy ===== *)
theory Journal
  imports Effect_Contracts
begin

section \<open>The capability journal\<close>

text \<open>
  runtime/kernel/journal.py: the reviewed classification of capabilities, the compiled authority of a
  Task, the hash-chained append-only journal kept in the artifact store, its structural analysis, and
  the verdict of the \<open>capability_journal\<close> verifier.

  \<open>append\<close> and \<open>read\<close> of the module are \<open>journal_append\<close> and \<open>journal_read\<close>. The analysis is a fold of one
  step per entry over an explicit accumulator (the local variables of the loop), so that the
  theorems about journals are inductions over entries: a journal without problems follows the effect
  lifecycle, a problem or a violation found once is found in every longer journal.
\<close>

definition CLASSIFICATION :: string where "CLASSIFICATION = ''kernel@1''"

datatype scope = INTERNAL_EFFECT | TARGET_READ | TARGET_EFFECT

definition OPERATION_CLASSES :: "(string \<times> string) list" where
  "OPERATION_CLASSES =
    [(''artifact.write'', ''task.artifact.write''), (''artifact.read'', ''task.artifact.read''),
     (''human.request'', ''task.human.request''), (''text.stats'', ''task.compute''),
     (''youtrack.read'', ''external.read''), (''workspace.read'', ''workspace.read''),
     (''context.request'', ''context.read''), (''worker.run'', ''worker.run''),
     (''fixture.effect'', ''external.effect''), (''workspace.write'', ''workspace.write''),
     (''workspace.exec'', ''workspace.exec'')]"

definition LIFECYCLE_CLASSES :: "string list" where
  "LIFECYCLE_CLASSES = [''workspace.write'', ''workspace.exec'']"

definition TARGET_READ_CLASSES :: "string list" where
  "TARGET_READ_CLASSES = [''workspace.read'', ''external.read'', ''context.read'']"

definition TARGET_EFFECT_CLASSES :: "string list" where
  "TARGET_EFFECT_CLASSES = [''external.effect'', ''worker.run'', ''workspace.write'', ''workspace.exec'']"

definition UNCLASSIFIED :: string where "UNCLASSIFIED = ''unclassified''"
definition OUTCOMES :: "string list" where
  "OUTCOMES = [''success'', ''failure'', ''uncertain'', ''not_dispatched'']"
definition RECONCILED :: "string list" where
  "RECONCILED = [''APPLIED'', ''NOT_APPLIED'', ''DIFFERENT_STATE'', ''STILL_UNKNOWN'']"
definition MAX_ENTRIES :: nat where "MAX_ENTRIES = 256"

definition operation_class :: "string \<Rightarrow> string" where
  "operation_class capability = (case map_of OPERATION_CLASSES capability of None \<Rightarrow> UNCLASSIFIED | Some c \<Rightarrow> c)"

definition effect_scope :: "string \<Rightarrow> scope" where
  "effect_scope c =
     (if prefix ''task.'' c then INTERNAL_EFFECT
      else if c \<in> set TARGET_READ_CLASSES then TARGET_READ else TARGET_EFFECT)"

definition internal :: "string \<Rightarrow> bool" where
  "internal c \<longleftrightarrow> effect_scope c = INTERNAL_EFFECT"

definition mutating :: "string list \<Rightarrow> bool" where
  "mutating capabilities = list_ex (\<lambda>name. effect_scope (operation_class name) = TARGET_EFFECT) capabilities"

subsection \<open>Effective authority\<close>

definition compile_authority ::
  "string \<Rightarrow> string list \<Rightarrow> string list \<Rightarrow> bool \<Rightarrow> (string \<times> json) list \<Rightarrow> string list \<Rightarrow> json res" where
  "compile_authority task_id capabilities workspaces externally_bounded profiles ask_before =
     seqR (py_identifier (JStr task_id))
     (let names = sorted_set capabilities in
      Inr (message ''EffectiveAuthority'' (JObj
        ([(''task_id'', JStr task_id), (''revision'', JInt 0), (''classification'', JStr CLASSIFICATION),
          (''capabilities'', JList (map JStr names)),
          (''operation_classes'', JList (map JStr (sorted_set (map operation_class names)))),
          (''workspaces'', JList (map JStr (sorted_set workspaces))),
          (''externally_bounded'', JBool externally_bounded)]
         @ (if profiles \<noteq> [] then [(''profiles'', JObj (sort_key fst profiles))] else [])
         @ (if ask_before \<noteq> [] then [(''ask_before'', JList (map JStr (sorted_set ask_before)))] else [])))))"

definition validate_authority :: "json \<Rightarrow> string \<Rightarrow> json res" where
  "validate_authority raw task_id =
     bindR (unpack raw ''EffectiveAuthority'') (\<lambda>p.
     bindR (py_fields p [''task_id'', ''revision'', ''classification'', ''capabilities'', ''operation_classes'',
              ''workspaces'', ''externally_bounded''] [''profiles'', ''ask_before'']) (\<lambda>authority.
     seqR (checks
       [(if has_key authority ''profiles'' then
           seqR (raise_if (\<not> is_dict (dget authority ''profiles'') \<or> 16 < length (jitems (dget authority ''profiles'')))
                  (ValueError ''Invalid authority profiles''))
           (forR (\<lambda>(name, profile). bindR (validate_profile profile) (\<lambda>q.
              raise_if (dget q ''id'' \<noteq> JStr name) (ValueError ''Profile key mismatch'')))
            (jitems (dget authority ''profiles'')))
         else Inr ()),
        (if has_key authority ''ask_before'' then
           seqR (raise_if (\<not> is_list (dget authority ''ask_before'')) (ValueError ''Approval applies to effect classes only''))
           (bindR (subset_of (lget authority ''ask_before'') (map JStr LIFECYCLE_CLASSES)) (\<lambda>ok.
             raise_if (\<not> ok) (ValueError ''Approval applies to effect classes only'')))
         else Inr ()),
        raise_if (dget authority ''task_id'' \<noteq> JStr task_id \<or> dget authority ''classification'' \<noteq> JStr CLASSIFICATION)
          (ValueError ''Authority does not belong to this Task/classification''),
        forR (\<lambda>key. seqR
            (raise_if (\<not> is_list (dget authority key) \<or> 32 < length (lget authority key)) (ValueError ''Invalid authority list''))
            (forR (\<lambda>i. py_text i 512) (lget authority key)))
          [''capabilities'', ''operation_classes'', ''workspaces'']])
     (Inr authority)))"

subsection \<open>Entries\<close>

definition COMMON :: "string list" where
  "COMMON = [''task_id'', ''seq'', ''previous_ref'', ''phase'']"

definition SHAPES :: "(string \<times> string list \<times> string list) list" where
  "SHAPES =
    [(''denied'', [''decision_id'', ''capability'', ''operation_class'', ''provider'', ''operation'',
        ''reason'', ''authority_ref'', ''contract_revision''], [''workspace_id'']),
     (''admitted'', [''decision_id'', ''operation_id'', ''capability'', ''operation_class'', ''provider'',
        ''operation'', ''request_digest'', ''authority_ref'', ''contract_revision''], [''workspace_id'']),
     (''dispatched'', [''operation_id'', ''request_ref'', ''request_digest''], [''approval_ref'']),
     (''observed'', [''operation_id'', ''outcome'', ''receipt_ref''], []),
     (''reconciled'', [''operation_id'', ''state'', ''evidence_ref''], [''receipt_ref''])]"

text \<open>\<open>re.fullmatch (r'sha256:...', str (v))\<close>: no value but a string prints to such a text.\<close>

definition check_digest :: "json \<Rightarrow> unit res" where
  "check_digest v = raise_if (\<not> is_str v \<or> \<not> is_digest (jstr v)) (ValueError ''Invalid request digest'')"

definition opt_ref :: "json \<Rightarrow> string \<Rightarrow> unit res" where
  "opt_ref payload key = (if has_key payload key then voidR (py_ref (dget payload key)) else Inr ())"

definition check_phase :: "string \<Rightarrow> json \<Rightarrow> unit res" where
  "check_phase phase payload =
     (if phase = ''observed'' then
        checks [voidR (py_text (dget payload ''operation_id'') 100),
          raise_if (dget payload ''outcome'' \<notin> JStr ` set OUTCOMES) (ValueError ''Invalid observed outcome''),
          voidR (py_ref (dget payload ''receipt_ref''))]
      else if phase = ''dispatched'' then
        checks [voidR (py_text (dget payload ''operation_id'') 100), voidR (py_ref (dget payload ''request_ref'')),
          check_digest (dget payload ''request_digest''), opt_ref payload ''approval_ref'']
      else if phase = ''reconciled'' then
        checks [voidR (py_text (dget payload ''operation_id'') 100),
          raise_if (dget payload ''state'' \<notin> JStr ` set RECONCILED) (ValueError ''Invalid reconciliation state''),
          voidR (py_ref (dget payload ''evidence_ref'')), opt_ref payload ''receipt_ref'']
      else
        checks [forR (\<lambda>key. py_text (dget payload key) 100)
            [''decision_id'', ''capability'', ''operation_class'', ''provider'', ''operation''],
          voidR (py_ref (dget payload ''authority_ref'')),
          raise_if (\<not> is_int (dget payload ''contract_revision'') \<or> jint (dget payload ''contract_revision'') < 0)
            (ValueError ''Invalid journal contract revision''),
          (if phase = ''admitted'' then
             checks [voidR (py_text (dget payload ''operation_id'') 100), check_digest (dget payload ''request_digest'')]
           else voidR (py_text (dget payload ''reason'') 512)),
          (if has_key payload ''workspace_id'' then voidR (py_text (dget payload ''workspace_id'') 512) else Inr ())])"

definition validate_entry :: "json \<Rightarrow> string \<Rightarrow> json res" where
  "validate_entry raw task_id =
     bindR (unpack raw ''CapabilityJournalEntry'') (\<lambda>payload.
     let phase = dget payload ''phase'' in
     bindR (in_strs phase (map fst SHAPES)) (\<lambda>known.
     case (if known then map_of SHAPES (jstr phase) else None) of
       None \<Rightarrow> Inl (ValueError ''Invalid journal phase'')
     | Some (required, optional) \<Rightarrow>
         seqR (py_fields payload (COMMON @ required) optional)
         (seqR (checks
           [raise_if (dget payload ''task_id'' \<noteq> JStr task_id \<or> \<not> is_int (dget payload ''seq'') \<or> jint (dget payload ''seq'') < 0)
              (ValueError ''Misaddressed journal entry''),
            (if dget payload ''previous_ref'' \<noteq> JNull then voidR (py_ref (dget payload ''previous_ref'')) else Inr ()),
            check_phase (jstr phase) payload])
         (Inr payload))))"

subsection \<open>The chain\<close>

definition entry_message :: "string \<Rightarrow> string option \<Rightarrow> nat \<Rightarrow> (string \<times> json) list \<Rightarrow> json" where
  "entry_message task_id head len entry =
     message ''CapabilityJournalEntry'' (JObj (dict_merge
       [(''task_id'', JStr task_id), (''seq'', JInt (int len)), (''previous_ref'', jopt JStr head)] entry))"

definition journal_append ::
  "artifact_store \<Rightarrow> string \<Rightarrow> string option \<Rightarrow> nat \<Rightarrow> (string \<times> json) list \<Rightarrow> string res \<times> artifact_store" where
  "journal_append store task_id head len entry =
     (if MAX_ENTRIES \<le> len then (Inl (ValueError ''Capability journal limit reached''), store)
      else let v = entry_message task_id head len entry in
        case validate_entry v task_id of Inl e \<Rightarrow> (Inl e, store) | Inr _ \<Rightarrow> put_json store task_id v)"

text \<open>
  The loop of \<open>read\<close>: it raises as soon as more entries were read than the recorded length, so at
  most \<open>length\<close> further iterations are possible; \<open>left\<close> counts them down.
\<close>

fun journal_walk :: "artifact_store \<Rightarrow> string \<Rightarrow> nat \<Rightarrow> json \<Rightarrow> (string \<times> json) list \<Rightarrow> (string \<times> json) list res" where
  "journal_walk store task_id left cursor entries =
     (if cursor = JNull then Inr entries
      else case left of
        0 \<Rightarrow> Inl (ValueError ''Journal chain is longer than its recorded length'')
      | Suc m \<Rightarrow>
          bindR (read_json store task_id cursor) (\<lambda>raw.
          bindR (validate_entry raw task_id) (\<lambda>payload.
          journal_walk store task_id m (dget payload ''previous_ref'') ((jstr cursor, payload) # entries))))"

declare journal_walk.simps [simp del]

definition journal_read :: "artifact_store \<Rightarrow> string \<Rightarrow> string option \<Rightarrow> int \<Rightarrow> (string \<times> json) list res" where
  "journal_read store task_id head len =
     (if \<not> (0 \<le> len \<and> len \<le> int MAX_ENTRIES) then Inl (ValueError ''Invalid journal length'')
      else bindR (journal_walk store task_id (nat len) (jopt JStr head) []) (\<lambda>entries.
        if length entries \<noteq> nat len \<or> map (\<lambda>(_, p). dget p ''seq'') entries \<noteq> map (\<lambda>i. JInt (int i)) [0..<nat len]
        then Inl (ValueError ''Journal chain does not match its recorded length and order'') else Inr entries))"

subsection \<open>Analysis\<close>

record analysis =
  an_admitted :: "(string \<times> json) list"
  an_observed :: "(string \<times> json) list"
  an_denials :: "json list"
  an_problems :: "string list"
  an_dispatched :: "(string \<times> json) list"
  an_reconciled :: "(string \<times> json list) list"
  an_uncertain :: "string list"

definition new_analysis :: analysis where
  "new_analysis = \<lparr>an_admitted = [], an_observed = [], an_denials = [], an_problems = [], an_dispatched = [],
     an_reconciled = [], an_uncertain = []\<rparr>"

definition in_dict :: "string \<Rightarrow> (string \<times> 'v) list \<Rightarrow> bool" where
  "in_dict k d \<longleftrightarrow> map_of d k \<noteq> None"

text \<open>Membership of a text value in a list of a validated authority.\<close>

definition listed :: "json \<Rightarrow> string \<Rightarrow> json \<Rightarrow> bool" where
  "listed authority key v \<longleftrightarrow> py_mem v (lget authority key)"

definition admitted_problems :: "analysis \<Rightarrow> (string \<times> json) list \<Rightarrow> json \<Rightarrow> string list" where
  "admitted_problems a authorities entry =
     (let op = sget entry ''operation_id'' in
      (if in_dict op (an_admitted a) then [''operation '' @ op @ '' admitted twice''] else [])
      @ (case map_of authorities (sget entry ''authority_ref'') of
           None \<Rightarrow> [''operation '' @ op @ '' cites unknown authority'']
         | Some authority \<Rightarrow>
             if \<not> listed authority ''operation_classes'' (dget entry ''operation_class'')
                \<or> \<not> listed authority ''capabilities'' (dget entry ''capability'')
             then [''operation '' @ op @ '' ('' @ sget entry ''operation_class'' @ '') outside effective authority'']
             else if has_key entry ''workspace_id'' \<and> \<not> listed authority ''workspaces'' (dget entry ''workspace_id'')
             then [''operation '' @ op @ '' targets a workspace outside effective authority''] else []))"

definition admitted_lifecycle :: "analysis \<Rightarrow> string \<Rightarrow> bool" where
  "admitted_lifecycle a op \<longleftrightarrow> (case map_of (an_admitted a) op of None \<Rightarrow> False
     | Some e \<Rightarrow> sget e ''operation_class'' \<in> set LIFECYCLE_CLASSES)"

definition dispatched_problems :: "analysis \<Rightarrow> string \<Rightarrow> string list" where
  "dispatched_problems a op =
     (if \<not> admitted_lifecycle a op then [''operation '' @ op @ '' dispatched without an effect admission''] else [])
     @ (if in_dict op (an_dispatched a) \<or> in_dict op (an_observed a)
        then [''operation '' @ op @ '' dispatched out of order''] else [])"

definition observed_problems :: "analysis \<Rightarrow> string \<Rightarrow> json \<Rightarrow> string list" where
  "observed_problems a op entry =
     (if \<not> in_dict op (an_admitted a) then [''operation '' @ op @ '' observed without admission'']
      else if admitted_lifecycle a op \<and>
        (in_dict op (an_dispatched a) \<longleftrightarrow> dget entry ''outcome'' = JStr ''not_dispatched'')
      then [''operation '' @ op @ '' observed inconsistently with its dispatch''] else [])
     @ (if in_dict op (an_observed a) then [''operation '' @ op @ '' observed twice''] else [])"

definition analyze_entry :: "(string \<times> json) list \<Rightarrow> analysis \<Rightarrow> json \<Rightarrow> analysis" where
  "analyze_entry authorities a entry =
     (let op = sget entry ''operation_id''; phase = sget entry ''phase'' in
      if phase = ''denied'' then a\<lparr>an_denials := an_denials a @ [entry]\<rparr>
      else if phase = ''admitted'' then
        a\<lparr>an_problems := an_problems a @ admitted_problems a authorities entry,
          an_admitted := AList.update op entry (an_admitted a)\<rparr>
      else if phase = ''dispatched'' then
        a\<lparr>an_problems := an_problems a @ dispatched_problems a op,
          an_dispatched := AList.update op entry (an_dispatched a)\<rparr>
      else if phase = ''observed'' then
        a\<lparr>an_problems := an_problems a @ observed_problems a op entry,
          an_observed := AList.update op entry (an_observed a),
          an_uncertain := (if dget entry ''outcome'' = JStr ''uncertain'' then List.insert op (an_uncertain a)
                           else an_uncertain a)\<rparr>
      else if phase = ''reconciled'' then
        a\<lparr>an_problems := an_problems a @
            (if op \<notin> set (an_uncertain a) then [''operation '' @ op @ '' reconciled without an uncertain outcome''] else []),
          an_reconciled := AList.update op
            ((case map_of (an_reconciled a) op of None \<Rightarrow> [] | Some es \<Rightarrow> es) @ [entry]) (an_reconciled a),
          an_uncertain := (if dget entry ''state'' \<noteq> JStr ''STILL_UNKNOWN'' then removeAll op (an_uncertain a)
                           else an_uncertain a)\<rparr>
      else a)"

definition analyze :: "(string \<times> json) list \<Rightarrow> (string \<times> json) list \<Rightarrow> analysis" where
  "analyze entries authorities = foldl (\<lambda>a (_, entry). analyze_entry authorities a entry) new_analysis entries"

definition unreconciled :: "analysis \<Rightarrow> string list" where
  "unreconciled a = sorted_set (an_uncertain a)"

definition unresolved_effects :: "analysis \<Rightarrow> string list" where
  "unresolved_effects a =
     sorted_set (map fst (filter (\<lambda>(op, entry).
       effect_scope (sget entry ''operation_class'') = TARGET_EFFECT
       \<and> (in_dict op (an_dispatched a) \<and> \<not> in_dict op (an_observed a) \<or> op \<in> set (an_uncertain a))) (an_admitted a)))"

subsection \<open>Predicates and the verdict\<close>

definition PREDICATES :: "(string \<times> string list \<times> string list) list" where
  "PREDICATES =
    [(''operation_classes_subset'', [''name'', ''allowed''], []), (''admitted_before_observed'', [''name''], []),
     (''workspace_subset'', [''name''], []), (''observed_operation_present'', [''name'', ''operations''], []),
     (''no_target_effect'', [''name''], [''allowed'']), (''effects_reconciled'', [''name''], [])]"

definition check_predicate :: "json \<Rightarrow> unit res" where
  "check_predicate p =
     (if \<not> is_dict p then Inl (ValueError ''Unsupported capability_journal predicate'')
      else bindR (in_strs (dget p ''name'') (map fst PREDICATES)) (\<lambda>known.
        case (if known then map_of PREDICATES (sget p ''name'') else None) of
          None \<Rightarrow> Inl (ValueError ''Unsupported capability_journal predicate'')
        | Some (required, optional) \<Rightarrow>
            seqR (py_fields p required optional)
            (forR (\<lambda>key. if has_key p key then
                seqR (raise_if (\<not> is_list (dget p key) \<or> \<not> (1 \<le> length (lget p key) \<and> length (lget p key) \<le> 16))
                       (ValueError ''Expected a bounded predicate list''))
                (forR (\<lambda>name. py_text name 100) (lget p key))
              else Inr ()) [''allowed'', ''operations''])))"

definition validate_predicates :: "json \<Rightarrow> json res" where
  "validate_predicates v =
     (if \<not> is_list v \<or> \<not> (1 \<le> length (jlist v) \<and> length (jlist v) \<le> 8)
      then Inl (ValueError ''Expected 1..8 journal predicates'')
      else seqR (forR check_predicate (jlist v)) (Inr v))"

text \<open>The criterion statuses of runtime/kernel/completion.py; this verifier gives the first four.\<close>

datatype verdict = Satisfied | Failed | Pending | Unknown | WaitingHuman | Waived

fun verdict_str :: "verdict \<Rightarrow> string" where
  "verdict_str Satisfied = ''satisfied''"
| "verdict_str Failed = ''failed''"
| "verdict_str Pending = ''pending''"
| "verdict_str Unknown = ''unknown''"
| "verdict_str WaitingHuman = ''waiting_human''"
| "verdict_str Waived = ''waived''"

definition admitted_classes :: "analysis \<Rightarrow> (string \<Rightarrow> bool) \<Rightarrow> string list" where
  "admitted_classes a P = sorted_set (filter P (map (\<lambda>(_, e). sget e ''operation_class'') (an_admitted a)))"

text \<open>One predicate: the detail of its failure, if it fails.\<close>

definition predicate_failure :: "analysis \<Rightarrow> (string \<times> json) list \<Rightarrow> json \<Rightarrow> string option" where
  "predicate_failure a authorities p =
     (if dget p ''name'' = JStr ''operation_classes_subset'' then
        let outside = admitted_classes a (\<lambda>c. \<not> internal c \<and> JStr c \<notin> set (lget p ''allowed'')) in
        if outside \<noteq> [] then Some (''Admitted external classes '' @ py_repr_list outside @ '' outside ''
             @ py_repr_list (sort (map jstr (lget p ''allowed'')))) else None
      else if dget p ''name'' = JStr ''workspace_subset'' then
        map_option (\<lambda>(_, e). ''Operation '' @ sget e ''operation_id'' @ '' targeted a workspace outside the Task's scope'')
          (find (\<lambda>(_, e). has_key e ''workspace_id'' \<and>
             \<not> listed (the (map_of authorities (sget e ''authority_ref''))) ''workspaces'' (dget e ''workspace_id'')) (an_admitted a))
      else if dget p ''name'' = JStr ''no_target_effect'' then
        let effects = admitted_classes a (\<lambda>c. effect_scope c = TARGET_EFFECT \<and> JStr c \<notin> set (lget p ''allowed'')) in
        if effects \<noteq> [] then Some (''Admitted target effects '' @ py_repr_list effects) else None
      else None)"

definition observed_present :: "analysis \<Rightarrow> json \<Rightarrow> bool" where
  "observed_present a p = list_ex (\<lambda>(op, entry).
     (case map_of (an_observed a) op of None \<Rightarrow> False | Some o' \<Rightarrow> dget o' ''outcome'' = JStr ''success'')
     \<and> dget entry ''operation'' \<in> set (lget p ''operations'')) (an_admitted a)"

fun run_predicates :: "analysis \<Rightarrow> (string \<times> json) list \<Rightarrow> json list \<Rightarrow> string + string list" where
  "run_predicates a authorities [] = Inr []"
| "run_predicates a authorities (p # ps) =
     (case predicate_failure a authorities p of
        Some d \<Rightarrow> Inl d
      | None \<Rightarrow> (case run_predicates a authorities ps of
            Inl d \<Rightarrow> Inl d
          | Inr pending \<Rightarrow>
              Inr ((if dget p ''name'' = JStr ''observed_operation_present'' \<and> \<not> observed_present a p
                    then [sget p ''name''] else []) @ pending)))"

definition verify :: "json list \<Rightarrow> analysis \<Rightarrow> nat \<Rightarrow> (string \<times> json) list \<Rightarrow> verdict \<times> string" where
  "verify predicates a len authorities =
     (if an_problems a \<noteq> [] then
        (Failed, ''Journal integrity or authority violation: '' @ py_take 380 (join_with ''; '' (an_problems a)))
      else case run_predicates a authorities predicates of
        Inl d \<Rightarrow> (Failed, d)
      | Inr pending \<Rightarrow>
          let summary = show_nat len @ '' entries; admitted classes '' @ py_repr_list (admitted_classes a (\<lambda>_. True))
                @ ''; '' @ show_nat (length (an_denials a)) @ '' denial(s)'' in
          if an_uncertain a \<noteq> [] \<and> list_ex (\<lambda>p. dget p ''name'' = JStr ''effects_reconciled'') predicates
          then (Unknown, summary @ ''; uncertain target effects not reconciled: '' @ py_repr_list (unreconciled a))
          else if pending \<noteq> [] then (Pending, summary @ ''; awaiting '' @ py_repr_list pending)
          else (Satisfied, summary))"

text \<open>References to artifacts of the example Task.\<close>

lemma example_ref_ok: "is_ref (mk_ref ''t1'' (sha256_hex x))" "utf8_str (mk_ref ''t1'' (sha256_hex x))"
  "length (mk_ref ''t1'' (sha256_hex x)) = 85"
proof -
  show "is_ref (mk_ref ''t1'' (sha256_hex x))" by (rule sha.address_is_ref) (rule example_ident)
  have "list_all hex_char (sha256_hex x)" using sha.hexdigest_hex64 by (simp add: is_hex64_def)
  then have "\<forall>c\<in>set (sha256_hex x). (of_char c :: nat) < 128" by (auto simp: list_all_iff hex_char_def Let_def)
  then show "utf8_str (mk_ref ''t1'' (sha256_hex x))" by (intro utf8_str_ascii) (auto simp: mk_ref_def)
  show "length (mk_ref ''t1'' (sha256_hex x)) = 85" by (simp add: mk_ref_def sha.digest_length)
qed

end
