(* ===== verification/Canonical.thy ===== *)
theory Canonical
  imports Contracts
begin

section \<open>Access commutes with the canonical form\<close>

text \<open>
  A retained document is read back in canonical form: keys sorted, the same values. These lemmas let
  a validator be moved across the round trip: field access, type tests and the primitive validators
  see the same document before and after.
\<close>

named_theorems canon_simps "access to a canonical document"

lemma canon_types [canon_simps, simp]:
  "is_str (canon v) = is_str v" "is_int (canon v) = is_int v" "is_dict (canon v) = is_dict v"
  "is_list (canon v) = is_list v" "is_bool (canon v) = is_bool v"
  "jstr (canon v) = jstr v" "jint (canon v) = jint v"
  "canon v = JStr s \<longleftrightarrow> v = JStr s" "canon v = JInt i \<longleftrightarrow> v = JInt i" "canon v = JNull \<longleftrightarrow> v = JNull"
  "canon v = JBool b \<longleftrightarrow> v = JBool b" "hashable (canon v) = hashable v"
  by (cases v; simp)+

lemma canon_in_strs [canon_simps, simp]: "canon v \<in> JStr ` S \<longleftrightarrow> v \<in> JStr ` S"
  by auto

lemma jlist_canon [canon_simps]: "jlist (canon v) = map canon (jlist v)"
  by (cases v) (simp_all add: canon_list_map)

lemma jkeys_canon [canon_simps]: "set (jkeys (canon v)) = set (jkeys v)"
proof (cases v)
  case (JObj d)
  have "set (map fst (sort_key fst (canon_items d))) = set (map fst (canon_items d))" by simp
  then show ?thesis using canon_keys [of d] by (simp add: JObj jkeys_def)
qed (simp_all add: jkeys_def)

lemma has_key_canon [canon_simps]: "has_key (canon v) k = has_key v k"
  by (simp add: has_key_iff jkeys_canon)

definition key_distinct :: "json \<Rightarrow> bool" where
  "key_distinct v \<longleftrightarrow> distinct (map fst (jitems v))"

lemma wfj_key_distinct: "wfj v \<Longrightarrow> key_distinct v"
  by (cases v) (auto simp: key_distinct_def)

lemma dget_canon: "key_distinct v \<Longrightarrow> dget (canon v) k = canon (dget v k)"
proof (cases v)
  case (JObj d)
  assume "key_distinct v"
  then have "map_of (sort_key fst (canon_items d)) k = map_option canon (map_of d k)"
    by (intro wfj_canon_iff_keys) (simp add: key_distinct_def JObj)
  then show ?thesis by (simp add: JObj dget_def split: option.splits)
qed (simp_all add: dget_def)

lemma length_jitems_canon [canon_simps]: "length (jitems (canon v)) = length (jitems v)"
  by (cases v) (simp_all add: canon_items_map)

lemma py_fields_canon: "py_fields (canon v) req opt = map_sum id canon (py_fields v req opt)"
  by (simp add: py_fields_def jkeys_canon)

lemma py_text_canon: "py_text (canon v) n = map_sum id canon (py_text v n)"
  by (simp add: py_text_def)

lemma py_identifier_canon: "py_identifier (canon v) = map_sum id canon (py_identifier v)"
  by (simp add: py_identifier_def)

lemma is_ok_map_sum [simp]: "is_ok (map_sum f g r) = is_ok r"
  by (cases r) simp_all

lemma voidR_map_sum [simp]: "voidR (map_sum id g r) = voidR r"
  by (cases r) simp_all

lemma bindR_map_sum_const [simp]: "bindR (map_sum id g r) (\<lambda>_. c) = bindR r (\<lambda>_. c)"
  by (cases r) simp_all

lemma unpack_canon:
  assumes "wfj v" and "unpack v kind = Inr p"
  shows "unpack (canon v) kind = Inr (canon p)"
proof -
  note kd = dget_canon [OF wfj_key_distinct [OF assms(1)]]
  from assms(2) show ?thesis
    unfolding unpack_eq_Inr by (auto simp: kd py_fields_canon encode_canon)
qed

lemma wfj_dget: "wfj v \<Longrightarrow> wfj (dget v k)"
  by (cases v) (auto simp: dget_def wfj_items_iff split: option.splits dest!: map_of_SomeD)

end
