(* ===== verification/Journal_Facts.thy ===== *)
theory Journal_Facts
  imports Journal Canonical
begin

section \<open>What the journal guarantees\<close>

text \<open>
  The proofs about runtime/kernel/journal.py: an appended entry reads back at the end of the chain, a
  chain determines its entries up to SHA-256, a journal without problems obeys the effect
  lifecycle and the authority it cites, and violations are permanent.
\<close>

subsection \<open>Appending and reading the chain\<close>

lemma journal_walk_acc:
  "journal_walk st t n c (xs @ acc) = bindR (journal_walk st t n c xs) (\<lambda>es. Inr (es @ acc))"
proof (induction n arbitrary: c xs)
  case 0
  then show ?case by (simp add: journal_walk.simps)
next
  case (Suc n)
  show ?case
  proof (cases "c = JNull")
    case False
    then show ?thesis
      unfolding journal_walk.simps [of st t "Suc n"]
      using Suc.IH [of _ "(jstr c, p) # xs" for p]
      by (cases "read_json st t c"; cases "validate_entry (projr (read_json st t c)) t") simp_all
  qed (simp add: journal_walk.simps)
qed

lemma journal_walk_acc0: "journal_walk st t n c acc = bindR (journal_walk st t n c []) (\<lambda>es. Inr (es @ acc))"
  using journal_walk_acc [of st t n c "[]" acc] by simp

lemma read_json_keeps:
  assumes "read_json st t r = Inr v" and "put st t' c = (x, st')"
  shows "read_json st' t r = Inr v"
proof -
  from assms(1) obtain bs where bs: "read st t r = Inr bs" "json_loads bs = Inr v"
    by (auto simp: read_json_def bindR_eq_Inr)
  from store.put_keeps [OF bs(1) assms(2)] bs(2) show ?thesis by (simp add: read_json_def)
qed

lemma journal_walk_keeps:
  assumes "put st t' c = (x, st')"
  shows "journal_walk st t n cur acc = Inr es \<Longrightarrow> journal_walk st' t n cur acc = Inr es"
proof (induction n arbitrary: cur acc)
  case 0
  then show ?case by (simp add: journal_walk.simps split: if_splits)
next
  case (Suc n)
  show ?case
  proof (cases "cur = JNull")
    case False
    with Suc.prems obtain v p where "read_json st t cur = Inr v" "validate_entry v t = Inr p"
      and w: "journal_walk st t n (dget p ''previous_ref'') ((jstr cur, p) # acc) = Inr es"
      by (auto simp: journal_walk.simps [of st t "Suc n"] bindR_eq_Inr)
    with read_json_keeps [OF _ assms] Suc.IH [OF w] False show ?thesis
      by (simp add: journal_walk.simps [of st' t "Suc n"])
  qed (use Suc.prems in \<open>simp add: journal_walk.simps\<close>)
qed

text \<open>Validation does not see the order of the keys.\<close>

lemma check_phase_canon:
  assumes "key_distinct p"
  shows "check_phase ph (canon p) = check_phase ph p"
proof -
  note kd = dget_canon [OF assms]
  have ref: "voidR (py_ref (canon x)) = voidR (py_ref x)" for x by (simp add: py_ref_def)
  have dig: "check_digest (canon x) = check_digest x" for x by (simp add: check_digest_def)
  have opt: "opt_ref (canon p) k = opt_ref p k" for k by (simp add: opt_ref_def has_key_canon kd ref)
  show ?thesis
    unfolding check_phase_def by (simp add: kd ref dig opt py_text_canon has_key_canon)
qed

lemma validate_entry_canon:
  assumes "wfj v" and "validate_entry v t = Inr p"
  shows "validate_entry (canon v) t = Inr (canon p)"
proof -
  from assms(2) obtain req opt where u: "unpack v ''CapabilityJournalEntry'' = Inr p"
    and k: "in_strs (dget p ''phase'') (map fst SHAPES) = Inr True"
    and s: "map_of SHAPES (sget p ''phase'') = Some (req, opt)"
    and f: "py_fields p (COMMON @ req) opt = Inr p"
    and c: "dget p ''task_id'' = JStr t" "is_int (dget p ''seq'')" "0 \<le> jint (dget p ''seq'')"
      "(if dget p ''previous_ref'' \<noteq> JNull then voidR (py_ref (dget p ''previous_ref'')) else Inr ()) = Inr ()"
      "check_phase (sget p ''phase'') p = Inr ()"
    unfolding validate_entry_def bindR_eq_Inr Let_def checks_eq_Inr
    by (auto simp: bindR_eq_Inr py_fields_eq_Inr split: if_splits option.splits)
  have "wfj p" using u assms(1) wfj_dget [of v "''payload''"] by (auto simp: unpack_eq_Inr)
  then have kd: "key_distinct p" by (rule wfj_key_distinct)
  have ph: "in_strs (canon (dget p ''phase'')) (map fst SHAPES) = Inr True"
    using k by (auto simp: in_strs_True)
  have pr: "voidR (py_ref (canon x)) = voidR (py_ref x)" for x by (simp add: py_ref_def)
  have prev: "py_ref (dget p ''previous_ref'') = Inr (dget p ''previous_ref'')" if "dget p ''previous_ref'' \<noteq> JNull"
    using c(4) that by (auto simp: py_ref_eq_Inr)
  show ?thesis
    using c(1-3,5) prev unfolding validate_entry_def unpack_canon [OF assms(1) u] bindR_Inr Let_def dget_canon [OF kd] ph
    by (cases "dget p ''previous_ref'' = JNull")
      (simp_all add: s py_fields_canon f check_phase_canon [OF kd] pr)
qed

lemma validate_entry_payload: "validate_entry v t = Inr p \<Longrightarrow> p = dget v ''payload''"
  unfolding validate_entry_def bindR_eq_Inr Let_def unpack_eq_Inr
  by (auto simp: bindR_eq_Inr split: if_splits option.splits)

lemma entry_message_access:
  assumes "set (map fst entry) \<inter> {''task_id'', ''seq'', ''previous_ref''} = {}"
  shows "dget (dget (entry_message t head n entry) ''payload'') ''seq'' = JInt (int n)"
    and "dget (dget (entry_message t head n entry) ''payload'') ''previous_ref'' = jopt JStr head"
proof -
  have none: "map_of (List.rev entry) k = None" if "k \<in> {''task_id'', ''seq'', ''previous_ref''}" for k
  proof -
    have "k \<notin> fst ` set (List.rev entry)" using assms that by (simp only: set_rev set_map) blast
    then show ?thesis by (simp only: map_of_eq_None_iff not_False_eq_True)
  qed
  show "dget (dget (entry_message t head n entry) ''payload'') ''seq'' = JInt (int n)"
    and "dget (dget (entry_message t head n entry) ''payload'') ''previous_ref'' = jopt JStr head"
    by (simp_all add: entry_message_def dget_def [of "JObj _"] map_of_dict_merge none)
qed

lemma canon_jopt [simp]: "canon (jopt JStr h) = jopt JStr h"
  by (cases h) (simp_all add: jopt_def)

lemma put_json_roundtrip_raw:
  "wfj v \<Longrightarrow> \<exists>r st'. put_json new_store ''t1'' v = (Inr r, st')"
  using put_total [OF sound_new_store example_ident(1), of "encode v"]
  by (cases "put new_store ''t1'' (encode v)") (auto simp: put_json_def new_store_def)

lemma journal_read_keeps:
  "journal_read st t head n = Inr es \<Longrightarrow> journal_read (snd (put st t' c)) t head n = Inr es"
  using journal_walk_keeps [of st t' c "fst (put st t' c)" "snd (put st t' c)"]
  by (auto simp: journal_read_def bindR_eq_Inr split: if_splits)

lemma journal_append_reads:
  assumes old: "journal_read st t head (int n) = Inr es"
    and app: "journal_append st t head n entry = (Inr r, st')"
    and wf: "wfj (entry_message t head n entry)"
    and keys: "set (map fst entry) \<inter> {''task_id'', ''seq'', ''previous_ref''} = {}"
  shows "journal_read st' t (Some r) (int n + 1) =
    Inr (es @ [(r, canon (dget (entry_message t head n entry) ''payload''))])"
proof -
  let ?v = "entry_message t head n entry"
  let ?p = "dget ?v ''payload''"
  from app have n: "n < MAX_ENTRIES" and put: "put st t (encode ?v) = (Inr r, st')"
    and ok: "is_ok (validate_entry ?v t)"
    by (simp_all add: journal_append_def Let_def put_json_def is_ok_def split: if_splits sum.splits)
  from ok have val: "validate_entry ?v t = Inr ?p"
    unfolding is_ok_iff by (metis validate_entry_payload)
  have wfp: "key_distinct ?p" using wfj_dget [OF wf] by (rule wfj_key_distinct)
  have rd: "read_json st' t (JStr r) = Inr (canon ?v)"
    using docs.put_doc_read_later [OF wf put, of "[]"] unfolding read_json_def store.put_all.simps .
  have walk: "journal_walk st t n (jopt JStr head) [] = Inr es"
    and seqs: "length es = n" "map (\<lambda>(_, p). dget p ''seq'') es = map (\<lambda>i. JInt (int i)) [0..<n]"
    using old by (auto simp: journal_read_def bindR_eq_Inr split: if_splits)
  note vc = validate_entry_canon [OF wf val]
  have prev: "dget (canon ?p) ''previous_ref'' = jopt JStr head" and sq: "dget (canon ?p) ''seq'' = JInt (int n)"
    by (simp_all add: dget_canon [OF wfp] entry_message_access [OF keys])
  have "journal_walk st' t (Suc n) (JStr r) [] = journal_walk st' t n (jopt JStr head) [(r, canon ?p)]"
    by (subst journal_walk.simps) (simp add: rd vc prev)
  also have "\<dots> = Inr (es @ [(r, canon ?p)])"
    using journal_walk_keeps [OF put walk] by (subst journal_walk_acc0) simp
  finally have w: "journal_walk st' t (Suc n) (JStr r) [] = Inr (es @ [(r, canon ?p)])" .
  have "nat (int n + 1) = Suc n" by simp
  with w sq n seqs show ?thesis by (simp add: journal_read_def jopt_def)
qed

text \<open>
  C35. The journal is append only and reads back: after a successful \<open>append\<close> of a representable
  entry at the head of a chain of \<open>n\<close> entries, the new head with length \<open>n + 1\<close> reads as the old
  entries, unchanged and in order, followed by the new entry.
\<close>

theorem journal_append_read:
  assumes old: "journal_read st t head (int n) = Inr es"
    and app: "journal_append st t head n entry = (Inr r, st')"
    and wf: "wfj (entry_message t head n entry)"
    and keys: "set (map fst entry) \<inter> {''task_id'', ''seq'', ''previous_ref''} = {}"
  shows "journal_read st' t (Some r) (int n + 1) =
    Inr (es @ [(r, canon (dget (entry_message t head n entry) ''payload''))])"
  using assms by (rule journal_append_reads)

text \<open>A first entry of an empty journal.\<close>

definition example_entry :: "(string \<times> json) list" where
  "example_entry = [(''phase'', JStr ''observed''), (''operation_id'', JStr ''op1''), (''outcome'', JStr ''success''),
     (''receipt_ref'', JStr (mk_ref ''t1'' (sha256_hex ''receipt'')))]"

lemma example_entry_payload:
  "dget (entry_message ''t1'' None 0 example_entry) ''payload'' =
     JObj ([(''task_id'', JStr ''t1''), (''seq'', JInt 0), (''previous_ref'', JNull)] @ example_entry)"
  by (simp add: entry_message_def dict_merge_def example_entry_def jopt_def)

lemma example_entry_valid:
  "validate_entry (entry_message ''t1'' None 0 example_entry) ''t1'' =
     Inr (dget (entry_message ''t1'' None 0 example_entry) ''payload'')"
proof -
  let ?p = "JObj ([(''task_id'', JStr ''t1''), (''seq'', JInt 0), (''previous_ref'', JNull)] @ example_entry)"
  have m: "entry_message ''t1'' None 0 example_entry = message ''CapabilityJournalEntry'' ?p"
    using example_entry_payload by (simp add: entry_message_def)
  have "length (encode (message ''CapabilityJournalEntry'' ?p)) \<le> MAX_PACKET"
    by (rule length_encode_le)
      (simp add: message_def example_entry_def MAX_PACKET_def jsize_eval example_ref_ok(3))
  then have "unpack (message ''CapabilityJournalEntry'' ?p) ''CapabilityJournalEntry'' = Inr ?p"
    by (simp add: unpack_message)
  then show ?thesis unfolding m validate_entry_def
    by (simp add: example_entry_def py_defs in_strs_def SHAPES_def py_fields_def COMMON_def check_phase_def
        py_text_def OUTCOMES_def py_ref_def example_ref_ok)
qed

lemma example_appended:
  obtains r st where "journal_append new_store ''t1'' None 0 example_entry = (Inr r, st)"
    "wfj (entry_message ''t1'' None 0 example_entry)" "set (map fst example_entry) \<inter> {''task_id'', ''seq'', ''previous_ref''} = {}"
    "journal_read new_store ''t1'' None (int 0) = Inr []"
proof -
  have wf: "wfj (entry_message ''t1'' None 0 example_entry)"
    using example_ref_ok(2) by (simp add: entry_message_def dict_merge_def example_entry_def jopt_def wfj_message utf8_str_ascii)
  have keys: "set (map fst example_entry) \<inter> {''task_id'', ''seq'', ''previous_ref''} = {}"
    by (simp add: example_entry_def)
  have old: "journal_read new_store ''t1'' None (int 0) = Inr []"
    by (simp add: journal_read_def jopt_def journal_walk.simps MAX_ENTRIES_def)
  obtain r st where "journal_append new_store ''t1'' None 0 example_entry = (Inr r, st)"
    using put_json_roundtrip_raw [OF wf] by (auto simp: journal_append_def MAX_ENTRIES_def example_entry_valid)
  with that wf keys old show thesis by blast
qed

theorem journal_append_read_witness:
  "\<exists>r st'. journal_append new_store ''t1'' None 0 example_entry = (Inr r, st')
     \<and> journal_read st' ''t1'' (Some r) 1 =
         Inr [(r, canon (dget (entry_message ''t1'' None 0 example_entry) ''payload''))]"
proof -
  obtain r st' where app: "journal_append new_store ''t1'' None 0 example_entry = (Inr r, st')"
    and wf: "wfj (entry_message ''t1'' None 0 example_entry)" and keys: "set (map fst example_entry) \<inter> {''task_id'', ''seq'', ''previous_ref''} = {}"
    and old: "journal_read new_store ''t1'' None (int 0) = Inr []" by (rule example_appended)
  from journal_append_read [OF old app wf keys] app show ?thesis by auto
qed

subsection \<open>The head determines the journal\<close>

lemma read_same_or_collision:
  assumes "read st t r = Inr b" and "read st2 t r = Inr b2"
  shows "b = b2 \<or> sha256_hex b = sha256_hex b2 \<and> b \<noteq> b2"
proof -
  from assms have "mk_ref t (sha256_hex b) = mk_ref t (sha256_hex b2)" "is_ident t" by (simp_all add: read_Inr)
  then have "sha256_hex b = sha256_hex b2" by (simp add: mk_ref_inject sha.hexdigest_hex64)
  then show ?thesis by blast
qed

lemma journal_walk_determined:
  assumes "journal_walk st t n c acc = Inr es" and "journal_walk st2 t n c acc = Inr es2"
  shows "es = es2 \<or> (\<exists>r b b2. read st t r = Inr b \<and> read st2 t r = Inr b2 \<and> b \<noteq> b2 \<and> sha256_hex b = sha256_hex b2)"
  using assms
proof (induction n arbitrary: c acc)
  case 0
  then show ?case by (simp add: journal_walk.simps split: if_splits)
next
  case (Suc n)
  show ?case
  proof (cases "c = JNull")
    case True
    with Suc.prems show ?thesis by (simp add: journal_walk.simps)
  next
    case False
    with Suc.prems(1) obtain b v p where b: "read st t c = Inr b" "json_loads b = Inr v" "validate_entry v t = Inr p"
      and w: "journal_walk st t n (dget p ''previous_ref'') ((jstr c, p) # acc) = Inr es"
      by (auto simp: journal_walk.simps [of st t "Suc n"] bindR_eq_Inr read_json_def)
    from False Suc.prems(2) obtain b2 v2 p2 where b2: "read st2 t c = Inr b2" "json_loads b2 = Inr v2" "validate_entry v2 t = Inr p2"
      and w2: "journal_walk st2 t n (dget p2 ''previous_ref'') ((jstr c, p2) # acc) = Inr es2"
      by (auto simp: journal_walk.simps [of st2 t "Suc n"] bindR_eq_Inr read_json_def)
    from read_same_or_collision [OF b(1) b2(1)] show ?thesis
    proof
      assume "b = b2"
      with b b2 have "p2 = p" by simp
      with w w2 show ?thesis using Suc.IH by blast
    next
      assume "sha256_hex b = sha256_hex b2 \<and> b \<noteq> b2"
      with b b2 show ?thesis by blast
    qed
  qed
qed

text \<open>
  C34. The journal is tamper evident: whatever two artifact trees hold, reading the same head and
  length in both gives the same entries, unless the trees hold, under one reference, two different
  byte strings with the same SHA-256. A rewritten, reordered, truncated or extended history cannot
  be read under the recorded head.
\<close>

theorem journal_tamper_evident:
  assumes "journal_read st t head n = Inr es" and "journal_read st2 t head n = Inr es2"
  shows "es = es2 \<or> (\<exists>r b b2. read st t r = Inr b \<and> read st2 t r = Inr b2 \<and> b \<noteq> b2 \<and> sha256_hex b = sha256_hex b2)"
proof -
  from assms have "journal_walk st t (nat n) (jopt JStr head) [] = Inr es"
    and "journal_walk st2 t (nat n) (jopt JStr head) [] = Inr es2"
    by (auto simp: journal_read_def bindR_eq_Inr split: if_splits)
  then show ?thesis by (rule journal_walk_determined)
qed

text \<open>A tree with one appended entry, and the same tree after another artifact was stored in it.\<close>

theorem journal_tamper_evident_witness:
  "\<exists>r st st2 es es2. journal_append new_store ''t1'' None 0 example_entry = (Inr r, st) \<and> st2 = snd (put st ''t1'' ''another artifact'')
     \<and> journal_read st ''t1'' (Some r) 1 = Inr es \<and> journal_read st2 ''t1'' (Some r) 1 = Inr es2
     \<and> es = [(r, canon (dget (entry_message ''t1'' None 0 example_entry) ''payload''))]
     \<and> (es = es2 \<or> (\<exists>r b b2. read st ''t1'' r = Inr b \<and> read st2 ''t1'' r = Inr b2 \<and> b \<noteq> b2 \<and> sha256_hex b = sha256_hex b2))"
proof -
  obtain r st where app: "journal_append new_store ''t1'' None 0 example_entry = (Inr r, st)"
    and wf: "wfj (entry_message ''t1'' None 0 example_entry)" and keys: "set (map fst example_entry) \<inter> {''task_id'', ''seq'', ''previous_ref''} = {}"
    and old: "journal_read new_store ''t1'' None (int 0) = Inr []" by (rule example_appended)
  define es where "es = [(r, canon (dget (entry_message ''t1'' None 0 example_entry) ''payload''))]"
  have one: "journal_read st ''t1'' (Some r) 1 = Inr es"
    using journal_append_reads [OF old app wf keys] by (simp add: es_def)
  have two: "journal_read (snd (put st ''t1'' ''another artifact'')) ''t1'' (Some r) 1 = Inr es"
    using one by (rule journal_read_keeps)
  show ?thesis using app one two journal_tamper_evident [OF one two] unfolding es_def by blast
qed

subsection \<open>What the analysis tracks\<close>

text \<open>The latest entry of a phase for an operation, and whether its outcome is still open.\<close>

definition latest :: "string \<Rightarrow> (string \<times> json) list \<Rightarrow> string \<Rightarrow> json option" where
  "latest phase es op = map_option snd (find (\<lambda>(_, e). sget e ''phase'' = phase \<and> sget e ''operation_id'' = op) (List.rev es))"

definition awaiting :: "(string \<times> json) list \<Rightarrow> string \<Rightarrow> bool" where
  "awaiting es op \<longleftrightarrow>
     (case find (\<lambda>(_, e). sget e ''operation_id'' = op \<and>
          (sget e ''phase'' = ''observed'' \<and> dget e ''outcome'' = JStr ''uncertain''
           \<or> sget e ''phase'' = ''reconciled'' \<and> dget e ''state'' \<noteq> JStr ''STILL_UNKNOWN'')) (List.rev es) of
        None \<Rightarrow> False | Some (_, e) \<Rightarrow> sget e ''phase'' = ''observed'')"

lemma analyze_Nil [simp]: "analyze [] au = new_analysis"
  by (simp add: analyze_def)

lemma analyze_snoc: "analyze (es @ [(r, e)]) au = analyze_entry au (analyze es au) e"
  by (simp add: analyze_def)

lemma latest_Nil [simp]: "latest ph [] op = None"
  by (simp add: latest_def)

lemma latest_snoc:
  "latest ph (es @ [(r, e)]) op = (if sget e ''phase'' = ph \<and> sget e ''operation_id'' = op then Some e else latest ph es op)"
  by (simp add: latest_def)

lemma awaiting_Nil [simp]: "\<not> awaiting [] op"
  by (simp add: awaiting_def)

lemma awaiting_snoc:
  "awaiting (es @ [(r, e)]) op \<longleftrightarrow>
     (if sget e ''operation_id'' = op \<and> sget e ''phase'' = ''observed'' \<and> dget e ''outcome'' = JStr ''uncertain'' then True
      else if sget e ''operation_id'' = op \<and> sget e ''phase'' = ''reconciled'' \<and> dget e ''state'' \<noteq> JStr ''STILL_UNKNOWN'' then False
      else awaiting es op)"
  by (auto simp: awaiting_def)

lemma analysis_tracks:
  "map_of (an_admitted (analyze es au)) op = latest ''admitted'' es op"
  "map_of (an_dispatched (analyze es au)) op = latest ''dispatched'' es op"
  "map_of (an_observed (analyze es au)) op = latest ''observed'' es op"
  "op \<in> set (an_uncertain (analyze es au)) \<longleftrightarrow> awaiting es op"
proof (induction es rule: rev_induct)
  case Nil
  {
    case 1 show ?case by (simp add: new_analysis_def)
  next
    case 2 show ?case by (simp add: new_analysis_def)
  next
    case 3 show ?case by (simp add: new_analysis_def)
  next
    case 4 show ?case by (simp add: new_analysis_def)
  }
next
  case (snoc x es)
  obtain r e where x: "x = (r, e)" by force
  {
    case 1 show ?case using snoc(1)
      by (simp add: x analyze_snoc latest_snoc analyze_entry_def Let_def update_conv')
  next
    case 2 show ?case using snoc(2)
      by (simp add: x analyze_snoc latest_snoc analyze_entry_def Let_def update_conv')
  next
    case 3 show ?case using snoc(3)
      by (simp add: x analyze_snoc latest_snoc analyze_entry_def Let_def update_conv')
  next
    case 4 show ?case using snoc(4)
      by (auto simp: x analyze_snoc awaiting_snoc analyze_entry_def Let_def)
  }
qed

lemma admitted_distinct: "distinct (map fst (an_admitted (analyze es au)))"
proof (induction es rule: rev_induct)
  case Nil
  then show ?case by (simp add: new_analysis_def)
next
  case (snoc x es)
  then show ?case by (cases x) (simp add: analyze_snoc analyze_entry_def Let_def distinct_update)
qed

lemma in_admitted: "(op, e) \<in> set (an_admitted (analyze es au)) \<longleftrightarrow> latest ''admitted'' es op = Some e"
  using map_of_eq_Some_iff [OF admitted_distinct] by (metis analysis_tracks(1))

subsection \<open>No problems means the effect lifecycle\<close>

definition within_authority :: "(string \<times> json) list \<Rightarrow> json \<Rightarrow> bool" where
  "within_authority au e \<longleftrightarrow> (case map_of au (sget e ''authority_ref'') of None \<Rightarrow> False
     | Some a \<Rightarrow> listed a ''operation_classes'' (dget e ''operation_class'') \<and> listed a ''capabilities'' (dget e ''capability'')
         \<and> (has_key e ''workspace_id'' \<longrightarrow> listed a ''workspaces'' (dget e ''workspace_id'')))"

definition entry_ok :: "(string \<times> json) list \<Rightarrow> (string \<times> json) list \<Rightarrow> json \<Rightarrow> bool" where
  "entry_ok au before e \<longleftrightarrow>
     (let op = sget e ''operation_id''; phase = sget e ''phase'' in
      (phase = ''admitted'' \<longrightarrow> latest ''admitted'' before op = None \<and> within_authority au e)
      \<and> (phase = ''dispatched'' \<longrightarrow>
           (\<exists>a. latest ''admitted'' before op = Some a \<and> sget a ''operation_class'' \<in> set LIFECYCLE_CLASSES)
           \<and> latest ''dispatched'' before op = None \<and> latest ''observed'' before op = None)
      \<and> (phase = ''observed'' \<longrightarrow>
           (\<exists>a. latest ''admitted'' before op = Some a \<and> (sget a ''operation_class'' \<in> set LIFECYCLE_CLASSES \<longrightarrow>
              (latest ''dispatched'' before op \<noteq> None \<longleftrightarrow> dget e ''outcome'' \<noteq> JStr ''not_dispatched'')))
           \<and> latest ''observed'' before op = None)
      \<and> (phase = ''reconciled'' \<longrightarrow> awaiting before op))"

definition lifecycle_ok :: "(string \<times> json) list \<Rightarrow> (string \<times> json) list \<Rightarrow> bool" where
  "lifecycle_ok au es \<longleftrightarrow> (\<forall>i < length es. entry_ok au (take i es) (snd (es ! i)))"

lemma lifecycle_snoc: "lifecycle_ok au (es @ [x]) \<longleftrightarrow> lifecycle_ok au es \<and> entry_ok au es (snd x)"
  by (auto simp: lifecycle_ok_def less_Suc_eq nth_append)

lemma step_problems:
  "an_problems (analyze_entry au (analyze es au) e) = [] \<longleftrightarrow> an_problems (analyze es au) = [] \<and> entry_ok au es e"
proof -
  have adm: "admitted_problems (analyze es au) au e = [] \<longleftrightarrow>
      latest ''admitted'' es (sget e ''operation_id'') = None \<and> within_authority au e"
    by (auto simp: admitted_problems_def within_authority_def in_dict_def analysis_tracks Let_def split: option.splits)
  have dis: "dispatched_problems (analyze es au) op = [] \<longleftrightarrow>
      (\<exists>a. latest ''admitted'' es op = Some a \<and> sget a ''operation_class'' \<in> set LIFECYCLE_CLASSES)
      \<and> latest ''dispatched'' es op = None \<and> latest ''observed'' es op = None" for op
    by (auto simp: dispatched_problems_def admitted_lifecycle_def in_dict_def analysis_tracks split: option.splits)
  have obs: "observed_problems (analyze es au) op e = [] \<longleftrightarrow>
      (\<exists>a. latest ''admitted'' es op = Some a \<and> (sget a ''operation_class'' \<in> set LIFECYCLE_CLASSES \<longrightarrow>
              (latest ''dispatched'' es op \<noteq> None \<longleftrightarrow> dget e ''outcome'' \<noteq> JStr ''not_dispatched'')))
           \<and> latest ''observed'' es op = None" for op
    by (auto simp: observed_problems_def admitted_lifecycle_def in_dict_def analysis_tracks split: option.splits)
  show ?thesis
    by (simp add: analyze_entry_def entry_ok_def Let_def adm dis obs analysis_tracks(4))
qed

lemma problems_iff: "an_problems (analyze es au) = [] \<longleftrightarrow> lifecycle_ok au es"
proof (induction es rule: rev_induct)
  case Nil
  then show ?case by (simp add: new_analysis_def lifecycle_ok_def)
next
  case (snoc x es)
  then show ?case by (cases x) (simp add: analyze_snoc step_problems lifecycle_snoc)
qed

text \<open>
  C30. The analysis reports no problem exactly for journals that follow the effect lifecycle: every
  admission is the first of its operation and inside the authority it cites (class, capability and
  workspace); a dispatch follows the admission of a lifecycle class and precedes any other dispatch
  or observation of it; an observation follows an admission, is the only one, and for a lifecycle
  class says \<open>not_dispatched\<close> exactly when nothing was dispatched; a reconciliation answers an
  uncertain outcome that is still open.
\<close>

theorem analyze_problems_iff_lifecycle:
  "an_problems (analyze es au) = [] \<longleftrightarrow> lifecycle_ok au es"
  by (rule problems_iff)

text \<open>
  Unresolved effects are exactly the admitted target effects whose outcome is not established:
  dispatched and never observed, or observed as uncertain with no conclusive reconciliation since.
  Internal effects and target reads are never among them.
\<close>

lemma unresolved_effects_iff:
  "op \<in> set (unresolved_effects (analyze es au)) \<longleftrightarrow>
     (\<exists>a. latest ''admitted'' es op = Some a \<and> effect_scope (sget a ''operation_class'') = TARGET_EFFECT
        \<and> (latest ''dispatched'' es op \<noteq> None \<and> latest ''observed'' es op = None \<or> awaiting es op))"
proof -
  have "op \<in> set (unresolved_effects (analyze es au)) \<longleftrightarrow>
     (\<exists>e. (op, e) \<in> set (an_admitted (analyze es au)) \<and> effect_scope (sget e ''operation_class'') = TARGET_EFFECT
        \<and> (in_dict op (an_dispatched (analyze es au)) \<and> \<not> in_dict op (an_observed (analyze es au))
           \<or> op \<in> set (an_uncertain (analyze es au))))"
    by (force simp: unresolved_effects_def)
  then show ?thesis by (simp add: in_admitted in_dict_def analysis_tracks)
qed

subsection \<open>Violations are permanent\<close>

lemma lifecycle_prefix: "lifecycle_ok au (es @ es') \<Longrightarrow> lifecycle_ok au es"
  by (induction es' rule: rev_induct) (auto simp: lifecycle_snoc simp flip: append_assoc)

lemma latest_admitted_stable:
  assumes "lifecycle_ok au (es @ es')" and "latest ''admitted'' es op = Some a"
  shows "latest ''admitted'' (es @ es') op = Some a"
  using assms
proof (induction es' rule: rev_induct)
  case (snoc x xs)
  obtain r e where x: "x = (r, e)" by force
  from snoc.prems(1) have "lifecycle_ok au (es @ xs)" and ok: "entry_ok au (es @ xs) e"
    by (simp_all add: lifecycle_snoc x flip: append_assoc)
  with snoc have "latest ''admitted'' (es @ xs) op = Some a" by blast
  with ok show ?case by (auto simp: x latest_snoc entry_ok_def Let_def simp flip: append_assoc)
qed simp

lemma run_predicates_Inl:
  "(\<exists>d. run_predicates a au ps = Inl d) \<longleftrightarrow> (\<exists>p\<in>set ps. predicate_failure a au p \<noteq> None)"
  by (induction ps) (auto split: option.splits sum.splits)

lemma admitted_classes_mono:
  assumes "set (an_admitted a) \<subseteq> set (an_admitted a')"
  shows "set (admitted_classes a P) \<subseteq> set (admitted_classes a' P)"
  using assms by (auto simp: admitted_classes_def)

lemma predicate_failure_mono:
  assumes "set (an_admitted a) \<subseteq> set (an_admitted a')" and "predicate_failure a au p \<noteq> None"
  shows "predicate_failure a' au p \<noteq> None"
proof -
  have cl: "admitted_classes a' P \<noteq> []" if "admitted_classes a P \<noteq> []" for P
    using admitted_classes_mono [OF assms(1), of P] that by (metis set_empty subset_empty)
  have fd: "find P (an_admitted a') \<noteq> None" if "find P (an_admitted a) \<noteq> None" for P
    using that assms(1) by (auto simp: find_None_iff)
  show ?thesis using assms(2) cl fd unfolding predicate_failure_def Let_def
    by (simp split: if_splits del: not_None_eq)
qed

lemma verify_Failed_iff:
  "fst (verify ps a n au) = Failed \<longleftrightarrow> an_problems a \<noteq> [] \<or> (\<exists>p\<in>set ps. predicate_failure a au p \<noteq> None)"
  unfolding run_predicates_Inl [symmetric]
  by (auto simp: verify_def Let_def split: sum.splits)

text \<open>
  A violation is permanent: when the journal verifier fails on a journal, it fails on every
  extension of it, whatever is appended; no later entry can make a failed journal criterion hold.
\<close>

lemma verify_failure_permanent:
  assumes "fst (verify ps (analyze es au) n au) = Failed"
  shows "fst (verify ps (analyze (es @ es') au) n' au) = Failed"
proof (cases "lifecycle_ok au (es @ es')")
  case False
  then show ?thesis by (simp add: verify_Failed_iff problems_iff)
next
  case True
  have sub: "set (an_admitted (analyze es au)) \<subseteq> set (an_admitted (analyze (es @ es') au))"
    using latest_admitted_stable [OF True] by (auto simp: in_admitted)
  from lifecycle_prefix [OF True] assms obtain p where "p \<in> set ps" "predicate_failure (analyze es au) au p \<noteq> None"
    by (auto simp: verify_Failed_iff problems_iff)
  with predicate_failure_mono [OF sub] show ?thesis unfolding verify_Failed_iff by blast
qed

definition example_violation :: "(string \<times> json) list" where
  "example_violation = [(''r1'', JObj [(''phase'', JStr ''observed''), (''operation_id'', JStr ''op1''), (''outcome'', JStr ''success'')])]"

lemma verify_failure_permanent_witness:
  "fst (verify [] (analyze example_violation []) 1 []) = Failed
   \<and> fst (verify [] (analyze (example_violation @ example_violation) []) 2 []) = Failed"
proof -
  have f: "fst (verify [] (analyze example_violation []) 1 []) = Failed"
    by (simp add: verify_def example_violation_def analyze_def analyze_entry_def new_analysis_def py_defs
        observed_problems_def in_dict_def Let_def)
  from verify_failure_permanent [OF f, of example_violation 2] f show ?thesis by blast
qed

text \<open>
  A satisfied journal verdict means what its predicates say: the journal obeys the lifecycle;
  under \<open>no_target_effect\<close> every admitted target effect is in an explicitly allowed class; under
  \<open>operation_classes_subset\<close> every admitted class that is not internal is allowed; under
  \<open>effects_reconciled\<close> no operation has an open uncertain outcome; and under
  \<open>observed_operation_present\<close> one of the named operations was admitted and observed successful.
\<close>

lemma verify_satisfied_sound:
  assumes "fst (verify ps (analyze es au) n au) = Satisfied" and "p \<in> set ps"
  shows "lifecycle_ok au es
    \<and> (dget p ''name'' = JStr ''no_target_effect'' \<longrightarrow> (\<forall>op a. latest ''admitted'' es op = Some a \<longrightarrow>
          effect_scope (sget a ''operation_class'') = TARGET_EFFECT \<longrightarrow> JStr (sget a ''operation_class'') \<in> set (lget p ''allowed'')))
    \<and> (dget p ''name'' = JStr ''operation_classes_subset'' \<longrightarrow> (\<forall>op a. latest ''admitted'' es op = Some a \<longrightarrow>
          internal (sget a ''operation_class'') \<or> JStr (sget a ''operation_class'') \<in> set (lget p ''allowed'')))
    \<and> (dget p ''name'' = JStr ''effects_reconciled'' \<longrightarrow> (\<forall>op. \<not> awaiting es op))
    \<and> (dget p ''name'' = JStr ''observed_operation_present'' \<longrightarrow> (\<exists>op a ob. latest ''admitted'' es op = Some a
          \<and> latest ''observed'' es op = Some ob \<and> dget ob ''outcome'' = JStr ''success''
          \<and> dget a ''operation'' \<in> set (lget p ''operations'')))"
proof -
  let ?a = "analyze es au"
  from assms(1) have nf: "fst (verify ps ?a n au) \<noteq> Failed" by simp
  then have life: "lifecycle_ok au es" and pf: "predicate_failure ?a au p = None"
    using assms(2) by (auto simp: verify_Failed_iff problems_iff)
  obtain pend where rp: "run_predicates ?a au ps = Inr pend"
    using nf run_predicates_Inl [of ?a au ps] by (cases "run_predicates ?a au ps") (auto simp: verify_Failed_iff)
  from assms(1) life rp have pend: "pend = []"
    and unc: "an_uncertain ?a \<noteq> [] \<Longrightarrow> \<not> list_ex (\<lambda>p. dget p ''name'' = JStr ''effects_reconciled'') ps"
    by (auto simp: verify_def problems_iff Let_def split: if_splits)
  have present: "observed_present ?a p" if "dget p ''name'' = JStr ''observed_operation_present''"
    using rp assms(2) that unfolding pend
    by (induction ps) (auto split: option.splits sum.splits if_splits)
  have classes: "admitted_classes ?a P = [] \<longleftrightarrow> (\<forall>op a. latest ''admitted'' es op = Some a \<longrightarrow> \<not> P (sget a ''operation_class''))" for P
  proof -
    have "admitted_classes ?a P = [] \<longleftrightarrow> set (admitted_classes ?a P) = {}" by simp
    also have "\<dots> \<longleftrightarrow> (\<forall>op a. (op, a) \<in> set (an_admitted ?a) \<longrightarrow> \<not> P (sget a ''operation_class''))"
      unfolding admitted_classes_def set_sorted_set by auto
    finally show ?thesis by (simp only: in_admitted)
  qed
  have ob: "\<exists>op a ob. latest ''admitted'' es op = Some a \<and> latest ''observed'' es op = Some ob
      \<and> dget ob ''outcome'' = JStr ''success'' \<and> dget a ''operation'' \<in> set (lget p ''operations'')"
    if "observed_present ?a p"
    using that by (fastforce simp: observed_present_def list_ex_iff in_admitted analysis_tracks split: option.splits)
  have "\<forall>op. \<not> awaiting es op" if "dget p ''name'' = JStr ''effects_reconciled''"
    using unc that assms(2) by (auto simp: list_ex_iff simp flip: analysis_tracks(4) [of _ es au])
  moreover have "\<forall>op a. latest ''admitted'' es op = Some a \<longrightarrow>
          effect_scope (sget a ''operation_class'') = TARGET_EFFECT \<longrightarrow> JStr (sget a ''operation_class'') \<in> set (lget p ''allowed'')"
    if "dget p ''name'' = JStr ''no_target_effect''"
    using pf that by (auto simp: predicate_failure_def Let_def classes split: if_splits)
  moreover have "\<forall>op a. latest ''admitted'' es op = Some a \<longrightarrow>
          internal (sget a ''operation_class'') \<or> JStr (sget a ''operation_class'') \<in> set (lget p ''allowed'')"
    if "dget p ''name'' = JStr ''operation_classes_subset''"
    using pf that by (auto simp: predicate_failure_def Let_def classes split: if_splits)
  ultimately show ?thesis using life present ob by blast
qed

lemma verify_satisfied_sound_witness:
  "fst (verify [JObj [(''name'', JStr ''no_target_effect'')]] (analyze [] []) 0 []) = Satisfied \<and> lifecycle_ok [] []"
proof -
  have s: "fst (verify [JObj [(''name'', JStr ''no_target_effect'')]] (analyze [] []) 0 []) = Satisfied"
    by (simp add: verify_def new_analysis_def predicate_failure_def py_defs admitted_classes_def sorted_set_def)
  from verify_satisfied_sound [OF s, of "JObj [(''name'', JStr ''no_target_effect'')]"] s show ?thesis by simp
qed

end
