(* ===== verification/Effects.thy ===== *)
theory Effects
  imports Journal
begin

section \<open>Target effects: dispatch, receipts and reconciliation\<close>

text \<open>
  The outcome side of runtime/kernel/effects.py. The target provider is deployment code: a record of
  its five calls over a provider state, each of which returns an answer or an exception and a new
  state. The obligations of the \<open>TargetProvider\<close> protocol are the locale \<open>target_provider\<close>.

  Every operation of the module that calls the provider returns its message (or the exception that
  leaves it), the provider state and the artifact store; an exception the code catches becomes an
  \<open>uncertain\<close> outcome as in the source.
\<close>

definition WRITE_STATES :: "string list" where
  "WRITE_STATES = [''applied'', ''conflict'', ''rejected'']"
definition EXEC_STATES :: "string list" where
  "EXEC_STATES = [''running'', ''completed'', ''timed_out'', ''canceled'', ''rejected'', ''not_started'']"
definition CLEANUP_STATES :: "string list" where
  "CLEANUP_STATES = [''confirmed'', ''unknown'', ''running'', ''not_applicable'']"

record 'p provider =
  provider_id :: string
  pr_read :: "'p \<Rightarrow> json \<Rightarrow> json \<Rightarrow> json res \<times> 'p"
  pr_dispatch :: "'p \<Rightarrow> json \<Rightarrow> json \<Rightarrow> json res \<times> 'p"
  pr_query :: "'p \<Rightarrow> json \<Rightarrow> string \<Rightarrow> json res \<times> 'p"
  pr_observe :: "'p \<Rightarrow> json \<Rightarrow> json \<Rightarrow> json res \<times> 'p"
  pr_cancel :: "'p \<Rightarrow> json \<Rightarrow> string \<Rightarrow> string \<Rightarrow> json res \<times> 'p"

subsection \<open>Admitting a receipt\<close>

definition check_write_receipt :: "json \<Rightarrow> json \<Rightarrow> unit res" where
  "check_write_receipt receipt payload =
     seqR (raise_if (dget receipt ''state'' \<notin> JStr ` set WRITE_STATES) (ValueError ''Invalid write receipt state''))
     (bindR (py_fields (dget receipt ''write'') [''workspace_id'', ''path'', ''before''] [''after'', ''readback_sha256'']) (\<lambda>write.
      let expected = dget payload ''precondition'' in
      seqR (raise_if (\<not> py_eq (dget write ''workspace_id'') (dget payload ''workspace_id'')
             \<or> \<not> py_eq (dget write ''path'') (dget payload ''path'')) (ValueError ''Write receipt names another target''))
      (if dget receipt ''state'' = JStr ''applied'' then
         raise_if (\<not> py_eq (dget write ''before'') expected
             \<or> \<not> py_eq (dget write ''after'') (JObj [(''sha256'', dget payload ''content_sha256'')])
             \<or> \<not> py_eq (dget write ''readback_sha256'') (dget payload ''content_sha256''))
           (ValueError ''Applied receipt contradicts its precondition, content or readback'')
       else if dget receipt ''state'' = JStr ''conflict'' then
         raise_if (py_eq (dget write ''before'') expected \<or> has_key write ''after'')
           (ValueError ''A conflict must show a different current state and no write'')
       else Inr ())))"

definition flat_value :: "json \<Rightarrow> bool" where
  "flat_value v \<longleftrightarrow> is_int v \<or> is_bool v \<or> is_str v \<and> py_len (jstr v) \<le> 256"

definition check_exec_receipt :: "json \<Rightarrow> json \<Rightarrow> unit res" where
  "check_exec_receipt receipt payload =
     seqR (raise_if (dget receipt ''state'' \<notin> JStr ` set EXEC_STATES) (ValueError ''Invalid exec receipt state''))
     (bindR (py_fields (dget receipt ''exec'') [''started'', ''cleanup'']
         [''exit_code'', ''signal'', ''output'', ''output_ref'', ''output_sha256'', ''output_bytes'', ''truncated'',
          ''merged'', ''result'']) (\<lambda>ex.
      checks
        [raise_if (dget ex ''cleanup'' \<notin> JStr ` set CLEANUP_STATES) (ValueError ''Invalid cleanup state''),
         raise_if (dget receipt ''state'' = JStr ''completed'' \<and> \<not> is_int (dget ex ''exit_code'') \<and> \<not> has_key ex ''signal'')
           (ValueError ''A completed process reports an exit code or signal''),
         raise_if (dget receipt ''state'' \<in> {JStr ''not_started'', JStr ''rejected''} \<and> py_true (dget ex ''started''))
           (ValueError ''An unstarted process cannot have started''),
         (if has_key ex ''output'' then
            raise_if (\<not> is_str (dget ex ''output'') \<or> jint (dget payload ''output_cap_bytes'') < int (length (sget ex ''output'')))
              (ValueError ''Output exceeds its cap'')
          else Inr ()),
         (if has_key ex ''result'' then
            raise_if (\<not> is_dict (dget ex ''result'') \<or> 16 < length (jitems (dget ex ''result''))
                \<or> \<not> list_all flat_value (map snd (jitems (dget ex ''result''))))
              (ValueError ''Structured result must be a small flat object'')
          else Inr ())]))"

definition validate_receipt :: "json \<Rightarrow> json \<Rightarrow> json res" where
  "validate_receipt raw request =
     (let payload = dget request ''payload'' in
      bindR (unpack raw ''EffectReceipt'') (\<lambda>p.
      bindR (py_fields p [''task_id'', ''operation_id'', ''request_digest'', ''provider'', ''operation_class'', ''state'']
               [''write'', ''exec'', ''detail'']) (\<lambda>receipt.
      seqR (raise_if (\<not> py_eq (dget receipt ''task_id'') (dget payload ''task_id'')
              \<or> \<not> py_eq (dget receipt ''operation_id'') (dget payload ''operation_id'')
              \<or> dget receipt ''request_digest'' \<noteq> JStr (effect_digest request)
              \<or> \<not> py_eq (dget receipt ''operation_class'') (dget payload ''operation_class''))
             (ValueError ''Receipt does not answer this effect request''))
      (seqR (if has_key receipt ''detail'' then voidR (py_text (dget receipt ''detail'') 512) else Inr ())
      (seqR (if dget payload ''operation_class'' = JStr WRITE then check_write_receipt receipt payload
             else check_exec_receipt receipt payload)
      (Inr receipt))))))"

definition dpop :: "json \<Rightarrow> string \<Rightarrow> json" where
  "dpop v k = JObj (filter (\<lambda>(k', _). k' \<noteq> k) (jitems v))"

definition normalize :: "json \<Rightarrow> artifact_store \<Rightarrow> string \<Rightarrow> json res \<times> artifact_store" where
  "normalize receipt store task_id =
     (if has_key receipt ''exec'' \<and> has_key (dget receipt ''exec'') ''output'' then
        let ex = dget receipt ''exec''; data = sget ex ''output'' in
        case put store task_id data of
          (Inl e, store') \<Rightarrow> (Inl e, store')
        | (Inr ref, store') \<Rightarrow>
            let ex' = dset (dset (dset (dset (dpop ex ''output'') ''output_ref'' (JStr ref))
                        ''output_sha256'' (JStr (sha256_hex data))) ''output_bytes'' (JInt (int (length data))))
                        ''merged'' (dget_or ex ''merged'' (JBool True))
            in (Inr (message ''EffectReceipt'' (dset receipt ''exec'' ex')), store')
      else (Inr (message ''EffectReceipt'' receipt), store))"

definition outcome :: "string \<Rightarrow> (string \<times> json) list \<Rightarrow> json" where
  "outcome kind body = message ''EffectOutcome'' (JObj ((''kind'', JStr kind) # body))"

definition uncertain :: "string \<Rightarrow> json" where
  "uncertain reason = outcome ''uncertain'' [(''reason'', JStr (py_take 512 reason))]"

definition receipt_outcome :: "string \<Rightarrow> json \<Rightarrow> json" where
  "receipt_outcome delivery receipt = outcome ''receipt'' [(''delivery'', JStr delivery), (''receipt'', receipt)]"

text \<open>\<open>normalize (validate_receipt (raw, request, store), store, task_id)\<close>.\<close>

definition admit_receipt :: "json \<Rightarrow> json \<Rightarrow> artifact_store \<Rightarrow> json res \<times> artifact_store" where
  "admit_receipt raw request store =
     (case validate_receipt raw request of Inl e \<Rightarrow> (Inl e, store)
      | Inr receipt \<Rightarrow> normalize receipt store (sget (dget request ''payload'') ''task_id''))"

text \<open>\<open>except (ValueError, TypeError, KeyError)\<close>.\<close>

definition rejected :: "exn \<Rightarrow> bool" where
  "rejected e \<longleftrightarrow> is_value_error e \<or> is_type_error e \<or> is_key_error e"

fun unavailable :: "exn \<Rightarrow> bool" where
  "unavailable (ProviderUnavailable m) = True"
| "unavailable (ResponseLost m) = True"
| "unavailable e = False"

subsection \<open>Dispatch\<close>

definition op_of :: "json \<Rightarrow> json" where
  "op_of request = dget (dget request ''payload'') ''operation_id''"

definition attempt_handler :: "exn \<Rightarrow> json res" where
  "attempt_handler e =
     (case e of ResponseLost m \<Rightarrow> Inr (uncertain (''Response lost after dispatch: '' @ m))
      | ProviderUnavailable m \<Rightarrow> Inr (uncertain (''Provider unavailable: '' @ m))
      | _ \<Rightarrow> if rejected e then Inr (uncertain (''Provider answer rejected: '' @ exn_str e)) else Inl e)"

definition deliver :: "(exn \<Rightarrow> json res) \<Rightarrow> string \<Rightarrow> json res \<times> artifact_store \<Rightarrow> json res \<times> artifact_store" where
  "deliver handler delivery r =
     (case r of (Inl e, store) \<Rightarrow> (handler e, store)
      | (Inr receipt, store) \<Rightarrow> (Inr (receipt_outcome delivery receipt), store))"

definition attempt :: "'p provider option \<Rightarrow> 'p \<Rightarrow> json \<Rightarrow> json \<Rightarrow> artifact_store \<Rightarrow> json res \<times> 'p \<times> artifact_store" where
  "attempt provider ps request payload store =
     (case provider of
        None \<Rightarrow> (Inr (outcome ''not_dispatched'' [(''reason'', JStr ''No target provider is deployed'')]), ps, store)
      | Some P \<Rightarrow>
          case pr_query P ps (op_of request) (effect_digest request) of (answer, ps1) \<Rightarrow>
          case bindR answer (\<lambda>f. bindR (get_attr f ''found'') (\<lambda>found. Inr (f, py_true found))) of
            Inl e \<Rightarrow> (attempt_handler e, ps1, store)
          | Inr (f, found) \<Rightarrow>
              if found then
                (case item f ''receipt'' of Inl e \<Rightarrow> (attempt_handler e, ps1, store)
                 | Inr raw \<Rightarrow> (case deliver attempt_handler ''recovered'' (admit_receipt raw request store) of (r, store') \<Rightarrow> (r, ps1, store')))
              else if \<not> py_true (dget f ''authoritative'') then
                (Inr (outcome ''uncertain'' [(''reason'', JStr ''Provider cannot say whether this operation ran'')]), ps1, store)
              else case pr_dispatch P ps1 request payload of
                (Inl e, ps2) \<Rightarrow> (attempt_handler e, ps2, store)
              | (Inr raw, ps2) \<Rightarrow>
                  (case deliver attempt_handler ''dispatched'' (admit_receipt raw request store) of (r, store') \<Rightarrow> (r, ps2, store')))"

definition poll_handler :: "exn \<Rightarrow> json res" where
  "poll_handler e = (if rejected e then Inr (uncertain (''Provider answer rejected: '' @ exn_str e)) else Inl e)"

definition poll :: "'p provider \<Rightarrow> 'p \<Rightarrow> json \<Rightarrow> artifact_store \<Rightarrow> json res \<times> 'p \<times> artifact_store" where
  "poll P ps request store =
     (case pr_query P ps (op_of request) (effect_digest request) of
        (Inl (ProviderUnavailable m), ps1) \<Rightarrow> (Inr (uncertain (''Provider unavailable: '' @ m)), ps1, store)
      | (Inl e, ps1) \<Rightarrow> (Inl e, ps1, store)
      | (Inr f, ps1) \<Rightarrow>
          (case get_attr f ''found'' of Inl e \<Rightarrow> (Inl e, ps1, store)
           | Inr found \<Rightarrow>
               if \<not> py_true found then
                 (Inr (outcome ''uncertain'' [(''reason'', JStr ''Provider lost track of a running operation'')]), ps1, store)
               else case item f ''receipt'' of Inl e \<Rightarrow> (poll_handler e, ps1, store)
                 | Inr raw \<Rightarrow> (case deliver poll_handler ''polled'' (admit_receipt raw request store) of (r, store') \<Rightarrow> (r, ps1, store'))))"

subsection \<open>Cancellation\<close>

definition CANCEL_REASONS :: "string list" where
  "CANCEL_REASONS = [''requested'', ''timeout'']"

definition cancel_handler :: "string \<Rightarrow> exn \<Rightarrow> json res" where
  "cancel_handler reason e =
     (if unavailable e then Inr (uncertain (reason @ ''; stop not confirmed: '' @ exn_str e))
      else if rejected e then Inr (uncertain (reason @ ''; provider answer rejected: '' @ exn_str e)) else Inl e)"

definition cancel :: "'p provider \<Rightarrow> 'p \<Rightarrow> json \<Rightarrow> artifact_store \<Rightarrow> string \<Rightarrow> json res \<times> 'p \<times> artifact_store" where
  "cancel P ps request store reason =
     (if reason \<notin> set CANCEL_REASONS then (Inl (ValueError ''Unknown cancellation reason''), ps, store)
      else case pr_cancel P ps (op_of request) (effect_digest request) reason of (answer, ps1) \<Rightarrow>
        case bindR answer (\<lambda>a. item a ''receipt'') of
          Inl e \<Rightarrow> (cancel_handler reason e, ps1, store)
        | Inr raw \<Rightarrow>
            (case admit_receipt raw request store of
               (Inl e, store') \<Rightarrow> (cancel_handler reason e, ps1, store')
             | (Inr receipt, store') \<Rightarrow>
                 let state = dget (dget receipt ''payload'') ''state'' in
                 (Inr (if state = JStr ''running''
                       then outcome ''uncertain'' [(''reason'', JStr (reason @ ''; provider still reports the process running''))]
                       else receipt_outcome (if state = JStr ''completed'' then ''completed_first'' else ''stopped'') receipt),
                  ps1, store')))"

definition stop_handler :: "exn \<Rightarrow> json res" where
  "stop_handler e =
     (if unavailable e then Inr (uncertain (''Task stopped; provider unavailable: '' @ exn_str e))
      else if rejected e then Inr (uncertain (''Task stopped; provider answer rejected: '' @ exn_str e)) else Inl e)"

definition stop_for_task :: "'p provider option \<Rightarrow> 'p \<Rightarrow> json \<Rightarrow> artifact_store \<Rightarrow> json res \<times> 'p \<times> artifact_store" where
  "stop_for_task provider ps request store =
     (case provider of
        None \<Rightarrow> (Inr (outcome ''uncertain'' [(''reason'', JStr ''Task stopped; no target provider to ask'')]), ps, store)
      | Some P \<Rightarrow>
          case pr_query P ps (op_of request) (effect_digest request) of (answer, ps1) \<Rightarrow>
          case bindR answer (\<lambda>f. bindR (get_attr f ''found'') (\<lambda>found. Inr (f, py_true found))) of
            Inl e \<Rightarrow> (stop_handler e, ps1, store)
          | Inr (f, found) \<Rightarrow>
              if \<not> found then
                (Inr (outcome ''uncertain'' [(''reason'', JStr ''Task stopped while the effect was in flight; no receipt yet'')]), ps1, store)
              else case item f ''receipt'' of Inl e \<Rightarrow> (stop_handler e, ps1, store)
                | Inr raw \<Rightarrow>
                    (case admit_receipt raw request store of
                       (Inl e, store') \<Rightarrow> (stop_handler e, ps1, store')
                     | (Inr receipt, store') \<Rightarrow>
                         if dget (dget receipt ''payload'') ''state'' = JStr ''running'' then
                           (case cancel P ps1 request store' ''requested'' of
                              (Inl e, ps2, store'') \<Rightarrow> (stop_handler e, ps2, store'')
                            | (Inr r, ps2, store'') \<Rightarrow> (Inr r, ps2, store''))
                         else (Inr (receipt_outcome ''completed_first'' receipt), ps1, store')))"

subsection \<open>Reconciliation\<close>

definition reconciliation :: "(string \<times> json) list \<Rightarrow> json" where
  "reconciliation body = message ''EffectReconciliation'' (JObj body)"

definition still_unknown :: "string \<Rightarrow> json" where
  "still_unknown detail = reconciliation [(''state'', JStr ''STILL_UNKNOWN''), (''detail'', JStr detail)]"

definition reconcile_handler :: "exn \<Rightarrow> json res" where
  "reconcile_handler e =
     (if unavailable e then Inr (still_unknown (py_take 512 (''Provider unavailable: '' @ exn_str e)))
      else if rejected e then Inr (still_unknown (py_take 512 (''Provider answer rejected: '' @ exn_str e))) else Inl e)"

definition observe_target :: "'p provider \<Rightarrow> 'p \<Rightarrow> json \<Rightarrow> json res \<times> 'p" where
  "observe_target P ps payload =
     (case pr_observe P ps (dget payload ''workspace_id'') (dget payload ''path'') of (answer, ps1) \<Rightarrow>
       (bindR answer (\<lambda>current. bindR (get_attr current ''exists'') (\<lambda>ex.
          if \<not> py_true ex then Inr (JObj [(''absent'', JBool True)])
          else bindR (item current ''sha256'') (\<lambda>h. Inr (JObj [(''sha256'', h)])))), ps1))"

definition reconcile :: "'p provider option \<Rightarrow> 'p \<Rightarrow> json \<Rightarrow> artifact_store \<Rightarrow> json res \<times> 'p \<times> artifact_store" where
  "reconcile provider ps request store =
     (let payload = dget request ''payload'' in
      case provider of
        None \<Rightarrow> (Inr (still_unknown ''No target provider is deployed''), ps, store)
      | Some P \<Rightarrow>
          case pr_query P ps (op_of request) (effect_digest request) of (answer, ps1) \<Rightarrow>
          case bindR answer (\<lambda>f. bindR (get_attr f ''found'') (\<lambda>found. Inr (f, py_true found))) of
            Inl e \<Rightarrow> (reconcile_handler e, ps1, store)
          | Inr (f, found) \<Rightarrow>
              if found then
                (case item f ''receipt'' of Inl e \<Rightarrow> (reconcile_handler e, ps1, store)
                 | Inr raw \<Rightarrow>
                     (case admit_receipt raw request store of
                        (Inl e, store') \<Rightarrow> (reconcile_handler e, ps1, store')
                      | (Inr receipt, store') \<Rightarrow>
                          (Inr (if dget (dget receipt ''payload'') ''state'' = JStr ''running''
                                then still_unknown ''The process was started and its end is not yet confirmed''
                                else reconciliation [(''state'', JStr ''APPLIED''), (''receipt'', receipt),
                                  (''detail'', JStr (''Provider receipt for this operation: ''
                                      @ sget (dget receipt ''payload'') ''state''))]), ps1, store')))
              else if py_true (dget f ''authoritative'') then
                (Inr (reconciliation [(''state'', JStr ''NOT_APPLIED''),
                   (''detail'', JStr ''Provider states authoritatively that this operation never ran'')]), ps1, store)
              else if dget payload ''operation_class'' = JStr WRITE then
                (case observe_target P ps1 payload of
                   (Inl e, ps2) \<Rightarrow> (reconcile_handler e, ps2, store)
                 | (Inr observed, ps2) \<Rightarrow>
                     (Inr (if \<not> py_eq observed (dget payload ''precondition'')
                              \<and> \<not> py_eq observed (JObj [(''sha256'', dget payload ''content_sha256'')])
                           then reconciliation [(''state'', JStr ''DIFFERENT_STATE''), (''observation'', observed),
                             (''detail'', JStr ''Target matches neither the precondition nor the intended content'')]
                           else reconciliation [(''state'', JStr ''STILL_UNKNOWN''), (''observation'', observed),
                             (''detail'', JStr ''No receipt; the target state alone cannot attribute the write'')]), ps2, store))
              else (Inr (still_unknown ''No receipt for this process''), ps1, store))"

subsection \<open>Reading a target\<close>

record read_result =
  rd_content_ref :: string
  rd_receipt_ref :: string
  rd_content :: string

definition line_count :: "string \<Rightarrow> nat" where
  "line_count content =
     (let lines = split_on (CHR 0x0A) content in
      max (length (if last lines = [] then butlast lines else lines)) 1)"

definition read_receipt :: "string \<Rightarrow> string \<Rightarrow> string \<Rightarrow> json \<Rightarrow> string \<Rightarrow> string \<Rightarrow> json" where
  "read_receipt pid task_id operation_id v content content_ref =
     message ''WorkspaceReadReceipt'' (JObj [(''task_id'', JStr task_id), (''operation_id'', JStr operation_id),
       (''request_sha256'', JStr (sha256_hex (encode v))), (''workspace_id'', dget v ''workspace_id''),
       (''provider'', JObj [(''kind'', JStr pid)]), (''operation'', JStr ''read_file''), (''state'', JStr ''SUCCESS''),
       (''source'', JObj [(''view'', JStr ''provider_file''), (''class'', JStr ''project''), (''path'', dget v ''path''),
          (''lines'', JList [JInt 1, JInt (int (line_count content))])]),
       (''response_ref'', JStr content_ref), (''response_sha256'', JStr (sha256_hex content)),
       (''response_bytes'', JInt (int (length content))), (''truncated'', JBool False)])"

definition effects_read ::
  "'p provider option \<Rightarrow> 'p \<Rightarrow> string \<Rightarrow> string \<Rightarrow> json \<Rightarrow> artifact_store \<Rightarrow> read_result res \<times> 'p \<times> artifact_store" where
  "effects_read provider ps task_id operation_id v store =
     (case provider of None \<Rightarrow> (Inl (ValueError ''No target provider is deployed''), ps, store)
      | Some P \<Rightarrow>
          case pr_read P ps (dget v ''workspace_id'') (dget v ''path'') of
            (Inl e, ps1) \<Rightarrow> (Inl (if unavailable e then ValueError (''Read unavailable: '' @ exn_str e) else e), ps1, store)
          | (Inr answer, ps1) \<Rightarrow>
              (case bindR (get_attr answer ''exists'') (\<lambda>ex.
                 seqR (raise_if (\<not> py_true ex) (ValueError ''Target file does not exist''))
                 (bindR (item answer ''content'') (\<lambda>c. if py_true c then py_text c MAX_WRITE_BYTES else Inr (JStr [])))) of
                 Inl e \<Rightarrow> (Inl e, ps1, store)
               | Inr c \<Rightarrow>
                   let content = jstr c in
                   (case put store task_id content of
                      (Inl e, st1) \<Rightarrow> (Inl e, ps1, st1)
                    | (Inr cref, st1) \<Rightarrow>
                        (case put_json st1 task_id (read_receipt (provider_id P) task_id operation_id v content cref) of
                           (Inl e, st2) \<Rightarrow> (Inl e, ps1, st2)
                         | (Inr rref, st2) \<Rightarrow>
                             (Inr \<lparr>rd_content_ref = cref, rd_receipt_ref = rref, rd_content = content\<rparr>, ps1, st2)))))"

end
