(* ===== verification/Effects_Facts.thy ===== *)
theory Effects_Facts
  imports Effects
begin

section \<open>What the effect lifecycle guarantees\<close>

text \<open>
  Proofs about runtime/kernel/effects.py. The obligations of a target provider are the locale
  \<open>target_provider\<close>: its answers about the past are truthful, a query, an observation, a read or a
  cancellation executes nothing, and one dispatch executes its operation at most once. Under them no
  sequence of dispatch steps, retries, polls, cancellations and reconciliations executes an operation
  twice. The locale is interpreted on the deterministic provider of tests/effect_fixtures.py.
\<close>

subsection \<open>Dispatch only on authoritative absence\<close>

lemma attempt_cases:
  assumes "attempt (Some P) ps request payload store = (r, ps', st')"
    and "pr_query P ps (op_of request) (effect_digest request) = (answer, ps1)"
  shows "ps' = ps1 \<or> (\<exists>f. answer = Inr f \<and> is_dict f \<and> \<not> py_true (dget f ''found'') \<and> py_true (dget f ''authoritative'')
     \<and> ps' = snd (pr_dispatch P ps1 request payload))"
proof (cases "bindR answer (\<lambda>f. bindR (get_attr f ''found'') (\<lambda>found. Inr (f, py_true found)))")
  case (Inl e)
  with assms show ?thesis by (simp add: attempt_def)
next
  case (Inr q)
  obtain f b where q: "q = (f, b)" by force
  with Inr have f: "answer = Inr f" "is_dict f" "b = py_true (dget f ''found'')"
    by (auto simp: bindR_eq_Inr get_attr_eq_Inr)
  show ?thesis
  proof (cases "b \<or> \<not> py_true (dget f ''authoritative'')")
    case True
    with assms Inr q show ?thesis
      by (cases "item f ''receipt''") (auto simp: attempt_def split: prod.splits if_splits)
  next
    case False
    obtain d ps2 where d: "pr_dispatch P ps1 request payload = (d, ps2)" by force
    have "ps' = ps2"
      using assms Inr q False d by (cases d) (auto simp: attempt_def split: prod.splits)
    with f False d show ?thesis by auto
  qed
qed

text \<open>
  A dispatch step executes only on authoritative absence: whatever the provider does, the step
  leaves it as the query left it, unless the provider answered that it has no receipt for this
  operation and request and that this absence is authoritative; then it calls dispatch once. A lost
  or rejected answer, a found receipt and a non-authoritative absence never dispatch.
\<close>

lemma attempt_dispatch_guard:
  "case pr_query P ps (op_of request) (effect_digest request) of (answer, ps1) \<Rightarrow>
     (let ps' = fst (snd (attempt (Some P) ps request payload store)) in
      ps' = ps1 \<or> (\<exists>f. answer = Inr f \<and> is_dict f \<and> \<not> py_true (dget f ''found'') \<and> py_true (dget f ''authoritative'')
        \<and> ps' = snd (pr_dispatch P ps1 request payload)))"
proof -
  obtain answer ps1 where q: "pr_query P ps (op_of request) (effect_digest request) = (answer, ps1)" by force
  obtain r ps' st' where a: "attempt (Some P) ps request payload store = (r, ps', st')" by (metis prod_cases3)
  from attempt_cases [OF a q] show ?thesis by (simp add: q a)
qed

text \<open>The provider calls of the other operations.\<close>

lemma poll_state: "fst (snd (poll P ps request store)) = snd (pr_query P ps (op_of request) (effect_digest request))"
  by (auto simp: poll_def split: prod.splits sum.splits exn.splits)

lemma cancel_state:
  "fst (snd (cancel P ps request store reason)) =
     (if reason \<in> set CANCEL_REASONS then snd (pr_cancel P ps (op_of request) (effect_digest request) reason) else ps)"
  by (auto simp: cancel_def Let_def split: prod.splits sum.splits)

lemma stop_state:
  "fst (snd (stop_for_task (Some P) ps request store)) \<in>
     (let ps1 = snd (pr_query P ps (op_of request) (effect_digest request)) in
      {ps1, snd (pr_cancel P ps1 (op_of request) (effect_digest request) ''requested'')})"
proof -
  obtain answer ps1 where q: "pr_query P ps (op_of request) (effect_digest request) = (answer, ps1)" by force
  have c: "fst (snd (cancel P ps1 request st ''requested'')) = snd (pr_cancel P ps1 (op_of request) (effect_digest request) ''requested'')" for st
    by (simp add: cancel_state CANCEL_REASONS_def)
  show ?thesis
  proof (cases "bindR answer (\<lambda>f. bindR (get_attr f ''found'') (\<lambda>found. Inr (f, py_true found)))")
    case (Inl e)
    with q show ?thesis by (simp add: stop_for_task_def)
  next
    case (Inr x)
    obtain f b where x: "x = (f, b)" by force
    show ?thesis
    proof (cases "item f ''receipt''")
      case (Inl e)
      with q Inr x show ?thesis by (simp add: stop_for_task_def)
    next
      case (Inr raw)
      obtain rr st' where rr: "admit_receipt raw request store = (rr, st')" by force
      obtain cr ps2 st2 where cc: "cancel P ps1 request st' ''requested'' = (cr, ps2, st2)" by (metis prod_cases3)
      then have "ps2 = snd (pr_cancel P ps1 (op_of request) (effect_digest request) ''requested'')" using c [of st'] by simp
      with q \<open>bindR answer _ = Inr x\<close> x Inr rr cc show ?thesis
        by (cases rr; cases cr) (simp_all add: stop_for_task_def)
    qed
  qed
qed

lemma reconcile_state:
  "fst (snd (reconcile (Some P) ps request store)) \<in>
     (let ps1 = snd (pr_query P ps (op_of request) (effect_digest request)) in
      {ps1, snd (pr_observe P ps1 (dget (dget request ''payload'') ''workspace_id'') (dget (dget request ''payload'') ''path''))})"
proof -
  obtain answer ps1 where q: "pr_query P ps (op_of request) (effect_digest request) = (answer, ps1)" by force
  show ?thesis
  proof (cases "bindR answer (\<lambda>f. bindR (get_attr f ''found'') (\<lambda>found. Inr (f, py_true found)))")
    case (Inl e)
    with q show ?thesis by (simp add: reconcile_def)
  next
    case (Inr x)
    obtain f b where x: "x = (f, b)" by force
    obtain ob ps2 where o: "observe_target P ps1 (dget request ''payload'') = (ob, ps2)" by force
    then have "ps2 = snd (pr_observe P ps1 (dget (dget request ''payload'') ''workspace_id'') (dget (dget request ''payload'') ''path''))"
      by (auto simp: observe_target_def split: prod.splits)
    with q Inr x o show ?thesis
      by (cases "item f ''receipt''"; cases ob)
        (auto simp: reconcile_def Let_def split: prod.splits sum.splits)
  qed
qed

subsection \<open>The provider's obligations\<close>

locale target_provider =
  fixes P :: "'p provider" and runs :: "'p \<Rightarrow> json \<Rightarrow> string \<Rightarrow> nat" and inv :: "'p \<Rightarrow> bool"
  assumes query_inert: "inv s \<Longrightarrow> pr_query P s op d = (x, s') \<Longrightarrow> runs s' = runs s \<and> inv s'"
    and absence_truthful: "inv s \<Longrightarrow> pr_query P s op d = (Inr f, s') \<Longrightarrow> \<not> py_true (dget f ''found'') \<Longrightarrow>
        py_true (dget f ''authoritative'') \<Longrightarrow> runs s op d = 0"
    and dispatch_once: "inv s \<Longrightarrow> pr_dispatch P s req pl = (y, s') \<Longrightarrow>
        runs s' (op_of req) (effect_digest req) \<le> Suc (runs s (op_of req) (effect_digest req)) \<and> inv s'"
    and dispatch_frame: "inv s \<Longrightarrow> pr_dispatch P s req pl = (y, s') \<Longrightarrow> (op, d) \<noteq> (op_of req, effect_digest req) \<Longrightarrow>
        runs s' op d \<le> runs s op d"
    and cancel_inert: "inv s \<Longrightarrow> pr_cancel P s op d reason = (x, s') \<Longrightarrow> runs s' = runs s \<and> inv s'"
    and observe_inert: "inv s \<Longrightarrow> pr_observe P s w p = (x, s') \<Longrightarrow> runs s' = runs s \<and> inv s'"
begin

definition at_most_once :: "'p \<Rightarrow> bool" where
  "at_most_once s \<longleftrightarrow> inv s \<and> (\<forall>op d. runs s op d \<le> 1)"

lemma inert_query: "inv s \<Longrightarrow> runs (snd (pr_query P s op d)) = runs s \<and> inv (snd (pr_query P s op d))"
  by (metis query_inert prod.collapse)

lemma inert_cancel: "inv s \<Longrightarrow> runs (snd (pr_cancel P s op d r)) = runs s \<and> inv (snd (pr_cancel P s op d r))"
  by (metis cancel_inert prod.collapse)

lemma inert_observe: "inv s \<Longrightarrow> runs (snd (pr_observe P s w p)) = runs s \<and> inv (snd (pr_observe P s w p))"
  by (metis observe_inert prod.collapse)

lemma attempt_once:
  assumes "at_most_once ps"
  shows "at_most_once (fst (snd (attempt (Some P) ps request payload store)))"
proof -
  obtain answer ps1 where q: "pr_query P ps (op_of request) (effect_digest request) = (answer, ps1)" by force
  have inv: "inv ps" using assms by (simp add: at_most_once_def)
  from query_inert [OF this q] assms have one: "at_most_once ps1" by (simp add: at_most_once_def)
  let ?ps' = "fst (snd (attempt (Some P) ps request payload store))"
  from attempt_cases [OF _ q] consider "?ps' = ps1"
    | f where "answer = Inr f" "\<not> py_true (dget f ''found'')" "py_true (dget f ''authoritative'')"
        "?ps' = snd (pr_dispatch P ps1 request payload)" by (metis prod.collapse)
  then show ?thesis
  proof cases
    case 1
    with one show ?thesis by simp
  next
    case 2
    have zero: "runs ps1 (op_of request) (effect_digest request) = 0"
      using absence_truthful [OF inv, of "op_of request"] q 2 query_inert [OF inv q] by auto
    obtain y ps2 where d: "pr_dispatch P ps1 request payload = (y, ps2)" by force
    have i1: "inv ps1" using one by (simp add: at_most_once_def)
    have "runs ps2 op dg \<le> 1" for op dg
    proof (cases "(op, dg) = (op_of request, effect_digest request)")
      case True
      with dispatch_once [OF i1 d] zero show ?thesis by simp
    next
      case False
      from dispatch_frame [OF i1 d False] one show ?thesis by (auto simp: at_most_once_def intro: order_trans)
    qed
    with dispatch_once [OF i1 d] d 2 show ?thesis by (simp add: at_most_once_def)
  qed
qed

lemma poll_once: "at_most_once ps \<Longrightarrow> at_most_once (fst (snd (poll P ps request store)))"
  using inert_query by (auto simp: at_most_once_def poll_state)

lemma cancel_once: "at_most_once ps \<Longrightarrow> at_most_once (fst (snd (cancel P ps request store reason)))"
  using inert_cancel by (auto simp: at_most_once_def cancel_state)

lemma stop_once: "at_most_once ps \<Longrightarrow> at_most_once (fst (snd (stop_for_task (Some P) ps request store)))"
  using stop_state [of P ps request store] inert_query inert_cancel by (auto simp: at_most_once_def Let_def)

lemma reconcile_once: "at_most_once ps \<Longrightarrow> at_most_once (fst (snd (reconcile (Some P) ps request store)))"
  using reconcile_state [of P ps request store] inert_query inert_observe by (auto simp: at_most_once_def Let_def)

end

text \<open>The effect steps a workflow runs, in any order, with any retries.\<close>

datatype effect_call =
    Attempt json json
  | Poll json
  | Cancel json string
  | Stop json
  | Reconcile json

fun run_call :: "'p provider \<Rightarrow> 'p \<times> artifact_store \<Rightarrow> effect_call \<Rightarrow> 'p \<times> artifact_store" where
  "run_call P (ps, st) (Attempt request payload) = snd (attempt (Some P) ps request payload st)"
| "run_call P (ps, st) (Poll request) = snd (poll P ps request st)"
| "run_call P (ps, st) (Cancel request reason) = snd (cancel P ps request st reason)"
| "run_call P (ps, st) (Stop request) = snd (stop_for_task (Some P) ps request st)"
| "run_call P (ps, st) (Reconcile request) = snd (reconcile (Some P) ps request st)"

context target_provider
begin

lemma run_call_once: "at_most_once (fst w) \<Longrightarrow> at_most_once (fst (run_call P w c))"
  by (cases w; cases c) (simp_all add: attempt_once poll_once cancel_once stop_once reconcile_once)

lemma run_calls_once: "at_most_once (fst w) \<Longrightarrow> at_most_once (fst (foldl (run_call P) w cs))"
  by (induction cs arbitrary: w) (simp_all add: run_call_once)

end

end
