(* ===== verification/Fixture_Target.thy ===== *)
theory Fixture_Target
  imports Effects_Facts
begin

section \<open>The deterministic target provider\<close>

text \<open>
  \<open>FixtureTarget\<close> of tests/effect_fixtures.py, the provider the kernel's effect tests run against. Its
  SQLite tables are maps and a list; the injected faults are fields of the state: an unreachable
  provider, a receipt store that is not authoritative, an external edit before a write and a reply
  lost after commit. The faults that kill the test runtime are left out.

  The interpretation at the end shows that it meets the obligations of \<open>target_provider\<close>.
\<close>

record fixture =
  fx_files :: "json \<times> json \<rightharpoonup> string"
  fx_receipts :: "json \<rightharpoonup> string \<times> json"
  fx_processes :: "json \<rightharpoonup> json \<times> nat"
  fx_executions :: "(json \<times> string) list"
  fx_unavailable :: bool
  fx_authoritative :: bool
  fx_external_edit :: "string option"
  fx_lose_response :: bool
  fx_behaviour :: "json \<Rightarrow> json \<Rightarrow> json"

definition unreachable :: "'a res" where
  "unreachable = Inl (ProviderUnavailable ''fixture provider unreachable'')"

definition fixture_receipt :: "json \<Rightarrow> string \<Rightarrow> (string \<times> json) list \<Rightarrow> json" where
  "fixture_receipt request state body =
     (let payload = dget request ''payload'' in
      message ''EffectReceipt'' (JObj ([(''task_id'', dget payload ''task_id''), (''operation_id'', dget payload ''operation_id''),
        (''request_digest'', JStr (effect_digest request)), (''provider'', JStr ''fixture-target''),
        (''operation_class'', dget payload ''operation_class''), (''state'', JStr state)] @ body)))"

definition fixture_read :: "fixture \<Rightarrow> json \<Rightarrow> json \<Rightarrow> json res \<times> fixture" where
  "fixture_read s w p =
     (if fx_unavailable s then unreachable
      else Inr (JObj [(''exists'', JBool (fx_files s (w, p) \<noteq> None)),
        (''content'', JStr (case fx_files s (w, p) of None \<Rightarrow> [] | Some c \<Rightarrow> c))]), s)"

definition fixture_observe :: "fixture \<Rightarrow> json \<Rightarrow> json \<Rightarrow> json res \<times> fixture" where
  "fixture_observe s w p =
     (if fx_unavailable s then unreachable
      else Inr (case fx_files s (w, p) of None \<Rightarrow> JObj [(''exists'', JBool False)]
        | Some c \<Rightarrow> JObj [(''exists'', JBool True), (''sha256'', JStr (sha256_hex c))]), s)"

definition fixture_write :: "fixture \<Rightarrow> json \<Rightarrow> json \<Rightarrow> json \<times> fixture" where
  "fixture_write s request payload =
     (let p = dget request ''payload''; key = (dget p ''workspace_id'', dget p ''path'');
          s1 = (case fx_external_edit s of None \<Rightarrow> s
                | Some c \<Rightarrow> s\<lparr>fx_files := (fx_files s)(key \<mapsto> c), fx_external_edit := None\<rparr>);
          before = (case fx_files s1 key of None \<Rightarrow> JObj [(''absent'', JBool True)]
                    | Some c \<Rightarrow> JObj [(''sha256'', JStr (sha256_hex c))]);
          target = [(''workspace_id'', dget p ''workspace_id''), (''path'', dget p ''path''), (''before'', before)] in
      if \<not> py_eq before (dget p ''precondition'') then
        (fixture_receipt request ''conflict'' [(''write'', JObj target),
           (''detail'', JStr ''Target changed since the planning evidence'')], s1)
      else
        let content = sget payload ''content''; h = sha256_hex content in
        (fixture_receipt request ''applied'' [(''write'', JObj (target @
            [(''after'', JObj [(''sha256'', JStr h)]), (''readback_sha256'', JStr h)]))],
         s1\<lparr>fx_files := (fx_files s1)(key \<mapsto> content),
            fx_executions := fx_executions s1 @ [(dget p ''operation_id'', ''write'')]\<rparr>))"

definition fixture_start :: "fixture \<Rightarrow> json \<Rightarrow> json \<times> fixture" where
  "fixture_start s request =
     (let p = dget request ''payload'' in
      (fixture_receipt request ''running'' [(''exec'', JObj [(''started'', JBool True), (''cleanup'', JStr ''running'')])],
       s\<lparr>fx_processes := (fx_processes s)(dget p ''operation_id'' \<mapsto> (dget (dget p ''profile'') ''id'', 0)),
         fx_executions := fx_executions s @ [(dget p ''operation_id'', ''exec'')]\<rparr>))"

definition fixture_dispatch :: "fixture \<Rightarrow> json \<Rightarrow> json \<Rightarrow> json res \<times> fixture" where
  "fixture_dispatch s request payload =
     (if fx_unavailable s then (unreachable, s)
      else case fx_receipts s (op_of request) of
        Some (digest, receipt) \<Rightarrow>
          (if digest \<noteq> effect_digest request then Inl (ValueError ''Operation identity reused with a different request'')
           else Inr receipt, s)
      | None \<Rightarrow>
          (case (if dget (dget request ''payload'') ''operation_class'' = JStr WRITE then fixture_write s request payload
                 else fixture_start s request) of (receipt, s1) \<Rightarrow>
           let s2 = s1\<lparr>fx_receipts := (fx_receipts s1)(op_of request \<mapsto> (effect_digest request, receipt))\<rparr> in
           if fx_lose_response s2 then
             (Inl (ResponseLost ''fixture reply dropped after commit''), s2\<lparr>fx_lose_response := False\<rparr>)
           else (Inr receipt, s2)))"

definition fixture_completed :: "json \<Rightarrow> json \<Rightarrow> json" where
  "fixture_completed receipt behaviour =
     dset receipt ''payload'' (dset (dset (dget receipt ''payload'') ''state'' (JStr ''completed'')) ''exec''
       (JObj [(''started'', JBool True), (''cleanup'', JStr ''confirmed''), (''exit_code'', dget behaviour ''exit_code''),
         (''output'', dget_or behaviour ''output'' (JStr [])), (''result'', dget_or behaviour ''result'' (JObj [])),
         (''truncated'', JBool False), (''merged'', JBool True)]))"

definition fixture_query :: "fixture \<Rightarrow> json \<Rightarrow> string \<Rightarrow> json res \<times> fixture" where
  "fixture_query s op digest =
     (if fx_unavailable s then (unreachable, s)
      else case fx_receipts s op of
        None \<Rightarrow> (Inr (JObj [(''found'', JBool False), (''authoritative'', JBool (fx_authoritative s))]), s)
      | Some (d, receipt) \<Rightarrow>
          if d \<noteq> digest then (Inr (JObj [(''found'', JBool False), (''authoritative'', JBool (fx_authoritative s))]), s)
          else if dget (dget receipt ''payload'') ''state'' = JStr ''running'' then
            (case fx_processes s op of None \<Rightarrow> (Inl (TypeError ''NoneType object is not subscriptable''), s)
             | Some (profile, n) \<Rightarrow>
                 let behaviour = fx_behaviour s op profile;
                     s1 = s\<lparr>fx_processes := (fx_processes s)(op \<mapsto> (profile, Suc n))\<rparr> in
                 if jint (dget behaviour ''polls'') \<le> int (Suc n) then
                   let r = fixture_completed receipt behaviour in
                   (Inr (JObj [(''found'', JBool True), (''receipt'', r)]), s1\<lparr>fx_receipts := (fx_receipts s1)(op \<mapsto> (d, r))\<rparr>)
                 else (Inr (JObj [(''found'', JBool True), (''receipt'', receipt)]), s1))
          else (Inr (JObj [(''found'', JBool True), (''receipt'', receipt)]), s))"

definition fixture_cancel :: "fixture \<Rightarrow> json \<Rightarrow> string \<Rightarrow> string \<Rightarrow> json res \<times> fixture" where
  "fixture_cancel s op digest reason =
     (if fx_unavailable s then (unreachable, s)
      else case fx_receipts s op of
        None \<Rightarrow> (Inl (TypeError ''NoneType object is not subscriptable''), s)
      | Some (d, receipt) \<Rightarrow>
          if dget (dget receipt ''payload'') ''state'' \<noteq> JStr ''running'' then (Inr (JObj [(''receipt'', receipt)]), s)
          else case fx_processes s op of None \<Rightarrow> (Inl (TypeError ''NoneType object is not subscriptable''), s)
            | Some (profile, n) \<Rightarrow>
                let s1 = s\<lparr>fx_executions := fx_executions s @ [(op, ''cancel'')]\<rparr> in
                if dget (fx_behaviour s op profile) ''stop'' = JStr ''unknown'' then
                  (Inl (ResponseLost ''kill sent; process state not confirmed''), s1)
                else
                  let r = dset receipt ''payload'' (dset (dset (dget receipt ''payload'') ''state''
                        (JStr (if reason = ''timeout'' then ''timed_out'' else ''canceled''))) ''exec''
                        (JObj [(''started'', JBool True), (''cleanup'', JStr ''confirmed''), (''signal'', JStr ''SIGKILL'')])) in
                  (Inr (JObj [(''receipt'', r)]), s1\<lparr>fx_receipts := (fx_receipts s1)(op \<mapsto> (d, r))\<rparr>))"

definition fixture_target :: "fixture provider" where
  "fixture_target = \<lparr>provider_id = ''fixture-target'', pr_read = fixture_read, pr_dispatch = fixture_dispatch,
     pr_query = fixture_query, pr_observe = fixture_observe, pr_cancel = fixture_cancel\<rparr>"

subsection \<open>It meets the obligations\<close>

text \<open>The executions of an operation other than the kills, when its receipt is for that request.\<close>

definition op_runs :: "fixture \<Rightarrow> json \<Rightarrow> nat" where
  "op_runs s op = length (filter (\<lambda>(o', k). o' = op \<and> k \<noteq> ''cancel'') (fx_executions s))"

definition fixture_runs :: "fixture \<Rightarrow> json \<Rightarrow> string \<Rightarrow> nat" where
  "fixture_runs s op d = (case fx_receipts s op of None \<Rightarrow> 0 | Some (d', _) \<Rightarrow> if d' = d then op_runs s op else 0)"

definition fixture_inv :: "fixture \<Rightarrow> bool" where
  "fixture_inv s \<longleftrightarrow> (\<forall>op. fx_receipts s op = None \<longrightarrow> op_runs s op = 0)"

lemma fixture_query_state:
  assumes "fixture_query s op d = (x, s')"
  shows "fx_executions s' = fx_executions s" and "map_option fst (fx_receipts s' o') = map_option fst (fx_receipts s o')"
  using assms by (auto simp: fixture_query_def Let_def split: if_splits option.splits prod.splits)

lemma fixture_cancel_state:
  assumes "fixture_cancel s op d reason = (x, s')"
  shows "op_runs s' o' = op_runs s o'" and "map_option fst (fx_receipts s' o') = map_option fst (fx_receipts s o')"
  using assms by (auto simp: fixture_cancel_def op_runs_def Let_def split: if_splits option.splits prod.splits)

lemma runs_same:
  assumes "\<And>o'. op_runs s' o' = op_runs s o'" and "\<And>o'. map_option fst (fx_receipts s' o') = map_option fst (fx_receipts s o')"
  shows "fixture_runs s' = fixture_runs s \<and> fixture_inv s' = fixture_inv s"
proof
  have none: "fx_receipts s' o' = None \<longleftrightarrow> fx_receipts s o' = None" for o'
    using assms(2) [of o'] by (metis option.map_disc_iff)
  then show "fixture_inv s' = fixture_inv s" by (simp add: fixture_inv_def assms(1))
  show "fixture_runs s' = fixture_runs s"
  proof (intro ext)
    fix op d
    show "fixture_runs s' op d = fixture_runs s op d"
      using assms(2) [of op] assms(1) [of op]
      by (cases "fx_receipts s op"; cases "fx_receipts s' op") (auto simp: fixture_runs_def split: prod.splits)
  qed
qed

lemma fixture_effect_state:
  assumes "(if c then fixture_write s request payload else fixture_start s request) = (receipt, s1)"
  shows "fx_receipts s1 = fx_receipts s" and "op_runs s1 (op_of request) \<le> Suc (op_runs s (op_of request))"
    and "op \<noteq> op_of request \<Longrightarrow> op_runs s1 op = op_runs s op"
  using assms
  by (auto simp: fixture_write_def fixture_start_def op_runs_def op_of_def Let_def split: if_splits option.splits)

lemma fixture_dispatch_cases:
  assumes "fixture_dispatch s request payload = (y, s')"
  obtains "s' = s"
  | receipt s1 where "fx_receipts s (op_of request) = None"
      "(if dget (dget request ''payload'') ''operation_class'' = JStr WRITE then fixture_write s request payload
        else fixture_start s request) = (receipt, s1)"
      "fx_receipts s' = (fx_receipts s)(op_of request \<mapsto> (effect_digest request, receipt))"
      "fx_executions s' = fx_executions s1"
proof (cases "fx_unavailable s \<or> fx_receipts s (op_of request) \<noteq> None")
  case True
  with assms that(1) show ?thesis
    by (auto simp: fixture_dispatch_def split: if_splits option.splits prod.splits)
next
  case False
  then have none: "fx_receipts s (op_of request) = None" and av: "\<not> fx_unavailable s" by blast+
  obtain receipt s1 where e: "(if dget (dget request ''payload'') ''operation_class'' = JStr WRITE
      then fixture_write s request payload else fixture_start s request) = (receipt, s1)" by force
  show ?thesis
    using assms none av e fixture_effect_state(1) [OF e]
    by (intro that(2) [OF none e]) (auto simp: fixture_dispatch_def Let_def split: if_splits)
qed

interpretation fx: target_provider fixture_target fixture_runs fixture_inv
proof unfold_locales
  fix s s' :: fixture and op d x
  assume inv: "fixture_inv s" and q: "pr_query fixture_target s op d = (x, s')"
  then have q': "fixture_query s op d = (x, s')" by (simp add: fixture_target_def)
  have "fixture_runs s' = fixture_runs s \<and> fixture_inv s' = fixture_inv s"
    by (rule runs_same) (use fixture_query_state [OF q'] in \<open>simp_all add: op_runs_def\<close>)
  with inv show "fixture_runs s' = fixture_runs s \<and> fixture_inv s'" by simp
next
  fix s s' :: fixture and op d f
  assume "pr_query fixture_target s op d = (Inr f, s')" and "\<not> py_true (dget f ''found'')"
  then show "fixture_runs s op d = 0"
    by (auto simp: fixture_target_def fixture_query_def fixture_runs_def unreachable_def Let_def py_defs
        split: if_splits option.splits prod.splits)
next
  fix s s' :: fixture and req pl y
  assume inv: "fixture_inv s" and d: "pr_dispatch fixture_target s req pl = (y, s')"
  then have "fixture_dispatch s req pl = (y, s')" by (simp add: fixture_target_def)
  then show "fixture_runs s' (op_of req) (effect_digest req) \<le> Suc (fixture_runs s (op_of req) (effect_digest req)) \<and> fixture_inv s'"
  proof (cases rule: fixture_dispatch_cases)
    case 1
    with inv show ?thesis by simp
  next
    case (2 receipt s1)
    have "op_runs s (op_of req) = 0" using inv 2(1) by (simp add: fixture_inv_def)
    with fixture_effect_state(2) [OF 2(2)] have "op_runs s1 (op_of req) \<le> 1" by simp
    then have "fixture_runs s' (op_of req) (effect_digest req) \<le> 1"
      by (simp add: fixture_runs_def 2(3) op_runs_def 2(4))
    moreover have "op_runs s' op = 0" if "fx_receipts s' op = None" for op
    proof -
      from that 2(3) have "op \<noteq> op_of req" "fx_receipts s op = None" by (auto split: if_splits)
      with fixture_effect_state(3) [OF 2(2)] inv show ?thesis by (simp add: fixture_inv_def op_runs_def 2(4))
    qed
    ultimately show ?thesis by (auto simp: fixture_inv_def)
  qed
next
  fix s s' :: fixture and req pl y op d
  assume inv: "fixture_inv s" and di: "pr_dispatch fixture_target s req pl = (y, s')"
    and ne: "(op, d) \<noteq> (op_of req, effect_digest req)"
  then have "fixture_dispatch s req pl = (y, s')" by (simp add: fixture_target_def)
  then show "fixture_runs s' op d \<le> fixture_runs s op d"
  proof (cases rule: fixture_dispatch_cases)
    case 1
    then show ?thesis by simp
  next
    case (2 receipt s1)
    show ?thesis
    proof (cases "op = op_of req")
      case True
      with ne show ?thesis by (simp add: fixture_runs_def 2(3))
    next
      case False
      have "op_runs s' op = op_runs s op"
        using fixture_effect_state(3) [OF 2(2) False] by (simp add: op_runs_def 2(4))
      with False show ?thesis by (simp add: fixture_runs_def 2(3) split: option.splits prod.splits)
    qed
  qed
next
  fix s s' :: fixture and op d reason x
  assume inv: "fixture_inv s" and q: "pr_cancel fixture_target s op d reason = (x, s')"
  then have q': "fixture_cancel s op d reason = (x, s')" by (simp add: fixture_target_def)
  have "fixture_runs s' = fixture_runs s \<and> fixture_inv s' = fixture_inv s"
    by (rule runs_same) (use fixture_cancel_state [OF q'] in simp_all)
  with inv show "fixture_runs s' = fixture_runs s \<and> fixture_inv s'" by simp
next
  fix s s' :: fixture and w p x
  assume "fixture_inv s" and "pr_observe fixture_target s w p = (x, s')"
  then show "fixture_runs s' = fixture_runs s \<and> fixture_inv s'"
    by (simp add: fixture_target_def fixture_observe_def)
qed

subsection \<open>Properties of effects\<close>

text \<open>
  C6. Target effects are executed at most once: for every provider that meets its obligations, no
  sequence of dispatch steps, retries after a crash, polls, cancellations, Task stops and
  reconciliations, over any requests, makes one operation and request run twice, as long as none had
  before.
\<close>

theorem effects_at_most_once:
  assumes "target_provider P runs ok" and "ok ps" and "\<And>op d. runs ps op d \<le> 1"
  shows "ok (fst (foldl (run_call P) (ps, store) calls))
    \<and> (\<forall>op d. runs (fst (foldl (run_call P) (ps, store) calls)) op d \<le> 1)"
proof -
  have "target_provider.at_most_once runs ok (fst (foldl (run_call P) (ps, store) calls))"
    by (rule target_provider.run_calls_once [OF assms(1)])
      (use assms in \<open>simp add: target_provider.at_most_once_def [OF assms(1)]\<close>)
  then show ?thesis by (simp add: target_provider.at_most_once_def [OF assms(1)])
qed

definition fixture_empty :: fixture where
  "fixture_empty = \<lparr>fx_files = Map.empty, fx_receipts = Map.empty, fx_processes = Map.empty, fx_executions = [],
     fx_unavailable = False, fx_authoritative = True, fx_external_edit = None, fx_lose_response = True,
     fx_behaviour = (\<lambda>_ _. JObj [])\<rparr>"

theorem effects_at_most_once_witness:
  "target_provider fixture_target fixture_runs fixture_inv \<and>
   (\<forall>r p op d. fixture_runs (fst (foldl (run_call fixture_target) (fixture_empty, new_store) [Attempt r p, Attempt r p])) op d \<le> 1)"
proof -
  have "fixture_inv fixture_empty" "\<And>op d. fixture_runs fixture_empty op d \<le> 1"
    by (simp_all add: fixture_inv_def fixture_runs_def fixture_empty_def op_runs_def)
  from effects_at_most_once [OF fx.target_provider_axioms this] fx.target_provider_axioms show ?thesis by blast
qed

lemma validate_receipt_Inr:
  assumes "validate_receipt raw request = Inr rc"
  shows "py_eq (dget rc ''task_id'') (dget (dget request ''payload'') ''task_id'')"
    and "py_eq (dget rc ''operation_id'') (op_of request)"
    and "dget rc ''request_digest'' = JStr (effect_digest request)"
    and "dget (dget request ''payload'') ''operation_class'' = JStr WRITE \<Longrightarrow>
       check_write_receipt rc (dget request ''payload'') = Inr ()"
    and "dget (dget request ''payload'') ''operation_class'' \<noteq> JStr WRITE \<Longrightarrow>
       check_exec_receipt rc (dget request ''payload'') = Inr ()"
  using assms unfolding validate_receipt_def Let_def bindR_eq_Inr py_fields_eq_Inr op_of_def
  by (auto split: if_splits)

text \<open>
  A receipt is admitted only for this exact request and only when it is consistent: it names the
  request's Task, operation, class and SHA-256 digest. An \<open>applied\<close> write started from exactly the
  admitted precondition, ended with exactly the requested content, and was read back with that
  digest; a \<open>conflict\<close> shows another current state and no write. A completed process reports an exit
  code or a signal, an unstarted one did not start, and output stays within its cap.
\<close>

lemma validate_receipt_sound:
  assumes "validate_receipt raw request = Inr rc"
  defines "q \<equiv> dget request ''payload''"
  shows "py_eq (dget rc ''operation_id'') (op_of request) \<and> dget rc ''request_digest'' = JStr (effect_digest request)
    \<and> (dget q ''operation_class'' = JStr WRITE \<and> dget rc ''state'' = JStr ''applied'' \<longrightarrow>
         py_eq (dget (dget rc ''write'') ''before'') (dget q ''precondition'')
         \<and> py_eq (dget (dget rc ''write'') ''after'') (JObj [(''sha256'', dget q ''content_sha256'')])
         \<and> py_eq (dget (dget rc ''write'') ''readback_sha256'') (dget q ''content_sha256'')
         \<and> py_eq (dget (dget rc ''write'') ''path'') (dget q ''path''))
    \<and> (dget q ''operation_class'' = JStr WRITE \<and> dget rc ''state'' = JStr ''conflict'' \<longrightarrow>
         \<not> py_eq (dget (dget rc ''write'') ''before'') (dget q ''precondition'') \<and> \<not> has_key (dget rc ''write'') ''after'')
    \<and> (dget q ''operation_class'' \<noteq> JStr WRITE \<and> dget rc ''state'' = JStr ''completed'' \<longrightarrow>
         is_int (dget (dget rc ''exec'') ''exit_code'') \<or> has_key (dget rc ''exec'') ''signal'')
    \<and> (dget q ''operation_class'' \<noteq> JStr WRITE \<and> has_key (dget rc ''exec'') ''output'' \<longrightarrow>
         int (length (sget (dget rc ''exec'') ''output'')) \<le> jint (dget q ''output_cap_bytes''))"
proof -
  note rc = validate_receipt_Inr [OF assms(1)]
  have ex: "(dget rc ''state'' = JStr ''completed'' \<longrightarrow> is_int (dget (dget rc ''exec'') ''exit_code'') \<or> has_key (dget rc ''exec'') ''signal'')
      \<and> (has_key (dget rc ''exec'') ''output'' \<longrightarrow> int (length (sget (dget rc ''exec'') ''output'')) \<le> jint (dget q ''output_cap_bytes''))"
    if "dget q ''operation_class'' \<noteq> JStr WRITE"
    using rc(5) that unfolding q_def check_exec_receipt_def bindR_eq_Inr py_fields_eq_Inr checks_eq_Inr
    by (auto split: if_splits)
  have wr: "(dget rc ''state'' = JStr ''applied'' \<longrightarrow>
         py_eq (dget (dget rc ''write'') ''before'') (dget q ''precondition'')
         \<and> py_eq (dget (dget rc ''write'') ''after'') (JObj [(''sha256'', dget q ''content_sha256'')])
         \<and> py_eq (dget (dget rc ''write'') ''readback_sha256'') (dget q ''content_sha256'')
         \<and> py_eq (dget (dget rc ''write'') ''path'') (dget q ''path''))
      \<and> (dget rc ''state'' = JStr ''conflict'' \<longrightarrow>
         \<not> py_eq (dget (dget rc ''write'') ''before'') (dget q ''precondition'') \<and> \<not> has_key (dget rc ''write'') ''after'')"
    if "dget q ''operation_class'' = JStr WRITE"
    using rc(4) that unfolding q_def check_write_receipt_def bindR_eq_Inr py_fields_eq_Inr Let_def
    by (auto simp del: py_eq.simps)
  from rc(2,3) ex wr show ?thesis by blast
qed

subsection \<open>Reconciliation\<close>

lemma still_unknown_state: "dget (dget (still_unknown d) ''payload'') ''state'' = JStr ''STILL_UNKNOWN''"
  by (simp add: still_unknown_def reconciliation_def py_defs)

lemma reconcile_handler_state:
  "reconcile_handler e = Inr m \<Longrightarrow> dget (dget m ''payload'') ''state'' = JStr ''STILL_UNKNOWN''"
proof -
  assume "reconcile_handler e = Inr m"
  then obtain d where "m = still_unknown d" unfolding reconcile_handler_def
    by (cases "unavailable e"; cases "rejected e") auto
  then show ?thesis by (simp only: still_unknown_state)
qed

text \<open>What reconciliation does on each answer of the provider.\<close>

lemma reconcile_bad_answer:
  assumes "pr_query P ps (op_of request) (effect_digest request) = (answer, ps1)"
    and "bindR answer (\<lambda>f. bindR (get_attr f ''found'') (\<lambda>found. Inr (f, py_true found))) = Inl e"
  shows "fst (reconcile (Some P) ps request store) = reconcile_handler e"
  using assms by (simp add: reconcile_def)

lemma reconcile_found:
  assumes "pr_query P ps (op_of request) (effect_digest request) = (Inr f, ps1)" and "is_dict f"
    and "py_true (dget f ''found'')" and "reconcile (Some P) ps request store = (Inr m, ps', st')"
  shows "dget (dget m ''payload'') ''state'' = JStr ''STILL_UNKNOWN'' \<or>
    (\<exists>receipt. admit_receipt (dget f ''receipt'') request store = (Inr receipt, st')
       \<and> dget (dget receipt ''payload'') ''state'' \<noteq> JStr ''running''
       \<and> dget (dget m ''payload'') ''state'' = JStr ''APPLIED'' \<and> dget (dget m ''payload'') ''receipt'' = receipt)"
proof (cases "item f ''receipt''")
  case (Inl e)
  with assms have "reconcile_handler e = Inr m" by (simp add: reconcile_def get_attr_def)
  then show ?thesis by (simp add: reconcile_handler_state)
next
  case (Inr raw)
  then have raw: "raw = dget f ''receipt''" by (simp add: item_eq_Inr)
  obtain rr st1 where rr: "admit_receipt raw request store = (rr, st1)" by force
  show ?thesis
  proof (cases rr)
    case (Inl e)
    with assms Inr rr have "reconcile_handler e = Inr m" by (simp add: reconcile_def get_attr_def)
    then show ?thesis by (simp add: reconcile_handler_state)
  next
    case (Inr receipt)
    with assms \<open>item f ''receipt'' = Inr raw\<close> rr
    have m: "m = (if dget (dget receipt ''payload'') ''state'' = JStr ''running''
          then still_unknown ''The process was started and its end is not yet confirmed''
          else reconciliation [(''state'', JStr ''APPLIED''), (''receipt'', receipt),
            (''detail'', JStr (''Provider receipt for this operation: '' @ sget (dget receipt ''payload'') ''state''))])" "st' = st1"
      by (simp_all add: reconcile_def get_attr_def)
    with rr Inr raw show ?thesis
      by (simp add: still_unknown_state reconciliation_def py_defs split: if_splits)
  qed
qed

lemma reconcile_absent:
  assumes "pr_query P ps (op_of request) (effect_digest request) = (Inr f, ps1)" and "is_dict f"
    and "\<not> py_true (dget f ''found'')" and "reconcile (Some P) ps request store = (Inr m, ps', st')"
  shows "if py_true (dget f ''authoritative'') then dget (dget m ''payload'') ''state'' = JStr ''NOT_APPLIED''
    else dget (dget m ''payload'') ''state'' \<in> {JStr ''STILL_UNKNOWN'', JStr ''DIFFERENT_STATE''}"
proof (cases "py_true (dget f ''authoritative'')")
  case True
  with assms have "m = reconciliation [(''state'', JStr ''NOT_APPLIED''),
                   (''detail'', JStr ''Provider states authoritatively that this operation never ran'')]"
    by (simp add: reconcile_def get_attr_def)
  with True show ?thesis by (simp add: reconciliation_def py_defs)
next
  case False
  show ?thesis
  proof (cases "dget (dget request ''payload'') ''operation_class'' = JStr WRITE")
    case True
    obtain ob ps2 where o: "observe_target P ps1 (dget request ''payload'') = (ob, ps2)" by force
    show ?thesis
    proof (cases ob)
      case (Inl e)
      with assms True False o have "reconcile_handler e = Inr m" by (simp add: reconcile_def get_attr_def)
      with False show ?thesis by (simp add: reconcile_handler_state)
    next
      case (Inr observed)
      with assms True False o show ?thesis
        by (simp add: reconcile_def get_attr_def reconciliation_def Let_def split: if_splits) (auto simp: py_defs)
    qed
  next
    case False': False
    with assms False have "m = still_unknown ''No receipt for this process''"
      by (simp add: reconcile_def get_attr_def)
    with False show ?thesis by (simp add: still_unknown_state)
  qed
qed

text \<open>
  Reconciliation concludes only from provider evidence: it answers one of the four
  reconciliation states; \<open>APPLIED\<close> only when the provider returned a receipt that validates against
  this request and is not still running (never because the target's hash happens to match); and
  \<open>NOT_APPLIED\<close> only when the provider states absence authoritatively.
\<close>

lemma reconcile_sound:
  assumes q: "pr_query P ps (op_of request) (effect_digest request) = (answer, ps1)"
    and r: "reconcile (Some P) ps request store = (Inr m, ps', st')"
  shows "dget (dget m ''payload'') ''state'' \<in> JStr ` set RECONCILED
    \<and> (dget (dget m ''payload'') ''state'' = JStr ''APPLIED'' \<longrightarrow> (\<exists>f receipt. answer = Inr f \<and> py_true (dget f ''found'')
          \<and> is_ok (validate_receipt (dget f ''receipt'') request)
          \<and> admit_receipt (dget f ''receipt'') request store = (Inr receipt, st')
          \<and> dget (dget m ''payload'') ''receipt'' = receipt
          \<and> dget (dget receipt ''payload'') ''state'' \<noteq> JStr ''running''))
    \<and> (dget (dget m ''payload'') ''state'' = JStr ''NOT_APPLIED'' \<longrightarrow>
          (\<exists>f. answer = Inr f \<and> \<not> py_true (dget f ''found'') \<and> py_true (dget f ''authoritative'')))"
proof (cases "bindR answer (\<lambda>f. bindR (get_attr f ''found'') (\<lambda>found. Inr (f, py_true found)))")
  case (Inl e)
  with reconcile_bad_answer [OF q, of e store] r have "reconcile_handler e = Inr m" by simp
  then show ?thesis by (simp add: reconcile_handler_state RECONCILED_def)
next
  case (Inr x)
  then obtain f where f: "answer = Inr f" "is_dict f" by (auto simp: bindR_eq_Inr get_attr_eq_Inr)
  note q = q [unfolded f(1)]
  show ?thesis
  proof (cases "py_true (dget f ''found'')")
    case True
    from reconcile_found [OF q f(2) True r] show ?thesis
    proof
      assume "dget (dget m ''payload'') ''state'' = JStr ''STILL_UNKNOWN''"
      then show ?thesis by (simp add: RECONCILED_def)
    next
      assume "\<exists>receipt. admit_receipt (dget f ''receipt'') request store = (Inr receipt, st')
         \<and> dget (dget receipt ''payload'') ''state'' \<noteq> JStr ''running''
         \<and> dget (dget m ''payload'') ''state'' = JStr ''APPLIED'' \<and> dget (dget m ''payload'') ''receipt'' = receipt"
      then obtain receipt where rc: "admit_receipt (dget f ''receipt'') request store = (Inr receipt, st')"
        "dget (dget receipt ''payload'') ''state'' \<noteq> JStr ''running''"
        "dget (dget m ''payload'') ''state'' = JStr ''APPLIED''" "dget (dget m ''payload'') ''receipt'' = receipt" by blast
      have "is_ok (validate_receipt (dget f ''receipt'') request)"
        using rc(1) by (cases "validate_receipt (dget f ''receipt'') request") (simp_all add: admit_receipt_def)
      with rc f(1) True show ?thesis by (simp add: RECONCILED_def)
    qed
  next
    case False
    from reconcile_absent [OF q f(2) False r] f(1) False show ?thesis
      by (cases "py_true (dget f ''authoritative'')") (auto simp: RECONCILED_def)
  qed
qed

subsection \<open>Concrete effects\<close>

definition fixture_request :: json where
  "fixture_request = message ''EffectRequest'' (JObj [(''task_id'', JStr ''t1''), (''operation_id'', JStr ''op1''),
     (''operation_class'', JStr ''workspace.write''), (''workspace_id'', JStr ''w''), (''path'', JStr ''a.txt''),
     (''precondition'', JObj [(''absent'', JBool True)]), (''content_sha256'', JStr (sha256_hex ''hi''))])"

definition fixture_applied :: json where
  "fixture_applied = JObj [(''task_id'', JStr ''t1''), (''operation_id'', JStr ''op1''),
     (''request_digest'', JStr (effect_digest fixture_request)), (''provider'', JStr ''fixture-target''),
     (''operation_class'', JStr ''workspace.write''), (''state'', JStr ''applied''),
     (''write'', JObj [(''workspace_id'', JStr ''w''), (''path'', JStr ''a.txt''), (''before'', JObj [(''absent'', JBool True)]),
        (''after'', JObj [(''sha256'', JStr (sha256_hex ''hi''))]), (''readback_sha256'', JStr (sha256_hex ''hi''))])]"

lemma fixture_write_applied:
  "fst (fixture_write fixture_empty fixture_request (JObj [(''content'', JStr ''hi'')])) = message ''EffectReceipt'' fixture_applied"
  by (simp add: fixture_write_def fixture_empty_def fixture_receipt_def fixture_applied_def Let_def)
    (simp add: fixture_request_def py_defs)

lemma effect_digest_length: "length (effect_digest v) = 71"
  by (simp add: effect_digest_def sha.digest_length)

lemma fixture_applied_valid:
  "validate_receipt (message ''EffectReceipt'' fixture_applied) fixture_request = Inr fixture_applied"
proof -
  have "length (encode (message ''EffectReceipt'' fixture_applied)) \<le> MAX_PACKET"
    by (rule length_encode_le)
      (simp add: fixture_applied_def message_def MAX_PACKET_def effect_digest_length sha.digest_length jsize_eval)
  then have "unpack (message ''EffectReceipt'' fixture_applied) ''EffectReceipt'' = Inr fixture_applied"
    by (simp add: unpack_message) (simp add: fixture_applied_def)
  then show ?thesis
    by (simp add: validate_receipt_def)
      (simp add: fixture_applied_def fixture_request_def py_fields_def py_defs check_write_receipt_def WRITE_STATES_def
        WRITE_def)
qed

lemma validate_receipt_sound_witness:
  "validate_receipt (message ''EffectReceipt'' fixture_applied) fixture_request = Inr fixture_applied
   \<and> dget fixture_applied ''request_digest'' = JStr (effect_digest fixture_request)"
  using validate_receipt_sound [OF fixture_applied_valid] fixture_applied_valid by blast

lemma reconcile_sound_witness:
  "\<exists>m ps' st'. reconcile (Some fixture_target) fixture_empty fixture_request new_store = (Inr m, ps', st')
     \<and> dget (dget m ''payload'') ''state'' \<in> JStr ` set RECONCILED"
proof -
  let ?f = "JObj [(''found'', JBool False), (''authoritative'', JBool True)]"
  have q: "pr_query fixture_target fixture_empty (op_of fixture_request) (effect_digest fixture_request) = (Inr ?f, fixture_empty)"
    by (simp add: fixture_target_def fixture_query_def fixture_empty_def)
  obtain m ps' st' where r: "reconcile (Some fixture_target) fixture_empty fixture_request new_store = (Inr m, ps', st')"
    using q by (simp add: reconcile_def get_attr_def py_defs)
  from reconcile_sound [OF q r] r show ?thesis by blast
qed

end
