(* ===== verification/Citation.thy ===== *)
theory Citation
  imports Journal Canonical
begin

section \<open>Evidence citations\<close>

text \<open>
  runtime/kernel/citation.py: findings whose claims cite read receipts the Task admitted. The verifier
  re-reads the retained receipts and the retained response content and compares every quote with the
  cited lines; it retrieves nothing. Where the code reads a field it has not checked (a receipt's
  operation or path), the model raises the exception Python would.
\<close>

definition SCHEMAS :: "string list" where
  "SCHEMAS = [''InvestigationFindings@1'']"

definition CITATION_PREDICATES :: "(string \<times> string list \<times> string list) list" where
  "CITATION_PREDICATES =
    [(''every_claim_cited'', [''name''], []), (''quotes_match_receipts'', [''name''], []),
     (''min_cited_receipts'', [''name'', ''operation'', ''count''], [''path_prefix'']),
     (''conclusion_status_present'', [''name''], []), (''unresolved_requires_uncertainty'', [''name''], [])]"

definition MAX_CLAIMS :: nat where "MAX_CLAIMS = 16"
definition MAX_CITATIONS :: nat where "MAX_CITATIONS = 8"

definition citation_predicate_params :: "json \<Rightarrow> unit res" where
  "citation_predicate_params p =
     (if \<not> is_dict p then Inl (ValueError ''Unsupported evidence_citation predicate'')
      else bindR (in_strs (dget p ''name'') (map fst CITATION_PREDICATES)) (\<lambda>known.
        case (if known then map_of CITATION_PREDICATES (sget p ''name'') else None) of
          None \<Rightarrow> Inl (ValueError ''Unsupported evidence_citation predicate'')
        | Some (required, optional) \<Rightarrow>
            seqR (py_fields p required optional)
            (if dget p ''name'' = JStr ''min_cited_receipts'' then
               checks [voidR (py_text (dget p ''operation'') 100),
                 raise_if (\<not> is_int (dget p ''count'') \<or> \<not> (1 \<le> jint (dget p ''count'') \<and> jint (dget p ''count'') \<le> int MAX_CLAIMS))
                   (ValueError ''Invalid citation count''),
                 (if has_key p ''path_prefix'' then voidR (py_text (dget p ''path_prefix'') 512) else Inr ())]
             else Inr ())))"

definition citation_params :: "json \<Rightarrow> json res" where
  "citation_params v =
     seqR (py_fields v [''kind'', ''version'', ''artifact'', ''schema'', ''predicates''] [''subject''])
     (seqR (py_identifier (dget v ''artifact''))
     (bindR (in_strs (dget v ''schema'') SCHEMAS) (\<lambda>known.
      seqR (raise_if (\<not> known) (ValueError ''Findings schema is not implemented in this kernel''))
      (let predicates = dget v ''predicates'' in
       seqR (raise_if (\<not> is_list predicates \<or> \<not> (1 \<le> length (jlist predicates) \<and> length (jlist predicates) \<le> 8))
              (ValueError ''Expected 1..8 citation predicates''))
       (seqR (forR citation_predicate_params (jlist predicates)) (Inr v))))))"

definition int_pair :: "json \<Rightarrow> bool" where
  "int_pair v \<longleftrightarrow> is_list v \<and> length (jlist v) = 2 \<and> list_all is_int (jlist v)"

definition line_at :: "json \<Rightarrow> nat \<Rightarrow> int" where
  "line_at v i = jint (jlist v ! i)"

definition citation :: "json \<Rightarrow> json res" where
  "citation v =
     bindR (py_fields v [''receipt_ref'', ''path'', ''lines'', ''quote''] []) (\<lambda>i.
     seqR (checks
       [voidR (py_ref (dget i ''receipt_ref'')),
        voidR (py_text (dget i ''path'') 512),
        (let lines = dget i ''lines'' in
         raise_if (\<not> int_pair lines \<or> \<not> (1 \<le> line_at lines 0 \<and> line_at lines 0 \<le> line_at lines 1))
           (ValueError ''Citation lines must be an ordered 1-based pair'')),
        voidR (py_text (dget i ''quote'') 512)])
     (Inr i))"

definition citations :: "json \<Rightarrow> json list res" where
  "citations v =
     (if \<not> is_list v \<or> MAX_CITATIONS < length (jlist v) then Inl (ValueError ''Invalid citation list'')
      else mapR citation (jlist v))"

definition check_claim :: "json \<Rightarrow> unit res" where
  "check_claim claim =
     seqR (py_fields claim [''text'', ''citations''] [])
     (seqR (py_text (dget claim ''text'') 512) (voidR (citations (dget claim ''citations''))))"

definition check_hypothesis :: "json \<Rightarrow> unit res" where
  "check_hypothesis h =
     seqR (py_fields h [''text'', ''status''] [''citations''])
     (seqR (py_text (dget h ''text'') 512)
     (seqR (raise_if (dget h ''status'' \<notin> {JStr ''supported'', JStr ''refuted'', JStr ''open''}) (ValueError ''Invalid hypothesis status''))
     (voidR (citations (dget_or h ''citations'' (JList []))))))"

definition check_findings :: "json \<Rightarrow> unit res" where
  "check_findings findings =
     checks
       [raise_if (\<not> is_list (dget findings ''claims'') \<or> MAX_CLAIMS < length (lget findings ''claims'')) (ValueError ''Invalid claims''),
        forR check_claim (lget findings ''claims''),
        bindR (py_iter (dget_or findings ''hypotheses'' (JList []))) (forR check_hypothesis),
        raise_if (\<not> is_list (dget findings ''uncertainties'') \<or> 8 < length (lget findings ''uncertainties''))
          (ValueError ''Invalid uncertainties''),
        forR (\<lambda>u. py_text u 512) (lget findings ''uncertainties'')]"

definition validate_findings :: "json \<Rightarrow> json res" where
  "validate_findings raw =
     bindR (unpack raw ''InvestigationFindings'') (\<lambda>p.
     bindR (py_fields p [''conclusion'', ''claims'', ''uncertainties''] [''hypotheses'']) (\<lambda>findings.
     bindR (py_fields (dget findings ''conclusion'') [''status'', ''statement''] []) (\<lambda>conclusion.
     seqR (raise_if (dget conclusion ''status'' \<notin> {JStr ''supported'', JStr ''unresolved''})
            (ValueError ''Conclusion status must be supported or unresolved''))
     (seqR (py_text (dget conclusion ''statement'') 1024)
     (seqR (check_findings findings) (Inr findings))))))"

definition validate_read_receipt :: "json \<Rightarrow> string \<Rightarrow> json res" where
  "validate_read_receipt raw task_id =
     bindR (unpack raw ''WorkspaceReadReceipt'') (\<lambda>receipt.
     seqR (raise_if (dget receipt ''task_id'' \<noteq> JStr task_id \<or> dget receipt ''state'' \<noteq> JStr ''SUCCESS'')
            (ValueError ''Receipt is not a successful read of this Task''))
     (bindR (py_fields (dget receipt ''source'') [''view'', ''class'', ''path'', ''lines''] []) (\<lambda>source.
      seqR (raise_if (\<not> int_pair (dget source ''lines'') \<or> line_at (dget source ''lines'') 0 < 1) (ValueError ''Invalid receipt line range''))
      (seqR (py_ref (dget receipt ''response_ref'')) (Inr receipt)))))"

text \<open>The returned lines: a final newline does not open another line.\<close>

definition text_lines :: "string \<Rightarrow> string list" where
  "text_lines content = (let ls = split_on (CHR 0x0A) content in if last ls = [] then butlast ls else ls)"

definition receipt_lines :: "artifact_store \<Rightarrow> string \<Rightarrow> json \<Rightarrow> (int \<times> string list) res" where
  "receipt_lines store task_id receipt =
     bindR (read store task_id (dget receipt ''response_ref'')) (\<lambda>content.
     seqR (raise_if (dget receipt ''response_sha256'' \<noteq> JStr (sha256_hex content)) (ValueError ''Receipt response digest mismatch''))
     (seqR (decode_utf8 content)
     (Inr (line_at (dget (dget receipt ''source'') ''lines'') 0, text_lines content))))"

text \<open>\<open>except (OSError, ValueError, TypeError)\<close> and \<open>except (OSError, ValueError)\<close>.\<close>

definition os_value_type :: "exn \<Rightarrow> bool" where
  "os_value_type e \<longleftrightarrow> is_os_error e \<or> is_value_error e \<or> is_type_error e"

definition os_value :: "exn \<Rightarrow> bool" where
  "os_value e \<longleftrightarrow> is_os_error e \<or> is_value_error e"

type_synonym judged = "verdict \<times> string \<times> string list"

definition cited_items :: "json \<Rightarrow> json list" where
  "cited_items findings =
     concat (map (\<lambda>c. lget c ''citations'') (lget findings ''claims''))
     @ concat (map (\<lambda>h. jlist (dget_or h ''citations'' (JList []))) (jlist (dget_or findings ''hypotheses'' (JList []))))"

text \<open>
  The receipts of the citations: \<open>Some\<close> of an admitted and valid receipt, \<open>None\<close> for one this Task did
  not admit; or the early verdict when a receipt cannot be read.
\<close>

fun collect_receipts ::
  "artifact_store \<Rightarrow> string \<Rightarrow> string set \<Rightarrow> json list \<Rightarrow> (string \<times> json option) list \<Rightarrow> string list
     \<Rightarrow> (judged + (string \<times> json option) list \<times> string list) res" where
  "collect_receipts store task_id admitted [] receipts refs = Inr (Inr (receipts, refs))"
| "collect_receipts store task_id admitted (i # is) receipts refs =
     (let r = sget i ''receipt_ref'' in
      if in_dict r receipts then collect_receipts store task_id admitted is receipts refs
      else if r \<notin> admitted then collect_receipts store task_id admitted is (receipts @ [(r, None)]) refs
      else case bindR (read_json store task_id (JStr r)) (\<lambda>raw. validate_read_receipt raw task_id) of
        Inr receipt \<Rightarrow> collect_receipts store task_id admitted is (receipts @ [(r, Some receipt)]) (refs @ [r])
      | Inl e \<Rightarrow> if os_value_type e then Inr (Inl (Unknown, py_take 512 (''Cited receipt unreadable: '' @ exn_str e), refs))
                 else Inl e)"

definition receipt_of :: "(string \<times> json option) list \<Rightarrow> json \<Rightarrow> json option" where
  "receipt_of receipts i = (case map_of receipts (sget i ''receipt_ref'') of None \<Rightarrow> None | Some r \<Rightarrow> r)"

definition show_pair :: "json \<Rightarrow> string" where
  "show_pair v = ''['' @ show_int (line_at v 0) @ '', '' @ show_int (line_at v 1) @ '']''"

definition check_quote :: "artifact_store \<Rightarrow> string \<Rightarrow> (string \<times> json option) list \<Rightarrow> json \<Rightarrow> (verdict \<times> string) option res" where
  "check_quote store task_id receipts i =
     (case receipt_of receipts i of
        None \<Rightarrow> Inr (Some (Failed, ''A citation names a receipt this Task did not admit''))
      | Some receipt \<Rightarrow>
          if \<not> py_eq (dget (dget receipt ''source'') ''path'') (dget i ''path'') then
            Inr (Some (Failed, ''Citation path '' @ py_repr (sget i ''path'') @ '' differs from its receipt''))
          else case receipt_lines store task_id receipt of
            Inl e \<Rightarrow> if os_value e then Inr (Some (Unknown, py_take 512 (''Receipt content unreadable: '' @ exn_str e))) else Inl e
          | Inr (start, lines) \<Rightarrow>
              let first = line_at (dget i ''lines'') 0; final = line_at (dget i ''lines'') 1 in
              if first < start \<or> start + int (length lines) \<le> final then
                Inr (Some (Failed, ''Cited lines '' @ show_pair (dget i ''lines'') @ '' are outside the receipt's returned lines''))
              else if \<not> py_contains (sget i ''quote'')
                  (join_with [CHR 0x0A] (take (nat (final - first + 1)) (drop (nat (first - start)) lines))) then
                Inr (Some (Failed, ''Quote not present in '' @ sget i ''path'' @ '' lines '' @ show_pair (dget i ''lines'')))
              else Inr None)"

definition claim_cited :: "(string \<times> json option) list \<Rightarrow> json \<Rightarrow> bool" where
  "claim_cited receipts claim \<longleftrightarrow> list_ex (\<lambda>c. receipt_of receipts c \<noteq> None) (lget claim ''citations'')"

fun first_uncited :: "(string \<times> json option) list \<Rightarrow> nat \<Rightarrow> json list \<Rightarrow> nat option" where
  "first_uncited receipts n [] = None"
| "first_uncited receipts n (c # cs) = (if \<not> claim_cited receipts c then Some n else first_uncited receipts (Suc n) cs)"

definition matching_receipt :: "json \<Rightarrow> string \<times> json option \<Rightarrow> bool res" where
  "matching_receipt p x =
     (case snd x of None \<Rightarrow> Inr False
      | Some receipt \<Rightarrow>
          bindR (item receipt ''operation'') (\<lambda>operation.
          if \<not> py_eq operation (dget p ''operation'') then Inr False
          else let path = dget (dget receipt ''source'') ''path'' in
            if \<not> is_str path then Inl (AttributeError ''object has no attribute 'startswith' '')
            else Inr (prefix (jstr (dget_or p ''path_prefix'' (JStr []))) (jstr path))))"

definition citation_predicate ::
  "artifact_store \<Rightarrow> string \<Rightarrow> json \<Rightarrow> (string \<times> json option) list \<Rightarrow> json \<Rightarrow> (verdict \<times> string) option res" where
  "citation_predicate store task_id findings receipts p =
     (if dget p ''name'' = JStr ''every_claim_cited'' then
        (case first_uncited receipts 0 (lget findings ''claims'') of
           None \<Rightarrow> Inr None
         | Some n \<Rightarrow> Inr (Some (Failed, ''Claim '' @ show_nat n @ '' cites no admitted receipt'')))
      else if dget p ''name'' = JStr ''quotes_match_receipts'' then
        firstR (check_quote store task_id receipts) (cited_items findings)
      else if dget p ''name'' = JStr ''min_cited_receipts'' then
        bindR (mapR (matching_receipt p) receipts) (\<lambda>ms.
        let n = length (filter id ms) in
        if int n < jint (dget p ''count'') then
          Inr (Some (Failed, show_nat n @ '' cited '' @ sget p ''operation'' @ '' receipt(s); '' @ show_int (jint (dget p ''count'')) @ '' required''))
        else Inr None)
      else if dget p ''name'' = JStr ''unresolved_requires_uncertainty'' then
        Inr (if dget (dget findings ''conclusion'') ''status'' = JStr ''unresolved'' \<and> lget findings ''uncertainties'' = []
             then Some (Failed, ''Unresolved conclusion states no remaining uncertainty'') else None)
      else Inr None)"

definition load_findings :: "artifact_store \<Rightarrow> string \<Rightarrow> string \<Rightarrow> json res" where
  "load_findings store task_id ref =
     bindR (read store task_id (JStr ref)) (\<lambda>bs. bindR (json_loads bs) validate_findings)"

definition citation_verify :: "json \<Rightarrow> task_state \<Rightarrow> artifact_store \<Rightarrow> string set \<Rightarrow> judged res" where
  "citation_verify verifier state store admitted =
     (let task_id = ts_task_id state in
      case map_of (ts_artifacts state) (sget verifier ''artifact'') of
        None \<Rightarrow> Inr (Pending, ''Findings artifact absent'', [])
      | Some fref \<Rightarrow>
          if fref = [] then Inr (Pending, ''Findings artifact absent'', [])
          else case load_findings store task_id fref of
            Inl e \<Rightarrow>
              if is_os_error e then Inr (Unknown, py_take 512 (''Findings unreadable: '' @ exn_str e), [fref])
              else if is_value_error e \<or> is_type_error e then
                Inr (Failed, py_take 512 (''Findings do not conform to '' @ sget verifier ''schema'' @ '': '' @ exn_str e), [fref])
              else Inl e
          | Inr findings \<Rightarrow>
              bindR (collect_receipts store task_id admitted (cited_items findings) [] [fref]) (\<lambda>c.
              case c of Inl early \<Rightarrow> Inr early
              | Inr (receipts, refs) \<Rightarrow>
                  bindR (firstR (citation_predicate store task_id findings receipts) (lget verifier ''predicates'')) (\<lambda>r.
                  case r of Some (v, d) \<Rightarrow> Inr (v, d, refs)
                  | None \<Rightarrow> Inr (Satisfied, show_nat (length (lget findings ''claims'')) @ '' claim(s); ''
                      @ show_nat (length (cited_items findings)) @ '' citation(s) verified against admitted receipts'', refs))))"

subsection \<open>A satisfied citation is verbatim\<close>

definition quoted :: "artifact_store \<Rightarrow> string \<Rightarrow> string set \<Rightarrow> json \<Rightarrow> bool" where
  "quoted store task_id admitted i \<longleftrightarrow>
     sget i ''receipt_ref'' \<in> admitted \<and>
     (\<exists>raw receipt content start. read_json store task_id (dget i ''receipt_ref'') = Inr raw
        \<and> validate_read_receipt raw task_id = Inr receipt
        \<and> py_eq (dget (dget receipt ''source'') ''path'') (dget i ''path'')
        \<and> read store task_id (dget receipt ''response_ref'') = Inr content
        \<and> dget receipt ''response_sha256'' = JStr (sha256_hex content)
        \<and> start = line_at (dget (dget receipt ''source'') ''lines'') 0
        \<and> start \<le> line_at (dget i ''lines'') 0
        \<and> line_at (dget i ''lines'') 1 < start + int (length (text_lines content))
        \<and> sublist (sget i ''quote'') (join_with [CHR 0x0A]
             (take (nat (line_at (dget i ''lines'') 1 - line_at (dget i ''lines'') 0 + 1))
               (drop (nat (line_at (dget i ''lines'') 0 - start)) (text_lines content)))))"

text \<open>Every receipt the loop collected was admitted, read and validated.\<close>

definition receipts_ok :: "artifact_store \<Rightarrow> string \<Rightarrow> string set \<Rightarrow> (string \<times> json option) list \<Rightarrow> bool" where
  "receipts_ok store task_id admitted receipts \<longleftrightarrow>
     (\<forall>r receipt. map_of receipts r = Some (Some receipt) \<longrightarrow> r \<in> admitted \<and>
        (\<exists>raw. read_json store task_id (JStr r) = Inr raw \<and> validate_read_receipt raw task_id = Inr receipt))"

lemma receipts_ok_snoc:
  assumes "receipts_ok st t adm rs" and "\<not> in_dict r rs"
    and "\<And>receipt. x = Some receipt \<Longrightarrow> r \<in> adm \<and> (\<exists>raw. read_json st t (JStr r) = Inr raw \<and> validate_read_receipt raw t = Inr receipt)"
  shows "receipts_ok st t adm (rs @ [(r, x)])"
  using assms by (auto simp: receipts_ok_def in_dict_def map_add_def split: option.splits if_splits)

lemma collect_receipts_ok:
  assumes "collect_receipts st t adm is rs refs = Inr (Inr (rs', refs'))" and "receipts_ok st t adm rs"
  shows "receipts_ok st t adm rs'"
  using assms
proof (induction "is" arbitrary: rs refs)
  case Nil
  then show ?case by simp
next
  case (Cons i "is")
  let ?r = "sget i ''receipt_ref''"
  consider (seen) "in_dict ?r rs" | (foreign) "\<not> in_dict ?r rs" "?r \<notin> adm"
    | (own) "\<not> in_dict ?r rs" "?r \<in> adm" by blast
  then show ?case
  proof cases
    case seen
    with Cons show ?thesis by (simp add: Let_def)
  next
    case foreign
    with Cons.prems(1) have "collect_receipts st t adm is (rs @ [(?r, None)]) refs = Inr (Inr (rs', refs'))"
      by (simp add: Let_def)
    moreover have "receipts_ok st t adm (rs @ [(?r, None)])"
      by (intro receipts_ok_snoc [OF Cons.prems(2) foreign(1)]) simp
    ultimately show ?thesis by (rule Cons.IH)
  next
    case own
    show ?thesis
    proof (cases "bindR (read_json st t (JStr ?r)) (\<lambda>raw. validate_read_receipt raw t)")
      case (Inl e)
      with own Cons.prems(1) show ?thesis by (simp add: Let_def split: if_splits)
    next
      case (Inr receipt)
      with own Cons.prems(1) have c: "collect_receipts st t adm is (rs @ [(?r, Some receipt)]) (refs @ [?r]) = Inr (Inr (rs', refs'))"
        by (simp add: Let_def)
      from Inr own(2) have "?r \<in> adm \<and> (\<exists>raw. read_json st t (JStr ?r) = Inr raw \<and> validate_read_receipt raw t = Inr receipt)"
        by (simp add: bindR_eq_Inr)
      then have "receipts_ok st t adm (rs @ [(?r, Some receipt)])"
        by (intro receipts_ok_snoc [OF Cons.prems(2) own(1)]) simp
      from Cons.IH [OF c this] show ?thesis .
    qed
  qed
qed

lemma check_quote_None:
  assumes "check_quote st t rs i = Inr None" and "receipts_ok st t adm rs" and "is_str (dget i ''receipt_ref'')"
  shows "quoted st t adm i"
proof -
  from assms(1) obtain receipt where r: "receipt_of rs i = Some receipt"
    by (cases "receipt_of rs i") (simp_all add: check_quote_def)
  with assms(1) have path: "py_eq (dget (dget receipt ''source'') ''path'') (dget i ''path'')"
    by (simp add: check_quote_def split: if_splits)
  with assms(1) r obtain start lines where ls: "receipt_lines st t receipt = Inr (start, lines)"
    by (cases "receipt_lines st t receipt") (auto simp: check_quote_def split: if_splits)
  with assms(1) r path have rng: "start \<le> line_at (dget i ''lines'') 0" "line_at (dget i ''lines'') 1 < start + int (length lines)"
    and q: "py_contains (sget i ''quote'') (join_with [CHR 0x0A] (take (nat (line_at (dget i ''lines'') 1 - line_at (dget i ''lines'') 0 + 1))
               (drop (nat (line_at (dget i ''lines'') 0 - start)) lines)))"
    by (simp_all add: check_quote_def Let_def split: if_splits)
  from ls obtain content where c: "read st t (dget receipt ''response_ref'') = Inr content"
    "dget receipt ''response_sha256'' = JStr (sha256_hex content)"
    "start = line_at (dget (dget receipt ''source'') ''lines'') 0" "lines = text_lines content"
    by (auto simp: receipt_lines_def bindR_eq_Inr)
  from r have m: "map_of rs (sget i ''receipt_ref'') = Some (Some receipt)"
    by (simp add: receipt_of_def split: option.splits)
  with assms(2) obtain raw where raw: "sget i ''receipt_ref'' \<in> adm"
    "read_json st t (JStr (sget i ''receipt_ref'')) = Inr raw" "validate_read_receipt raw t = Inr receipt"
    unfolding receipts_ok_def by blast
  from raw(2) assms(3) have "read_json st t (dget i ''receipt_ref'') = Inr raw" by simp
  with raw c path rng q show ?thesis unfolding quoted_def py_contains_iff by blast
qed

lemma citation_Inr: "citation v = Inr i \<Longrightarrow> i = v \<and> is_str (dget v ''receipt_ref'')"
  unfolding citation_def checks_Cons bindR_eq_Inr
  by (elim exE conjE) (simp add: py_fields_exact py_ref_eq_Inr)

lemma citations_Inr: "is_ok (citations v) \<Longrightarrow> i \<in> set (jlist v) \<Longrightarrow> is_str (dget i ''receipt_ref'')"
  by (auto simp: citations_def mapR_eq_Inr is_ok_iff list_all2_conv_all_nth in_set_conv_nth dest: citation_Inr split: if_splits)

lemma check_claim_Inr: "check_claim c = Inr u \<Longrightarrow> is_ok (citations (dget c ''citations''))"
  unfolding check_claim_def bindR_eq_Inr voidR_eq_Inr is_ok_iff by blast

lemma check_hypothesis_Inr: "check_hypothesis h = Inr u \<Longrightarrow> is_ok (citations (dget_or h ''citations'' (JList [])))"
  unfolding check_hypothesis_def bindR_eq_Inr voidR_eq_Inr is_ok_iff by blast

lemma res_unit: "r = Inr (u :: unit) \<Longrightarrow> r = Inr ()"
  by simp

lemma validate_findings_Inr:
  assumes "validate_findings raw = Inr f"
  shows "forR check_claim (lget f ''claims'') = Inr ()"
    and "bindR (py_iter (dget_or f ''hypotheses'' (JList []))) (forR check_hypothesis) = Inr ()"
proof -
  from assms have "check_findings f = Inr ()"
    unfolding validate_findings_def bindR_eq_Inr sum.inject by (elim exE conjE) (hypsubst, erule res_unit)
  then show "forR check_claim (lget f ''claims'') = Inr ()"
    and "bindR (py_iter (dget_or f ''hypotheses'' (JList []))) (forR check_hypothesis) = Inr ()"
    unfolding check_findings_def checks_eq_Inr by (simp_all only: list.set ball_simps insert_iff simp_thms)
qed

lemma cited_items_valid:
  assumes "validate_findings raw = Inr f" and "i \<in> set (cited_items f)"
  shows "is_str (dget i ''receipt_ref'')"
proof -
  let ?hs = "dget_or f ''hypotheses'' (JList [])"
  from assms(2) consider c where "c \<in> set (lget f ''claims'')" "i \<in> set (lget c ''citations'')"
    | h where "h \<in> set (jlist ?hs)" "i \<in> set (jlist (dget_or h ''citations'' (JList [])))"
    by (auto simp: cited_items_def)
  then show ?thesis
  proof cases
    case 1
    with validate_findings_Inr(1) [OF assms(1)] have "check_claim c = Inr ()" by (auto simp: forR_eq_Inr)
    from citations_Inr [OF check_claim_Inr [OF this]] 1 show ?thesis by blast
  next
    case 2
    then have "is_list ?hs" by (cases ?hs) simp_all
    then have "py_iter ?hs = Inr (jlist ?hs)" by (cases ?hs) simp_all
    with validate_findings_Inr(2) [OF assms(1)] 2 have "check_hypothesis h = Inr ()" by (auto simp: forR_eq_Inr)
    from citations_Inr [OF check_hypothesis_Inr [OF this]] 2 show ?thesis by blast
  qed
qed

lemma collect_not_satisfied:
  "collect_receipts st t adm is rs refs = Inr (Inl (v, d, r)) \<Longrightarrow> v \<noteq> Satisfied"
  by (induction "is" arbitrary: rs refs) (auto simp: Let_def split: if_splits sum.splits)

lemma check_quote_not_satisfied: "check_quote st t rs i = Inr (Some (v, d)) \<Longrightarrow> v \<noteq> Satisfied"
  by (auto simp: check_quote_def Let_def split: option.splits if_splits sum.splits)

lemma firstR_Some: "firstR f xs = Inr (Some y) \<Longrightarrow> \<exists>x\<in>set xs. f x = Inr (Some y)"
  by (induction xs) (auto split: sum.splits option.splits)

lemma predicate_not_satisfied:
  assumes "citation_predicate st t f rs p = Inr (Some (v, d))"
  shows "v \<noteq> Satisfied"
proof -
  consider (every) "dget p ''name'' = JStr ''every_claim_cited''"
    | (quotes) "dget p ''name'' = JStr ''quotes_match_receipts''"
    | (least) "dget p ''name'' = JStr ''min_cited_receipts''"
    | (other) "dget p ''name'' \<noteq> JStr ''every_claim_cited''" "dget p ''name'' \<noteq> JStr ''quotes_match_receipts''"
      "dget p ''name'' \<noteq> JStr ''min_cited_receipts''" by blast
  then show ?thesis
  proof cases
    case every
    with assms show ?thesis by (cases "first_uncited rs 0 (lget f ''claims'')") (auto simp: citation_predicate_def)
  next
    case quotes
    with assms have "firstR (check_quote st t rs) (cited_items f) = Inr (Some (v, d))" by (simp add: citation_predicate_def)
    from firstR_Some [OF this] obtain i where "check_quote st t rs i = Inr (Some (v, d))" ..
    then show ?thesis by (rule check_quote_not_satisfied)
  next
    case least
    with assms show ?thesis by (simp add: citation_predicate_def bindR_eq_Inr Let_def split: if_split_asm)
  next
    case other
    with assms show ?thesis by (simp add: citation_predicate_def split: if_split_asm)
  qed
qed

lemma predicates_not_satisfied: "firstR (citation_predicate st t f rs) ps = Inr (Some (v, d)) \<Longrightarrow> v \<noteq> Satisfied"
  by (drule firstR_Some) (elim bexE, rule predicate_not_satisfied)

lemma citation_verify_Satisfied:
  assumes "citation_verify verifier state store adm = Inr (Satisfied, d, refs)"
  obtains fref f receipts where "map_of (ts_artifacts state) (sget verifier ''artifact'') = Some fref"
    and "load_findings store (ts_task_id state) fref = Inr f"
    and "collect_receipts store (ts_task_id state) adm (cited_items f) [] [fref] = Inr (Inr (receipts, refs))"
    and "firstR (citation_predicate store (ts_task_id state) f receipts) (lget verifier ''predicates'') = Inr None"
proof -
  let ?t = "ts_task_id state"
  from assms obtain fref where f: "map_of (ts_artifacts state) (sget verifier ''artifact'') = Some fref" "fref \<noteq> []"
    by (auto simp: citation_verify_def Let_def split: option.splits if_splits)
  with assms obtain g where g: "load_findings store ?t fref = Inr g"
    by (cases "load_findings store ?t fref") (auto simp: citation_verify_def Let_def split: if_splits)
  with assms f obtain c where c: "collect_receipts store ?t adm (cited_items g) [] [fref] = Inr c"
    by (auto simp: citation_verify_def Let_def bindR_eq_Inr)
  show ?thesis
  proof (cases c)
    case (Inl j)
    obtain v d' r' where j: "j = (v, d', r')" by (metis prod_cases3)
    have "v \<noteq> Satisfied" using c unfolding Inl j by (rule collect_not_satisfied)
    with assms f g c Inl j show ?thesis by (simp add: citation_verify_def Let_def)
  next
    case (Inr x)
    obtain receipts refs' where x: "x = (receipts, refs')" by force
    from assms f g c Inr x obtain r where
      r: "firstR (citation_predicate store ?t g receipts) (lget verifier ''predicates'') = Inr r"
      by (auto simp: citation_verify_def Let_def bindR_eq_Inr)
    show ?thesis
    proof (cases r)
      case None
      with assms f g c Inr x r have "refs' = refs" by (simp add: citation_verify_def Let_def)
      with f g c Inr x r None show ?thesis by (intro that) simp_all
    next
      case (Some vd)
      obtain v d' where vd: "vd = (v, d')" by force
      have "v \<noteq> Satisfied" using r unfolding Some vd by (rule predicates_not_satisfied)
      with assms f g c Inr x r Some vd show ?thesis by (simp add: citation_verify_def Let_def)
    qed
  qed
qed

lemma satisfied_quotes:
  assumes "citation_verify verifier state store adm = Inr (Satisfied, d, refs)"
    and "p \<in> set (lget verifier ''predicates'')" and "dget p ''name'' = JStr ''quotes_match_receipts''"
  shows "\<exists>fref f. map_of (ts_artifacts state) (sget verifier ''artifact'') = Some fref
     \<and> load_findings store (ts_task_id state) fref = Inr f
     \<and> (\<forall>i\<in>set (cited_items f). quoted store (ts_task_id state) adm i)"
proof -
  from citation_verify_Satisfied [OF assms(1)] obtain fref f receipts where
    f: "map_of (ts_artifacts state) (sget verifier ''artifact'') = Some fref"
      "load_findings store (ts_task_id state) fref = Inr f"
    and c: "collect_receipts store (ts_task_id state) adm (cited_items f) [] [fref] = Inr (Inr (receipts, refs))"
    and r: "firstR (citation_predicate store (ts_task_id state) f receipts) (lget verifier ''predicates'') = Inr None" .
  have ok: "receipts_ok store (ts_task_id state) adm receipts"
    using c by (rule collect_receipts_ok) (simp add: receipts_ok_def)
  from r assms(2) have "citation_predicate store (ts_task_id state) f receipts p = Inr None" by (auto simp: firstR_None)
  with assms(3) have q: "\<forall>i\<in>set (cited_items f). check_quote store (ts_task_id state) receipts i = Inr None"
    by (simp add: citation_predicate_def firstR_None)
  obtain raw where v: "validate_findings raw = Inr f" using f(2) by (auto simp: load_findings_def bindR_eq_Inr)
  have "quoted store (ts_task_id state) adm i" if "i \<in> set (cited_items f)" for i
    using q that check_quote_None [OF _ ok] cited_items_valid [OF v that] by blast
  with f show ?thesis by blast
qed

text \<open>
  C39. A satisfied citation criterion whose verifier has the predicate
  \<open>quotes_match_receipts\<close> is verbatim provenance: every citation of the retained findings, of a claim or of a hypothesis, names
  a receipt this Task admitted; the
  retained receipt is a successful read of this Task and of the cited path; its retained response
  still has the recorded digest; the cited lines are among the returned ones; and the quote occurs
  verbatim in exactly those lines. Without that predicate a satisfied criterion says nothing of the quotes.
\<close>

theorem citation_verify_verbatim:
  "case citation_verify verifier state store adm of
     Inr (Satisfied, _, _) \<Rightarrow>
       if JStr ''quotes_match_receipts'' \<in> set (map (\<lambda>p. dget p ''name'') (lget verifier ''predicates''))
       then (\<exists>fref f. map_of (ts_artifacts state) (sget verifier ''artifact'') = Some fref
          \<and> load_findings store (ts_task_id state) fref = Inr f
          \<and> list_all (quoted store (ts_task_id state) adm) (cited_items f))
       else True
   | _ \<Rightarrow> True"
proof -
  have "\<exists>fref f. map_of (ts_artifacts state) (sget verifier ''artifact'') = Some fref
      \<and> load_findings store (ts_task_id state) fref = Inr f \<and> list_all (quoted store (ts_task_id state) adm) (cited_items f)"
    if v: "citation_verify verifier state store adm = Inr (Satisfied, d, refs)"
      and p: "JStr ''quotes_match_receipts'' \<in> set (map (\<lambda>p. dget p ''name'') (lget verifier ''predicates''))" for d refs
  proof -
    from p obtain q where "q \<in> set (lget verifier ''predicates'')" "dget q ''name'' = JStr ''quotes_match_receipts''" by auto
    from satisfied_quotes [OF v this] show ?thesis by (simp add: list_all_iff)
  qed
  then show ?thesis by (auto split: sum.split prod.split verdict.split)
qed

subsection \<open>A concrete Task\<close>

text \<open>
  A Task with a text it has read, the receipt of that read, and findings with one claim that quotes its second line. The
  three documents are retained under their digests, which only a collision could confuse.
\<close>

definition cited_text :: string where
  "cited_text = ''first line'' @ [CHR 0x0A] @ ''alpha beta'' @ [CHR 0x0A] @ ''last line''"

definition cited_receipt :: json where
  "cited_receipt = JObj [(''operation'', JStr ''workspace.read''), (''response_ref'', JStr (mk_ref ''t1'' (sha256_hex cited_text))),
     (''response_sha256'', JStr (sha256_hex cited_text)),
     (''source'', JObj [(''class'', JStr ''text''), (''lines'', JList [JInt 1, JInt 3]), (''path'', JStr ''notes.txt''), (''view'', JStr ''head'')]),
     (''state'', JStr ''SUCCESS''), (''task_id'', JStr ''t1'')]"

definition receipt_doc :: string where
  "receipt_doc = encode (message ''WorkspaceReadReceipt'' cited_receipt)"

definition one_citation :: "int \<Rightarrow> string \<Rightarrow> json" where
  "one_citation line quote = JObj [(''lines'', JList [JInt line, JInt line]), (''path'', JStr ''notes.txt''), (''quote'', JStr quote),
     (''receipt_ref'', JStr (mk_ref ''t1'' (sha256_hex receipt_doc)))]"

definition citing_findings :: "int \<Rightarrow> string \<Rightarrow> json" where
  "citing_findings line quote = JObj
     [(''claims'', JList [JObj [(''citations'', JList [one_citation line quote]), (''text'', JStr ''The notes say so'')]]),
      (''conclusion'', JObj [(''statement'', JStr ''It is noted''), (''status'', JStr ''supported'')]), (''uncertainties'', JList [])]"

definition findings_doc :: "int \<Rightarrow> string \<Rightarrow> string" where
  "findings_doc line quote = encode (message ''InvestigationFindings'' (citing_findings line quote))"

definition citing_store :: "string list \<Rightarrow> artifact_store" where
  "citing_store docs = \<lparr>files = map_of (map (\<lambda>c. ((''t1'', sha256_hex c), Bytes c)) docs), dir_links = {}\<rparr>"

definition citing_state :: "string \<Rightarrow> task_state" where
  "citing_state ref = example_state\<lparr>ts_artifacts := [(''findings'', ref)]\<rparr>"

definition citing_verifier :: json where
  "citing_verifier = JObj [(''kind'', JStr ''evidence_citation''), (''artifact'', JStr ''findings''),
     (''schema'', JStr ''InvestigationFindings@1''), (''predicates'', JList [JObj [(''name'', JStr ''quotes_match_receipts'')]])]"

lemma citing_store_read:
  assumes "distinct (map sha256_hex docs)" "c \<in> set docs"
  shows "read (citing_store docs) ''t1'' (JStr (mk_ref ''t1'' (sha256_hex c))) = Inr c"
proof -
  have "map_of (map (\<lambda>c. ((''t1'', sha256_hex c), Bytes c)) docs) (''t1'', sha256_hex c) = Some (Bytes c)"
    using assms by (intro map_of_is_SomeI) (auto simp: comp_def distinct_map inj_on_def)
  then show ?thesis by (simp add: read_Inr citing_store_def example_ident)
qed

lemma hex64_text: "utf8_str (sha256_hex x)"
proof -
  have "list_all hex_char (sha256_hex x)" using sha.hexdigest_hex64 by (simp add: is_hex64_def)
  then show ?thesis by (intro utf8_str_ascii) (auto simp: list_all_iff hex_char_def Let_def)
qed

lemma cited_receipt_valid: "validate_read_receipt (canon (message ''WorkspaceReadReceipt'' cited_receipt)) ''t1'' = Inr cited_receipt"
proof -
  let ?m = "message ''WorkspaceReadReceipt'' cited_receipt"
  have w: "wfj ?m" using example_ref_ok(2) hex64_text by (simp add: message_def cited_receipt_def utf8_str_ascii)
  have c: "canon cited_receipt = cited_receipt" by (simp add: cited_receipt_def)
  have "length (encode ?m) \<le> MAX_PACKET"
    by (rule length_encode_le) (simp add: cited_receipt_def message_def MAX_PACKET_def jsize_eval example_ref_ok(3) sha.digest_length)
  then have "unpack ?m ''WorkspaceReadReceipt'' = Inr cited_receipt"
    by (simp add: unpack_message) (simp add: cited_receipt_def)
  from unpack_canon [OF w this] have "unpack (canon ?m) ''WorkspaceReadReceipt'' = Inr cited_receipt" unfolding c .
  then show ?thesis
    by (simp add: validate_read_receipt_def) (simp add: cited_receipt_def py_defs py_fields_def int_pair_def line_at_def py_ref_def example_ref_ok)
qed

text \<open>A verbatim quote, a quote of another line and a quote of other words.\<close>

definition example_quotes :: "(int \<times> string) list" where
  "example_quotes = [(2, ''alpha''), (3, ''alpha''), (2, ''gamma'')]"

lemma example_quotes_cases:
  assumes "(line, q) \<in> set example_quotes"
  obtains "line = 2" "q = ''alpha''" | "line = 3" "q = ''alpha''" | "line = 2" "q = ''gamma''"
  using assms unfolding example_quotes_def list.set insert_iff empty_iff prod.inject by blast

lemma citing_findings_valid:
  assumes "(line, q) \<in> set example_quotes" and "read (citing_store docs) ''t1'' (JStr ref) = Inr (findings_doc line q)"
  shows "load_findings (citing_store docs) ''t1'' ref = Inr (citing_findings line q)"
proof -
  let ?f = "citing_findings line q" let ?m = "message ''InvestigationFindings'' ?f"
  have w: "wfj ?m" using assms(1) example_ref_ok(2)
    by (cases rule: example_quotes_cases) (simp_all add: message_def citing_findings_def one_citation_def utf8_str_ascii)
  have c: "canon ?f = ?f" by (simp add: citing_findings_def one_citation_def)
  have "length (encode ?m) \<le> MAX_PACKET" using assms(1)
    by (cases rule: example_quotes_cases)
      (rule length_encode_le, simp add: citing_findings_def one_citation_def message_def MAX_PACKET_def jsize_eval example_ref_ok(3))+
  then have "unpack ?m ''InvestigationFindings'' = Inr ?f"
    by (simp add: unpack_message) (simp add: citing_findings_def)
  from unpack_canon [OF w this] have u: "unpack (canon ?m) ''InvestigationFindings'' = Inr ?f" unfolding c .
  have i: "citations (JList [one_citation line q]) = Inr [one_citation line q]" using assms(1)
    by (cases rule: example_quotes_cases)
      (simp_all add: citations_def MAX_CITATIONS_def citation_def one_citation_def py_defs py_fields_def py_ref_def example_ref_ok py_text_def int_pair_def line_at_def)
  have "validate_findings (canon ?m) = Inr ?f"
    using i unfolding validate_findings_def u
    by (simp add: citing_findings_def py_fields_def py_defs py_text_def check_findings_def MAX_CLAIMS_def check_claim_def)
  with w assms(2) show ?thesis by (simp add: load_findings_def findings_doc_def loads_encode)
qed

lemma cited_text_lines: "text_lines cited_text = [''first line'', ''alpha beta'', ''last line'']"
  by code_simp

lemma cited_text_decodes: "decode_utf8 cited_text = Inr cited_text"
  by code_simp

lemma cited_parts:
  "dget cited_receipt ''response_ref'' = JStr (mk_ref ''t1'' (sha256_hex cited_text))" "dget cited_receipt ''response_sha256'' = JStr (sha256_hex cited_text)"
  "dget (dget cited_receipt ''source'') ''path'' = JStr ''notes.txt''" "dget (dget cited_receipt ''source'') ''lines'' = JList [JInt 1, JInt 3]"
  "dget (one_citation line q) ''path'' = JStr ''notes.txt''" "dget (one_citation line q) ''lines'' = JList [JInt line, JInt line]"
  "dget (one_citation line q) ''quote'' = JStr q" "dget (one_citation line q) ''receipt_ref'' = JStr (mk_ref ''t1'' (sha256_hex receipt_doc))"
  by (simp_all add: cited_receipt_def one_citation_def py_defs)

lemma example_contains:
  "py_contains ''alpha'' ''alpha beta''" "\<not> py_contains ''alpha'' ''last line''" "\<not> py_contains ''gamma'' ''alpha beta''"
  by code_simp+

lemma example_quotes_checked:
  assumes "distinct (map sha256_hex docs)" "cited_text \<in> set docs" "(line, q) \<in> set example_quotes"
  shows "\<exists>d. check_quote (citing_store docs) ''t1'' [(mk_ref ''t1'' (sha256_hex receipt_doc), Some cited_receipt)] (one_citation line q)
    = Inr (if (line, q) = (2, ''alpha'') then None else Some (Failed, d))"
proof -
  have l: "receipt_lines (citing_store docs) ''t1'' cited_receipt = Inr (1, [''first line'', ''alpha beta'', ''last line''])"
    using citing_store_read [OF assms(1,2)] by (simp add: receipt_lines_def cited_parts cited_text_lines cited_text_decodes line_at_def)
  have r: "receipt_of [(mk_ref ''t1'' (sha256_hex receipt_doc), Some cited_receipt)] (one_citation line q) = Some cited_receipt"
    by (simp add: receipt_of_def cited_parts)
  note checks = check_quote_def r option.case l sum.case prod.case cited_parts Let_def
  from assms(3) show ?thesis
  proof (cases rule: example_quotes_cases)
    case 1
    show ?thesis unfolding checks unfolding 1 by (simp add: line_at_def example_contains)
  next
    case 2
    show ?thesis unfolding checks unfolding 2 by (simp add: line_at_def example_contains)
  next
    case 3
    show ?thesis unfolding checks unfolding 3 by (simp add: line_at_def example_contains)
  qed
qed

text \<open>
  So the criterion is satisfied by the verbatim quote, of a receipt the Task admitted, and by neither of the others.
\<close>

lemma example_citations_judged:
  assumes "(line, q) \<in> set example_quotes" and "distinct (map sha256_hex [cited_text, receipt_doc, findings_doc line q])"
  shows "\<exists>d refs. citation_verify citing_verifier (citing_state (mk_ref ''t1'' (sha256_hex (findings_doc line q))))
      (citing_store [cited_text, receipt_doc, findings_doc line q]) {mk_ref ''t1'' (sha256_hex receipt_doc)}
    = Inr (if (line, q) = (2, ''alpha'') then Satisfied else Failed, d, refs)"
proof -
  let ?docs = "[cited_text, receipt_doc, findings_doc line q]" let ?f = "findings_doc line q"
  let ?s = "citing_state (mk_ref ''t1'' (sha256_hex ?f))" let ?r = "mk_ref ''t1'' (sha256_hex receipt_doc)"
  have reads: "read (citing_store ?docs) ''t1'' (JStr (mk_ref ''t1'' (sha256_hex c))) = Inr c" if "c \<in> set ?docs" for c
    using assms(2) that by (rule citing_store_read)
  have t: "ts_task_id ?s = ''t1''" "map_of (ts_artifacts ?s) (sget citing_verifier ''artifact'') = Some (mk_ref ''t1'' (sha256_hex ?f))"
    "mk_ref ''t1'' (sha256_hex ?f) \<noteq> []" by (simp_all add: citing_state_def example_state_def citing_verifier_def py_defs mk_ref_def)
  have p: "lget citing_verifier ''predicates'' = [JObj [(''name'', JStr ''quotes_match_receipts'')]]"
    by (simp add: citing_verifier_def py_defs)
  have f: "load_findings (citing_store ?docs) ''t1'' (mk_ref ''t1'' (sha256_hex ?f)) = Inr (citing_findings line q)"
    using citing_findings_valid [OF assms(1)] reads by simp
  have items: "cited_items (citing_findings line q) = [one_citation line q]" by (simp add: cited_items_def citing_findings_def py_defs)
  have "read_json (citing_store ?docs) ''t1'' (JStr ?r) = Inr (canon (message ''WorkspaceReadReceipt'' cited_receipt))"
    using reads [of receipt_doc] example_ref_ok(2) hex64_text
    by (simp add: read_json_def receipt_doc_def loads_encode message_def cited_receipt_def utf8_str_ascii)
  with cited_receipt_valid have c: "collect_receipts (citing_store ?docs) ''t1'' {?r} [one_citation line q] [] [mk_ref ''t1'' (sha256_hex ?f)]
      = Inr (Inr ([(?r, Some cited_receipt)], [mk_ref ''t1'' (sha256_hex ?f), ?r]))"
    by (simp add: one_citation_def py_defs in_dict_def Let_def)
  have q: "citation_predicate (citing_store ?docs) ''t1'' (citing_findings line q) [(?r, Some cited_receipt)] (JObj [(''name'', JStr ''quotes_match_receipts'')])
      = firstR (check_quote (citing_store ?docs) ''t1'' [(?r, Some cited_receipt)]) [one_citation line q]"
    by (simp add: citation_predicate_def py_defs items)
  have ct: "cited_text \<in> set ?docs" by simp
  from example_quotes_checked [OF assms(2) ct assms(1)] obtain d where
    d: "check_quote (citing_store ?docs) ''t1'' [(?r, Some cited_receipt)] (one_citation line q) = Inr (if (line, q) = (2, ''alpha'') then None else Some (Failed, d))" ..
  show ?thesis
  proof (cases "(line, q) = (2, ''alpha'')")
    case True
    with d have "firstR (check_quote (citing_store ?docs) ''t1'' [(?r, Some cited_receipt)]) [one_citation line q] = Inr None" by simp
    note r = q [unfolded this]
    with True show ?thesis unfolding citation_verify_def Let_def t p option.case if_not_P [OF t(3)] f sum.case items c bindR_Inr prod.case
        firstR.simps r by simp
  next
    case False
    with d have "firstR (check_quote (citing_store ?docs) ''t1'' [(?r, Some cited_receipt)]) [one_citation line q] = Inr (Some (Failed, d))" by simp
    note r = q [unfolded this]
    with False show ?thesis unfolding citation_verify_def Let_def t p option.case if_not_P [OF t(3)] f sum.case items c bindR_Inr prod.case
        firstR.simps r by simp
  qed
qed

end
