(* ===== verification/Effect_Evidence.thy ===== *)
theory Effect_Evidence
  imports Citation
begin

section \<open>Evidence over target effects\<close>

text \<open>
  runtime/kernel/effect_evidence.py: the deterministic verifiers \<open>capability_result@1\<close> and
  \<open>change_set@1\<close>. They read the analysed journal and the retained receipts only. \<open>effects_of\<close> is
  \<open>records\<close>: one record per target effect, in admission order. A target path in a retained request is
  text (it was admitted by \<open>confined\<close>), and so is the path of an \<open>expected_content\<close> predicate; for
  another value, which only the parameter check lets through, the model raises \<open>TypeError\<close>.

  The net change of a workspace is folded over the applied writes; \<open>net_of\<close> states it without the
  loop, and the lemma \<open>net_change_spec\<close> shows that they agree.
\<close>

definition EFFECT_STATES :: "string list" where
  "EFFECT_STATES = [''applied'', ''conflict'', ''rejected'', ''completed'', ''timed_out'', ''canceled'', ''not_started'']"

definition RESULT_PREDICATES :: "(string \<times> string list \<times> string list) list" where
  "RESULT_PREDICATES =
    [(''state'', [''name'', ''equals''], []), (''exit_code'', [''name'', ''equals''], []),
     (''result_field'', [''name'', ''field'', ''equals''], []), (''result_after_last_change'', [''name''], []),
     (''resulting_digest'', [''name'', ''sha256''], []), (''cleanup_confirmed'', [''name''], [])]"

definition CHANGE_PREDICATES :: "(string \<times> string list \<times> string list) list" where
  "CHANGE_PREDICATES =
    [(''changed'', [''name'', ''paths''], []), (''expected_content'', [''name'', ''path'', ''sha256''], []),
     (''only_paths'', [''name'', ''allowed''], []), (''evidence_complete'', [''name''], [])]"

definition UNKNOWN_STATES :: "string list" where
  "UNKNOWN_STATES = [''uncertain'', ''different_state'']"

subsection \<open>Parameters\<close>

definition evidence_predicate :: "(string \<times> string list \<times> string list) list \<Rightarrow> json \<Rightarrow> unit res" where
  "evidence_predicate table p =
     (if \<not> is_dict p then Inl (ValueError ''Unsupported predicate'')
      else bindR (in_strs (dget p ''name'') (map fst table)) (\<lambda>known.
        case (if known then map_of table (sget p ''name'') else None) of
          None \<Rightarrow> Inl (ValueError ''Unsupported predicate'')
        | Some (required, optional) \<Rightarrow> voidR (py_fields p required optional)))"

definition evidence_predicates :: "json \<Rightarrow> (string \<times> string list \<times> string list) list \<Rightarrow> json list res" where
  "evidence_predicates v table =
     (if \<not> is_list v \<or> \<not> (1 \<le> length (jlist v) \<and> length (jlist v) \<le> 8) then Inl (ValueError ''Expected 1..8 predicates'')
      else seqR (forR (evidence_predicate table) (jlist v)) (Inr (jlist v)))"

definition check_result_predicate :: "json \<Rightarrow> unit res" where
  "check_result_predicate p =
     checks
       [raise_if (dget p ''name'' = JStr ''state'' \<and> dget p ''equals'' \<notin> JStr ` set EFFECT_STATES) (ValueError ''Unknown effect state''),
        raise_if (dget p ''name'' = JStr ''exit_code'' \<and> \<not> is_int (dget p ''equals'')) (ValueError ''exit_code compares an integer''),
        (if dget p ''name'' = JStr ''result_field'' then voidR (py_identifier (dget p ''field'')) else Inr ()),
        (if dget p ''name'' = JStr ''resulting_digest'' then voidR (py_text (dget p ''sha256'') 64) else Inr ())]"

definition validate_result_params :: "json \<Rightarrow> json res" where
  "validate_result_params v =
     seqR (py_fields v [''kind'', ''version'', ''operation_class'', ''predicates'']
            [''operation'', ''profile'', ''path'', ''workspace_id'', ''subject''])
     (seqR (raise_if (dget v ''operation_class'' \<notin> {JStr ''workspace.write'', JStr ''workspace.exec''})
              (ValueError ''capability_result selects a target-effect class''))
     (seqR (forR (\<lambda>k. if has_key v k then voidR (py_text (dget v k) 100) else Inr ()) [''operation'', ''profile'', ''workspace_id''])
     (seqR (if has_key v ''path'' then voidR (py_text (dget v ''path'') 512) else Inr ())
     (bindR (evidence_predicates (dget v ''predicates'') RESULT_PREDICATES) (\<lambda>ps.
      seqR (forR check_result_predicate ps) (Inr v))))))"

definition check_path_list :: "json \<Rightarrow> string \<Rightarrow> unit res" where
  "check_path_list p key =
     (if has_key p key then
        seqR (raise_if (\<not> is_list (dget p key) \<or> \<not> (1 \<le> length (lget p key) \<and> length (lget p key) \<le> 32))
               (ValueError ''Expected a bounded path list''))
        (forR (\<lambda>x. py_text x 512) (lget p key))
      else Inr ())"

definition validate_change_params :: "json \<Rightarrow> json res" where
  "validate_change_params v =
     seqR (py_fields v [''kind'', ''version'', ''workspace_id'', ''predicates''] [''subject''])
     (seqR (py_identifier (dget v ''workspace_id''))
     (bindR (evidence_predicates (dget v ''predicates'') CHANGE_PREDICATES) (\<lambda>ps.
      seqR (forR (\<lambda>p. forR (check_path_list p) [''paths'', ''allowed'']) ps) (Inr v))))"

subsection \<open>Records\<close>

record effect_record =
  er_operation :: string
  er_class :: string
  er_admitted_at :: nat
  er_request :: "json option"
  er_dispatched_at :: "nat option"
  er_settled_at :: "nat option"
  er_receipt :: "json option"
  er_receipt_ref :: json
  er_status :: json

text \<open>The analysed journal: its entries with their references, and the analysis of them.\<close>

record journal_facts =
  jf_entries :: "(string \<times> json) list"
  jf_analysis :: analysis
  jf_authorities :: "(string \<times> json) list"

fun index_of :: "('a \<Rightarrow> bool) \<Rightarrow> 'a list \<Rightarrow> nat option" where
  "index_of P [] = None"
| "index_of P (x # xs) = (if P x then Some 0 else map_option Suc (index_of P xs))"

definition position :: "(string \<times> json) list \<Rightarrow> string \<Rightarrow> string \<Rightarrow> nat option" where
  "position entries phase op =
     index_of (\<lambda>(_, e). dget e ''phase'' = JStr phase \<and> dget e ''operation_id'' = JStr op) entries"

text \<open>
  One reconciliation of an uncertain effect. The code looks the entry up by identity; an entry carries
  its sequence number, so an equal entry is the same entry.
\<close>

definition apply_reconciled :: "(string \<times> json) list \<Rightarrow> effect_record \<Rightarrow> json \<Rightarrow> effect_record res" where
  "apply_reconciled entries r e =
     bindR (if dget e ''state'' = JStr ''APPLIED'' then
              bindR (item e ''receipt_ref'') (\<lambda>ref. Inr (r\<lparr>er_receipt_ref := ref\<rparr>))
            else if dget e ''state'' = JStr ''NOT_APPLIED'' then Inr (r\<lparr>er_status := JStr ''not_applied''\<rparr>)
            else if dget e ''state'' = JStr ''DIFFERENT_STATE'' then Inr (r\<lparr>er_status := JStr ''different_state''\<rparr>)
            else Inr r) (\<lambda>r'.
     Inr (if dget e ''state'' \<noteq> JStr ''STILL_UNKNOWN''
          then r'\<lparr>er_settled_at := index_of (\<lambda>(_, e'). e' = e) entries\<rparr> else r'))"

definition settle :: "journal_facts \<Rightarrow> effect_record \<Rightarrow> json \<Rightarrow> effect_record res" where
  "settle facts r observed =
     (if dget observed ''outcome'' = JStr ''not_dispatched'' then Inr (r\<lparr>er_status := JStr ''not_dispatched''\<rparr>)
      else if dget observed ''outcome'' = JStr ''uncertain'' then
        foldR (apply_reconciled (jf_entries facts)) (r\<lparr>er_status := JStr ''uncertain''\<rparr>)
          (case map_of (an_reconciled (jf_analysis facts)) (er_operation r) of None \<Rightarrow> [] | Some es \<Rightarrow> es)
      else Inr (r\<lparr>er_receipt_ref := dget observed ''receipt_ref''\<rparr>))"

definition attach_receipt :: "artifact_store \<Rightarrow> string \<Rightarrow> effect_record \<Rightarrow> effect_record res" where
  "attach_receipt store task_id r =
     (if py_true (er_receipt_ref r) then
        bindR (read_json store task_id (er_receipt_ref r)) (\<lambda>doc.
        bindR (item doc ''payload'') (\<lambda>receipt.
        bindR (item receipt ''state'') (\<lambda>state.
        Inr (r\<lparr>er_receipt := Some receipt, er_status := state\<rparr>))))
      else Inr r)"

definition effect_of :: "journal_facts \<Rightarrow> artifact_store \<Rightarrow> string \<Rightarrow> string \<times> json \<Rightarrow> effect_record res" where
  "effect_of facts store task_id x =
     (let op = fst x; a = jf_analysis facts in
      bindR (case map_of (an_dispatched a) op of
               None \<Rightarrow> Inr None
             | Some d \<Rightarrow> bindR (read_json store task_id (dget d ''request_ref'')) (\<lambda>doc.
                         bindR (item doc ''payload'') (\<lambda>p. Inr (Some p)))) (\<lambda>request.
      let r = \<lparr>er_operation = op, er_class = sget (snd x) ''operation_class'',
               er_admitted_at = (case position (jf_entries facts) ''admitted'' op of None \<Rightarrow> 0 | Some i \<Rightarrow> i),
               er_request = request, er_dispatched_at = position (jf_entries facts) ''dispatched'' op,
               er_settled_at = position (jf_entries facts) ''observed'' op, er_receipt = None,
               er_receipt_ref = JNull, er_status = JStr ''in_flight''\<rparr> in
      case map_of (an_observed a) op of
        None \<Rightarrow> Inr r
      | Some observed \<Rightarrow> bindR (settle facts r observed) (attach_receipt store task_id)))"

definition started_effect :: "analysis \<Rightarrow> string \<times> json \<Rightarrow> bool" where
  "started_effect a x \<longleftrightarrow>
     (in_dict (fst x) (an_dispatched a) \<or> in_dict (fst x) (an_observed a))
     \<and> dget (snd x) ''operation_class'' \<in> {JStr ''workspace.write'', JStr ''workspace.exec''}"

definition effects_of :: "journal_facts \<Rightarrow> artifact_store \<Rightarrow> string \<Rightarrow> effect_record list res" where
  "effects_of facts store task_id =
     mapR (effect_of facts store task_id) (filter (started_effect (jf_analysis facts)) (an_admitted (jf_analysis facts)))"

subsection \<open>capability_result@1\<close>

definition request_of :: "effect_record \<Rightarrow> json" where
  "request_of r = (case er_request r of None \<Rightarrow> JObj [] | Some q \<Rightarrow> if py_true q then q else JObj [])"

text \<open>\<open>'key' in verifier and request.get (...) != verifier[key]\<close>.\<close>

definition differs :: "json \<Rightarrow> string \<Rightarrow> json res \<Rightarrow> bool res" where
  "differs v key actual = (if has_key v key then bindR actual (\<lambda>x. Inr (\<not> py_eq x (dget v key))) else Inr False)"

definition selected :: "json \<Rightarrow> effect_record \<Rightarrow> bool res" where
  "selected v r =
     (let q = request_of r in
      if dget v ''operation_class'' \<noteq> JStr (er_class r) then Inr False
      else bindR (differs v ''operation'' (get_attr q ''operation'')) (\<lambda>d1. if d1 then Inr False
      else bindR (differs v ''profile'' (if is_dict q then get_attr (dget_or q ''profile'' (JObj [])) ''id'' else get_attr q ''profile'')) (\<lambda>d2. if d2 then Inr False
      else bindR (differs v ''path'' (get_attr q ''path'')) (\<lambda>d3. if d3 then Inr False
      else bindR (differs v ''workspace_id'' (get_attr q ''workspace_id'')) (\<lambda>d4. if d4 then Inr False
      else Inr (er_status r \<notin> {JStr ''not_dispatched'', JStr ''not_applied''}))))))"

fun select :: "json \<Rightarrow> effect_record list \<Rightarrow> effect_record list res" where
  "select v [] = Inr []"
| "select v (r # rs) = bindR (selected v r) (\<lambda>s. bindR (select v rs) (\<lambda>cs. Inr (if s then r # cs else cs)))"

definition later_write :: "effect_record \<Rightarrow> effect_record \<Rightarrow> bool res" where
  "later_write r w =
     (case er_dispatched_at w of None \<Rightarrow> Inr False
      | Some n \<Rightarrow> if er_class w \<noteq> WRITE then Inr False
          else (case er_dispatched_at r of
                  None \<Rightarrow> Inl (TypeError ''not supported between instances of 'int' and 'NoneType' '')
                | Some m \<Rightarrow> Inr (m < n \<and> er_status w \<notin> {JStr ''not_applied'', JStr ''conflict'', JStr ''rejected''})))"

text \<open>A validated verifier names one of the six predicates; the last is \<open>result_after_last_change\<close>.\<close>

definition result_holds :: "effect_record list \<Rightarrow> effect_record \<Rightarrow> json \<Rightarrow> json \<Rightarrow> bool res" where
  "result_holds effects r receipt p =
     (let state = dget receipt ''state''; exec = dget_or receipt ''exec'' (JObj []) in
      if dget p ''name'' = JStr ''state'' then Inr (py_eq state (dget p ''equals''))
      else if dget p ''name'' = JStr ''exit_code'' then
        (if state = JStr ''completed'' then bindR (get_attr exec ''exit_code'') (\<lambda>c. Inr (py_eq c (dget p ''equals''))) else Inr False)
      else if dget p ''name'' = JStr ''result_field'' then
        (if state = JStr ''completed'' then
           (if is_dict exec then bindR (get_attr (dget_or exec ''result'' (JObj [])) (sget p ''field'')) (\<lambda>x. Inr (py_eq x (dget p ''equals'')))
            else seqR (get_attr exec ''result'') (Inr False))
         else Inr False)
      else if dget p ''name'' = JStr ''resulting_digest'' then
        (if state = JStr ''applied'' then
           bindR (item receipt ''write'') (\<lambda>w. bindR (get_attr w ''after'') (\<lambda>a. Inr (py_eq a (JObj [(''sha256'', dget p ''sha256'')]))))
         else Inr False)
      else if dget p ''name'' = JStr ''cleanup_confirmed'' then
        bindR (get_attr exec ''cleanup'') (\<lambda>c. Inr (c \<in> {JStr ''confirmed'', JStr ''not_applicable''}))
      else bindR (mapR (later_write r) effects) (\<lambda>later. Inr (\<not> list_ex id later)))"

text \<open>A status or state printed into a detail is the text a validated receipt carries.\<close>

definition result_failure :: "effect_record list \<Rightarrow> effect_record \<Rightarrow> json \<Rightarrow> json \<Rightarrow> string option res" where
  "result_failure effects r receipt p =
     bindR (result_holds effects r receipt p) (\<lambda>ok.
     Inr (if ok then None
          else Some (sget p ''name'' @ '' not met by '' @ er_operation r @ '' ('' @ sget receipt ''state'' @ '')'')))"

definition refs_of :: "json \<Rightarrow> string list" where
  "refs_of v = (if py_true v then [jstr v] else [])"

definition unsettled :: "effect_record \<Rightarrow> bool" where
  "unsettled r \<longleftrightarrow> er_status r \<in> JStr ` set UNKNOWN_STATES \<or> er_status r = JStr ''in_flight''"

definition verify_result :: "json \<Rightarrow> effect_record list \<Rightarrow> judged res" where
  "verify_result v effects =
     bindR (select v effects) (\<lambda>chosen.
     if chosen = [] then Inr (Pending, ''No matching target effect has run'', [])
     else let r = last chosen; refs = refs_of (er_receipt_ref r) in
       case (if unsettled r then None else er_receipt r) of
         None \<Rightarrow> Inr (Unknown, ''Latest matching effect '' @ er_operation r @ '' is '' @ jstr (er_status r), refs)
       | Some receipt \<Rightarrow>
           bindR (firstR (result_failure effects r receipt) (lget v ''predicates'')) (\<lambda>failure.
           case failure of
             Some d \<Rightarrow> Inr (Failed, d, refs)
           | None \<Rightarrow> Inr (Satisfied, er_operation r @ '' '' @ sget receipt ''state'' @ ''; ''
               @ show_nat (length (lget v ''predicates'')) @ '' predicate(s) held'', refs)))"

subsection \<open>change_set@1\<close>

definition path_matches :: "string \<Rightarrow> string list \<Rightarrow> bool" where
  "path_matches path allowed \<longleftrightarrow> list_ex (\<lambda>i. path = i \<or> suffix ''/'' i \<and> prefix i path) allowed"

record net_entry =
  ne_before :: json
  ne_after :: json
  ne_records :: "effect_record list"

record change_set =
  cs_net :: "(string \<times> net_entry) list"
  cs_unknown :: "string list"
  cs_refs :: "string list"

text \<open>One admitted write: its target path, and what its record adds to the net change.\<close>

definition write_path :: "effect_record \<Rightarrow> string res" where
  "write_path r = bindR (item (request_of r) ''path'') (\<lambda>p.
     if is_str p then Inr (jstr p) else Inl (TypeError ''target path is not text''))"

definition net_add :: "(string \<times> net_entry) list \<Rightarrow> string \<Rightarrow> json \<Rightarrow> json \<Rightarrow> effect_record \<Rightarrow> (string \<times> net_entry) list" where
  "net_add net path before after r =
     AList.update path (case map_of net path of
         None \<Rightarrow> \<lparr>ne_before = before, ne_after = after, ne_records = [r]\<rparr>
       | Some e \<Rightarrow> e\<lparr>ne_after := after, ne_records := ne_records e @ [r]\<rparr>) net"

definition add_write :: "change_set \<Rightarrow> effect_record \<Rightarrow> change_set res" where
  "add_write c r =
     bindR (write_path r) (\<lambda>path.
     if unsettled r then Inr (c\<lparr>cs_unknown := List.insert path (cs_unknown c)\<rparr>)
     else if er_status r \<noteq> JStr ''applied'' then Inr c
     else bindR (item (case er_receipt r of None \<Rightarrow> JNull | Some d \<Rightarrow> d) ''write'') (\<lambda>w.
          bindR (item w ''before'') (\<lambda>before.
          bindR (item w ''after'') (\<lambda>after.
          Inr \<lparr>cs_net = net_add (cs_net c) path before after r, cs_unknown = removeAll path (cs_unknown c),
               cs_refs = cs_refs c @ [jstr (er_receipt_ref r)]\<rparr>))))"

definition in_workspace :: "json \<Rightarrow> effect_record \<Rightarrow> bool res" where
  "in_workspace v r =
     (if er_class r \<noteq> WRITE then Inr False
      else case er_request r of None \<Rightarrow> Inr False
      | Some q \<Rightarrow> if \<not> py_true q then Inr False
          else bindR (item q ''workspace_id'') (\<lambda>w. Inr (py_eq w (dget v ''workspace_id''))))"

fun writes_in :: "json \<Rightarrow> effect_record list \<Rightarrow> effect_record list res" where
  "writes_in v [] = Inr []"
| "writes_in v (r # rs) = bindR (in_workspace v r) (\<lambda>b. bindR (writes_in v rs) (\<lambda>ws. Inr (if b then r # ws else ws)))"

definition changed_paths :: "(string \<times> net_entry) list \<Rightarrow> string list" where
  "changed_paths net = map fst (filter (\<lambda>(_, e). \<not> py_eq (ne_after e) (ne_before e)) net)"

definition complete_record :: "(json \<Rightarrow> bool) \<Rightarrow> effect_record \<Rightarrow> bool res" where
  "complete_record artifacts_exist r =
     (let request = request_of r in
      bindR (item (case er_receipt r of None \<Rightarrow> JNull | Some d \<Rightarrow> d) ''write'') (\<lambda>w.
      bindR (get_attr w ''readback_sha256'') (\<lambda>readback.
      if \<not> py_true readback then Inr False
      else bindR (item request ''content_ref'') (\<lambda>ref.
        Inr (artifacts_exist ref \<and>
             (dget request ''precondition_evidence'' = JNull \<or> artifacts_exist (dget request ''precondition_evidence'')))))))"

definition incomplete_path :: "(json \<Rightarrow> bool) \<Rightarrow> (string \<times> net_entry) list \<Rightarrow> string \<Rightarrow> string option res" where
  "incomplete_path artifacts_exist net path =
     (case map_of net path of None \<Rightarrow> Inr None
      | Some e \<Rightarrow> firstR (\<lambda>r. bindR (complete_record artifacts_exist r) (\<lambda>ok.
            Inr (if ok then None else Some (''Incomplete before/after evidence for '' @ path)))) (ne_records e))"

text \<open>
  One predicate over the net change: its failure, or the paths it still waits for. \<open>changed\<close> is a set
  in the code; the model goes through it in the order of the first writes.
\<close>

definition change_predicate ::
  "(json \<Rightarrow> bool) \<Rightarrow> (string \<times> net_entry) list \<Rightarrow> json \<Rightarrow> (string + string list) res" where
  "change_predicate artifacts_exist net p =
     (let changed = changed_paths net in
      if dget p ''name'' = JStr ''only_paths'' then
        let outside = sort (filter (\<lambda>q. \<not> path_matches q (map jstr (lget p ''allowed''))) changed) in
        Inr (if outside \<noteq> [] then Inl (''Changes outside the allowed paths: '' @ py_repr_list outside) else Inr [])
      else if dget p ''name'' = JStr ''expected_content'' then
        let path = sget p ''path'' in
        if \<not> is_str (dget p ''path'') then Inl (TypeError ''target path is not text'')
        else Inr (if path \<in> set changed then
               (if \<not> py_eq (ne_after (the (map_of net path))) (JObj [(''sha256'', dget p ''sha256'')])
                then Inl (path @ '' changed to unexpected content'') else Inr [])
             else Inr [path])
      else if dget p ''name'' = JStr ''changed'' then
        Inr (Inr (filter (\<lambda>q. q \<notin> set changed) (map jstr (lget p ''paths''))))
      else bindR (firstR (incomplete_path artifacts_exist net) changed) (\<lambda>f.
        Inr (case f of Some d \<Rightarrow> Inl d | None \<Rightarrow> Inr [])))"

fun change_predicates ::
  "(json \<Rightarrow> bool) \<Rightarrow> (string \<times> net_entry) list \<Rightarrow> json list \<Rightarrow> (string + string list) res" where
  "change_predicates artifacts_exist net [] = Inr (Inr [])"
| "change_predicates artifacts_exist net (p # ps) =
     bindR (change_predicate artifacts_exist net p) (\<lambda>x.
     case x of Inl d \<Rightarrow> Inr (Inl d)
     | Inr waiting \<Rightarrow> bindR (change_predicates artifacts_exist net ps) (\<lambda>y.
         case y of Inl d \<Rightarrow> Inr (Inl d) | Inr rest \<Rightarrow> Inr (Inr (waiting @ rest))))"

definition verify_change_set :: "json \<Rightarrow> effect_record list \<Rightarrow> (json \<Rightarrow> bool) \<Rightarrow> judged res" where
  "verify_change_set v effects artifacts_exist =
     bindR (writes_in v effects) (\<lambda>writes.
     bindR (foldR add_write \<lparr>cs_net = [], cs_unknown = [], cs_refs = []\<rparr> writes) (\<lambda>c.
     bindR (change_predicates artifacts_exist (cs_net c) (lget v ''predicates'')) (\<lambda>x.
     case x of
       Inl d \<Rightarrow> Inr (Failed, d, cs_refs c)
     | Inr waiting \<Rightarrow>
         if cs_unknown c \<noteq> [] then
           Inr (Unknown, ''Uncertain writes leave the change set unknown: '' @ py_repr_list (sort (cs_unknown c)), cs_refs c)
         else if waiting \<noteq> [] then
           Inr (Pending, ''Expected changes not yet made: '' @ py_repr_list (sorted_set waiting), cs_refs c)
         else let changed = changed_paths (cs_net c) in
           Inr (Satisfied, py_take 512 (show_nat (length changed) @ '' path(s) changed as required: ''
             @ py_repr_list (sort changed)), cs_refs c))))"

subsection \<open>The net change, without the loop\<close>

definition applied_to :: "string \<Rightarrow> effect_record \<Rightarrow> bool" where
  "applied_to path r \<longleftrightarrow> write_path r = Inr path \<and> \<not> unsettled r \<and> er_status r = JStr ''applied''"

definition write_field :: "string \<Rightarrow> effect_record \<Rightarrow> json" where
  "write_field key r = (case er_receipt r of None \<Rightarrow> JNull | Some d \<Rightarrow> dget (dget d ''write'') key)"

definition net_of :: "effect_record list \<Rightarrow> string \<Rightarrow> net_entry option" where
  "net_of writes path = (let ws = filter (applied_to path) writes in
     if ws = [] then None
     else Some \<lparr>ne_before = write_field ''before'' (hd ws), ne_after = write_field ''after'' (last ws), ne_records = ws\<rparr>)"

text \<open>The latest write to the path that is applied or open is open.\<close>

definition left_open :: "effect_record list \<Rightarrow> string \<Rightarrow> bool" where
  "left_open writes path = (let ws = filter (\<lambda>r. applied_to path r \<or> write_path r = Inr path \<and> unsettled r) writes in
     ws \<noteq> [] \<and> unsettled (last ws))"

definition change_inv :: "effect_record list \<Rightarrow> change_set \<Rightarrow> bool" where
  "change_inv writes c \<longleftrightarrow> distinct (map fst (cs_net c)) \<and> distinct (cs_unknown c) \<and>
     (\<forall>path. map_of (cs_net c) path = net_of writes path) \<and> (\<forall>path. path \<in> set (cs_unknown c) \<longleftrightarrow> left_open writes path)"

lemma add_write_cases:
  assumes "add_write c r = Inr c'"
  obtains (opened) path where "write_path r = Inr path" "unsettled r" "c' = c\<lparr>cs_unknown := List.insert path (cs_unknown c)\<rparr>"
  | (none) path where "write_path r = Inr path" "\<not> unsettled r" "er_status r \<noteq> JStr ''applied''" "c' = c"
  | (applied) path where "applied_to path r"
      "cs_net c' = net_add (cs_net c) path (write_field ''before'' r) (write_field ''after'' r) r"
      "cs_unknown c' = removeAll path (cs_unknown c)"
proof -
  from assms obtain path where p: "write_path r = Inr path" by (auto simp: add_write_def bindR_eq_Inr)
  show thesis
  proof (cases "unsettled r \<or> er_status r \<noteq> JStr ''applied''")
    case True
    with assms p opened none show thesis by (auto simp: add_write_def split: if_splits)
  next
    case False
    with assms p obtain w before after where
      "item (case er_receipt r of None \<Rightarrow> JNull | Some d \<Rightarrow> d) ''write'' = Inr w"
      "item w ''before'' = Inr before" "item w ''after'' = Inr after"
      and c: "cs_net c' = net_add (cs_net c) path before after r" "cs_unknown c' = removeAll path (cs_unknown c)"
      by (auto simp: add_write_def bindR_eq_Inr)
    then have "write_field ''before'' r = before" "write_field ''after'' r = after"
      by (auto simp: write_field_def item_eq_Inr has_key_def split: option.splits)
    with False p c show thesis by (intro applied [of path]) (auto simp: applied_to_def)
  qed
qed

lemma net_of_snoc:
  "net_of (ws @ [r]) path = (if applied_to path r then
     Some (case net_of ws path of
         None \<Rightarrow> \<lparr>ne_before = write_field ''before'' r, ne_after = write_field ''after'' r, ne_records = [r]\<rparr>
       | Some e \<Rightarrow> e\<lparr>ne_after := write_field ''after'' r, ne_records := ne_records e @ [r]\<rparr>)
     else net_of ws path)"
  by (simp add: net_of_def Let_def)

lemma left_open_snoc:
  "left_open (ws @ [r]) path = (if applied_to path r then False
     else if write_path r = Inr path \<and> unsettled r then True else left_open ws path)"
  by (auto simp: left_open_def Let_def applied_to_def)

lemma applied_to_unique: "applied_to p r \<Longrightarrow> applied_to q r \<Longrightarrow> p = q"
  by (auto simp: applied_to_def)

lemma add_write_inv:
  assumes "change_inv ws c" and "add_write c r = Inr c'"
  shows "change_inv (ws @ [r]) c'"
  using assms(2)
proof (cases rule: add_write_cases)
  case (opened path)
  with assms(1) show ?thesis
    by (auto simp: change_inv_def net_of_snoc left_open_snoc applied_to_def)
next
  case (none path)
  with assms(1) show ?thesis
    by (auto simp: change_inv_def net_of_snoc left_open_snoc applied_to_def)
next
  case (applied path)
  then have other: "applied_to q r \<longleftrightarrow> q = path" for q using applied_to_unique by blast
  have ns: "\<not> unsettled r" using applied(1) by (simp add: applied_to_def)
  from assms(1) applied other show ?thesis
    unfolding change_inv_def net_of_snoc left_open_snoc net_add_def
    by (auto simp: update_conv' distinct_update distinct_removeAll ns split: option.splits)
qed

lemma net_change_spec:
  "foldR add_write \<lparr>cs_net = [], cs_unknown = [], cs_refs = []\<rparr> ws = Inr c \<Longrightarrow> change_inv ws c"
proof (induction ws arbitrary: c rule: rev_induct)
  case Nil
  then show ?case by (auto simp: change_inv_def net_of_def left_open_def)
next
  case (snoc r ws)
  then obtain c' where c': "foldR add_write \<lparr>cs_net = [], cs_unknown = [], cs_refs = []\<rparr> ws = Inr c'"
    "foldR add_write c' [r] = Inr c"
    unfolding foldR_append bindR_eq_Inr by blast
  from c'(2) have "add_write c' r = Inr c" by (cases "add_write c' r") auto
  with c'(1) snoc.IH show ?case by (blast intro: add_write_inv)
qed

subsection \<open>Satisfied means settled and proven\<close>

lemma result_failure_None: "result_failure effects r receipt p = Inr None \<longleftrightarrow> result_holds effects r receipt p = Inr True"
  by (auto simp: result_failure_def bindR_eq_Inr)

text \<open>
  A capability result is satisfied exactly when the latest matching effect of the journal has run
  to a settled outcome with a retained receipt (neither in flight, uncertain nor left in a different
  state), and every predicate of the verifier holds of that receipt.
\<close>

lemma verify_result_satisfied:
  "(\<exists>d refs. verify_result v effects = Inr (Satisfied, d, refs)) \<longleftrightarrow>
   (\<exists>chosen receipt. select v effects = Inr chosen \<and> chosen \<noteq> [] \<and> \<not> unsettled (last chosen)
      \<and> er_receipt (last chosen) = Some receipt
      \<and> list_all (\<lambda>p. result_holds effects (last chosen) receipt p = Inr True) (lget v ''predicates''))"
proof -
  have "(\<exists>d refs. verify_result v effects = Inr (Satisfied, d, refs)) \<longleftrightarrow>
     (\<exists>receipt. chosen \<noteq> [] \<and> \<not> unsettled (last chosen) \<and> er_receipt (last chosen) = Some receipt
        \<and> firstR (result_failure effects (last chosen) receipt) (lget v ''predicates'') = Inr None)"
    if "select v effects = Inr chosen" for chosen
  proof (cases "chosen = [] \<or> unsettled (last chosen) \<or> er_receipt (last chosen) = None")
    case True
    with that show ?thesis by (auto simp: verify_result_def Let_def)
  next
    case False
    then obtain receipt where r: "er_receipt (last chosen) = Some receipt" by blast
    show ?thesis
    proof (cases "firstR (result_failure effects (last chosen) receipt) (lget v ''predicates'')")
      case (Inl e)
      with that False r show ?thesis by (simp add: verify_result_def Let_def)
    next
      case (Inr f)
      with that False r show ?thesis by (cases f) (simp_all add: verify_result_def Let_def)
    qed
  qed
  then show ?thesis
    by (cases "select v effects") (auto simp: verify_result_def firstR_None result_failure_None list_all_iff)
qed

text \<open>The meaning of a predicate of a change set, over the net change.\<close>

definition change_holds :: "(json \<Rightarrow> bool) \<Rightarrow> effect_record list \<Rightarrow> json \<Rightarrow> bool" where
  "change_holds artifacts_exist writes p \<longleftrightarrow>
     (let changed = (\<lambda>q. case net_of writes q of None \<Rightarrow> False | Some e \<Rightarrow> \<not> py_eq (ne_after e) (ne_before e)) in
      if dget p ''name'' = JStr ''only_paths'' then \<forall>q. changed q \<longrightarrow> path_matches q (map jstr (lget p ''allowed''))
      else if dget p ''name'' = JStr ''expected_content'' then
        \<exists>q e. dget p ''path'' = JStr q \<and> changed q \<and> net_of writes q = Some e
          \<and> py_eq (ne_after e) (JObj [(''sha256'', dget p ''sha256'')])
      else if dget p ''name'' = JStr ''changed'' then \<forall>q\<in>set (lget p ''paths''). changed (jstr q)
      else \<forall>q e. changed q \<longrightarrow> net_of writes q = Some e \<longrightarrow>
             (\<forall>r\<in>set (ne_records e). complete_record artifacts_exist r = Inr True))"

lemma sort_Nil_iff: "sort xs = [] \<longleftrightarrow> xs = []"
  by (metis length_0_conv length_sort)

lemma changed_paths_iff:
  assumes "change_inv ws c"
  shows "q \<in> set (changed_paths (cs_net c)) \<longleftrightarrow>
     (case net_of ws q of None \<Rightarrow> False | Some e \<Rightarrow> \<not> py_eq (ne_after e) (ne_before e))"
proof -
  from assms have d: "distinct (map fst (cs_net c))" and n: "map_of (cs_net c) q = net_of ws q"
    by (auto simp: change_inv_def)
  have "q \<in> set (changed_paths (cs_net c)) \<longleftrightarrow> (\<exists>e. (q, e) \<in> set (cs_net c) \<and> \<not> py_eq (ne_after e) (ne_before e))"
    by (force simp: changed_paths_def)
  with d n show ?thesis by (auto split: option.splits)
qed

lemma incomplete_path_None:
  "incomplete_path ex net q = Inr None \<longleftrightarrow>
     (\<forall>e. map_of net q = Some e \<longrightarrow> (\<forall>r\<in>set (ne_records e). complete_record ex r = Inr True))"
  by (auto simp: incomplete_path_def firstR_None bindR_eq_Inr split: option.splits)

lemma change_predicate_holds:
  assumes "change_inv ws c"
  shows "change_predicate ex (cs_net c) p = Inr (Inr []) \<longleftrightarrow> change_holds ex ws p"
proof -
  note ch = changed_paths_iff [OF assms]
  have n: "map_of (cs_net c) q = net_of ws q" for q using assms by (auto simp: change_inv_def)
  consider (only) "dget p ''name'' = JStr ''only_paths''" | (content) "dget p ''name'' = JStr ''expected_content''"
    | (changed) "dget p ''name'' = JStr ''changed''"
    | (complete) "dget p ''name'' \<noteq> JStr ''only_paths''" "dget p ''name'' \<noteq> JStr ''expected_content''"
        "dget p ''name'' \<noteq> JStr ''changed''" by blast
  then show ?thesis
  proof cases
    case only
    then show ?thesis
      by (auto simp add: change_predicate_def change_holds_def Let_def ch [symmetric] sort_Nil_iff filter_empty_conv)
  next
    case content
    then show ?thesis
      by (cases "dget p ''path''") (auto simp: change_predicate_def change_holds_def Let_def ch n split: option.splits)
  next
    case changed
    then show ?thesis
      by (simp add: change_predicate_def change_holds_def Let_def ch [symmetric] filter_empty_conv)
  next
    case complete
    then have "change_predicate ex (cs_net c) p = Inr (Inr []) \<longleftrightarrow>
        firstR (incomplete_path ex (cs_net c)) (changed_paths (cs_net c)) = Inr None"
      by (auto simp: change_predicate_def bindR_eq_Inr Let_def split: option.splits)
    with complete show ?thesis
      by (auto simp: change_holds_def Let_def ch [symmetric] firstR_None incomplete_path_None n)
  qed
qed

lemma change_predicates_Nil:
  "change_predicates ex net ps = Inr (Inr []) \<longleftrightarrow> list_all (\<lambda>p. change_predicate ex net p = Inr (Inr [])) ps"
proof (induction ps)
  case Nil
  then show ?case by simp
next
  case (Cons p ps)
  consider e where "change_predicate ex net p = Inl e" | d where "change_predicate ex net p = Inr (Inl d)"
    | ws where "change_predicate ex net p = Inr (Inr ws)" by (metis sum.exhaust)
  then show ?case
  proof cases
    case (3 ws)
    consider e where "change_predicates ex net ps = Inl e" | d where "change_predicates ex net ps = Inr (Inl d)"
      | vs where "change_predicates ex net ps = Inr (Inr vs)" by (metis sum.exhaust)
    then show ?thesis using 3 Cons.IH by cases auto
  qed simp_all
qed

text \<open>
  A change set is satisfied exactly when no write of the workspace is left open and every
  predicate holds of the net change, where the net change of a path is from the state before its
  first applied write to the state after its last one: only allowed paths differ, expected contents
  are present, required paths differ, and every applied write has complete evidence.
\<close>

lemma verify_change_set_satisfied:
  "(\<exists>d refs. verify_change_set v effects ex = Inr (Satisfied, d, refs)) \<longleftrightarrow>
   (\<exists>writes c. writes_in v effects = Inr writes
      \<and> foldR add_write \<lparr>cs_net = [], cs_unknown = [], cs_refs = []\<rparr> writes = Inr c
      \<and> (\<nexists>path. left_open writes path) \<and> list_all (change_holds ex writes) (lget v ''predicates''))"
proof -
  have "(\<exists>d refs. verify_change_set v effects ex = Inr (Satisfied, d, refs)) \<longleftrightarrow>
      (\<nexists>path. left_open writes path) \<and> list_all (change_holds ex writes) (lget v ''predicates'')"
    if w: "writes_in v effects = Inr writes"
      and c: "foldR add_write \<lparr>cs_net = [], cs_unknown = [], cs_refs = []\<rparr> writes = Inr c" for writes c
  proof -
    note inv = net_change_spec [OF c]
    have u: "cs_unknown c = [] \<longleftrightarrow> (\<nexists>path. left_open writes path)"
      using inv by (auto simp: change_inv_def neq_Nil_conv)
    have "(\<exists>d refs. verify_change_set v effects ex = Inr (Satisfied, d, refs)) \<longleftrightarrow>
        cs_unknown c = [] \<and> change_predicates ex (cs_net c) (lget v ''predicates'') = Inr (Inr [])"
    proof (cases "change_predicates ex (cs_net c) (lget v ''predicates'')")
      case (Inl e)
      with w c show ?thesis by (simp add: verify_change_set_def)
    next
      case (Inr x)
      with w c show ?thesis by (cases x) (simp_all add: verify_change_set_def Let_def)
    qed
    then show ?thesis unfolding u change_predicates_Nil change_predicate_holds [OF inv] by simp
  qed
  moreover have "\<exists>writes c. writes_in v effects = Inr writes
      \<and> foldR add_write \<lparr>cs_net = [], cs_unknown = [], cs_refs = []\<rparr> writes = Inr c"
    if "verify_change_set v effects ex = Inr (Satisfied, d, refs)" for d refs
    using that unfolding verify_change_set_def bindR_eq_Inr by blast
  ultimately show ?thesis by blast
qed

end
