(* ===== verification/Review.thy ===== *)
theory Review
  imports Journal
begin

section \<open>Semantic review\<close>

text \<open>
  runtime/kernel/review.py: the parameters of a \<open>semantic_review\<close> verifier, the bounded packet a
  reviewer sees, the admission of its answer and the status the answer gives its criterion. The
  reviewer is a deployment-injected function on packets.
\<close>

definition VERDICTS :: "string list" where
  "VERDICTS = [''satisfied'', ''unsatisfied'', ''unknown'', ''request_human'']"
definition CONFIDENCE :: "string list" where
  "CONFIDENCE = [''high'', ''low'']"
definition TERMINAL :: "verdict list" where
  "TERMINAL = [Satisfied, Failed, Waived]"

definition review_params :: "json \<Rightarrow> json res" where
  "review_params v =
     seqR (py_fields v [''kind'', ''version'', ''subject'', ''question'', ''on_low_confidence'']
             [''depends_on'', ''artifact'', ''request'', ''accept''])
     (let depends = dget_or v ''depends_on'' (JList []); low = dget v ''on_low_confidence'' in
      seqR (checks
        [voidR (py_text (dget v ''subject'') 128),
         voidR (py_text (dget v ''question'') 512),
         raise_if (low \<noteq> JStr ''unknown'' \<and> low \<noteq> JStr ''request_human'')
           (ValueError ''on_low_confidence must be unknown or request_human''),
         bounded_unique depends ''Invalid semantic dependencies'',
         forR py_identifier (jlist depends),
         raise_if (low = JStr ''request_human'' \<and> \<not> (has_key v ''artifact'' \<and> has_key v ''request''))
           (ValueError ''request_human requires a contract-fixed human request and artifact''),
         raise_if (low = JStr ''unknown'' \<and> (has_key v ''artifact'' \<or> has_key v ''request'' \<or> has_key v ''accept''))
           (ValueError ''A human request is only meaningful with request_human'')])
      (Inr v))"

definition subject_artifact :: "json \<Rightarrow> string" where
  "subject_artifact verifier = hd (split_on (CHR ''.'') (sget verifier ''subject''))"

definition review_evidence :: "string \<Rightarrow> json \<Rightarrow> task_state \<Rightarrow> artifact_store \<Rightarrow> json list res" where
  "review_evidence task_id verifier state store =
     (let name = subject_artifact verifier in
      case map_of (ts_artifacts state) name of
        None \<Rightarrow> Inr []
      | Some ref \<Rightarrow>
          if ref = [] then Inr []
          else bindR (read store task_id (JStr ref)) (\<lambda>content.
            Inr [JObj [(''name'', JStr name), (''ref'', JStr ref),
              (''content'', JStr (decode_replace MAX_CONTENT (take MAX_CONTENT content))),
              (''truncated'', JBool (MAX_CONTENT < length content))]]))"

definition review_request ::
  "string \<Rightarrow> json \<Rightarrow> int \<Rightarrow> string \<Rightarrow> json list \<Rightarrow> task_state \<Rightarrow> artifact_store \<Rightarrow> json res" where
  "review_request task_id criterion contract_revision evidence_digest dependencies state store =
     (let verifier = dget criterion ''verifier'' in
      bindR (review_evidence task_id verifier state store) (\<lambda>evidence.
      let packet = message ''SemanticReviewRequest'' (JObj
            [(''task_id'', JStr task_id), (''criterion_id'', dget criterion ''id''),
             (''contract_revision'', JInt contract_revision), (''evidence_digest'', JStr evidence_digest),
             (''subject'', dget verifier ''subject''), (''question'', dget verifier ''question''),
             (''deterministic'', JList dependencies), (''evidence'', JList evidence)]) in
      if MAX_PACKET < length (encode packet) then Inl (ValueError ''Semantic review packet exceeds budget'')
      else Inr packet))"

definition answers_packet :: "json \<Rightarrow> json \<Rightarrow> bool" where
  "answers_packet result packet = list_all (\<lambda>key. py_eq (dget result key) (dget (dget packet ''payload'') key))
     [''task_id'', ''criterion_id'', ''contract_revision'', ''evidence_digest'']"

definition cites_packet :: "json \<Rightarrow> json \<Rightarrow> bool res" where
  "cites_packet result packet =
     subset_of (lget result ''evidence_refs'') (map (\<lambda>i. dget i ''ref'') (lget (dget packet ''payload'') ''evidence''))"

definition validate_review_result :: "json \<Rightarrow> json \<Rightarrow> json res" where
  "validate_review_result raw packet =
     bindR (unpack raw ''SemanticReviewResult'') (\<lambda>p.
     bindR (py_fields p [''task_id'', ''criterion_id'', ''contract_revision'', ''evidence_digest'', ''verdict'',
              ''confidence'', ''rationale'', ''evidence_refs''] []) (\<lambda>result.
     seqR (checks
       [raise_if (\<not> answers_packet result packet)
          (ValueError ''Semantic result does not answer this review request''),
        raise_if (dget result ''verdict'' \<notin> JStr ` set VERDICTS \<or> dget result ''confidence'' \<notin> JStr ` set CONFIDENCE)
          (ValueError ''Invalid semantic verdict or confidence''),
        voidR (py_text (dget result ''rationale'') 512),
        raise_if (\<not> is_list (dget result ''evidence_refs'')) (ValueError ''Semantic rationale must cite evidence from its packet''),
        bindR (cites_packet result packet) (\<lambda>ok.
          raise_if (\<not> ok) (ValueError ''Semantic rationale must cite evidence from its packet''))])
     (Inr result)))"

definition review_failure :: "string \<Rightarrow> json" where
  "review_failure reason = message ''SemanticReviewFailure'' (JObj [(''reason'', JStr reason)])"

definition review_call :: "(json \<Rightarrow> json res) option \<Rightarrow> json \<Rightarrow> json" where
  "review_call reviewer packet =
     (case reviewer of None \<Rightarrow> review_failure ''No semantic reviewer is deployed''
      | Some f \<Rightarrow>
          (case bindR (f packet) (\<lambda>raw. seqR (validate_review_result raw packet) (Inr raw)) of
             Inr raw \<Rightarrow> raw
           | Inl e \<Rightarrow> review_failure (py_take 512 (''Reviewer output rejected: '' @ exn_str e))))"

definition review_answer :: "json \<Rightarrow> json \<times> json \<times> string" where
  "review_answer retained =
     (let p = dget retained ''payload'' in
      if dget retained ''kind'' = JStr ''SemanticReviewFailure'' then (JStr ''unknown'', JStr ''low'', sget p ''reason'')
      else (dget p ''verdict'', dget p ''confidence'', sget p ''rationale''))"

definition review_status ::
  "json \<Rightarrow> json option \<Rightarrow> (string \<times> verdict) list \<Rightarrow> (verdict \<times> string) option \<Rightarrow> verdict \<times> string \<times> string option" where
  "review_status verifier retained dependencies human =
     (if (case human of None \<Rightarrow> False | Some (h, _) \<Rightarrow> h = Satisfied \<or> h = Failed) then
        (fst (the human), ''Human decision on escalated semantic review: '' @ snd (the human), None)
      else if list_ex (\<lambda>(_, v). v \<notin> set TERMINAL) dependencies then
        (Pending, ''Deterministic dependencies have no verdict yet'', None)
      else case retained of
        None \<Rightarrow> (Pending, ''Semantic review not yet run for current evidence'', None)
      | Some r \<Rightarrow>
          (case review_answer r of (verdict, confidence, detail) \<Rightarrow>
           let failed = sort (map fst (filter (\<lambda>(_, v). v = Failed) dependencies)) in
           if verdict = JStr ''satisfied'' \<and> failed \<noteq> [] then
             (Unknown, ''Semantic satisfied contradicts deterministic failure of '' @ py_repr_list failed,
              Some (''Semantic review contradicted deterministic verdict(s) '' @ py_repr_list failed
                @ ''; deterministic verdict stands''))
           else if confidence = JStr ''high'' \<and> verdict = JStr ''satisfied'' then (Satisfied, detail, None)
           else if confidence = JStr ''high'' \<and> verdict = JStr ''unsatisfied'' then (Failed, detail, None)
           else if dget verifier ''on_low_confidence'' = JStr ''request_human'' then
             (WaitingHuman, ''Low-confidence or unresolved semantic review escalated: ''
               @ (case human of None \<Rightarrow> ''human decision not yet requested'' | Some (_, d) \<Rightarrow> d), None)
           else (Unknown, py_take 512 (''Low-confidence or unresolved semantic review: '' @ detail), None)))"

subsection \<open>Properties\<close>

text \<open>
  A model judgement never passes a criterion on its own weakness: the status is \<open>satisfied\<close> only
  when a human decided so on the contract-fixed request, or when every deterministic dependency has a
  verdict, none of them failed, and the retained answer is a high-confidence \<open>satisfied\<close>. A failed
  adapter, a low-confidence answer and a contradicted one never satisfy.
\<close>

lemma review_status_satisfied:
  "fst (review_status verifier retained deps human) = Satisfied \<longleftrightarrow>
     (\<exists>d. human = Some (Satisfied, d))
     \<or> \<not> (\<exists>h d. human = Some (h, d) \<and> (h = Satisfied \<or> h = Failed))
       \<and> (\<exists>r. retained = Some r \<and> list_all (\<lambda>(n, v). v = Satisfied \<or> v = Waived) deps
            \<and> dget r ''kind'' \<noteq> JStr ''SemanticReviewFailure''
            \<and> dget (dget r ''payload'') ''verdict'' = JStr ''satisfied''
            \<and> dget (dget r ''payload'') ''confidence'' = JStr ''high'')"
proof -
  have tm: "list_ex (\<lambda>(_, v). v \<notin> set TERMINAL) deps \<longleftrightarrow> (\<exists>(n, v)\<in>set deps. v \<notin> {Satisfied, Failed, Waived})"
    by (auto simp: list_ex_iff TERMINAL_def)
  have failed: "sort (map fst (filter (\<lambda>(_, v). v = Failed) deps)) = [] \<longleftrightarrow> (\<forall>(n, v)\<in>set deps. v \<noteq> Failed)"
  proof -
    have "sort (map fst (filter (\<lambda>(_, v). v = Failed) deps)) = [] \<longleftrightarrow> filter (\<lambda>(_, v). v = Failed) deps = []"
      by (metis length_0_conv length_map length_sort)
    then show ?thesis by (auto simp: filter_empty_conv)
  qed
  show ?thesis
  proof (cases "\<exists>h d. human = Some (h, d) \<and> (h = Satisfied \<or> h = Failed)")
    case True
    then show ?thesis by (auto simp: review_status_def)
  next
    case False
    then have nh: "\<not> (case human of None \<Rightarrow> False | Some (h, _) \<Rightarrow> h = Satisfied \<or> h = Failed)"
      by (auto split: option.splits)
    show ?thesis
    proof (cases retained)
      case None
      with False nh show ?thesis by (auto simp: review_status_def)
    next
      case (Some r)
      obtain v c d where a: "review_answer r = (v, c, d)" by (metis prod_cases3)
      then have vc: "v = JStr ''satisfied'' \<and> c = JStr ''high'' \<longleftrightarrow> dget r ''kind'' \<noteq> JStr ''SemanticReviewFailure''
          \<and> dget (dget r ''payload'') ''verdict'' = JStr ''satisfied''
          \<and> dget (dget r ''payload'') ''confidence'' = JStr ''high''"
        by (auto simp: review_answer_def Let_def split: if_splits)
      have st: "fst (review_status verifier retained deps human) = Satisfied \<longleftrightarrow>
          \<not> (\<exists>(n, v)\<in>set deps. v \<notin> {Satisfied, Failed, Waived}) \<and> (\<forall>(n, v)\<in>set deps. v \<noteq> Failed)
          \<and> v = JStr ''satisfied'' \<and> c = JStr ''high''"
        using nh Some by (auto simp: review_status_def a Let_def tm failed)
      have deps: "\<not> (\<exists>(n, v)\<in>set deps. v \<notin> {Satisfied, Failed, Waived}) \<and> (\<forall>(n, v)\<in>set deps. v \<noteq> Failed) \<longleftrightarrow>
          list_all (\<lambda>(n, v). v = Satisfied \<or> v = Waived) deps" by (fastforce simp: list_all_iff)
      show ?thesis using st deps vc False Some by blast
    qed
  qed
qed

text \<open>
  The reviewer boundary is total and bound to its request: whatever the injected reviewer
  returns or raises, the retained document is either its own answer, which then names this packet's
  Task, criterion, contract revision and evidence digest and cites only evidence of the packet, or a
  recorded failure.
\<close>

lemma review_call_bound:
  "(\<exists>reason. review_call reviewer packet = review_failure reason)
   \<or> (\<exists>result. validate_review_result (review_call reviewer packet) packet = Inr result
        \<and> answers_packet result packet \<and> cites_packet result packet = Inr True)"
proof -
  have sound: "answers_packet result packet \<and> cites_packet result packet = Inr True"
    if "validate_review_result raw packet = Inr result" for raw result
    using that unfolding validate_review_result_def checks_Cons bindR_eq_Inr raise_if_eq_Inr
    by (elim exE conjE) (simp only: py_fields_exact not_not simp_thms sum.inject)
  show ?thesis
  proof (cases reviewer)
    case None
    then have "review_call reviewer packet = review_failure ''No semantic reviewer is deployed''"
      by (simp only: review_call_def option.case)
    then show ?thesis by blast
  next
    case (Some f)
    show ?thesis
    proof (cases "bindR (f packet) (\<lambda>raw. seqR (validate_review_result raw packet) (Inr raw))")
      case (Inl e)
      with Some have "review_call reviewer packet = review_failure (py_take 512 (''Reviewer output rejected: '' @ exn_str e))"
        by (simp only: review_call_def option.case sum.case)
      then show ?thesis by blast
    next
      case (Inr raw)
      then obtain result where "validate_review_result raw packet = Inr result" unfolding bindR_eq_Inr by blast
      moreover from Inr Some have "review_call reviewer packet = raw" by (simp only: review_call_def option.case sum.case)
      ultimately show ?thesis using sound by blast
    qed
  qed
qed

end
