(* ===== verification/Completion.thy ===== *)
theory Completion
  imports Effect_Evidence Review
begin

section \<open>Completion contracts\<close>

text \<open>
  runtime/kernel/completion.py, first part: the closed vocabulary of a completion contract, its
  validation and its intake. A contract is durable Task data: criteria with a level, a provenance and
  a verifier. The rank of a provenance orders conflicts; a criterion of a task type may be an
  invariant, which nobody waives, supersedes or changes. An absent \<open>task_type\<close> or \<open>parent\<close> is \<open>JNull\<close>.

  \<open>wf_contract\<close> states what an accepted contract is; the theorem at the end shows that validation
  accepts nothing else.
\<close>

definition LEVELS :: "string list" where
  "LEVELS = [''REQUIRED'', ''ADVISORY'']"
definition AUTHORITATIVE :: "string list" where
  "AUTHORITATIVE = [''task_type'', ''operator_rule'', ''project_policy'', ''user'', ''parent_task'']"
definition DERIVED :: "string list" where
  "DERIVED = [''repository'', ''memory'', ''model'']"
definition SOURCES :: "string list" where
  "SOURCES = AUTHORITATIVE @ DERIVED"
definition VERIFIERS :: "string list" where
  "VERIFIERS = [''artifact_digest'', ''human_response'', ''capability_journal'', ''evidence_citation'',
     ''capability_result'', ''change_set'', ''semantic_review'', ''unbound'']"
definition NOT_IMPLEMENTED :: "string list" where
  "NOT_IMPLEMENTED = []"
definition DETERMINISTIC :: "string list" where
  "DETERMINISTIC = [''artifact_digest'', ''capability_journal'', ''evidence_citation'', ''capability_result'', ''change_set'']"
definition PASSING :: "verdict list" where
  "PASSING = [Satisfied, Waived]"
definition MAX_CRITERIA :: nat where
  "MAX_CRITERIA = 16"
definition ACTORS :: "(string \<times> string list) list" where
  "ACTORS = [(''user'', [''modify-constraints'', ''human_response'']),
     (''operator'', [''policy_exception'', ''policy_update'']), (''project_policy'', [''policy_update''])]"

subsection \<open>Precedence\<close>

definition source_of :: "json \<Rightarrow> string" where
  "source_of criterion = sget (dget criterion ''provenance'') ''source''"

definition source_rank :: "(string \<times> int) list" where
  "source_rank = [(''operator_rule'', 6), (''project_policy'', 6), (''user'', 5), (''parent_task'', 3),
     (''repository'', 2), (''memory'', 1), (''model'', 0)]"

text \<open>A validated provenance has one of the eight sources.\<close>

definition rank :: "json \<Rightarrow> int" where
  "rank provenance =
     (if dget provenance ''source'' = JStr ''task_type'' then (if py_true (dget provenance ''invariant'') then 7 else 4)
      else case map_of source_rank (sget provenance ''source'') of Some n \<Rightarrow> n | None \<Rightarrow> 0)"

definition invariant :: "json \<Rightarrow> bool" where
  "invariant criterion \<longleftrightarrow> dget (dget criterion ''provenance'') ''source'' = JStr ''task_type''
     \<and> dget (dget criterion ''provenance'') ''invariant'' = JBool True"

subsection \<open>Provenance and verifiers\<close>

definition template_ref :: "json \<Rightarrow> string" where
  "template_ref task_type = sget task_type ''template'' @ ''@'' @ show_int (jint (dget task_type ''version''))"

definition policy_source :: "json \<Rightarrow> bool" where
  "policy_source source \<longleftrightarrow> source \<in> {JStr ''operator_rule'', JStr ''project_policy''}"

definition pinned_digest :: "json \<Rightarrow> bool" where
  "pinned_digest v \<longleftrightarrow> is_str v \<and> is_digest (jstr v)"

definition check_provenance :: "json \<Rightarrow> json \<Rightarrow> json \<Rightarrow> unit res" where
  "check_provenance provenance source task_type =
     checks
       [forR (\<lambda>k. if has_key provenance k then voidR (py_text (dget provenance k) 256) else Inr ()) [''ref'', ''actor''],
        raise_if (has_key provenance ''invariant'' \<and> (source \<noteq> JStr ''task_type'' \<or> \<not> is_bool (dget provenance ''invariant'')))
          (ValueError ''Only task_type criteria may be invariant''),
        raise_if (source = JStr ''task_type'' \<and> (task_type = JNull \<or> dget provenance ''ref'' \<noteq> JStr (template_ref task_type)))
          (ValueError ''task_type provenance must name the contract template''),
        (if policy_source source then
           raise_if (\<not> has_key provenance ''ref'' \<or> \<not> pinned_digest (dget provenance ''source_digest''))
             (ValueError ''Policy provenance requires a rule ref and pinned source_digest'')
         else raise_if (has_key provenance ''source_digest'') (ValueError ''source_digest is only meaningful for policy provenance'')),
        (if source = JStr ''project_policy'' then voidR (py_ref (dget provenance ''designation_ref''))
         else raise_if (has_key provenance ''designation_ref'') (ValueError ''designation_ref is only meaningful for project_policy'')),
        raise_if (has_key provenance ''confirmed_from'' \<and>
            (source \<noteq> JStr ''user'' \<or> dget provenance ''confirmed_from'' \<notin> JStr ` set DERIVED))
          (ValueError ''confirmed_from records a user confirmation of derived provenance'')]"

definition validate_provenance :: "json \<Rightarrow> json \<Rightarrow> json res" where
  "validate_provenance v task_type =
     bindR (py_fields v [''source''] [''ref'', ''actor'', ''invariant'', ''designation_ref'', ''source_digest'', ''confirmed_from'']) (\<lambda>provenance.
     let source = dget provenance ''source'' in
     seqR (raise_if (source \<notin> JStr ` set SOURCES) (ValueError ''Unknown criterion provenance source''))
     (seqR (check_provenance provenance source task_type) (Inr provenance)))"

definition validate_accept :: "json \<Rightarrow> json \<Rightarrow> unit res" where
  "validate_accept verifier request =
     (if has_key verifier ''accept'' then
        let accept = dget verifier ''accept''; allowed = lget (dget request ''payload'') ''allowed_responses'' in
        if \<not> is_list accept \<or> jlist accept = [] then Inl (ValueError ''accept must be a non-empty subset of the allowed responses'')
        else bindR (subset_of (jlist accept) allowed) (\<lambda>ok.
          raise_if (\<not> py_distinct (jlist accept) \<or> \<not> ok) (ValueError ''accept must be a non-empty subset of the allowed responses''))
      else Inr ())"

definition check_human_request :: "json \<Rightarrow> string \<Rightarrow> unit res" where
  "check_human_request v task_id =
     seqR (py_identifier (dget v ''artifact''))
     (bindR (validate_request (dget v ''request'')) (\<lambda>request.
      seqR (raise_if (dget request ''task_id'' \<noteq> JStr task_id) (ValueError ''Human request does not belong to this Task''))
      (validate_accept v (dget v ''request''))))"

definition check_verifier_kind :: "string \<Rightarrow> json \<Rightarrow> string \<Rightarrow> unit res" where
  "check_verifier_kind kind v task_id =
     (if kind = ''artifact_digest'' then
        checks [voidR (py_fields v [''kind'', ''version'', ''artifact'', ''sha256''] [''subject'']),
          voidR (py_identifier (dget v ''artifact'')),
          raise_if (\<not> is_str (dget v ''sha256'') \<or> \<not> is_hex64 (sget v ''sha256'')) (ValueError ''Expected exact SHA-256 completion evidence'')]
      else if kind = ''human_response'' then
        seqR (py_fields v [''kind'', ''version'', ''artifact'', ''request''] [''accept'', ''subject'']) (check_human_request v task_id)
      else if kind = ''capability_journal'' then
        seqR (py_fields v [''kind'', ''version'', ''predicates''] [''subject'']) (voidR (validate_predicates (dget v ''predicates'')))
      else if kind = ''evidence_citation'' then voidR (citation_params v)
      else if kind = ''capability_result'' then voidR (validate_result_params v)
      else if kind = ''change_set'' then voidR (validate_change_params v)
      else seqR (review_params v) (if has_key v ''request'' then check_human_request v task_id else Inr ()))"

definition validate_verifier :: "json \<Rightarrow> string \<Rightarrow> json res" where
  "validate_verifier v task_id =
     (if \<not> is_dict v then Inl (ValueError ''Invalid verifier'')
      else let kind = dget v ''kind'' in
        bindR (in_strs kind NOT_IMPLEMENTED) (\<lambda>planned.
        if planned then Inl (ValueError (''Verifier '' @ jstr kind @ '' is not implemented''))
        else if kind \<notin> JStr ` set VERIFIERS then Inl (ValueError ''Verifier kind is outside the closed taxonomy'')
        else if kind = JStr ''unbound'' then py_fields v [''kind''] []
        else if dget v ''version'' \<noteq> JInt 1 then Inl (ValueError ''Unsupported verifier version'')
        else seqR (check_verifier_kind (jstr kind) v task_id)
             (seqR (if has_key v ''subject'' then voidR (py_text (dget v ''subject'') 128) else Inr ())
             (Inr v))))"

definition check_actor :: "json \<Rightarrow> string \<Rightarrow> unit res" where
  "check_actor actor reason =
     bindR (in_strs (dget actor ''kind'') (map fst ACTORS)) (\<lambda>known.
     raise_if (\<not> known \<or> dget actor ''via'' \<notin> JStr ` set (the (map_of ACTORS (sget actor ''kind'')))) (ValueError reason))"

definition validate_actor_record :: "json \<Rightarrow> json res" where
  "validate_actor_record v =
     bindR (py_fields v [''kind'', ''via'', ''binding'', ''ref''] [''response_ref'', ''exception_for'']) (\<lambda>actor.
     seqR (checks
       [check_actor actor ''Invalid amendment actor'',
        voidR (py_identifier (dget actor ''binding'')),
        voidR (py_ref (dget actor ''ref'')),
        opt_ref actor ''response_ref'',
        (if has_key actor ''exception_for'' then voidR (py_fields (dget actor ''exception_for'') [''rule'', ''digest''] []) else Inr ())])
     (Inr actor))"

subsection \<open>Criteria\<close>

definition required :: "json \<Rightarrow> bool" where
  "required criterion \<longleftrightarrow> dget criterion ''level'' = JStr ''REQUIRED''"

definition kind_of :: "json \<Rightarrow> string" where
  "kind_of criterion = sget (dget criterion ''verifier'') ''kind''"

definition check_waiver :: "json \<Rightarrow> unit res" where
  "check_waiver criterion =
     (if has_key criterion ''waiver'' then
        bindR (py_fields (dget criterion ''waiver'') [''revision'', ''actor'', ''reason''] []) (\<lambda>waiver.
        checks
          [raise_if (\<not> is_int (dget waiver ''revision'') \<or> jint (dget waiver ''revision'') < 1) (ValueError ''A waiver is created only by an amendment''),
           voidR (validate_actor_record (dget waiver ''actor'')),
           voidR (py_text (dget waiver ''reason'') 512),
           raise_if (invariant criterion) (ValueError ''A task-type invariant cannot be waived'')])
      else Inr ())"

definition check_level :: "json \<Rightarrow> json \<Rightarrow> json \<Rightarrow> unit res" where
  "check_level criterion provenance verifier =
     checks
       [raise_if (required criterion \<and> dget provenance ''source'' \<notin> JStr ` set AUTHORITATIVE)
          (ValueError ''Repository, memory and model provenance may only create ADVISORY criteria''),
        raise_if (dget verifier ''kind'' = JStr ''semantic_review'' \<and> required criterion \<and>
            (dget provenance ''source'' \<notin> {JStr ''user'', JStr ''operator_rule''} \<or> dget verifier ''on_low_confidence'' \<noteq> JStr ''request_human''))
          (ValueError ''A REQUIRED semantic review needs user/operator_rule provenance and a human path'')]"

definition validate_criterion :: "json \<Rightarrow> string \<Rightarrow> json \<Rightarrow> json res" where
  "validate_criterion v task_id task_type =
     bindR (py_fields v [''id'', ''requirement'', ''level'', ''provenance'', ''verifier''] [''superseded_by'', ''waiver'', ''binding_provenance'']) (\<lambda>criterion.
     seqR (checks
       [voidR (py_identifier (dget criterion ''id'')),
        voidR (py_text (dget criterion ''requirement'') 512),
        raise_if (dget criterion ''level'' \<notin> JStr ` set LEVELS) (ValueError ''Criterion level must be REQUIRED or ADVISORY'')])
     (bindR (validate_provenance (dget criterion ''provenance'') task_type) (\<lambda>provenance.
      bindR (validate_verifier (dget criterion ''verifier'') task_id) (\<lambda>verifier.
      seqR (check_level criterion provenance verifier)
      (seqR (raise_if (has_key criterion ''binding_provenance'' \<and> dget criterion ''binding_provenance'' \<notin> JStr ` set SOURCES)
               (ValueError ''Invalid binding provenance''))
      (seqR (if has_key criterion ''superseded_by'' then voidR (py_identifier (dget criterion ''superseded_by'')) else Inr ())
      (seqR (check_waiver criterion) (Inr criterion))))))))"

text \<open>The contract-fixed human requests, by request id.\<close>

definition has_human :: "json \<Rightarrow> bool" where
  "has_human verifier \<longleftrightarrow> dget verifier ''kind'' = JStr ''human_response''
     \<or> dget verifier ''kind'' = JStr ''semantic_review'' \<and> has_key verifier ''request''"

definition binding_of :: "json \<Rightarrow> json" where
  "binding_of criterion = (let verifier = dget criterion ''verifier'' in JObj
     ([(''criterion'', dget criterion ''id''), (''artifact'', dget verifier ''artifact''), (''request'', dget verifier ''request'')]
      @ (if has_key verifier ''accept'' then [(''accept'', dget verifier ''accept'')] else [])))"

definition verifier_request_id :: "json \<Rightarrow> string" where
  "verifier_request_id verifier = sget (dget (dget verifier ''request'') ''payload'') ''request_id''"

definition add_binding :: "(string \<times> json) list \<Rightarrow> json \<Rightarrow> (string \<times> json) list res" where
  "add_binding bindings criterion =
     (let verifier = dget criterion ''verifier''; request_id = verifier_request_id verifier in
      if \<not> has_human verifier then Inr bindings
      else if in_dict request_id bindings then Inl (ValueError ''Duplicate human request identity'')
      else Inr (bindings @ [(request_id, binding_of criterion)]))"

definition human_bindings :: "json list \<Rightarrow> (string \<times> json) list res" where
  "human_bindings criteria = foldR add_binding [] criteria"

subsection \<open>Contracts\<close>

definition check_links :: "json \<Rightarrow> unit res" where
  "check_links contract =
     (if dget contract ''revision'' = JInt 0 then
        raise_if (dget contract ''previous_ref'' \<noteq> JNull \<or> dget contract ''amendment_ref'' \<noteq> JNull)
          (ValueError ''Revision 0 has no predecessor or amendment'')
      else forR py_ref [dget contract ''previous_ref'', dget contract ''amendment_ref''])"

definition check_task_type :: "json \<Rightarrow> unit res" where
  "check_task_type task_type =
     (if task_type = JNull then Inr ()
      else checks [voidR (py_fields task_type [''template'', ''version''] []),
        voidR (py_identifier (dget task_type ''template'')),
        raise_if (\<not> is_int (dget task_type ''version'') \<or> jint (dget task_type ''version'') < 1) (ValueError ''Invalid task_type version'')])"

definition check_header :: "json \<Rightarrow> string \<Rightarrow> unit res" where
  "check_header contract task_id =
     checks
       [voidR (py_identifier (JStr task_id)),
        raise_if (dget contract ''task_id'' \<noteq> JStr task_id) (ValueError ''Contract does not belong to this Task''),
        raise_if (\<not> is_int (dget contract ''revision'') \<or> jint (dget contract ''revision'') < 0) (ValueError ''Invalid contract revision''),
        check_links contract,
        check_task_type (dget contract ''task_type''),
        (if has_key contract ''request'' then voidR (py_text (dget contract ''request'') 1024) else Inr ())]"

definition check_contract_criterion :: "string \<Rightarrow> json \<Rightarrow> json \<Rightarrow> unit res" where
  "check_contract_criterion task_id contract criterion =
     seqR (validate_criterion criterion task_id (dget contract ''task_type''))
     (raise_if (has_key criterion ''waiver'' \<and> jint (dget contract ''revision'') < jint (dget (dget criterion ''waiver'') ''revision''))
        (ValueError ''Waiver is newer than its contract revision''))"

definition ids :: "json list \<Rightarrow> string list" where
  "ids criteria = map (\<lambda>c. sget c ''id'') criteria"

definition by_id :: "json list \<Rightarrow> string \<Rightarrow> json option" where
  "by_id criteria name = find (\<lambda>c. sget c ''id'' = name) criteria"

definition may_supersede :: "json list \<Rightarrow> json \<Rightarrow> bool" where
  "may_supersede criteria criterion \<longleftrightarrow>
     (case by_id criteria (sget criterion ''superseded_by'') of
        None \<Rightarrow> False
      | Some target \<Rightarrow> sget target ''id'' \<noteq> sget criterion ''id'' \<and> \<not> has_key target ''superseded_by'' \<and> \<not> invariant criterion
          \<and> rank (dget criterion ''provenance'') \<le> rank (dget target ''provenance''))"

definition deterministic :: "json \<Rightarrow> bool" where
  "deterministic criterion \<longleftrightarrow> dget (dget criterion ''verifier'') ''kind'' \<in> JStr ` set DETERMINISTIC"

definition deterministic_subjects :: "json list \<Rightarrow> string list" where
  "deterministic_subjects criteria =
     map (\<lambda>c. sget (dget c ''verifier'') ''subject'') (filter (\<lambda>c. deterministic c \<and> has_key (dget c ''verifier'') ''subject'') criteria)"

definition depends_on :: "json \<Rightarrow> string list" where
  "depends_on criterion = map jstr (jlist (dget_or (dget criterion ''verifier'') ''depends_on'' (JList [])))"

definition check_semantic :: "json list \<Rightarrow> bool \<Rightarrow> json \<Rightarrow> unit res" where
  "check_semantic criteria is_mutating criterion =
     (let verifier = dget criterion ''verifier'' in
      seqR (if dget verifier ''kind'' = JStr ''semantic_review'' then
              seqR (raise_if (sget verifier ''subject'' \<in> set (deterministic_subjects criteria))
                      (ValueError ''semantic_review cannot target a deterministically verified subject''))
              (forR (\<lambda>name. raise_if (case by_id criteria name of None \<Rightarrow> True | Some c \<Rightarrow> \<not> deterministic c)
                      (ValueError ''semantic_review may depend only on deterministic criteria'')) (depends_on criterion))
            else Inr ())
      (raise_if (dget verifier ''kind'' = JStr ''unbound'' \<and> required criterion \<and> is_mutating)
         (ValueError ''A Task with mutating authority must start with every REQUIRED criterion bound'')))"

definition gating :: "json \<Rightarrow> bool" where
  "gating criterion \<longleftrightarrow> required criterion \<and> \<not> has_key criterion ''superseded_by''"

definition check_criteria :: "json \<Rightarrow> string \<Rightarrow> bool \<Rightarrow> unit res" where
  "check_criteria contract task_id is_mutating =
     (let criteria = lget contract ''criteria'' in
      checks
        [raise_if (\<not> is_list (dget contract ''criteria'') \<or> \<not> (1 \<le> length criteria \<and> length criteria \<le> MAX_CRITERIA))
           (ValueError ''Expected 1..16 contract criteria''),
         forR (check_contract_criterion task_id contract) criteria,
         raise_if (\<not> distinct (ids criteria)) (ValueError ''Criterion ids must be unique''),
         voidR (human_bindings criteria),
         forR (\<lambda>c. raise_if (has_key c ''superseded_by'' \<and> \<not> may_supersede criteria c)
             (ValueError ''A criterion may be superseded only by an existing equal-or-higher precedence criterion'')) criteria,
         forR (check_semantic criteria is_mutating) criteria,
         raise_if (\<not> list_ex gating criteria) (ValueError ''A contract needs at least one REQUIRED criterion'')])"

definition validate_contract :: "json \<Rightarrow> string \<Rightarrow> bool \<Rightarrow> json res" where
  "validate_contract raw task_id is_mutating =
     bindR (unpack raw ''CompletionContract'') (\<lambda>p.
     bindR (py_fields p [''task_id'', ''revision'', ''previous_ref'', ''amendment_ref'', ''task_type'', ''criteria''] [''request'']) (\<lambda>contract.
     seqR (check_header contract task_id)
     (seqR (check_criteria contract task_id is_mutating) (Inr contract))))"

subsection \<open>Intake\<close>

definition lower_verifier :: "json \<Rightarrow> json" where
  "lower_verifier evidence =
     (if dget evidence ''verifier'' = JStr ''human_response''
      then JObj [(''kind'', JStr ''human_response''), (''version'', JInt 1), (''artifact'', dget evidence ''artifact''),
             (''request'', dget evidence ''request'')]
      else JObj [(''kind'', JStr ''artifact_digest''), (''version'', JInt 1), (''artifact'', dget evidence ''artifact''),
             (''sha256'', dget evidence ''sha256'')])"

definition lower_criterion :: "json \<Rightarrow> nat \<Rightarrow> json \<Rightarrow> json" where
  "lower_criterion parent number i = JObj
     [(''id'', JStr (''c'' @ show_nat number)), (''requirement'', dget i ''criterion''), (''level'', JStr ''REQUIRED''),
      (''provenance'', if py_true parent then JObj [(''source'', JStr ''parent_task''), (''ref'', dget parent ''task_id'')]
                       else JObj [(''source'', JStr ''user'')]),
      (''verifier'', lower_verifier (dget i ''evidence''))]"

definition lower_criteria :: "json \<Rightarrow> json \<Rightarrow> json list" where
  "lower_criteria spec parent =
     map (\<lambda>(n, i). lower_criterion parent n i) (zip [1..<Suc (length (lget spec ''completion''))] (lget spec ''completion''))"

definition lower_spec :: "json \<Rightarrow> string \<Rightarrow> json \<Rightarrow> json" where
  "lower_spec spec task_id parent = JObj
     [(''task_id'', JStr task_id), (''revision'', JInt 0), (''previous_ref'', JNull), (''amendment_ref'', JNull),
      (''task_type'', JNull), (''criteria'', JList (lower_criteria spec parent))]"

definition envelope_contract :: "json \<Rightarrow> json" where
  "envelope_contract request =
     (if is_dict request \<and> dget request ''kind'' = JStr ''TaskRequest'' \<and> is_dict (dget request ''payload'')
      then dget (dget request ''payload'') ''contract'' else JNull)"

definition carries :: "json \<Rightarrow> json \<Rightarrow> bool" where
  "carries contract criterion =
     (case by_id (lget contract ''criteria'') (sget criterion ''id'') of None \<Rightarrow> False | Some c \<Rightarrow> py_eq c criterion)"

definition accept_contract :: "json \<Rightarrow> json \<Rightarrow> json \<Rightarrow> string \<Rightarrow> bool \<Rightarrow> json res" where
  "accept_contract spec parent raw task_id is_mutating =
     (let lowered = lower_spec spec task_id parent in
      if raw = JNull then validate_contract (message ''CompletionContract'' lowered) task_id is_mutating
      else if parent \<noteq> JNull then Inl (ValueError ''A child contract is lowered from its TaskSpec only'')
      else bindR (validate_contract raw task_id is_mutating) (\<lambda>contract.
        seqR (raise_if (dget contract ''revision'' \<noteq> JInt 0) (ValueError ''Intake accepts contract revision 0 only''))
        (seqR (forR (\<lambda>c. raise_if (\<not> carries contract c)
                 (ValueError ''Envelope contract must carry the lowered TaskSpec.completion criteria unchanged''))
                (lget lowered ''criteria''))
        (Inr contract))))"

definition human_binding :: "json \<Rightarrow> string \<Rightarrow> json res" where
  "human_binding contract request_id =
     bindR (human_bindings (lget contract ''criteria'')) (\<lambda>bindings.
     case map_of bindings request_id of None \<Rightarrow> Inl (ValueError ''Expected one accepted human request'') | Some b \<Rightarrow> Inr b)"

definition spec_request_ids :: "json \<Rightarrow> string list" where
  "spec_request_ids spec =
     map (\<lambda>c. verifier_request_id (dget c ''evidence''))
       (filter (\<lambda>c. dget (dget c ''evidence'') ''verifier'' = JStr ''human_response'') (lget spec ''completion''))"

definition view_criterion :: "string list \<Rightarrow> json \<Rightarrow> json" where
  "view_criterion known criterion = (let verifier = dget criterion ''verifier'' in JObj
     ([(''id'', dget criterion ''id''), (''level'', dget criterion ''level''), (''requirement'', dget criterion ''requirement''),
       (''verifier'', dget verifier ''kind'')]
      @ (if has_key verifier ''artifact'' then [(''artifact'', dget verifier ''artifact'')] else [])
      @ (if has_key verifier ''request'' \<and> verifier_request_id verifier \<notin> set known then [(''request'', dget verifier ''request'')] else [])
      @ (if has_key criterion ''superseded_by'' then [(''superseded_by'', dget criterion ''superseded_by'')] else [])
      @ (if has_key criterion ''waiver'' then [(''waived'', JBool True)] else [])))"

definition cognition_view :: "json \<Rightarrow> json \<Rightarrow> json" where
  "cognition_view contract spec = JObj [(''revision'', dget contract ''revision''),
     (''criteria'', JList (map (view_criterion (spec_request_ids spec)) (lget contract ''criteria'')))]"

subsection \<open>Authority over a criterion\<close>

definition authority_gap :: "string \<Rightarrow> json \<Rightarrow> json \<Rightarrow> string option" where
  "authority_gap operation criterion actor =
     (let provenance = dget criterion ''provenance''; source = sget provenance ''source'' in
      if invariant criterion then
        Some ''a task-type invariant changes only with the authority it evidences, never within this Task''
      else if policy_source (dget provenance ''source'') then
        (if operation = ''bind'' \<or> operation = ''elevate'' then
           (if dget actor ''kind'' = JStr ''operator'' \<or> dget actor ''kind'' = JStr ''project_policy'' \<and> source = ''project_policy''
            then None else Some (source @ '' criteria are bound only by operator policy''))
         else if dget actor ''kind'' \<noteq> JStr ''operator'' \<or> dget actor ''via'' \<noteq> JStr ''policy_exception'' then
           Some (source @ '' criterion '' @ sget criterion ''id'' @ '' requires an operator policy exception'')
         else if \<not> py_eq (dget actor ''exception_for'')
             (JObj [(''rule'', dget provenance ''ref''), (''digest'', dget provenance ''source_digest'')]) then
           Some ''the policy exception names a different rule or digest''
         else None)
      else if dget actor ''kind'' \<noteq> JStr ''user'' then Some (''only the user may change '' @ source @ '' criteria'')
      else None)"

subsection \<open>What an accepted contract is\<close>

definition wf_contract_criterion :: "bool \<Rightarrow> json \<Rightarrow> json \<Rightarrow> bool" where
  "wf_contract_criterion is_mutating contract c \<longleftrightarrow>
     (let criteria = lget contract ''criteria''; source = dget (dget c ''provenance'') ''source'' in
      dget c ''level'' \<in> JStr ` set LEVELS \<and> source \<in> JStr ` set SOURCES
      \<and> dget (dget c ''verifier'') ''kind'' \<in> JStr ` set VERIFIERS
      \<and> (required c \<longrightarrow> source \<in> JStr ` set AUTHORITATIVE)
      \<and> (required c \<and> kind_of c = ''semantic_review'' \<longrightarrow> dget (dget c ''verifier'') ''on_low_confidence'' = JStr ''request_human'')
      \<and> (required c \<and> kind_of c = ''unbound'' \<longrightarrow> \<not> is_mutating)
      \<and> (has_key c ''waiver'' \<longrightarrow> \<not> invariant c \<and> jint (dget (dget c ''waiver'') ''revision'') \<le> jint (dget contract ''revision''))
      \<and> (has_key c ''superseded_by'' \<longrightarrow> may_supersede criteria c)
      \<and> (kind_of c = ''semantic_review'' \<longrightarrow> sget (dget c ''verifier'') ''subject'' \<notin> set (deterministic_subjects criteria)
           \<and> (\<forall>name\<in>set (depends_on c). \<exists>d. by_id criteria name = Some d \<and> deterministic d)))"

definition wf_contract :: "string \<Rightarrow> bool \<Rightarrow> json \<Rightarrow> bool" where
  "wf_contract task_id is_mutating contract \<longleftrightarrow>
     (let criteria = lget contract ''criteria'' in
      is_ident task_id \<and> dget contract ''task_id'' = JStr task_id \<and> (\<exists>n\<ge>0. dget contract ''revision'' = JInt n)
      \<and> (dget contract ''revision'' = JInt 0 \<longleftrightarrow> dget contract ''previous_ref'' = JNull)
      \<and> 1 \<le> length criteria \<and> length criteria \<le> MAX_CRITERIA \<and> distinct (ids criteria)
      \<and> list_ex gating criteria \<and> list_all (wf_contract_criterion is_mutating contract) criteria)"

lemma validate_verifier_Inr:
  assumes "validate_verifier v t = Inr w"
  shows "w = v" and "dget v ''kind'' \<in> JStr ` set VERIFIERS"
proof -
  from assms have "is_dict v" by (simp add: validate_verifier_def split: if_splits)
  with assms obtain b where "in_strs (dget v ''kind'') NOT_IMPLEMENTED = Inr b"
    by (cases "in_strs (dget v ''kind'') NOT_IMPLEMENTED") (simp_all add: validate_verifier_def Let_def)
  with assms \<open>is_dict v\<close> have "\<not> b" and k: "dget v ''kind'' \<in> JStr ` set VERIFIERS"
    and r: "(if dget v ''kind'' = JStr ''unbound'' then py_fields v [''kind''] []
        else if dget v ''version'' \<noteq> JInt 1 then Inl (ValueError ''Unsupported verifier version'')
        else seqR (check_verifier_kind (sget v ''kind'') v t)
             (seqR (if has_key v ''subject'' then voidR (py_text (dget v ''subject'') 128) else Inr ()) (Inr v))) = Inr w"
    by (simp_all add: validate_verifier_def Let_def split: if_splits)
  show "w = v"
  proof (cases "dget v ''kind'' = JStr ''unbound''")
    case True
    with r show ?thesis by (simp add: py_fields_eq_Inr)
  next
    case False
    with r have "dget v ''version'' = JInt 1" by (simp split: if_splits)
    with r False show ?thesis unfolding bindR_eq_Inr by (simp add: bindR_eq_Inr)
  qed
  show "dget v ''kind'' \<in> JStr ` set VERIFIERS" by (rule k)
qed

lemma validate_provenance_Inr:
  assumes "validate_provenance v tt = Inr p"
  shows "p = v" and "dget v ''source'' \<in> JStr ` set SOURCES" and "check_provenance v (dget v ''source'') tt = Inr ()"
  using assms unfolding validate_provenance_def Let_def bindR_eq_Inr raise_if_eq_Inr py_fields_eq_Inr sum.inject
  by (elim exE conjE; simp)+

lemma check_waiver_Inr:
  assumes "check_waiver c = Inr u" and "has_key c ''waiver''"
  shows "\<not> invariant c"
  using assms unfolding check_waiver_def bindR_eq_Inr checks_Cons raise_if_eq_Inr
  by (simp only: if_True bindR_eq_Inr raise_if_eq_Inr) blast

lemma check_level_Inr:
  assumes "check_level c p v = Inr u" and "required c"
  shows "dget p ''source'' \<in> JStr ` set AUTHORITATIVE"
    and "dget v ''kind'' = JStr ''semantic_review'' \<Longrightarrow> dget v ''on_low_confidence'' = JStr ''request_human''"
  using assms unfolding check_level_def checks_Cons bindR_eq_Inr raise_if_eq_Inr by (elim exE conjE; blast)+

lemma validate_criterion_parts:
  assumes "validate_criterion v t tt = Inr c"
  shows "c = v" and "dget c ''level'' \<in> JStr ` set LEVELS" and "is_str (dget c ''id'')"
    and "validate_provenance (dget c ''provenance'') tt = Inr (dget c ''provenance'')"
    and "validate_verifier (dget c ''verifier'') t = Inr (dget c ''verifier'')"
    and "check_level c (dget c ''provenance'') (dget c ''verifier'') = Inr ()"
    and "check_waiver c = Inr ()"
proof -
  from assms obtain pv vf where a: "c = v"
    "voidR (py_identifier (dget c ''id'')) = Inr ()"
    "dget c ''level'' \<in> JStr ` set LEVELS"
    "validate_provenance (dget c ''provenance'') tt = Inr pv" "validate_verifier (dget c ''verifier'') t = Inr vf"
    "check_level c pv vf = Inr ()" "check_waiver c = Inr ()"
    unfolding validate_criterion_def bindR_eq_Inr checks_Cons raise_if_eq_Inr py_fields_eq_Inr sum.inject
    by (elim exE conjE) simp
  with validate_provenance_Inr(1) [OF a(4)] validate_verifier_Inr(1) [OF a(5)]
  show "c = v" "dget c ''level'' \<in> JStr ` set LEVELS" "is_str (dget c ''id'')"
    "validate_provenance (dget c ''provenance'') tt = Inr (dget c ''provenance'')"
    "validate_verifier (dget c ''verifier'') t = Inr (dget c ''verifier'')"
    "check_level c (dget c ''provenance'') (dget c ''verifier'') = Inr ()" "check_waiver c = Inr ()"
    by (simp_all add: py_identifier_eq_Inr)
qed

lemma check_criteria_parts:
  assumes "check_criteria contract t m = Inr u"
  shows "1 \<le> length (lget contract ''criteria'')" and "length (lget contract ''criteria'') \<le> MAX_CRITERIA"
    and "distinct (ids (lget contract ''criteria''))" and "list_ex gating (lget contract ''criteria'')"
    and "c \<in> set (lget contract ''criteria'') \<Longrightarrow> check_contract_criterion t contract c = Inr ()"
    and "c \<in> set (lget contract ''criteria'') \<Longrightarrow> has_key c ''superseded_by'' \<Longrightarrow> may_supersede (lget contract ''criteria'') c"
    and "c \<in> set (lget contract ''criteria'') \<Longrightarrow> check_semantic (lget contract ''criteria'') m c = Inr ()"
proof -
  let ?cs = "lget contract ''criteria''"
  from assms have a: "1 \<le> length ?cs" "length ?cs \<le> MAX_CRITERIA" "distinct (ids ?cs)" "list_ex gating ?cs"
    and f: "forR (check_contract_criterion t contract) ?cs = Inr ()"
      "forR (\<lambda>c. raise_if (has_key c ''superseded_by'' \<and> \<not> may_supersede ?cs c)
         (ValueError ''A criterion may be superseded only by an existing equal-or-higher precedence criterion'')) ?cs = Inr ()"
      "forR (check_semantic ?cs m) ?cs = Inr ()"
    unfolding check_criteria_def Let_def checks_Cons bindR_eq_Inr raise_if_eq_Inr by (elim exE conjE, simp)+
  show "1 \<le> length ?cs" "length ?cs \<le> MAX_CRITERIA" "distinct (ids ?cs)" "list_ex gating ?cs" by (rule a)+
  show "c \<in> set ?cs \<Longrightarrow> check_contract_criterion t contract c = Inr ()" using f(1) by (auto simp: forR_eq_Inr)
  show "c \<in> set ?cs \<Longrightarrow> has_key c ''superseded_by'' \<Longrightarrow> may_supersede ?cs c"
    using f(2) unfolding forR_eq_Inr raise_if_eq_Inr by blast
  show "c \<in> set ?cs \<Longrightarrow> check_semantic ?cs m c = Inr ()" using f(3) by (auto simp: forR_eq_Inr)
qed

lemma check_semantic_Inr:
  assumes "check_semantic cs m c = Inr u"
  shows "dget (dget c ''verifier'') ''kind'' = JStr ''unbound'' \<Longrightarrow> required c \<Longrightarrow> \<not> m"
    and "dget (dget c ''verifier'') ''kind'' = JStr ''semantic_review'' \<Longrightarrow> sget (dget c ''verifier'') ''subject'' \<notin> set (deterministic_subjects cs)"
    and "dget (dget c ''verifier'') ''kind'' = JStr ''semantic_review'' \<Longrightarrow> name \<in> set (depends_on c) \<Longrightarrow> \<exists>d. by_id cs name = Some d \<and> deterministic d"
proof -
  show "dget (dget c ''verifier'') ''kind'' = JStr ''unbound'' \<Longrightarrow> required c \<Longrightarrow> \<not> m"
    using assms unfolding check_semantic_def Let_def bindR_eq_Inr raise_if_eq_Inr by blast
next
  assume k: "dget (dget c ''verifier'') ''kind'' = JStr ''semantic_review''"
  with assms show "sget (dget c ''verifier'') ''subject'' \<notin> set (deterministic_subjects cs)"
    unfolding check_semantic_def Let_def by (simp only: simp_thms if_True bindR_eq_Inr raise_if_eq_Inr) blast
  assume n: "name \<in> set (depends_on c)"
  from assms k have "forR (\<lambda>name. raise_if (case by_id cs name of None \<Rightarrow> True | Some d \<Rightarrow> \<not> deterministic d)
      (ValueError ''semantic_review may depend only on deterministic criteria'')) (depends_on c) = Inr ()"
    unfolding check_semantic_def Let_def by (simp only: simp_thms if_True bindR_eq_Inr) simp
  with n show "\<exists>d. by_id cs name = Some d \<and> deterministic d"
    unfolding forR_eq_Inr raise_if_eq_Inr by (cases "by_id cs name") auto
qed

lemma contract_criterion_wf:
  assumes "check_criteria contract t m = Inr u" and "c \<in> set (lget contract ''criteria'')"
  shows "wf_contract_criterion m contract c"
proof -
  let ?cs = "lget contract ''criteria''"
  from check_criteria_parts(5) [OF assms] have
    v: "validate_criterion c t (dget contract ''task_type'') = Inr c"
    and w: "has_key c ''waiver'' \<Longrightarrow> jint (dget (dget c ''waiver'') ''revision'') \<le> jint (dget contract ''revision'')"
    unfolding check_contract_criterion_def bindR_eq_Inr raise_if_eq_Inr
    using validate_criterion_parts(1) by (fastforce, fastforce)
  note parts = validate_criterion_parts [OF v]
  note kind = validate_verifier_Inr(2) [OF parts(5)]
  then have k: "kind_of c = x \<longleftrightarrow> dget (dget c ''verifier'') ''kind'' = JStr x" for x
    by (auto simp: kind_of_def)
  note sem = check_semantic_Inr [OF check_criteria_parts(7) [OF assms]]
  show ?thesis
    unfolding wf_contract_criterion_def Let_def k
    using parts(2) validate_provenance_Inr(2) [OF parts(4)] kind check_level_Inr [OF parts(6)]
      check_waiver_Inr [OF parts(7)] w check_criteria_parts(6) [OF assms] sem by blast
qed

lemma check_header_Inr:
  assumes "check_header contract t = Inr u"
  shows "is_ident t" and "dget contract ''task_id'' = JStr t" and "\<exists>n\<ge>0. dget contract ''revision'' = JInt n"
    and "dget contract ''revision'' = JInt 0 \<longleftrightarrow> dget contract ''previous_ref'' = JNull"
proof -
  from assms have a: "is_ident t" "dget contract ''task_id'' = JStr t" "is_int (dget contract ''revision'')"
    "0 \<le> jint (dget contract ''revision'')" and l: "check_links contract = Inr ()"
    unfolding check_header_def checks_Cons bindR_eq_Inr raise_if_eq_Inr voidR_eq_Inr py_identifier_eq_Inr
    by (elim exE conjE, simp)+
  then show "is_ident t" "dget contract ''task_id'' = JStr t" "\<exists>n\<ge>0. dget contract ''revision'' = JInt n"
    by (auto simp: is_int_iff)
  from l show "dget contract ''revision'' = JInt 0 \<longleftrightarrow> dget contract ''previous_ref'' = JNull"
    by (cases "dget contract ''revision'' = JInt 0")
      (simp_all add: check_links_def py_ref_eq_Inr bindR_eq_Inr, (elim conjE, auto)?)
qed

text \<open>What validation accepts, as a rule for the client theories.\<close>

lemma validate_contract_wf: "validate_contract raw t m = Inr c \<Longrightarrow> wf_contract t m c"
proof -
  assume "validate_contract raw t m = Inr c"
  then have h: "check_header c t = Inr ()" and k: "check_criteria c t m = Inr ()"
    unfolding validate_contract_def bindR_eq_Inr by auto
  show ?thesis
    unfolding wf_contract_def Let_def list_all_iff
    using check_header_Inr [OF h] check_criteria_parts [OF k] contract_criterion_wf [OF k] by blast
qed

text \<open>
  Every contract validation accepts is well formed: it belongs to the Task, has one to sixteen
  criteria with distinct ids and at least one that gates completion; only authoritative sources
  create REQUIRED criteria; an invariant is neither waived nor superseded; a superseded criterion has
  a live replacement of equal or higher precedence; a model never judges what a deterministic
  verifier checks; and a Task that may mutate starts with every REQUIRED criterion bound.
\<close>

lemma validate_contract_sound:
  "case validate_contract raw task_id is_mutating of Inl e \<Rightarrow> True | Inr contract \<Rightarrow> wf_contract task_id is_mutating contract"
  by (cases "validate_contract raw task_id is_mutating") (simp_all add: validate_contract_wf)

lemma dget_lower_spec: "dget (lower_spec spec t parent) ''revision'' = JInt 0"
  "lget (lower_spec spec t parent) ''criteria'' = lower_criteria spec parent"
  by (simp_all add: lower_spec_def py_defs)

text \<open>
  Intake never weakens the accepted specification: the accepted contract is well formed and at
  revision 0; without an envelope contract it is exactly the lowering of the specification; with
  one, which only a root Task may have, every lowered completion criterion is carried unchanged.
\<close>

lemma accept_contract_sound:
  "case accept_contract spec parent raw task_id is_mutating of
     Inl e \<Rightarrow> True
   | Inr contract \<Rightarrow> wf_contract task_id is_mutating contract \<and> dget contract ''revision'' = JInt 0
       \<and> (if raw = JNull then contract = lower_spec spec task_id parent
          else parent = JNull \<and> list_all (carries contract) (lower_criteria spec parent))"
proof (cases "accept_contract spec parent raw task_id is_mutating")
  case (Inr contract)
  show ?thesis
  proof (cases "raw = JNull")
    case True
    with Inr have v: "validate_contract (message ''CompletionContract'' (lower_spec spec task_id parent)) task_id is_mutating = Inr contract"
      by (simp add: accept_contract_def Let_def)
    then have "contract = lower_spec spec task_id parent"
      unfolding validate_contract_def bindR_eq_Inr by (auto simp: unpack_eq_Inr py_fields_eq_Inr message_def py_defs)
    with True Inr validate_contract_wf [OF v] show ?thesis by (simp add: dget_lower_spec)
  next
    case False
    with Inr have p: "parent = JNull" by (simp add: accept_contract_def Let_def split: if_splits)
    with False Inr have v: "validate_contract raw task_id is_mutating = Inr contract"
      and r: "dget contract ''revision'' = JInt 0"
      and c: "forR (\<lambda>c. raise_if (\<not> carries contract c)
                 (ValueError ''Envelope contract must carry the lowered TaskSpec.completion criteria unchanged''))
                (lower_criteria spec parent) = Inr ()"
      by (simp_all add: accept_contract_def Let_def bindR_eq_Inr dget_lower_spec)
    from c have "list_all (carries contract) (lower_criteria spec parent)"
      unfolding forR_eq_Inr raise_if_eq_Inr list_all_iff by blast
    with False Inr p r validate_contract_wf [OF v] show ?thesis by simp
  qed
qed simp

end
