(* ===== verification/Completion_Eval.thy ===== *)
theory Completion_Eval
  imports Completion
begin

section \<open>Evaluation and legality\<close>

text \<open>
  runtime/kernel/completion.py, second part: the verdict of every criterion over retained artifacts
  (\<open>assess\<close>), the outcome, the recorded concerns, and \<open>legality\<close>, the one function that decides whether a
  Task may become COMPLETED. The journal facts are loaded once; an unreadable journal is a value
  (\<open>Inl\<close> of the recorded error), not a crash.

  A criterion's entry is the record \<open>assessed\<close>; the evaluation is the record \<open>evaluation\<close>. The
  retained document is their rendering with the same field names.
\<close>

subsection \<open>Deterministic verdicts\<close>

definition pairs_json :: "(string \<times> string) list \<Rightarrow> json" where
  "pairs_json d = JList (map (\<lambda>(k, v). JList [JStr k, JStr v]) (sort_key fst d))"

definition evidence_digest :: "task_state \<Rightarrow> string" where
  "evidence_digest state =
     ''sha256:'' @ sha256_hex (encode (JList [pairs_json (ts_artifacts state), pairs_json (ts_human_responses state)]))"

definition artifact_of :: "task_state \<Rightarrow> string \<Rightarrow> string option" where
  "artifact_of state name = (case map_of (ts_artifacts state) name of None \<Rightarrow> None | Some r \<Rightarrow> if r = [] then None else Some r)"

definition digest_verdict :: "json \<Rightarrow> task_state \<Rightarrow> artifact_store \<Rightarrow> judged res" where
  "digest_verdict verifier state store =
     (case artifact_of state (sget verifier ''artifact'') of
        None \<Rightarrow> Inr (Pending, ''Required artifact is missing'', [])
      | Some ref \<Rightarrow>
          (case read store (ts_task_id state) (JStr ref) of
             Inl e \<Rightarrow> if os_value e then Inr (Unknown, py_take 512 (exn_str e), [ref]) else Inl e
           | Inr content \<Rightarrow>
               if dget verifier ''sha256'' = JStr (sha256_hex content) then Inr (Satisfied, ''Exact artifact digest verified'', [ref])
               else Inr (Failed, ''Artifact does not match accepted digest'', [ref])))"

definition read_answer :: "json \<Rightarrow> string \<Rightarrow> task_state \<Rightarrow> artifact_store \<Rightarrow> json res" where
  "read_answer verifier ref state store =
     bindR (read store (ts_task_id state) (JStr ref)) (\<lambda>content.
     seqR (raise_if (map_of (ts_human_responses state) (verifier_request_id verifier) \<noteq> Some ref)
            (ValueError ''Artifact was not accepted through the human input boundary''))
     (bindR (json_loads content) (\<lambda>doc. validate_response doc (dget verifier ''request'') (ts_task_id state))))"

definition human_verdict :: "json \<Rightarrow> task_state \<Rightarrow> artifact_store \<Rightarrow> judged res" where
  "human_verdict verifier state store =
     (let request_id = verifier_request_id verifier in
      case artifact_of state (sget verifier ''artifact'') of
        None \<Rightarrow>
          if in_dict (''human-request-'' @ request_id) (ts_artifacts state)
          then Inr (WaitingHuman, ''Human decision '' @ request_id @ '' requested; awaiting response'', [])
          else Inr (Pending, ''Required artifact is missing'', [])
      | Some ref \<Rightarrow>
          (case read_answer verifier ref state store of
             Inl e \<Rightarrow> if os_value e then Inr (Unknown, py_take 512 (exn_str e), [ref]) else Inl e
           | Inr response \<Rightarrow>
               if has_key verifier ''accept'' \<and> \<not> py_mem (dget response ''value'') (lget verifier ''accept'')
               then Inr (Failed, ''Human answered '' @ py_repr (sget response ''value'') @ '', outside the accepting set'', [ref])
               else Inr (Satisfied, ''Scoped response accepted and allowed value independently verified'', [ref])))"

subsection \<open>Journal facts\<close>

record facts =
  fa_journal :: journal_facts
  fa_receipts :: "string list"
  fa_effects :: "string + effect_record list"

abbreviation fa_analysis :: "facts \<Rightarrow> analysis" where
  "fa_analysis f \<equiv> jf_analysis (fa_journal f)"

definition authority_refs :: "task_state \<Rightarrow> (string \<times> json) list \<Rightarrow> string list" where
  "authority_refs state entries =
     sorted_set (map (\<lambda>(_, e). sget e ''authority_ref'') (filter (\<lambda>(_, e). has_key e ''authority_ref'') entries)
       @ (case ts_authority_ref state of None \<Rightarrow> [] | Some r \<Rightarrow> if r = [] then [] else [r]))"

definition load_authority :: "artifact_store \<Rightarrow> string \<Rightarrow> string \<Rightarrow> (string \<times> json) res" where
  "load_authority store task_id r =
     bindR (read_json store task_id (JStr r)) (\<lambda>raw. bindR (validate_authority raw task_id) (\<lambda>a. Inr (r, a)))"

definition load_entries :: "task_state \<Rightarrow> artifact_store \<Rightarrow> journal_facts res" where
  "load_entries state store =
     (let task_id = ts_task_id state in
      bindR (journal_read store task_id (ts_journal_head state) (ts_journal_length state)) (\<lambda>entries.
      bindR (mapR (load_authority store task_id) (authority_refs state entries)) (\<lambda>authorities.
      Inr \<lparr>jf_entries = entries, jf_analysis = analyze entries authorities, jf_authorities = authorities\<rparr>)))"

definition success_receipts :: "analysis \<Rightarrow> string list" where
  "success_receipts a =
     map (\<lambda>(_, e). sget e ''receipt_ref'') (filter (\<lambda>(_, e). dget e ''outcome'' = JStr ''success'') (an_observed a))"

definition load_effects :: "journal_facts \<Rightarrow> artifact_store \<Rightarrow> string \<Rightarrow> (string + effect_record list) res" where
  "load_effects jf store task_id =
     (case effects_of jf store task_id of
        Inr es \<Rightarrow> Inr (Inr es)
      | Inl e \<Rightarrow> if os_value_type e \<or> is_key_error e then Inr (Inl (py_take 512 (''Effect evidence unreadable: '' @ exn_str e)))
                 else Inl e)"

definition load_journal :: "task_state \<Rightarrow> artifact_store \<Rightarrow> (string + facts) res" where
  "load_journal state store =
     (case load_entries state store of
        Inl e \<Rightarrow> if os_value_type e then Inr (Inl (py_take 512 (''Capability journal unreadable: '' @ exn_str e))) else Inl e
      | Inr jf \<Rightarrow> bindR (load_effects jf store (ts_task_id state)) (\<lambda>effects.
          Inr (Inr \<lparr>fa_journal = jf, fa_receipts = success_receipts (jf_analysis jf), fa_effects = effects\<rparr>)))"

definition retained_review :: "json option \<Rightarrow> int \<Rightarrow> string \<Rightarrow> task_state \<Rightarrow> artifact_store \<Rightarrow> json option res" where
  "retained_review rec revision digest state store =
     (case rec of None \<Rightarrow> Inr None
      | Some r \<Rightarrow>
          if \<not> py_true r \<or> \<not> py_eq (dget r ''contract_revision'') (JInt revision) \<or> dget r ''evidence_digest'' \<noteq> JStr digest
          then Inr None
          else case read_json store (ts_task_id state) (dget r ''ref'') of
            Inr doc \<Rightarrow> Inr (Some doc)
          | Inl e \<Rightarrow> if os_value e then Inr None else Inl e)"

subsection \<open>Assessment\<close>

record assessed =
  as_id :: string
  as_level :: string
  as_gating :: bool
  as_verifier :: string
  as_status :: verdict
  as_refs :: "string list"
  as_detail :: string
  as_range :: "nat option"
  as_superseded :: "string option"
  as_concern :: "string option"
  as_waiver_ref :: "json option"

definition effect_verdict :: "string \<Rightarrow> json \<Rightarrow> task_state \<Rightarrow> facts \<Rightarrow> judged res" where
  "effect_verdict kind verifier state f =
     (case fa_effects f of
        Inl d \<Rightarrow> Inr (Unknown, d, [])
      | Inr effects \<Rightarrow>
          if kind = ''capability_result'' then verify_result verifier effects
          else verify_change_set verifier effects
            (\<lambda>r. r \<in> JStr ` set (map snd (ts_artifacts state)) \<or> r \<in> JStr ` set (fa_receipts f)))"

text \<open>The first pass: every verifier but the semantic one, which stays pending.\<close>

definition base_verdict :: "json \<Rightarrow> task_state \<Rightarrow> artifact_store \<Rightarrow> string + facts \<Rightarrow> judged res" where
  "base_verdict criterion state store fs =
     (let verifier = dget criterion ''verifier''; kind = kind_of criterion in
      if kind = ''unbound'' then Inr (Pending, ''Verifier unbound; binding it is an amendment'', [])
      else if kind = ''artifact_digest'' then digest_verdict verifier state store
      else if kind = ''human_response'' then human_verdict verifier state store
      else if kind = ''semantic_review'' then Inr (Pending, [], [])
      else case fs of
        Inl error \<Rightarrow> Inr (Unknown, error, [])
      | Inr f \<Rightarrow>
          if kind = ''capability_journal'' then
            (case verify (lget verifier ''predicates'') (fa_analysis f) (length (jf_entries (fa_journal f))) (jf_authorities (fa_journal f)) of
               (s, d) \<Rightarrow> Inr (s, d, []))
          else if kind = ''evidence_citation'' then citation_verify verifier state store (set (fa_receipts f))
          else effect_verdict kind verifier state f)"

definition base_entry :: "task_state \<Rightarrow> artifact_store \<Rightarrow> string + facts \<Rightarrow> json \<Rightarrow> assessed res" where
  "base_entry state store fs criterion =
     bindR (base_verdict criterion state store fs) (\<lambda>(s, d, refs).
     let kind = kind_of criterion in
     Inr \<lparr>as_id = sget criterion ''id'', as_level = sget criterion ''level'', as_gating = gating criterion,
          as_verifier = (if kind = ''unbound'' then kind else kind @ ''@'' @ show_int (jint (dget (dget criterion ''verifier'') ''version''))),
          as_status = s, as_refs = refs, as_detail = d,
          as_range = (case fs of Inl _ \<Rightarrow> None | Inr f \<Rightarrow> if kind = ''capability_journal'' then Some (length (jf_entries (fa_journal f))) else None),
          as_superseded = (if has_key criterion ''superseded_by'' then Some (sget criterion ''superseded_by'') else None),
          as_concern = None, as_waiver_ref = None\<rparr>)"

definition status_of :: "assessed list \<Rightarrow> string \<Rightarrow> verdict" where
  "status_of results name = (case find (\<lambda>e. as_id e = name) results of None \<Rightarrow> Pending | Some e \<Rightarrow> as_status e)"

text \<open>
  The second pass reads the deterministic verdicts of the first as fixed inputs; a validated contract
  names only deterministic criteria in \<open>depends_on\<close>, so the in-place updates of this pass are never read.
\<close>

definition semantic_update :: "json option \<Rightarrow> json option \<Rightarrow> assessed \<Rightarrow> verdict \<times> string \<times> string option \<Rightarrow> assessed" where
  "semantic_update rec retained entry r =
     entry\<lparr>as_status := fst r, as_detail := fst (snd r), as_concern := snd (snd r),
       as_refs := (case (rec, retained) of (Some x, Some _) \<Rightarrow> [sget x ''ref''] | _ \<Rightarrow> as_refs entry)\<rparr>"

definition semantic_entry :: "json \<Rightarrow> task_state \<Rightarrow> artifact_store \<Rightarrow> assessed list \<Rightarrow> json \<times> assessed \<Rightarrow> assessed res" where
  "semantic_entry contract state store results x =
     (let criterion = fst x; entry = snd x; verifier = dget criterion ''verifier'' in
      if kind_of criterion \<noteq> ''semantic_review'' then Inr entry
      else bindR (if has_key verifier ''request'' then bindR (human_verdict verifier state store) (\<lambda>(s, d, _). Inr (Some (s, d))) else Inr None) (\<lambda>human.
        let rec = map_of (ts_semantic_reviews state) (sget criterion ''id'') in
        bindR (retained_review rec (jint (dget contract ''revision'')) (evidence_digest state) state store) (\<lambda>retained.
        Inr (semantic_update rec retained entry
               (review_status verifier retained (map (\<lambda>n. (n, status_of results n)) (depends_on criterion)) human)))))"

definition waive_entry :: "json \<times> assessed \<Rightarrow> assessed" where
  "waive_entry x =
     (let criterion = fst x; entry = snd x;
          waived = (if has_key criterion ''waiver'' then
            let waiver = dget criterion ''waiver''; actor = dget waiver ''actor'' in
            entry\<lparr>as_status := Waived, as_waiver_ref := Some (dget actor ''ref''),
              as_detail := py_take 512 (''Waived at revision '' @ show_int (jint (dget waiver ''revision'')) @ '' by '' @ sget actor ''kind''
                @ '' ('' @ sget actor ''via'' @ ''): '' @ sget waiver ''reason'')\<rparr> else entry) in
      waived\<lparr>as_detail := py_take 512 (as_detail waived)\<rparr>)"

definition assess :: "json \<Rightarrow> task_state \<Rightarrow> artifact_store \<Rightarrow> string + facts \<Rightarrow> assessed list res" where
  "assess contract state store fs =
     (let criteria = lget contract ''criteria'' in
      bindR (mapR (base_entry state store fs) criteria) (\<lambda>results.
      bindR (mapR (semantic_entry contract state store results) (zip criteria results)) (\<lambda>judged.
      Inr (map waive_entry (zip criteria judged)))))"

subsection \<open>Outcome, concerns and legality\<close>

definition passing :: "assessed \<Rightarrow> bool" where
  "passing e \<longleftrightarrow> as_status e \<in> set PASSING"

definition contract_outcome :: "assessed list \<Rightarrow> string" where
  "contract_outcome results =
     (let needed = filter as_gating results in
      if list_all passing needed then ''satisfied''
      else if list_ex (\<lambda>e. as_status e = Unknown \<or> as_status e = WaitingHuman) needed then ''unknown''
      else ''unsatisfied'')"

definition concerns :: "assessed list \<Rightarrow> string + facts \<Rightarrow> string list" where
  "concerns results fs = take 8
     (map (\<lambda>e. py_take 512 (as_level e @ '' criterion '' @ as_id e @ '' waived, not satisfied: '' @ as_detail e))
        (filter (\<lambda>e. as_status e = Waived) results)
      @ (case fs of Inl _ \<Rightarrow> []
         | Inr f \<Rightarrow>
             (let u = unresolved_effects (fa_analysis f) in
              if u \<noteq> [] then [py_take 512 (''Target effects with unresolved outcome: '' @ py_repr_list u)] else [])
             @ (let ds = an_denials (fa_analysis f) in
                if ds \<noteq> [] then [py_take 512 (''PolicyGate denied '' @ show_nat (length ds) @ '' capability request(s): ''
                  @ py_repr_list (sorted_set (map (\<lambda>d. sget d ''operation_class'') ds)))] else []))
      @ map (py_take 512) (List.map_filter as_concern results)
      @ map (\<lambda>e. py_take 512 (''Advisory '' @ as_id e @ '' '' @ verdict_str (as_status e) @ '': '' @ as_detail e))
          (filter (\<lambda>e. as_level e = ''ADVISORY'' \<and> \<not> passing e) results)
      @ List.map_filter (\<lambda>e. map_option (\<lambda>t. ''Criterion '' @ as_id e @ '' superseded by '' @ t) (as_superseded e)) results)"

record evaluation =
  ev_task_id :: string
  ev_contract_ref :: "string option"
  ev_contract_revision :: int
  ev_evidence_digest :: string
  ev_journal_head :: "string option"
  ev_journal_length :: int
  ev_outcome :: string
  ev_criteria :: "assessed list"
  ev_concerns :: "string list"
  ev_irrecoverable :: "string list"

definition stale_blockers :: "json \<Rightarrow> string option \<Rightarrow> evaluation \<Rightarrow> task_state \<Rightarrow> string list" where
  "stale_blockers contract contract_ref ev state =
     (if ev_contract_ref ev \<noteq> contract_ref \<or> ev_contract_ref ev \<noteq> ts_contract_ref state
         \<or> dget contract ''revision'' \<noteq> JInt (ev_contract_revision ev) \<or> ts_contract_revision state \<noteq> Some (ev_contract_revision ev)
      then [''Evaluation is not against the current contract revision''] else [])
     @ (if ev_evidence_digest ev \<noteq> evidence_digest state \<or> ev_journal_head ev \<noteq> ts_journal_head state
           \<or> ev_journal_length ev \<noteq> ts_journal_length state
        then [''Evaluation is stale against current evidence or journal''] else [])"

definition unmet :: "json \<Rightarrow> assessed \<Rightarrow> string list" where
  "unmet criterion entry =
     (if \<not> gating criterion then []
      else if kind_of criterion = ''unbound'' \<and> \<not> has_key criterion ''waiver'' then [''REQUIRED '' @ sget criterion ''id'' @ '' is unbound'']
      else if \<not> passing entry then [''REQUIRED '' @ sget criterion ''id'' @ '' is '' @ verdict_str (as_status entry)]
      else [])"

text \<open>The loop over \<open>zip\<close>, which breaks at the first entry of another criterion.\<close>

fun criteria_blockers :: "(json \<times> assessed) list \<Rightarrow> string list" where
  "criteria_blockers [] = []"
| "criteria_blockers ((criterion, entry) # rest) =
     (if as_id entry \<noteq> sget criterion ''id'' then [''Evaluation criteria do not match the contract'']
      else unmet criterion entry @ criteria_blockers rest)"

definition wait_blockers :: "task_state \<Rightarrow> string list" where
  "wait_blockers state =
     (case ts_wait state of
        Some (WaitInput i ty r p q) \<Rightarrow> if ty = ''human_response'' then [''Human decision '' @ i @ '' is outstanding''] else []
      | _ \<Rightarrow> [])"

definition journal_blockers :: "string + facts \<Rightarrow> string list" where
  "journal_blockers fs =
     (case fs of
        Inl error \<Rightarrow> [error]
      | Inr f \<Rightarrow>
          (let ps = an_problems (fa_analysis f) in
           if ps \<noteq> [] then [''Capability journal violation: '' @ py_take 400 (join_with ''; '' ps)] else [])
          @ (let u = unresolved_effects (fa_analysis f) in
             if u \<noteq> [] then [''Target effects with unresolved outcome: '' @ py_take 400 (join_with '', '' u)] else []))"

text \<open>The retained action of a waiver's actor: \<open>True\<close> when it is this actor's action on this Task.\<close>

definition waiver_action :: "json \<Rightarrow> task_state \<Rightarrow> artifact_store \<Rightarrow> unit res" where
  "waiver_action actor state store =
     bindR (read_json store (ts_task_id state) (dget actor ''ref'')) (\<lambda>raw.
     bindR (unpack raw ''CompletionContractAmendmentSubmission'') (\<lambda>action.
     bindR (item action ''actor'') (\<lambda>a.
     if \<not> py_eq a (JObj [(''kind'', dget actor ''kind''), (''via'', dget actor ''via''), (''binding'', dget actor ''binding'')])
     then Inl (ValueError ''foreign or re-attributed action'')
     else bindR (item action ''amendment'') (\<lambda>m. bindR (item m ''payload'') (\<lambda>p. bindR (item p ''task_id'') (\<lambda>t.
       raise_if (\<not> py_eq t (JStr (ts_task_id state))) (ValueError ''foreign or re-attributed action'')))))))"

definition waiver_blockers :: "task_state \<Rightarrow> artifact_store \<Rightarrow> json \<Rightarrow> string list res" where
  "waiver_blockers state store criterion =
     (if \<not> has_key criterion ''waiver'' then Inr []
      else let actor = dget (dget criterion ''waiver'') ''actor''; i = sget criterion ''id'' in
        case authority_gap ''waive'' criterion actor of
          Some denied \<Rightarrow> Inr [''Waiver of '' @ i @ '' lacks authority: '' @ denied]
        | None \<Rightarrow>
            (case waiver_action actor state store of
               Inl e \<Rightarrow> if os_value_type e then Inr [''Waiver of '' @ i @ '' does not reference a retained human action''] else Inl e
             | Inr _ \<Rightarrow>
                 Inr (if dget actor ''via'' = JStr ''human_response''
                         \<and> dget actor ''response_ref'' \<notin> JStr ` set (map snd (ts_human_responses state))
                      then [''Waiver of '' @ i @ '' cites an unaccepted human response''] else [])))"

definition legality ::
  "json \<Rightarrow> string option \<Rightarrow> evaluation \<Rightarrow> task_state \<Rightarrow> artifact_store \<Rightarrow> string + facts \<Rightarrow> (bool \<times> string list) res" where
  "legality contract contract_ref ev state store fs =
     bindR (mapR (waiver_blockers state store) (lget contract ''criteria'')) (\<lambda>waivers.
     let blockers = stale_blockers contract contract_ref ev state
           @ criteria_blockers (zip (lget contract ''criteria'') (ev_criteria ev))
           @ (if length (ev_criteria ev) \<noteq> length (lget contract ''criteria'') then [''Evaluation criteria do not match the contract''] else [])
           @ wait_blockers state @ journal_blockers fs @ concat waivers in
     Inr (blockers = [] \<and> ev_outcome ev = ''satisfied'', take 16 blockers))"

definition terminal :: "json \<Rightarrow> assessed \<Rightarrow> bool" where
  "terminal criterion entry \<longleftrightarrow> as_status entry = Failed \<and> gating criterion \<and> invariant criterion
     \<and> kind_of criterion = ''capability_journal''"

definition evaluate_contract ::
  "json \<Rightarrow> string option \<Rightarrow> task_state \<Rightarrow> artifact_store \<Rightarrow> (evaluation \<times> bool \<times> string list) res" where
  "evaluate_contract contract contract_ref state store =
     bindR (load_journal state store) (\<lambda>fs.
     bindR (assess contract state store fs) (\<lambda>results.
     let ev = \<lparr>ev_task_id = ts_task_id state, ev_contract_ref = contract_ref,
           ev_contract_revision = jint (dget contract ''revision''), ev_evidence_digest = evidence_digest state,
           ev_journal_head = ts_journal_head state, ev_journal_length = ts_journal_length state,
           ev_outcome = contract_outcome results, ev_criteria = map (\<lambda>e. e\<lparr>as_concern := None\<rparr>) results,
           ev_concerns = concerns results fs,
           ev_irrecoverable = map (\<lambda>(_, e). as_id e) (filter (\<lambda>(c, e). terminal c e) (zip (lget contract ''criteria'') results))\<rparr> in
     bindR (legality contract contract_ref ev state store fs) (\<lambda>decision. Inr (ev, decision))))"

subsection \<open>Projections\<close>

fun V1_STATUS :: "verdict \<Rightarrow> string" where
  "V1_STATUS Satisfied = ''satisfied''"
| "V1_STATUS Waived = ''satisfied''"
| "V1_STATUS Pending = ''unsatisfied''"
| "V1_STATUS Failed = ''unsatisfied''"
| "V1_STATUS WaitingHuman = ''unsatisfied''"
| "V1_STATUS Unknown = ''unknown''"

definition v1_finding :: "json \<times> assessed \<Rightarrow> json" where
  "v1_finding x = JObj [(''criterion'', dget (fst x) ''requirement''), (''outcome'', JStr (V1_STATUS (as_status (snd x)))),
     (''evidence_ref'', case as_refs (snd x) of [] \<Rightarrow> JNull | r # _ \<Rightarrow> JStr r), (''detail'', JStr (as_detail (snd x)))]"

definition project_v1 :: "json \<Rightarrow> assessed list \<Rightarrow> json" where
  "project_v1 contract results =
     (let rows = zip (lget contract ''criteria'') results; outcomes = map (\<lambda>(_, e). V1_STATUS (as_status e)) rows in
      message ''CompletionEvaluation'' (JObj
        [(''outcome'', JStr (if ''unsatisfied'' \<in> set outcomes then ''unsatisfied'' else if ''unknown'' \<in> set outcomes then ''unknown'' else ''satisfied'')),
         (''criteria'', JList (map v1_finding rows))]))"

definition review_current :: "json \<Rightarrow> task_state \<Rightarrow> json \<Rightarrow> bool" where
  "review_current contract state criterion =
     (case map_of (ts_semantic_reviews state) (sget criterion ''id'') of None \<Rightarrow> False
      | Some r \<Rightarrow> py_true r \<and> py_eq (dget r ''contract_revision'') (dget contract ''revision'')
          \<and> dget r ''evidence_digest'' = JStr (evidence_digest state))"

definition semantic_due :: "json \<Rightarrow> assessed list \<Rightarrow> task_state \<Rightarrow> json list" where
  "semantic_due contract results state =
     filter (\<lambda>c. kind_of c = ''semantic_review'' \<and> \<not> has_key c ''waiver'' \<and> \<not> has_key c ''superseded_by''
         \<and> list_all (\<lambda>n. status_of results n \<in> set TERMINAL) (depends_on c) \<and> \<not> review_current contract state c)
       (lget contract ''criteria'')"

definition verifier_of :: "assessed list \<Rightarrow> string \<Rightarrow> string" where
  "verifier_of results name = (case find (\<lambda>e. as_id e = name) results of None \<Rightarrow> [] | Some e \<Rightarrow> as_verifier e)"

definition dependency_view :: "json \<Rightarrow> assessed list \<Rightarrow> json list" where
  "dependency_view criterion results =
     map (\<lambda>n. JObj [(''id'', JStr n), (''status'', JStr (verdict_str (status_of results n))), (''verifier'', JStr (verifier_of results n))])
       (depends_on criterion)"

subsection \<open>When COMPLETED is legal\<close>

definition waiver_ok :: "task_state \<Rightarrow> artifact_store \<Rightarrow> json \<Rightarrow> bool" where
  "waiver_ok state store c \<longleftrightarrow> (has_key c ''waiver'' \<longrightarrow>
     (let actor = dget (dget c ''waiver'') ''actor'' in
      authority_gap ''waive'' c actor = None \<and> waiver_action actor state store = Inr ()
      \<and> (dget actor ''via'' = JStr ''human_response'' \<longrightarrow> dget actor ''response_ref'' \<in> JStr ` set (map snd (ts_human_responses state)))))"

definition met :: "json \<Rightarrow> assessed \<Rightarrow> bool" where
  "met c e \<longleftrightarrow> as_id e = sget c ''id'' \<and> (gating c \<longrightarrow> passing e \<and> (kind_of c = ''unbound'' \<longrightarrow> has_key c ''waiver''))"

definition current :: "json \<Rightarrow> string option \<Rightarrow> evaluation \<Rightarrow> task_state \<Rightarrow> bool" where
  "current contract contract_ref ev state \<longleftrightarrow>
     ev_contract_ref ev = contract_ref \<and> ts_contract_ref state = contract_ref
     \<and> dget contract ''revision'' = JInt (ev_contract_revision ev) \<and> ts_contract_revision state = Some (ev_contract_revision ev)
     \<and> ev_evidence_digest ev = evidence_digest state \<and> ev_journal_head ev = ts_journal_head state
     \<and> ev_journal_length ev = ts_journal_length state"

definition awaits_human :: "task_state \<Rightarrow> bool" where
  "awaits_human state \<longleftrightarrow> (\<exists>i r p q. ts_wait state = Some (WaitInput i ''human_response'' r p q))"

definition journal_clean :: "string + facts \<Rightarrow> bool" where
  "journal_clean fs \<longleftrightarrow> (\<exists>f. fs = Inr f \<and> an_problems (fa_analysis f) = [] \<and> unresolved_effects (fa_analysis f) = [])"

lemma criteria_blockers_Nil:
  "length cs = length es \<Longrightarrow> criteria_blockers (zip cs es) = [] \<longleftrightarrow> list_all2 met cs es"
  by (induction cs es rule: list_induct2) (auto simp: unmet_def met_def)

lemma stale_blockers_Nil: "stale_blockers contract ref ev state = [] \<longleftrightarrow> current contract ref ev state"
  by (auto simp: stale_blockers_def current_def)

lemma wait_blockers_Nil: "wait_blockers state = [] \<longleftrightarrow> \<not> awaits_human state"
  by (auto simp: wait_blockers_def awaits_human_def split: option.splits wait.splits)

lemma journal_blockers_Nil: "journal_blockers fs = [] \<longleftrightarrow> journal_clean fs"
  by (cases fs) (auto simp: journal_blockers_def journal_clean_def Let_def)

lemma waiver_blockers_Nil: "waiver_blockers state store c = Inr [] \<longleftrightarrow> waiver_ok state store c"
proof (cases "has_key c ''waiver''")
  case True
  let ?a = "dget (dget c ''waiver'') ''actor''"
  show ?thesis
  proof (cases "authority_gap ''waive'' c ?a = None")
    case gap: True
    show ?thesis
      using True gap by (cases "waiver_action ?a state store") (simp_all add: waiver_blockers_def waiver_ok_def Let_def)
  next
    case False
    with True show ?thesis by (auto simp: waiver_blockers_def waiver_ok_def Let_def)
  qed
qed (simp add: waiver_blockers_def waiver_ok_def)

lemma mapR_concat_Nil: "(\<exists>ys. mapR f xs = Inr ys \<and> concat ys = []) \<longleftrightarrow> (\<forall>x\<in>set xs. f x = Inr [])"
proof (induction xs)
  case (Cons x xs)
  then show ?case by (cases "f x"; cases "mapR f xs") auto
qed simp

lemma if_single_Nil: "(if b then [x] else []) = [] \<longleftrightarrow> \<not> b"
  by simp

text \<open>The rule the clients use: legality as one conjunction.\<close>

lemma legality_True:
  "(\<exists>bs. legality contract ref ev state store fs = Inr (True, bs)) \<longleftrightarrow>
     current contract ref ev state \<and> list_all2 met (lget contract ''criteria'') (ev_criteria ev)
     \<and> \<not> awaits_human state \<and> journal_clean fs \<and> list_all (waiver_ok state store) (lget contract ''criteria'')
     \<and> ev_outcome ev = ''satisfied''"
proof -
  let ?cs = "lget contract ''criteria''"
  have w: "(\<exists>ws. mapR (waiver_blockers state store) ?cs = Inr ws \<and> concat ws = []) \<longleftrightarrow> list_all (waiver_ok state store) ?cs"
    unfolding mapR_concat_Nil waiver_blockers_Nil list_all_iff ..
  have "(\<exists>bs. legality contract ref ev state store fs = Inr (True, bs)) \<longleftrightarrow>
      (\<exists>ws. mapR (waiver_blockers state store) ?cs = Inr ws \<and> concat ws = []) \<and> stale_blockers contract ref ev state = []
      \<and> criteria_blockers (zip ?cs (ev_criteria ev)) = [] \<and> length (ev_criteria ev) = length ?cs
      \<and> wait_blockers state = [] \<and> journal_blockers fs = [] \<and> ev_outcome ev = ''satisfied''"
  proof (cases "mapR (waiver_blockers state store) ?cs")
    case (Inl e)
    then show ?thesis by (simp add: legality_def)
  next
    case (Inr ws)
    show ?thesis
      unfolding legality_def Let_def Inr bindR_Inr sum.inject prod.inject append_is_Nil_conv if_single_Nil by blast
  qed
  moreover have "criteria_blockers (zip ?cs (ev_criteria ev)) = [] \<and> length (ev_criteria ev) = length ?cs
      \<longleftrightarrow> list_all2 met ?cs (ev_criteria ev)"
    using criteria_blockers_Nil [of ?cs "ev_criteria ev"] list_all2_lengthD [of met ?cs "ev_criteria ev"] by auto
  ultimately show ?thesis
    unfolding w stale_blockers_Nil wait_blockers_Nil journal_blockers_Nil by blast
qed

text \<open>
  C2. The one answer to "may this Task become COMPLETED": it is yes exactly when the evaluation is of
  the current contract revision, evidence and journal; every criterion has its entry and every gating
  one passes (an unbound one only by a waiver); no human decision is outstanding; the journal is
  readable, free of violations and without a target effect of unknown outcome; every waiver has
  authority, a retained action of its own actor and, through a human response, an accepted one; and
  the outcome is satisfied. In every other case the reasons are recorded, at most sixteen.
\<close>

theorem legality_iff:
  "case legality contract ref ev state store fs of
     Inl e \<Rightarrow> True
   | Inr (legal, blockers) \<Rightarrow> length blockers \<le> 16 \<and>
       (legal \<longleftrightarrow> current contract ref ev state \<and> list_all2 met (lget contract ''criteria'') (ev_criteria ev)
         \<and> \<not> awaits_human state \<and> journal_clean fs \<and> list_all (waiver_ok state store) (lget contract ''criteria'')
         \<and> ev_outcome ev = ''satisfied'')"
proof (cases "legality contract ref ev state store fs")
  case (Inr d)
  obtain legal bs where d: "d = (legal, bs)" by force
  from Inr [unfolded d] obtain blockers where "take 16 blockers = bs"
    unfolding legality_def bindR_eq_Inr Let_def sum.inject prod.inject by blast
  then have len: "length bs \<le> 16" by auto
  have "legal = (\<exists>bs. legality contract ref ev state store fs = Inr (True, bs))" using Inr d by simp
  also note legality_True
  finally show ?thesis unfolding Inr d sum.case prod.case using len by blast
qed simp

subsection \<open>Entries follow their criteria\<close>

lemma base_entry_Inr:
  assumes "base_entry state store fs c = Inr e"
  shows "as_id e = sget c ''id''" and "as_gating e = gating c" and "kind_of c = ''unbound'' \<Longrightarrow> as_status e = Pending"
    and "as_level e = sget c ''level''"
proof -
  from assms obtain s d refs where b: "base_verdict c state store fs = Inr (s, d, refs)"
    and e: "as_id e = sget c ''id''" "as_gating e = gating c" "as_status e = s" "as_level e = sget c ''level''"
    unfolding base_entry_def bindR_eq_Inr Let_def by auto
  show "as_id e = sget c ''id''" "as_gating e = gating c" "as_level e = sget c ''level''" by (rule e)+
  assume "kind_of c = ''unbound''"
  with b e(3) show "as_status e = Pending" by (simp add: base_verdict_def Let_def)
qed

lemma semantic_entry_Inr:
  assumes "semantic_entry contract state store results (c, e) = Inr e'"
  shows "as_id e' = as_id e" and "as_gating e' = as_gating e" and "as_level e' = as_level e"
    and "kind_of c \<noteq> ''semantic_review'' \<Longrightarrow> e' = e"
proof -
  show "as_id e' = as_id e" "as_gating e' = as_gating e" "as_level e' = as_level e"
    using assms unfolding semantic_entry_def Let_def
    by (auto simp: bindR_eq_Inr semantic_update_def split: if_split_asm)
  show "kind_of c \<noteq> ''semantic_review'' \<Longrightarrow> e' = e" using assms by (simp add: semantic_entry_def Let_def)
qed

lemma waive_entry_fields:
  "as_id (waive_entry (c, e)) = as_id e" "as_gating (waive_entry (c, e)) = as_gating e"
  "as_level (waive_entry (c, e)) = as_level e"
  "as_status (waive_entry (c, e)) = (if has_key c ''waiver'' then Waived else as_status e)"
  by (simp_all add: waive_entry_def Let_def)

text \<open>The assessment entry by entry: the three passes at one index.\<close>

lemma assess_nth:
  assumes "assess contract state store fs = Inr rs"
  shows "length rs = length (lget contract ''criteria'')"
    and "i < length rs \<Longrightarrow> \<exists>results e e'. mapR (base_entry state store fs) (lget contract ''criteria'') = Inr results
       \<and> base_entry state store fs (lget contract ''criteria'' ! i) = Inr e
       \<and> semantic_entry contract state store results (lget contract ''criteria'' ! i, e) = Inr e'
       \<and> rs ! i = waive_entry (lget contract ''criteria'' ! i, e')"
proof -
  let ?cs = "lget contract ''criteria''"
  from assms obtain results js where b: "mapR (base_entry state store fs) ?cs = Inr results"
    and s: "mapR (semantic_entry contract state store results) (zip ?cs results) = Inr js"
    and r: "rs = map waive_entry (zip ?cs js)"
    unfolding assess_def Let_def bindR_eq_Inr by auto
  have l: "length results = length ?cs" "length js = length ?cs" using mapR_length [OF b] mapR_length [OF s] by simp_all
  then show "length rs = length ?cs" by (simp add: r)
  assume "i < length rs"
  with l r have i: "i < length ?cs" by simp
  with b have e: "base_entry state store fs (?cs ! i) = Inr (results ! i)"
    by (simp add: mapR_eq_Inr list_all2_conv_all_nth)
  from s i l have "semantic_entry contract state store results (?cs ! i, results ! i) = Inr (js ! i)"
    by (auto simp: mapR_eq_Inr list_all2_conv_all_nth)
  with b e i l r show "\<exists>results e e'. mapR (base_entry state store fs) ?cs = Inr results \<and> base_entry state store fs (?cs ! i) = Inr e
       \<and> semantic_entry contract state store results (?cs ! i, e) = Inr e' \<and> rs ! i = waive_entry (?cs ! i, e')"
    by auto
qed

lemma assess_entry:
  assumes "assess contract state store fs = Inr rs" and "i < length rs"
  shows "as_id (rs ! i) = sget (lget contract ''criteria'' ! i) ''id''"
    and "as_gating (rs ! i) = gating (lget contract ''criteria'' ! i)"
    and "kind_of (lget contract ''criteria'' ! i) = ''unbound'' \<Longrightarrow> passing (rs ! i) \<Longrightarrow> has_key (lget contract ''criteria'' ! i) ''waiver''"
proof -
  let ?c = "lget contract ''criteria'' ! i"
  from assess_nth(2) [OF assms] obtain results e e' where
    b: "base_entry state store fs ?c = Inr e" and s: "semantic_entry contract state store results (?c, e) = Inr e'"
    and w: "rs ! i = waive_entry (?c, e')" by blast
  show "as_id (rs ! i) = sget ?c ''id''" "as_gating (rs ! i) = gating ?c"
    by (simp_all add: w waive_entry_fields semantic_entry_Inr(1,2) [OF s] base_entry_Inr(1,2) [OF b])
  assume k: "kind_of ?c = ''unbound''" and p: "passing (rs ! i)"
  from k have "e' = e" by (intro semantic_entry_Inr(4) [OF s]) simp
  with base_entry_Inr(3) [OF b k] p show "has_key ?c ''waiver''"
    by (simp add: w passing_def waive_entry_fields PASSING_def split: if_splits)
qed

lemma assess_met:
  assumes "assess contract state store fs = Inr rs" and "contract_outcome rs = ''satisfied''"
  shows "list_all2 met (lget contract ''criteria'') rs"
proof -
  have "list_all passing (filter as_gating rs)"
    using assms(2) by (simp add: contract_outcome_def Let_def split: if_splits)
  then have p: "e \<in> set rs \<Longrightarrow> as_gating e \<Longrightarrow> passing e" for e by (auto simp: list_all_iff)
  have "met (lget contract ''criteria'' ! i) (rs ! i)" if "i < length rs" for i
    unfolding met_def using assess_entry [OF assms(1) that] p [OF nth_mem [OF that]] by metis
  then show ?thesis by (simp add: list_all2_conv_all_nth assess_nth(1) [OF assms(1)])
qed

lemma met_concern: "met c (e\<lparr>as_concern := None\<rparr>) = met c e"
  by (simp add: met_def passing_def)

text \<open>
  C12. An evaluation decides for the state it read: the legality of \<open>evaluate_contract\<close> says yes exactly
  when the contract it was given is the Task's current revision, its outcome is satisfied, no human
  decision is outstanding, the retained journal loads without violation or open effect and every
  waiver holds. A satisfied outcome already means that every gating criterion passed and that an
  unbound one was waived.
\<close>

theorem evaluate_contract_legal:
  "case evaluate_contract contract ref state store of
     Inl e \<Rightarrow> True
   | Inr (ev, legal, blockers) \<Rightarrow>
       legal \<longleftrightarrow> ts_contract_ref state = ref
         \<and> (\<exists>n. dget contract ''revision'' = JInt n \<and> ts_contract_revision state = Some n)
         \<and> ev_outcome ev = ''satisfied'' \<and> \<not> awaits_human state
         \<and> (\<exists>fs. load_journal state store = Inr fs \<and> journal_clean fs)
         \<and> list_all (waiver_ok state store) (lget contract ''criteria'')"
proof (cases "evaluate_contract contract ref state store")
  case (Inr x)
  obtain ev legal bs where x: "x = (ev, legal, bs)" by (metis prod_cases3)
  from Inr x obtain fs rs where fs: "load_journal state store = Inr fs" and rs: "assess contract state store fs = Inr rs"
    and ev: "ev_contract_ref ev = ref" "ev_contract_revision ev = jint (dget contract ''revision'')"
      "ev_evidence_digest ev = evidence_digest state" "ev_journal_head ev = ts_journal_head state"
      "ev_journal_length ev = ts_journal_length state" "ev_outcome ev = contract_outcome rs"
      "ev_criteria ev = map (\<lambda>e. e\<lparr>as_concern := None\<rparr>) rs"
    and l: "legality contract ref ev state store fs = Inr (legal, bs)"
    unfolding evaluate_contract_def Let_def bindR_eq_Inr by auto
  have met: "list_all2 met (lget contract ''criteria'') (ev_criteria ev)" if "ev_outcome ev = ''satisfied''"
    using assess_met [OF rs that [unfolded ev(6)]] by (simp add: ev(7) list_all2_map2 met_concern)
  have cur: "current contract ref ev state \<longleftrightarrow> ts_contract_ref state = ref
      \<and> (\<exists>n. dget contract ''revision'' = JInt n \<and> ts_contract_revision state = Some n)"
    unfolding current_def ev by (cases "dget contract ''revision''") auto
  have "legal = (\<exists>bs. legality contract ref ev state store fs = Inr (True, bs))" using l by simp
  also note legality_True
  finally show ?thesis unfolding Inr x sum.case prod.case cur using met fs by auto
qed simp

subsection \<open>Deterministic verdicts stand\<close>

lemma reviews_select:
  "ts_artifacts (state\<lparr>ts_semantic_reviews := rv\<rparr>) = ts_artifacts state"
  "ts_task_id (state\<lparr>ts_semantic_reviews := rv\<rparr>) = ts_task_id state"
  "ts_human_responses (state\<lparr>ts_semantic_reviews := rv\<rparr>) = ts_human_responses state"
  by simp_all

lemma verdict_reviews:
  "digest_verdict v (state\<lparr>ts_semantic_reviews := rv\<rparr>) store = digest_verdict v state store"
  "human_verdict v (state\<lparr>ts_semantic_reviews := rv\<rparr>) store = human_verdict v state store"
  "citation_verify v (state\<lparr>ts_semantic_reviews := rv\<rparr>) store adm = citation_verify v state store adm"
  "effect_verdict kind v (state\<lparr>ts_semantic_reviews := rv\<rparr>) f = effect_verdict kind v state f"
  unfolding digest_verdict_def human_verdict_def read_answer_def artifact_of_def citation_verify_def effect_verdict_def
    reviews_select by (rule refl)+

lemma base_entry_reviews: "base_entry (state\<lparr>ts_semantic_reviews := rv\<rparr>) store fs c = base_entry state store fs c"
  unfolding base_entry_def base_verdict_def verdict_reviews by (rule refl)

text \<open>
  Semantic review never reaches a deterministic verdict: whatever answers are retained, every
  entry of a criterion that is not itself a semantic review is the same.
\<close>

lemma semantic_never_overrides:
  "case (assess contract state store fs, assess contract (state\<lparr>ts_semantic_reviews := rv\<rparr>) store fs) of
     (Inr rs, Inr rs') \<Rightarrow> list_all (\<lambda>(c, e, e'). kind_of c = ''semantic_review'' \<or> e = e') (zip (lget contract ''criteria'') (zip rs rs'))
   | _ \<Rightarrow> True"
proof -
  let ?cs = "lget contract ''criteria''" and ?s' = "state\<lparr>ts_semantic_reviews := rv\<rparr>"
  have "rs ! i = rs' ! i"
    if a: "assess contract state store fs = Inr rs" and a': "assess contract ?s' store fs = Inr rs'"
      and i: "i < length ?cs" and k: "kind_of (?cs ! i) \<noteq> ''semantic_review''" for rs rs' i
  proof -
    from assess_nth [OF a] i obtain r e e1 where 1: "base_entry state store fs (?cs ! i) = Inr e"
      "semantic_entry contract state store r (?cs ! i, e) = Inr e1" "rs ! i = waive_entry (?cs ! i, e1)" by metis
    from assess_nth [OF a'] i obtain r' e' e1' where 2: "base_entry ?s' store fs (?cs ! i) = Inr e'"
      "semantic_entry contract ?s' store r' (?cs ! i, e') = Inr e1'" "rs' ! i = waive_entry (?cs ! i, e1')" by metis
    from 1(1) 2(1) have "e = e'" unfolding base_entry_reviews by simp
    with 1(3) 2(3) semantic_entry_Inr(4) [OF 1(2) k] semantic_entry_Inr(4) [OF 2(2) k] show ?thesis by simp
  qed
  then have same: "list_all (\<lambda>(c, e, e'). kind_of c = ''semantic_review'' \<or> e = e') (zip ?cs (zip rs rs'))"
    if "assess contract state store fs = Inr rs" "assess contract ?s' store fs = Inr rs'" for rs rs'
    unfolding list_all_length using that assess_nth(1) [OF that(1)] assess_nth(1) [OF that(2)] by fastforce
  show ?thesis
  proof (cases "assess contract state store fs")
    case (Inr rs)
    show ?thesis
      by (cases "assess contract ?s' store fs") (simp_all only: Inr prod.case sum.case same [OF Inr])
  qed (simp only: prod.case sum.case)
qed

end
