(* ===== verification/Amendments.thy ===== *)
theory Amendments
  imports Completion_Eval
begin

section \<open>Contract amendments\<close>

text \<open>
  runtime/kernel/completion.py, third part: an authenticated binding submits an untrusted change to
  the completion contract; \<open>apply_amendment\<close> checks the actor's authority for every operation and
  builds the next revision. The in-place updates of the criteria are functions on the list of
  criteria, each addressed by its id.
\<close>

definition AMENDMENT_OPS :: "(string \<times> string list \<times> string list) list" where
  "AMENDMENT_OPS =
    [(''add'', [''op'', ''criterion''], []), (''bind'', [''op'', ''id'', ''verifier''], [''binding_provenance'']),
     (''rebind'', [''op'', ''id'', ''verifier''], []), (''waive'', [''op'', ''id'', ''reason''], []),
     (''elevate'', [''op'', ''id''], []), (''supersede'', [''op'', ''id'', ''by''], [])]"

definition PROVISIONAL :: string where
  "PROVISIONAL = replicate 64 CHR ''0''"

subsection \<open>Submissions\<close>

definition validate_actor_context :: "json \<Rightarrow> json res" where
  "validate_actor_context v =
     bindR (py_fields v [''kind'', ''via'', ''binding''] []) (\<lambda>actor.
     seqR (check_actor actor ''Actor kind and channel do not form an amendment authority'')
     (seqR (py_identifier (dget actor ''binding'')) (Inr actor)))"

definition check_operation :: "json \<Rightarrow> unit res" where
  "check_operation operation =
     (if \<not> is_dict operation then Inl (ValueError ''Unknown amendment operation'')
      else bindR (in_strs (dget operation ''op'') (map fst AMENDMENT_OPS)) (\<lambda>known.
        case (if known then map_of AMENDMENT_OPS (sget operation ''op'') else None) of
          None \<Rightarrow> Inl (ValueError ''Unknown amendment operation'')
        | Some (needed, optional) \<Rightarrow>
            checks [voidR (py_fields operation needed optional),
              (if has_key operation ''id'' then voidR (py_identifier (dget operation ''id'')) else Inr ()),
              (if dget operation ''op'' = JStr ''waive'' then voidR (py_text (dget operation ''reason'') 512) else Inr ()),
              (if dget operation ''op'' = JStr ''supersede'' then voidR (py_identifier (dget operation ''by'')) else Inr ())]))"

definition check_exception :: "json \<Rightarrow> unit res" where
  "check_exception request =
     (if has_key request ''exception_for'' then
        bindR (py_fields (dget request ''exception_for'') [''rule'', ''digest''] []) (\<lambda>ex.
        checks [voidR (py_text (dget ex ''rule'') 256),
          raise_if (\<not> pinned_digest (dget ex ''digest'')) (ValueError ''Policy exception digest must be pinned'')])
      else Inr ())"

definition validate_amendment_request :: "json \<Rightarrow> string \<Rightarrow> json res" where
  "validate_amendment_request raw task_id =
     bindR (unpack raw ''CompletionContractAmendmentRequest'') (\<lambda>p.
     bindR (py_fields p [''task_id'', ''request_id'', ''from_revision'', ''operations'', ''reason''] [''exception_for'', ''response_ref'']) (\<lambda>request.
     seqR (checks
       [voidR (py_identifier (JStr task_id)),
        raise_if (dget request ''task_id'' \<noteq> JStr task_id) (ValueError ''Amendment does not belong to this Task''),
        voidR (py_identifier (dget request ''request_id'')),
        raise_if (\<not> is_int (dget request ''from_revision'') \<or> jint (dget request ''from_revision'') < 0) (ValueError ''Invalid from_revision''),
        voidR (py_text (dget request ''reason'') 512),
        opt_ref request ''response_ref'',
        check_exception request,
        raise_if (\<not> is_list (dget request ''operations'') \<or> \<not> (1 \<le> length (lget request ''operations'') \<and> length (lget request ''operations'') \<le> 8))
          (ValueError ''Expected 1..8 amendment operations''),
        forR check_operation (lget request ''operations'')])
     (Inr request)))"

definition validate_amendment_submission :: "json \<Rightarrow> string \<Rightarrow> (json \<times> json) res" where
  "validate_amendment_submission raw task_id =
     bindR (unpack raw ''CompletionContractAmendmentSubmission'') (\<lambda>p.
     bindR (py_fields p [''actor'', ''amendment''] []) (\<lambda>envelope.
     bindR (validate_actor_context (dget envelope ''actor'')) (\<lambda>actor.
     bindR (validate_amendment_request (dget envelope ''amendment'') task_id) (\<lambda>request.
     seqR (raise_if ((dget actor ''via'' = JStr ''human_response'') \<noteq> has_key request ''response_ref'')
             (ValueError ''A human_response amendment cites exactly its accepted response''))
     (seqR (raise_if ((dget actor ''via'' = JStr ''policy_exception'') \<noteq> has_key request ''exception_for'')
             (ValueError ''A policy exception names exactly the rule and digest it sets aside''))
     (Inr (actor, request)))))))"

definition submission :: "json \<Rightarrow> json \<Rightarrow> json" where
  "submission actor amendment =
     message ''CompletionContractAmendmentSubmission'' (JObj [(''actor'', actor), (''amendment'', amendment)])"

subsection \<open>Operations\<close>

definition add_gap :: "json \<Rightarrow> json \<Rightarrow> string option" where
  "add_gap criterion actor =
     (let source = source_of criterion; kind = sget actor ''kind'';
          allowed = (if kind = ''user'' then ''user'' else if kind = ''operator'' then ''operator_rule'' else ''project_policy'') in
      if source \<noteq> allowed then Some (''a '' @ kind @ '' actor cannot add '' @ source @ '' criteria mid-Task'')
      else if kind \<noteq> ''user'' \<and> dget actor ''via'' \<noteq> JStr ''policy_update'' then Some ''policy criteria are added only by a policy update''
      else None)"

definition deny :: "string option \<Rightarrow> unit res" where
  "deny gap = (case gap of None \<Rightarrow> Inr () | Some d \<Rightarrow> Inl (AmendmentDenied d))"

definition target :: "json list \<Rightarrow> json \<Rightarrow> json res" where
  "target criteria name =
     (case by_id criteria (jstr name) of None \<Rightarrow> Inl (ValueError (''Unknown criterion '' @ jstr name)) | Some c \<Rightarrow> Inr c)"

text \<open>The updated criterion takes the place of the one with its id.\<close>

definition put_criterion :: "json \<Rightarrow> json list \<Rightarrow> json list" where
  "put_criterion c criteria = map (\<lambda>x. if sget x ''id'' = sget c ''id'' then c else x) criteria"

definition op_add :: "string \<Rightarrow> json \<Rightarrow> json \<Rightarrow> json list \<Rightarrow> json \<Rightarrow> json list res" where
  "op_add task_id task_type actor criteria operation =
     bindR (validate_criterion (dget operation ''criterion'') task_id task_type) (\<lambda>c.
     seqR (raise_if (sget c ''id'' \<in> set (ids criteria) \<or> has_key c ''waiver'' \<or> has_key c ''superseded_by'')
             (ValueError ''Added criteria need a new id and no waiver or supersession''))
     (seqR (deny (add_gap c actor)) (Inr (criteria @ [c]))))"

definition bound_verifier :: "string \<Rightarrow> json \<Rightarrow> string \<Rightarrow> json res" where
  "bound_verifier task_id operation reason =
     bindR (validate_verifier (dget operation ''verifier'') task_id) (\<lambda>v.
     seqR (raise_if (dget v ''kind'' = JStr ''unbound'') (ValueError reason)) (Inr v))"

definition op_bind :: "string \<Rightarrow> json \<Rightarrow> json \<Rightarrow> json \<Rightarrow> json res" where
  "op_bind task_id actor c operation =
     seqR (raise_if (kind_of c \<noteq> ''unbound'' \<and> dget c ''level'' \<noteq> JStr ''ADVISORY'')
             (ValueError ''bind replaces an unbound or ADVISORY verifier; use rebind''))
     (bindR (bound_verifier task_id operation ''bind must supply a verifier'') (\<lambda>v.
      seqR (deny (authority_gap ''bind'' c actor))
      (Inr (let c' = dset c ''verifier'' v in
            if has_key operation ''binding_provenance'' then dset c' ''binding_provenance'' (dget operation ''binding_provenance'') else c'))))"

definition op_rebind :: "string \<Rightarrow> json \<Rightarrow> json \<Rightarrow> json \<Rightarrow> json res" where
  "op_rebind task_id actor c operation =
     seqR (raise_if (\<not> required c) (ValueError ''rebind changes a REQUIRED criterion; use bind for ADVISORY''))
     (bindR (bound_verifier task_id operation ''rebind must supply a verifier'') (\<lambda>v.
      seqR (deny (authority_gap ''rebind'' c actor)) (Inr (dset c ''verifier'' v))))"

definition op_waive :: "int \<Rightarrow> json \<Rightarrow> json \<Rightarrow> json \<Rightarrow> json res" where
  "op_waive revision actor c operation =
     seqR (raise_if (has_key c ''waiver'') (ValueError ''Criterion is already waived''))
     (seqR (deny (authority_gap ''waive'' c actor))
     (Inr (dset c ''waiver'' (JObj [(''revision'', JInt revision), (''actor'', actor), (''reason'', dget operation ''reason'')]))))"

definition op_elevate :: "json \<Rightarrow> json \<Rightarrow> json res" where
  "op_elevate actor c =
     seqR (raise_if (dget c ''level'' \<noteq> JStr ''ADVISORY'') (ValueError ''Only ADVISORY criteria can be elevated''))
     (if source_of c \<in> set DERIVED then
        seqR (raise_if (dget actor ''kind'' \<noteq> JStr ''user'') (AmendmentDenied ''Only the user may confirm a derived suggestion for this Task''))
        (Inr (dset (dset c ''provenance'' (JObj [(''source'', JStr ''user''), (''confirmed_from'', JStr (source_of c))])) ''level'' (JStr ''REQUIRED'')))
      else seqR (deny (authority_gap ''elevate'' c actor)) (Inr (dset c ''level'' (JStr ''REQUIRED''))))"

definition op_supersede :: "json \<Rightarrow> json list \<Rightarrow> json \<Rightarrow> json \<Rightarrow> json res" where
  "op_supersede actor criteria c operation =
     seqR (target criteria (dget operation ''by''))
     (seqR (raise_if (has_key c ''superseded_by'') (ValueError ''Criterion is already superseded''))
     (seqR (deny (authority_gap ''supersede'' c actor)) (Inr (dset c ''superseded_by'' (dget operation ''by'')))))"

text \<open>A validated request names one of the six operations.\<close>

definition op_on :: "string \<Rightarrow> int \<Rightarrow> json \<Rightarrow> json list \<Rightarrow> json \<Rightarrow> json \<Rightarrow> json res" where
  "op_on task_id revision actor criteria operation c =
     (let op = sget operation ''op'' in
      if op = ''bind'' then op_bind task_id actor c operation
      else if op = ''rebind'' then op_rebind task_id actor c operation
      else if op = ''waive'' then op_waive revision actor c operation
      else if op = ''elevate'' then op_elevate actor c
      else op_supersede actor criteria c operation)"

definition apply_operation :: "string \<Rightarrow> json \<Rightarrow> int \<Rightarrow> json \<Rightarrow> json list \<Rightarrow> json \<Rightarrow> json list res" where
  "apply_operation task_id task_type revision actor criteria operation =
     (if sget operation ''op'' = ''add'' then op_add task_id task_type actor criteria operation
      else bindR (target criteria (dget operation ''id'')) (\<lambda>c.
        bindR (op_on task_id revision actor criteria operation c) (\<lambda>c'. Inr (put_criterion c' criteria))))"

subsection \<open>The next revision\<close>

definition actor_record :: "json \<Rightarrow> json \<Rightarrow> string \<Rightarrow> task_state \<Rightarrow> json res" where
  "actor_record actor request action_ref state =
     bindR (validate_actor_context actor) (\<lambda>a.
     seqR (py_ref (JStr action_ref))
     (let rec = dset a ''ref'' (JStr action_ref) in
      bindR (if dget a ''via'' = JStr ''human_response'' then
               bindR (item request ''response_ref'') (\<lambda>r.
               if r \<notin> JStr ` set (map snd (ts_human_responses state))
               then Inl (AmendmentDenied ''The cited human response was not accepted for this Task'')
               else Inr (dset rec ''response_ref'' r))
             else Inr rec) (\<lambda>rec'.
      Inr (if has_key request ''exception_for'' then dset rec' ''exception_for'' (dget request ''exception_for'') else rec'))))"

definition revised :: "json \<Rightarrow> json list \<Rightarrow> string \<Rightarrow> json" where
  "revised contract criteria contract_ref =
     dset (dset (dset (dset contract ''criteria'' (JList criteria))
       ''revision'' (JInt (jint (dget contract ''revision'') + 1))) ''previous_ref'' (JStr contract_ref))
       ''amendment_ref'' (JStr (mk_ref (sget contract ''task_id'') PROVISIONAL))"

definition apply_amendment ::
  "json \<Rightarrow> string \<Rightarrow> json \<Rightarrow> json \<Rightarrow> string \<Rightarrow> task_state \<Rightarrow> bool \<Rightarrow> (json \<times> json) res" where
  "apply_amendment contract contract_ref actor request action_ref state is_mutating =
     (if \<not> py_eq (dget request ''from_revision'') (dget contract ''revision'') \<or> ts_contract_ref state \<noteq> Some contract_ref
      then Inl (AmendmentConflict ''Amendment is not against the current contract revision'')
      else let task_id = sget contract ''task_id''; revision = jint (dget contract ''revision'') + 1 in
        bindR (actor_record actor request action_ref state) (\<lambda>rec.
        bindR (foldR (apply_operation task_id (dget contract ''task_type'') revision rec) (lget contract ''criteria'') (lget request ''operations'')) (\<lambda>criteria.
        let updated = revised contract criteria contract_ref in
        seqR (validate_contract (message ''CompletionContract'' updated) task_id is_mutating)
        (Inr (JObj [(''task_id'', JStr task_id), (''request_id'', dget request ''request_id''), (''from_revision'', dget contract ''revision''),
                (''to_revision'', JInt revision), (''from_ref'', JStr contract_ref), (''operations'', dget request ''operations''),
                (''actor'', rec), (''provenance'', dget rec ''kind''), (''reason'', dget request ''reason'')], updated)))))"

definition seal :: "json \<Rightarrow> string \<Rightarrow> string \<Rightarrow> bool \<Rightarrow> json res" where
  "seal updated amendment_ref task_id is_mutating =
     seqR (py_ref (JStr amendment_ref))
     (validate_contract (message ''CompletionContract'' (dset updated ''amendment_ref'' (JStr amendment_ref))) task_id is_mutating)"

subsection \<open>What an amendment cannot do\<close>

text \<open>The criteria this actor has no authority over, whatever it asks for.\<close>

definition untouchable :: "json \<Rightarrow> json \<Rightarrow> bool" where
  "untouchable actor c \<longleftrightarrow>
     (let source = dget (dget c ''provenance'') ''source''; kind = dget actor ''kind'' in
      invariant c \<or> policy_source source \<and> kind = JStr ''user''
      \<or> source = JStr ''operator_rule'' \<and> kind = JStr ''project_policy''
      \<or> \<not> policy_source source \<and> kind \<noteq> JStr ''user'')"

definition amended :: "json \<Rightarrow> json \<Rightarrow> json \<Rightarrow> bool" where
  "amended actor c c' \<longleftrightarrow> sget c' ''id'' = sget c ''id'' \<and> dget c' ''requirement'' = dget c ''requirement''
     \<and> (has_key c ''waiver'' \<longrightarrow> dget c' ''waiver'' = dget c ''waiver'' \<and> has_key c' ''waiver'')
     \<and> (has_key c ''superseded_by'' \<longrightarrow> dget c' ''superseded_by'' = dget c ''superseded_by'' \<and> has_key c' ''superseded_by'')
     \<and> (untouchable actor c \<longrightarrow> c' = c)"

lemma gap_None: "authority_gap op c actor = None \<Longrightarrow> \<not> untouchable actor c"
  by (auto simp: untouchable_def authority_gap_def policy_source_def Let_def split: if_split_asm)

lemma deny_Inr: "deny gap = Inr u \<longleftrightarrow> gap = None"
  by (auto simp: deny_def split: option.splits)

lemma op_bind_amended: "op_bind t actor c operation = Inr c' \<Longrightarrow> amended actor c c' \<and> \<not> untouchable actor c"
  unfolding op_bind_def bindR_eq_Inr deny_Inr Let_def amended_def by (auto dest: gap_None)

lemma op_rebind_amended: "op_rebind t actor c operation = Inr c' \<Longrightarrow> amended actor c c' \<and> \<not> untouchable actor c"
  unfolding op_rebind_def bindR_eq_Inr deny_Inr amended_def by (auto dest: gap_None)

lemma op_waive_amended: "op_waive n actor c operation = Inr c' \<Longrightarrow> amended actor c c' \<and> \<not> untouchable actor c"
  unfolding op_waive_def bindR_eq_Inr deny_Inr raise_if_eq_Inr amended_def by (auto dest: gap_None)

lemma op_supersede_amended: "op_supersede actor cs c operation = Inr c' \<Longrightarrow> amended actor c c' \<and> \<not> untouchable actor c"
  unfolding op_supersede_def bindR_eq_Inr deny_Inr raise_if_eq_Inr amended_def by (auto dest: gap_None)

lemma derived_source: "source_of c \<in> set DERIVED \<Longrightarrow> \<not> invariant c \<and> \<not> policy_source (dget (dget c ''provenance'') ''source'')"
  by (auto simp: source_of_def DERIVED_def invariant_def policy_source_def)

lemma op_elevate_amended: "op_elevate actor c = Inr c' \<Longrightarrow> amended actor c c' \<and> \<not> untouchable actor c"
proof (cases "source_of c \<in> set DERIVED")
  case True
  assume "op_elevate actor c = Inr c'"
  with True have k: "dget actor ''kind'' = JStr ''user''" and c': "sget c' ''id'' = sget c ''id''"
    "dget c' ''requirement'' = dget c ''requirement''" "dget c' ''waiver'' = dget c ''waiver''"
    "dget c' ''superseded_by'' = dget c ''superseded_by''" "has_key c ''waiver'' \<Longrightarrow> has_key c' ''waiver''"
    "has_key c ''superseded_by'' \<Longrightarrow> has_key c' ''superseded_by''"
    by (auto simp: op_elevate_def bindR_eq_Inr)
  have "\<not> untouchable actor c"
    using derived_source [OF True] k by (auto simp: untouchable_def Let_def policy_source_def)
  with c' show ?thesis by (simp add: amended_def)
next
  case False
  then show "op_elevate actor c = Inr c' \<Longrightarrow> ?thesis"
    unfolding op_elevate_def bindR_eq_Inr deny_Inr amended_def
    by (auto simp: bindR_eq_Inr deny_Inr dest: gap_None)
qed

lemma op_on_amended: "op_on t n actor cs operation c = Inr c' \<Longrightarrow> amended actor c c' \<and> \<not> untouchable actor c"
  unfolding op_on_def Let_def
  using op_bind_amended op_rebind_amended op_waive_amended op_elevate_amended op_supersede_amended
  by (simp split: if_split_asm)

subsection \<open>Every operation keeps the criteria in place\<close>

definition extends :: "json \<Rightarrow> json list \<Rightarrow> json list \<Rightarrow> bool" where
  "extends actor old new \<longleftrightarrow> length old \<le> length new \<and> list_all2 (amended actor) old (take (length old) new)"

lemma amended_refl: "amended actor c c"
  by (simp add: amended_def)

lemma amended_trans:
  assumes "amended actor a b" and "amended actor b c"
  shows "amended actor a c"
  using assms unfolding amended_def by metis

lemma by_id_Some: "by_id cs n = Some c \<Longrightarrow> c \<in> set cs \<and> sget c ''id'' = n"
  by (auto simp: by_id_def find_Some_iff)

lemma put_criterion_nth:
  assumes "distinct (ids cs)" and "c \<in> set cs" and "amended actor c c'" and "i < length cs"
  shows "put_criterion c' cs ! i = (if cs ! i = c then c' else cs ! i)"
proof -
  obtain j where j: "j < length cs" "cs ! j = c" using assms(2) by (metis in_set_conv_nth)
  have "sget (cs ! i) ''id'' = sget c ''id'' \<longleftrightarrow> cs ! i = c"
    using assms(1,4) j by (auto simp: ids_def distinct_conv_nth)
  with assms(3,4) show ?thesis by (simp add: put_criterion_def amended_def)
qed

lemma apply_operation_keeps:
  assumes "apply_operation t tt n actor cs operation = Inr cs'" and "distinct (ids cs)"
  shows "distinct (ids cs')" and "extends actor cs cs'"
proof -
  have "distinct (ids cs') \<and> extends actor cs cs'"
  proof (cases "sget operation ''op'' = ''add''")
    case True
    with assms(1) obtain c where "cs' = cs @ [c]" "sget c ''id'' \<notin> set (ids cs)"
      unfolding apply_operation_def op_add_def bindR_eq_Inr by (auto simp: bindR_eq_Inr op_add_def)
    with assms(2) show ?thesis by (auto simp: ids_def extends_def amended_refl list_all2_same)
  next
    case False
    with assms(1) obtain c c' where t: "target cs (dget operation ''id'') = Inr c"
      and o: "op_on t n actor cs operation c = Inr c'" and cs': "cs' = put_criterion c' cs"
      unfolding apply_operation_def bindR_eq_Inr by (auto simp: bindR_eq_Inr)
    from t have "c \<in> set cs" by (auto simp: target_def dest: by_id_Some split: option.splits)
    from op_on_amended [OF o] have am: "amended actor c c'" ..
    note nth = put_criterion_nth [OF assms(2) \<open>c \<in> set cs\<close> am]
    have len: "length cs' = length cs" by (simp add: cs' put_criterion_def)
    have a: "amended actor (cs ! i) (cs' ! i)" if "i < length cs" for i
      using nth [OF that] am amended_refl by (simp add: cs')
    then have "ids cs' = ids cs" using len by (auto simp: ids_def amended_def intro: nth_equalityI)
    with a len assms(2) show ?thesis by (simp add: extends_def list_all2_conv_all_nth)
  qed
  then show "distinct (ids cs')" "extends actor cs cs'" by simp_all
qed

lemma extends_trans:
  assumes "extends actor a b" and "extends actor b c"
  shows "extends actor a c"
  using assms amended_trans unfolding extends_def list_all2_conv_all_nth by (auto simp: min_def)

lemma operations_keep:
  assumes "foldR (apply_operation t tt n actor) cs ops = Inr cs'" and "distinct (ids cs)"
  shows "extends actor cs cs'"
proof -
  have "distinct (ids cs') \<and> extends actor cs cs'"
    using assms(1)
  proof (rule foldR_invariant)
    show "distinct (ids cs) \<and> extends actor cs cs"
      using assms(2) by (simp add: extends_def list_all2_same amended_refl)
  next
    fix s x s'
    assume "distinct (ids s) \<and> extends actor cs s" "apply_operation t tt n actor s x = Inr s'"
    then show "distinct (ids s') \<and> extends actor cs s'"
      using apply_operation_keeps [of t tt n actor s x s'] extends_trans by blast
  qed
  then show ?thesis ..
qed

lemma ids_put_criterion: "ids (put_criterion c cs) = ids cs"
  by (simp add: ids_def put_criterion_def)

lemma apply_operation_ids:
  assumes "apply_operation t tt n actor cs operation = Inr cs'"
  shows "prefix (ids cs) (ids cs')"
proof (cases "sget operation ''op'' = ''add''")
  case True
  with assms obtain c where "cs' = cs @ [c]"
    unfolding apply_operation_def by (auto simp: bindR_eq_Inr op_add_def)
  then show ?thesis by (simp add: ids_def)
next
  case False
  with assms obtain c' where "cs' = put_criterion c' cs"
    unfolding apply_operation_def by (auto simp: bindR_eq_Inr)
  then show ?thesis by (simp add: ids_put_criterion)
qed

lemma operations_ids: "foldR (apply_operation t tt n actor) cs ops = Inr cs' \<Longrightarrow> prefix (ids cs) (ids cs')"
  by (erule foldR_invariant) (auto intro: apply_operation_ids prefix_order.trans)

lemma actor_record_kind:
  assumes "actor_record actor request aref state = Inr rec"
  shows "dget rec ''kind'' = dget actor ''kind''"
proof -
  have "validate_actor_context actor = Inr a \<Longrightarrow> a = actor" for a
    by (auto simp: validate_actor_context_def bindR_eq_Inr py_fields_exact)
  with assms show ?thesis
    unfolding actor_record_def Let_def bindR_eq_Inr by (auto simp: bindR_eq_Inr split: if_split_asm)
qed

lemma extends_actor: "dget actor ''kind'' = dget actor' ''kind'' \<Longrightarrow> extends actor old new = extends actor' old new"
proof -
  assume "dget actor ''kind'' = dget actor' ''kind''"
  then have "amended actor = amended actor'" by (intro ext) (simp add: amended_def untouchable_def)
  then show ?thesis by (simp add: extends_def)
qed

lemma dget_revised:
  "dget (revised contract cs r) ''criteria'' = JList cs" "dget (revised contract cs r) ''previous_ref'' = JStr r"
  "dget (revised contract cs r) ''revision'' = JInt (jint (dget contract ''revision'') + 1)"
  by (simp_all add: revised_def)

text \<open>
  C11. An amendment never silently weakens a contract: it applies only to the current revision; the
  result is a well-formed contract, one revision later and linked to its predecessor; every criterion
  keeps its place, id, requirement and any waiver or supersession it had; and the criteria its actor
  has no authority over are unchanged: task-type invariants for everyone, policy criteria for the
  user, operator rules for project policy, and all other criteria for anyone but the user.
\<close>

theorem apply_amendment_sound:
  "case apply_amendment contract contract_ref actor request action_ref state is_mutating of
     Inl e \<Rightarrow> True
   | Inr (amendment, updated) \<Rightarrow>
       ts_contract_ref state = Some contract_ref \<and> wf_contract (sget contract ''task_id'') is_mutating updated
       \<and> dget updated ''revision'' = JInt (jint (dget contract ''revision'') + 1)
       \<and> dget updated ''previous_ref'' = JStr contract_ref
       \<and> extends actor (lget contract ''criteria'') (lget updated ''criteria'')"
proof (cases "apply_amendment contract contract_ref actor request action_ref state is_mutating")
  case (Inr x)
  obtain amendment updated where x: "x = (amendment, updated)" by force
  let ?t = "sget contract ''task_id''" and ?cs = "lget contract ''criteria''"
  from Inr [unfolded x] have r: "ts_contract_ref state = Some contract_ref"
    by (auto simp: apply_amendment_def split: if_split_asm)
  from Inr [unfolded x] obtain rec criteria v where
    rec: "actor_record actor request action_ref state = Inr rec"
    and ops: "foldR (apply_operation ?t (dget contract ''task_type'') (jint (dget contract ''revision'') + 1) rec) ?cs
       (lget request ''operations'') = Inr criteria"
    and u: "updated = revised contract criteria contract_ref"
    and v: "validate_contract (message ''CompletionContract'' updated) ?t is_mutating = Inr v"
    unfolding apply_amendment_def Let_def by (auto simp: bindR_eq_Inr split: if_split_asm)
  from v have "v = updated"
    unfolding validate_contract_def bindR_eq_Inr by (auto simp: unpack_eq_Inr py_fields_eq_Inr message_def py_defs)
  with validate_contract_wf [OF v] have wf: "wf_contract ?t is_mutating updated" by simp
  then have "distinct (ids criteria)" by (simp add: wf_contract_def Let_def u dget_revised)
  with operations_ids [OF ops] have "distinct (ids ?cs)" by (auto simp: prefix_def)
  from operations_keep [OF ops this] have "extends actor ?cs criteria"
    using extends_actor [OF actor_record_kind [OF rec]] by simp
  with r wf show ?thesis unfolding Inr x sum.case prod.case by (simp add: u dget_revised)
qed simp

end
