(* ===== verification/Context_Plane.thy ===== *)
theory Context_Plane
  imports Amendments
begin

section \<open>The Context Plane\<close>

text \<open>
  runtime/kernel/context_plane.py and the packet contract of runtime/kernel/worker.py: local context is
  bound by the deployment, selected by an explicit need, compiled into one bounded worker packet, and
  checked again before a worker sees it.

  What the code reads from outside is an argument: \<open>binding\<close> is the deployment's current binding for a
  Task (\<open>None\<close> when there is none, \<open>Inl\<close> when it fails), \<open>root_ok\<close> says whether the workspace root is
  an absolute path without links that resolves to itself, \<open>source\<close> is the workspace tree seen by the
  no-follow descriptor walk, \<open>casefold\<close> is \<open>str.casefold\<close>. The memory provider is the read-only corpus the
  constructor admits.

  The walk from a node to the root has no bound of its own in the code; \<open>ascend\<close> is that loop, and
  \<open>lineage_terminates\<close> shows that it ends on every tree the validation admits.
\<close>

definition WORKER_BYTES :: nat where "WORKER_BYTES = 4096"
definition DELTA_BYTES :: nat where "DELTA_BYTES = 4096"
definition SOURCE_BYTES :: nat where "SOURCE_BYTES = 16384"
definition REQUEST_BYTES :: nat where "REQUEST_BYTES = 1024"

subsection \<open>Worker packets and information needs\<close>

definition check_context_item :: "json \<Rightarrow> unit res" where
  "check_context_item i =
     checks [voidR (py_fields i [''source'', ''content''] []), voidR (py_text (dget i ''source'') 256), voidR (py_text (dget i ''content'') 2048)]"

definition validate_packet :: "json \<Rightarrow> string \<Rightarrow> json res" where
  "validate_packet raw task_id =
     bindR (unpack raw ''WorkerInput'') (\<lambda>p.
     bindR (py_fields p [''task_id'', ''objective'', ''context''] []) (\<lambda>packet.
     seqR (checks
       [raise_if (dget packet ''task_id'' \<noteq> JStr task_id) (ValueError ''Worker packet Task mismatch''),
        voidR (py_text (dget packet ''objective'') 1024),
        raise_if (\<not> is_list (dget packet ''context'') \<or> 4 < length (lget packet ''context'')) (ValueError ''Worker context must be selected and bounded''),
        forR check_context_item (lget packet ''context''),
        raise_if (4096 < length (encode raw)) (ValueError ''Worker packet exceeds budget'')])
     (Inr packet)))"

text \<open>\<open>except (ValueError, TypeError, KeyError): raise ContextError (status)\<close>.\<close>

definition as_context :: "(exn \<Rightarrow> bool) \<Rightarrow> string \<Rightarrow> 'a res \<Rightarrow> 'a res" where
  "as_context caught status m = (case m of Inr x \<Rightarrow> Inr x | Inl e \<Rightarrow> if caught e then Inl (ContextError status) else Inl e)"

definition bad_value :: "exn \<Rightarrow> bool" where
  "bad_value e \<longleftrightarrow> is_value_error e \<or> is_type_error e \<or> is_key_error e"

definition form_is :: "json \<Rightarrow> string list \<Rightarrow> bool" where
  "form_is need forms \<longleftrightarrow> dget need ''form'' \<in> JStr ` set forms"

definition check_need :: "json \<Rightarrow> json \<Rightarrow> unit res" where
  "check_need raw need =
     checks
       [voidR (py_text (dget need ''question'') 256),
        raise_if (\<not> form_is need [''exact-source'', ''lexical-source'', ''current-evidence'', ''prior-context'']) (ValueError []),
        forR (\<lambda>k. if has_key need k then voidR (py_text (dget need k) 256) else Inr ()) [''locator'', ''exact'', ''base_ref''],
        raise_if (form_is need [''exact-source'', ''current-evidence''] \<and> \<not> has_key need ''locator'') (ValueError []),
        raise_if (form_is need [''lexical-source''] \<and> \<not> has_key need ''exact'') (ValueError []),
        raise_if (form_is need [''prior-context''] \<and> has_key need ''exact'') (ValueError []),
        raise_if (has_key need ''max_bytes'' \<and> (\<not> is_int (dget need ''max_bytes'') \<or>
            \<not> (256 \<le> jint (dget need ''max_bytes'') \<and> jint (dget need ''max_bytes'') \<le> int WORKER_BYTES))) (ValueError []),
        raise_if (REQUEST_BYTES < length (encode raw)) (ValueError [])]"

definition validate_need :: "json \<Rightarrow> json res" where
  "validate_need raw = as_context bad_value ''INVALID_CONTEXT''
     (bindR (unpack raw ''ContextRequest'') (\<lambda>p.
      bindR (py_fields p [''question'', ''form''] [''locator'', ''exact'', ''base_ref'', ''max_bytes'']) (\<lambda>need.
      seqR (check_need raw need) (Inr need))))"

subsection \<open>The tree of contexts\<close>

definition add_node :: "(string \<times> json) list \<Rightarrow> json \<Rightarrow> (string \<times> json) list res" where
  "add_node parents node =
     seqR (py_fields node [''id'', ''parent'', ''kind''] [])
     (seqR (py_text (dget node ''id'') 80)
     (seqR (py_text (dget node ''kind'') 80)
     (seqR (raise_if (in_dict (sget node ''id'') parents) (ValueError []))
     (Inr (parents @ [(sget node ''id'', dget node ''parent'')])))))"

text \<open>The loop that visits the ancestors of one node; a repeated or unknown node is an error.\<close>

function climb :: "(string \<times> json) list \<Rightarrow> string list \<Rightarrow> json \<Rightarrow> unit res" where
  "climb parents visited cur =
     (case cur of
        JNull \<Rightarrow> Inr ()
      | JStr s \<Rightarrow> (case map_of parents s of
            None \<Rightarrow> Inl (ValueError [])
          | Some p \<Rightarrow> if s \<in> set visited then Inl (ValueError []) else climb parents (s # visited) p)
      | _ \<Rightarrow> if hashable cur then Inl (ValueError []) else Inl (unhashable_error cur))"
  by pat_completeness auto
termination
proof (relation "measure (\<lambda>(ps, v, _). card (fst ` set ps - set v))")
  fix ps :: "(string \<times> json) list" and v cur s p
  assume "cur = JStr s" "map_of ps s = Some p" "s \<notin> set v"
  then have "s \<in> fst ` set ps - set v" by (force dest: map_of_SomeD)
  then have "card (fst ` set ps - set (s # v)) < card (fst ` set ps - set v)"
    by (intro psubset_card_mono) auto
  then show "((ps, s # v, p), ps, v, cur) \<in> measure (\<lambda>(ps, v, _). card (fst ` set ps - set v))" by simp
qed simp

declare climb.simps [simp del]

definition check_tree :: "(string \<times> json) list \<Rightarrow> unit res" where
  "check_tree parents =
     seqR (raise_if (parents = [] \<or> 128 < length parents \<or> length (filter (\<lambda>(_, p). p = JNull) parents) \<noteq> 1) (ValueError []))
     (forR (\<lambda>(s, _). climb parents [] (JStr s)) parents)"

text \<open>\<open>while current is not None: result.append (current); current = parents[current]\<close>.\<close>

partial_function (option) ascend :: "(string \<times> json) list \<Rightarrow> json \<Rightarrow> string list \<Rightarrow> string list res option" where
  "ascend parents cur result =
     (if cur = JNull then Some (Inr result)
      else if \<not> is_str cur then Some (Inl (if hashable cur then KeyError (dumps cur) else unhashable_error cur))
      else case map_of parents (jstr cur) of
        None \<Rightarrow> Some (Inl (KeyError (py_repr (jstr cur))))
      | Some p \<Rightarrow> ascend parents p (result @ [jstr cur]))"

text \<open>The same walk with its steps counted; \<open>length parents\<close> of them are enough after validation.\<close>

fun walk :: "nat \<Rightarrow> (string \<times> json) list \<Rightarrow> json \<Rightarrow> string list \<Rightarrow> string list res option" where
  "walk n parents cur result =
     (if cur = JNull then Some (Inr result)
      else if \<not> is_str cur then Some (Inl (if hashable cur then KeyError (dumps cur) else unhashable_error cur))
      else case map_of parents (jstr cur) of
        None \<Rightarrow> Some (Inl (KeyError (py_repr (jstr cur))))
      | Some p \<Rightarrow> (case n of 0 \<Rightarrow> None | Suc m \<Rightarrow> walk m parents p (result @ [jstr cur])))"

declare walk.simps [simp del]

definition lineage :: "json list \<Rightarrow> json \<Rightarrow> string list res" where
  "lineage nodes start =
     bindR (foldR add_node [] nodes) (\<lambda>parents.
     seqR (check_tree parents)
     (case walk (length parents) parents start [] of None \<Rightarrow> Inl (ValueError ''unreachable'') | Some r \<Rightarrow> r))"

inductive path_to_root :: "(string \<times> json) list \<Rightarrow> json \<Rightarrow> string list \<Rightarrow> bool" for parents where
  root: "path_to_root parents JNull []"
| step: "map_of parents s = Some p \<Longrightarrow> path_to_root parents p path \<Longrightarrow> path_to_root parents (JStr s) (s # path)"

lemma climb_path:
  "climb parents visited cur = Inr () \<Longrightarrow> \<exists>path. path_to_root parents cur path \<and> distinct path \<and> set path \<inter> set visited = {}"
proof (induction parents visited cur rule: climb.induct)
  case (1 parents visited cur)
  show ?case
  proof (cases cur)
    case JNull
    then show ?thesis by (auto intro: path_to_root.root)
  next
    case (JStr s)
    with 1(2) obtain p where p: "map_of parents s = Some p" "s \<notin> set visited" "climb parents (s # visited) p = Inr ()"
      by (subst (asm) climb.simps) (auto split: option.splits if_splits)
    from 1(1) [OF JStr p] obtain path where
      path: "path_to_root parents p path" "distinct path" "set path \<inter> set (s # visited) = {}" by blast
    from path_to_root.step [OF p(1) path(1)] have "path_to_root parents cur (s # path)" by (simp add: JStr)
    moreover have "distinct (s # path)" "set (s # path) \<inter> set visited = {}" using path p(2) by auto
    ultimately show ?thesis by blast
  qed (use 1(2) in \<open>subst (asm) climb.simps; simp split: if_splits\<close>)+
qed

lemma ascend_path: "path_to_root parents cur path \<Longrightarrow> ascend parents cur result = Some (Inr (result @ path))"
proof (induction arbitrary: result rule: path_to_root.induct)
  case root
  then show ?case by (subst ascend.simps) simp
next
  case (step s p path)
  then show ?case by (subst ascend.simps) simp
qed

lemma walk_path:
  "path_to_root parents cur path \<Longrightarrow> length path \<le> n \<Longrightarrow> walk n parents cur result = Some (Inr (result @ path))"
proof (induction arbitrary: result n rule: path_to_root.induct)
  case root
  then show ?case by (subst walk.simps) simp
next
  case (step s p path)
  from step.prems obtain m where "n = Suc m" "length path \<le> m" by (cases n) auto
  with step.IH step.hyps(1) show ?case by (subst walk.simps) simp
qed

lemma path_in_tree: "path_to_root parents cur path \<Longrightarrow> set path \<subseteq> fst ` set parents"
  by (induction rule: path_to_root.induct) (force dest: map_of_SomeD)+

lemma length_path:
  assumes "path_to_root parents cur path" and "distinct path"
  shows "length path \<le> length parents"
proof -
  have "length path = card (set path)" using assms(2) by (simp add: distinct_card)
  also have "\<dots> \<le> card (fst ` set parents)" using path_in_tree [OF assms(1)] by (intro card_mono) auto
  also have "\<dots> \<le> length parents" by (metis card_image_le card_length finite_set le_trans)
  finally show ?thesis .
qed

lemma check_tree_path:
  assumes "check_tree parents = Inr ()" and "map_of parents s = Some p"
  obtains path where "path_to_root parents (JStr s) path" and "distinct path" and "length path \<le> length parents"
proof -
  from assms(2) have "(s, p) \<in> set parents" by (rule map_of_SomeD)
  with assms(1) have "climb parents [] (JStr s) = Inr ()" by (auto simp: check_tree_def bindR_eq_Inr forR_eq_Inr)
  from climb_path [OF this] length_path that show thesis by blast
qed

text \<open>
  C37. The unbounded walk of \<open>lineage\<close> terminates: on every tree its validation admits, the loop returns
  from every start, with the same result as the counted walk; where it returns a lineage, that is the
  chain of distinct nodes from the start to the root.
\<close>

theorem lineage_terminates:
  "case check_tree parents of
     Inl e \<Rightarrow> True
   | Inr _ \<Rightarrow> (case ascend parents start [] of
        None \<Rightarrow> False
      | Some r \<Rightarrow> walk (length parents) parents start [] = Some r
          \<and> (case r of Inl e \<Rightarrow> True | Inr path \<Rightarrow> path_to_root parents start path \<and> distinct path))"
proof (cases "check_tree parents")
  case (Inr u)
  then have ok: "check_tree parents = Inr ()" by simp
  consider "start = JNull" | "start \<noteq> JNull" "\<not> is_str start"
    | s where "start = JStr s" "map_of parents s = None" | s p where "start = JStr s" "map_of parents s = Some p"
    by (cases start) (auto simp: is_str_iff)
  then have "\<exists>r. ascend parents start [] = Some r \<and> walk (length parents) parents start [] = Some r
     \<and> (case r of Inl e \<Rightarrow> True | Inr path \<Rightarrow> path_to_root parents start path \<and> distinct path)"
  proof cases
    case 1
    then show ?thesis by (simp add: ascend.simps [of parents JNull] walk.simps [of _ parents JNull] path_to_root.root)
  next
    case 2
    then show ?thesis by (simp add: ascend.simps [of parents start] walk.simps [of _ parents start])
  next
    case (3 s)
    then show ?thesis by (simp add: ascend.simps [of parents "JStr s"] walk.simps [of _ parents "JStr s"])
  next
    case (4 s p)
    from check_tree_path [OF ok 4(2)] obtain path where
      path: "path_to_root parents (JStr s) path" "distinct path" "length path \<le> length parents" .
    with ascend_path [OF path(1), of "[]"] walk_path [OF path(1,3), of "[]"] show ?thesis by (simp add: 4)
  qed
  with ok show ?thesis by auto
qed simp

subsection \<open>The bound context\<close>

record bound_context =
  bc_snapshot :: json
  bc_fingerprint :: string
  bc_readable :: "string list"

definition eligible :: "bound_context \<Rightarrow> json \<Rightarrow> json \<Rightarrow> bool" where
  "eligible bound owner domain \<longleftrightarrow> owner \<in> JStr ` set (bc_readable bound)
     \<and> py_mem domain (lget (bc_snapshot bound) ''security_domains'') \<and> py_mem domain (lget (bc_snapshot bound) ''policy_domains'')"

datatype source_node = Missing | NotRegular | SourceFile string

record plane =
  pl_binding :: "string \<Rightarrow> json option res"
  pl_principal :: string
  pl_root_ok :: "string \<Rightarrow> bool"
  pl_source :: "string \<Rightarrow> string list \<Rightarrow> source_node"
  pl_casefold :: "string \<Rightarrow> string"
  pl_memory :: "(string \<times> json) list option"

definition safe_path :: "json \<Rightarrow> string list res" where
  "safe_path path =
     (if \<not> is_str path then Inl (TypeError ''argument should be a str or an os.PathLike object'')
      else let p = jstr path; parts = path_parts p in
        if is_absolute p \<or> parts = [] \<or> ''..'' \<in> set parts \<or> join_with ''/'' parts \<noteq> p then Inl (ValueError []) else Inr parts)"

definition check_text_list :: "json \<Rightarrow> string \<Rightarrow> unit res" where
  "check_text_list snapshot key =
     (let values = dget snapshot key in
      seqR (raise_if (\<not> is_list values \<or> 128 < length (jlist values)) (ValueError []))
      (seqR (py_hashable_all (jlist values))
      (seqR (raise_if (\<not> py_distinct (jlist values)) (ValueError []))
      (forR (\<lambda>v. py_text v 256) (jlist values)))))"

definition MEMORY_KINDS :: "(string \<times> string) list" where
  "MEMORY_KINDS = [(''USER_DECLARATION'', ''DECLARED''), (''AGENT_OBSERVATION'', ''UNVERIFIED'')]"

definition add_memory_entry :: "string list \<Rightarrow> string list \<Rightarrow> json \<Rightarrow> string list res" where
  "add_memory_entry node_ids seen entry =
     seqR (py_fields entry [''id'', ''context'', ''domain'', ''origin'', ''status'', ''revision'', ''sha256''] [])
     (seqR (forR (\<lambda>(_, v). py_text v 128) (jitems entry))
     (seqR (raise_if (sget entry ''id'' \<in> set seen \<or> sget entry ''context'' \<notin> set node_ids) (ValueError []))
     (seqR (raise_if ((sget entry ''origin'', sget entry ''status'') \<notin> set MEMORY_KINDS) (ValueError []))
     (seqR (raise_if (\<not> is_hex64 (sget entry ''sha256'')) (ValueError []))
     (Inr (sget entry ''id'' # seen))))))"

definition node_ids :: "json \<Rightarrow> string list" where
  "node_ids snapshot = map (\<lambda>n. sget n ''id'') (lget snapshot ''nodes'')"

definition check_scope :: "plane \<Rightarrow> json \<Rightarrow> unit res" where
  "check_scope pl snapshot =
     checks
       [forR (check_text_list snapshot) [''security_domains'', ''policy_domains'', ''readable_contexts'', ''workspace_paths'', ''evidence_refs''],
        raise_if (\<not> list_all (\<lambda>c. jstr c \<in> set (node_ids snapshot)) (lget snapshot ''readable_contexts'')) (ValueError []),
        raise_if (\<not> is_str (dget snapshot ''workspace_root'')) (TypeError ''argument should be a str or an os.PathLike object''),
        raise_if (\<not> pl_root_ok pl (sget snapshot ''workspace_root'')) (ValueError []),
        forR safe_path (lget snapshot ''workspace_paths''),
        raise_if (32 < length (lget snapshot ''workspace_paths'')) (ValueError []),
        bindR (py_iter (dget snapshot ''memory_entries'')) (\<lambda>es.
          seqR (raise_if (32 < length es) (ValueError [])) (voidR (foldR (add_memory_entry (node_ids snapshot)) [] es))),
        voidR (validate_need (dget snapshot ''initial_need'')),
        (if dget snapshot ''memory_query'' \<noteq> JNull then voidR (py_text (dget snapshot ''memory_query'') 256) else Inr ())]"

text \<open>\<open>route\<close> is the state's routing binding, \<open>'local'\<close> unless the Task escalated.\<close>

definition bind_snapshot :: "plane \<Rightarrow> task_state \<Rightarrow> string \<Rightarrow> json \<Rightarrow> json \<Rightarrow> bound_context res" where
  "bind_snapshot pl state route spec raw =
     bindR (unpack raw ''LocalContextBinding'') (\<lambda>p.
     bindR (py_fields p [''task_id'', ''spec_ref'', ''principal'', ''route'', ''revision'', ''nodes'', ''context'', ''security_domains'',
              ''policy_domains'', ''readable_contexts'', ''workspace_root'', ''workspace_paths'', ''evidence_refs'', ''memory_entries'',
              ''initial_need'', ''memory_query''] []) (\<lambda>snapshot.
     seqR (raise_if (dget snapshot ''task_id'' \<noteq> JStr (ts_task_id state) \<or> dget snapshot ''spec_ref'' \<noteq> JStr (ts_spec_ref state)
              \<or> dget snapshot ''principal'' \<noteq> JStr (pl_principal pl) \<or> dget snapshot ''route'' \<noteq> JStr ''hosted-local''
              \<or> ts_parent state \<noteq> None \<or> ts_initial_action state \<noteq> None \<or> route \<noteq> ''local'') (ValueError []))
     (seqR (py_text (dget snapshot ''revision'') 80)
     (bindR (py_iter (dget snapshot ''nodes'')) (\<lambda>nodes.
      bindR (lineage nodes (dget snapshot ''context'')) (\<lambda>ancestry.
      seqR (check_scope pl snapshot)
      (seqR (raise_if (dget snapshot ''spec_ref'' \<noteq> JStr (mk_ref (ts_task_id state) (sha256_hex (encode (message ''TaskSpec'' spec))))) (ValueError []))
      (Inr \<lparr>bc_snapshot = snapshot, bc_fingerprint = sha256_hex (encode raw),
            bc_readable = filter (\<lambda>n. JStr n \<in> set (lget snapshot ''readable_contexts'')) ancestry\<rparr>))))))))"

definition resolve_binding :: "plane \<Rightarrow> task_state \<Rightarrow> string \<Rightarrow> json \<Rightarrow> bound_context res" where
  "resolve_binding pl state route spec =
     (case pl_binding pl (ts_task_id state) of
        Inl e \<Rightarrow> Inl (ContextError ''UNAVAILABLE'')
      | Inr None \<Rightarrow> Inl (ContextError ''DENIED'')
      | Inr (Some raw) \<Rightarrow> as_context (\<lambda>e. bad_value e \<or> is_os_error e) ''INVALID_CONTEXT'' (bind_snapshot pl state route spec raw))"

subsection \<open>Sources and memory\<close>

fun is_context_error :: "exn \<Rightarrow> bool" where
  "is_context_error (ContextError s) = True"
| "is_context_error e = False"

definition source_read :: "plane \<Rightarrow> bound_context \<Rightarrow> json \<Rightarrow> string res" where
  "source_read pl bound path =
     (if \<not> py_mem path (lget (bc_snapshot bound) ''workspace_paths'') then Inl (ContextError ''DENIED'')
      else as_context (\<lambda>e. (is_os_error e \<or> is_value_error e) \<and> \<not> is_context_error e) ''UNAVAILABLE''
        (bindR (safe_path path) (\<lambda>parts.
         case pl_source pl (sget (bc_snapshot bound) ''workspace_root'') parts of
           Missing \<Rightarrow> Inl (OSError ''No such file or directory'')
         | NotRegular \<Rightarrow> Inl (ContextError ''UNAVAILABLE'')
         | SourceFile bytes \<Rightarrow>
             let data = take (SOURCE_BYTES + 1) bytes in
             if SOURCE_BYTES < length data then Inl (ContextError ''INSUFFICIENT_CONTEXT'') else decode_utf8 data)))"

definition corpus_read :: "(string \<times> json) list \<Rightarrow> string list \<Rightarrow> json list" where
  "corpus_read records wanted =
     map (\<lambda>k. JObj [(''id'', JStr k), (''content'', the (map_of records k))]) (filter (\<lambda>k. in_dict k records) wanted)"

definition memory_candidate :: "json \<Rightarrow> json \<Rightarrow> json" where
  "memory_candidate entry content = JObj
     [(''source'', JStr (''memory:'' @ sget entry ''id'')), (''content'', content), (''revision'', dget entry ''revision''),
      (''sha256'', dget entry ''sha256''), (''kind'', JStr ''memory''), (''origin'', dget entry ''origin''), (''status'', dget entry ''status''),
      (''uncertainty'', JStr ''Historical context; not completion evidence or authority.'')]"

definition memory_row :: "plane \<Rightarrow> (string \<times> json) list \<Rightarrow> string option \<Rightarrow> json \<Rightarrow> json option res" where
  "memory_row pl entries query row =
     (case map_of entries (sget row ''id'') of
        None \<Rightarrow> Inl (KeyError (sget row ''id''))
      | Some entry \<Rightarrow>
          seqR (py_text (dget row ''content'') SOURCE_BYTES)
          (seqR (raise_if (dget entry ''sha256'' \<noteq> JStr (sha256_hex (sget row ''content''))) (ValueError []))
          (Inr (case query of
             Some q \<Rightarrow> if py_contains (pl_casefold pl q) (pl_casefold pl (sget row ''content'')) then Some (memory_candidate entry (dget row ''content'')) else None
           | None \<Rightarrow> Some (memory_candidate entry (dget row ''content''))))))"

definition memory_read :: "plane \<Rightarrow> bound_context \<Rightarrow> string option \<Rightarrow> json option \<Rightarrow> json list \<times> string" where
  "memory_read pl bound query locator =
     (let all = map (\<lambda>e. (sget e ''id'', e)) (filter (\<lambda>e. eligible bound (dget e ''context'') (dget e ''domain'')) (lget (bc_snapshot bound) ''memory_entries''));
          entries = (case locator of None \<Rightarrow> all | Some l \<Rightarrow> filter (\<lambda>(i, _). JStr i = l) all) in
      if locator \<noteq> None \<and> entries = [] then ([], ''DENIED'')
      else case pl_memory pl of
        None \<Rightarrow> ([], ''UNAVAILABLE'')
      | Some records \<Rightarrow>
          let rows = corpus_read records (sort (map fst entries)) in
          if length rows \<noteq> length entries then ([], ''UNAVAILABLE'')
          else case mapR (memory_row pl entries query) rows of
            Inl e \<Rightarrow> ([], ''UNAVAILABLE'')
          | Inr found \<Rightarrow> let cs = List.map_filter id found in (cs, if cs \<noteq> [] then ''SUCCESS'' else ''EMPTY''))"

subsection \<open>Resolution\<close>

record resolved =
  rs_candidates :: "json list"
  rs_required :: nat
  rs_status :: string
  rs_memory_status :: string

definition source_candidate :: "json \<Rightarrow> string \<Rightarrow> json" where
  "source_candidate path content = JObj
     [(''source'', path), (''content'', JStr content), (''kind'', JStr ''source''), (''sha256'', JStr (sha256_hex content)),
      (''revision'', JStr (sha256_hex content)), (''extent'', JStr ''whole-file''),
      (''uncertainty'', JStr ''Exact source bytes; runtime behavior unverified.'')]"

definition read_candidate :: "plane \<Rightarrow> bound_context \<Rightarrow> json \<Rightarrow> json \<Rightarrow> json option res" where
  "read_candidate pl bound need path =
     bindR (source_read pl bound path) (\<lambda>content.
     if form_is need [''lexical-source''] \<and> \<not> py_contains (sget need ''exact'') content then Inr None
     else if has_key need ''exact'' \<and> \<not> py_contains (sget need ''exact'') content then Inl (ContextError ''INSUFFICIENT_CONTEXT'')
     else Inr (Some (source_candidate path content)))"

definition evidence_allowed :: "bound_context \<Rightarrow> task_state \<Rightarrow> json \<Rightarrow> bool" where
  "evidence_allowed bound state ref \<longleftrightarrow> py_mem ref (lget (bc_snapshot bound) ''evidence_refs'') \<and> ref \<in> JStr ` set (map snd (ts_artifacts state))"

definition evidence_candidate :: "artifact_store \<Rightarrow> bound_context \<Rightarrow> task_state \<Rightarrow> json \<Rightarrow> json res" where
  "evidence_candidate store bound state need =
     (let ref = dget need ''locator'' in
      if \<not> evidence_allowed bound state ref then Inl (ContextError ''DENIED'')
      else as_context (\<lambda>e. (is_os_error e \<or> is_value_error e) \<and> \<not> is_context_error e) ''UNAVAILABLE''
        (bindR (read store (ts_task_id state) ref) (\<lambda>data.
         if SOURCE_BYTES < length data then Inl (ContextError ''INSUFFICIENT_CONTEXT'')
         else bindR (decode_utf8 data) (\<lambda>content.
           if has_key need ''exact'' \<and> \<not> py_contains (sget need ''exact'') content then Inl (ContextError ''INSUFFICIENT_CONTEXT'')
           else Inr (JObj [(''source'', ref), (''content'', JStr content), (''kind'', JStr ''evidence''), (''revision'', JStr (sha256_hex data)),
                  (''sha256'', JStr (sha256_hex data)), (''extent'', JStr ''whole-artifact''),
                  (''uncertainty'', JStr ''Exact artifact bytes; Task completion requires independent evaluation.'')])))))"

definition needed_candidates :: "plane \<Rightarrow> artifact_store \<Rightarrow> bound_context \<Rightarrow> task_state \<Rightarrow> json \<Rightarrow> json list res" where
  "needed_candidates pl store bound state need =
     (if form_is need [''exact-source'', ''lexical-source''] then
        bindR (mapR (read_candidate pl bound need)
          (if has_key need ''locator'' then [dget need ''locator'']
           else map JStr (sort (map jstr (lget (bc_snapshot bound) ''workspace_paths''))))) (\<lambda>cs. Inr (List.map_filter id cs))
      else if form_is need [''current-evidence''] then bindR (evidence_candidate store bound state need) (\<lambda>c. Inr [c])
      else case (if has_key need ''locator'' then memory_read pl bound None (Some (dget need ''locator''))
                 else memory_read pl bound (Some (sget need ''question'')) None) of
        (cs, status) \<Rightarrow> if status \<noteq> ''SUCCESS'' \<and> status \<noteq> ''EMPTY'' then Inl (ContextError status) else Inr cs)"

definition resolve_need :: "plane \<Rightarrow> artifact_store \<Rightarrow> bound_context \<Rightarrow> task_state \<Rightarrow> json \<Rightarrow> bool \<Rightarrow> resolved res" where
  "resolve_need pl store bound state need include_memory =
     bindR (needed_candidates pl store bound state need) (\<lambda>cs.
     let query = dget (bc_snapshot bound) ''memory_query'';
         (optional, memory_status) = (if include_memory \<and> query \<noteq> JNull then memory_read pl bound (Some (jstr query)) None else ([], ''NOT_REQUESTED'')) in
     Inr \<lparr>rs_candidates = cs @ optional, rs_required = length cs, rs_status = (if cs \<noteq> [] then ''SUCCESS'' else ''EMPTY''),
          rs_memory_status = memory_status\<rparr>)"

definition remove_prefix :: "string \<Rightarrow> string \<Rightarrow> string" where
  "remove_prefix p s = (if prefix p s then drop (length p) s else s)"

definition revalidate :: "plane \<Rightarrow> artifact_store \<Rightarrow> bound_context \<Rightarrow> task_state \<Rightarrow> json \<Rightarrow> bool res" where
  "revalidate pl store bound state candidate =
     (if dget candidate ''kind'' = JStr ''source'' then
        bindR (source_read pl bound (dget candidate ''source'')) (\<lambda>content. Inr (dget candidate ''sha256'' = JStr (sha256_hex content)))
      else if dget candidate ''kind'' = JStr ''evidence'' then
        (if \<not> evidence_allowed bound state (dget candidate ''source'') then Inr False
         else as_context (\<lambda>e. is_os_error e \<or> is_value_error e) ''UNAVAILABLE''
           (bindR (read store (ts_task_id state) (dget candidate ''source'')) (\<lambda>data. Inr (dget candidate ''sha256'' = JStr (sha256_hex data)))))
      else case memory_read pl bound None (Some (JStr (remove_prefix ''memory:'' (sget candidate ''source'')))) of
        (rows, status) \<Rightarrow> Inr (status = ''SUCCESS'' \<and> py_eq_list rows [candidate]))"

subsection \<open>Compilation\<close>

record budget =
  bu_limit :: nat
  bu_output :: nat
  bu_considered :: nat
  bu_considered_bytes :: nat
  bu_selected :: nat
  bu_selected_bytes :: nat
  bu_partial :: bool

definition budget_json :: "budget \<Rightarrow> json" where
  "budget_json b = JObj [(''limit_bytes'', JInt (int (bu_limit b))), (''output_bytes'', JInt (int (bu_output b))),
     (''considered'', JInt (int (bu_considered b))), (''considered_bytes'', JInt (int (bu_considered_bytes b))),
     (''selected'', JInt (int (bu_selected b))), (''selected_bytes'', JInt (int (bu_selected_bytes b))),
     (''partial'', JBool (bu_partial b)), (''truncated'', JBool False)]"

record compilation =
  co_state :: task_state
  co_spec :: json
  co_contract :: json
  co_need :: json
  co_mode :: string
  co_operation :: string
  co_resolved :: resolved

definition total_bytes :: "json list \<Rightarrow> nat" where
  "total_bytes cs = sum_list (map (\<lambda>c. length (encode c)) cs)"

definition requirements :: "compilation \<Rightarrow> budget \<Rightarrow> json" where
  "requirements co b = JObj
     [(''contract_ref'', jopt JStr (ts_contract_ref (co_state co))),
      (''completion'', JObj [(''revision'', dget (co_contract co) ''revision''), (''criteria'', dget (co_contract co) ''criteria'')]),
      (''projection'', JObj
        [(''version'', JInt 1), (''mode'', JStr (co_mode co)), (''operation'', JStr (co_operation co)), (''need'', dget (co_need co) ''question''),
         (''memory'', JStr (rs_memory_status (co_resolved co))), (''budget'', budget_json b),
         (''constraints'', JObj [(''capabilities'', dget (co_spec co) ''capabilities''), (''autonomy'', dget (co_spec co) ''autonomy'')]),
         (''authority'', JStr ''Projection only; requirements and exact evidence govern.'')])]"

definition packet_item :: "json \<Rightarrow> json" where
  "packet_item c = JObj [(''source'', dget c ''source''), (''content'', JStr (encode (JObj (filter (\<lambda>(k, _). k \<noteq> ''source'') (jitems c)))))]"

definition worker_packet :: "compilation \<Rightarrow> json list \<Rightarrow> budget \<Rightarrow> json" where
  "worker_packet co chosen b = message ''WorkerInput'' (JObj
     [(''task_id'', JStr (ts_task_id (co_state co))), (''objective'', dget (co_spec co) ''objective''),
      (''context'', JList (JObj [(''source'', JStr ''task:accepted-requirements''), (''content'', JStr (encode (requirements co b)))]
         # map packet_item chosen))])"

text \<open>\<open>output_bytes\<close> counts its own digits; the code settles it in at most eight rounds.\<close>

fun settle_size :: "nat \<Rightarrow> (nat \<Rightarrow> json) \<Rightarrow> nat \<Rightarrow> nat" where
  "settle_size 0 f bytes = bytes"
| "settle_size (Suc k) f bytes = (let n = length (encode (f bytes)) in if n = bytes then bytes else settle_size k f n)"

definition render :: "compilation \<Rightarrow> budget \<Rightarrow> json list \<Rightarrow> json res \<times> budget" where
  "render co b chosen =
     (let b' = b\<lparr>bu_selected := length chosen, bu_selected_bytes := total_bytes chosen,
                bu_partial := length chosen < bu_considered b \<or> rs_memory_status (co_resolved co) = ''UNAVAILABLE''\<rparr>;
          bytes = settle_size 8 (\<lambda>n. worker_packet co chosen (b'\<lparr>bu_output := n\<rparr>)) (bu_output b);
          b'' = b'\<lparr>bu_output := bytes\<rparr>; packet = worker_packet co chosen b'' in
      (seqR (validate_packet packet (ts_task_id (co_state co)))
       (seqR (raise_if (bu_limit b < length (encode packet)) (ValueError [])) (Inr packet)), b''))"

fun add_optional :: "compilation \<Rightarrow> budget \<Rightarrow> json list \<Rightarrow> json list \<Rightarrow> (json list \<times> budget) res" where
  "add_optional co b chosen [] = Inr (chosen, b)"
| "add_optional co b chosen (c # cs) =
     (case render co b (chosen @ [c]) of
        (Inr packet, b') \<Rightarrow> add_optional co b' (chosen @ [c]) cs
      | (Inl e, b') \<Rightarrow> if is_value_error e then add_optional co b' chosen cs else Inl e)"

definition start_budget :: "json \<Rightarrow> json list \<Rightarrow> budget" where
  "start_budget need cs =
     \<lparr>bu_limit = min WORKER_BYTES (if has_key need ''max_bytes'' then nat (jint (dget need ''max_bytes'')) else WORKER_BYTES),
      bu_output = 0, bu_considered = length cs, bu_considered_bytes = total_bytes cs, bu_selected = 0, bu_selected_bytes = 0, bu_partial = False\<rparr>"

definition fill_packet :: "compilation \<Rightarrow> budget \<Rightarrow> json list \<Rightarrow> json list \<Rightarrow> (json \<times> json list \<times> budget) res" where
  "fill_packet co b needed optional =
     (case render co b needed of
        (Inl e, _) \<Rightarrow> if is_value_error e then Inl (ContextError ''INSUFFICIENT_CONTEXT'') else Inl e
      | (Inr _, b1) \<Rightarrow>
          bindR (add_optional co b1 needed optional) (\<lambda>(chosen, b2).
          case render co b2 chosen of (r, b3) \<Rightarrow> bindR r (\<lambda>packet. Inr (packet, chosen, b3))))"

definition compile_packet :: "plane \<Rightarrow> artifact_store \<Rightarrow> bound_context \<Rightarrow> compilation \<Rightarrow> (json \<times> json list \<times> budget) res" where
  "compile_packet pl store bound co =
     (let rs = co_resolved co; cs = rs_candidates rs; needed = take (rs_required rs) cs in
      if needed = [] then Inl (ContextError ''INSUFFICIENT_CONTEXT'')
      else seqR (forR (\<lambda>c. bindR (revalidate pl store bound (co_state co) c) (\<lambda>ok. raise_if (\<not> ok) (ContextError ''STALE''))) needed)
      (bindR (mapR (\<lambda>c. bindR (revalidate pl store bound (co_state co) c) (\<lambda>ok. Inr (if ok then Some c else None))) (drop (rs_required rs) cs)) (\<lambda>optional.
       fill_packet co (start_budget (co_need co) cs) needed (List.map_filter id optional))))"

subsection \<open>The plane\<close>

definition guard_binding :: "plane \<Rightarrow> task_state \<Rightarrow> string \<Rightarrow> json \<Rightarrow> string \<Rightarrow> bound_context res" where
  "guard_binding pl state route spec fingerprint =
     bindR (resolve_binding pl state route spec) (\<lambda>bound.
     seqR (raise_if (bc_fingerprint bound \<noteq> fingerprint) (ContextError ''STALE'')) (Inr bound))"

definition current_contract :: "artifact_store \<Rightarrow> task_state \<Rightarrow> json \<Rightarrow> json res" where
  "current_contract store state spec =
     as_context (\<lambda>e. (is_key_error e \<or> is_os_error e \<or> is_value_error e) \<and> \<not> is_context_error e) ''INVALID_CONTEXT''
       (case ts_contract_ref state of
          None \<Rightarrow> Inl (KeyError ''contract_ref'')
        | Some ref \<Rightarrow>
            bindR (read_json store (ts_task_id state) (JStr ref)) (\<lambda>raw.
            bindR (validate_contract raw (ts_task_id state) (mutating (map jstr (lget spec ''capabilities'')))) (\<lambda>contract.
            case ts_contract_revision state of
              None \<Rightarrow> Inl (KeyError ''contract_revision'')
            | Some n \<Rightarrow> seqR (raise_if (dget contract ''revision'' \<noteq> JInt n) (ContextError ''STALE'')) (Inr contract))))"

definition context_delta :: "json \<Rightarrow> string \<Rightarrow> string \<Rightarrow> json \<Rightarrow> nat \<Rightarrow> json" where
  "context_delta base operation packet_ref packet n = message ''ContextDelta'' (JObj
     [(''base_ref'', base), (''operation'', JStr operation), (''replaces'', JStr ''all-context''), (''active_ref'', JStr packet_ref),
      (''context'', dget (dget packet ''payload'') ''context''), (''status'', JStr ''SUCCESS''),
      (''limit_bytes'', JInt (int DELTA_BYTES)), (''output_bytes'', JInt (int n))])"

definition check_base :: "json \<Rightarrow> json option \<Rightarrow> unit res" where
  "check_base need previous =
     (case previous of
        Some p \<Rightarrow> raise_if (\<not> py_eq (dget need ''base_ref'') (dget p ''packet_ref'') \<or> dget p ''mode'' \<noteq> JStr ''initial'') (ContextError ''DENIED'')
      | None \<Rightarrow> raise_if (has_key need ''base_ref'') (ContextError ''INVALID_CONTEXT''))"

definition put_delta ::
  "artifact_store \<Rightarrow> string \<Rightarrow> json \<Rightarrow> json option \<Rightarrow> string \<Rightarrow> string \<Rightarrow> json \<Rightarrow> (string \<times> json) list res \<times> artifact_store" where
  "put_delta store task_id need previous operation packet_ref packet =
     (case previous of
        None \<Rightarrow> (Inr [], store)
      | Some p \<Rightarrow>
          let f = context_delta (dget p ''packet_ref'') operation packet_ref packet; delta = f (settle_size 8 f 0);
              limit = min DELTA_BYTES (if has_key need ''max_bytes'' then nat (jint (dget need ''max_bytes'')) else DELTA_BYTES) in
          if limit < length (encode delta) then (Inl (ContextError ''INSUFFICIENT_CONTEXT''), store)
          else case put_json store task_id delta of
            (Inl e, st) \<Rightarrow> (Inl e, st)
          | (Inr ref, st) \<Rightarrow> (Inr [(''delta_ref'', JStr ref), (''delta_bytes'', JInt (int (length (encode delta))))], st))"

definition admission_of :: "task_state \<Rightarrow> bound_context \<Rightarrow> string \<Rightarrow> string \<Rightarrow> string \<Rightarrow> json \<Rightarrow> json list \<Rightarrow> budget \<Rightarrow> json \<Rightarrow> (string \<times> json) list" where
  "admission_of state bound operation mode packet_ref packet chosen b contract =
     [(''version'', JInt 1), (''task_id'', JStr (ts_task_id state)), (''operation'', JStr operation), (''packet_ref'', JStr packet_ref),
      (''packet_sha256'', JStr (sha256_hex (encode packet))), (''binding'', JStr (bc_fingerprint bound)), (''spec_ref'', JStr (ts_spec_ref state)),
      (''mode'', JStr mode), (''sources'', JList chosen), (''budget'', budget_json b),
      (''contract_ref'', jopt JStr (ts_contract_ref state)), (''contract_revision'', dget contract ''revision'')]"

definition prepare_packet ::
  "plane \<Rightarrow> artifact_store \<Rightarrow> task_state \<Rightarrow> string \<Rightarrow> json \<Rightarrow> string \<Rightarrow> json \<Rightarrow> json option
     \<Rightarrow> (bound_context \<times> json \<times> json \<times> string \<times> resolved \<times> json \<times> json list \<times> budget) res" where
  "prepare_packet pl store state route spec operation request previous =
     bindR (resolve_binding pl state route spec) (\<lambda>bound.
     bindR (current_contract store state spec) (\<lambda>contract.
     bindR (validate_need (if py_true request then request else dget (bc_snapshot bound) ''initial_need'')) (\<lambda>need.
     let mode = (if previous \<noteq> None then ''delta'' else ''initial'') in
     seqR (check_base need previous)
     (bindR (resolve_need pl store bound state need True) (\<lambda>rs.
      seqR (raise_if (rs_status rs = ''EMPTY'') (ContextError ''EMPTY''))
      (bindR (compile_packet pl store bound \<lparr>co_state = state, co_spec = spec, co_contract = contract, co_need = need,
                co_mode = mode, co_operation = operation, co_resolved = rs\<rparr>) (\<lambda>(packet, chosen, b).
       seqR (guard_binding pl state route spec (bc_fingerprint bound))
       (Inr (bound, contract, need, mode, rs, packet, chosen, b)))))))))"

definition plane_compile ::
  "plane \<Rightarrow> artifact_store \<Rightarrow> task_state \<Rightarrow> string \<Rightarrow> json \<Rightarrow> string \<Rightarrow> json \<Rightarrow> json option \<Rightarrow> (json \<times> json) res \<times> artifact_store" where
  "plane_compile pl store state route spec operation request previous =
     (case prepare_packet pl store state route spec operation request previous of
        Inl e \<Rightarrow> (Inl e, store)
      | Inr (bound, contract, need, mode, rs, packet, chosen, b) \<Rightarrow>
          let task_id = ts_task_id state in
          (case put_json store task_id packet of
             (Inl e, st) \<Rightarrow> (Inl e, st)
           | (Inr packet_ref, st) \<Rightarrow>
               (case put_delta st task_id need previous operation packet_ref packet of
                  (Inl e, st1) \<Rightarrow> (Inl e, st1)
                | (Inr delta, st1) \<Rightarrow>
                    (case put_json st1 task_id (message ''LocalContextBinding'' (bc_snapshot bound)) of
                       (Inl e, st2) \<Rightarrow> (Inl e, st2)
                     | (Inr snapshot_ref, st2) \<Rightarrow>
                         let admission = JObj (admission_of state bound operation mode packet_ref packet chosen b contract
                               @ [(''snapshot_ref'', JStr snapshot_ref),
                                  (''execution_context'', message ''ExecutionContextRef'' (JObj [(''task_id'', JStr task_id),
                                     (''operation_id'', JStr operation), (''binding_ref'', JStr snapshot_ref)]))]);
                             output = JObj ([(''status'', JStr ''SUCCESS''), (''packet_ref'', JStr packet_ref), (''budget'', budget_json b),
                               (''memory'', JStr (rs_memory_status rs))] @ delta);
                             result = message ''CapabilityResult'' (JObj [(''operation_id'', JStr operation), (''outcome'', JStr ''success''),
                               (''output'', output), (''artifacts'', JObj [(''compiled-context'', JStr packet_ref)]), (''error'', JNull)]) in
                         (if MAX_CONTENT < length (encode result) then Inl (ContextError ''INSUFFICIENT_CONTEXT'') else Inr (result, admission), st2)))))"

definition turn_of :: "task_state \<Rightarrow> string" where
  "turn_of state = ts_task_id state @ ''/'' @ show_int (ts_iteration state)"

definition admission_current :: "task_state \<Rightarrow> json \<Rightarrow> json \<Rightarrow> string \<Rightarrow> unit res" where
  "admission_current state admission packet_ref operation =
     seqR (raise_if (\<not> py_true admission \<or> dget admission ''task_id'' \<noteq> JStr (ts_task_id state) \<or> dget admission ''spec_ref'' \<noteq> JStr (ts_spec_ref state)
              \<or> \<not> py_eq (dget admission ''packet_ref'') packet_ref \<or> operation \<noteq> turn_of state \<or> dget admission ''operation'' = JStr operation) (ContextError ''DENIED''))
     (raise_if (\<not> py_eq (dget admission ''contract_ref'') (jopt JStr (ts_contract_ref state))
              \<or> \<not> py_eq (dget admission ''contract_revision'') (jopt JInt (ts_contract_revision state))) (ContextError ''STALE''))"

definition packet_delivers :: "plane \<Rightarrow> artifact_store \<Rightarrow> bound_context \<Rightarrow> task_state \<Rightarrow> json \<Rightarrow> json \<Rightarrow> unit res" where
  "packet_delivers pl store bound state admission packet_ref =
     as_context (\<lambda>e. (is_os_error e \<or> is_value_error e) \<and> \<not> is_context_error e) ''UNAVAILABLE''
       (bindR (read store (ts_task_id state) packet_ref) (\<lambda>packet.
        seqR (raise_if (dget admission ''packet_sha256'' \<noteq> JStr (sha256_hex packet)) (ContextError ''DENIED''))
        (forR (\<lambda>c. bindR (revalidate pl store bound state c) (\<lambda>ok. raise_if (\<not> ok) (ContextError ''STALE''))) (lget admission ''sources''))))"

definition guard_worker :: "plane \<Rightarrow> artifact_store \<Rightarrow> task_state \<Rightarrow> string \<Rightarrow> json \<Rightarrow> json \<Rightarrow> json \<Rightarrow> string \<Rightarrow> unit res" where
  "guard_worker pl store state route spec admission packet_ref operation =
     seqR (admission_current state admission packet_ref operation)
     (seqR (current_contract store state spec)
     (bindR (guard_binding pl state route spec (sget admission ''binding'')) (\<lambda>bound.
      seqR (packet_delivers pl store bound state admission packet_ref)
      (voidR (guard_binding pl state route spec (bc_fingerprint bound))))))"

fun context_status :: "exn \<Rightarrow> string" where
  "context_status (ContextError s) = s"
| "context_status e = ''UNAVAILABLE''"

definition context_failure :: "string \<Rightarrow> exn \<Rightarrow> json" where
  "context_failure operation error = message ''CapabilityResult'' (JObj [(''operation_id'', JStr operation), (''outcome'', JStr ''failure''),
     (''output'', JObj [(''status'', JStr (context_status error))]), (''artifacts'', JObj []), (''error'', JStr (exn_str error))])"

subsection \<open>What a worker is given\<close>

lemma as_context_Inr: "as_context c st m = Inr x \<longleftrightarrow> m = Inr x"
  by (auto simp: as_context_def split: sum.splits)

lemma guard_binding_Inr:
  "guard_binding pl state route spec fp = Inr bound \<longleftrightarrow> resolve_binding pl state route spec = Inr bound \<and> bc_fingerprint bound = fp"
  by (auto simp: guard_binding_def bindR_eq_Inr)

lemma current_contract_Inr:
  assumes "current_contract store state spec = Inr contract"
  obtains m ref raw n where "wf_contract (ts_task_id state) m contract"
    and "ts_contract_ref state = Some ref" "read_json store (ts_task_id state) (JStr ref) = Inr raw"
      "validate_contract raw (ts_task_id state) (mutating (map jstr (lget spec ''capabilities''))) = Inr contract"
    and "ts_contract_revision state = Some n" "dget contract ''revision'' = JInt n"
proof -
  from assms obtain ref raw n where c: "ts_contract_ref state = Some ref" "read_json store (ts_task_id state) (JStr ref) = Inr raw"
    and v: "validate_contract raw (ts_task_id state) (mutating (map jstr (lget spec ''capabilities''))) = Inr contract"
    and n: "ts_contract_revision state = Some n" "dget contract ''revision'' = JInt n"
    unfolding current_contract_def as_context_Inr by (auto simp: bindR_eq_Inr split: option.splits)
  from that [OF validate_contract_wf [OF v] c v n] show thesis .
qed

lemma packet_delivers_Inr:
  assumes "packet_delivers pl store bound state admission packet_ref = Inr u"
  shows "\<exists>packet. read store (ts_task_id state) packet_ref = Inr packet \<and> dget admission ''packet_sha256'' = JStr (sha256_hex packet)"
    and "list_all (\<lambda>c. revalidate pl store bound state c = Inr True) (lget admission ''sources'')"
  using assms unfolding packet_delivers_def as_context_Inr bindR_eq_Inr raise_if_eq_Inr forR_eq_Inr list_all_iff by auto

text \<open>
  C31. A worker runs only on admitted, still valid context: the guard passes only on the current turn and only for
  an admission of this Task, specification, contract reference, contract revision and packet; the deployment still
  resolves to the binding the packet was compiled under; the document behind the contract reference is a well-formed
  contract of that revision; the retained packet has the admitted digest; and every source was read again, with
  permission, and still has its recorded content.
\<close>

theorem guard_worker_sound:
  "case guard_worker pl store state route spec admission packet_ref operation of
     Inl e \<Rightarrow> True
   | Inr _ \<Rightarrow> operation = turn_of state \<and> dget admission ''task_id'' = JStr (ts_task_id state)
       \<and> dget admission ''spec_ref'' = JStr (ts_spec_ref state) \<and> dget admission ''operation'' \<noteq> JStr operation
       \<and> py_eq (dget admission ''packet_ref'') packet_ref
       \<and> (\<exists>contract_ref raw contract m n. ts_contract_ref state = Some contract_ref \<and> dget admission ''contract_ref'' = JStr contract_ref
            \<and> ts_contract_revision state = Some n \<and> py_eq (dget admission ''contract_revision'') (JInt n)
            \<and> read_json store (ts_task_id state) (JStr contract_ref) = Inr raw
            \<and> validate_contract raw (ts_task_id state) (mutating (map jstr (lget spec ''capabilities''))) = Inr contract
            \<and> wf_contract (ts_task_id state) m contract \<and> dget contract ''revision'' = JInt n)
       \<and> (\<exists>bound packet. resolve_binding pl state route spec = Inr bound \<and> bc_fingerprint bound = sget admission ''binding''
            \<and> read store (ts_task_id state) packet_ref = Inr packet \<and> dget admission ''packet_sha256'' = JStr (sha256_hex packet)
            \<and> list_all (\<lambda>c. revalidate pl store bound state c = Inr True) (lget admission ''sources''))"
proof (cases "guard_worker pl store state route spec admission packet_ref operation")
  case (Inr u)
  then obtain contract bound where
    a: "admission_current state admission packet_ref operation = Inr ()"
    and c: "current_contract store state spec = Inr contract"
    and b: "resolve_binding pl state route spec = Inr bound" "bc_fingerprint bound = sget admission ''binding''"
    and d: "packet_delivers pl store bound state admission packet_ref = Inr ()"
    unfolding guard_worker_def bindR_eq_Inr guard_binding_Inr by auto
  from a have turn: "operation = turn_of state" "dget admission ''task_id'' = JStr (ts_task_id state)"
    "dget admission ''spec_ref'' = JStr (ts_spec_ref state)" "dget admission ''operation'' \<noteq> JStr operation"
    "py_eq (dget admission ''packet_ref'') packet_ref"
    and same: "py_eq (dget admission ''contract_ref'') (jopt JStr (ts_contract_ref state))"
      "py_eq (dget admission ''contract_revision'') (jopt JInt (ts_contract_revision state))"
    unfolding admission_current_def bindR_eq_Inr raise_if_eq_Inr by blast+
  from current_contract_Inr [OF c] obtain m ref raw n where k: "wf_contract (ts_task_id state) m contract"
    "ts_contract_ref state = Some ref" "read_json store (ts_task_id state) (JStr ref) = Inr raw"
    "validate_contract raw (ts_task_id state) (mutating (map jstr (lget spec ''capabilities''))) = Inr contract"
    "ts_contract_revision state = Some n" "dget contract ''revision'' = JInt n" .
  from same k have "dget admission ''contract_ref'' = JStr ref" "py_eq (dget admission ''contract_revision'') (JInt n)" by (simp_all add: jopt_def)
  with k turn b packet_delivers_Inr [OF d] show ?thesis unfolding Inr sum.case by blast
qed simp

lemma render_Inr:
  assumes "render co b chosen = (Inr packet, b')"
  shows "packet = worker_packet co chosen b'" and "length (encode packet) \<le> bu_limit b" and "bu_limit b' = bu_limit b"
    and "\<exists>p. validate_packet packet (ts_task_id (co_state co)) = Inr p"
  using assms by (auto simp: render_def Let_def bindR_eq_Inr)

lemma render_limit: "bu_limit (snd (render co b chosen)) = bu_limit b"
  by (simp add: render_def Let_def)

lemma add_optional_keeps:
  "add_optional co b chosen cs = Inr (chosen', b') \<Longrightarrow> \<exists>extra. chosen' = chosen @ extra \<and> subseq extra cs \<and> bu_limit b' = bu_limit b"
proof (induction cs arbitrary: b chosen)
  case (Cons c cs)
  obtain r b1 where r: "render co b (chosen @ [c]) = (r, b1)" by force
  have l: "bu_limit b1 = bu_limit b" using render_limit [of co b "chosen @ [c]"] by (simp add: r)
  show ?case
  proof (cases r)
    case (Inl e)
    with Cons.prems r have "add_optional co b1 chosen cs = Inr (chosen', b')" by (simp split: if_splits)
    with Cons.IH l show ?thesis by fastforce
  next
    case (Inr p)
    with Cons.prems r have "add_optional co b1 (chosen @ [c]) cs = Inr (chosen', b')" by simp
    with Cons.IH l show ?thesis by fastforce
  qed
qed simp

definition stays_valid :: "plane \<Rightarrow> artifact_store \<Rightarrow> bound_context \<Rightarrow> task_state \<Rightarrow> json \<Rightarrow> bool" where
  "stays_valid pl store bound state c \<longleftrightarrow> revalidate pl store bound state c = Inr True"

lemma required_valid:
  "forR (\<lambda>c. bindR (revalidate pl store bound state c) (\<lambda>ok. raise_if (\<not> ok) err)) cs = Inr u
     \<longleftrightarrow> list_all (stays_valid pl store bound state) cs"
  by (auto simp: forR_eq_Inr list_all_iff stays_valid_def bindR_eq_Inr)

lemma optional_valid:
  "mapR (\<lambda>c. bindR (revalidate pl store bound state c) (\<lambda>ok. Inr (if ok then Some c else None))) cs = Inr kept
     \<Longrightarrow> List.map_filter id kept = filter (stays_valid pl store bound state) cs"
proof (induction cs arbitrary: kept)
  case (Cons c cs)
  from Cons.prems obtain ok ks where k: "revalidate pl store bound state c = Inr ok" "kept = (if ok then Some c else None) # ks"
    "mapR (\<lambda>c. bindR (revalidate pl store bound state c) (\<lambda>ok. Inr (if ok then Some c else None))) cs = Inr ks"
    unfolding mapR_eq_Inr list_all2_Cons1 bindR_eq_Inr by blast
  from Cons.IH [OF k(3)] k(1,2) show ?case by (cases ok) (simp_all add: stays_valid_def map_filter_simps)
qed (simp add: map_filter_simps)

lemma fill_packet_Inr:
  assumes "fill_packet co b0 needed optional = Inr (packet, chosen, b)"
  obtains q b1 b2 where "render co b0 needed = (Inr q, b1)" and "add_optional co b1 needed optional = Inr (chosen, b2)"
    and "render co b2 chosen = (Inr packet, b)"
proof -
  obtain r b1 where r: "render co b0 needed = (r, b1)" by force
  with assms obtain q where q: "r = Inr q" by (cases r) (auto simp: fill_packet_def split: if_splits)
  from assms [unfolded fill_packet_def r q] obtain b2 where a: "add_optional co b1 needed optional = Inr (chosen, b2)"
    and c: "render co b2 chosen = (Inr packet, b)"
    by (auto simp: bindR_eq_Inr case_prod_unfold prod_eq_iff)
  from that [OF r [unfolded q] a c] show thesis .
qed

lemma if_Inl_eq_Inr: "(if c then Inl e else m) = Inr r \<longleftrightarrow> \<not> c \<and> m = Inr r"
  by simp

lemma compile_packet_Inr:
  assumes "compile_packet pl store bound co = Inr r"
  shows "list_all (stays_valid pl store bound (co_state co)) (take (rs_required (co_resolved co)) (rs_candidates (co_resolved co)))"
    and "fill_packet co (start_budget (co_need co) (rs_candidates (co_resolved co)))
           (take (rs_required (co_resolved co)) (rs_candidates (co_resolved co)))
           (filter (stays_valid pl store bound (co_state co)) (drop (rs_required (co_resolved co)) (rs_candidates (co_resolved co)))) = Inr r"
proof -
  let ?cs = "rs_candidates (co_resolved co)" and ?n = "rs_required (co_resolved co)"
  from assms obtain optional where n: "list_all (stays_valid pl store bound (co_state co)) (take ?n ?cs)"
    and o: "mapR (\<lambda>c. bindR (revalidate pl store bound (co_state co) c) (\<lambda>ok. Inr (if ok then Some c else None))) (drop ?n ?cs) = Inr optional"
    and f: "fill_packet co (start_budget (co_need co) ?cs) (take ?n ?cs) (List.map_filter id optional) = Inr r"
    unfolding compile_packet_def Let_def if_Inl_eq_Inr bindR_eq_Inr required_valid by blast
  show "list_all (stays_valid pl store bound (co_state co)) (take ?n ?cs)" by (rule n)
  from f show "fill_packet co (start_budget (co_need co) ?cs) (take ?n ?cs) (filter (stays_valid pl store bound (co_state co)) (drop ?n ?cs)) = Inr r"
    unfolding optional_valid [OF o] .
qed

lemma start_budget_limit: "bu_limit (start_budget need cs) \<le> WORKER_BYTES"
  by (simp add: start_budget_def)

text \<open>
  C38. Compilation is bounded and exact: a compiled packet is the rendering of its chosen candidates,
  admissible to a worker and at most 4096 bytes; it contains every required candidate first and in
  order, followed by a subsequence of the optional ones; and each chosen candidate was revalidated.
\<close>

theorem compile_packet_bounded:
  "case compile_packet pl store bound co of
     Inl e \<Rightarrow> True
   | Inr (packet, chosen, b) \<Rightarrow> packet = worker_packet co chosen b \<and> length (encode packet) \<le> 4096
       \<and> (\<exists>p. validate_packet packet (ts_task_id (co_state co)) = Inr p)
       \<and> (\<exists>extra. chosen = take (rs_required (co_resolved co)) (rs_candidates (co_resolved co)) @ extra
            \<and> subseq extra (drop (rs_required (co_resolved co)) (rs_candidates (co_resolved co))))
       \<and> list_all (stays_valid pl store bound (co_state co)) chosen"
proof (cases "compile_packet pl store bound co")
  case (Inr x)
  obtain packet chosen b where x: "x = (packet, chosen, b)" by (metis prod_cases3)
  let ?rs = "co_resolved co" and ?ok = "stays_valid pl store bound (co_state co)"
  let ?needed = "take (rs_required ?rs) (rs_candidates ?rs)" and ?rest = "drop (rs_required ?rs) (rs_candidates ?rs)"
  note c = compile_packet_Inr [OF Inr [unfolded x]]
  from fill_packet_Inr [OF c(2)] obtain q b1 b2 where r1: "render co (start_budget (co_need co) (rs_candidates ?rs)) ?needed = (Inr q, b1)"
    and a: "add_optional co b1 ?needed (filter ?ok ?rest) = Inr (chosen, b2)" and r2: "render co b2 chosen = (Inr packet, b)" .
  from add_optional_keeps [OF a] obtain extra where ch: "chosen = ?needed @ extra" and s: "subseq extra (filter ?ok ?rest)"
    and l: "bu_limit b2 = bu_limit b1" by blast
  from s have sub: "subseq extra ?rest" using subseq_filter_left subseq_order.order_trans by blast
  have e: "length (encode packet) \<le> 4096"
    using render_Inr(2) [OF r2] unfolding l render_Inr(3) [OF r1]
    by (rule order_trans) (rule start_budget_limit [unfolded WORKER_BYTES_def])
  have "?ok y" if y: "y \<in> set extra" for y
    by (rule list_emb_set [OF s y]) (simp only: set_filter mem_Collect_eq)
  then have v: "list_all ?ok chosen" using c(1) unfolding ch list_all_iff set_append by blast
  show ?thesis unfolding Inr x sum.case prod.case
    using render_Inr(1,4) [OF r2] e v ch sub by blast
qed simp

end
