(* ===== verification/Execution.thy ===== *)
theory Execution
  imports Context_Plane
begin

section \<open>Policy and capability execution\<close>

text \<open>
  runtime/kernel/execution.py with the workspace contracts it calls (runtime/kernel/workspace.py) and
  \<open>summarize_objective\<close> of runtime/task.py. \<open>policy_gate\<close> is the admission of a proposed decision; its
  \<open>try\<close> block is \<open>gate\<close>, whose \<open>ValueError\<close> and \<open>TypeError\<close> become denials. \<open>execute\<close> runs one admitted
  capability request over the artifact store and the fixture table. The card reader and the worker
  adapter are deployment code: optional functions of the record \<open>capabilities\<close>. Diagnostic spans have
  no effect on an outcome and are left out; the fixture table keeps a receipt as its document.
\<close>

subsection \<open>Scoped workspace reads\<close>

definition validate_read :: "json \<Rightarrow> json res" where
  "validate_read v =
     seqR (py_fields v [''workspace'', ''path'', ''artifact''] [])
     (seqR (py_text (dget v ''workspace'') 512)
     (seqR (py_text (dget v ''path'') 512)
     (seqR (py_identifier (dget v ''artifact''))
     (let base = sget v ''workspace''; path = sget v ''path'' in
      if \<not> is_absolute base \<or> ''..'' \<in> set (path_parts base) \<or> is_absolute path \<or> ''..'' \<in> set (path_parts path)
         \<or> path_parts path = [] \<or> CHR 0x5C \<in> set path \<or> CHR 0x5C \<in> set base
      then Inl (ValueError ''Expected absolute POSIX workspace and confined relative path'') else Inr v))))"

definition validate_read_result :: "json \<Rightarrow> json \<Rightarrow> json res" where
  "validate_read_result raw request =
     bindR (unpack raw ''CapabilityResult'') (\<lambda>p.
     bindR (py_fields p [''operation_id'', ''outcome'', ''output'', ''artifacts'', ''error''] []) (\<lambda>result.
     seqR (raise_if (\<not> py_eq (dget result ''operation_id'') (dget request ''operation_id'') \<or> dget result ''outcome'' \<noteq> JStr ''success''
             \<or> \<not> py_eq (dget result ''artifacts'') (JObj []) \<or> dget result ''error'' \<noteq> JNull)
            (ValueError ''Invalid workspace capability result''))
     (bindR (py_fields (dget result ''output'') [''content''] []) (\<lambda>output.
      seqR (py_text (dget output ''content'') MAX_CONTENT) (Inr (dget output ''content''))))))"

text \<open>\<open>ref.rsplit (':', 1) [1]\<close>.\<close>

definition ref_digest :: "string \<Rightarrow> string" where
  "ref_digest ref = rev (takeWhile (\<lambda>c. c \<noteq> CHR '':'') (rev ref))"

definition receipt_line_count :: "string \<Rightarrow> nat" where
  "receipt_line_count content =
     (let lines = split_on (CHR 0x0A) content; kept = (if lines \<noteq> [] \<and> last lines = [] then butlast lines else lines) in
      max (length kept) 1)"

definition legacy_receipt :: "string \<Rightarrow> string \<Rightarrow> json \<Rightarrow> string \<Rightarrow> string \<Rightarrow> json" where
  "legacy_receipt task_id request_ref request content_ref content = message ''WorkspaceReadReceipt'' (JObj
     [(''task_id'', JStr task_id), (''operation_id'', dget request ''operation_id''), (''request_sha256'', JStr (ref_digest request_ref)),
      (''workspace_id'', dget request ''workspace''), (''provider'', JObj [(''kind'', JStr ''acp-client'')]),
      (''operation'', JStr ''read_file''), (''state'', JStr ''SUCCESS''),
      (''source'', JObj [(''view'', JStr ''acp_text_file''), (''class'', JStr ''project''), (''path'', dget request ''path''),
         (''lines'', JList [JInt 1, JInt (int (receipt_line_count content))])]),
      (''response_ref'', JStr content_ref), (''response_sha256'', JStr (sha256_hex content)),
      (''response_bytes'', JInt (int (length content))), (''truncated'', JBool False)])"

subsection \<open>The policy gate\<close>

definition artifact_room :: "task_state \<Rightarrow> json \<Rightarrow> unit res" where
  "artifact_room state name =
     raise_if (jstr name \<notin> fst ` set (ts_artifacts state) \<and> 16 \<le> length (ts_artifacts state)) (ValueError ''Artifact limit reached'')"

definition admitted_ref :: "task_state \<Rightarrow> json \<Rightarrow> bool" where
  "admitted_ref state ref \<longleftrightarrow> py_mem ref (map (\<lambda>(_, r). JStr r) (ts_artifacts state))"

definition target_scope :: "json option \<Rightarrow> json \<Rightarrow> unit res" where
  "target_scope authority v =
     raise_if (case authority of None \<Rightarrow> True | Some a \<Rightarrow> \<not> py_mem (dget v ''workspace_id'') (lget a ''workspaces''))
       (ValueError ''Target workspace is not in effective authority'')"

definition human_scope :: "task_state \<Rightarrow> json \<Rightarrow> json option \<Rightarrow> string \<Rightarrow> json res" where
  "human_scope state spec contract request_id =
     human_binding (case contract of Some c \<Rightarrow> c | None \<Rightarrow> lower_spec spec (ts_task_id state) (jopt id (ts_parent state))) request_id"

definition open_effects :: "task_state \<Rightarrow> string list" where
  "open_effects state = sort (map fst (filter (\<lambda>(_, effect). dget effect ''status'' = JStr ''uncertain'') (ts_effects state)))"

definition gate_human :: "task_state \<Rightarrow> json \<Rightarrow> json option \<Rightarrow> json \<Rightarrow> unit res" where
  "gate_human state spec contract v =
     seqR (py_fields v [''request''] [])
     (bindR (validate_request (dget v ''request'')) (\<lambda>request.
      bindR (human_scope state spec contract (sget request ''request_id'')) (\<lambda>requirement.
      raise_if (dget request ''task_id'' \<noteq> JStr (ts_task_id state) \<or> \<not> py_eq (dget v ''request'') (dget requirement ''request''))
        (ValueError ''Human interaction outside accepted scope''))))"

definition gate_effect :: "task_state \<Rightarrow> json option \<Rightarrow> string \<Rightarrow> json \<Rightarrow> unit res" where
  "gate_effect state authority capability v =
     seqR (raise_if (open_effects state \<noteq> [])
             (ValueError (''Uncertain target effects must be reconciled first: '' @ py_repr_list (open_effects state))))
     (if capability = WRITE then
        checks [voidR (validate_write_input v), target_scope authority v,
          raise_if (\<not> admitted_ref state (dget v ''content_ref'')) (ValueError ''Write content must be an admitted Task artifact'')]
      else checks [voidR (validate_exec_input v), target_scope authority v,
          (case authority of None \<Rightarrow> Inl (TypeError ''NoneType object is not subscriptable'') | Some a \<Rightarrow> voidR (admit_exec v a))])"

definition gate_capability :: "task_state \<Rightarrow> json \<Rightarrow> json option \<Rightarrow> json option \<Rightarrow> json \<Rightarrow> unit res" where
  "gate_capability state spec contract authority action =
     (let capability = sget action ''capability''; v = dget action ''input'' in
      if capability = ''artifact.write'' then
        checks [voidR (py_fields v [''name'', ''content''] []), voidR (py_identifier (dget v ''name'')),
          voidR (py_text (dget v ''content'') MAX_CONTENT), artifact_room state (dget v ''name'')]
      else if capability = ''artifact.read'' then
        checks [voidR (py_fields v [''ref''] []),
          raise_if (\<not> admitted_ref state (dget v ''ref'')) (ValueError ''Artifact read outside admitted evidence'')]
      else if capability = ''human.request'' then gate_human state spec contract v
      else if capability = ''youtrack.read'' then
        checks [voidR (py_fields v [''issue_id''] []), voidR (py_text (dget v ''issue_id'') 80)]
      else if capability = ''worker.run'' then
        checks [voidR (py_fields v [''packet_ref'', ''artifact''] []), voidR (py_identifier (dget v ''artifact'')),
          raise_if (\<not> admitted_ref state (dget v ''packet_ref'')) (ValueError ''Worker packet outside admitted artifacts''),
          artifact_room state (dget v ''artifact'')]
      else if capability = ''context.request'' then
        checks [voidR (validate_need v),
          raise_if (''compiled-context'' \<notin> fst ` set (ts_artifacts state)) (ValueError ''Context Plane is not active'')]
      else if capability = ''text.stats'' then
        checks [voidR (py_fields v [''text''] []), voidR (py_text (dget v ''text'') 1024)]
      else if capability = ''workspace.read'' \<and> has_key v ''form'' then
        checks [voidR (validate_read_input v), target_scope authority v, artifact_room state (dget v ''artifact'')]
      else if capability = ''workspace.read'' then
        checks [voidR (validate_read v),
          raise_if (case ts_initial_action state of None \<Rightarrow> True | Some a \<Rightarrow> \<not> py_eq action a)
            (ValueError ''Workspace read outside accepted operation scope'')]
      else if capability = WRITE \<or> capability = EXEC then gate_effect state authority capability v
      else checks [voidR (py_fields v [''value''] []), voidR (py_text (dget v ''value'') 256)])"

definition gate_wait :: "task_state \<Rightarrow> json \<Rightarrow> string set \<Rightarrow> json option \<Rightarrow> json \<Rightarrow> unit res" where
  "gate_wait state spec admissible contract action =
     seqR (raise_if (''human.request'' \<notin> admissible) (ValueError ''Human interaction denied''))
     (bindR (human_scope state spec contract (sget action ''wait_id'')) (\<lambda>requirement.
      let request = dget requirement ''request'' in
      seqR (raise_if (dget (dget request ''payload'') ''task_id'' \<noteq> JStr (ts_task_id state)) (ValueError ''Human wait Task mismatch''))
      (raise_if (map_of (ts_artifacts state) (''human-request-'' @ sget action ''wait_id'')
                   \<noteq> Some (mk_ref (ts_task_id state) (sha256_hex (encode request))))
        (ValueError ''Human request must be published before waiting''))))"

definition child_cost :: "json \<Rightarrow> int" where
  "child_cost child = 1 + jint (dget_or (dget child ''autonomy'') ''child_tasks'' (JInt 0))"

definition child_allowed :: "json \<Rightarrow> string set" where
  "child_allowed child = str_set (dget (dget child ''autonomy'') ''allowed'')"

definition gate_child_request :: "task_state \<Rightarrow> json \<Rightarrow> json \<Rightarrow> json \<Rightarrow> unit res" where
  "gate_child_request state decision slot criterion =
     (let evidence = dget criterion ''evidence'' in
      if dget evidence ''verifier'' = JStr ''human_response'' then
        let request = dget (dget evidence ''request'') ''payload''; refuse = ValueError ''Human child request must bind to its parent and derived child identity'' in
        if dget request ''origin_task_id'' \<noteq> JStr (ts_task_id state) then Inl refuse
        else bindR (child_task_id (JStr (ts_task_id state)) (dget decision ''turn_id'') slot) (\<lambda>child.
          raise_if (dget request ''task_id'' \<noteq> JStr child) refuse)
      else Inr ())"

definition gate_spawn :: "task_state \<Rightarrow> string set \<Rightarrow> json \<Rightarrow> json \<Rightarrow> unit res" where
  "gate_spawn state admissible decision action =
     bindR (spawn_specs action) (\<lambda>children.
     seqR (raise_if (ts_remaining_children state < sum_list (map (\<lambda>(_, child). child_cost child) children))
             (ValueError ''Child Task allocation exhausted''))
     (forR (\<lambda>(slot, child).
        seqR (raise_if (\<not> child_allowed child \<subseteq> admissible) (ValueError ''Child Task cannot expand parent authority''))
        (forR (gate_child_request state decision slot) (lget child ''completion''))) children))"

definition gate_action :: "task_state \<Rightarrow> json \<Rightarrow> string set \<Rightarrow> json option \<Rightarrow> json option \<Rightarrow> json \<Rightarrow> unit res" where
  "gate_action state spec admissible contract authority decision =
     (let action = dget decision ''next_action'' in
      if dget action ''type'' = JStr ''INVOKE_CAPABILITY'' then
        seqR (raise_if (sget action ''capability'' \<notin> set CAPABILITIES \<or> sget action ''capability'' \<notin> admissible) (ValueError ''Capability denied''))
        (gate_capability state spec contract authority action)
      else if dget action ''type'' = JStr ''WAIT'' \<and> dget action ''input_type'' = JStr ''human_response'' then
        gate_wait state spec admissible contract action
      else if dget action ''type'' = JStr ''HANDOFF'' \<and> sget action ''specialist'' \<notin> fst ` set SPECIALISTS then
        Inl (ValueError ''Ineligible HANDOFF target'')
      else if dget action ''type'' = JStr ''SPAWN_TASK'' then gate_spawn state admissible decision action
      else Inr ())"

definition gate :: "json \<Rightarrow> task_state \<Rightarrow> json \<Rightarrow> json option \<Rightarrow> json option \<Rightarrow> json option \<Rightarrow> unit res" where
  "gate raw state spec grant contract authority =
     bindR (validate_decision raw) (\<lambda>decision.
     seqR (raise_if (dget decision ''task_id'' \<noteq> JStr (ts_task_id state) \<or> \<not> py_eq (dget decision ''task_revision'') (JInt (ts_revision state))
              \<or> dget decision ''turn_id'' \<noteq> JStr (turn_of state)) (ValueError ''Stale or misaddressed decision''))
     (seqR (raise_if (ts_lifecycle state \<noteq> RUNNING) (ValueError ''Task is not running''))
     (gate_action state spec (effective_capabilities spec grant) contract authority decision)))"

definition allow_verdict :: json where
  "allow_verdict = JObj [(''outcome'', JStr ''allow''), (''reason'', JNull)]"

definition deny_verdict :: "string \<Rightarrow> json" where
  "deny_verdict reason = JObj [(''outcome'', JStr ''deny''), (''reason'', JStr reason)]"

definition policy_gate :: "json \<Rightarrow> task_state \<Rightarrow> json \<Rightarrow> json option \<Rightarrow> json option \<Rightarrow> json option \<Rightarrow> json res" where
  "policy_gate raw state spec grant contract authority =
     (case gate raw state spec grant contract authority of
        Inr _ \<Rightarrow> Inr allow_verdict
      | Inl e \<Rightarrow> if is_value_error e \<or> is_type_error e then Inr (deny_verdict (exn_str e)) else Inl e)"

subsection \<open>Running an admitted capability\<close>

text \<open>\<open>len (objective.split ())\<close>: the number of runs of non-blank characters.\<close>

definition space_len :: "string \<Rightarrow> nat" where
  "space_len s =
     (if s = [] then 0 else if hd s \<in> set ascii_spaces then 1
      else if take 2 s \<in> set spaces2 then 2 else if take 3 s \<in> set spaces3 then 3 else 0)"

fun count_words :: "nat \<Rightarrow> bool \<Rightarrow> string \<Rightarrow> nat" where
  "count_words k inside [] = 0"
| "count_words (Suc k) inside (c # s) = count_words k inside s"
| "count_words 0 inside (c # s) =
     (let n = space_len (c # s) in
      if n \<noteq> 0 then count_words (n - 1) False s else (if inside then 0 else 1) + count_words 0 True s)"

definition summarize_objective :: "string \<Rightarrow> json" where
  "summarize_objective objective = JObj [(''objective'', JStr objective), (''word_count'', JInt (int (count_words 0 False objective))),
     (''sha256'', JStr (sha256_hex objective))]"

text \<open>A row of the fixture table: operation, encoded request, receipt.\<close>

type_synonym fixture_rows = "(string \<times> string \<times> json) list"

record capabilities =
  ca_store :: artifact_store
  ca_rows :: fixture_rows
  ca_reader :: "(json \<Rightarrow> json res) option"
  ca_worker :: "(json \<Rightarrow> string \<Rightarrow> json res) option"
  ca_plane :: "plane option"

record context_runtime =
  cx_state :: task_state
  cx_route :: string
  cx_spec :: json
  cx_admission :: json

datatype executed = Produced json "(string \<times> json) list" | WorkerFailed json

definition storing :: "string res \<times> artifact_store \<Rightarrow> (string \<Rightarrow> executed res) \<Rightarrow> executed res \<times> artifact_store" where
  "storing m f = (bindR (fst m) f, snd m)"

definition load_packet :: "artifact_store \<Rightarrow> string \<Rightarrow> json \<Rightarrow> json res" where
  "load_packet store task_id v =
     bindR (item v ''packet_ref'') (\<lambda>ref.
     bindR (read store task_id ref) (\<lambda>raw.
     seqR (raise_if (MAX_CONTENT < length raw) (ValueError ''Worker input artifact exceeds budget''))
     (bindR (json_loads raw) (\<lambda>packet. seqR (validate_packet packet task_id) (Inr packet)))))"

definition guard_context :: "capabilities \<Rightarrow> string \<Rightarrow> string \<Rightarrow> json \<Rightarrow> context_runtime option \<Rightarrow> unit res" where
  "guard_context ca task_id operation v cx =
     (case ca_plane ca of None \<Rightarrow> Inr ()
      | Some pl \<Rightarrow> (case cx of None \<Rightarrow> Inl (ContextError ''DENIED'')
         | Some c \<Rightarrow> seqR (raise_if (ts_task_id (cx_state c) \<noteq> task_id) (ContextError ''DENIED''))
             (guard_worker pl (ca_store ca) (cx_state c) (cx_route c) (cx_spec c) (cx_admission c) (dget v ''packet_ref'') operation)))"

definition dispatch_worker :: "capabilities \<Rightarrow> string \<Rightarrow> string \<Rightarrow> json \<Rightarrow> context_runtime option \<Rightarrow> json res" where
  "dispatch_worker ca task_id operation v cx =
     (case ca_worker ca of None \<Rightarrow> Inl (ValueError ''Worker adapter is not configured'')
      | Some worker \<Rightarrow>
          bindR (load_packet (ca_store ca) task_id v) (\<lambda>packet.
          seqR (guard_context ca task_id operation v cx) (worker packet operation)))"

definition retain_result :: "artifact_store \<Rightarrow> string \<Rightarrow> json \<Rightarrow> json \<Rightarrow> string \<Rightarrow> executed res \<times> artifact_store" where
  "retain_result store task_id v result ref =
     (case bindR (item result ''outcome'') (\<lambda>out. bindR (item result ''attempt_id'') (\<lambda>attempt.
             Inr (out, JObj [(''worker_outcome'', out), (''attempt_id'', attempt), (''evidence_ref'', JStr ref)]))) of
        Inl e \<Rightarrow> (Inl e, store)
      | Inr (out, output) \<Rightarrow>
          if out = JStr ''success'' then
            (case bindR (item result ''content'') (\<lambda>c. py_text c MAX_CONTENT) of
               Inl e \<Rightarrow> (Inl e, store)
             | Inr content \<Rightarrow> storing (put store task_id (jstr content)) (\<lambda>r. Inr (Produced output [(sget v ''artifact'', JStr r)])))
          else (Inr (WorkerFailed output), store))"

definition run_worker :: "capabilities \<Rightarrow> string \<Rightarrow> string \<Rightarrow> json \<Rightarrow> context_runtime option \<Rightarrow> executed res \<times> artifact_store" where
  "run_worker ca task_id operation v cx =
     (case dispatch_worker ca task_id operation v cx of
        Inl e \<Rightarrow> (Inl e, ca_store ca)
      | Inr result \<Rightarrow>
          (case put_json (ca_store ca) task_id result of
             (Inl e, st) \<Rightarrow> (Inl e, st)
           | (Inr ref, st) \<Rightarrow> retain_result st task_id v result ref))"

definition read_artifact :: "artifact_store \<Rightarrow> string \<Rightarrow> json \<Rightarrow> executed res" where
  "read_artifact store task_id v =
     bindR (item v ''ref'') (\<lambda>ref.
     bindR (read store task_id ref) (\<lambda>content.
     seqR (raise_if (MAX_CONTENT < length content) (ValueError ''Artifact exceeds read budget''))
     (bindR (decode_utf8 content) (\<lambda>txt.
      Inr (Produced (JObj [(''ref'', ref), (''content'', JStr txt), (''sha256'', JStr (sha256_hex content)), (''authority'', JStr ''artifact'')]) [])))))"

definition publish_human :: "artifact_store \<Rightarrow> string \<Rightarrow> json \<Rightarrow> executed res \<times> artifact_store" where
  "publish_human store task_id v =
     (case bindR (item v ''request'') validate_request of
        Inl e \<Rightarrow> (Inl e, store)
      | Inr human \<Rightarrow>
          if dget human ''task_id'' \<noteq> JStr task_id then (Inl (ValueError ''Human request Task mismatch''), store)
          else storing (put_json store task_id (dget v ''request'')) (\<lambda>ref. Inr (Produced
            (JObj [(''request_ref'', JStr ref), (''request_id'', dget human ''request_id''),
               (''delivery'', JStr ''controlled-input adapter; no external notification'')])
            [(''human-request-'' @ sget human ''request_id'', JStr ref)])))"

text \<open>\<open>INSERT OR IGNORE\<close> followed by the lookup of the row that is now in the table.\<close>

definition fixture_effect :: "fixture_rows \<Rightarrow> string \<Rightarrow> json \<Rightarrow> executed res \<times> fixture_rows" where
  "fixture_effect rows operation request =
     (case item (dget request ''input'') ''value'' of
        Inl e \<Rightarrow> (Inl e, rows)
      | Inr v \<Rightarrow>
          let encoded = encode request; receipt = JObj [(''effect_id'', JStr operation), (''value'', v)] in
          (case map_of rows operation of
             None \<Rightarrow> (Inr (Produced receipt []), (operation, encoded, receipt) # rows)
           | Some (stored, result) \<Rightarrow>
               (if stored \<noteq> encoded then Inl (ValueError ''Operation identity reused with different input'')
                else Inr (Produced result []), rows)))"

definition run_stored :: "capabilities \<Rightarrow> string \<Rightarrow> string \<Rightarrow> string \<Rightarrow> json \<Rightarrow> context_runtime option \<Rightarrow> executed res \<times> artifact_store" where
  "run_stored ca capability task_id operation v cx =
     (let store = ca_store ca in
      if capability = ''text.stats'' then
        (case item v ''text'' of Inl e \<Rightarrow> (Inl e, store)
         | Inr txt \<Rightarrow> let output = summarize_objective (jstr txt) in
             storing (put_json store task_id output) (\<lambda>ref. Inr (Produced output [(''answer'', JStr ref)])))
      else if capability = ''workspace.read'' then
        (case validate_read v of Inl e \<Rightarrow> (Inl e, store)
         | Inr _ \<Rightarrow> storing (put_json store task_id (message ''WorkspaceReadRequest''
               (JObj (dict_merge [(''task_id'', JStr task_id), (''operation_id'', JStr operation)] (jitems v)))))
             (\<lambda>ref. Inr (Produced (JObj [(''request_ref'', JStr ref), (''delivery'', JStr ''authorized ACP client read'')]) [])))
      else if capability = ''worker.run'' then run_worker ca task_id operation v cx
      else if capability = ''youtrack.read'' then
        (case ca_reader ca of None \<Rightarrow> Inl (ValueError ''YouTrack transport is not configured'')
         | Some reader \<Rightarrow> bindR (item v ''issue_id'') (\<lambda>i. bindR (reader i) (\<lambda>output. Inr (Produced output []))), store)
      else if capability = ''artifact.write'' then
        (case item v ''content'' of Inl e \<Rightarrow> (Inl e, store)
         | Inr content \<Rightarrow> storing (put store task_id (jstr content)) (\<lambda>ref. bindR (item v ''name'') (\<lambda>name.
             Inr (Produced (JObj [(''ref'', JStr ref), (''sha256'', JStr (ref_digest ref))]) [(jstr name, JStr ref)]))))
      else if capability = ''artifact.read'' then (read_artifact store task_id v, store)
      else if capability = ''human.request'' then publish_human store task_id v
      else (Inl (ValueError ''Unknown capability''), store))"

definition capability_message :: "string \<Rightarrow> string \<Rightarrow> json \<Rightarrow> (string \<times> json) list \<Rightarrow> json \<Rightarrow> json" where
  "capability_message operation out output artifacts error = message ''CapabilityResult'' (JObj
     [(''operation_id'', JStr operation), (''outcome'', JStr out), (''output'', output), (''artifacts'', JObj artifacts), (''error'', error)])"

fun not_found :: "exn \<Rightarrow> bool" where
  "not_found (OSError m) = (m = ''No such file or directory'')"
| "not_found e = False"

definition capability_answer :: "capabilities \<Rightarrow> string \<Rightarrow> executed res \<Rightarrow> json res" where
  "capability_answer ca operation r =
     (case r of
        Inr (Produced output artifacts) \<Rightarrow> Inr (capability_message operation ''success'' output artifacts JNull)
      | Inr (WorkerFailed output) \<Rightarrow>
          Inr (capability_message operation ''failure'' output [] (JStr ''Worker did not produce an admitted result''))
      | Inl e \<Rightarrow>
          if \<not> (is_value_error e \<or> not_found e) then Inl e
          else if ca_plane ca \<noteq> None then
            Inr (context_failure operation (if is_context_error e then e else ContextError ''UNAVAILABLE''))
          else Inr (capability_message operation ''failure'' (JObj []) [] (JStr (exn_str e))))"

definition request_parts :: "json \<Rightarrow> (json \<times> string \<times> string \<times> json \<times> string) res" where
  "request_parts raw =
     bindR (unpack raw ''CapabilityRequest'') (\<lambda>request.
     bindR (item request ''operation_id'') (\<lambda>operation.
     bindR (item request ''task_id'') (\<lambda>task_id.
     bindR (item request ''input'') (\<lambda>v.
     bindR (item request ''capability'') (\<lambda>capability.
     Inr (request, jstr operation, jstr task_id, v, jstr capability))))))"

definition execute :: "capabilities \<Rightarrow> json \<Rightarrow> context_runtime option \<Rightarrow> json res \<times> capabilities" where
  "execute ca raw cx =
     (case request_parts raw of
        Inl e \<Rightarrow> (Inl e, ca)
      | Inr (request, operation, task_id, v, capability) \<Rightarrow>
          if capability = ''fixture.effect'' then
            (case fixture_effect (ca_rows ca) operation request of (r, rows) \<Rightarrow> (capability_answer ca operation r, ca\<lparr>ca_rows := rows\<rparr>))
          else (case run_stored ca capability task_id operation v cx of
            (r, store) \<Rightarrow> (capability_answer ca operation r, ca\<lparr>ca_store := store\<rparr>)))"

subsection \<open>The version 1 completion evaluation\<close>

definition no_facts :: facts where
  "no_facts = \<lparr>fa_journal = \<lparr>jf_entries = [], jf_analysis = new_analysis, jf_authorities = []\<rparr>, fa_receipts = [], fa_effects = Inr []\<rparr>"

definition evaluate :: "json \<Rightarrow> task_state \<Rightarrow> artifact_store \<Rightarrow> json res" where
  "evaluate spec state store =
     (let contract = lower_spec spec (ts_task_id state) (jopt id (ts_parent state)) in
      bindR (assess contract state store (Inr no_facts)) (\<lambda>results. Inr (project_v1 contract results)))"

subsection \<open>What an allowed decision may do\<close>

text \<open>The authority an allowed action stays within, read off the state, the grant and the pinned authority.\<close>

definition within_target :: "task_state \<Rightarrow> json option \<Rightarrow> json \<Rightarrow> bool" where
  "within_target state authority action \<longleftrightarrow>
     (let v = dget action ''input'' in
      open_effects state = [] \<and> (\<exists>a. authority = Some a \<and> py_mem (dget v ''workspace_id'') (lget a ''workspaces'')
        \<and> (if sget action ''capability'' = WRITE then admitted_ref state (dget v ''content_ref'') \<and> is_ok (confined (dget v ''path''))
           else is_ok (admit_exec v a))))"

definition within_effective :: "task_state \<Rightarrow> string set \<Rightarrow> json option \<Rightarrow> json \<Rightarrow> bool" where
  "within_effective state admissible authority action \<longleftrightarrow>
     (if dget action ''type'' = JStr ''INVOKE_CAPABILITY'' then
        sget action ''capability'' \<in> set CAPABILITIES \<inter> admissible
        \<and> (if sget action ''capability'' \<in> {WRITE, EXEC} then within_target state authority action else True)
      else if dget action ''type'' = JStr ''SPAWN_TASK'' then
        (\<exists>children. spawn_specs action = Inr children
          \<and> sum_list (map (\<lambda>(_, child). child_cost child) children) \<le> ts_remaining_children state
          \<and> list_all (\<lambda>(_, child). child_allowed child \<subseteq> admissible) children)
      else if dget action ''type'' = JStr ''HANDOFF'' then sget action ''specialist'' \<in> fst ` set SPECIALISTS
      else if dget action ''type'' = JStr ''WAIT'' \<and> dget action ''input_type'' = JStr ''human_response'' then
        ''human.request'' \<in> admissible \<and> ''human-request-'' @ sget action ''wait_id'' \<in> fst ` set (ts_artifacts state)
      else True)"

lemma gate_effect_Inr:
  assumes "gate_effect state authority (sget action ''capability'') (dget action ''input'') = Inr u"
  shows "within_target state authority action"
proof (cases authority)
  case None
  with assms show ?thesis
    by (auto simp: gate_effect_def bindR_eq_Inr checks_eq_Inr target_scope_def split: if_splits)
next
  case (Some a)
  show ?thesis
  proof (cases "sget action ''capability'' = WRITE")
    case True
    with assms have "open_effects state = []" "is_ok (confined (dget (dget action ''input'') ''path''))"
      "py_mem (dget (dget action ''input'') ''workspace_id'') (lget a ''workspaces'')"
      "admitted_ref state (dget (dget action ''input'') ''content_ref'')"
      by (auto simp: gate_effect_def bindR_eq_Inr checks_eq_Inr target_scope_def Some validate_write_input_def is_ok_iff)
    with True Some show ?thesis by (simp add: within_target_def)
  next
    case False
    with assms have "open_effects state = []" "is_ok (admit_exec (dget action ''input'') a)"
      "py_mem (dget (dget action ''input'') ''workspace_id'') (lget a ''workspaces'')"
      by (auto simp: gate_effect_def bindR_eq_Inr checks_eq_Inr target_scope_def Some is_ok_iff)
    with False Some show ?thesis by (simp add: within_target_def)
  qed
qed

lemma gate_spawn_Inr:
  assumes "gate_spawn state admissible decision action = Inr u"
  shows "\<exists>children. spawn_specs action = Inr children
    \<and> sum_list (map (\<lambda>(_, child). child_cost child) children) \<le> ts_remaining_children state
    \<and> list_all (\<lambda>(_, child). child_allowed child \<subseteq> admissible) children"
proof -
  from assms obtain children where s: "spawn_specs action = Inr children"
    "sum_list (map (\<lambda>(_, child). child_cost child) children) \<le> ts_remaining_children state"
    and c: "forR (\<lambda>(slot, child). seqR (raise_if (\<not> child_allowed child \<subseteq> admissible) (ValueError ''Child Task cannot expand parent authority''))
        (forR (gate_child_request state decision slot) (lget child ''completion''))) children = Inr ()"
    unfolding gate_spawn_def bindR_eq_Inr raise_if_eq_Inr by auto
  from c have "list_all (\<lambda>(_, child). child_allowed child \<subseteq> admissible) children"
    unfolding list_all_iff forR_eq_Inr by (fastforce simp: bindR_eq_Inr)
  with s show ?thesis by blast
qed

lemma gate_capability_effect:
  "sget action ''capability'' \<in> {WRITE, EXEC} \<Longrightarrow>
     gate_capability state spec contract authority action = gate_effect state authority (sget action ''capability'') (dget action ''input'')"
  unfolding gate_capability_def Let_def by (elim insertE emptyE) (simp_all add: WRITE_def EXEC_def)

lemma gate_wait_Inr:
  assumes "gate_wait state spec admissible contract action = Inr u"
  shows "''human.request'' \<in> admissible" and "''human-request-'' @ sget action ''wait_id'' \<in> fst ` set (ts_artifacts state)"
proof -
  show "''human.request'' \<in> admissible"
    using assms unfolding gate_wait_def bindR_eq_Inr raise_if_eq_Inr by blast
  from assms obtain ref where "map_of (ts_artifacts state) (''human-request-'' @ sget action ''wait_id'') = Some ref"
    unfolding gate_wait_def Let_def bindR_eq_Inr raise_if_eq_Inr by blast
  from map_of_SomeD [OF this] show "''human-request-'' @ sget action ''wait_id'' \<in> fst ` set (ts_artifacts state)" by (force simp: image_iff)
qed

lemma gate_action_Inr:
  assumes "gate_action state spec admissible contract authority decision = Inr u"
  shows "within_effective state admissible authority (dget decision ''next_action'')"
proof -
  let ?a = "dget decision ''next_action''"
  consider "dget ?a ''type'' = JStr ''INVOKE_CAPABILITY''" | "dget ?a ''type'' = JStr ''SPAWN_TASK''"
    | "dget ?a ''type'' = JStr ''HANDOFF''" | "dget ?a ''type'' = JStr ''WAIT'' \<and> dget ?a ''input_type'' = JStr ''human_response''"
    | "dget ?a ''type'' \<noteq> JStr ''INVOKE_CAPABILITY''" "dget ?a ''type'' \<noteq> JStr ''SPAWN_TASK''" "dget ?a ''type'' \<noteq> JStr ''HANDOFF''"
      "\<not> (dget ?a ''type'' = JStr ''WAIT'' \<and> dget ?a ''input_type'' = JStr ''human_response'')" by blast
  then show ?thesis
  proof cases
    case 1
    with assms have c: "sget ?a ''capability'' \<in> set CAPABILITIES \<inter> admissible"
      and g: "gate_capability state spec contract authority ?a = Inr ()"
      unfolding gate_action_def Let_def by (auto simp: bindR_eq_Inr)
    have "within_target state authority ?a" if e: "sget ?a ''capability'' \<in> {WRITE, EXEC}"
      using gate_effect_Inr [OF g [unfolded gate_capability_effect [OF e]]] .
    with 1 c show ?thesis by (simp add: within_effective_def)
  next
    case 2
    with assms have "gate_spawn state admissible decision ?a = Inr ()" by (simp add: gate_action_def Let_def)
    from gate_spawn_Inr [OF this] 2 show ?thesis by (simp add: within_effective_def)
  next
    case 3
    with assms show ?thesis by (simp add: gate_action_def Let_def within_effective_def split: if_splits)
  next
    case 4
    with assms have "gate_wait state spec admissible contract ?a = Inr ()" by (simp add: gate_action_def Let_def)
    from gate_wait_Inr [OF this] 4 show ?thesis by (simp add: within_effective_def)
  next
    case 5
    then show ?thesis unfolding within_effective_def by (simp only: if_False)
  qed
qed

text \<open>
  C7. A proposal is not authority: the policy gate answers allow only for a valid decision addressed to
  this Task, revision and turn of a running Task whose action stays within effective authority. A
  capability is a known one inside the intersection of the specification, the Task's autonomy and the
  external grant; a target write or execution additionally needs a workspace of the pinned authority, no
  effect of unknown outcome, and admitted content or a reviewed profile; spawned children fit the
  remaining allocation and none is allowed a capability its parent does not have. Every other value or
  type error of the proposal is a denial with its reason, never an exception.
\<close>

theorem policy_gate_sound:
  "case policy_gate raw state spec grant contract authority of
     Inl e \<Rightarrow> \<not> is_value_error e \<and> \<not> is_type_error e
   | Inr verdict \<Rightarrow>
       if verdict = allow_verdict then
         \<exists>decision. validate_decision raw = Inr decision \<and> dget decision ''task_id'' = JStr (ts_task_id state)
           \<and> dget decision ''turn_id'' = JStr (turn_of state) \<and> py_eq (dget decision ''task_revision'') (JInt (ts_revision state))
           \<and> ts_lifecycle state = RUNNING
           \<and> within_effective state (effective_capabilities spec grant) authority (dget decision ''next_action'')
       else \<exists>reason. verdict = deny_verdict reason"
proof (cases "gate raw state spec grant contract authority")
  case (Inl e)
  then show ?thesis by (auto simp: policy_gate_def allow_verdict_def deny_verdict_def)
next
  case (Inr u)
  then obtain decision where d: "validate_decision raw = Inr decision" "dget decision ''task_id'' = JStr (ts_task_id state)"
    "dget decision ''turn_id'' = JStr (turn_of state)" "py_eq (dget decision ''task_revision'') (JInt (ts_revision state))" "ts_lifecycle state = RUNNING"
    and g: "gate_action state spec (effective_capabilities spec grant) contract authority decision = Inr u"
    unfolding gate_def bindR_eq_Inr raise_if_eq_Inr by blast
  from gate_action_Inr [OF g] d Inr show ?thesis by (simp add: policy_gate_def)
qed

text \<open>
  The fixture effect happens once per operation: after any execution of an operation, repeating the
  request returns the same result and leaves the table as it is; a request that reuses the identity of
  another one fails, changes nothing, and the first row stays; other operations are untouched.
\<close>

lemma fixture_effect_once:
  "case fixture_effect rows operation request of
     (r, rows') \<Rightarrow> fixture_effect rows' operation request = (r, rows')
       \<and> (\<forall>op. op = operation \<or> map_of rows' op = map_of rows op)
       \<and> (case map_of rows operation of
            None \<Rightarrow> (case r of Inl e \<Rightarrow> rows' = rows | Inr _ \<Rightarrow> length rows' = Suc (length rows))
          | Some (stored, receipt) \<Rightarrow> rows' = rows
              \<and> (case r of Inl e \<Rightarrow> True | Inr x \<Rightarrow> stored = encode request \<and> x = Produced receipt []))"
  by (auto simp: fixture_effect_def Let_def split: sum.splits option.splits)

lemma worker_update_select:
  "ca_store (ca\<lparr>ca_worker := w\<rparr>) = ca_store ca" "ca_plane (ca\<lparr>ca_worker := w\<rparr>) = ca_plane ca" "ca_reader (ca\<lparr>ca_worker := w\<rparr>) = ca_reader ca"
  by simp_all

lemma dispatch_worker_refused:
  assumes "guard_context ca task_id operation v cx = Inl e"
  shows "dispatch_worker (ca\<lparr>ca_worker := Some w\<rparr>) task_id operation v cx = bindR (load_packet (ca_store ca) task_id v) (\<lambda>_. Inl e)"
proof -
  have "guard_context (ca\<lparr>ca_worker := Some w\<rparr>) task_id operation v cx = Inl e"
    using assms unfolding guard_context_def worker_update_select .
  then show ?thesis by (simp add: dispatch_worker_def)
qed

lemma run_stored_refused:
  assumes "guard_context ca task_id operation v cx = Inl e"
  shows "run_stored (ca\<lparr>ca_worker := Some w\<rparr>) capability task_id operation v cx = run_stored (ca\<lparr>ca_worker := Some w'\<rparr>) capability task_id operation v cx"
  unfolding run_stored_def run_worker_def dispatch_worker_refused [OF assms] worker_update_select by (rule refl)

lemma guard_context_Inr:
  assumes "guard_context ca task_id operation v cx = Inr u"
  shows "ca_plane ca = None \<or> (\<exists>pl c. ca_plane ca = Some pl \<and> cx = Some c \<and> ts_task_id (cx_state c) = task_id
    \<and> guard_worker pl (ca_store ca) (cx_state c) (cx_route c) (cx_spec c) (cx_admission c) (dget v ''packet_ref'') operation = Inr ())"
  using assms by (auto simp: guard_context_def bindR_eq_Inr split: option.splits)

lemma execute_select:
  "fst (execute (ca\<lparr>ca_worker := w\<rparr>) raw cx) = (case request_parts raw of Inl e \<Rightarrow> Inl e
     | Inr (request, operation, task_id, v, capability) \<Rightarrow>
         if capability = ''fixture.effect'' then capability_answer ca operation (fst (fixture_effect (ca_rows ca) operation request))
         else capability_answer ca operation (fst (run_stored (ca\<lparr>ca_worker := w\<rparr>) capability task_id operation v cx)))"
  "ca_rows (snd (execute (ca\<lparr>ca_worker := w\<rparr>) raw cx)) = (case request_parts raw of Inl e \<Rightarrow> ca_rows ca
     | Inr (request, operation, task_id, v, capability) \<Rightarrow>
         if capability = ''fixture.effect'' then snd (fixture_effect (ca_rows ca) operation request) else ca_rows ca)"
  "ca_store (snd (execute (ca\<lparr>ca_worker := w\<rparr>) raw cx)) = (case request_parts raw of Inl e \<Rightarrow> ca_store ca
     | Inr (request, operation, task_id, v, capability) \<Rightarrow>
         if capability = ''fixture.effect'' then ca_store ca else snd (run_stored (ca\<lparr>ca_worker := w\<rparr>) capability task_id operation v cx))"
  by (auto simp: execute_def capability_answer_def case_prod_unfold split: sum.splits executed.splits)

text \<open>
  No worker is dispatched past the context guard: with a Context Plane configured, unless the guard
  accepts the admitted packet for this turn, the answer, the artifacts and the fixture table are the same
  whatever the worker would do, so the worker was not consulted.
\<close>

lemma execute_worker_guarded:
  "case request_parts raw of
     Inl e \<Rightarrow> fst (execute ca raw cx) = Inl e
   | Inr (request, operation, task_id, v, capability) \<Rightarrow>
       (case guard_context ca task_id operation v cx of
          Inl e \<Rightarrow> (let x = execute (ca\<lparr>ca_worker := Some w\<rparr>) raw cx; y = execute (ca\<lparr>ca_worker := Some w'\<rparr>) raw cx in
            fst x = fst y \<and> ca_store (snd x) = ca_store (snd y) \<and> ca_rows (snd x) = ca_rows (snd y))
        | Inr _ \<Rightarrow> ca_plane ca = None \<or> (\<exists>pl c. ca_plane ca = Some pl \<and> cx = Some c \<and> ts_task_id (cx_state c) = task_id
            \<and> guard_worker pl (ca_store ca) (cx_state c) (cx_route c) (cx_spec c) (cx_admission c) (dget v ''packet_ref'') operation = Inr ()))"
proof (cases "request_parts raw")
  case (Inl e)
  then show ?thesis by (simp add: execute_def)
next
  case (Inr p)
  obtain request operation task_id v capability where p: "p = (request, operation, task_id, v, capability)" by (cases p) auto
  show ?thesis
  proof (cases "guard_context ca task_id operation v cx")
    case refused: (Inl e)
    show ?thesis unfolding Let_def execute_select Inr p refused sum.case prod.case
      using run_stored_refused [OF refused, of w capability w'] by simp
  next
    case ok: (Inr u)
    from guard_context_Inr [OF ok] show ?thesis unfolding Inr p sum.case prod.case ok .
  qed
qed

end
