(* ===== verification/Handlers.thy ===== *)
theory Handlers
  imports Execution
begin

section \<open>The shared handlers of a Task\<close>

text \<open>
  The handlers of the workflow object that run beside its main execution: \<open>status\<close>, \<open>submit_input\<close>,
  \<open>submit_human_response\<close>, \<open>amend_contract\<close> and \<open>cancel_effect\<close> of runtime/kernel/workflow.py, and
  \<open>inspect\<close>, \<open>artifact\<close>, \<open>cancel\<close> and \<open>submit_workspace_result\<close> of runtime/kernel/control.py.

  The durable runtime is third-party code. What a handler uses of it is the record \<open>shared\<close>: the Task
  state the main execution published last, the artifact store, the durable promises (resolved once,
  never again) and the cancellation requests. \<open>runtime\<close> holds the two errors the runtime makes itself:
  \<open>give_up\<close>, what a journaled step raises once its attempts are exhausted, and \<open>completed\<close>, what
  resolving an already resolved promise raises; both are terminal errors.

  \<open>amend_contract\<close> awaits between looking at its promise and resolving it, so other handlers may run
  between the two; it is the pair \<open>amend_begin\<close> and \<open>amend_finish\<close> with the value it carries across.
\<close>

record runtime =
  give_up :: "exn \<Rightarrow> exn"
  completed :: exn

record shared =
  sh_key :: string
  sh_task :: "task_state option"
  sh_store :: artifact_store
  sh_promises :: "string \<rightharpoonup> json"
  sh_cancelled :: "string list"

fun is_terminal :: "exn \<Rightarrow> bool" where
  "is_terminal (TerminalError m n) = True"
| "is_terminal e = False"

definition stepR :: "runtime \<Rightarrow> 'a res \<Rightarrow> 'a res" where
  "stepR rt m = (case m of Inl e \<Rightarrow> Inl (if is_terminal e then e else give_up rt e) | Inr x \<Rightarrow> Inr x)"

text \<open>\<open>except (ValueError, TypeError) as error: raise TerminalError (..., status_code=400)\<close>.\<close>

definition rejectR :: "(exn \<Rightarrow> string) \<Rightarrow> 'a res \<Rightarrow> 'a res" where
  "rejectR msg m = (case m of Inl e \<Rightarrow> Inl (if is_value_error e \<or> is_type_error e then TerminalError (msg e) 400 else e) | Inr x \<Rightarrow> Inr x)"

definition resolve_promise :: "runtime \<Rightarrow> string \<Rightarrow> json \<Rightarrow> shared \<Rightarrow> unit res \<times> shared" where
  "resolve_promise rt name v sh =
     (if sh_promises sh name = None then (Inr (), sh\<lparr>sh_promises := (sh_promises sh)(name \<mapsto> v)\<rparr>) else (Inl (completed rt), sh))"

fun lifecycle_str :: "lifecycle \<Rightarrow> string" where
  "lifecycle_str RUNNING = ''RUNNING''"
| "lifecycle_str WAITING = ''WAITING''"
| "lifecycle_str COMPLETED = ''COMPLETED''"
| "lifecycle_str FAILED = ''FAILED''"
| "lifecycle_str CANCELLED = ''CANCELLED''"

definition ended :: "lifecycle \<Rightarrow> bool" where
  "ended l \<longleftrightarrow> l = COMPLETED \<or> l = FAILED \<or> l = CANCELLED"

fun wait_type :: "wait \<Rightarrow> string" where
  "wait_type (WaitInput i ty r p q) = ty"
| "wait_type (WaitChild c r) = ''TaskResult''"
| "wait_type (WaitChildren cs r) = ''TaskResults''"
| "wait_type (WaitWorkspace r p q) = ''workspace_result''"

datatype status_view = Published task_state | TaskLookup string

definition status :: "shared \<Rightarrow> status_view" where
  "status sh = (case sh_task sh of Some s \<Rightarrow> Published s | None \<Rightarrow> TaskLookup (sh_key sh))"

definition waiting_on :: "shared \<Rightarrow> string \<Rightarrow> (task_state \<times> wait) res" where
  "waiting_on sh refusal =
     (case sh_task sh of
        None \<Rightarrow> Inl (TerminalError refusal 409)
      | Some s \<Rightarrow>
          if ts_lifecycle s \<noteq> WAITING then Inl (TerminalError refusal 409)
          else (case ts_wait s of None \<Rightarrow> Inl (TypeError ''NoneType object is not subscriptable'') | Some w \<Rightarrow> Inr (s, w)))"

definition finish :: "unit res \<times> shared \<Rightarrow> json \<Rightarrow> json res \<times> shared" where
  "finish r answer = (bindR (fst r) (\<lambda>_. Inr answer), snd r)"

subsection \<open>Input\<close>

definition input_payload :: "json \<Rightarrow> json res" where
  "input_payload request =
     rejectR exn_str
       (bindR (unpack request ''ExternalInput'') (\<lambda>p.
        bindR (py_fields p [''wait_id'', ''task_revision'', ''input_type'', ''value''] []) (\<lambda>payload.
        seqR (checks [voidR (py_identifier (dget payload ''wait_id'')), voidR (py_text (dget payload ''value'') 512),
          raise_if (\<not> is_int (dget payload ''task_revision'') \<or> dget payload ''input_type'' \<noteq> JStr ''text'') (ValueError ''Invalid input revision/type'')])
        (Inr payload))))"

definition input_target :: "shared \<Rightarrow> json \<Rightarrow> string res" where
  "input_target sh payload =
     bindR (waiting_on sh ''Task is not waiting'') (\<lambda>(s, w).
     case w of
       WaitInput i ty r promise q \<Rightarrow>
         seqR (raise_if (ty \<noteq> ''text'') (TerminalError ''This wait is resolved by a child TaskResult'' 409))
         (seqR (raise_if (dget payload ''wait_id'' \<noteq> JStr i \<or> dget payload ''task_revision'' \<noteq> JInt r \<or> dget payload ''input_type'' \<noteq> JStr ty)
                 (TerminalError ''Input does not match current wait'' 409))
         (Inr promise))
     | _ \<Rightarrow> Inl (TerminalError ''This wait is resolved by a child TaskResult'' 409))"

definition submit_input :: "runtime \<Rightarrow> json \<Rightarrow> shared \<Rightarrow> json res \<times> shared" where
  "submit_input rt request sh =
     (case bindR (input_payload request) (\<lambda>p. bindR (input_target sh p) (\<lambda>promise. Inr (p, promise))) of
        Inl e \<Rightarrow> (Inl e, sh)
      | Inr (payload, promise) \<Rightarrow>
          finish (resolve_promise rt promise payload sh)
            (message ''InputReceipt'' (JObj [(''wait_id'', dget payload ''wait_id''), (''outcome'', JStr ''ACCEPTED'')])))"

definition human_target :: "runtime \<Rightarrow> shared \<Rightarrow> json \<Rightarrow> (string \<times> json) res" where
  "human_target rt sh request =
     bindR (waiting_on sh ''Task is not waiting'') (\<lambda>(s, w).
     case w of
       WaitInput i ty r promise q \<Rightarrow>
         seqR (raise_if (ty \<noteq> ''human_response'') (TerminalError ''Not a human decision wait'' 409))
         (case q of None \<Rightarrow> Inl (KeyError ''request_ref'')
          | Some ref \<Rightarrow>
              bindR (stepR rt (read_json (sh_store sh) (sh_key sh) (JStr ref))) (\<lambda>accepted.
              bindR (rejectR exn_str (validate_response request accepted (sh_key sh))) (\<lambda>response. Inr (promise, response))))
     | _ \<Rightarrow> Inl (TerminalError ''Not a human decision wait'' 409))"

definition submit_human_response :: "runtime \<Rightarrow> json \<Rightarrow> shared \<Rightarrow> json res \<times> shared" where
  "submit_human_response rt request sh =
     (case human_target rt sh request of
        Inl e \<Rightarrow> (Inl e, sh)
      | Inr (promise, response) \<Rightarrow>
          finish (resolve_promise rt promise request sh)
            (message ''InputReceipt'' (JObj [(''request_id'', dget response ''request_id''), (''outcome'', JStr ''ACCEPTED'')])))"

subsection \<open>Amendments\<close>

definition contract_promise :: "int \<Rightarrow> string" where
  "contract_promise revision = ''contract/'' @ show_int revision"

definition amend_value :: "string \<Rightarrow> json \<Rightarrow> json" where
  "amend_value task_id request =
     JObj [(''submission'', request), (''action_ref'', JStr (mk_ref task_id (sha256_hex (encode request))))]"

definition amend_receipt :: "string \<Rightarrow> json \<Rightarrow> string \<Rightarrow> json" where
  "amend_receipt task_id submitted out = message ''AmendmentReceipt'' (JObj
     [(''task_id'', JStr task_id), (''request_id'', dget submitted ''request_id''), (''from_revision'', dget submitted ''from_revision''),
      (''to_revision'', JInt (jint (dget submitted ''from_revision'') + 1)), (''outcome'', JStr out)])"

definition already_amended :: "int \<Rightarrow> exn" where
  "already_amended revision = TerminalError (''Contract revision '' @ show_int revision @ '' was already amended by another request'') 409"

fun amend_status :: "exn \<Rightarrow> (nat \<times> string) option" where
  "amend_status (AmendmentDenied m) = Some (403, m)"
| "amend_status (AmendmentConflict m) = Some (409, m)"
| "amend_status e = (if is_value_error e \<or> is_type_error e then Some (400, exn_str e) else None)"

definition check_amendment :: "artifact_store \<Rightarrow> string \<Rightarrow> task_state \<Rightarrow> json \<Rightarrow> json \<Rightarrow> string \<Rightarrow> (nat \<times> string) res" where
  "check_amendment store task_id state actor submitted action_ref =
     (case (ts_authority_ref state, ts_contract_ref state) of
        (Some aref, Some cref) \<Rightarrow>
          bindR (read_json store task_id (JStr aref)) (\<lambda>raw.
          bindR (validate_authority raw task_id) (\<lambda>authority.
          let m = mutating (map jstr (lget authority ''capabilities'')) in
          bindR (read_json store task_id (JStr cref)) (\<lambda>rawc.
          bindR (validate_contract rawc task_id m) (\<lambda>contract.
          case apply_amendment contract cref actor submitted action_ref state m of
            Inr _ \<Rightarrow> Inr (200, [])
          | Inl e \<Rightarrow> (case amend_status e of Some v \<Rightarrow> Inr v | None \<Rightarrow> Inl e)))))
      | (None, _) \<Rightarrow> Inl (KeyError ''authority_ref'')
      | _ \<Rightarrow> Inl (KeyError ''contract_ref''))"

record pending =
  pe_submitted :: json
  pe_value :: json

datatype begun = Answered json | Pending_amendment pending

definition amend_guard :: "runtime \<Rightarrow> shared \<Rightarrow> task_state \<Rightarrow> json \<Rightarrow> json \<Rightarrow> json \<Rightarrow> unit res" where
  "amend_guard rt sh state actor submitted value =
     seqR (raise_if (ended (ts_lifecycle state)) (TerminalError ''Task is terminal; its contract is closed'' 409))
     (seqR (raise_if (\<not> py_eq (dget submitted ''from_revision'') (jopt JInt (ts_contract_revision state))) (TerminalError ''Stale contract revision'' 409))
     (bindR (stepR rt (check_amendment (sh_store sh) (sh_key sh) state actor submitted (sget value ''action_ref''))) (\<lambda>(code, reason).
      raise_if (code \<noteq> 200) (TerminalError reason code))))"

definition amend_begin :: "runtime \<Rightarrow> json \<Rightarrow> shared \<Rightarrow> begun res \<times> shared" where
  "amend_begin rt request sh =
     (case sh_task sh of
        None \<Rightarrow> (Inl (TerminalError ''Task unavailable'' 404), sh)
      | Some state \<Rightarrow>
          (case rejectR exn_str (validate_amendment_submission request (sh_key sh)) of
             Inl e \<Rightarrow> (Inl e, sh)
           | Inr (actor, submitted) \<Rightarrow>
               let revision = jint (dget submitted ''from_revision'') + 1; value = amend_value (sh_key sh) request in
               (case sh_promises sh (contract_promise revision) of
                  Some v \<Rightarrow> (if py_eq v value then Inr (Answered (amend_receipt (sh_key sh) submitted ''ALREADY_SUBMITTED''))
                             else Inl (already_amended revision), sh)
                | None \<Rightarrow>
                    (case amend_guard rt sh state actor submitted value of
                       Inl e \<Rightarrow> (Inl e, sh)
                     | Inr _ \<Rightarrow>
                         (case put_json (sh_store sh) (sh_key sh) request of (r, store) \<Rightarrow>
                            (bindR (stepR rt r) (\<lambda>ref.
                               if JStr ref \<noteq> dget value ''action_ref'' then Inl (TerminalError ''Amendment action reference mismatch'' 500)
                               else Inr (Pending_amendment \<lparr>pe_submitted = submitted, pe_value = value\<rparr>)),
                             sh\<lparr>sh_store := store\<rparr>))))))"

definition amend_finish :: "runtime \<Rightarrow> pending \<Rightarrow> shared \<Rightarrow> json res \<times> shared" where
  "amend_finish rt p sh =
     (let revision = jint (dget (pe_submitted p) ''from_revision'') + 1; name = contract_promise revision in
      case resolve_promise rt name (pe_value p) sh of
        (Inr _, sh') \<Rightarrow> (Inr (amend_receipt (sh_key sh) (pe_submitted p) ''SUBMITTED''), sh')
      | (Inl e, sh') \<Rightarrow>
          if \<not> is_terminal e then (Inl e, sh')
          else if (case sh_promises sh' name of None \<Rightarrow> False | Some v \<Rightarrow> py_eq v (pe_value p))
          then (Inr (amend_receipt (sh_key sh) (pe_submitted p) ''ALREADY_SUBMITTED''), sh')
          else (Inl (already_amended revision), sh'))"

subsection \<open>Cancelling an effect\<close>

definition CANCELLABLE :: "string list" where
  "CANCELLABLE = [''admitted'', ''awaiting_approval'', ''dispatched'', ''running'']"

definition cancel_promise :: "string \<Rightarrow> string" where
  "cancel_promise operation = ''effect-cancel/'' @ operation"

definition cancel_operation :: "json \<Rightarrow> string res" where
  "cancel_operation request =
     rejectR exn_str
       (bindR (unpack request ''EffectCancelRequest'') (\<lambda>p.
        bindR (py_fields p [''operation_id''] []) (\<lambda>b.
        bindR (py_text (dget b ''operation_id'') 100) (\<lambda>v. Inr (jstr v)))))"

definition cancellable :: "shared \<Rightarrow> string \<Rightarrow> bool" where
  "cancellable sh operation =
     (case sh_task sh of None \<Rightarrow> False
      | Some s \<Rightarrow> (case map_of (ts_effects s) operation of None \<Rightarrow> False
          | Some effect \<Rightarrow> py_true effect \<and> dget effect ''status'' \<in> JStr ` set CANCELLABLE))"

definition cancel_receipt :: "string \<Rightarrow> string \<Rightarrow> json" where
  "cancel_receipt operation out = message ''EffectCancelReceipt'' (JObj [(''operation_id'', JStr operation), (''outcome'', JStr out)])"

definition cancel_effect :: "runtime \<Rightarrow> json \<Rightarrow> shared \<Rightarrow> json res \<times> shared" where
  "cancel_effect rt request sh =
     (case cancel_operation request of
        Inl e \<Rightarrow> (Inl e, sh)
      | Inr operation \<Rightarrow>
          if \<not> cancellable sh operation then (Inl (TerminalError ''No cancellable effect with this operation'' 409), sh)
          else (case resolve_promise rt (cancel_promise operation) (JObj [(''operation_id'', JStr operation)]) sh of
             (Inr _, sh') \<Rightarrow> (Inr (cancel_receipt operation ''REQUESTED''), sh')
           | (Inl e, sh') \<Rightarrow> (if is_terminal e then Inr (cancel_receipt operation ''ALREADY_REQUESTED'') else Inl e, sh')))"

subsection \<open>Inspection and control\<close>

fun wait_view :: "wait \<Rightarrow> json" where
  "wait_view (WaitInput i ty r p q) = JObj ([(''wait_id'', JStr i), (''input_type'', JStr ty), (''task_revision'', JInt r)]
     @ (case q of None \<Rightarrow> [] | Some ref \<Rightarrow> [(''request_ref'', JStr ref)]))"
| "wait_view (WaitChild c r) = JObj [(''child_id'', JStr c), (''input_type'', JStr ''TaskResult''), (''task_revision'', JInt r)]"
| "wait_view (WaitChildren cs r) = JObj [(''child_ids'', JList (map JStr cs)), (''input_type'', JStr ''TaskResults''),
     (''condition'', JStr ''ALL_TERMINAL''), (''task_revision'', JInt r)]"
| "wait_view (WaitWorkspace r p q) = JObj [(''input_type'', JStr ''workspace_result''), (''task_revision'', JInt r), (''request_ref'', JStr q)]"

definition read_control :: "runtime \<Rightarrow> shared \<Rightarrow> string \<Rightarrow> json res" where
  "read_control rt sh ref = stepR rt (read_json (sh_store sh) (sh_key sh) (JStr ref))"

definition read_optional :: "runtime \<Rightarrow> shared \<Rightarrow> string option \<Rightarrow> json res" where
  "read_optional rt sh ref = (case ref of None \<Rightarrow> Inr JNull | Some r \<Rightarrow> if r = [] then Inr JNull else read_control rt sh r)"

definition pending_request :: "string \<Rightarrow> wait option \<Rightarrow> string option" where
  "pending_request ty w =
     (case w of Some (WaitInput i t r p (Some ref)) \<Rightarrow> if t = ty then Some ref else None
      | Some (WaitWorkspace r p ref) \<Rightarrow> if ty = ''workspace_result'' then Some ref else None
      | _ \<Rightarrow> None)"

definition inspect_view :: "shared \<Rightarrow> task_state \<Rightarrow> json \<Rightarrow> json \<Rightarrow> json list \<Rightarrow> json" where
  "inspect_view sh s spec objective docs = JObj
     [(''task_id'', JStr (sh_key sh)), (''objective'', objective), (''accepted_spec'', spec),
      (''request_digest'', jopt JStr (ts_request_digest s)), (''lifecycle'', JStr (lifecycle_str (ts_lifecycle s))),
      (''revision'', JInt (ts_revision s)), (''blocking_dependency'', jopt wait_view (ts_wait s)),
      (''children'', JObj (ts_children s)), (''artifacts'', JObj (map (\<lambda>(k, r). (k, JStr r)) (ts_artifacts s))),
      (''result_ref'', jopt JStr (ts_result_ref s)), (''completion'', docs ! 0), (''result'', docs ! 1),
      (''contract_revision'', jopt JInt (ts_contract_revision s)), (''contract'', docs ! 2), (''journal_length'', JInt (ts_journal_length s)),
      (''pending_human_decision'', docs ! 3), (''pending_workspace_read'', docs ! 4)]"

definition inspect :: "runtime \<Rightarrow> shared \<Rightarrow> json res" where
  "inspect rt sh =
     (case sh_task sh of
        None \<Rightarrow> Inr (JObj [(''task_id'', JStr (sh_key sh)), (''lifecycle'', JStr ''UNAVAILABLE'')])
      | Some s \<Rightarrow>
          bindR (read_control rt sh (ts_spec_ref s)) (\<lambda>spec.
          bindR (bindR (item spec ''payload'') (\<lambda>p. item p ''objective'')) (\<lambda>objective.
          bindR (mapR (read_optional rt sh) [ts_completion_ref s, ts_result_ref s, ts_contract_ref s,
                   pending_request ''human_response'' (ts_wait s), pending_request ''workspace_result'' (ts_wait s)]) (\<lambda>docs.
          Inr (inspect_view sh s spec objective docs)))))"

definition deliverable :: "shared \<Rightarrow> json \<Rightarrow> string res" where
  "deliverable sh name =
     (case sh_task sh of
        None \<Rightarrow> Inl (TerminalError ''Artifact unavailable'' 404)
      | Some s \<Rightarrow>
          bindR (in_strs name (map fst (ts_artifacts s))) (\<lambda>known.
          case (if known then map_of (ts_artifacts s) (jstr name) else None) of
            Some ref \<Rightarrow> if ref = [] then Inl (TerminalError ''Artifact unavailable'' 404) else Inr ref
          | None \<Rightarrow> Inl (TerminalError ''Artifact unavailable'' 404)))"

definition read_content :: "shared \<Rightarrow> string \<Rightarrow> string res" where
  "read_content sh ref =
     bindR (read (sh_store sh) (sh_key sh) (JStr ref)) (\<lambda>content.
     seqR (raise_if (16384 < length content) (TerminalError ''Artifact exceeds control response budget'' 400))
     (decode_utf8 content))"

definition artifact :: "runtime \<Rightarrow> json \<Rightarrow> shared \<Rightarrow> json res" where
  "artifact rt request sh =
     rejectR (\<lambda>_. ''Invalid artifact request'')
       (seqR (py_fields request [''name''] [])
       (bindR (deliverable sh (dget request ''name'')) (\<lambda>ref.
        bindR (stepR rt (read_content sh ref)) (\<lambda>content.
        Inr (JObj [(''task_id'', JStr (sh_key sh)), (''name'', dget request ''name''), (''ref'', JStr ref), (''content'', JStr content)])))))"

definition cancel_task :: "shared \<Rightarrow> json res \<times> shared" where
  "cancel_task sh =
     (case sh_task sh of
        None \<Rightarrow> (Inl (TerminalError ''Task unavailable'' 404), sh)
      | Some s \<Rightarrow>
          if ended (ts_lifecycle s) then
            (Inr (JObj [(''task_id'', JStr (sh_key sh)), (''outcome'', JStr ''ALREADY_TERMINAL''), (''lifecycle'', JStr (lifecycle_str (ts_lifecycle s)))]), sh)
          else (case ts_invocation_id s of
             None \<Rightarrow> (Inl (TerminalError ''Cancellation identity unavailable for legacy Task'' 409), sh)
           | Some invocation \<Rightarrow>
               if invocation = [] then (Inl (TerminalError ''Cancellation identity unavailable for legacy Task'' 409), sh)
               else (Inr (JObj [(''task_id'', JStr (sh_key sh)), (''outcome'', JStr ''CANCELLATION_REQUESTED'')]),
                 sh\<lparr>sh_cancelled := sh_cancelled sh @ [invocation]\<rparr>)))"

definition workspace_target :: "runtime \<Rightarrow> shared \<Rightarrow> json \<Rightarrow> string res" where
  "workspace_target rt sh request =
     (let refuse = Inl (TerminalError ''Task is not waiting for workspace result'' 409) in
      case sh_task sh of
        None \<Rightarrow> refuse
      | Some s \<Rightarrow>
          (case (ts_lifecycle s, ts_wait s) of
             (WAITING, Some (WaitWorkspace r promise ref)) \<Rightarrow>
               rejectR (\<lambda>_. ''Invalid workspace result'')
                 (bindR (read_control rt sh ref) (\<lambda>accepted.
                  bindR (item accepted ''payload'') (\<lambda>p.
                  seqR (validate_read_result request p) (Inr promise))))
           | _ \<Rightarrow> refuse))"

definition submit_workspace_result :: "runtime \<Rightarrow> json \<Rightarrow> shared \<Rightarrow> json res \<times> shared" where
  "submit_workspace_result rt request sh =
     (case workspace_target rt sh request of
        Inl e \<Rightarrow> (Inl e, sh)
      | Inr promise \<Rightarrow> finish (resolve_promise rt promise request sh) (message ''InputReceipt'' (JObj [(''outcome'', JStr ''ACCEPTED'')])))"

subsection \<open>Interleaved handlers\<close>

text \<open>
  Any schedule of the shared handlers beside a main execution that publishes Task states and retains
  artifacts. \<open>Amend_finish i\<close> lets the \<open>i\<close>-th pending amendment continue; \<open>wo_submitted\<close> records, for every
  receipt SUBMITTED, the revision it names and the value it carried.
\<close>

datatype event =
    Submit_input json
  | Submit_human_response json
  | Submit_workspace_result json
  | Cancel_effect json
  | Cancel_task
  | Amend_begin json
  | Amend_finish nat
  | Publish task_state
  | Retain string

record world =
  wo_shared :: shared
  wo_pending :: "pending list"
  wo_submitted :: "(int \<times> json) list"

definition finish_amendment :: "runtime \<Rightarrow> nat \<Rightarrow> world \<Rightarrow> world" where
  "finish_amendment rt i w =
     (if length (wo_pending w) \<le> i then w
      else let p = wo_pending w ! i; sh = wo_shared w; revision = jint (dget (pe_submitted p) ''from_revision'') + 1 in
        case amend_finish rt p sh of (r, sh') \<Rightarrow>
          w\<lparr>wo_shared := sh', wo_pending := take i (wo_pending w) @ drop (Suc i) (wo_pending w),
            wo_submitted := (if r = Inr (amend_receipt (sh_key sh) (pe_submitted p) ''SUBMITTED'')
                             then [(revision, pe_value p)] else []) @ wo_submitted w\<rparr>)"

fun happen :: "runtime \<Rightarrow> event \<Rightarrow> world \<Rightarrow> world" where
  "happen rt (Submit_input v) w = w\<lparr>wo_shared := snd (submit_input rt v (wo_shared w))\<rparr>"
| "happen rt (Submit_human_response v) w = w\<lparr>wo_shared := snd (submit_human_response rt v (wo_shared w))\<rparr>"
| "happen rt (Submit_workspace_result v) w = w\<lparr>wo_shared := snd (submit_workspace_result rt v (wo_shared w))\<rparr>"
| "happen rt (Cancel_effect v) w = w\<lparr>wo_shared := snd (cancel_effect rt v (wo_shared w))\<rparr>"
| "happen rt Cancel_task w = w\<lparr>wo_shared := snd (cancel_task (wo_shared w))\<rparr>"
| "happen rt (Amend_begin v) w =
     (case amend_begin rt v (wo_shared w) of (r, sh) \<Rightarrow>
        w\<lparr>wo_shared := sh, wo_pending := wo_pending w @ (case r of Inr (Pending_amendment p) \<Rightarrow> [p] | _ \<Rightarrow> [])\<rparr>)"
| "happen rt (Amend_finish i) w = finish_amendment rt i w"
| "happen rt (Publish s) w = w\<lparr>wo_shared := (wo_shared w)\<lparr>sh_task := Some s\<rparr>\<rparr>"
| "happen rt (Retain c) w = w\<lparr>wo_shared := (wo_shared w)\<lparr>sh_store := snd (put (sh_store (wo_shared w)) (sh_key (wo_shared w)) c)\<rparr>\<rparr>"

abbreviation wo_promises :: "world \<Rightarrow> string \<rightharpoonup> json" where
  "wo_promises w \<equiv> sh_promises (wo_shared w)"

lemma resolve_promise_once:
  "sh_promises sh \<subseteq>\<^sub>m sh_promises (snd (resolve_promise rt name v sh))"
  "fst (resolve_promise rt name v sh) = Inr () \<Longrightarrow> sh_promises sh name = None \<and> sh_promises (snd (resolve_promise rt name v sh)) name = Some v"
  "sh_task (snd (resolve_promise rt name v sh)) = sh_task sh" "sh_store (snd (resolve_promise rt name v sh)) = sh_store sh"
  by (auto simp: resolve_promise_def map_le_def split: if_splits)

lemma resolve_promise_le: "resolve_promise rt name v sh = (r, sh') \<Longrightarrow> sh_promises sh \<subseteq>\<^sub>m sh_promises sh'"
  using resolve_promise_once(1) [of sh rt name v] by simp

lemma handler_promises:
  "sh_promises sh \<subseteq>\<^sub>m sh_promises (snd (submit_input rt v sh))"
  "sh_promises sh \<subseteq>\<^sub>m sh_promises (snd (submit_human_response rt v sh))"
  "sh_promises sh \<subseteq>\<^sub>m sh_promises (snd (submit_workspace_result rt v sh))"
  "sh_promises sh \<subseteq>\<^sub>m sh_promises (snd (cancel_effect rt v sh))"
  "sh_promises (snd (cancel_task sh)) = sh_promises sh"
  "sh_promises (snd (amend_begin rt v sh)) = sh_promises sh"
proof -
  note r = resolve_promise_once(1)
  show "sh_promises sh \<subseteq>\<^sub>m sh_promises (snd (submit_input rt v sh))"
    unfolding submit_input_def by (auto simp: finish_def r split: sum.split)
  show "sh_promises sh \<subseteq>\<^sub>m sh_promises (snd (submit_human_response rt v sh))"
    unfolding submit_human_response_def by (auto simp: finish_def r split: sum.split)
  show "sh_promises sh \<subseteq>\<^sub>m sh_promises (snd (submit_workspace_result rt v sh))"
    unfolding submit_workspace_result_def by (auto simp: finish_def r split: sum.split)
  show "sh_promises sh \<subseteq>\<^sub>m sh_promises (snd (cancel_effect rt v sh))"
    unfolding cancel_effect_def by (auto split: sum.split prod.split dest: resolve_promise_le)
  show "sh_promises (snd (cancel_task sh)) = sh_promises sh"
    unfolding cancel_task_def by (simp split: option.split)
  show "sh_promises (snd (amend_begin rt v sh)) = sh_promises sh"
    unfolding amend_begin_def Let_def by (auto split: option.split sum.split prod.split)
qed

lemma amend_finish_promises:
  assumes "amend_finish rt p sh = (r, sh')"
  shows "sh_promises sh \<subseteq>\<^sub>m sh_promises sh'"
proof -
  obtain u sh1 where u: "resolve_promise rt (contract_promise (jint (dget (pe_submitted p) ''from_revision'') + 1)) (pe_value p) sh = (u, sh1)" by force
  with assms have "sh' = sh1" by (auto simp: amend_finish_def Let_def split: sum.splits if_splits)
  with resolve_promise_le [OF u] show ?thesis by simp
qed

lemma amend_receipt_differs: "amend_receipt k s ''SUBMITTED'' \<noteq> amend_receipt k s ''ALREADY_SUBMITTED''"
  by (simp add: amend_receipt_def message_def)

lemma amend_finish_submitted:
  assumes "amend_finish rt p sh = (Inr (amend_receipt (sh_key sh) (pe_submitted p) ''SUBMITTED''), sh')"
  shows "sh_promises sh (contract_promise (jint (dget (pe_submitted p) ''from_revision'') + 1)) = None"
    and "sh_promises sh' (contract_promise (jint (dget (pe_submitted p) ''from_revision'') + 1)) = Some (pe_value p)"
proof -
  obtain u sh1 where u: "resolve_promise rt (contract_promise (jint (dget (pe_submitted p) ''from_revision'') + 1)) (pe_value p) sh = (u, sh1)" by force
  have "u = Inr ()" "sh' = sh1"
    using assms u amend_receipt_differs [of "sh_key sh" "pe_submitted p"]
    by (cases u; auto simp: amend_finish_def Let_def split: if_splits)+
  with u resolve_promise_once(2) [of rt "contract_promise (jint (dget (pe_submitted p) ''from_revision'') + 1)" "pe_value p" sh]
  show "sh_promises sh (contract_promise (jint (dget (pe_submitted p) ''from_revision'') + 1)) = None"
    and "sh_promises sh' (contract_promise (jint (dget (pe_submitted p) ''from_revision'') + 1)) = Some (pe_value p)" by simp_all
qed

definition submitted_once :: "world \<Rightarrow> bool" where
  "submitted_once w \<longleftrightarrow> distinct (map fst (wo_submitted w)) \<and> list_all (\<lambda>(r, v). wo_promises w (contract_promise r) = Some v) (wo_submitted w)"

lemma kept_promises:
  assumes "m \<subseteq>\<^sub>m m'"
  shows "list_all (\<lambda>(r, v). m (f r) = Some v) xs \<Longrightarrow> list_all (\<lambda>(r, v). m' (f r) = Some v) xs"
proof (induction xs)
  case (Cons x xs)
  obtain r v where x: "x = (r, v)" by force
  with Cons.prems have "m (f r) = Some v" by simp
  then have "m' (f r) = Some v" using assms by (auto simp: map_le_def dom_def)
  with Cons x show ?case by simp
qed simp

lemma submitted_once_mono:
  assumes "submitted_once w" and "wo_promises w \<subseteq>\<^sub>m wo_promises w'" and "wo_submitted w' = wo_submitted w"
  shows "submitted_once w'"
  using assms kept_promises [OF assms(2), of contract_promise "wo_submitted w"] unfolding submitted_once_def by simp

lemma finish_amendment_keeps:
  "wo_promises w \<subseteq>\<^sub>m wo_promises (finish_amendment rt i w)"
  "submitted_once w \<Longrightarrow> submitted_once (finish_amendment rt i w)"
proof -
  let ?p = "wo_pending w ! i" and ?sh = "wo_shared w"
  let ?rev = "jint (dget (pe_submitted ?p) ''from_revision'') + 1"
  obtain r sh' where f: "amend_finish rt ?p ?sh = (r, sh')" by force
  note le = amend_finish_promises [OF f]
  show p: "wo_promises w \<subseteq>\<^sub>m wo_promises (finish_amendment rt i w)"
    using le f by (auto simp: finish_amendment_def Let_def map_le_def)
  assume once: "submitted_once w"
  show "submitted_once (finish_amendment rt i w)"
  proof (cases "i < length (wo_pending w) \<and> r = Inr (amend_receipt (sh_key ?sh) (pe_submitted ?p) ''SUBMITTED'')")
    case False
    then have "wo_submitted (finish_amendment rt i w) = wo_submitted w" using f by (auto simp: finish_amendment_def Let_def)
    from submitted_once_mono [OF once p this] show ?thesis .
  next
    case True
    with f have "amend_finish rt ?p ?sh = (Inr (amend_receipt (sh_key ?sh) (pe_submitted ?p) ''SUBMITTED''), sh')" by simp
    note s = amend_finish_submitted [OF this]
    have w': "wo_submitted (finish_amendment rt i w) = (?rev, pe_value ?p) # wo_submitted w" "wo_shared (finish_amendment rt i w) = sh'"
      using True f by (auto simp: finish_amendment_def Let_def)
    have "?rev \<notin> fst ` set (wo_submitted w)"
      using once s(1) by (fastforce simp: submitted_once_def list_all_iff)
    with once s(2) kept_promises [OF le, of contract_promise "wo_submitted w"] show ?thesis unfolding submitted_once_def w' by simp
  qed
qed

lemma happen_keeps:
  "wo_promises w \<subseteq>\<^sub>m wo_promises (happen rt e w)"
  "submitted_once w \<Longrightarrow> submitted_once (happen rt e w)"
proof -
  show p: "wo_promises w \<subseteq>\<^sub>m wo_promises (happen rt e w)"
  proof (cases e)
    case (Amend_begin v)
    then show ?thesis using handler_promises(6) [of rt v "wo_shared w"] by (simp add: case_prod_unfold)
  qed (simp_all add: handler_promises finish_amendment_keeps(1))
  assume "submitted_once w"
  then show "submitted_once (happen rt e w)"
  proof (cases e)
    case (Amend_finish i)
    with \<open>submitted_once w\<close> show ?thesis by (simp add: finish_amendment_keeps(2))
  qed (rule submitted_once_mono [OF _ p], simp, simp split: prod.split)+
qed

text \<open>
  C10. Durable promises are written once under every interleaving of the handlers and the main execution:
  whatever was resolved stays as it is, and a contract revision is taken by at most one amendment. Every
  receipt SUBMITTED names another revision, and the promise of that revision holds exactly the submission
  the receipt was given for, so a competing amendment of the same revision can only be told that it came
  too late or that it repeats the first.
\<close>

theorem amendments_compare_and_set:
  "let w' = fold (happen rt) events (w\<lparr>wo_submitted := []\<rparr>) in
     wo_promises w \<subseteq>\<^sub>m wo_promises w' \<and> distinct (map fst (wo_submitted w'))
     \<and> list_all (\<lambda>(revision, value). wo_promises w' (contract_promise revision) = Some value) (wo_submitted w')"
proof -
  have "wo_promises w \<subseteq>\<^sub>m wo_promises (fold (happen rt) events v) \<and> submitted_once (fold (happen rt) events v)"
    if "wo_promises w \<subseteq>\<^sub>m wo_promises v" "submitted_once v" for v
    using that
  proof (induction events arbitrary: v)
    case (Cons e es)
    from Cons.IH [of "happen rt e v"] Cons.prems happen_keeps [of v rt e] show ?case by (auto intro: map_le_trans)
  qed simp
  from this [of "w\<lparr>wo_submitted := []\<rparr>"] show ?thesis by (simp add: submitted_once_def Let_def)
qed

text \<open>
  A human answer reaches the Task only as the answer to the question it asks: the handler accepts a
  response only while the Task waits for one, it validates it against the very request artifact the wait
  names, and then resolves exactly the promise of that wait, once. A refused response changes nothing,
  and an accepted one changes nothing but that promise.
\<close>

lemma submit_human_response_bound:
  "case submit_human_response rt request sh of
     (Inl e, sh') \<Rightarrow> sh' = sh
   | (Inr receipt, sh') \<Rightarrow>
       \<exists>s i r promise ref accepted response. sh_task sh = Some s \<and> ts_lifecycle s = WAITING
         \<and> ts_wait s = Some (WaitInput i ''human_response'' r promise (Some ref))
         \<and> read_json (sh_store sh) (sh_key sh) (JStr ref) = Inr accepted \<and> validate_response request accepted (sh_key sh) = Inr response
         \<and> sh_promises sh promise = None \<and> sh' = sh\<lparr>sh_promises := (sh_promises sh)(promise \<mapsto> request)\<rparr>"
proof (cases "human_target rt sh request")
  case (Inl e)
  then show ?thesis by (simp add: submit_human_response_def)
next
  case (Inr x)
  obtain promise response where x: "x = (promise, response)" by force
  from Inr obtain s i r ref accepted where
    t: "sh_task sh = Some s" "ts_lifecycle s = WAITING" "ts_wait s = Some (WaitInput i ''human_response'' r promise (Some ref))"
      "read_json (sh_store sh) (sh_key sh) (JStr ref) = Inr accepted" "validate_response request accepted (sh_key sh) = Inr response"
    by (auto simp: x human_target_def waiting_on_def stepR_def rejectR_def bindR_eq_Inr
        split: option.splits if_splits wait.splits sum.splits)
  show ?thesis
  proof (cases "sh_promises sh promise")
    case None
    with t Inr x show ?thesis by (simp add: submit_human_response_def finish_def resolve_promise_def)
  next
    case (Some v)
    with Inr x show ?thesis by (simp add: submit_human_response_def finish_def resolve_promise_def)
  qed
qed

lemma amend_begin_task: "sh_task (snd (amend_begin rt request sh)) = sh_task sh"
  unfolding amend_begin_def Let_def by (auto split: option.split sum.split prod.split)

lemma amend_guard_Inr:
  assumes "amend_guard rt sh s actor submitted value = Inr u"
  shows "\<not> ended (ts_lifecycle s)" and "py_eq (dget submitted ''from_revision'') (jopt JInt (ts_contract_revision s))"
    and "\<exists>why. check_amendment (sh_store sh) (sh_key sh) s actor submitted (sget value ''action_ref'') = Inr (200, why)"
  using assms unfolding amend_guard_def bindR_eq_Inr raise_if_eq_Inr by (auto simp: stepR_def split: sum.splits)

lemma amend_begin_pending:
  assumes "amend_begin rt request sh = (Inr (Pending_amendment p), sh')"
  shows "\<exists>s actor why. sh_task sh = Some s \<and> \<not> ended (ts_lifecycle s)
    \<and> validate_amendment_submission request (sh_key sh) = Inr (actor, pe_submitted p) \<and> pe_value p = amend_value (sh_key sh) request
    \<and> py_eq (dget (pe_submitted p) ''from_revision'') (jopt JInt (ts_contract_revision s))
    \<and> sh_promises sh (contract_promise (jint (dget (pe_submitted p) ''from_revision'') + 1)) = None
    \<and> check_amendment (sh_store sh) (sh_key sh) s actor (pe_submitted p) (sget (pe_value p) ''action_ref'') = Inr (200, why)
    \<and> read (sh_store sh') (sh_key sh) (dget (pe_value p) ''action_ref'') = Inr (encode request)"
proof -
  from assms obtain s where s: "sh_task sh = Some s" by (auto simp: amend_begin_def split: option.splits)
  from assms s obtain actor submitted where v: "validate_amendment_submission request (sh_key sh) = Inr (actor, submitted)"
    by (auto simp: amend_begin_def rejectR_def split: sum.splits)
  let ?rev = "jint (dget submitted ''from_revision'') + 1" and ?av = "amend_value (sh_key sh) request"
  from assms s v have n: "sh_promises sh (contract_promise ?rev) = None"
    by (auto simp: amend_begin_def rejectR_def Let_def split: option.splits if_splits)
  from assms s v n have g: "amend_guard rt sh s actor submitted ?av = Inr ()"
    by (auto simp: amend_begin_def rejectR_def Let_def split: sum.splits)
  obtain q store where q: "put_json (sh_store sh) (sh_key sh) request = (q, store)" by force
  from assms s v n g q have p: "stepR rt q = Inr (sget ?av ''action_ref'')" "is_str (dget ?av ''action_ref'')"
    "p = \<lparr>pe_submitted = submitted, pe_value = ?av\<rparr>" "sh' = sh\<lparr>sh_store := store\<rparr>"
    by (auto simp: amend_begin_def rejectR_def Let_def bindR_eq_Inr amend_value_def dget_def split: if_splits)
  from p(1) have "q = Inr (sget ?av ''action_ref'')" by (auto simp: stepR_def split: sum.splits)
  with q have "read store (sh_key sh) (JStr (sget ?av ''action_ref'')) = Inr (encode request)"
    unfolding put_json_def by (auto dest: store.put_read)
  moreover have "JStr (sget ?av ''action_ref'') = dget ?av ''action_ref''" using p(2) by (cases "dget ?av ''action_ref''") auto
  ultimately show ?thesis using s v n p amend_guard_Inr [OF g] by auto
qed

text \<open>
  An amendment is only ever submitted against the contract that is in force: it goes forward only
  for a Task that has not ended, from the Task's current contract revision, when no other amendment has
  taken the next revision, when applying it to the retained contract under the Task's pinned authority
  succeeds, and after the submission itself was retained under the reference the waivers it makes will cite.
\<close>

lemma amend_begin_sound:
  "case amend_begin rt request sh of
     (Inr (Pending_amendment p), sh') \<Rightarrow>
       \<exists>s actor why. sh_task sh = Some s \<and> \<not> ended (ts_lifecycle s)
         \<and> validate_amendment_submission request (sh_key sh) = Inr (actor, pe_submitted p)
         \<and> pe_value p = amend_value (sh_key sh) request
         \<and> py_eq (dget (pe_submitted p) ''from_revision'') (jopt JInt (ts_contract_revision s))
         \<and> sh_promises sh (contract_promise (jint (dget (pe_submitted p) ''from_revision'') + 1)) = None
         \<and> check_amendment (sh_store sh) (sh_key sh) s actor (pe_submitted p) (sget (pe_value p) ''action_ref'') = Inr (200, why)
         \<and> read (sh_store sh') (sh_key sh) (dget (pe_value p) ''action_ref'') = Inr (encode request)
   | (_, sh') \<Rightarrow> sh_task sh' = sh_task sh \<and> sh_promises sh' = sh_promises sh"
proof (cases "amend_begin rt request sh")
  case (Pair r sh')
  show ?thesis
  proof (cases "\<exists>p. r = Inr (Pending_amendment p)")
    case False
    have "sh_promises sh' = sh_promises sh" "sh_task sh' = sh_task sh"
      using handler_promises(6) [of rt request sh] amend_begin_task [of rt request sh] Pair by simp_all
    with False Pair show ?thesis by (auto split: sum.splits begun.splits)
  next
    case True
    then obtain p where p: "r = Inr (Pending_amendment p)" ..
    from amend_begin_pending [OF Pair [unfolded p]] show ?thesis unfolding Pair p by simp
  qed
qed

end
