(* ===== verification/Workflow.thy ===== *)
theory Workflow
  imports Handlers Effects
begin

section \<open>The durable execution of a Task\<close>

text \<open>
  The main execution of runtime/kernel/workflow.py below its decision loop: acceptance of a request,
  the capability journal it writes, the one path to COMPLETED (\<open>settle_task\<close>), contract amendments, and the
  whole life of a target effect (request, approval, dispatch, supervision, outcome, reconciliation, stop).

  \<open>'p run\<close> holds the local variables of \<open>run\<close>: the Task state it works on and the one it published last,
  the artifact store, the target provider's state, the current contract, the last evaluation and the
  verifier history. An operation is an \<open>act\<close>: it returns a value or the exception that leaves it, and
  the new variables. \<open>stepA\<close> is a journaled step, repeated up to three times before the runtime gives up.

  Events that come from outside the execution are arguments: the amendments that were pending, the
  answer that won a \<open>select\<close>, and whether cancellation won at a tick. Diagnostic events, spans and the
  fixture's checkpoints do not enter Task state and are left out.
\<close>

record 'p deployment =
  de_task :: string
  de_runtime :: runtime
  de_provider :: "'p provider option"
  de_reviewer :: "(json \<Rightarrow> json res) option"
  de_authority :: json
  de_mutating :: bool

record escalation =
  es_iteration :: int
  es_reason :: string
  es_admission :: admission

record 'p run =
  rn_state :: task_state
  rn_published :: "task_state option"
  rn_store :: artifact_store
  rn_target :: 'p
  rn_contract :: json
  rn_last :: "json option"
  rn_rejected :: "int option"
  rn_history :: "string list"
  rn_prepared :: "json option"
  rn_escalation :: "escalation option"
  rn_binding :: string
  rn_local_turns :: int
  rn_context_refs :: "string list"
  rn_routing :: "string option"
  rn_rows :: fixture_rows
  rn_tools :: nat
  rn_tool_outcome :: "string option"
  rn_poisoned :: "string list"
  rn_admission :: json
  rn_fingerprint :: string
  rn_delivered :: json
  rn_observed :: bool
  rn_delta :: bool

type_synonym ('p, 'a) act = "'p run \<Rightarrow> 'a res \<times> 'p run"

definition retA :: "'a \<Rightarrow> ('p, 'a) act" where "retA x r = (Inr x, r)"
definition throwA :: "exn \<Rightarrow> ('p, 'a) act" where "throwA e r = (Inl e, r)"
definition bindA :: "('p, 'a) act \<Rightarrow> ('a \<Rightarrow> ('p, 'b) act) \<Rightarrow> ('p, 'b) act" where
  "bindA m f r = (case m r of (Inl e, r') \<Rightarrow> (Inl e, r') | (Inr x, r') \<Rightarrow> f x r')"
definition getA :: "('p run \<Rightarrow> 'a) \<Rightarrow> ('p, 'a) act" where "getA f r = (Inr (f r), r)"
definition modA :: "('p run \<Rightarrow> 'p run) \<Rightarrow> ('p, unit) act" where "modA f r = (Inr (), f r)"

abbreviation seqA :: "('p, 'a) act \<Rightarrow> ('p, 'b) act \<Rightarrow> ('p, 'b) act" where
  "seqA m n \<equiv> bindA m (\<lambda>_. n)"

definition resA :: "'a res \<Rightarrow> ('p, 'a) act" where "resA m r = (m, r)"

definition storeA :: "(artifact_store \<Rightarrow> 'a res \<times> artifact_store) \<Rightarrow> ('p, 'a) act" where
  "storeA f r = (case f (rn_store r) of (x, st) \<Rightarrow> (x, r\<lparr>rn_store := st\<rparr>))"

definition targetA :: "('p \<Rightarrow> artifact_store \<Rightarrow> 'a res \<times> 'p \<times> artifact_store) \<Rightarrow> ('p, 'a) act" where
  "targetA f r = (case f (rn_target r) (rn_store r) of (x, ps, st) \<Rightarrow> (x, r\<lparr>rn_target := ps, rn_store := st\<rparr>))"

definition stateA :: "(task_state \<Rightarrow> task_state) \<Rightarrow> ('p, unit) act" where
  "stateA f = modA (\<lambda>r. r\<lparr>rn_state := f (rn_state r)\<rparr>)"

fun attempts :: "nat \<Rightarrow> runtime \<Rightarrow> ('p, 'a) act \<Rightarrow> ('p, 'a) act" where
  "attempts 0 rt m r = m r"
| "attempts (Suc k) rt m r =
     (case m r of
        (Inr x, r') \<Rightarrow> (Inr x, r')
      | (Inl e, r') \<Rightarrow> if is_terminal e then (Inl e, r') else if k = 0 then (Inl (give_up rt e), r') else attempts k rt m r')"

definition stepA :: "'p deployment \<Rightarrow> ('p, 'a) act \<Rightarrow> ('p, 'a) act" where
  "stepA de m = attempts 3 (de_runtime de) m"

definition retain :: "'p deployment \<Rightarrow> json \<Rightarrow> ('p, string) act" where
  "retain de v = stepA de (storeA (\<lambda>st. put_json st (de_task de) v))"

definition publish :: "('p, unit) act" where
  "publish = modA (\<lambda>r. r\<lparr>rn_published := Some (rn_state r)\<rparr>)"

subsection \<open>The journal\<close>

definition record_entry :: "'p deployment \<Rightarrow> (string \<times> json) list \<Rightarrow> ('p, unit) act" where
  "record_entry de entry =
     bindA (getA rn_state) (\<lambda>s.
     bindA (stepA de (storeA (\<lambda>st. journal_append st (de_task de) (ts_journal_head s) (nat (ts_journal_length s)) entry))) (\<lambda>head.
     seqA (stateA (\<lambda>s. s\<lparr>ts_journal_head := Some head, ts_journal_length := ts_journal_length s + 1\<rparr>)) publish))"

definition is_provided :: "json \<Rightarrow> bool" where
  "is_provided action \<longleftrightarrow> is_dict (dget action ''input'') \<and> has_key (dget action ''input'') ''workspace_id''
     \<and> (sget action ''capability'' \<in> fst ` set OPERATIONS \<or> has_key (dget action ''input'') ''form'')"

definition entry_workspace :: "json \<Rightarrow> (string \<times> json) list" where
  "entry_workspace action =
     (let target = (if is_dict (dget action ''input'') then dget (dget action ''input'') (if is_provided action then ''workspace_id'' else ''workspace'') else JNull) in
      if (sget action ''capability'' = ''workspace.read'' \<or> is_provided action) \<and> is_str target \<and> \<not> py_blank (jstr target) \<and> length (jstr target) \<le> 512
      then [(''workspace_id'', target)] else [])"

definition capability_entry :: "'p deployment \<Rightarrow> task_state \<Rightarrow> json \<Rightarrow> string \<Rightarrow> (string \<times> json) list \<Rightarrow> (string \<times> json) list" where
  "capability_entry de s action phase extra =
     (let capability = sget action ''capability'' in
      dict_merge
        ([(''phase'', JStr phase), (''decision_id'', jopt JStr (ts_decision_id s)), (''capability'', JStr capability),
          (''operation_class'', JStr (operation_class capability)),
          (''provider'', JStr (if is_provided action then (case de_provider de of None \<Rightarrow> ''unconfigured'' | Some P \<Rightarrow> provider_id P)
                               else if capability = ''workspace.read'' then ''acp-client'' else ''kernel'')),
          (''operation'', JStr (if is_provided action then (case map_of OPERATIONS capability of None \<Rightarrow> ''read_file'' | Some o' \<Rightarrow> o')
                                else if capability = ''workspace.read'' then ''read_file'' else capability)),
          (''authority_ref'', jopt JStr (ts_authority_ref s)), (''contract_revision'', jopt JInt (ts_contract_revision s))])
        (extra @ entry_workspace action))"

definition denied_action :: "json \<Rightarrow> json option" where
  "denied_action raw =
     (let action = dget (dget raw ''payload'') ''next_action'' in
      if is_dict action \<and> dget action ''type'' = JStr ''INVOKE_CAPABILITY'' \<and> is_str (dget action ''capability'')
         \<and> \<not> py_blank (sget action ''capability'') \<and> length (sget action ''capability'') \<le> 100
      then Some action else None)"

subsection \<open>Evaluation\<close>

definition entry_json :: "assessed \<Rightarrow> json" where
  "entry_json e = JObj
     ([(''id'', JStr (as_id e)), (''level'', JStr (as_level e)), (''gating'', JBool (as_gating e)), (''verifier'', JStr (as_verifier e)),
       (''status'', JStr (verdict_str (as_status e))), (''evidence_refs'', JList (map JStr (as_refs e))), (''detail'', JStr (as_detail e))]
      @ (case as_range e of None \<Rightarrow> [] | Some n \<Rightarrow> [(''journal_range'', JList [JInt 0, JInt (int n)])])
      @ (case as_superseded e of None \<Rightarrow> [] | Some x \<Rightarrow> [(''superseded_by'', JStr x)])
      @ (case as_waiver_ref e of None \<Rightarrow> [] | Some x \<Rightarrow> [(''waiver_ref'', x)]))"

definition evaluation_json :: "evaluation \<times> bool \<times> string list \<Rightarrow> json" where
  "evaluation_json x =
     (case x of (ev, legal, blockers) \<Rightarrow>
       JObj [(''version'', JInt 2), (''kind'', JStr ''CompletionEvaluation''), (''payload'', JObj
         [(''task_id'', JStr (ev_task_id ev)), (''contract_ref'', jopt JStr (ev_contract_ref ev)), (''contract_revision'', JInt (ev_contract_revision ev)),
          (''evidence_digest'', JStr (ev_evidence_digest ev)), (''journal_head'', jopt JStr (ev_journal_head ev)),
          (''journal_length'', JInt (ev_journal_length ev)), (''outcome'', JStr (ev_outcome ev)), (''criteria'', JList (map entry_json (ev_criteria ev))),
          (''concerns'', JList (map JStr (ev_concerns ev))), (''irrecoverable'', JList (map JStr (ev_irrecoverable ev))),
          (''legality'', JObj [(''legal'', JBool legal), (''blockers'', JList (map JStr blockers))])])])"

definition run_assess :: "json \<Rightarrow> task_state \<Rightarrow> artifact_store \<Rightarrow> assessed list res" where
  "run_assess contract s store = bindR (load_journal s store) (assess contract s store)"

definition review_one :: "'p deployment \<Rightarrow> assessed list \<Rightarrow> json \<Rightarrow> ('p, unit) act" where
  "review_one de pre criterion =
     bindA (getA rn_state) (\<lambda>s. bindA (getA rn_contract) (\<lambda>contract.
     bindA (stepA de (\<lambda>r. (review_request (de_task de) criterion (jint (dget contract ''revision'')) (evidence_digest s)
              (dependency_view criterion pre) s (rn_store r), r))) (\<lambda>packet.
     let result = review_call (de_reviewer de) packet in
     bindA (retain de result) (\<lambda>ref.
     bindA (retain de packet) (\<lambda>request_ref.
     stateA (\<lambda>s. s\<lparr>ts_semantic_reviews := AList.update (sget criterion ''id'')
       (JObj [(''ref'', JStr ref), (''request_ref'', JStr request_ref), (''contract_revision'', dget contract ''revision''),
              (''evidence_digest'', JStr (evidence_digest s))]) (ts_semantic_reviews s)\<rparr>))))))"

fun eachA :: "('b \<Rightarrow> ('p, unit) act) \<Rightarrow> 'b list \<Rightarrow> ('p, unit) act" where
  "eachA f [] = retA ()"
| "eachA f (x # xs) = seqA (f x) (eachA f xs)"

definition review_due :: "'p deployment \<Rightarrow> ('p, unit) act" where
  "review_due de =
     bindA (getA rn_contract) (\<lambda>contract.
     if \<not> list_ex (\<lambda>c. kind_of c = ''semantic_review'') (lget contract ''criteria'') then retA ()
     else bindA (stepA de (\<lambda>r. (run_assess contract (rn_state r) (rn_store r), r))) (\<lambda>pre.
          bindA (getA rn_state) (\<lambda>s. eachA (review_one de pre) (semantic_due contract pre s))))"

definition push_history :: "string \<Rightarrow> string list \<Rightarrow> string list" where
  "push_history x h = (let h' = h @ [x] in drop (length h' - 4) h')"

definition finish_settle :: "'p deployment \<Rightarrow> evaluation \<times> bool \<times> string list \<Rightarrow> ('p, json) act" where
  "finish_settle de x =
     (let evaluation = evaluation_json x in
      seqA (modA (\<lambda>r. r\<lparr>rn_last := Some (dget evaluation ''payload'')\<rparr>))
      (bindA (retain de evaluation) (\<lambda>ref.
       seqA (stateA (\<lambda>s. s\<lparr>ts_completion_ref := Some ref\<rparr>))
       (seqA (modA (\<lambda>r. if ev_outcome (fst x) \<noteq> ''satisfied''
                then r\<lparr>rn_history := push_history (verifier_signature evaluation (ts_artifacts (rn_state r))) (rn_history r)\<rparr> else r))
       (seqA (stateA (\<lambda>s. if fst (snd x) then s\<lparr>ts_lifecycle := COMPLETED\<rparr> else s))
       (seqA publish
       (if ev_irrecoverable (fst x) \<noteq> [] then throwA (TerminalError (''Invariant criteria failed: '' @ join_with '', '' (ev_irrecoverable (fst x))) 422)
        else retA evaluation)))))))"

definition settle_task :: "'p deployment \<Rightarrow> ('p, json) act" where
  "settle_task de =
     seqA (review_due de)
     (bindA (getA rn_state) (\<lambda>s. bindA (getA rn_contract) (\<lambda>contract.
      bindA (stepA de (\<lambda>r. (evaluate_contract contract (ts_contract_ref s) s (rn_store r), r))) (finish_settle de))))"

subsection \<open>Amendments\<close>

definition wait_still_bound :: "json \<Rightarrow> string \<Rightarrow> bool res" where
  "wait_still_bound contract awaited =
     bindR (human_bindings (lget contract ''criteria'')) (\<lambda>bindings.
     case map_of bindings awaited of
       None \<Rightarrow> Inr False
     | Some b \<Rightarrow> (case find (\<lambda>c. py_eq (dget c ''id'') (dget b ''criterion'')) (lget contract ''criteria'') of
         None \<Rightarrow> Inr False | Some c \<Rightarrow> Inr (gating c \<and> \<not> has_key c ''waiver'')))"

datatype amended_result = Applied string json string | Rejected_amendment string

definition check_submission :: "'p deployment \<Rightarrow> json \<Rightarrow> json \<Rightarrow> string \<Rightarrow> task_state \<Rightarrow> artifact_store \<Rightarrow> (json \<times> json) res" where
  "check_submission de submitted contract contract_ref s store =
     bindR (item submitted ''submission'') (\<lambda>sub.
     bindR (validate_amendment_submission sub (de_task de)) (\<lambda>(actor, request).
     bindR (item submitted ''action_ref'') (\<lambda>aref.
     bindR (read_json store (de_task de) aref) (\<lambda>retained.
     seqR (raise_if (\<not> py_eq retained sub) (ValueError ''Retained human action differs from the submitted amendment''))
     (apply_amendment contract contract_ref actor request (jstr aref) s (de_mutating de))))))"

definition admit_amendment :: "'p deployment \<Rightarrow> json \<Rightarrow> json \<Rightarrow> string \<Rightarrow> task_state \<Rightarrow> artifact_store \<Rightarrow> amended_result res \<times> artifact_store" where
  "admit_amendment de submitted contract contract_ref s store =
     (case check_submission de submitted contract contract_ref s store of
        Inl e \<Rightarrow>
          if rejected e then
            (case put_json store (de_task de) (message ''CompletionContractAmendmentRejection'' (JObj
                [(''task_id'', JStr (de_task de)), (''to_revision'', JInt (jint (dget contract ''revision'') + 1)), (''submitted'', submitted),
                 (''reason'', JStr (py_take 512 (exn_str e)))])) of
               (Inl e', st) \<Rightarrow> (Inl e', st) | (Inr ref, st) \<Rightarrow> (Inr (Rejected_amendment ref), st))
          else (Inl e, store)
      | Inr (amendment, updated) \<Rightarrow>
          (case put_json store (de_task de) (message ''CompletionContractAmendment'' amendment) of
             (Inl e, st) \<Rightarrow> (Inl e, st)
           | (Inr aref, st) \<Rightarrow>
               (case seal updated aref (de_task de) (de_mutating de) of
                  Inl e \<Rightarrow> (Inl e, st)
                | Inr sealed \<Rightarrow>
                    (case put_json st (de_task de) (message ''CompletionContract'' sealed) of
                       (Inl e, st') \<Rightarrow> (Inl e, st')
                     | (Inr cref, st') \<Rightarrow> (Inr (Applied aref sealed cref), st')))))"

definition run_amendment :: "'p deployment \<Rightarrow> json \<Rightarrow> ('p, unit) act" where
  "run_amendment de submitted =
     bindA (getA rn_state) (\<lambda>s. bindA (getA rn_contract) (\<lambda>contract.
     bindA (stepA de (storeA (admit_amendment de submitted contract (case ts_contract_ref s of None \<Rightarrow> [] | Some c \<Rightarrow> c) s))) (\<lambda>result.
     case result of
       Applied aref sealed cref \<Rightarrow>
         seqA (modA (\<lambda>r. r\<lparr>rn_contract := sealed, rn_prepared := None\<rparr>))
         (seqA (stateA (\<lambda>s. s\<lparr>ts_contract_ref := Some cref, ts_contract_revision := Some (jint (dget sealed ''revision''))\<rparr>)) publish)
     | Rejected_amendment ref \<Rightarrow> modA (\<lambda>r. r\<lparr>rn_rejected := Some (jint (dget contract ''revision'') + 1)\<rparr>))))"

definition amendable :: "'p run \<Rightarrow> bool" where
  "amendable r \<longleftrightarrow> ts_lifecycle (rn_state r) = RUNNING \<and> rn_rejected r \<noteq> Some (jint (dget (rn_contract r) ''revision'') + 1)"

text \<open>The amendments found pending one after the other, until the promise of the next revision is empty.\<close>

fun admit_amendments :: "'p deployment \<Rightarrow> json list \<Rightarrow> ('p, unit) act" where
  "admit_amendments de [] = retA ()"
| "admit_amendments de (submitted # rest) =
     bindA (getA amendable) (\<lambda>go.
     if \<not> go then retA ()
     else seqA (run_amendment de submitted)
       (bindA (getA (\<lambda>r. rn_rejected r \<noteq> Some (jint (dget (rn_contract r) ''revision'') + 1))) (\<lambda>ok.
        seqA (if ok then seqA (settle_task de) (retA ()) else retA ()) (admit_amendments de rest))))"

subsection \<open>Waiting for input\<close>

text \<open>
  What a waiting Task observes, in order. An execution that has not been answered yet is \<open>Suspended\<close>; the
  runtime may also end the wait with an error, such as a cancellation.
\<close>

datatype wait_event = Received json | Amendment json | Interrupt exn

definition set_wait :: "json \<Rightarrow> string option \<Rightarrow> ('p, unit) act" where
  "set_wait action ref = stateA (\<lambda>s. s\<lparr>ts_wait := Some (WaitInput (sget action ''wait_id'') (sget action ''input_type'') (ts_revision s)
     (''input/'' @ show_int (ts_iteration s) @ ''/'' @ sget action ''wait_id'') ref)\<rparr>)"

definition suspend :: "('p, unit) act" where
  "suspend = seqA (stateA (\<lambda>s. s\<lparr>ts_lifecycle := WAITING\<rparr>)) publish"

definition end_wait :: "('p, unit) act" where
  "end_wait = stateA (\<lambda>s. s\<lparr>ts_wait := None, ts_lifecycle := RUNNING\<rparr>)"

definition resume :: "'p deployment \<Rightarrow> json \<Rightarrow> ('p, json) act" where
  "resume de observation =
     seqA end_wait
     (bindA (retain de observation) (\<lambda>ref.
      seqA (stateA (\<lambda>s. s\<lparr>ts_observation_ref := Some ref\<rparr>)) (seqA publish (retA observation))))"

definition accept_answer :: "'p deployment \<Rightarrow> json \<Rightarrow> json option \<Rightarrow> json \<Rightarrow> ('p, json) act" where
  "accept_answer de action requirement received =
     (case requirement of
        None \<Rightarrow> resume de (message ''ExternalInput'' received)
      | Some q \<Rightarrow>
          seqA (resA (validate_response received (dget q ''request'') (de_task de)))
          (bindA (retain de received) (\<lambda>ref.
           seqA (stateA (\<lambda>s. s\<lparr>ts_human_responses := AList.update (sget action ''wait_id'') ref (ts_human_responses s),
                    ts_artifacts := AList.update (sget q ''artifact'') ref (ts_artifacts s)\<rparr>))
           (resume de (message ''HumanInputReceipt'' (JObj [(''request_id'', dget action ''wait_id''), (''response_ref'', JStr ref),
              (''value'', dget (dget received ''payload'') ''value'')]))))))"

definition closed_revision :: "'p run \<Rightarrow> bool" where
  "closed_revision r \<longleftrightarrow> rn_rejected r = Some (jint (dget (rn_contract r) ''revision'') + 1)"

definition withdraw :: "'p deployment \<Rightarrow> json \<Rightarrow> ('p, json) act" where
  "withdraw de action =
     bindA (getA rn_state) (\<lambda>s.
     let withdrawn = message ''HumanWaitWithdrawn'' (JObj [(''request_id'', dget action ''wait_id''),
           (''contract_revision'', jopt JInt (ts_contract_revision s)), (''contract_ref'', jopt JStr (ts_contract_ref s))]) in
     seqA (resume de withdrawn) (seqA (settle_task de) (retA withdrawn)))"

fun await_events :: "'p deployment \<Rightarrow> json \<Rightarrow> json option \<Rightarrow> wait_event list \<Rightarrow> ('p, json) act" where
  "await_events de action requirement [] = throwA Suspended"
| "await_events de action requirement (Received v # rest) = accept_answer de action requirement v"
| "await_events de action requirement (Interrupt e # rest) = throwA e"
| "await_events de action requirement (Amendment v # rest) =
     bindA (getA closed_revision) (\<lambda>closed.
     if requirement = None \<or> closed then await_events de action requirement rest
     else seqA (run_amendment de v)
       (bindA (getA closed_revision) (\<lambda>refused.
        if refused then await_events de action requirement rest
        else bindA (getA rn_contract) (\<lambda>contract. bindA (resA (wait_still_bound contract (sget action ''wait_id''))) (\<lambda>bound.
          if \<not> bound then withdraw de action else seqA (settle_task de) (await_events de action requirement rest))))))"

definition await_input :: "'p deployment \<Rightarrow> json \<Rightarrow> wait_event list \<Rightarrow> ('p, json) act" where
  "await_input de action events =
     seqA (set_wait action None)
     (if dget action ''input_type'' = JStr ''human_response'' then
        bindA (getA rn_contract) (\<lambda>contract.
        bindA (resA (human_binding contract (sget action ''wait_id''))) (\<lambda>requirement.
        bindA (retain de (dget requirement ''request'')) (\<lambda>ref.
        seqA (set_wait action (Some ref)) (seqA suspend (await_events de action (Some requirement) events)))))
      else seqA suspend (await_events de action None events))"

subsection \<open>Target effects\<close>

definition target_operation :: "json \<Rightarrow> bool" where
  "target_operation action \<longleftrightarrow> sget action ''capability'' \<in> fst ` set OPERATIONS
     \<or> sget action ''capability'' = ''workspace.read'' \<and> is_dict (dget action ''input'') \<and> has_key (dget action ''input'') ''form''"

definition effect_rec :: "task_state \<Rightarrow> string \<Rightarrow> json" where
  "effect_rec s operation = (case map_of (ts_effects s) operation of None \<Rightarrow> JNull | Some e \<Rightarrow> e)"

definition put_effect :: "string \<Rightarrow> json \<Rightarrow> task_state \<Rightarrow> task_state" where
  "put_effect operation v s = s\<lparr>ts_effects := AList.update operation v (ts_effects s)\<rparr>"

definition set_effect :: "string \<Rightarrow> (string \<times> json) list \<Rightarrow> ('p, unit) act" where
  "set_effect operation kvs = stateA (\<lambda>s. put_effect operation (fold (\<lambda>(k, v) e. dset e k v) kvs (effect_rec s operation)) s)"

definition effect_outcome_of :: "json \<Rightarrow> string" where
  "effect_outcome_of st = (if st = JStr ''applied'' \<or> st = JStr ''completed'' then ''success'' else if st = JStr ''uncertain'' then ''uncertain'' else ''failure'')"

definition effect_observation :: "task_state \<Rightarrow> string \<Rightarrow> (string \<times> json) list \<Rightarrow> json" where
  "effect_observation s operation extra =
     (let e = effect_rec s operation in
      message ''EffectObservation'' (JObj ([(''operation_id'', JStr operation), (''status'', dget e ''status''),
        (''outcome'', JStr (effect_outcome_of (dget e ''status''))), (''request_ref'', dget e ''request_ref''), (''receipt_ref'', dget e ''receipt_ref'')] @ extra)))"

definition observed :: "string \<Rightarrow> string \<Rightarrow> json \<Rightarrow> (string \<times> json) list" where
  "observed operation out receipt_ref =
     [(''phase'', JStr ''observed''), (''operation_id'', JStr operation), (''outcome'', JStr out), (''receipt_ref'', receipt_ref)]"

definition settle_effect :: "'p deployment \<Rightarrow> string \<Rightarrow> json \<Rightarrow> ('p, unit) act" where
  "settle_effect de operation result =
     (let kind = dget (dget result ''payload'') ''kind'' in
      if kind = JStr ''receipt'' then
        let receipt = dget (dget result ''payload'') ''receipt''; st = dget (dget receipt ''payload'') ''state'' in
        bindA (retain de receipt) (\<lambda>ref.
        seqA (set_effect operation [(''status'', st), (''receipt_ref'', JStr ref)])
        (record_entry de (observed operation (if st = JStr ''applied'' \<or> st = JStr ''completed'' then ''success'' else ''failure'') (JStr ref))))
      else
        bindA (retain de result) (\<lambda>ref.
        seqA (set_effect operation [(''status'', JStr (if kind = JStr ''uncertain'' then ''uncertain'' else ''not_dispatched'')), (''receipt_ref'', JStr ref)])
        (record_entry de (observed operation (if kind = JStr ''uncertain'' then ''uncertain'' else ''failure'') (JStr ref)))))"

definition uncertain_effects :: "task_state \<Rightarrow> string list" where
  "uncertain_effects s = sort (map fst (filter (\<lambda>(_, e). dget e ''status'' = JStr ''uncertain'') (ts_effects s)))"

definition reconciled_status :: "json \<Rightarrow> json \<Rightarrow> (string \<times> json) list" where
  "reconciled_status payload receipt_ref =
     (if dget payload ''state'' = JStr ''APPLIED'' then
        [(''status'', dget (dget (dget payload ''receipt'') ''payload'') ''state''), (''receipt_ref'', receipt_ref)]
      else if dget payload ''state'' = JStr ''NOT_APPLIED'' then [(''status'', JStr ''not_applied'')]
      else if dget payload ''state'' = JStr ''DIFFERENT_STATE'' then [(''status'', JStr ''different_state'')] else [])"

definition reconcile_one :: "'p deployment \<Rightarrow> string \<Rightarrow> ('p, bool) act" where
  "reconcile_one de operation =
     bindA (getA (\<lambda>r. effect_rec (rn_state r) operation)) (\<lambda>e.
     seqA (set_effect operation [(''reconcile_attempts'', JInt (jint (dget_or e ''reconcile_attempts'' (JInt 0)) + 1))])
     (bindA (stepA de (\<lambda>r. (read_json (rn_store r) (de_task de) (dget e ''request_ref''), r))) (\<lambda>request.
      bindA (stepA de (targetA (\<lambda>ps st. reconcile (de_provider de) ps request st))) (\<lambda>result.
      let payload = dget result ''payload'' in
      bindA (retain de result) (\<lambda>evidence_ref.
      bindA (if dget payload ''state'' = JStr ''APPLIED'' then bindA (retain de (dget payload ''receipt'')) (\<lambda>x. retA [JStr x]) else retA []) (\<lambda>receipt_ref.
      seqA (set_effect operation (reconciled_status payload (if receipt_ref = [] then JNull else hd receipt_ref)))
      (seqA (record_entry de ([(''phase'', JStr ''reconciled''), (''operation_id'', JStr operation), (''state'', dget payload ''state''),
               (''evidence_ref'', JStr evidence_ref)] @ map (\<lambda>x. (''receipt_ref'', x)) receipt_ref))
      (retA (dget payload ''state'' \<noteq> JStr ''STILL_UNKNOWN'')))))))))"

fun reconcile_each :: "'p deployment \<Rightarrow> string list \<Rightarrow> bool \<Rightarrow> ('p, bool) act" where
  "reconcile_each de [] concluded = retA concluded"
| "reconcile_each de (operation # rest) concluded =
     bindA (reconcile_one de operation) (\<lambda>c. reconcile_each de rest (concluded \<or> c))"

definition reconcile_effects :: "'p deployment \<Rightarrow> ('p, bool) act" where
  "reconcile_effects de = bindA (getA (\<lambda>r. uncertain_effects (rn_state r))) (\<lambda>ops. reconcile_each de ops False)"

definition with_provider :: "'p deployment \<Rightarrow> ('p provider \<Rightarrow> 'p \<Rightarrow> artifact_store \<Rightarrow> 'a res \<times> 'p \<times> artifact_store) \<Rightarrow> ('p, 'a) act" where
  "with_provider de f = (case de_provider de of None \<Rightarrow> throwA (AttributeError ''NoneType object has no attribute'') | Some P \<Rightarrow> targetA (f P))"

definition still_running :: "json \<Rightarrow> bool" where
  "still_running result \<longleftrightarrow> dget (dget result ''payload'') ''kind'' = JStr ''receipt''
     \<and> dget (dget (dget (dget result ''payload'') ''receipt'') ''payload'') ''state'' = JStr ''running''"

text \<open>The ticks of a running process; \<open>wins t\<close> says that the cancellation promise won at tick \<open>t\<close>.\<close>

fun poll_ticks :: "'p deployment \<Rightarrow> json \<Rightarrow> (nat \<Rightarrow> bool) \<Rightarrow> nat \<Rightarrow> nat \<Rightarrow> ('p, json) act" where
  "poll_ticks de request wins tick 0 = stepA de (with_provider de (\<lambda>P ps st. cancel P ps request st ''timeout''))"
| "poll_ticks de request wins tick (Suc left) =
     (if wins tick then stepA de (with_provider de (\<lambda>P ps st. cancel P ps request st ''requested''))
      else bindA (stepA de (with_provider de (\<lambda>P ps st. poll P ps request st))) (\<lambda>polled.
        if still_running polled then poll_ticks de request wins (Suc tick) left else retA polled))"

definition supervise :: "'p deployment \<Rightarrow> json \<Rightarrow> string \<Rightarrow> (nat \<Rightarrow> bool) \<Rightarrow> ('p, json) act" where
  "supervise de request operation wins =
     seqA (set_effect operation [(''status'', JStr ''running'')])
     (seqA publish (poll_ticks de request wins 0 (max_polls (dget request ''payload''))))"

datatype answered = Input_won json | Cancel_won | Not_answered exn

definition await_approval :: "'p deployment \<Rightarrow> json \<Rightarrow> string \<Rightarrow> nat \<Rightarrow> answered \<Rightarrow> ('p, string \<times> string option) act" where
  "await_approval de request operation iteration answer =
     (let request_id = ''approve-'' @ show_nat iteration; human = approval_request (de_task de) request_id request in
      bindA (retain de human) (\<lambda>ref.
      seqA (stateA (\<lambda>s. s\<lparr>ts_wait := Some (WaitInput request_id ''human_response'' (ts_revision s)
               (''input/'' @ show_nat iteration @ ''/'' @ request_id) (Some ref))\<rparr>))
      (seqA (set_effect operation [(''status'', JStr ''awaiting_approval'')])
      (seqA (stateA (\<lambda>s. s\<lparr>ts_lifecycle := WAITING\<rparr>))
      (seqA publish
      (case answer of
         Not_answered e \<Rightarrow> throwA e
       | Cancel_won \<Rightarrow> seqA end_wait (seqA publish (retA (''CANCELED'', None)))
       | Input_won received \<Rightarrow>
           seqA end_wait
           (seqA (resA (validate_response received human (de_task de)))
           (bindA (retain de received) (\<lambda>response_ref.
            seqA (stateA (\<lambda>s. s\<lparr>ts_human_responses := AList.update request_id response_ref (ts_human_responses s)\<rparr>))
            (seqA publish (retA (sget (dget received ''payload'') ''value'', Some response_ref))))))))))))"

definition lower_target :: "'p deployment \<Rightarrow> string \<Rightarrow> json \<Rightarrow> task_state \<Rightarrow> artifact_store \<Rightarrow> json res" where
  "lower_target de operation action s store =
     bindR (load_journal s store) (\<lambda>fs.
     case (case ts_authority_ref s of None \<Rightarrow> Inl (KeyError ''authority_ref'')
           | Some aref \<Rightarrow> lower (de_task de) operation (sget action ''capability'') (dget action ''input'') s store aref (de_authority de)
               (case fs of Inl _ \<Rightarrow> {} | Inr f \<Rightarrow> set (fa_receipts f))) of
       Inr request \<Rightarrow> Inr request
     | Inl e \<Rightarrow> if rejected e then Inr (outcome ''rejected'' [(''reason'', JStr (py_take 512 (exn_str e)))]) else Inl e)"

definition dispatch_payload :: "'p deployment \<Rightarrow> json \<Rightarrow> artifact_store \<Rightarrow> json res" where
  "dispatch_payload de request store =
     (if dget (dget request ''payload'') ''operation_class'' = JStr WRITE then
        bindR (read store (de_task de) (dget (dget request ''payload'') ''content_ref'')) (\<lambda>content.
        bindR (decode_utf8 content) (\<lambda>txt. Inr (JObj [(''content'', JStr txt)])))
      else Inr (JObj []))"

definition dispatch_effect :: "'p deployment \<Rightarrow> json \<Rightarrow> ('p, json) act" where
  "dispatch_effect de request =
     stepA de (\<lambda>r. case dispatch_payload de request (rn_store r) of
        Inl e \<Rightarrow> (Inl e, r) | Inr payload \<Rightarrow> targetA (\<lambda>ps st. attempt (de_provider de) ps request payload st) r)"

definition close_undispatched :: "'p deployment \<Rightarrow> string \<Rightarrow> json \<Rightarrow> ('p, unit) act" where
  "close_undispatched de operation closed =
     bindA (retain de closed) (\<lambda>ref.
     seqA (set_effect operation [(''status'', JStr ''not_dispatched''), (''receipt_ref'', JStr ref)])
     (record_entry de (observed operation ''not_dispatched'' (JStr ref))))"

definition dispatched_entry :: "json \<Rightarrow> string \<Rightarrow> string \<Rightarrow> string option \<Rightarrow> (string \<times> json) list" where
  "dispatched_entry request operation request_ref approval_ref =
     [(''phase'', JStr ''dispatched''), (''operation_id'', JStr operation), (''request_ref'', JStr request_ref),
      (''request_digest'', JStr (effect_digest request))] @ (case approval_ref of None \<Rightarrow> [] | Some x \<Rightarrow> [(''approval_ref'', JStr x)])"

definition deliver_effect :: "'p deployment \<Rightarrow> json \<Rightarrow> string \<Rightarrow> (nat \<Rightarrow> bool) \<Rightarrow> ('p, json) act" where
  "deliver_effect de request operation wins =
     seqA (set_effect operation [(''status'', JStr ''dispatched'')])
     (seqA publish
     (bindA (dispatch_effect de request) (\<lambda>first.
      bindA (if still_running first then supervise de request operation wins else retA first) (\<lambda>result.
      seqA (settle_effect de operation result)
      (bindA (getA (\<lambda>r. dget (effect_rec (rn_state r) operation) ''status'')) (\<lambda>st.
       seqA (if st = JStr ''uncertain'' then seqA (reconcile_effects de) (retA ()) else retA ())
       (bindA (getA rn_state) (\<lambda>s. retA (effect_observation s operation [])))))))))"

definition run_effect :: "'p deployment \<Rightarrow> json \<Rightarrow> string \<Rightarrow> string \<Rightarrow> string option \<Rightarrow> (nat \<Rightarrow> bool) \<Rightarrow> ('p, json) act" where
  "run_effect de request operation request_ref approval_ref wins =
     seqA (record_entry de (dispatched_entry request operation request_ref approval_ref)) (deliver_effect de request operation wins)"

definition refuse_effect :: "'p deployment \<Rightarrow> json \<Rightarrow> string \<Rightarrow> json \<Rightarrow> ('p, json) act" where
  "refuse_effect de action operation request =
     bindA (retain de request) (\<lambda>ref.
     seqA (stateA (put_effect operation (JObj [(''status'', JStr ''not_dispatched''), (''class'', dget action ''capability''), (''receipt_ref'', JStr ref)])))
     (seqA (record_entry de (observed operation ''not_dispatched'' (JStr ref)))
     (bindA (getA rn_state) (\<lambda>s. retA (effect_observation s operation [(''reason'', dget (dget request ''payload'') ''reason'')])))))"

definition approve_effect :: "'p deployment \<Rightarrow> json \<Rightarrow> string \<Rightarrow> string \<Rightarrow> nat \<Rightarrow> answered \<Rightarrow> (nat \<Rightarrow> bool) \<Rightarrow> ('p, json) act" where
  "approve_effect de request operation request_ref iteration answer wins =
     bindA (await_approval de request operation iteration answer) (\<lambda>(verdict, approval_ref).
     if verdict \<noteq> ''APPROVE'' then
       let reason = JStr (if verdict = ''CANCELED'' then ''Canceled before dispatch'' else ''Human approval denied'') in
       seqA (close_undispatched de operation (outcome ''not_dispatched'' [(''reason'', reason), (''approval_ref'', jopt JStr approval_ref)]))
       (bindA (getA rn_state) (\<lambda>s. retA (effect_observation s operation [(''reason'', reason)])))
     else run_effect de request operation request_ref approval_ref wins)"

definition admit_effect :: "'p deployment \<Rightarrow> json \<Rightarrow> string \<Rightarrow> json \<Rightarrow> nat \<Rightarrow> answered \<Rightarrow> (nat \<Rightarrow> bool) \<Rightarrow> ('p, json) act" where
  "admit_effect de action operation request iteration answer wins =
     bindA (retain de request) (\<lambda>request_ref.
     seqA (stateA (put_effect operation (JObj [(''status'', JStr ''admitted''), (''class'', dget action ''capability''),
             (''request_ref'', JStr request_ref), (''reconcile_attempts'', JInt 0)])))
     (seqA publish
     (if py_mem (dget action ''capability'') (lget (de_authority de) ''ask_before'')
      then approve_effect de request operation request_ref iteration answer wins
      else run_effect de request operation request_ref None wins)))"

definition perform_effect :: "'p deployment \<Rightarrow> json \<Rightarrow> string \<Rightarrow> nat \<Rightarrow> answered \<Rightarrow> (nat \<Rightarrow> bool) \<Rightarrow> ('p, json) act" where
  "perform_effect de action operation iteration answer wins =
     bindA (stepA de (\<lambda>r. (lower_target de operation action (rn_state r) (rn_store r), r))) (\<lambda>request.
     if dget request ''kind'' \<noteq> JStr ''EffectRequest'' then refuse_effect de action operation request
     else admit_effect de action operation request iteration answer wins)"

definition perform_read :: "'p deployment \<Rightarrow> json \<Rightarrow> string \<Rightarrow> ('p, json) act" where
  "perform_read de action operation =
     (let v = dget action ''input'' in
      bindA (stepA de (\<lambda>r. case targetA (\<lambda>ps st. effects_read (de_provider de) ps (de_task de) operation v st) r of
               (Inr x, r') \<Rightarrow> (Inr (Inr x), r')
             | (Inl e, r') \<Rightarrow> (if is_value_error e then Inr (Inl (py_take 512 (exn_str e))) else Inl e, r'))) (\<lambda>answer.
      case answer of
        Inl error \<Rightarrow>
          let failure = message ''CapabilityResult'' (JObj [(''operation_id'', JStr operation), (''outcome'', JStr ''failure''),
                (''output'', JObj []), (''artifacts'', JObj []), (''error'', JStr error)]) in
          bindA (retain de failure) (\<lambda>ref.
          seqA (record_entry de (observed operation ''failure'' (JStr ref))) (retA failure))
      | Inr x \<Rightarrow>
          seqA (stateA (\<lambda>s. s\<lparr>ts_artifacts := AList.update (sget v ''artifact'') (rd_content_ref x) (ts_artifacts s)\<rparr>))
          (seqA (record_entry de (observed operation ''success'' (JStr (rd_receipt_ref x))))
          (retA (message ''WorkspaceReadObservation'' (JObj [(''operation_id'', JStr operation), (''receipt_ref'', JStr (rd_receipt_ref x)),
             (''artifact'', dget v ''artifact''), (''artifact_ref'', JStr (rd_content_ref x)), (''content'', JStr (rd_content x)),
             (''outcome'', JStr ''success'')]))))))"

definition perform_target :: "'p deployment \<Rightarrow> json \<Rightarrow> nat \<Rightarrow> answered \<Rightarrow> (nat \<Rightarrow> bool) \<Rightarrow> ('p, json) act" where
  "perform_target de action iteration answer wins =
     bindA (getA (\<lambda>r. case ts_decision_id (rn_state r) of None \<Rightarrow> [] | Some d \<Rightarrow> d)) (\<lambda>operation.
     if sget action ''capability'' = ''workspace.read'' then perform_read de action operation
     else perform_effect de action operation iteration answer wins)"

subsection \<open>Stopping a Task\<close>

definition close_one :: "'p deployment \<Rightarrow> string \<Rightarrow> string \<Rightarrow> ('p, unit) act" where
  "close_one de reason operation =
     bindA (getA (\<lambda>r. effect_rec (rn_state r) operation)) (\<lambda>e.
     if dget e ''status'' = JStr ''admitted'' \<or> dget e ''status'' = JStr ''awaiting_approval'' then
       close_undispatched de operation (outcome ''not_dispatched'' [(''reason'', JStr (''Task '' @ reason @ '' before dispatch''))])
     else if dget e ''status'' = JStr ''dispatched'' \<or> dget e ''status'' = JStr ''running'' then
       bindA (stepA de (\<lambda>r. (read_json (rn_store r) (de_task de) (dget e ''request_ref''), r))) (\<lambda>request.
       bindA (stepA de (targetA (\<lambda>ps st. stop_for_task (de_provider de) ps request st))) (\<lambda>result.
       settle_effect de operation result))
     else retA ())"

definition STOP_NOTES :: "(string \<times> string) list" where
  "STOP_NOTES =
     [(''uncertain'', ''outcome STILL_UNKNOWN after bounded reconciliation''), (''different_state'', ''target changed by someone else; own outcome unknown''),
      (''canceled'', ''process stop confirmed; partial effects possible''), (''completed'', ''completed before the stop''),
      (''applied'', ''applied before the stop''), (''not_dispatched'', ''never dispatched''), (''not_applied'', ''provider confirms it never ran'')]"

definition stop_note :: "string \<Rightarrow> string \<times> json \<Rightarrow> string" where
  "stop_note reason x =
     (let st = sget (snd x) ''status'' in
      py_take 512 (''Effect '' @ fst x @ '' after Task '' @ reason @ '': '' @ st @ '' ('' @ (case map_of STOP_NOTES st of None \<Rightarrow> ''see receipt'' | Some n \<Rightarrow> n) @ '')''))"

definition stop_notes :: "string \<Rightarrow> task_state \<Rightarrow> string list" where
  "stop_notes reason s =
     take 4 (map (stop_note reason) (filter (\<lambda>(_, e). dget e ''status'' \<noteq> JStr ''conflict'' \<and> dget e ''status'' \<noteq> JStr ''rejected'') (sort_key fst (ts_effects s))))"

definition close_effects :: "'p deployment \<Rightarrow> string \<Rightarrow> ('p, string list) act" where
  "close_effects de reason =
     bindA (getA rn_state) (\<lambda>s0.
     if ts_effects s0 = [] then retA []
     else seqA (eachA (close_one de reason) (sort (map fst (ts_effects s0))))
       (seqA (reconcile_effects de)
       (bindA (getA rn_state) (\<lambda>s. bindA (getA rn_contract) (\<lambda>contract.
        bindA (stepA de (\<lambda>r. (evaluate_contract contract (ts_contract_ref s) s (rn_store r), r))) (\<lambda>x.
        let evaluation = evaluation_json x in
        seqA (modA (\<lambda>r. r\<lparr>rn_last := Some (dget evaluation ''payload'')\<rparr>))
        (bindA (retain de evaluation) (\<lambda>ref.
         seqA (stateA (\<lambda>s. s\<lparr>ts_completion_ref := Some ref\<rparr>))
         (seqA publish (bindA (getA rn_state) (\<lambda>s. retA (stop_notes reason s)))))))))))) "

subsection \<open>Acceptance\<close>

record intake =
  in_spec :: json
  in_parent :: "json option"
  in_grant :: "json option"
  in_admissible :: "string set"
  in_contract :: json
  in_pinned :: "(string \<times> json) list"

definition grant_names :: "json option \<Rightarrow> string \<Rightarrow> string list" where
  "grant_names grant key = (case grant of None \<Rightarrow> [] | Some g \<Rightarrow> map jstr (lget g key))"

definition pin_profiles :: "(string \<times> exec_profile) list \<Rightarrow> string list \<Rightarrow> (string \<times> json) list res" where
  "pin_profiles reviewed names =
     (let unknown = filter (\<lambda>n. n \<notin> fst ` set reviewed) names in
      if unknown \<noteq> [] then Inl (ValueError (''Grant names unreviewed command profiles: '' @ py_repr_list (sorted_set unknown)))
      else mapR (\<lambda>n. bindR (profile_payload (the (map_of reviewed n))) (\<lambda>p. Inr (n, p))) names)"

definition accept_run :: "(string \<times> exec_profile) list \<Rightarrow> bool \<Rightarrow> string \<Rightarrow> json \<Rightarrow> intake res" where
  "accept_run reviewed planed key request =
     rejectR exn_str
       (seqR (py_identifier (JStr key))
       (bindR (accept_task_request request key) (\<lambda>(spec, parent, grant).
        seqR (raise_if (planed \<and> (dget request ''kind'' \<noteq> JStr ''TaskSpec'' \<or> parent \<noteq> None)) (ValueError ''CP.1 supports the hosted local TaskSpec route only''))
        (let admissible = effective_capabilities spec grant in
         bindR (accept_contract spec (jopt id parent) (envelope_contract request) key (mutating (sorted_list_of_set admissible))) (\<lambda>contract.
         bindR (pin_profiles reviewed (grant_names grant ''profiles'')) (\<lambda>pinned.
         Inr \<lparr>in_spec = spec, in_parent = parent, in_grant = grant, in_admissible = admissible, in_contract = contract, in_pinned = pinned\<rparr>))))))"

definition initial_action_of :: "json \<Rightarrow> json option" where
  "initial_action_of request =
     (if dget request ''kind'' = JStr ''TaskRequest'' \<and> has_key (dget request ''payload'') ''initial_action''
      then Some (dget (dget request ''payload'') ''initial_action'') else None)"

definition read_scope :: "json option \<Rightarrow> string list" where
  "read_scope action =
     (case action of None \<Rightarrow> []
      | Some a \<Rightarrow> if dget a ''capability'' = JStr ''workspace.read'' \<and> is_dict (dget a ''input'') \<and> is_str (dget (dget a ''input'') ''workspace'')
                  then [sget (dget a ''input'') ''workspace''] else [])"

definition run_authority :: "string \<Rightarrow> json \<Rightarrow> intake \<Rightarrow> json res" where
  "run_authority key request i =
     compile_authority key (sorted_list_of_set (in_admissible i)) (read_scope (initial_action_of request) @ grant_names (in_grant i) ''workspaces'')
       (in_grant i \<noteq> None) (in_pinned i) (grant_names (in_grant i) ''ask_before'')"

definition initial_state :: "string \<Rightarrow> string \<Rightarrow> json \<Rightarrow> intake \<Rightarrow> string \<Rightarrow> string \<Rightarrow> string \<Rightarrow> task_state" where
  "initial_state key invocation request i spec_ref authority_ref contract_ref =
     \<lparr>ts_task_id = key, ts_revision = 0, ts_lifecycle = RUNNING, ts_iteration = 0, ts_active_specialist = ''coordinator'',
      ts_spec_ref = spec_ref, ts_decision_id = None, ts_decision_ref = None, ts_context_ref = None, ts_observation_ref = None,
      ts_wait = None, ts_artifacts = [], ts_human_responses = [], ts_completion_ref = None, ts_result_ref = None,
      ts_remaining_children = jint (dget_or (dget (in_spec i) ''autonomy'') ''child_tasks'' (JInt 0)), ts_children = [],
      ts_parent = in_parent i, ts_invocation_id = Some invocation, ts_request_digest = Some (sha256_hex (encode request)),
      ts_initial_action = initial_action_of request, ts_contract_ref = Some contract_ref, ts_contract_revision = Some 0,
      ts_authority_ref = Some authority_ref, ts_journal_head = None, ts_journal_length = 0, ts_semantic_reviews = [], ts_effects = []\<rparr>"

definition start_run :: "runtime \<Rightarrow> string \<Rightarrow> string \<Rightarrow> json \<Rightarrow> intake \<Rightarrow> json \<Rightarrow> artifact_store \<Rightarrow> task_state res \<times> artifact_store" where
  "start_run rt key invocation request i authority store =
     (case put_json store key (message ''TaskSpec'' (in_spec i)) of
        (Inl e, st) \<Rightarrow> (stepR rt (Inl e), st)
      | (Inr spec_ref, st) \<Rightarrow>
          (case put_json st key authority of
             (Inl e, st1) \<Rightarrow> (stepR rt (Inl e), st1)
           | (Inr authority_ref, st1) \<Rightarrow>
               (case put_json st1 key (message ''CompletionContract'' (in_contract i)) of
                  (Inl e, st2) \<Rightarrow> (stepR rt (Inl e), st2)
                | (Inr contract_ref, st2) \<Rightarrow> (Inr (initial_state key invocation request i spec_ref authority_ref contract_ref), st2))))"

definition begin_run ::
  "(string \<times> exec_profile) list \<Rightarrow> bool \<Rightarrow> runtime \<Rightarrow> string \<Rightarrow> string \<Rightarrow> json \<Rightarrow> 'p \<Rightarrow> fixture_rows \<Rightarrow> artifact_store \<Rightarrow> (intake \<times> json \<times> 'p run) res \<times> artifact_store" where
  "begin_run reviewed planed rt key invocation request ps rows store =
     (case bindR (accept_run reviewed planed key request) (\<lambda>i. bindR (run_authority key request i) (\<lambda>a. Inr (i, a))) of
        Inl e \<Rightarrow> (Inl e, store)
      | Inr (i, authority) \<Rightarrow>
          (case start_run rt key invocation request i authority store of
             (Inl e, st) \<Rightarrow> (Inl e, st)
           | (Inr s, st) \<Rightarrow> (Inr (i, dget authority ''payload'', \<lparr>rn_state = s, rn_published = Some s, rn_store = st, rn_target = ps,
               rn_contract = in_contract i, rn_last = None, rn_rejected = None, rn_history = [],
               rn_prepared = None, rn_escalation = None, rn_binding = LOCAL_BINDING, rn_local_turns = 0, rn_context_refs = [], rn_routing = None,
               rn_rows = rows, rn_tools = 0, rn_tool_outcome = None, rn_poisoned = [], rn_admission = JNull, rn_fingerprint = [], rn_delivered = JNull,
               rn_observed = False, rn_delta = False\<rparr>), st)))"

subsection \<open>The result\<close>

definition add_concerns :: "string list \<Rightarrow> json option \<Rightarrow> string list" where
  "add_concerns found final =
     (case final of None \<Rightarrow> found
      | Some ev \<Rightarrow> take 8 (found @ filter (\<lambda>c. c \<notin> set found) (map jstr (lget ev ''concerns''))))"

definition task_result :: "'p run \<Rightarrow> string list \<Rightarrow> json" where
  "task_result r found = (let s = rn_state r in message ''TaskResult'' (JObj
     [(''task_id'', JStr (ts_task_id s)), (''outcome'', JStr (lifecycle_str (ts_lifecycle s))),
      (''artifacts'', JObj (map (\<lambda>(k, v). (k, JStr v)) (ts_artifacts s))), (''completion_ref'', jopt JStr (ts_completion_ref s)),
      (''concerns'', JList (map JStr (add_concerns found (rn_last r))))]))"

definition ascii_lower :: "char \<Rightarrow> char" where
  "ascii_lower c = (let n = (of_char c :: nat) in if 65 \<le> n \<and> n \<le> 90 then char_of (n + 32) else c)"

text \<open>\<open>text.encode () [:n].decode (errors='ignore')\<close>: the longest prefix of whole characters within \<open>n\<close> bytes.\<close>

definition py_take_bytes :: "nat \<Rightarrow> string \<Rightarrow> string" where
  "py_take_bytes n s =
     take (case find (\<lambda>k. is_ok (decode_utf8 (take k s))) (rev [0..<Suc (min n (length s))]) of None \<Rightarrow> 0 | Some k \<Rightarrow> k) s"

fun stopped_lifecycle :: "exn \<Rightarrow> lifecycle" where
  "stopped_lifecycle (TerminalError m code) = (if code = 409 \<and> map ascii_lower m = ''cancelled'' then CANCELLED else FAILED)"
| "stopped_lifecycle e = FAILED"

definition stop_run :: "'p deployment \<Rightarrow> exn \<Rightarrow> ('p, string list) act" where
  "stop_run de e =
     (if is_terminal e then
        let l = stopped_lifecycle e in
        seqA (stateA (\<lambda>s. s\<lparr>ts_lifecycle := l, ts_wait := None\<rparr>))
        (bindA (close_effects de (map ascii_lower (lifecycle_str l))) (\<lambda>notes.
         retA (py_take_bytes 512 (''Execution stopped: '' @ exn_str e) # notes)))
      else if is_context_error e then
        seqA (stateA (\<lambda>s. s\<lparr>ts_lifecycle := FAILED, ts_wait := None\<rparr>)) (retA [exn_str e])
      else throwA e)"

definition conclude :: "'p deployment \<Rightarrow> string list \<Rightarrow> ('p, json) act" where
  "conclude de found =
     bindA (getA (\<lambda>r. task_result r found)) (\<lambda>output.
     seqA (resA (validate_result output (de_task de)))
     (bindA (retain de output) (\<lambda>ref.
      seqA (stateA (\<lambda>s. s\<lparr>ts_result_ref := Some ref\<rparr>)) (retA output))))"

end
