(* ===== verification/Workflow_Facts.thy ===== *)
theory Workflow_Facts
  imports Workflow
begin

section \<open>What an execution preserves\<close>

text \<open>
  Facts about the acts of \<open>Workflow\<close>. Most of them say that an act relates its start to its end by some
  reflexive and transitive relation; the locale \<open>run_order\<close> carries such a relation through the
  combinators once, and is interpreted for the growth of the artifact store, for the lifecycle and for
  the target being left alone.
\<close>

definition keeps :: "('p run \<Rightarrow> 'p run \<Rightarrow> bool) \<Rightarrow> ('p, 'a) act \<Rightarrow> bool" where
  "keeps R m \<longleftrightarrow> (\<forall>r. R r (snd (m r)))"

locale run_order =
  fixes R :: "'p run \<Rightarrow> 'p run \<Rightarrow> bool"
  assumes order_refl: "R r r" and order_trans: "R r s \<Longrightarrow> R s t \<Longrightarrow> R r t"
begin

lemma keeps_retA: "keeps R (retA x)" and keeps_throwA: "keeps R (throwA e)" and keeps_getA: "keeps R (getA f)" and keeps_resA: "keeps R (resA m)"
  by (simp_all add: keeps_def retA_def throwA_def getA_def resA_def order_refl)

lemma keeps_pure: "keeps R (\<lambda>r. (f r, r))"
  by (simp add: keeps_def order_refl)

lemma keeps_bindA: "keeps R m \<Longrightarrow> (\<And>x. keeps R (f x)) \<Longrightarrow> keeps R (bindA m f)"
  unfolding keeps_def bindA_def
proof (rule allI)
  fix r assume m: "\<forall>r. R r (snd (m r))" and f: "\<And>x. \<forall>r. R r (snd (f x r))"
  obtain x r' where mr: "m r = (x, r')" by force
  with m have "R r r'" by (metis snd_conv)
  with f show "R r (snd (case m r of (Inl e, r') \<Rightarrow> (Inl e, r') | (Inr x, r') \<Rightarrow> f x r'))"
    by (cases x) (auto simp: mr intro: order_trans)
qed

lemma keeps_attempts: "keeps R m \<Longrightarrow> R r (snd (attempts k rt m r))"
proof (induction k arbitrary: r)
  case 0
  then show ?case by (simp add: keeps_def)
next
  case (Suc k)
  obtain x r' where mr: "m r = (x, r')" by force
  with Suc.prems have "R r r'" by (metis keeps_def snd_conv)
  with Suc.IH [OF Suc.prems, of r'] show ?case by (cases x) (auto simp: mr intro: order_trans)
qed

lemma keeps_stepA: "keeps R m \<Longrightarrow> keeps R (stepA de m)"
proof -
  assume "keeps R m"
  then have "R r (snd (attempts 3 (de_runtime de) m r))" for r by (rule keeps_attempts)
  then show ?thesis unfolding stepA_def keeps_def by blast
qed

lemma keeps_eachA: "(\<And>x. keeps R (f x)) \<Longrightarrow> keeps R (eachA f xs)"
  by (induction xs) (auto intro: keeps_retA keeps_bindA)

lemmas keeps_basic = keeps_retA keeps_throwA keeps_getA keeps_resA keeps_pure keeps_bindA keeps_stepA keeps_eachA

end

text \<open>The three relations.\<close>

definition reads_kept :: "artifact_store \<Rightarrow> artifact_store \<Rightarrow> bool" where
  "reads_kept st st' \<longleftrightarrow> (\<forall>t ref c. read st t ref = Inr c \<longrightarrow> read st' t ref = Inr c)"

definition grows :: "'p run \<Rightarrow> 'p run \<Rightarrow> bool" where
  "grows r r' \<longleftrightarrow> reads_kept (rn_store r) (rn_store r')"

definition completes :: "'p run \<Rightarrow> 'p run \<Rightarrow> bool" where
  "completes r r' \<longleftrightarrow> ts_lifecycle (rn_state r') = COMPLETED \<and> ts_lifecycle (rn_state r) \<noteq> COMPLETED"

abbreviation no_completion :: "'p run \<Rightarrow> 'p run \<Rightarrow> bool" where
  "no_completion r r' \<equiv> \<not> completes r r'"

definition target_same :: "'p run \<Rightarrow> 'p run \<Rightarrow> bool" where
  "target_same r r' \<longleftrightarrow> rn_target r' = rn_target r"

interpretation gr: run_order grows
  by unfold_locales (auto simp: grows_def reads_kept_def)

interpretation nc: run_order no_completion
  by unfold_locales (auto simp: completes_def)

interpretation ts: run_order target_same
  by unfold_locales (auto simp: target_same_def)

subsection \<open>The artifact store only grows\<close>

lemma reads_kept_refl [simp]: "reads_kept st st"
  by (simp add: reads_kept_def)

lemma reads_kept_trans: "reads_kept a b \<Longrightarrow> reads_kept b c \<Longrightarrow> reads_kept a c"
  by (simp add: reads_kept_def)

lemma reads_kept_put: "put st t c = (x, st') \<Longrightarrow> reads_kept st st'"
  unfolding reads_kept_def by (blast intro: store.put_keeps)

lemma reads_kept_put_json: "put_json st t v = (x, st') \<Longrightarrow> reads_kept st st'"
  unfolding put_json_def by (rule reads_kept_put)

lemma reads_kept_append: "journal_append st t h n e = (x, st') \<Longrightarrow> reads_kept st st'"
  by (auto simp: journal_append_def Let_def split: if_splits sum.splits dest: reads_kept_put_json)

lemma reads_kept_normalize: "normalize v st t = (x, st') \<Longrightarrow> reads_kept st st'"
  by (auto simp: normalize_def Let_def split: if_splits sum.splits prod.splits dest: reads_kept_put)

lemma reads_kept_admit_receipt: "admit_receipt raw request st = (x, st') \<Longrightarrow> reads_kept st st'"
  by (auto simp: admit_receipt_def split: sum.splits dest: reads_kept_normalize)

lemma reads_kept_deliver: "deliver h d (admit_receipt raw request st) = (x, st') \<Longrightarrow> reads_kept st st'"
  by (auto simp: deliver_def split: prod.splits sum.splits dest: reads_kept_admit_receipt)

lemma reads_kept_attempt: "attempt P ps request payload st = (x, ps', st') \<Longrightarrow> reads_kept st st'"
  by (auto simp: attempt_def split: option.splits prod.splits sum.splits if_splits dest: reads_kept_deliver)

lemma reads_kept_poll: "poll P ps request st = (x, ps', st') \<Longrightarrow> reads_kept st st'"
  by (auto simp: poll_def split: prod.splits sum.splits exn.splits if_splits dest: reads_kept_deliver)

lemma reads_kept_cancel: "cancel P ps request st reason = (x, ps', st') \<Longrightarrow> reads_kept st st'"
  by (auto simp: cancel_def Let_def split: prod.splits sum.splits if_splits dest: reads_kept_admit_receipt)

lemma reads_kept_stop: "stop_for_task P ps request st = (x, ps', st') \<Longrightarrow> reads_kept st st'"
  by (auto simp: stop_for_task_def split: option.splits prod.splits sum.splits if_splits
      dest: reads_kept_admit_receipt reads_kept_cancel intro: reads_kept_trans)

lemma reads_kept_reconcile: "reconcile P ps request st = (x, ps', st') \<Longrightarrow> reads_kept st st'"
  by (auto simp: reconcile_def Let_def split: option.splits prod.splits sum.splits if_splits dest: reads_kept_admit_receipt)

lemma reads_kept_effects_read: "effects_read P ps t op v st = (x, ps', st') \<Longrightarrow> reads_kept st st'"
  by (auto simp: effects_read_def Let_def split: option.splits prod.splits sum.splits if_splits
      dest: reads_kept_put reads_kept_put_json intro: reads_kept_trans)

lemma reads_kept_admit_amendment: "admit_amendment de v c cref s st = (x, st') \<Longrightarrow> reads_kept st st'"
  by (auto simp: admit_amendment_def split: sum.splits prod.splits if_splits dest: reads_kept_put_json intro: reads_kept_trans)

lemma grows_storeA: "(\<And>st x st'. f st = (x, st') \<Longrightarrow> reads_kept st st') \<Longrightarrow> keeps grows (storeA f)"
  by (auto simp: keeps_def storeA_def grows_def split: prod.splits)

lemma grows_targetA: "(\<And>ps st x ps' st'. f ps st = (x, ps', st') \<Longrightarrow> reads_kept st st') \<Longrightarrow> keeps grows (targetA f)"
  by (auto simp: keeps_def targetA_def grows_def split: prod.splits)

lemma grows_modA: "(\<And>r. rn_store (f r) = rn_store r) \<Longrightarrow> keeps grows (modA f)"
  by (simp add: keeps_def modA_def grows_def)

lemma grows_stateA: "keeps grows (stateA f)"
  by (simp add: stateA_def grows_modA)

lemma grows_publish: "keeps grows publish"
  by (simp add: publish_def grows_modA)

lemma grows_retain: "keeps grows (retain de v)"
  unfolding retain_def by (intro gr.keeps_stepA grows_storeA) (rule reads_kept_put_json)

lemma grows_record_entry: "keeps grows (record_entry de e)"
  unfolding record_entry_def by (intro gr.keeps_basic grows_storeA grows_stateA grows_publish) (rule reads_kept_append)

lemma grows_set_effect: "keeps grows (set_effect op kvs)"
  unfolding set_effect_def by (rule grows_stateA)

lemma grows_end_wait: "keeps grows end_wait"
  unfolding end_wait_def by (rule grows_stateA)

lemmas grows_intros = gr.keeps_basic grows_end_wait grows_stateA grows_publish grows_retain grows_record_entry grows_set_effect

lemma grows_settle_effect: "keeps grows (settle_effect de op result)"
  unfolding settle_effect_def Let_def by (auto intro!: grows_intros)

lemma grows_reconcile_one: "keeps grows (reconcile_one de op)"
  unfolding reconcile_one_def Let_def
  by (auto intro!: grows_intros grows_targetA split del: if_split split: if_split intro: reads_kept_reconcile)

lemma grows_reconcile_effects: "keeps grows (reconcile_effects de)"
proof -
  have "keeps grows (reconcile_each de ops c)" for ops c
    by (induction ops arbitrary: c) (auto intro!: grows_intros grows_reconcile_one)
  then show ?thesis unfolding reconcile_effects_def by (intro grows_intros)
qed

lemma grows_with_provider:
  "(\<And>P ps st x ps' st'. f P ps st = (x, ps', st') \<Longrightarrow> reads_kept st st') \<Longrightarrow> keeps grows (with_provider de f)"
  by (auto simp: with_provider_def split: option.splits intro!: grows_intros grows_targetA)

lemma grows_poll_ticks: "keeps grows (poll_ticks de request wins tick left)"
  by (induction left arbitrary: tick)
    (auto intro!: grows_intros grows_with_provider intro: reads_kept_cancel reads_kept_poll)

lemma grows_supervise: "keeps grows (supervise de request op wins)"
  unfolding supervise_def by (intro grows_intros grows_poll_ticks)

lemma grows_await_approval: "keeps grows (await_approval de request op i answer)"
  unfolding await_approval_def Let_def by (intro grows_intros) (auto split: answered.splits intro!: grows_intros)

lemma grows_dispatch: "keeps grows (dispatch_effect de request)"
  unfolding dispatch_effect_def
  by (intro gr.keeps_stepA) (auto simp: keeps_def grows_def targetA_def split: sum.splits prod.splits dest: reads_kept_attempt)

lemma grows_run_effect: "keeps grows (run_effect de request op ref aref wins)"
  unfolding run_effect_def deliver_effect_def by (auto intro!: grows_intros grows_dispatch grows_supervise grows_settle_effect grows_reconcile_effects)

lemma grows_close_undispatched: "keeps grows (close_undispatched de op v)"
  unfolding close_undispatched_def by (intro grows_intros)

lemma grows_perform_effect: "keeps grows (perform_effect de action op i answer wins)"
  unfolding perform_effect_def refuse_effect_def admit_effect_def approve_effect_def
  by (auto simp: Let_def intro!: grows_intros grows_await_approval grows_close_undispatched grows_run_effect split: prod.splits)

lemma grows_perform_read: "keeps grows (perform_read de action op)"
proof -
  have "keeps grows (\<lambda>r. case targetA (\<lambda>ps st. effects_read (de_provider de) ps (de_task de) op v st) r of
      (Inr x, r') \<Rightarrow> (Inr (Inr x), r') | (Inl e, r') \<Rightarrow> (if is_value_error e then Inr (Inl (py_take 512 (exn_str e))) else Inl e, r'))" for v
    by (auto simp: keeps_def grows_def targetA_def split: sum.splits prod.splits dest: reads_kept_effects_read)
  then show ?thesis unfolding perform_read_def Let_def
    by (intro grows_intros) (auto intro!: grows_intros split: sum.splits)
qed

lemma grows_perform_target: "keeps grows (perform_target de action i answer wins)"
  unfolding perform_target_def by (auto intro!: grows_intros grows_perform_read grows_perform_effect)

lemma grows_close_one: "keeps grows (close_one de reason op)"
  unfolding close_one_def
  by (auto intro!: grows_intros grows_close_undispatched grows_targetA grows_settle_effect intro: reads_kept_stop)

lemma grows_close_effects: "keeps grows (close_effects de reason)"
  unfolding close_effects_def Let_def
  by (auto intro!: grows_intros grows_close_one grows_reconcile_effects grows_modA)

lemma grows_review_due: "keeps grows (review_due de)"
proof -
  have "keeps grows (review_one de pre c)" for pre c
    unfolding review_one_def Let_def by (intro grows_intros)
  then show ?thesis unfolding review_due_def by (auto intro!: grows_intros)
qed

lemma grows_finish_settle: "keeps grows (finish_settle de x)"
  unfolding finish_settle_def Let_def by (auto intro!: grows_intros grows_modA)

lemma grows_settle: "keeps grows (settle_task de)"
  unfolding settle_task_def by (intro grows_intros grows_review_due grows_finish_settle)

lemma grows_run_amendment: "keeps grows (run_amendment de v)"
  unfolding run_amendment_def
  by (intro grows_intros grows_storeA) (auto intro!: grows_intros grows_modA intro: reads_kept_admit_amendment split: amended_result.splits)

lemma grows_admit_amendments: "keeps grows (admit_amendments de vs)"
  by (induction vs) (auto intro!: grows_intros grows_run_amendment grows_settle)

lemma grows_resume: "keeps grows (resume de v)"
  unfolding resume_def by (intro grows_intros)

lemma grows_accept_answer: "keeps grows (accept_answer de action q v)"
  unfolding accept_answer_def by (auto intro!: grows_intros grows_resume split: option.splits)

lemma grows_await_events: "keeps grows (await_events de action q es)"
proof (induction es)
  case Nil
  then show ?case by (simp add: grows_intros)
next
  case (Cons e es)
  have w: "keeps grows (withdraw de action)"
    unfolding withdraw_def Let_def by (intro grows_intros grows_resume grows_settle)
  show ?case
  proof (cases e)
    case (Received v)
    then show ?thesis by (simp add: grows_accept_answer)
  next
    case (Interrupt x)
    then show ?thesis by (simp add: grows_intros)
  next
    case (Amendment v)
    have "keeps grows (if \<not> b then withdraw de action else seqA (settle_task de) (await_events de action q es))" for b
      using Cons w by (auto intro!: grows_intros grows_settle)
    with Cons Amendment show ?thesis by (auto intro!: grows_intros grows_run_amendment)
  qed
qed

lemma grows_await_input: "keeps grows (await_input de action es)"
  unfolding await_input_def set_wait_def suspend_def by (auto intro!: grows_intros grows_await_events)

lemma grows_stop_run: "keeps grows (stop_run de e)"
  unfolding stop_run_def Let_def by (auto intro!: grows_intros grows_close_effects)

subsection \<open>Nothing but an evaluation completes a Task\<close>

lemma nc_modA: "(\<And>r. ts_lifecycle (rn_state (f r)) = COMPLETED \<Longrightarrow> ts_lifecycle (rn_state r) = COMPLETED) \<Longrightarrow> keeps no_completion (modA f)"
  by (auto simp: keeps_def modA_def completes_def)

lemma nc_stateA: "(\<And>s. ts_lifecycle (f s) = COMPLETED \<Longrightarrow> ts_lifecycle s = COMPLETED) \<Longrightarrow> keeps no_completion (stateA f)"
  unfolding stateA_def by (rule nc_modA) simp

lemma nc_storeA: "keeps no_completion (storeA f)" and nc_targetA: "keeps no_completion (targetA g)"
  by (auto simp: keeps_def storeA_def targetA_def completes_def split: prod.splits)

lemma nc_publish: "keeps no_completion publish"
  unfolding publish_def by (rule nc_modA) simp

lemma nc_retain: "keeps no_completion (retain de v)"
  unfolding retain_def by (intro nc.keeps_stepA nc_storeA)

lemma nc_record_entry: "keeps no_completion (record_entry de e)"
  unfolding record_entry_def by (intro nc.keeps_basic nc_storeA nc_stateA nc_publish) simp

lemma nc_set_effect: "keeps no_completion (set_effect op kvs)" and nc_put_effect: "keeps no_completion (stateA (put_effect op v))"
  unfolding set_effect_def by (rule nc_stateA, simp add: put_effect_def)+

lemma nc_end_wait: "keeps no_completion end_wait"
  unfolding end_wait_def by (rule nc_stateA) simp

lemmas nc_intros = nc.keeps_basic nc_end_wait nc_storeA nc_targetA nc_publish nc_retain nc_record_entry nc_set_effect nc_put_effect

lemma nc_settle_effect: "keeps no_completion (settle_effect de op result)"
  unfolding settle_effect_def Let_def by (auto intro!: nc_intros)

lemma nc_reconcile_one: "keeps no_completion (reconcile_one de op)"
  unfolding reconcile_one_def Let_def by (auto intro!: nc_intros)

lemma nc_reconcile_effects: "keeps no_completion (reconcile_effects de)"
proof -
  have "keeps no_completion (reconcile_each de ops c)" for ops c
    by (induction ops arbitrary: c) (auto intro!: nc_intros nc_reconcile_one)
  then show ?thesis unfolding reconcile_effects_def by (intro nc_intros)
qed

lemma nc_with_provider: "keeps no_completion (with_provider de f)"
  by (auto simp: with_provider_def split: option.splits intro!: nc_intros)

lemma nc_poll_ticks: "keeps no_completion (poll_ticks de request wins tick left)"
  by (induction left arbitrary: tick) (auto intro!: nc_intros nc_with_provider)

lemma nc_supervise: "keeps no_completion (supervise de request op wins)"
  unfolding supervise_def by (intro nc_intros nc_poll_ticks)

lemma nc_await_approval: "keeps no_completion (await_approval de request op i answer)"
  unfolding await_approval_def Let_def
  by (intro nc_intros) (auto split: answered.splits intro!: nc_intros nc_stateA)

lemma nc_dispatch: "keeps no_completion (dispatch_effect de request)"
  unfolding dispatch_effect_def
  by (intro nc.keeps_stepA) (auto simp: keeps_def completes_def targetA_def split: sum.splits prod.splits)

lemma nc_run_effect: "keeps no_completion (run_effect de request op ref aref wins)"
  unfolding run_effect_def deliver_effect_def by (auto intro!: nc_intros nc_dispatch nc_supervise nc_settle_effect nc_reconcile_effects)

lemma nc_close_undispatched: "keeps no_completion (close_undispatched de op v)"
  unfolding close_undispatched_def by (intro nc_intros)

lemma nc_perform_effect: "keeps no_completion (perform_effect de action op i answer wins)"
  unfolding perform_effect_def refuse_effect_def admit_effect_def approve_effect_def
  by (auto simp: Let_def intro!: nc_intros nc_await_approval nc_close_undispatched nc_run_effect split: prod.splits)

lemma nc_perform_read: "keeps no_completion (perform_read de action op)"
proof -
  have "keeps no_completion (\<lambda>r. case targetA (\<lambda>ps st. effects_read (de_provider de) ps (de_task de) op v st) r of
      (Inr x, r') \<Rightarrow> (Inr (Inr x), r') | (Inl e, r') \<Rightarrow> (if is_value_error e then Inr (Inl (py_take 512 (exn_str e))) else Inl e, r'))" for v
    by (auto simp: keeps_def completes_def targetA_def split: sum.splits prod.splits)
  then show ?thesis unfolding perform_read_def Let_def
    by (intro nc_intros) (auto intro!: nc_intros nc_stateA split: sum.splits)
qed

lemma nc_perform_target: "keeps no_completion (perform_target de action i answer wins)"
  unfolding perform_target_def by (auto intro!: nc_intros nc_perform_read nc_perform_effect)

lemma nc_close_effects: "keeps no_completion (close_effects de reason)"
proof -
  have "keeps no_completion (close_one de reason op)" for op
    unfolding close_one_def by (auto intro!: nc_intros nc_close_undispatched nc_settle_effect)
  then show ?thesis unfolding close_effects_def Let_def by (auto intro!: nc_intros nc_reconcile_effects nc_modA nc_stateA)
qed

lemma nc_run_amendment: "keeps no_completion (run_amendment de v)"
  unfolding run_amendment_def
  by (intro nc_intros) (auto intro!: nc_intros nc_modA nc_stateA split: amended_result.splits)

lemma nc_review_due: "keeps no_completion (review_due de)"
proof -
  have "keeps no_completion (review_one de pre c)" for pre c
    unfolding review_one_def Let_def by (auto intro!: nc_intros nc_stateA)
  then show ?thesis unfolding review_due_def by (auto intro!: nc_intros)
qed

subsection \<open>Reading back what an execution wrote\<close>

lemma stepA_pure:
  assumes "stepA de (\<lambda>r. (f r, r)) r = (y, r')"
  shows "r' = r" and "y = Inr x \<Longrightarrow> f r = Inr x"
  using assms by (auto simp: stepA_def eval_nat_numeral split: sum.splits if_splits)

lemma bindA_Inr: "bindA m f r = (Inr y, r'') \<longleftrightarrow> (\<exists>x r'. m r = (Inr x, r') \<and> f x r' = (Inr y, r''))"
  by (auto simp: bindA_def split: prod.splits sum.splits)

lemma stepA_store:
  assumes "stepA de (storeA f) r = (Inr x, r')"
  shows "\<exists>st st'. f st = (Inr x, st') \<and> r' = r\<lparr>rn_store := st'\<rparr>"
proof -
  have "attempts k rt (storeA f) r = (Inr x, r') \<Longrightarrow> \<exists>st st'. f st = (Inr x, st') \<and> r' = r\<lparr>rn_store := st'\<rparr>" for k rt
  proof (induction k arbitrary: r)
    case 0
    then show ?case by (cases "f (rn_store r)") (auto simp: storeA_def)
  next
    case (Suc k)
    obtain y st' where y: "f (rn_store r) = (y, st')" by force
    show ?case
    proof (cases y)
      case (Inl e)
      with Suc.prems y have "attempts k rt (storeA f) (r\<lparr>rn_store := st'\<rparr>) = (Inr x, r')"
        by (simp add: storeA_def [of f r] split: if_splits)
      from Suc.IH [OF this] show ?thesis by simp
    next
      case (Inr z)
      with Suc.prems y have "x = z" "r' = r\<lparr>rn_store := st'\<rparr>" by (simp_all add: storeA_def [of f r])
      with y Inr show ?thesis by blast
    qed
  qed
  with assms show ?thesis unfolding stepA_def by blast
qed

lemma ts_modA: "(\<And>r. rn_target (f r) = rn_target r) \<Longrightarrow> keeps target_same (modA f)"
  by (simp add: keeps_def modA_def target_same_def)

lemma ts_stateA: "keeps target_same (stateA f)" and ts_publish: "keeps target_same publish" and ts_set_effect: "keeps target_same (set_effect op kvs)"
  by (simp_all add: stateA_def publish_def set_effect_def ts_modA)

lemma ts_storeA: "keeps target_same (storeA f)"
  by (auto simp: keeps_def storeA_def target_same_def split: prod.splits)

lemma ts_retain: "keeps target_same (retain de v)"
  unfolding retain_def by (intro ts.keeps_stepA ts_storeA)

lemma ts_record_entry: "keeps target_same (record_entry de e)"
  unfolding record_entry_def by (intro ts.keeps_basic ts_storeA ts_stateA ts_publish)

lemma ts_end_wait: "keeps target_same end_wait"
  unfolding end_wait_def by (rule ts_stateA)

lemmas ts_intros = ts.keeps_basic ts_end_wait ts_stateA ts_publish ts_set_effect ts_retain ts_record_entry

lemma ts_await_approval: "keeps target_same (await_approval de request op i answer)"
  unfolding await_approval_def Let_def by (intro ts_intros) (auto split: answered.splits intro!: ts_intros)

lemma ts_close_undispatched: "keeps target_same (close_undispatched de op v)"
  unfolding close_undispatched_def by (intro ts_intros)

lemma keepsD: "keeps R m \<Longrightarrow> m r = (x, r') \<Longrightarrow> R r r'"
  by (metis keeps_def snd_conv)

lemma ts_bind_at:
  assumes "keeps target_same m" and "\<And>x r'. m r = (Inr x, r') \<Longrightarrow> target_same r' (snd (f x r'))"
  shows "target_same r (snd (bindA m f r))"
proof -
  obtain y r' where y: "m r = (y, r')" by force
  from keepsD [OF assms(1) y] have "target_same r r'" .
  with assms(2) [of _ r'] y show ?thesis by (cases y) (auto simp: bindA_def intro: ts.order_trans)
qed

lemma await_approval_Inr:
  assumes "await_approval de request op i answer r = (Inr (verdict, aref), r')"
  shows "answer = Cancel_won \<and> verdict = ''CANCELED'' \<or> (\<exists>received. answer = Input_won received
    \<and> verdict = sget (dget received ''payload'') ''value''
    \<and> is_ok (validate_response received (approval_request (de_task de) (''approve-'' @ show_nat i) request) (de_task de)))"
proof (cases answer)
  case (Input_won received)
  with assms show ?thesis unfolding await_approval_def Let_def bindA_Inr
    by (auto simp: bindA_Inr retA_def resA_def is_ok_def)
next
  case Cancel_won
  with assms show ?thesis unfolding await_approval_def Let_def bindA_Inr
    by (auto simp: bindA_Inr retA_def)
next
  case (Not_answered e)
  with assms show ?thesis unfolding await_approval_def Let_def bindA_Inr by (simp add: throwA_def)
qed

lemma approve_effect_same:
  assumes "\<not> (\<exists>received. answer = Input_won received
     \<and> is_ok (validate_response received (approval_request (de_task de) (''approve-'' @ show_nat i) request) (de_task de))
     \<and> sget (dget received ''payload'') ''value'' = ''APPROVE'')"
  shows "target_same r (snd (approve_effect de request op ref i answer wins r))"
  unfolding approve_effect_def
proof (rule ts_bind_at [OF ts_await_approval])
  fix x r' assume a: "await_approval de request op i answer r = (Inr x, r')"
  obtain verdict aref where x: "x = (verdict, aref)" by force
  from await_approval_Inr [OF a [unfolded x]] assms have v: "verdict \<noteq> ''APPROVE''" by auto
  have "keeps target_same (let reason = JStr (if verdict = ''CANCELED'' then ''Canceled before dispatch'' else ''Human approval denied'') in
       seqA (close_undispatched de op (outcome ''not_dispatched'' [(''reason'', reason), (''approval_ref'', jopt JStr aref)]))
       (bindA (getA rn_state) (\<lambda>s. retA (effect_observation s op [(''reason'', reason)]))))"
    unfolding Let_def by (intro ts_intros ts_close_undispatched)
  then show "target_same r' (snd ((case x of (verdict, approval_ref) \<Rightarrow> if verdict \<noteq> ''APPROVE'' then
       let reason = JStr (if verdict = ''CANCELED'' then ''Canceled before dispatch'' else ''Human approval denied'') in
       seqA (close_undispatched de op (outcome ''not_dispatched'' [(''reason'', reason), (''approval_ref'', jopt JStr approval_ref)]))
       (bindA (getA rn_state) (\<lambda>s. retA (effect_observation s op [(''reason'', reason)])))
     else run_effect de request op ref approval_ref wins) r'))" using v by (simp add: x keeps_def)
qed

text \<open>
  C8. An effect the authority wants asked about reaches the target only with the human's approval of
  exactly that request: whatever the process does afterwards, the target is left as it was unless the
  wait was answered, the answer is a valid response to the approval request built from the lowered
  effect request of this operation, and its value is APPROVE. A denial, a cancellation, an invalid
  response and a request that could not be lowered dispatch nothing.
\<close>

theorem approval_gates_dispatch:
  "if py_mem (dget action ''capability'') (lget (de_authority de) ''ask_before'') then
     target_same r (snd (perform_effect de action operation iteration answer wins r))
     \<or> (\<exists>received request. answer = Input_won received \<and> lower_target de operation action (rn_state r) (rn_store r) = Inr request
          \<and> is_ok (validate_response received (approval_request (de_task de) (''approve-'' @ show_nat iteration) request) (de_task de))
          \<and> sget (dget received ''payload'') ''value'' = ''APPROVE'')
   else True"
proof (cases "py_mem (dget action ''capability'') (lget (de_authority de) ''ask_before'')")
  case ask: True
  let ?approved = "\<lambda>request. \<exists>received. answer = Input_won received
     \<and> is_ok (validate_response received (approval_request (de_task de) (''approve-'' @ show_nat iteration) request) (de_task de))
     \<and> sget (dget received ''payload'') ''value'' = ''APPROVE''"
  have "target_same r (snd (perform_effect de action operation iteration answer wins r))"
    if no: "\<And>request. lower_target de operation action (rn_state r) (rn_store r) = Inr request \<Longrightarrow> \<not> ?approved request"
    unfolding perform_effect_def
  proof (rule ts_bind_at)
    show "keeps target_same (stepA de (\<lambda>r. (lower_target de operation action (rn_state r) (rn_store r), r)))" by (intro ts_intros)
    fix request r' assume l: "stepA de (\<lambda>r. (lower_target de operation action (rn_state r) (rn_store r), r)) r = (Inr request, r')"
    from no [OF stepA_pure(2) [OF l refl]] have n: "\<not> ?approved request" .
    have "target_same r0 (snd (approve_effect de request operation ref iteration answer wins r0))" for ref r0
      using n by (rule approve_effect_same)
    then have "keeps target_same (approve_effect de request operation ref iteration answer wins)" for ref by (simp add: keeps_def)
    then have "keeps target_same (if dget request ''kind'' \<noteq> JStr ''EffectRequest'' then refuse_effect de action operation request
        else admit_effect de action operation request iteration answer wins)"
      using ask by (auto simp: refuse_effect_def admit_effect_def intro!: ts_intros)
    then show "target_same r' (snd ((if dget request ''kind'' \<noteq> JStr ''EffectRequest'' then refuse_effect de action operation request
        else admit_effect de action operation request iteration answer wins) r'))" by (simp add: keeps_def)
  qed
  with ask show ?thesis by auto
qed simp

lemma record_entry_Inr:
  assumes "record_entry de entry r = (Inr u, r')"
  shows "\<exists>head. ts_journal_head (rn_state r') = Some head \<and> ts_journal_length (rn_state r') = ts_journal_length (rn_state r) + 1
    \<and> read (rn_store r') (de_task de) (JStr head)
        = Inr (encode (entry_message (de_task de) (ts_journal_head (rn_state r)) (nat (ts_journal_length (rn_state r))) entry))
    \<and> rn_published r' = Some (rn_state r')"
proof -
  let ?s = "rn_state r"
  from assms obtain head r1 where a: "stepA de (storeA (\<lambda>st. journal_append st (de_task de) (ts_journal_head ?s) (nat (ts_journal_length ?s)) entry)) r = (Inr head, r1)"
    and r': "r' = r1\<lparr>rn_state := (rn_state r1)\<lparr>ts_journal_head := Some head, ts_journal_length := ts_journal_length (rn_state r1) + 1\<rparr>,
      rn_published := Some ((rn_state r1)\<lparr>ts_journal_head := Some head, ts_journal_length := ts_journal_length (rn_state r1) + 1\<rparr>)\<rparr>"
    unfolding record_entry_def bindA_Inr by (auto simp: getA_def stateA_def modA_def publish_def)
  from stepA_store [OF a] obtain st st' where j: "journal_append st (de_task de) (ts_journal_head ?s) (nat (ts_journal_length ?s)) entry = (Inr head, st')"
    and r1: "r1 = r\<lparr>rn_store := st'\<rparr>" by blast
  from j have "read st' (de_task de) (JStr head) = Inr (encode (entry_message (de_task de) (ts_journal_head ?s) (nat (ts_journal_length ?s)) entry))"
    by (auto simp: journal_append_def Let_def put_json_def split: if_splits sum.splits intro: store.put_read)
  with r' r1 show ?thesis by simp
qed

text \<open>
  The two ways an effect may go: the target is left alone, or the dispatch is on record first. In the second
  way the entry that says that this operation is being dispatched, with the digest of the request, the reference
  under which exactly that request is retained and, where the authority asks, the reference of the retained
  answer, is the new head of the journal and is published with the Task state; the target is still as it was;
  and delivering the effect from there is all that follows.
\<close>

definition asked_first :: "'p deployment \<Rightarrow> json \<Rightarrow> bool" where
  "asked_first de action \<longleftrightarrow> py_mem (dget action ''capability'') (lget (de_authority de) ''ask_before'')"

definition on_record :: "'p deployment \<Rightarrow> json \<Rightarrow> string \<Rightarrow> string \<Rightarrow> string option \<Rightarrow> 'p run \<Rightarrow> bool" where
  "on_record de request operation request_ref approval_ref r \<longleftrightarrow> rn_published r = Some (rn_state r)
     \<and> read (rn_store r) (de_task de) (JStr request_ref) = Inr (encode request)
     \<and> (\<exists>head previous position. ts_journal_head (rn_state r) = Some head \<and> ts_journal_length (rn_state r) = position + 1
          \<and> read (rn_store r) (de_task de) (JStr head)
              = Inr (encode (entry_message (de_task de) previous (nat position) (dispatched_entry request operation request_ref approval_ref))))"

definition approval_on_record :: "'p deployment \<Rightarrow> answered \<Rightarrow> string option \<Rightarrow> 'p run \<Rightarrow> bool" where
  "approval_on_record de answer approval_ref r \<longleftrightarrow> (\<exists>ref received. approval_ref = Some ref \<and> answer = Input_won received
     \<and> read (rn_store r) (de_task de) (JStr ref) = Inr (encode received))"

definition written_ahead :: "'p deployment \<Rightarrow> bool \<Rightarrow> json \<Rightarrow> string \<Rightarrow> answered \<Rightarrow> (nat \<Rightarrow> bool) \<Rightarrow> 'p run \<Rightarrow> json res \<times> 'p run \<Rightarrow> bool" where
  "written_ahead de ask request operation answer wins r out \<longleftrightarrow> target_same r (snd out)
     \<or> (\<exists>request_ref approval_ref r1. target_same r r1 \<and> on_record de request operation request_ref approval_ref r1
          \<and> (if ask then approval_on_record de answer approval_ref r1 else approval_ref = None)
          \<and> out = deliver_effect de request operation wins r1)"

lemma written_ahead_after: "target_same r r' \<Longrightarrow> written_ahead de ask request op answer wins r' out \<Longrightarrow> written_ahead de ask request op answer wins r out"
  unfolding written_ahead_def by (metis ts.order_trans)

lemma written_ahead_same: "keeps target_same m \<Longrightarrow> written_ahead de ask request op answer wins r (m r)"
  by (simp add: written_ahead_def keeps_def)

lemma written_ahead_bind:
  assumes m: "keeps target_same m" and f: "\<And>x r'. m r = (Inr x, r') \<Longrightarrow> written_ahead de ask request op answer wins r' (f x r')"
  shows "written_ahead de ask request op answer wins r (bindA m f r)"
proof -
  obtain y r' where y: "m r = (y, r')" by force
  from keepsD [OF m y] have t: "target_same r r'" .
  show ?thesis
  proof (cases y)
    case (Inl e)
    with y t show ?thesis by (simp add: bindA_def written_ahead_def)
  next
    case (Inr x)
    with y f written_ahead_after [OF t] show ?thesis by (simp add: bindA_def)
  qed
qed

lemma retained_reads: "retain de v r = (Inr ref, r') \<Longrightarrow> read (rn_store r') (de_task de) (JStr ref) = Inr (encode v)"
  unfolding retain_def put_json_def by (auto dest!: stepA_store intro: store.put_read)

lemma run_effect_ahead:
  assumes ref: "read (rn_store r) (de_task de) (JStr ref) = Inr (encode request)"
    and ap: "if ask then approval_on_record de answer aref r else aref = None"
  shows "written_ahead de ask request op answer wins r (run_effect de request op ref aref wins r)"
proof -
  obtain y r1 where y: "record_entry de (dispatched_entry request op ref aref) r = (y, r1)" by force
  from keepsD [OF ts_record_entry y] have t: "target_same r r1" .
  from keepsD [OF grows_record_entry y] have g: "reads_kept (rn_store r) (rn_store r1)" by (simp add: grows_def)
  show ?thesis
  proof (cases y)
    case (Inl e)
    with y t show ?thesis by (simp add: run_effect_def bindA_def written_ahead_def)
  next
    case (Inr u)
    have "on_record de request op ref aref r1"
      using record_entry_Inr [OF y [unfolded Inr]] ref g unfolding on_record_def reads_kept_def by blast
    moreover have "if ask then approval_on_record de answer aref r1 else aref = None"
      using ap g by (auto simp: approval_on_record_def reads_kept_def split: if_splits)
    moreover have "run_effect de request op ref aref wins r = deliver_effect de request op wins r1"
      using y Inr by (simp add: run_effect_def bindA_def)
    ultimately show ?thesis using t unfolding written_ahead_def by blast
  qed
qed

lemma await_approval_reads:
  assumes "await_approval de request op i answer r = (Inr (verdict, aref), r')" and "verdict = ''APPROVE''"
  shows "approval_on_record de answer aref r'"
proof (cases answer)
  case (Input_won received)
  with assms show ?thesis unfolding await_approval_def Let_def bindA_Inr
    by (auto simp: bindA_Inr retA_def resA_def approval_on_record_def stateA_def modA_def publish_def dest!: retained_reads)
next
  case Cancel_won
  with assms show ?thesis unfolding await_approval_def Let_def bindA_Inr
    by (auto simp: bindA_Inr retA_def)
next
  case (Not_answered e)
  with assms show ?thesis unfolding await_approval_def Let_def bindA_Inr by (simp add: throwA_def)
qed

lemma approve_effect_ahead:
  assumes ref: "read (rn_store r) (de_task de) (JStr ref) = Inr (encode request)"
  shows "written_ahead de True request op answer wins r (approve_effect de request op ref i answer wins r)"
  unfolding approve_effect_def
proof (rule written_ahead_bind [OF ts_await_approval])
  fix x r' assume a: "await_approval de request op i answer r = (Inr x, r')"
  obtain verdict aref where x: "x = (verdict, aref)" by force
  show "written_ahead de True request op answer wins r' ((case x of (verdict, approval_ref) \<Rightarrow> if verdict \<noteq> ''APPROVE'' then
       let reason = JStr (if verdict = ''CANCELED'' then ''Canceled before dispatch'' else ''Human approval denied'') in
       seqA (close_undispatched de op (outcome ''not_dispatched'' [(''reason'', reason), (''approval_ref'', jopt JStr approval_ref)]))
       (bindA (getA rn_state) (\<lambda>s. retA (effect_observation s op [(''reason'', reason)])))
     else run_effect de request op ref approval_ref wins) r')"
  proof (cases "verdict = ''APPROVE''")
    case True
    from keepsD [OF grows_await_approval a] ref have k: "read (rn_store r') (de_task de) (JStr ref) = Inr (encode request)"
      by (simp add: grows_def reads_kept_def)
    from run_effect_ahead [OF k, of True answer aref] await_approval_reads [OF a [unfolded x] True] True show ?thesis
      by (simp add: x)
  next
    case False
    have "keeps target_same (let reason = JStr (if verdict = ''CANCELED'' then ''Canceled before dispatch'' else ''Human approval denied'') in
       seqA (close_undispatched de op (outcome ''not_dispatched'' [(''reason'', reason), (''approval_ref'', jopt JStr aref)]))
       (bindA (getA rn_state) (\<lambda>s. retA (effect_observation s op [(''reason'', reason)]))))"
      unfolding Let_def by (intro ts_intros ts_close_undispatched)
    from written_ahead_same [OF this] False show ?thesis by (simp add: x)
  qed
qed

lemma admit_effect_ahead:
  "written_ahead de (asked_first de action) request op answer wins r (admit_effect de action op request i answer wins r)"
proof -
  let ?next = "\<lambda>ref. if py_mem (dget action ''capability'') (lget (de_authority de) ''ask_before'')
      then approve_effect de request op ref i answer wins else run_effect de request op ref None wins"
  let ?put = "\<lambda>ref. stateA (put_effect op (JObj [(''status'', JStr ''admitted''), (''class'', dget action ''capability''),
             (''request_ref'', JStr ref), (''reconcile_attempts'', JInt 0)]))"
  have n: "written_ahead de (asked_first de action) request op answer wins r2 (?next ref r2)"
    if "read (rn_store r2) (de_task de) (JStr ref) = Inr (encode request)" for ref r2
    using approve_effect_ahead [OF that] run_effect_ahead [OF that, of False] by (simp add: asked_first_def)
  have p: "written_ahead de (asked_first de action) request op answer wins r1 (seqA (?put ref) (seqA publish (?next ref)) r1)"
    if "read (rn_store r1) (de_task de) (JStr ref) = Inr (encode request)" for ref r1
  proof -
    have "rn_store (snd (seqA (?put ref) publish r1)) = rn_store r1" "target_same r1 (snd (seqA (?put ref) publish r1))"
      by (simp_all add: bindA_def stateA_def modA_def publish_def target_same_def)
    with n [of "snd (seqA (?put ref) publish r1)" ref] that
    have "written_ahead de (asked_first de action) request op answer wins r1 (?next ref (snd (seqA (?put ref) publish r1)))"
      by (intro written_ahead_after [of r1]) simp_all
    then show ?thesis by (simp add: bindA_def stateA_def modA_def publish_def)
  qed
  show ?thesis unfolding admit_effect_def
    by (rule written_ahead_bind [OF ts_retain]) (rule p, erule retained_reads)
qed

text \<open>
  C9. The journal is written ahead of the target: whatever an effect operation does, it leaves the target as it
  was, or the model's action was lowered to an effect request and the dispatch of exactly that request is on
  record before anything is delivered: its entry, with the digest and the retained document of the request
  and, when the authority asks before it, the retained answer of the human, is the head of the journal of the
  published state while the target is still untouched, and the rest of the operation is the delivery from that
  state. So if the entry cannot be written, nothing is delivered.
\<close>

theorem dispatch_journaled_first:
  "target_same r (snd (perform_effect de action operation iteration answer wins r))
   \<or> (\<exists>request. lower_target de operation action (rn_state r) (rn_store r) = Inr request
        \<and> dget request ''kind'' = JStr ''EffectRequest''
        \<and> (\<exists>request_ref approval_ref r1. target_same r r1 \<and> on_record de request operation request_ref approval_ref r1
             \<and> (if asked_first de action then approval_on_record de answer approval_ref r1 else approval_ref = None)
             \<and> perform_effect de action operation iteration answer wins r = deliver_effect de request operation wins r1))"
proof -
  let ?lower = "stepA de (\<lambda>r. (lower_target de operation action (rn_state r) (rn_store r), r))"
  obtain y r0 where y: "?lower r = (y, r0)" by force
  from stepA_pure(1) [OF y] have r0: "r0 = r" .
  show ?thesis
  proof (cases y)
    case (Inl e)
    with y r0 show ?thesis by (simp add: perform_effect_def bindA_def ts.order_refl)
  next
    case (Inr request)
    have l: "lower_target de operation action (rn_state r) (rn_store r) = Inr request" by (rule stepA_pure(2) [OF y Inr])
    show ?thesis
    proof (cases "dget request ''kind'' = JStr ''EffectRequest''")
      case True
      with y Inr r0 have "perform_effect de action operation iteration answer wins r = admit_effect de action operation request iteration answer wins r"
        by (simp add: perform_effect_def bindA_def)
      with admit_effect_ahead [of de action request operation answer wins r iteration] l True show ?thesis
        unfolding written_ahead_def by metis
    next
      case False
      have "keeps target_same (refuse_effect de action operation request)" unfolding refuse_effect_def by (intro ts_intros)
      with False y Inr r0 show ?thesis by (simp add: perform_effect_def bindA_def keeps_def)
    qed
  qed
qed

subsection \<open>Completion\<close>

definition reviewed_only :: "'p run \<Rightarrow> 'p run \<Rightarrow> bool" where
  "reviewed_only r r' \<longleftrightarrow> rn_contract r' = rn_contract r \<and> (\<exists>x. rn_state r' = (rn_state r)\<lparr>ts_semantic_reviews := x\<rparr>)"

interpretation rv: run_order reviewed_only
proof
  show "reviewed_only r r" for r :: "'p run"
    by (auto simp: reviewed_only_def intro: exI [of _ "ts_semantic_reviews (rn_state r)"])
  show "reviewed_only r t" if "reviewed_only r s" "reviewed_only s t" for r s t :: "'p run"
    using that by (auto simp: reviewed_only_def)
qed

lemma reviewed_only_same: "rn_contract r' = rn_contract r \<Longrightarrow> rn_state r' = rn_state r \<Longrightarrow> reviewed_only r r'"
  unfolding reviewed_only_def by (auto intro: exI [of _ "ts_semantic_reviews (rn_state r)"])

lemma rv_retain: "keeps reviewed_only (retain de v)"
proof -
  have "keeps reviewed_only (storeA f)" for f :: "artifact_store \<Rightarrow> string res \<times> artifact_store"
    by (auto simp: keeps_def storeA_def split: prod.splits intro!: reviewed_only_same)
  then show ?thesis unfolding retain_def by (intro rv.keeps_stepA)
qed

lemma rv_review_due: "keeps reviewed_only (review_due de)"
proof -
  have "keeps reviewed_only (stateA (\<lambda>s. s\<lparr>ts_semantic_reviews := f s\<rparr>))" for f
    by (auto simp: keeps_def stateA_def modA_def reviewed_only_def)
  then have "keeps reviewed_only (review_one de pre c)" for pre c
    unfolding review_one_def Let_def by (intro rv.keeps_basic rv_retain)
  then show ?thesis unfolding review_due_def by (auto intro!: rv.keeps_basic)
qed

lemma finish_settle_illegal: "\<not> fst (snd x) \<Longrightarrow> keeps no_completion (finish_settle de x)"
  unfolding finish_settle_def Let_def by (auto intro!: nc_intros nc_modA nc_stateA split: if_splits)

lemma settle_completes:
  assumes "completes r (snd (settle_task de r))"
  shows "\<exists>reviews store ev why. reads_kept (rn_store r) store \<and> reads_kept store (rn_store (snd (settle_task de r)))
    \<and> evaluate_contract (rn_contract r) (ts_contract_ref (rn_state r)) ((rn_state r)\<lparr>ts_semantic_reviews := reviews\<rparr>) store = Inr (ev, True, why)"
proof -
  obtain y r1 where y: "review_due de r = (y, r1)" by force
  from keepsD [OF nc_review_due y] keepsD [OF rv_review_due y] have n1: "no_completion r r1" and rv: "reviewed_only r r1" by auto
  have g: "reads_kept (rn_store r) (rn_store r1)"
    using keepsD [OF grows_review_due y] by (simp add: grows_def)
  from assms y n1 obtain u where u: "y = Inr u" by (cases y) (auto simp: settle_task_def bindA_def)
  let ?f = "\<lambda>r. (evaluate_contract (rn_contract r1) (ts_contract_ref (rn_state r1)) (rn_state r1) (rn_store r), r)"
  have s: "settle_task de r = bindA (stepA de ?f) (finish_settle de) r1" using y u by (simp add: settle_task_def bindA_def getA_def)
  obtain z r2 where z: "stepA de ?f r1 = (z, r2)" by force
  note r2 = stepA_pure(1) [OF z]
  from assms s z r2 n1 obtain x where x: "z = Inr x" by (cases z) (auto simp: bindA_def)
  have "fst (snd x)"
  proof (rule ccontr)
    assume "\<not> fst (snd x)"
    from finish_settle_illegal [OF this, of de] have "no_completion r1 (snd (finish_settle de x r1))" by (auto simp: keeps_def)
    with assms s z x r2 n1 show False by (auto simp: bindA_def completes_def)
  qed
  then obtain ev why where ev: "x = (ev, True, why)" by (cases x) auto
  have "settle_task de r = finish_settle de x r1" using s z x r2 by (simp add: bindA_def)
  with grows_finish_settle [of de x] have "reads_kept (rn_store r1) (rn_store (snd (settle_task de r)))" by (simp add: keeps_def grows_def)
  moreover from rv obtain reviews where "rn_state r1 = (rn_state r)\<lparr>ts_semantic_reviews := reviews\<rparr>" "rn_contract r1 = rn_contract r"
    by (auto simp: reviewed_only_def)
  ultimately show ?thesis using stepA_pure(2) [OF z x] g ev by force
qed

text \<open>
  A Task completes only by a legal evaluation. No effect, reconciliation, stop or amendment makes a
  Task COMPLETED, whatever its capability, target or worker reports; \<open>settle_task\<close> does so only when the
  evaluation of the current contract revision, over the Task's own evidence and journal (with at most
  fresh semantic reviews added) and a store in which everything retained before is still readable, comes
  out legal.
\<close>

lemma completion_only_by_legality:
  "(if completes r (snd (settle_task de r)) then
      \<exists>reviews store ev why. reads_kept (rn_store r) store
        \<and> evaluate_contract (rn_contract r) (ts_contract_ref (rn_state r)) ((rn_state r)\<lparr>ts_semantic_reviews := reviews\<rparr>) store = Inr (ev, True, why)
    else True)
   \<and> \<not> completes r (snd (perform_target de action iteration answer wins r)) \<and> \<not> completes r (snd (reconcile_effects de r))
   \<and> \<not> completes r (snd (close_effects de reason r)) \<and> \<not> completes r (snd (run_amendment de submitted r))"
  using settle_completes [of r de] nc_perform_target nc_reconcile_effects nc_close_effects nc_run_amendment
  unfolding keeps_def by (intro conjI) (auto, blast+)

subsection \<open>Retention\<close>

lemma read_json_kept: "reads_kept st st' \<Longrightarrow> read_json st t ref = Inr v \<Longrightarrow> read_json st' t ref = Inr v"
  by (auto simp: read_json_def bindR_eq_Inr reads_kept_def)

lemma journal_walk_kept:
  "reads_kept st st' \<Longrightarrow> journal_walk st t left cursor es = Inr out \<Longrightarrow> journal_walk st' t left cursor es = Inr out"
proof (induction left arbitrary: cursor es)
  case 0
  then show ?case by (simp add: journal_walk.simps split: if_splits)
next
  case (Suc left)
  show ?case
  proof (cases "cursor = JNull")
    case True
    with Suc.prems show ?thesis by (simp add: journal_walk.simps)
  next
    case False
    with Suc.prems obtain raw payload where "read_json st t cursor = Inr raw" "validate_entry raw t = Inr payload"
      "journal_walk st t left (dget payload ''previous_ref'') ((jstr cursor, payload) # es) = Inr out"
      by (auto simp: journal_walk.simps [of st t "Suc left"] bindR_eq_Inr)
    with False Suc.IH Suc.prems(1) read_json_kept show ?thesis by (simp add: journal_walk.simps [of st' t "Suc left"])
  qed
qed

lemma journal_read_kept: "reads_kept st st' \<Longrightarrow> journal_read st t head n = Inr es \<Longrightarrow> journal_read st' t head n = Inr es"
  by (auto simp: journal_read_def bindR_eq_Inr journal_walk_kept split: if_splits)

definition history_kept :: "'p run \<Rightarrow> 'p run \<Rightarrow> bool" where
  "history_kept r r' \<longleftrightarrow> reads_kept (rn_store r) (rn_store r')
     \<and> (\<forall>t head n es. journal_read (rn_store r) t head n = Inr es \<longrightarrow> journal_read (rn_store r') t head n = Inr es)"

lemma history_at: "keeps grows m \<Longrightarrow> history_kept r (snd (m r))"
  unfolding keeps_def grows_def history_kept_def by (blast intro: journal_read_kept)

text \<open>
  Evidence is never lost: settling, waiting, amending, performing, reconciling and stopping effects, on
  every path and also when the operation fails, leave every artifact readable with the same content, and every
  journal that could be read from a head reads as the same entries from it afterwards.
\<close>

lemma history_never_lost:
  "history_kept r (snd (settle_task de r)) \<and> history_kept r (snd (admit_amendments de submissions r))
   \<and> history_kept r (snd (perform_target de action iteration answer wins r))
   \<and> history_kept r (snd (await_input de action waited r)) \<and> history_kept r (snd (reconcile_effects de r))
   \<and> history_kept r (snd (stop_run de error r))"
  by (intro conjI history_at grows_await_input grows_stop_run grows_settle grows_admit_amendments grows_perform_target grows_reconcile_effects)

subsection \<open>Stopping\<close>

definition same_lifecycle :: "'p run \<Rightarrow> 'p run \<Rightarrow> bool" where
  "same_lifecycle r r' \<longleftrightarrow> ts_lifecycle (rn_state r') = ts_lifecycle (rn_state r) \<and> ts_wait (rn_state r') = ts_wait (rn_state r)"

interpretation lk: run_order same_lifecycle
  by unfold_locales (auto simp: same_lifecycle_def)

lemma lk_modA: "(\<And>r. ts_lifecycle (rn_state (f r)) = ts_lifecycle (rn_state r) \<and> ts_wait (rn_state (f r)) = ts_wait (rn_state r)) \<Longrightarrow> keeps same_lifecycle (modA f)"
  by (simp add: keeps_def modA_def same_lifecycle_def)

lemma lk_stateA: "(\<And>s. ts_lifecycle (f s) = ts_lifecycle s \<and> ts_wait (f s) = ts_wait s) \<Longrightarrow> keeps same_lifecycle (stateA f)"
  by (simp add: stateA_def lk_modA)

lemma lk_publish: "keeps same_lifecycle publish" and lk_set_effect: "keeps same_lifecycle (set_effect op kvs)"
  by (simp_all add: publish_def set_effect_def put_effect_def lk_modA lk_stateA)

lemma lk_storeA: "keeps same_lifecycle (storeA f)" and lk_targetA: "keeps same_lifecycle (targetA g)"
  by (auto simp: keeps_def storeA_def targetA_def same_lifecycle_def split: prod.splits)

lemma lk_retain: "keeps same_lifecycle (retain de v)"
  unfolding retain_def by (intro lk.keeps_stepA lk_storeA)

lemma lk_record_entry: "keeps same_lifecycle (record_entry de e)"
  unfolding record_entry_def by (intro lk.keeps_basic lk_storeA lk_stateA lk_publish) simp

lemmas lk_intros = lk.keeps_basic lk_storeA lk_targetA lk_publish lk_retain lk_record_entry lk_set_effect

lemma lk_settle_effect: "keeps same_lifecycle (settle_effect de op result)"
  unfolding settle_effect_def Let_def by (auto intro!: lk_intros)

lemma lk_reconcile_effects: "keeps same_lifecycle (reconcile_effects de)"
proof -
  have "keeps same_lifecycle (reconcile_one de op)" for op
    unfolding reconcile_one_def Let_def by (auto intro!: lk_intros)
  then have "keeps same_lifecycle (reconcile_each de ops c)" for ops c
    by (induction ops arbitrary: c) (auto intro!: lk_intros)
  then show ?thesis unfolding reconcile_effects_def by (intro lk_intros)
qed

lemma lk_close_effects: "keeps same_lifecycle (close_effects de reason)"
proof -
  have "keeps same_lifecycle (close_one de reason op)" for op
    unfolding close_one_def close_undispatched_def by (auto intro!: lk_intros lk_settle_effect)
  then show ?thesis unfolding close_effects_def Let_def by (auto intro!: lk_intros lk_reconcile_effects lk_modA lk_stateA)
qed

lemma stop_run_terminal:
  "stop_run de (TerminalError m code) r = bindA (close_effects de (map ascii_lower (lifecycle_str (stopped_lifecycle (TerminalError m code)))))
     (\<lambda>notes. retA (py_take_bytes 512 (''Execution stopped: '' @ m) # notes))
     (r\<lparr>rn_state := (rn_state r)\<lparr>ts_lifecycle := stopped_lifecycle (TerminalError m code), ts_wait := None\<rparr>\<rparr>)"
  by (simp add: stop_run_def Let_def bindA_def stateA_def modA_def del: stopped_lifecycle.simps)

lemma close_effects_notes:
  assumes "close_effects de reason r = (Inr notes, r')"
  shows "notes = stop_notes reason (rn_state r')"
proof (cases "ts_effects (rn_state r) = []")
  case True
  with assms show ?thesis by (auto simp: close_effects_def bindA_def getA_def retA_def stop_notes_def)
next
  case False
  with assms show ?thesis unfolding close_effects_def
    by (auto simp: bindA_Inr getA_def retA_def Let_def)
qed

text \<open>
  What the concerns of a stopped Task say, without the code that writes them: one line per effect with its
  identity and its final status, for the effects that are neither a conflict nor rejected, in the order of their
  identities and at most four of them.
\<close>

definition fate :: "string \<Rightarrow> string" where
  "fate st =
     (if st = ''uncertain'' then ''outcome STILL_UNKNOWN after bounded reconciliation''
      else if st = ''different_state'' then ''target changed by someone else; own outcome unknown''
      else if st = ''canceled'' then ''process stop confirmed; partial effects possible''
      else if st = ''completed'' then ''completed before the stop''
      else if st = ''applied'' then ''applied before the stop''
      else if st = ''not_dispatched'' then ''never dispatched''
      else if st = ''not_applied'' then ''provider confirms it never ran''
      else ''see receipt'')"

definition effect_line :: "string \<Rightarrow> string \<times> json \<Rightarrow> string" where
  "effect_line reason x =
     py_take 512 (''Effect '' @ fst x @ '' after Task '' @ reason @ '': '' @ sget (snd x) ''status'' @ '' ('' @ fate (sget (snd x) ''status'') @ '')'')"

definition reportable :: "string \<times> json \<Rightarrow> bool" where
  "reportable x \<longleftrightarrow> dget (snd x) ''status'' \<noteq> JStr ''conflict'' \<and> dget (snd x) ''status'' \<noteq> JStr ''rejected''"

definition reports :: "string \<Rightarrow> (string \<times> json) list \<Rightarrow> string list \<Rightarrow> bool" where
  "reports reason effects notes \<longleftrightarrow> (\<exists>told untold. notes = map (effect_line reason) told
     \<and> length told = min 4 (length (filter reportable effects))
     \<and> set (told @ untold) = set (filter reportable effects) \<and> length (told @ untold) = length (filter reportable effects)
     \<and> sorted (map fst told) \<and> list_all (\<lambda>y. list_all (\<lambda>x. fst x \<le> fst y) told) untold)"

lemma fate_table: "(case map_of STOP_NOTES st of None \<Rightarrow> ''see receipt'' | Some n \<Rightarrow> n) = fate st"
  by (simp add: fate_def STOP_NOTES_def)

lemma stop_note_line: "stop_note reason x = effect_line reason x"
  by (simp only: stop_note_def effect_line_def fate_table Let_def)

lemma lower_names: "map ascii_lower ''CANCELLED'' = ''cancelled''" "map ascii_lower ''FAILED'' = ''failed''"
  by code_simp+

lemma stop_notes_reports: "reports reason (ts_effects s) (stop_notes reason s)"
proof -
  let ?all = "filter reportable (sort_key fst (ts_effects s))"
  have r: "(\<lambda>(_, e). dget e ''status'' \<noteq> JStr ''conflict'' \<and> dget e ''status'' \<noteq> JStr ''rejected'') = reportable"
    by (auto simp: reportable_def)
  have n: "stop_notes reason s = map (effect_line reason) (take 4 ?all)"
    unfolding stop_notes_def r take_map by (simp add: stop_note_line)
  have m: "set ?all = set (filter reportable (ts_effects s))" by simp
  have l: "length ?all = length (filter reportable (ts_effects s))" by (simp only: filter_sort length_sort)
  have s: "sorted (map fst (take 4 ?all @ drop 4 ?all))" by (simp add: sorted_filter)
  show ?thesis unfolding reports_def
  proof (intro exI conjI)
    show "stop_notes reason s = map (effect_line reason) (take 4 ?all)" by (rule n)
    show "length (take 4 ?all) = min 4 (length (filter reportable (ts_effects s)))" using l by (simp add: min.commute)
    show "set (take 4 ?all @ drop 4 ?all) = set (filter reportable (ts_effects s))" using m by (simp only: append_take_drop_id)
    show "length (take 4 ?all @ drop 4 ?all) = length (filter reportable (ts_effects s))" using l by (simp only: append_take_drop_id)
    show "sorted (map fst (take 4 ?all))" using s unfolding map_append sorted_append by blast
    show "list_all (\<lambda>y. list_all (\<lambda>x. fst x \<le> fst y) (take 4 ?all)) (drop 4 ?all)"
      using s unfolding map_append sorted_append list_all_iff by auto
  qed
qed

text \<open>
  C32. A stopped Task ends and says what became of its effects: after a terminal error the Task is
  CANCELLED or FAILED, never COMPLETED or still running, and waits for nothing, also when the stop itself fails;
  CANCELLED exactly for the error 409 whose message is "cancelled" in any case. When the stop succeeds the
  reported concerns are the error followed by one line with the final status of each of the first four effects, in
  the order of their identities, that are neither in conflict nor rejected: those have no line, and beyond four the
  others have none either, also when their outcome is unknown.
\<close>

theorem stop_run_ends:
  "case stop_run de (TerminalError m code) r of (x, r') \<Rightarrow>
     ts_lifecycle (rn_state r') = (if code = 409 \<and> map ascii_lower m = ''cancelled'' then CANCELLED else FAILED)
     \<and> ts_wait (rn_state r') = None
     \<and> (case x of Inl e \<Rightarrow> True
        | Inr found \<Rightarrow> (\<exists>notes. found = py_take_bytes 512 (''Execution stopped: '' @ m) # notes
            \<and> reports (if code = 409 \<and> map ascii_lower m = ''cancelled'' then ''cancelled'' else ''failed'') (ts_effects (rn_state r')) notes
            \<and> length notes \<le> 4))"
proof -
  let ?l = "stopped_lifecycle (TerminalError m code)"
  let ?r = "r\<lparr>rn_state := (rn_state r)\<lparr>ts_lifecycle := ?l, ts_wait := None\<rparr>\<rparr>"
  let ?reason = "map ascii_lower (lifecycle_str ?l)"
  have l: "?l = (if code = 409 \<and> map ascii_lower m = ''cancelled'' then CANCELLED else FAILED)" by simp
  have q: "?reason = (if code = 409 \<and> map ascii_lower m = ''cancelled'' then ''cancelled'' else ''failed'')"
    unfolding l by (simp only: lifecycle_str.simps lower_names simp_thms split: if_split) blast
  obtain y r1 where y: "close_effects de ?reason ?r = (y, r1)" by force
  from keepsD [OF lk_close_effects y] have s: "ts_lifecycle (rn_state r1) = ?l" "ts_wait (rn_state r1) = None" by (simp_all add: same_lifecycle_def)
  have run: "stop_run de (TerminalError m code) r = (case y of Inl e \<Rightarrow> Inl e | Inr notes \<Rightarrow> Inr (py_take_bytes 512 (''Execution stopped: '' @ m) # notes), r1)"
    using y unfolding stop_run_terminal by (cases y) (simp_all add: bindA_def retA_def)
  show ?thesis
  proof (cases y)
    case (Inl e)
    with run s l show ?thesis by simp
  next
    case (Inr ns)
    from close_effects_notes [OF y [unfolded Inr]] have n: "ns = stop_notes ?reason (rn_state r1)" .
    with stop_notes_reports [of ?reason "rn_state r1"] have "reports ?reason (ts_effects (rn_state r1)) ns" by simp
    moreover have "length ns \<le> 4" by (simp add: n stop_notes_def)
    ultimately show ?thesis unfolding run Inr sum.case prod.case using s l q by (simp only: ) blast
  qed
qed

end
