(* ===== verification/Cognitive_Context.thy ===== *)
theory Cognitive_Context
  imports Execution
begin

section \<open>What cognition sees\<close>

text \<open>
  runtime/kernel/context.py, with the scripted adapter of runtime/kernel/cognition.py and the procedure
  provider of runtime/kernel/procedure.py: the packet of one cognitive turn is reconstructed from the
  Task state, the retained artifacts and the journal. A context provider is deployment code, a function
  from the bounded request to whatever it returns.
\<close>

subsection \<open>Human resolutions and receipts\<close>

definition context_item :: "string \<Rightarrow> string \<Rightarrow> string \<Rightarrow> json \<Rightarrow> json" where
  "context_item source revision authority content = JObj
     [(''source'', JStr source), (''revision'', JStr revision), (''authority'', JStr authority), (''content'', content), (''unknowns'', JList [])]"

definition human_resolution :: "task_state \<Rightarrow> json \<Rightarrow> string \<Rightarrow> json \<Rightarrow> json" where
  "human_resolution state request ref answer = message ''HumanDecisionResolution'' (JObj
     [(''task_id'', JStr (ts_task_id state)), (''origin_task_id'', dget request ''origin_task_id''), (''request_id'', dget request ''request_id''),
      (''request_revision'', dget request ''revision''), (''value'', answer), (''status'', JStr ''verified''), (''response_ref'', JStr ref)])"

definition resolution_item :: "task_state \<Rightarrow> artifact_store \<Rightarrow> json \<Rightarrow> json option res" where
  "resolution_item state store criterion =
     (let evidence = dget criterion ''verifier'' in
      if \<not> has_key evidence ''request'' then Inr None
      else bindR (human_verdict evidence state store) (\<lambda>(status, _, _).
        if status \<noteq> Satisfied \<and> \<not> (status = Failed \<and> has_key evidence ''accept'') then Inr None
        else case map_of (ts_artifacts state) (sget evidence ''artifact'') of
          None \<Rightarrow> Inl (KeyError (sget evidence ''artifact''))
        | Some ref \<Rightarrow>
            bindR (read_json store (ts_task_id state) (JStr ref)) (\<lambda>doc.
            bindR (item doc ''payload'') (\<lambda>response.
            bindR (item response ''value'') (\<lambda>answer.
            let i = context_item ref (ref_digest ref) ''artifact'' (human_resolution state (dget (dget evidence ''request'') ''payload'') ref answer) in
            seqR (raise_if (MAX_CONTENT < length (encode i)) (ValueError ''Human resolution exceeds context budget'')) (Inr (Some i)))))))"

definition human_resolutions :: "task_state \<Rightarrow> json \<Rightarrow> artifact_store \<Rightarrow> json list res" where
  "human_resolutions state contract store =
     bindR (mapR (resolution_item state store) (lget contract ''criteria'')) (\<lambda>found. Inr (List.map_filter id found))"

definition entry_receipt :: "task_state \<Rightarrow> artifact_store \<Rightarrow> string \<times> json \<Rightarrow> (json \<times> json) option res" where
  "entry_receipt state store x =
     (let entry = snd x in
      if dget entry ''phase'' = JStr ''observed'' \<and> dget entry ''outcome'' = JStr ''success'' then
        bindR (read_json store (ts_task_id state) (dget entry ''receipt_ref'')) (\<lambda>v.
        seqR (raise_if (\<not> is_dict v) (AttributeError ''object has no attribute 'get' ''))
        (if dget v ''kind'' = JStr ''WorkspaceReadReceipt'' then
           bindR (item v ''payload'') (\<lambda>p. Inr (Some (dget entry ''receipt_ref'', p)))
         else Inr None))
      else Inr None)"

text \<open>\<open>receipts[-8:]\<close>.\<close>

definition last8 :: "'a list \<Rightarrow> 'a list" where
  "last8 xs = drop (length xs - 8) xs"

definition admitted_receipts :: "task_state \<Rightarrow> artifact_store \<Rightarrow> (json \<times> json) list res" where
  "admitted_receipts state store =
     (if ts_journal_length state = 0 then Inr []
      else bindR (journal_read store (ts_task_id state) (ts_journal_head state) (ts_journal_length state)) (\<lambda>entries.
        bindR (mapR (entry_receipt state store) entries) (\<lambda>found. Inr (last8 (List.map_filter id found)))))"

definition receipt_item :: "json \<times> json \<Rightarrow> json res" where
  "receipt_item x =
     (case x of (ref, receipt) \<Rightarrow>
       bindR (item receipt ''source'') (\<lambda>source.
       bindR (item receipt ''operation_id'') (\<lambda>operation_id.
       bindR (item receipt ''operation'') (\<lambda>operation.
       bindR (item source ''path'') (\<lambda>path.
       bindR (item source ''lines'') (\<lambda>lines.
       Inr (context_item (jstr ref) (ref_digest (jstr ref)) ''artifact'' (JObj
         [(''name'', JStr ''receipt''), (''operation_id'', operation_id), (''operation'', operation), (''path'', path), (''lines'', lines)]))))))))"

subsection \<open>Supplemental providers\<close>

definition ITEM_FIELDS :: "string list" where
  "ITEM_FIELDS = [''source'', ''revision'', ''authority'', ''content'', ''unknowns'']"

text \<open>\<open>set (item) != {...}\<close> on any value a provider may return.\<close>

definition check_item_fields :: "json \<Rightarrow> unit res" where
  "check_item_fields i =
     (if is_dict i then raise_if (set (jkeys i) \<noteq> set ITEM_FIELDS) (ValueError ''Context provenance is required'')
      else bindR (py_iter i) (\<lambda>xs. seqR (py_hashable_all xs)
        (Inl (if set xs = JStr ` set ITEM_FIELDS then TypeError ''list indices must be integers or slices, not str''
              else ValueError ''Context provenance is required''))))"

definition nonempty_text :: "json \<Rightarrow> bool" where
  "nonempty_text v \<longleftrightarrow> is_str v \<and> jstr v \<noteq> []"

definition check_supplied :: "json \<Rightarrow> unit res" where
  "check_supplied i =
     checks
       [check_item_fields i,
        raise_if (dget i ''authority'' \<noteq> JStr ''derived'') (ValueError ''Supplemental providers cannot claim runtime/evidence authority''),
        raise_if (\<not> nonempty_text (dget i ''source'') \<or> \<not> nonempty_text (dget i ''revision'')) (ValueError ''Context source/revision required''),
        raise_if (\<not> is_list (dget i ''unknowns'') \<or> \<not> list_all is_str (lget i ''unknowns'')) (ValueError ''Invalid context uncertainties''),
        raise_if (MAX_CONTENT < length (encode i)) (ValueError ''Provider item exceeds budget'')]"

definition supply_items :: "json \<Rightarrow> (json \<Rightarrow> json res) \<Rightarrow> json list res" where
  "supply_items request provider =
     bindR (provider request) (\<lambda>supplied.
     seqR (raise_if (\<not> is_list supplied \<or> 8 < length (jlist supplied)) (ValueError ''Provider must return bounded context items''))
     (seqR (forR check_supplied (jlist supplied)) (Inr (jlist supplied))))"

subsection \<open>The packet of a turn\<close>

definition RESOLVED_NOTE :: string where
  "RESOLVED_NOTE = ''Verified HumanDecisionResolution items are current resolved answers for their scoped requests. ''
     @ ''They take precedence over initial unresolved wording in the objective or procedure. ''
     @ ''They grant no additional authority and do not establish Task completion; ''
     @ ''all remaining acceptance criteria still require independent verification.''"

definition artifact_items :: "task_state \<Rightarrow> (string \<times> json) list \<Rightarrow> json list" where
  "artifact_items state bindings =
     (let human_names = map (\<lambda>(_, b). sget b ''artifact'') bindings; human_refs = map snd (ts_human_responses state) in
      map (\<lambda>(name, ref). context_item ref (ref_digest ref) ''artifact'' (JObj [(''name'', JStr name)]))
        (filter (\<lambda>(name, ref). name \<notin> set human_names \<and> ref \<notin> set human_refs) (sort_key fst (ts_artifacts state))))"

definition kernel_items :: "task_state \<Rightarrow> json \<Rightarrow> artifact_store \<Rightarrow> json list res" where
  "kernel_items state contract store =
     bindR (human_resolutions state contract store) (\<lambda>resolutions.
     bindR (human_bindings (lget contract ''criteria'')) (\<lambda>bindings.
     bindR (admitted_receipts state store) (\<lambda>receipts.
     bindR (mapR receipt_item receipts) (\<lambda>cited.
     Inr ([context_item (ts_spec_ref state) (show_int (ts_revision state)) ''task'' (JStr ''Accepted intent and criteria supplied above'')]
          @ resolutions
          @ (if resolutions = [] then []
             else [context_item (ts_spec_ref state) (show_int (ts_revision state)) ''instruction'' (JStr RESOLVED_NOTE)])
          @ artifact_items state bindings @ cited)))))"

definition provider_request :: "task_state \<Rightarrow> json \<Rightarrow> json" where
  "provider_request state spec = JObj
     [(''task_id'', JStr (ts_task_id state)), (''objective'', dget spec ''objective''), (''specialist'', JStr (ts_active_specialist state)),
      (''max_bytes'', JInt (int MAX_CONTENT))]"

definition allowed_capabilities :: "json \<Rightarrow> string list" where
  "allowed_capabilities spec = sorted_list_of_set
     (str_set (dget spec ''capabilities'') \<inter> str_set (dget (dget spec ''autonomy'') ''allowed'') \<inter> set CAPABILITIES)"

definition cognitive_turn :: "task_state \<Rightarrow> json \<Rightarrow> json \<Rightarrow> string \<Rightarrow> json list \<Rightarrow> json list \<Rightarrow> json" where
  "cognitive_turn state spec contract instructions observations items = message ''CognitiveTurn'' (JObj
     [(''task_id'', JStr (ts_task_id state)), (''task_revision'', JInt (ts_revision state)), (''turn_id'', JStr (turn_of state)),
      (''iteration'', JInt (ts_iteration state)), (''objective'', dget spec ''objective''), (''completion'', dget spec ''completion''),
      (''contract'', cognition_view contract spec), (''specialist'', JStr (ts_active_specialist state)), (''instructions'', JStr instructions),
      (''observations'', JList observations), (''context'', JList items),
      (''allowed_capabilities'', JList (map JStr (allowed_capabilities spec))),
      (''limits'', JObj [(''max_turns'', JInt (int MAX_TURNS)), (''max_content_bytes'', JInt (int MAX_CONTENT)),
         (''max_packet_bytes'', JInt (int MAX_PACKET)), (''remaining_child_tasks'', JInt (ts_remaining_children state))])])"

definition last_observation :: "task_state \<Rightarrow> artifact_store \<Rightarrow> json list res" where
  "last_observation state store =
     (case ts_observation_ref state of None \<Rightarrow> Inr []
      | Some ref \<Rightarrow> if ref = [] then Inr []
          else bindR (read_json store (ts_task_id state) (JStr ref)) (\<lambda>v. Inr (if py_true v then [v] else [])))"

definition reconstruct :: "task_state \<Rightarrow> json \<Rightarrow> artifact_store \<Rightarrow> (json \<Rightarrow> json res) list \<Rightarrow> json option \<Rightarrow> json res" where
  "reconstruct state spec store providers contract =
     (let contract' = (case contract of Some c \<Rightarrow> c | None \<Rightarrow> lower_spec spec (ts_task_id state) (jopt id (ts_parent state))) in
      bindR (last_observation state store) (\<lambda>observations.
      bindR (kernel_items state contract' store) (\<lambda>own.
      bindR (mapR (supply_items (provider_request state spec)) providers) (\<lambda>supplied.
      case map_of SPECIALISTS (ts_active_specialist state) of
        None \<Rightarrow> Inl (KeyError (ts_active_specialist state))
      | Some instructions \<Rightarrow>
          let packet = cognitive_turn state spec contract' instructions observations (own @ concat supplied) in
          seqR (raise_if (MAX_PACKET < length (encode packet)) (ValueError ''Context packet exceeds budget; provider must select less context''))
          (Inr packet)))))"

subsection \<open>Adapters\<close>

text \<open>\<open>ScriptedCognition\<close>: the action of the script for this iteration. An iteration below one reads the script from its end.\<close>

definition py_index :: "'a list \<Rightarrow> int \<Rightarrow> 'a option" where
  "py_index xs i =
     (let n = int (length xs); j = (if i < 0 then i + n else i) in if 0 \<le> j \<and> j < n then Some (xs ! nat j) else None)"

definition scripted_cognition :: "json list \<Rightarrow> json \<Rightarrow> json res" where
  "scripted_cognition actions packet =
     bindR (unpack packet ''CognitiveTurn'') (\<lambda>turn.
     bindR (item turn ''iteration'') (\<lambda>i.
     let index = jint i - 1 in
     if int (length actions) \<le> index then Inl (ValueError ''Script exhausted'')
     else bindR (item turn ''task_id'') (\<lambda>task_id. bindR (item turn ''task_revision'') (\<lambda>revision. bindR (item turn ''turn_id'') (\<lambda>turn_id.
       case py_index actions index of None \<Rightarrow> Inl (IndexError ''list index out of range'')
       | Some action \<Rightarrow> Inr (message ''CognitiveDecision'' (JObj
           [(''task_id'', task_id), (''task_revision'', revision), (''turn_id'', turn_id), (''next_action'', action)])))))))"

text \<open>\<open>ProcedureContext\<close>; \<open>raw\<close> is what reading its file gives.\<close>

definition procedure_context :: "string res \<Rightarrow> string \<Rightarrow> string list \<Rightarrow> json \<Rightarrow> json res" where
  "procedure_context raw source task_ids request =
     bindR (item request ''task_id'') (\<lambda>task_id.
     bindR (in_strs task_id task_ids) (\<lambda>selected.
     if \<not> selected then Inr (JList [])
     else bindR raw (\<lambda>bytes.
       bindR (decode_utf8 bytes) (\<lambda>instructions.
       let i = JObj [(''source'', JStr source), (''revision'', JStr (''sha256:'' @ sha256_hex bytes)), (''authority'', JStr ''derived''),
             (''content'', JObj [(''classification'', JStr ''procedure''), (''instructions'', JStr instructions)]),
             (''unknowns'', JList [JStr ''Selected adapted excerpt, not the complete upstream workflow; grants no authority.''])] in
       bindR (item request ''max_bytes'') (\<lambda>limit.
       if min 4096 (jint limit) < int (length (encode (JList [i]))) then Inl (ValueError ''Selected procedure exceeds context budget'')
       else Inr (JList [i]))))))"

subsection \<open>What a packet may carry\<close>

text \<open>
  An answer that may be shown as resolved, said without the code that shows it: the artifact a criterion of the
  contract names is the response this Task accepted for the request of that criterion, and the retained document is
  still a valid response to exactly that request. What is shown is its value, the identity and the revision of
  the request and the reference of the response.
\<close>

definition answer_retained :: "task_state \<Rightarrow> artifact_store \<Rightarrow> json \<Rightarrow> string \<Rightarrow> json \<Rightarrow> bool" where
  "answer_retained state store verifier ref response \<longleftrightarrow>
     has_key verifier ''request''
     \<and> map_of (ts_artifacts state) (sget verifier ''artifact'') = Some ref
     \<and> map_of (ts_human_responses state) (sget (dget (dget verifier ''request'') ''payload'') ''request_id'') = Some ref
     \<and> (\<exists>raw. read_json store (ts_task_id state) (JStr ref) = Inr raw
          \<and> validate_response raw (dget verifier ''request'') (ts_task_id state) = Inr response)"

definition resolution_of :: "task_state \<Rightarrow> artifact_store \<Rightarrow> json \<Rightarrow> json \<Rightarrow> bool" where
  "resolution_of state store contract i \<longleftrightarrow> (\<exists>c\<in>set (lget contract ''criteria''). \<exists>ref response.
     answer_retained state store (dget c ''verifier'') ref response
     \<and> dget i ''source'' = JStr ref \<and> dget i ''authority'' = JStr ''artifact'' \<and> dget (dget i ''content'') ''kind'' = JStr ''HumanDecisionResolution''
     \<and> (let request = dget (dget (dget c ''verifier'') ''request'') ''payload''; shown = dget (dget i ''content'') ''payload'' in
          dget shown ''task_id'' = JStr (ts_task_id state) \<and> dget shown ''origin_task_id'' = dget request ''origin_task_id''
          \<and> dget shown ''request_id'' = dget request ''request_id'' \<and> dget shown ''request_revision'' = dget request ''revision''
          \<and> dget shown ''value'' = dget response ''value'' \<and> dget shown ''status'' = JStr ''verified''
          \<and> dget shown ''response_ref'' = JStr ref))"

definition admitted_item :: "task_state \<Rightarrow> json \<Rightarrow> bool" where
  "admitted_item state i \<longleftrightarrow> (\<exists>(name, ref)\<in>set (ts_artifacts state). ref \<notin> snd ` set (ts_human_responses state)
     \<and> dget i ''source'' = JStr ref \<and> dget i ''authority'' = JStr ''artifact'' \<and> dget i ''content'' = JObj [(''name'', JStr name)])"

definition receipt_cited :: "task_state \<Rightarrow> artifact_store \<Rightarrow> json \<Rightarrow> bool" where
  "receipt_cited state store i \<longleftrightarrow> (\<exists>entries. journal_read store (ts_task_id state) (ts_journal_head state) (ts_journal_length state) = Inr entries
     \<and> (\<exists>(_, entry)\<in>set entries. \<exists>doc. dget entry ''phase'' = JStr ''observed'' \<and> dget entry ''outcome'' = JStr ''success''
          \<and> read_json store (ts_task_id state) (dget entry ''receipt_ref'') = Inr doc \<and> dget doc ''kind'' = JStr ''WorkspaceReadReceipt''
          \<and> dget i ''source'' = JStr (sget entry ''receipt_ref'') \<and> dget i ''authority'' = JStr ''artifact''
          \<and> (let receipt = dget doc ''payload''; shown = dget i ''content'' in
               dget shown ''operation_id'' = dget receipt ''operation_id'' \<and> dget shown ''operation'' = dget receipt ''operation''
               \<and> dget shown ''path'' = dget (dget receipt ''source'') ''path'' \<and> dget shown ''lines'' = dget (dget receipt ''source'') ''lines'')))"

definition own_item :: "task_state \<Rightarrow> json \<Rightarrow> artifact_store \<Rightarrow> json \<Rightarrow> bool" where
  "own_item state contract store i \<longleftrightarrow>
     dget i ''source'' = JStr (ts_spec_ref state) \<and> dget i ''authority'' \<in> {JStr ''task'', JStr ''instruction''}
     \<or> resolution_of state store contract i \<or> admitted_item state i \<or> receipt_cited state store i"

lemma map_filter_id: "set (List.map_filter id xs) = {x. Some x \<in> set xs}"
  by (induction xs) (auto simp: List.map_filter_def)

lemma mapR_mem: "mapR f xs = Inr ys \<Longrightarrow> y \<in> set ys \<Longrightarrow> \<exists>x\<in>set xs. f x = Inr y"
  by (induction xs arbitrary: ys) (auto split: sum.splits)

lemma read_answer_Inr:
  "read_answer verifier ref state store = Inr response \<Longrightarrow>
     map_of (ts_human_responses state) (verifier_request_id verifier) = Some ref
     \<and> (\<exists>raw. read_json store (ts_task_id state) (JStr ref) = Inr raw \<and> validate_response raw (dget verifier ''request'') (ts_task_id state) = Inr response)"
  by (auto simp: read_answer_def read_json_def bindR_eq_Inr)

lemma human_verdict_answered:
  assumes "human_verdict verifier state store = Inr (status, d, refs)" and "status = Satisfied \<or> status = Failed"
  shows "\<exists>ref response. map_of (ts_artifacts state) (sget verifier ''artifact'') = Some ref \<and> read_answer verifier ref state store = Inr response"
  using assms unfolding human_verdict_def Let_def artifact_of_def
  by (auto split: option.splits if_splits sum.splits)

lemma resolution_item_Some:
  assumes "resolution_item state store c = Inr (Some i)" and "c \<in> set (lget contract ''criteria'')"
  shows "resolution_of state store contract i"
proof -
  let ?v = "dget c ''verifier''"
  from assms(1) have req: "has_key ?v ''request''" by (auto simp: resolution_item_def Let_def split: if_splits)
  from assms(1) req obtain status d refs where h: "human_verdict ?v state store = Inr (status, d, refs)" and s: "status = Satisfied \<or> status = Failed"
    unfolding resolution_item_def Let_def by (auto simp: bindR_eq_Inr split: if_splits)
  from human_verdict_answered [OF h s] obtain ref response where ref: "map_of (ts_artifacts state) (sget ?v ''artifact'') = Some ref"
    and r: "read_answer ?v ref state store = Inr response" by blast
  from read_answer_Inr [OF r] obtain raw where raw: "map_of (ts_human_responses state) (verifier_request_id ?v) = Some ref"
    "read_json store (ts_task_id state) (JStr ref) = Inr raw" "validate_response raw (dget ?v ''request'') (ts_task_id state) = Inr response" by blast
  from validate_response_Inr [OF raw(3)] have "unpack raw ''HumanDecisionResponse'' = Inr response" by metis
  then have p: "dget raw ''payload'' = response" by (simp add: unpack_eq_Inr)
  from assms(1) req h s ref raw(2) have i: "i = context_item ref (ref_digest ref) ''artifact''
      (human_resolution state (dget (dget ?v ''request'') ''payload'') ref (dget response ''value''))"
    unfolding resolution_item_def Let_def by (auto simp: bindR_eq_Inr item_eq_Inr p split: if_splits)
  have "answer_retained state store ?v ref response"
    using req ref raw by (auto simp: answer_retained_def verifier_request_id_def)
  then show ?thesis unfolding resolution_of_def using assms(2)
    by (intro bexI [of _ c] exI [of _ ref] exI [of _ response] conjI) (simp_all add: i context_item_def human_resolution_def message_def py_defs)
qed

lemma human_resolutions_own:
  assumes "human_resolutions state contract store = Inr items" and "i \<in> set items"
  shows "resolution_of state store contract i"
proof -
  from assms obtain found where f: "mapR (resolution_item state store) (lget contract ''criteria'') = Inr found" "Some i \<in> set found"
    unfolding human_resolutions_def bindR_eq_Inr by (auto simp: map_filter_id)
  from mapR_mem [OF f] show ?thesis by (auto intro: resolution_item_Some)
qed

lemma admitted_receipts_cited:
  assumes "admitted_receipts state store = Inr receipts" and "(ref, receipt) \<in> set receipts" and "receipt_item (ref, receipt) = Inr i"
  shows "receipt_cited state store i"
proof -
  from assms(1,2) obtain entries found where j: "journal_read store (ts_task_id state) (ts_journal_head state) (ts_journal_length state) = Inr entries"
    and f: "mapR (entry_receipt state store) entries = Inr found" and m: "Some (ref, receipt) \<in> set found"
    unfolding admitted_receipts_def last8_def by (auto simp: bindR_eq_Inr map_filter_id split: if_splits dest: in_set_dropD)
  from mapR_mem [OF f m] obtain x where x: "x \<in> set entries" "entry_receipt state store x = Inr (Some (ref, receipt))" by blast
  then obtain doc where d: "dget (snd x) ''phase'' = JStr ''observed''" "dget (snd x) ''outcome'' = JStr ''success''" "ref = dget (snd x) ''receipt_ref''"
    "read_json store (ts_task_id state) (dget (snd x) ''receipt_ref'') = Inr doc" "dget doc ''kind'' = JStr ''WorkspaceReadReceipt''"
    "receipt = dget doc ''payload''"
    unfolding entry_receipt_def by (auto simp: Let_def bindR_eq_Inr item_eq_Inr split: if_splits)
  from assms(3) have i: "i = context_item (jstr ref) (ref_digest (jstr ref)) ''artifact'' (JObj
         [(''name'', JStr ''receipt''), (''operation_id'', dget receipt ''operation_id''), (''operation'', dget receipt ''operation''),
          (''path'', dget (dget receipt ''source'') ''path''), (''lines'', dget (dget receipt ''source'') ''lines'')])"
    unfolding receipt_item_def by (auto simp: bindR_eq_Inr item_eq_Inr)
  show ?thesis unfolding receipt_cited_def case_prod_unfold
    by (intro exI [of _ entries] conjI j bexI [of _ x] x(1) exI [of _ doc] d(1,2,4,5)) (simp_all add: i d(3,6) context_item_def py_defs Let_def)
qed

lemma artifact_items_admitted: "i \<in> set (artifact_items state bindings) \<Longrightarrow> admitted_item state i"
  by (force simp: artifact_items_def admitted_item_def Let_def context_item_def py_defs)

lemma kernel_items_own:
  assumes "kernel_items state contract store = Inr own" and "i \<in> set own"
  shows "own_item state contract store i"
proof -
  from assms(1) obtain resolutions bindings receipts cited where
    r: "human_resolutions state contract store = Inr resolutions" and a: "admitted_receipts state store = Inr receipts"
    and c: "mapR receipt_item receipts = Inr cited"
    and own: "own = [context_item (ts_spec_ref state) (show_int (ts_revision state)) ''task'' (JStr ''Accepted intent and criteria supplied above'')]
          @ resolutions
          @ (if resolutions = [] then []
             else [context_item (ts_spec_ref state) (show_int (ts_revision state)) ''instruction'' (JStr RESOLVED_NOTE)])
          @ artifact_items state bindings @ cited"
    unfolding kernel_items_def bindR_eq_Inr by blast
  have spec: "own_item state contract store (context_item (ts_spec_ref state) rev auth v)" if "auth = ''task'' \<or> auth = ''instruction''" for rev auth v
    using that by (auto simp: own_item_def context_item_def dget_def)
  have "own_item state contract store i" if "i \<in> set cited"
  proof -
    from mapR_mem [OF c that] obtain x where "x \<in> set receipts" "receipt_item x = Inr i" by blast
    with admitted_receipts_cited [OF a] show ?thesis unfolding own_item_def by (cases x) blast
  qed
  moreover have "own_item state contract store i" if "i \<in> set resolutions"
    using human_resolutions_own [OF r that] unfolding own_item_def by blast
  moreover have "own_item state contract store i" if "i \<in> set (artifact_items state bindings)"
    using artifact_items_admitted [OF that] unfolding own_item_def by blast
  ultimately show ?thesis using assms(2) spec unfolding own by (auto split: if_splits)
qed

lemma check_supplied_derived: "check_supplied i = Inr u \<Longrightarrow> dget i ''authority'' = JStr ''derived'' \<and> length (encode i) \<le> MAX_CONTENT"
  unfolding check_supplied_def by (simp add: bindR_eq_Inr)

lemma supply_items_derived:
  assumes "supply_items request provider = Inr items"
  shows "length items \<le> 8" and "i \<in> set items \<Longrightarrow> dget i ''authority'' = JStr ''derived'' \<and> length (encode i) \<le> MAX_CONTENT"
  using assms unfolding supply_items_def bindR_eq_Inr raise_if_eq_Inr forR_eq_Inr by (auto dest: check_supplied_derived)

text \<open>
  C36. Context is data, never authority: a reconstructed packet is at most \<open>MAX_PACKET\<close> bytes and its
  context is a list of the kernel's own items followed by what the providers supplied. Each own item is the
  accepted specification, the name of an admitted artifact, the reference, operation, path and lines of a workspace read receipt that a
  successful observation of the journal names, or a human answer with the value of the retained response that this
  Task accepted for the request of a criterion and that still validates against it; no other human response is shown. Each supplied item claims
  derived authority only and is at most \<open>MAX_CONTENT\<close> bytes, eight for each provider.
\<close>

theorem reconstruct_bounded:
  "case reconstruct state spec store providers (Some contract) of
     Inl e \<Rightarrow> True
   | Inr packet \<Rightarrow> length (encode packet) \<le> MAX_PACKET
       \<and> (\<exists>instructions observations own supplied.
            packet = cognitive_turn state spec contract instructions observations (own @ supplied)
            \<and> list_all (own_item state contract store) own
            \<and> list_all (\<lambda>i. dget i ''authority'' = JStr ''derived'' \<and> length (encode i) \<le> MAX_CONTENT) supplied
            \<and> length supplied \<le> 8 * length providers)"
proof (cases "reconstruct state spec store providers (Some contract)")
  case (Inr packet)
  then obtain instructions observations own supplied where
    own: "kernel_items state contract store = Inr own" and s: "mapR (supply_items (provider_request state spec)) providers = Inr supplied"
    and p: "packet = cognitive_turn state spec contract instructions observations (own @ concat supplied)" "length (encode packet) \<le> MAX_PACKET"
    unfolding reconstruct_def Let_def option.case bindR_eq_Inr by (auto simp: bindR_eq_Inr split: option.splits)
  have "list_all (own_item state contract store) own"
    unfolding list_all_iff using kernel_items_own [OF own] by blast
  moreover have "list_all (\<lambda>i. dget i ''authority'' = JStr ''derived'' \<and> length (encode i) \<le> MAX_CONTENT) (concat supplied)"
    unfolding list_all_iff using mapR_mem [OF s] supply_items_derived(2) by fastforce
  moreover have "\<forall>xs\<in>set supplied. length xs \<le> 8" using mapR_mem [OF s] supply_items_derived(1) by blast
  then have "length (concat supplied) \<le> 8 * length supplied" by (induction supplied) auto
  moreover have "length supplied = length providers" using s by (rule mapR_length)
  ultimately show ?thesis using p Inr by auto
qed simp

end
