(* ===== verification/Instrument.thy ===== *)
theory Instrument
  imports Contracts
begin

section \<open>Continuation boundaries and their admission\<close>

text \<open>
  runtime/kernel/instrument.py and runtime/kernel/adapter_profiles.py: what an adapter declares it can
  observe or control, the identity and the boundary of a model continuation, and the synchronous control
  path that runs before it. An observer is deployment code: given a boundary it answers with some document
  after some milliseconds, exceeds its budget, or raises. A recorder is a function that may raise;
  \<open>safe_event\<close> is the wrapper that contains it. Spans only observe and are left out, except for their names.
\<close>

subsection \<open>Declared capabilities\<close>

definition CONTROL_CAPABILITIES :: "string list" where
  "CONTROL_CAPABILITIES = [''continuation.observe'', ''continuation.admit'', ''continuation.steer'', ''execution.interrupt'',
     ''model.observe'', ''tool.observe'', ''model.rebind'', ''effort.rebind'']"

definition SUPPORT :: "string list" where "SUPPORT = [''OBSERVED'', ''INFERRED'', ''UNSUPPORTED'']"
definition GRANULARITY :: "string list" where "GRANULARITY = [''continuation'', ''agent_turn'', ''worker_dispatch'']"
definition EVIDENCE :: "string list" where "EVIDENCE = [''live'', ''fixture'', ''protocol'', ''source'', ''none'']"
definition BOUNDARY_REASONS :: "string list" where
  "BOUNDARY_REASONS = [''session_start'', ''model_result'', ''tool_results'', ''external_input'']"

definition FINENESS :: "(string \<times> nat) list" where
  "FINENESS = [(''worker_dispatch'', 0), (''agent_turn'', 1), (''continuation'', 2)]"

record capability_claim =
  cl_capability :: string
  cl_support :: string
  cl_granularity :: "string option"
  cl_evidence :: string
  cl_note :: string

definition claim_post_init :: "capability_claim \<Rightarrow> unit res" where
  "claim_post_init c =
     checks
       [raise_if (cl_capability c \<notin> set CONTROL_CAPABILITIES \<or> cl_support c \<notin> set SUPPORT \<or> cl_evidence c \<notin> set EVIDENCE)
          (ValueError ''Unknown capability, support level or evidence class''),
        (if cl_support c = ''UNSUPPORTED'' then raise_if (cl_granularity c \<noteq> None) (ValueError ''An unsupported capability has no granularity'')
         else raise_if (cl_granularity c \<notin> Some ` set GRANULARITY) (ValueError ''A supported capability must state its finest real granularity'')),
        raise_if (cl_support c \<noteq> ''UNSUPPORTED'' \<and> cl_evidence c = ''none'') (ValueError ''A supported capability requires an evidence class''),
        (if cl_note c \<noteq> [] then voidR (py_text (JStr (cl_note c)) 256) else Inr ())]"

record adapter_profile =
  ap_id :: string
  ap_family :: string
  ap_claims :: "capability_claim list"

definition check_profile :: "adapter_profile \<Rightarrow> unit res" where
  "check_profile p =
     checks
       [voidR (py_identifier (JStr (ap_id p))), voidR (py_text (JStr (ap_family p)) 128),
        raise_if (length CONTROL_CAPABILITIES < length (ap_claims p)) (ValueError ''Expected bounded immutable capability claims''),
        raise_if (\<not> distinct (map cl_capability (ap_claims p))) (ValueError ''Duplicate capability claim'')]"

definition profile_claim :: "adapter_profile \<Rightarrow> string \<Rightarrow> capability_claim option res" where
  "profile_claim p capability =
     (if capability \<notin> set CONTROL_CAPABILITIES then Inl (ValueError ''Unknown capability'')
      else Inr (find (\<lambda>c. cl_capability c = capability) (ap_claims p)))"

definition fineness :: "string option \<Rightarrow> nat res" where
  "fineness g = (case g of None \<Rightarrow> Inl (KeyError ''None'')
     | Some x \<Rightarrow> (case map_of FINENESS x of None \<Rightarrow> Inl (KeyError (py_repr x)) | Some n \<Rightarrow> Inr n))"

definition supports :: "adapter_profile \<Rightarrow> string \<Rightarrow> string \<Rightarrow> bool res" where
  "supports p capability granularity =
     (if granularity \<notin> set GRANULARITY then Inl (ValueError ''Unknown granularity'')
      else bindR (profile_claim p capability) (\<lambda>found.
        case found of
          None \<Rightarrow> Inr False
        | Some c \<Rightarrow>
            if cl_support c = ''UNSUPPORTED'' then Inr False
            else bindR (fineness (cl_granularity c)) (\<lambda>n. bindR (fineness (Some granularity)) (\<lambda>m. Inr (m \<le> n)))))"

definition require :: "adapter_profile \<Rightarrow> string \<Rightarrow> string \<Rightarrow> capability_claim option res" where
  "require p capability granularity =
     bindR (supports p capability granularity) (\<lambda>ok.
     if \<not> ok then Inl (UnsupportedCapability (ap_id p @ '' does not provide '' @ capability @ '' at '' @ granularity))
     else profile_claim p capability)"

definition claim_json :: "capability_claim \<Rightarrow> json" where
  "claim_json c = JObj
     [(''capability'', JStr (cl_capability c)), (''support'', JStr (cl_support c)),
      (''granularity'', case cl_granularity c of None \<Rightarrow> JNull | Some g \<Rightarrow> JStr g), (''evidence'', JStr (cl_evidence c)), (''note'', JStr (cl_note c))]"

definition summary :: "adapter_profile \<Rightarrow> json" where
  "summary p = JObj
     [(''version'', JInt 1), (''adapter_id'', JStr (ap_id p)), (''worker_family'', JStr (ap_family p)),
      (''capabilities'', JObj (map (\<lambda>c. (cl_capability c, claim_json c)) (sort_key cl_capability (ap_claims p)))),
      (''undeclared'', JList (map JStr (sort (filter (\<lambda>k. k \<notin> set (map cl_capability (ap_claims p))) CONTROL_CAPABILITIES))))]"

subsection \<open>The profiles of the integrated adapters\<close>

definition claim_of :: "string \<Rightarrow> string \<Rightarrow> string option \<Rightarrow> string \<Rightarrow> string \<Rightarrow> capability_claim" where
  "claim_of capability support granularity evidence note =
     \<lparr>cl_capability = capability, cl_support = support, cl_granularity = granularity, cl_evidence = evidence, cl_note = note\<rparr>"

definition BLAINE_KERNEL_LOOP :: adapter_profile where
  "BLAINE_KERNEL_LOOP = \<lparr>ap_id = ''blaine-kernel-loop'', ap_family = ''blaine.kernel.workflow'', ap_claims =
     [claim_of ''continuation.observe'' ''OBSERVED'' (Some ''continuation'') ''live'' ''Each workflow iteration begins at a continuation boundary.'',
      claim_of ''continuation.admit'' ''OBSERVED'' (Some ''continuation'') ''live'' ''Admission runs in a journaled step before cognition; replay reuses it.'',
      claim_of ''model.observe'' ''OBSERVED'' (Some ''continuation'') ''live'' ''One cognition call per iteration, with adapter-supplied token usage.'',
      claim_of ''tool.observe'' ''OBSERVED'' (Some ''continuation'') ''live'' ''One admitted capability execution per iteration.'',
      claim_of ''continuation.steer'' ''OBSERVED'' (Some ''continuation'') ''live'' ''Durable external input resolves a promise consumed at the next boundary.'',
      claim_of ''execution.interrupt'' ''OBSERVED'' (Some ''continuation'') ''live'' ''Restate invocation cancellation is delivered at a durable await.'',
      claim_of ''model.rebind'' ''UNSUPPORTED'' None ''none'' ''Cognition binding is deployment configuration, not a runtime control.'',
      claim_of ''effort.rebind'' ''UNSUPPORTED'' None ''none'' ''No reasoning-effort control is exposed by the local chat binding.'']\<rparr>"

definition GOOSE_WORKER :: adapter_profile where
  "GOOSE_WORKER = \<lparr>ap_id = ''goose-worker'', ap_family = ''goose-cli'', ap_claims =
     [claim_of ''continuation.observe'' ''UNSUPPORTED'' None ''none'' ''One-shot single-turn dispatch exposes no internal continuation.'',
      claim_of ''continuation.admit'' ''UNSUPPORTED'' None ''none'' ''The harness never returns control to Blaine mid-execution.'',
      claim_of ''model.observe'' ''INFERRED'' (Some ''worker_dispatch'') ''live'' ''One dispatch is configured for one turn; per-call usage is not reported.'',
      claim_of ''tool.observe'' ''UNSUPPORTED'' None ''none'' ''Tools are disabled for this seam.'',
      claim_of ''continuation.steer'' ''UNSUPPORTED'' None ''none'' ''No input channel during execution.'',
      claim_of ''execution.interrupt'' ''OBSERVED'' (Some ''worker_dispatch'') ''live'' ''Blaine owns the child process and terminates the dispatch.'',
      claim_of ''model.rebind'' ''OBSERVED'' (Some ''worker_dispatch'') ''live'' ''The operator deployment selects the model per dispatch, never WorkerInput.'',
      claim_of ''effort.rebind'' ''UNSUPPORTED'' None ''none'' ''No effort control is exposed.'']\<rparr>"

definition PROFILES :: "(string \<times> adapter_profile) list" where
  "PROFILES = map (\<lambda>p. (ap_id p, p)) [BLAINE_KERNEL_LOOP, GOOSE_WORKER]"

subsection \<open>Identity and boundary\<close>

record execution_identity =
  ei_task_id :: string
  ei_run_id :: string
  ei_dispatch_id :: "string option"
  ei_session_id :: "string option"
  ei_turn_id :: "string option"
  ei_model_id :: "string option"
  ei_call_id :: "string option"

definition optional_fields :: "execution_identity \<Rightarrow> (string \<times> string option) list" where
  "optional_fields i = [(''worker_dispatch_id'', ei_dispatch_id i), (''worker_session_id'', ei_session_id i), (''agent_turn_id'', ei_turn_id i),
     (''model_invocation_id'', ei_model_id i), (''capability_call_id'', ei_call_id i)]"

definition check_identity :: "execution_identity \<Rightarrow> unit res" where
  "check_identity i =
     seqR (py_identifier (JStr (ei_task_id i)))
     (forR (\<lambda>v. case v of None \<Rightarrow> Inr () | Some s \<Rightarrow> voidR (py_text (JStr s) 256)) (Some (ei_run_id i) # map snd (optional_fields i)))"

definition identity_attributes :: "execution_identity \<Rightarrow> (string \<times> json) list" where
  "identity_attributes i =
     [(''blaine.task_id'', JStr (ei_task_id i)), (''blaine.run_id'', JStr (ei_run_id i))]
     @ List.map_filter (\<lambda>(k, v). map_option (\<lambda>s. (''blaine.'' @ k, JStr s)) v) (optional_fields i)"

record boundary =
  cb_identity :: execution_identity
  cb_index :: int
  cb_reason :: string
  cb_models :: int
  cb_tools :: int
  cb_tool_outcome :: "string option"
  cb_evidence :: "string option"

definition check_boundary :: "boundary \<Rightarrow> unit res" where
  "check_boundary b =
     checks
       [raise_if (cb_index b < 0) (ValueError ''Boundary index must be a nonnegative integer''),
        raise_if (cb_reason b \<notin> set BOUNDARY_REASONS) (ValueError ''Unknown boundary reason''),
        raise_if (cb_models b < 0 \<or> cb_tools b < 0) (ValueError ''Invalid boundary counter''),
        (case cb_tool_outcome b of None \<Rightarrow> Inr () | Some s \<Rightarrow> voidR (py_text (JStr s) 64)),
        raise_if (case cb_evidence b of None \<Rightarrow> False | Some d \<Rightarrow> length d \<noteq> 64) (ValueError ''Evidence digest must be a sha256 hex digest'')]"

definition given :: "string \<Rightarrow> string option \<Rightarrow> (string \<times> json) list" where
  "given k v = (case v of None \<Rightarrow> [] | Some s \<Rightarrow> if s = [] then [] else [(k, JStr s)])"

definition boundary_attributes :: "boundary \<Rightarrow> (string \<times> json) list" where
  "boundary_attributes b =
     identity_attributes (cb_identity b)
     @ [(''blaine.continuation.index'', JInt (cb_index b)), (''blaine.continuation.reason'', JStr (cb_reason b)),
        (''blaine.continuation.model_invocations'', JInt (cb_models b)), (''blaine.continuation.tool_invocations'', JInt (cb_tools b))]
     @ given ''blaine.continuation.last_tool_outcome'' (cb_tool_outcome b) @ given ''blaine.continuation.evidence_digest'' (cb_evidence b)"

definition str_or_null :: "string option \<Rightarrow> json" where
  "str_or_null v = (case v of None \<Rightarrow> JNull | Some s \<Rightarrow> JStr s)"

definition boundary_payload :: "boundary \<Rightarrow> json" where
  "boundary_payload b = (let i = cb_identity b in JObj
     [(''identity'', JObj ([(''task_id'', JStr (ei_task_id i)), (''run_id'', JStr (ei_run_id i))] @ map (\<lambda>(k, v). (k, str_or_null v)) (optional_fields i))),
      (''index'', JInt (cb_index b)), (''reason'', JStr (cb_reason b)), (''model_invocations'', JInt (cb_models b)),
      (''tool_invocations'', JInt (cb_tools b)), (''last_tool_outcome'', str_or_null (cb_tool_outcome b)), (''evidence_digest'', str_or_null (cb_evidence b))])"

definition artifacts_digest :: "(string \<times> string) list \<Rightarrow> string" where
  "artifacts_digest artifacts = sha256_hex (encode (JList (map (\<lambda>(k, v). JList [JStr k, JStr v]) (sort_key fst artifacts))))"

subsection \<open>Names and attributes of spans\<close>

definition span_name :: "string \<Rightarrow> (string \<times> json) list \<Rightarrow> string" where
  "span_name kind attributes =
     (let operation = dget (JObj attributes) ''gen_ai.operation.name''; model = dget (JObj attributes) ''gen_ai.request.model'';
          named = (if py_true model then model else dget (JObj attributes) ''gen_ai.tool.name'') in
      if py_true operation \<and> py_true named then jstr operation @ '' '' @ jstr named else ''blaine.'' @ kind)"

definition MODEL_TEXTS :: "(string \<times> string) list" where
  "MODEL_TEXTS = [(''gen_ai.response.model'', ''response_model''), (''gen_ai.response.id'', ''response_id''),
     (''blaine.model.reasoning_effort'', ''reasoning_effort''), (''blaine.model.output_sha256'', ''output_digest'')]"

definition MODEL_USAGE :: "(string \<times> string) list" where
  "MODEL_USAGE = [(''gen_ai.usage.input_tokens'', ''input_tokens''), (''gen_ai.usage.output_tokens'', ''output_tokens''),
     (''gen_ai.usage.cache_read.input_tokens'', ''cached_input_tokens''), (''gen_ai.usage.cache_creation.input_tokens'', ''cache_write_input_tokens'')]"

definition add_text :: "json \<Rightarrow> (string \<times> json) list \<Rightarrow> string \<times> string \<Rightarrow> (string \<times> json) list res" where
  "add_text args attributes x =
     (let v = dget args (snd x) in
      if v = JNull then Inr attributes else bindR (py_text v 128) (\<lambda>t. Inr (AList.update (fst x) t attributes)))"

definition add_usage :: "json \<Rightarrow> (string \<times> json) list \<Rightarrow> string \<times> string \<Rightarrow> (string \<times> json) list res" where
  "add_usage usage attributes x =
     (let v = dget usage (snd x) in
      if v = JNull then Inr attributes
      else if \<not> is_int v \<or> jint v < 0 then Inl (ValueError ''Invalid token usage observation'')
      else Inr (AList.update (fst x) v attributes))"

text \<open>The keyword arguments are one document; an argument that is not given is \<open>JNull\<close>.\<close>

definition model_attributes :: "json \<Rightarrow> (string \<times> json) list res" where
  "model_attributes args =
     bindR (py_text (dget args ''provider'') 128) (\<lambda>provider.
     bindR (py_text (dget args ''request_model'') 128) (\<lambda>model.
     bindR (foldR (add_text args) [(''gen_ai.operation.name'', JStr ''chat''), (''gen_ai.provider.name'', provider), (''gen_ai.request.model'', model)]
              MODEL_TEXTS) (\<lambda>attributes.
     bindR (if dget args ''finish_reason'' = JNull then Inr attributes
            else bindR (py_text (dget args ''finish_reason'') 64) (\<lambda>t. Inr (AList.update ''gen_ai.response.finish_reasons'' (JList [t]) attributes)))
       (\<lambda>attributes. foldR (add_usage (dget args ''usage'')) attributes MODEL_USAGE))))"

definition tool_attributes :: "json \<Rightarrow> (string \<times> json) list res" where
  "tool_attributes args =
     bindR (py_text (dget args ''name'') 128) (\<lambda>name.
     bindR (py_text (dget_or args ''tool_type'' (JStr ''function'')) 64) (\<lambda>tool_type.
     let base = [(''gen_ai.operation.name'', JStr ''execute_tool''), (''gen_ai.tool.name'', name), (''gen_ai.tool.type'', tool_type)] in
     bindR (if dget args ''call_id'' = JNull then Inr base
            else bindR (py_text (dget args ''call_id'') 256) (\<lambda>t. Inr (base @ [(''gen_ai.tool.call.id'', t)]))) (\<lambda>a1.
     bindR (if dget args ''outcome'' = JNull then Inr a1
            else bindR (py_text (dget args ''outcome'') 64) (\<lambda>t. Inr (a1 @ [(''blaine.tool.outcome'', t)]))) (\<lambda>a2.
     if dget args ''exit_code'' = JNull then Inr a2
     else if \<not> is_int (dget args ''exit_code'') then Inl (ValueError ''Invalid tool exit code'')
     else Inr (a2 @ [(''blaine.tool.exit_code'', dget args ''exit_code'')])))))"

subsection \<open>Assessments\<close>

definition add_label :: "json \<Rightarrow> (string \<times> json) list \<Rightarrow> string \<Rightarrow> (string \<times> json) list res" where
  "add_label raw d key = (if dget raw key = JNull then Inr d else bindR (py_text (dget raw key) 256) (\<lambda>t. Inr (d @ [(key, t)])))"

text \<open>The largest integer that still rounds to a float, and \<open>float (score)\<close> for a score of the unit interval.\<close>

definition FLOAT_LIMIT :: int where "FLOAT_LIMIT = 2 ^ 1024 - 2 ^ 970"

fun probability :: "json \<Rightarrow> json res" where
  "probability (JInt i) =
     (if FLOAT_LIMIT \<le> i \<or> i \<le> - FLOAT_LIMIT then Inl (OverflowError ''int too large to convert to float'')
      else if i = 0 then Inr (JFloat 0 1) else if i = 1 then Inr (JFloat 10 1) else Inl (ValueError ''Score must be a probability''))"
| "probability (JFloat m e) = (if 0 \<le> m \<and> m \<le> 10 ^ e then Inr (JFloat m e) else Inl (ValueError ''Score must be a probability''))"
| "probability v = Inl (ValueError ''Score must be a probability'')"

definition add_counter :: "json \<Rightarrow> (string \<times> json) list \<Rightarrow> string \<Rightarrow> (string \<times> json) list res" where
  "add_counter raw d key =
     (let v = dget raw key in
      if v = JNull then Inr d else if \<not> is_int v \<or> jint v < 0 then Inl (ValueError ''Invalid observation counter'') else Inr (d @ [(key, v)]))"

definition ASSESSMENT_FIELDS :: "string list" where
  "ASSESSMENT_FIELDS = [''outcome'', ''label'', ''score'', ''detail'', ''latency_ms'', ''input_tokens'', ''output_tokens'', ''model'']"

definition fields_assessment :: "json \<Rightarrow> (string \<times> json) list res" where
  "fields_assessment raw =
     (if \<not> is_dict raw then Inl (ValueError ''Expected an assessment object'')
      else if \<not> set (jkeys raw) \<subseteq> set ASSESSMENT_FIELDS \<or> \<not> has_key raw ''outcome'' then Inl (ValueError ''Unknown or missing assessment fields'')
      else bindR (foldR (add_label raw) [(''outcome'', dget raw ''outcome'')] [''label'', ''detail'', ''model'']) (\<lambda>d.
        bindR (if dget raw ''score'' = JNull then Inr d else bindR (probability (dget raw ''score'')) (\<lambda>s. Inr (d @ [(''score'', s)]))) (\<lambda>d'.
        foldR (add_counter raw) d' [''latency_ms'', ''input_tokens'', ''output_tokens''])))"

definition validate_assessment :: "json \<Rightarrow> string \<Rightarrow> (string \<times> json) list res" where
  "validate_assessment raw observer_id =
     bindR (fields_assessment raw) (\<lambda>d.
     bindR (in_strs (dget (JObj d) ''outcome'') [''PROCEED'', ''ABSTAIN'']) (\<lambda>known.
     if \<not> known then Inl (ValueError ''Unknown control outcome'') else Inr ((''observer_id'', JStr observer_id) # d)))"

subsection \<open>The control path\<close>

fun exn_type :: "exn \<Rightarrow> string" where
  "exn_type (TypeError m) = ''TypeError''"
| "exn_type (OverflowError m) = ''OverflowError''"
| "exn_type (KeyError m) = ''KeyError''"
| "exn_type (UnicodeError m) = ''UnicodeError''"
| "exn_type (ProjectionError m) = ''ProjectionError''"
| "exn_type (SuiteError m) = ''SuiteError''"
| "exn_type (SubmitError m) = ''SubmitError''"
| "exn_type (WorktreeError m) = ''WorktreeError''"
| "exn_type (ControlRejected m) = ''ControlRejected''"
| "exn_type (BoundaryError m) = ''BoundaryError''"
| "exn_type (AmendmentDenied m) = ''AmendmentDenied''"
| "exn_type (AmendmentConflict m) = ''AmendmentConflict''"
| "exn_type (ContextError m) = ''ContextError''"
| "exn_type (IndexError m) = ''IndexError''"
| "exn_type (AttributeError m) = ''AttributeError''"
| "exn_type (OSError m) = ''OSError''"
| "exn_type (ProviderUnavailable m) = ''ProviderUnavailable''"
| "exn_type (ResponseLost m) = ''ResponseLost''"
| "exn_type (UnsupportedCapability m) = ''UnsupportedCapability''"
| "exn_type (ControlPathError m) = ''ControlPathError''"
| "exn_type (Refused m) = ''Refused''"
| "exn_type (TerminalError m n) = ''TerminalError''"
| "exn_type e = ''ValueError''"

datatype inspected = Answered json int | Budget_exceeded | Observer_raised string

record observer =
  ob_id :: string
  ob_inspect :: "boundary \<Rightarrow> inspected"

record control =
  ct_observers :: "observer list"
  ct_policy :: string
  ct_budget :: int

definition check_control :: "control \<Rightarrow> unit res" where
  "check_control c =
     checks
       [raise_if (ct_policy c \<notin> {''PROCEED_ON_ERROR'', ''FAIL_ON_ERROR''}) (ValueError ''Unknown control failure policy''),
        raise_if (\<not> (0 < ct_budget c \<and> ct_budget c \<le> 60000)) (ValueError ''Control budget must be a bounded positive millisecond value''),
        raise_if (4 < length (ct_observers c)) (ValueError ''Expected a bounded observer set''),
        forR (\<lambda>ob. py_identifier (JStr (ob_id ob))) (ct_observers c)]"

definition failure_json :: "string \<Rightarrow> string \<Rightarrow> (string \<times> json) list \<Rightarrow> json" where
  "failure_json observer_id what extra = JObj ([(''observer_id'', JStr observer_id), (''failure'', JStr what)] @ extra)"

record consulted =
  co_assessments :: "json list"
  co_failures :: "json list"
  co_poisoned :: "string list"

definition failing :: "consulted \<Rightarrow> json \<Rightarrow> consulted" where
  "failing s f = s\<lparr>co_failures := co_failures s @ [f]\<rparr>"

text \<open>One observer: a poisoned one is not consulted again, one that exceeds its budget becomes poisoned.\<close>

definition consult :: "boundary \<Rightarrow> observer \<Rightarrow> consulted \<Rightarrow> consulted" where
  "consult b ob s =
     (let i = ob_id ob in
      if i \<in> set (co_poisoned s) then failing s (failure_json i ''skipped_poisoned'' [])
      else case ob_inspect ob b of
        Budget_exceeded \<Rightarrow> failing (s\<lparr>co_poisoned := i # co_poisoned s\<rparr>) (failure_json i ''budget_exceeded'' [])
      | Observer_raised ty \<Rightarrow> failing s (failure_json i ''observer_error'' [(''error_type'', JStr ty)])
      | Answered raw elapsed \<Rightarrow>
          (case validate_assessment raw i of
             Inl e \<Rightarrow> failing s (failure_json i ''observer_error'' [(''error_type'', JStr (exn_type e))])
           | Inr a \<Rightarrow> s\<lparr>co_assessments := co_assessments s @ [dset (JObj a) ''latency_ms'' (dget_or (JObj a) ''latency_ms'' (JInt elapsed))]\<rparr>))"

definition admission_record :: "boundary \<Rightarrow> json \<Rightarrow> json list \<Rightarrow> json list \<Rightarrow> json" where
  "admission_record b policy assessments failures = JObj
     [(''version'', JInt 1), (''boundary'', boundary_payload b), (''policy'', policy), (''assessments'', JList assessments),
      (''failures'', JList failures), (''outcome'', JStr ''PROCEED''), (''admitted_intervention'', JNull)]"

type_synonym recorder = "string \<Rightarrow> (string \<times> json) list \<Rightarrow> unit res"

definition safe_event :: "recorder \<Rightarrow> nat \<Rightarrow> string \<Rightarrow> (string \<times> json) list \<Rightarrow> unit res \<times> nat" where
  "safe_event recorder dropped name attributes = (case recorder name attributes of Inl e \<Rightarrow> (Inr (), Suc dropped) | Inr u \<Rightarrow> (Inr (), dropped))"

definition control_admit :: "recorder \<Rightarrow> control \<Rightarrow> string list \<Rightarrow> boundary \<Rightarrow> json res \<times> string list" where
  "control_admit recorder c poisoned b =
     (case recorder ''blaine.continuation.boundary'' (boundary_attributes b) of
        Inl e \<Rightarrow> (Inl e, poisoned)
      | Inr _ \<Rightarrow>
          let s = fold (consult b) (ct_observers c) \<lparr>co_assessments = [], co_failures = [], co_poisoned = poisoned\<rparr> in
          (if co_failures s = [] then Inr (admission_record b (JStr (ct_policy c)) (co_assessments s) [])
           else seqR (recorder ''blaine.control.failed'' (boundary_attributes b @
                  [(''blaine.control.failures'', JInt (int (length (co_failures s)))), (''blaine.control.policy'', JStr (ct_policy c))]))
             (if ct_policy c = ''FAIL_ON_ERROR'' then Inl (ControlPathError ''Control observer failed under FAIL_ON_ERROR'')
              else Inr (admission_record b (JStr (ct_policy c)) (co_assessments s) (co_failures s))),
           co_poisoned s))"

record instrumentation =
  im_recorder :: "recorder option"
  im_control :: "control option"

definition im_enabled :: "instrumentation \<Rightarrow> bool" where
  "im_enabled im \<longleftrightarrow> im_recorder im \<noteq> None \<or> im_control im \<noteq> None"

definition null_recorder :: recorder where
  "null_recorder name attributes = Inr ()"

definition the_recorder :: "instrumentation \<Rightarrow> recorder" where
  "the_recorder im = (case im_recorder im of None \<Rightarrow> null_recorder | Some f \<Rightarrow> f)"

definition instruments_admit :: "instrumentation \<Rightarrow> string list \<Rightarrow> boundary \<Rightarrow> json res \<times> string list" where
  "instruments_admit im poisoned b =
     (case seqR (check_identity (cb_identity b)) (check_boundary b) of
        Inl e \<Rightarrow> (Inl e, poisoned)
      | Inr _ \<Rightarrow>
          (case im_control im of
             Some c \<Rightarrow> control_admit (the_recorder im) c poisoned b
           | None \<Rightarrow> (seqR (the_recorder im ''blaine.continuation.boundary'' (boundary_attributes b)) (Inr (admission_record b JNull [] [])), poisoned)))"

subsection \<open>What the control path guarantees\<close>

lemma consult_counts:
  "length (co_assessments (consult b ob s)) + length (co_failures (consult b ob s)) = Suc (length (co_assessments s) + length (co_failures s))"
  by (simp add: consult_def failing_def Let_def split: inspected.splits sum.splits)

lemma consult_poisoned: "set (co_poisoned s) \<subseteq> set (co_poisoned (consult b ob s))"
  by (auto simp: consult_def failing_def Let_def split: inspected.splits sum.splits)

lemma fold_consult:
  "length (co_assessments (fold (consult b) obs s)) + length (co_failures (fold (consult b) obs s))
     = length obs + length (co_assessments s) + length (co_failures s)"
  "set (co_poisoned s) \<subseteq> set (co_poisoned (fold (consult b) obs s))"
proof (induction obs arbitrary: s)
  case (Cons ob obs)
  case 1
  from Cons.IH(1) [of "consult b ob s"] consult_counts [of b ob s] show ?case by simp
  case 2
  from Cons.IH(2) [of "consult b ob s"] consult_poisoned [of s b ob] show ?case by simp
qed simp_all

lemma consult_skips: "ob_id ob \<in> set (co_poisoned s) \<Longrightarrow> ob_id ob' = ob_id ob \<Longrightarrow> consult b ob' s = consult b ob s"
  by (simp add: consult_def Let_def)

lemma fold_consult_skips:
  assumes "list_all2 (\<lambda>x y. ob_id x = ob_id y \<and> (ob_id x \<in> set (co_poisoned s) \<or> ob_inspect x b = ob_inspect y b)) obs obs'"
  shows "fold (consult b) obs s = fold (consult b) obs' s"
  using assms
proof (induction obs arbitrary: obs' s)
  case (Cons x xs)
  from Cons.prems obtain y ys where obs': "obs' = y # ys"
    and xy: "ob_id x = ob_id y" "ob_id x \<in> set (co_poisoned s) \<or> ob_inspect x b = ob_inspect y b"
    and rest: "list_all2 (\<lambda>x y. ob_id x = ob_id y \<and> (ob_id x \<in> set (co_poisoned s) \<or> ob_inspect x b = ob_inspect y b)) xs ys"
    by (auto simp: list_all2_Cons1)
  have c: "consult b x s = consult b y s"
    using xy(2)
  proof
    assume "ob_id x \<in> set (co_poisoned s)"
    with xy(1) show ?thesis by (simp add: consult_def Let_def)
  next
    assume "ob_inspect x b = ob_inspect y b"
    with xy(1) show ?thesis unfolding consult_def Let_def xy(1) by (simp split: inspected.split sum.split)
  qed
  have "list_all2 (\<lambda>v w. ob_id v = ob_id w \<and> (ob_id v \<in> set (co_poisoned (consult b y s)) \<or> ob_inspect v b = ob_inspect w b)) xs ys"
    by (rule list_all2_mono [OF rest]) (use consult_poisoned [of s b y] in auto)
  from Cons.IH [OF this] c show ?case by (simp add: obs')
qed simp

definition unpoisoned :: "(string \<Rightarrow> boundary \<Rightarrow> inspected) \<Rightarrow> string list \<Rightarrow> observer \<Rightarrow> observer" where
  "unpoisoned f poisoned ob = (if ob_id ob \<in> set poisoned then ob\<lparr>ob_inspect := f (ob_id ob)\<rparr> else ob)"

lemma fold_consult_unpoisoned:
  "fold (consult b) (map (unpoisoned f (co_poisoned s)) obs) s = fold (consult b) obs s"
  by (rule fold_consult_skips) (simp add: list_all2_conv_all_nth unpoisoned_def)

lemma control_admit_cases:
  "case control_admit recorder c poisoned b of (x, poisoned') \<Rightarrow>
     set poisoned \<subseteq> set poisoned'
     \<and> (case x of
          Inl e \<Rightarrow> (\<exists>name attributes. recorder name attributes = Inl e)
            \<or> ct_policy c = ''FAIL_ON_ERROR''
              \<and> co_failures (fold (consult b) (ct_observers c) \<lparr>co_assessments = [], co_failures = [], co_poisoned = poisoned\<rparr>) \<noteq> []
        | Inr rec \<Rightarrow> dget rec ''outcome'' = JStr ''PROCEED'' \<and> dget rec ''admitted_intervention'' = JNull
            \<and> length (lget rec ''assessments'') + length (lget rec ''failures'') = length (ct_observers c))"
proof -
  let ?s0 = "\<lparr>co_assessments = [], co_failures = [], co_poisoned = poisoned\<rparr>"
  define s where "s = fold (consult b) (ct_observers c) ?s0"
  have n: "length (co_assessments s) + length (co_failures s) = length (ct_observers c)" "set poisoned \<subseteq> set (co_poisoned s)"
    using fold_consult(1) [of b "ct_observers c" ?s0] fold_consult(2) [of ?s0 b "ct_observers c"] by (simp_all add: s_def)
  have g: "dget (admission_record b p as fs) ''outcome'' = JStr ''PROCEED''" "dget (admission_record b p as fs) ''admitted_intervention'' = JNull"
    "dget (admission_record b p as fs) ''assessments'' = JList as" "dget (admission_record b p as fs) ''failures'' = JList fs" for p as fs
    by (simp_all add: admission_record_def dget_JObj)
  show ?thesis
  proof (cases "recorder ''blaine.continuation.boundary'' (boundary_attributes b)")
    case (Inl e)
    then show ?thesis by (auto simp: control_admit_def)
  next
    case (Inr u)
    let ?second = "recorder ''blaine.control.failed'' (boundary_attributes b @
       [(''blaine.control.failures'', JInt (int (length (co_failures s)))), (''blaine.control.policy'', JStr (ct_policy c))])"
    from Inr have c: "control_admit recorder c poisoned b =
      (if co_failures s = [] then Inr (admission_record b (JStr (ct_policy c)) (co_assessments s) [])
       else seqR ?second (if ct_policy c = ''FAIL_ON_ERROR'' then Inl (ControlPathError ''Control observer failed under FAIL_ON_ERROR'')
         else Inr (admission_record b (JStr (ct_policy c)) (co_assessments s) (co_failures s))), co_poisoned s)"
      by (simp add: control_admit_def Let_def s_def)
    show ?thesis
    proof (cases "co_failures s = []")
      case True
      with n g c show ?thesis by simp
    next
      case False
      then show ?thesis using n g unfolding c by (cases ?second) (auto simp: s_def)
    qed
  qed
qed

text \<open>
  The control path observes and never intervenes: the admission of a boundary says PROCEED with no
  intervention, or it raises; it raises only for an invalid boundary, a failing recorder, or, under
  FAIL_ON_ERROR, an observer that failed. Every observer is accounted for, as an assessment or as a
  failure, and one that exceeded its budget is never consulted again: what it would answer makes no
  difference.
\<close>

lemma control_never_intervenes:
  "case instruments_admit im poisoned b of (x, poisoned') \<Rightarrow>
     set poisoned \<subseteq> set poisoned'
     \<and> (case x of
          Inl e \<Rightarrow> seqR (check_identity (cb_identity b)) (check_boundary b) = Inl e
            \<or> (\<exists>name attributes. the_recorder im name attributes = Inl e)
            \<or> (case im_control im of None \<Rightarrow> False | Some c \<Rightarrow> ct_policy c = ''FAIL_ON_ERROR''
                 \<and> co_failures (fold (consult b) (ct_observers c) \<lparr>co_assessments = [], co_failures = [], co_poisoned = poisoned\<rparr>) \<noteq> [])
        | Inr rec \<Rightarrow> dget rec ''outcome'' = JStr ''PROCEED'' \<and> dget rec ''admitted_intervention'' = JNull
            \<and> length (lget rec ''assessments'') + length (lget rec ''failures'') = (case im_control im of None \<Rightarrow> 0 | Some c \<Rightarrow> length (ct_observers c)))
     \<and> (case im_control im of None \<Rightarrow> True
        | Some c \<Rightarrow> instruments_admit (im\<lparr>im_control := Some (c\<lparr>ct_observers := map (unpoisoned f poisoned) (ct_observers c)\<rparr>)\<rparr>) poisoned b = (x, poisoned'))"
proof (cases "seqR (check_identity (cb_identity b)) (check_boundary b)")
  case (Inl e)
  then show ?thesis by (auto simp: instruments_admit_def split: option.splits)
next
  case (Inr u)
  show ?thesis
  proof (cases "im_control im")
    case None
    have g: "dget (admission_record b JNull [] []) ''outcome'' = JStr ''PROCEED''" "dget (admission_record b JNull [] []) ''admitted_intervention'' = JNull"
      "dget (admission_record b JNull [] []) ''assessments'' = JList []" "dget (admission_record b JNull [] []) ''failures'' = JList []"
      by (simp_all add: admission_record_def dget_JObj)
    with None Inr show ?thesis
      by (cases "the_recorder im ''blaine.continuation.boundary'' (boundary_attributes b)") (auto simp: instruments_admit_def)
  next
    case (Some c)
    have r: "the_recorder (im\<lparr>im_control := z\<rparr>) = the_recorder im" for z by (simp add: the_recorder_def)
    have same: "control_admit (the_recorder im) (c\<lparr>ct_observers := map (unpoisoned f poisoned) (ct_observers c)\<rparr>) poisoned b
       = control_admit (the_recorder im) c poisoned b"
      using fold_consult_unpoisoned [of b f "\<lparr>co_assessments = [], co_failures = [], co_poisoned = poisoned\<rparr>" "ct_observers c"]
      by (simp add: control_admit_def Let_def split: sum.split)
    obtain x p where x: "control_admit (the_recorder im) c poisoned b = (x, p)" by force
    have e: "instruments_admit im poisoned b = (x, p)"
      "instruments_admit (im\<lparr>im_control := Some (c\<lparr>ct_observers := map (unpoisoned f poisoned) (ct_observers c)\<rparr>)\<rparr>) poisoned b = (x, p)"
      using Inr Some x same r by (simp_all add: instruments_admit_def)
    from control_admit_cases [where recorder = "the_recorder im" and c = c and poisoned = poisoned and b = b] show ?thesis
      unfolding e x prod.case Some option.case by (auto split: sum.splits)
  qed
qed

text \<open>
  A declared support is never emulated: a profile supports a capability at a granularity exactly when it
  declares a claim for it that is not UNSUPPORTED and at least as fine.
\<close>

lemma supports_declared:
  assumes "\<forall>c\<in>set (ap_claims p). claim_post_init c = Inr ()" and "distinct (map cl_capability (ap_claims p))"
    and "granularity \<in> set GRANULARITY" and "capability \<in> set CONTROL_CAPABILITIES"
  shows "supports p capability granularity = Inr (\<exists>c\<in>set (ap_claims p). cl_capability c = capability \<and> cl_support c \<noteq> ''UNSUPPORTED''
    \<and> (\<exists>g n m. cl_granularity c = Some g \<and> map_of FINENESS g = Some n \<and> map_of FINENESS granularity = Some m \<and> m \<le> n))"
proof (cases "find (\<lambda>c. cl_capability c = capability) (ap_claims p)")
  case None
  then have "\<forall>c\<in>set (ap_claims p). cl_capability c \<noteq> capability" by (simp add: find_None_iff)
  with None assms(3,4) show ?thesis by (simp add: supports_def profile_claim_def)
next
  case (Some c)
  then have c: "c \<in> set (ap_claims p)" "cl_capability c = capability" by (auto simp: find_Some_iff)
  with assms(2) have u: "\<And>c'. c' \<in> set (ap_claims p) \<Longrightarrow> cl_capability c' = capability \<Longrightarrow> c' = c"
    by (auto simp: distinct_map inj_on_def)
  from assms(3) obtain m where m: "map_of FINENESS granularity = Some m" by (auto simp: GRANULARITY_def FINENESS_def)
  show ?thesis
  proof (cases "cl_support c = ''UNSUPPORTED''")
    case True
    with Some assms(3,4) u show ?thesis by (auto simp: supports_def profile_claim_def)
  next
    case False
    from assms(1) c(1) have "claim_post_init c = Inr ()" by blast
    with False have "cl_granularity c \<in> Some ` set GRANULARITY" by (simp add: claim_post_init_def bindR_eq_Inr)
    then obtain g where g: "cl_granularity c = Some g" "g \<in> set GRANULARITY" by blast
    then obtain n where n: "map_of FINENESS g = Some n" by (auto simp: GRANULARITY_def FINENESS_def)
    have e: "(\<exists>c\<in>set (ap_claims p). cl_capability c = capability \<and> cl_support c \<noteq> ''UNSUPPORTED''
      \<and> (\<exists>g n m. cl_granularity c = Some g \<and> map_of FINENESS g = Some n \<and> map_of FINENESS granularity = Some m \<and> m \<le> n)) = (m \<le> n)"
    proof
      assume "\<exists>c\<in>set (ap_claims p). cl_capability c = capability \<and> cl_support c \<noteq> ''UNSUPPORTED''
        \<and> (\<exists>g n m. cl_granularity c = Some g \<and> map_of FINENESS g = Some n \<and> map_of FINENESS granularity = Some m \<and> m \<le> n)"
      then obtain c' g' n' m' where x: "c' \<in> set (ap_claims p)" "cl_capability c' = capability" "cl_granularity c' = Some g'"
        "map_of FINENESS g' = Some n'" "map_of FINENESS granularity = Some m'" "m' \<le> n'" by blast
      from u [OF x(1,2)] x(3) g(1) have "g' = g" by simp
      with x n m show "m \<le> n" by simp
    qed (use c g n m False in blast)
    have "supports p capability granularity = Inr (m \<le> n)"
      unfolding supports_def profile_claim_def fineness_def using assms(3,4) Some False g(1) n m by simp
    with e show ?thesis by simp
  qed
qed

lemma profiles_valid: "list_all (\<lambda>(_, p). check_profile p = Inr () \<and> list_all (\<lambda>c. claim_post_init c = Inr ()) (ap_claims p)) PROFILES"
  by code_simp

end
