(* ===== verification/Turn.thy ===== *)
theory Turn
  imports Workflow Cognitive_Context Instrument
begin

section \<open>The decision loop\<close>

text \<open>
  The loop of \<open>run\<close> in runtime/kernel/workflow.py and what it dispatches to: the iteration boundary
  (amendments, reconciliation, escalation, admission of the continuation), the packet cognition sees, one
  decision, the policy gate, and one action: a capability, a handoff, a wait, children, or a request to
  complete. Every iteration ends with an evaluation; the last one without a completion fails the Task.

  \<open>'p kernel\<close> is what the deployment and the accepted request fix for the whole run; \<open>events\<close> is what one
  iteration receives from outside. The child workflows are calls of the durable runtime: \<open>kn_child\<close> is the
  answer to the call of a child's \<open>run\<close>, a value or the terminal error it ended with.
\<close>

record 'p kernel =
  kn_de :: "'p deployment"
  kn_spec :: json
  kn_grant :: "json option"
  kn_initial :: "json option"
  kn_invocation :: string
  kn_cognitive :: "json \<Rightarrow> json res"
  kn_escalated :: "(json \<Rightarrow> json res) option"
  kn_escalation_binding :: "string option"
  kn_providers :: "(json \<Rightarrow> json res) list"
  kn_reader :: "(json \<Rightarrow> json res) option"
  kn_worker :: "(json \<Rightarrow> string \<Rightarrow> json res) option"
  kn_plane :: "plane option"
  kn_instruments :: instrumentation
  kn_child :: "string \<Rightarrow> json \<Rightarrow> json res"

record events =
  ev_pending :: "json list"
  ev_waited :: "wait_event list"
  ev_answer :: answered
  ev_wins :: "nat \<Rightarrow> bool"
  ev_workspace :: "json res"

abbreviation kn_task :: "'p kernel \<Rightarrow> string" where
  "kn_task kn \<equiv> de_task (kn_de kn)"

definition is_completed :: "'p run \<Rightarrow> bool" where
  "is_completed r \<longleftrightarrow> ts_lifecycle (rn_state r) = COMPLETED"

definition settled :: "'p deployment \<Rightarrow> ('p, unit) act" where
  "settled de = seqA (settle_task de) (retA ())"

subsection \<open>The iteration boundary\<close>

definition escalate :: "'p kernel \<Rightarrow> nat \<Rightarrow> ('p, unit) act" where
  "escalate kn iteration =
     bindA (getA rn_escalation) (\<lambda>esc.
     if esc \<noteq> None then retA ()
     else seqA (modA (\<lambda>r. r\<lparr>rn_local_turns := int iteration\<rparr>))
       (bindA (getA rn_history) (\<lambda>history.
        case escalation_condition iteration history of
          None \<Rightarrow> retA ()
        | Some reason \<Rightarrow>
            let a = admit_escalation (kn_grant kn) (if kn_escalated kn = None then None else kn_escalation_binding kn) in
            seqA (modA (\<lambda>r. r\<lparr>rn_escalation := Some \<lparr>es_iteration = int iteration, es_reason = reason, es_admission = a\<rparr>,
                    rn_binding := (case adm_binding a of None \<Rightarrow> rn_binding r | Some b \<Rightarrow> b)\<rparr>)) publish)))"

definition boundary_of :: "'p kernel \<Rightarrow> nat \<Rightarrow> 'p run \<Rightarrow> boundary" where
  "boundary_of kn iteration r =
     \<lparr>cb_identity = \<lparr>ei_task_id = kn_task kn, ei_run_id = ''run:'' @ kn_invocation kn, ei_dispatch_id = None, ei_session_id = None,
        ei_turn_id = None, ei_model_id = Some (kn_task kn @ ''/'' @ show_nat iteration), ei_call_id = None\<rparr>,
      cb_index = int iteration - 1, cb_reason = (if iteration = 1 then ''session_start'' else ''tool_results''), cb_models = int iteration - 1,
      cb_tools = int (rn_tools r), cb_tool_outcome = rn_tool_outcome r, cb_evidence = Some (artifacts_digest (ts_artifacts (rn_state r)))\<rparr>"

definition admit_continuation :: "'p kernel \<Rightarrow> nat \<Rightarrow> ('p, unit) act" where
  "admit_continuation kn iteration =
     (if im_enabled (kn_instruments kn) then
        bindA (getA (boundary_of kn iteration)) (\<lambda>b.
        seqA (stepA (kn_de kn) (\<lambda>r. case instruments_admit (kn_instruments kn) (rn_poisoned r) b of (x, p) \<Rightarrow> (x, r\<lparr>rn_poisoned := p\<rparr>))) (retA ()))
      else retA ())"

definition check_fingerprint :: "'p kernel \<Rightarrow> ('p, unit) act" where
  "check_fingerprint kn =
     (case kn_plane kn of
        None \<Rightarrow> retA ()
      | Some pl \<Rightarrow>
          bindA (stepA (kn_de kn) (\<lambda>r. (bindR (resolve_binding pl (rn_state r) (rn_binding r) (kn_spec kn)) (\<lambda>bound. Inr (bc_fingerprint bound)), r))) (\<lambda>f.
          seqA (modA (\<lambda>r. r\<lparr>rn_fingerprint := f\<rparr>))
          (bindA (getA rn_admission) (\<lambda>adm. if dget adm ''binding'' \<noteq> JStr f then throwA (TerminalError ''Context Plane: STALE'' 500) else retA ()))))"

definition PLANE_NOTE :: string where
  "PLANE_NOTE = ''Use worker.run with the compiled-context artifact reference. After one worker observation, ''
     @ ''one context.request may express a new information need: version=1, kind=ContextRequest, ''
     @ ''payload={question,form,locator,base_ref}; base_ref is the compiled-context reference. ''
     @ ''Forms: exact-source, lexical-source (also requires exact), current-evidence, prior-context. ''
     @ ''The result replaces compiled-context with a fresh bounded input. Do not recreate packets ''
     @ ''or select scopes. Historical artifact references do not authorize fresh context reads.''"

definition add_item :: "json \<Rightarrow> json \<Rightarrow> json" where
  "add_item packet i =
     (let payload = dget packet ''payload'' in dset packet ''payload'' (dset payload ''context'' (JList (lget payload ''context'' @ [i]))))"

definition reconstruct_owned :: "'p kernel \<Rightarrow> task_state \<Rightarrow> json \<Rightarrow> artifact_store \<Rightarrow> json res" where
  "reconstruct_owned kn state contract store =
     bindR (reconstruct state (kn_spec kn) store (kn_providers kn) (Some contract)) (\<lambda>packet.
     if kn_plane kn = None then Inr packet
     else let packet' = add_item packet (JObj [(''source'', JStr ''blaine:context-plane-v1''), (''revision'', JStr ''1''), (''authority'', JStr ''instruction''),
              (''unknowns'', JList []), (''content'', JStr PLANE_NOTE)]) in
          if MAX_PACKET < length (encode packet') then Inl (ContextError ''INSUFFICIENT_CONTEXT'') else Inr packet')"

definition prepare_turn :: "'p kernel \<Rightarrow> ('p, json) act" where
  "prepare_turn kn =
     bindA (getA rn_prepared) (\<lambda>prepared.
     bindA (case prepared of Some p \<Rightarrow> retA p
            | None \<Rightarrow> stepA (kn_de kn) (\<lambda>r. (reconstruct_owned kn (rn_state r) (rn_contract r) (rn_store r), r))) (\<lambda>packet.
     seqA (modA (\<lambda>r. r\<lparr>rn_prepared := None\<rparr>))
     (bindA (retain (kn_de kn) packet) (\<lambda>ref.
      seqA (stateA (\<lambda>s. s\<lparr>ts_context_ref := Some ref\<rparr>))
      (seqA (modA (\<lambda>r. r\<lparr>rn_context_refs := last8 (rn_context_refs r @ [ref])\<rparr>))
      (seqA publish (retA packet)))))))"

subsection \<open>Cognition and the gate\<close>

definition adapter :: "'p kernel \<Rightarrow> 'p run \<Rightarrow> json \<Rightarrow> json res" where
  "adapter kn r =
     (case rn_escalation r of
        None \<Rightarrow> kn_cognitive kn
      | Some esc \<Rightarrow> if adm_outcome (es_admission esc) = ''admitted'' then
            (case kn_escalated kn of None \<Rightarrow> \<lambda>_. Inl (TypeError ''NoneType object is not callable'') | Some f \<Rightarrow> f)
          else kn_cognitive kn)"

definition guard_delivery :: "'p kernel \<Rightarrow> 'p run \<Rightarrow> unit res" where
  "guard_delivery kn r =
     (case kn_plane kn of None \<Rightarrow> Inr () | Some pl \<Rightarrow> voidR (guard_binding pl (rn_state r) (rn_binding r) (kn_spec kn) (rn_fingerprint r)))"

definition decide :: "'p kernel \<Rightarrow> json \<Rightarrow> 'p run \<Rightarrow> json res" where
  "decide kn packet r =
     seqR (guard_delivery kn r)
     (bindR (adapter kn r packet) (\<lambda>raw.
      if MAX_PACKET < length (encode raw) then Inl (TerminalError ''Decision exceeds size limit'' 400) else Inr raw))"

definition initial_decision :: "'p kernel \<Rightarrow> nat \<Rightarrow> json \<Rightarrow> task_state \<Rightarrow> json" where
  "initial_decision kn iteration action s = message ''CognitiveDecision'' (JObj
     [(''task_id'', JStr (kn_task kn)), (''task_revision'', JInt (ts_revision s)), (''turn_id'', JStr (kn_task kn @ ''/'' @ show_nat iteration)),
      (''next_action'', action)])"

definition obtain_decision :: "'p kernel \<Rightarrow> nat \<Rightarrow> json \<Rightarrow> ('p, json) act" where
  "obtain_decision kn iteration packet =
     bindA (case kn_initial kn of
              Some action \<Rightarrow> if iteration = 1 then getA (\<lambda>r. initial_decision kn iteration action (rn_state r)) else stepA (kn_de kn) (\<lambda>r. (decide kn packet r, r))
            | None \<Rightarrow> stepA (kn_de kn) (\<lambda>r. (decide kn packet r, r))) (\<lambda>decision.
     seqA (stateA (\<lambda>s. s\<lparr>ts_decision_id := Some (kn_task kn @ ''/'' @ show_nat iteration)\<rparr>))
     (bindA (retain (kn_de kn) decision) (\<lambda>ref.
      seqA (stateA (\<lambda>s. s\<lparr>ts_decision_ref := Some ref\<rparr>)) (seqA publish (retA decision)))))"

definition run_gate :: "'p kernel \<Rightarrow> json \<Rightarrow> ('p, json) act" where
  "run_gate kn decision r =
     (policy_gate decision (rn_state r) (kn_spec kn) (kn_grant kn) (Some (rn_contract r)) (Some (de_authority (kn_de kn))), r)"

definition denial_reason :: "json \<Rightarrow> string" where
  "denial_reason verdict =
     (let reason = py_take_bytes 512 (if py_true (dget verdict ''reason'') then sget verdict ''reason'' else ''denied'') in
      if reason = [] then ''denied'' else reason)"

definition deny_turn :: "'p kernel \<Rightarrow> json \<Rightarrow> json \<Rightarrow> ('p, json) act" where
  "deny_turn kn decision verdict =
     bindA (getA rn_state) (\<lambda>s.
     let observation = message ''PolicyDecision'' (JObj (jitems verdict @ [(''decision_id'', jopt JStr (ts_decision_id s))])) in
     case denied_action decision of
       None \<Rightarrow> retA observation
     | Some action \<Rightarrow> seqA (record_entry (kn_de kn) (capability_entry (kn_de kn) s action ''denied'' [(''reason'', JStr (denial_reason verdict))]))
         (retA observation))"

subsection \<open>Running a capability\<close>

definition the_decision :: "task_state \<Rightarrow> string" where
  "the_decision s = (case ts_decision_id s of None \<Rightarrow> [] | Some d \<Rightarrow> d)"

definition capability_request :: "'p kernel \<Rightarrow> task_state \<Rightarrow> json \<Rightarrow> json" where
  "capability_request kn s action = message ''CapabilityRequest'' (JObj
     [(''task_id'', JStr (kn_task kn)), (''operation_id'', JStr (the_decision s)), (''capability'', dget action ''capability''), (''input'', dget action ''input'')])"

definition admit_capability :: "'p kernel \<Rightarrow> json \<Rightarrow> ('p, unit) act" where
  "admit_capability kn action =
     bindA (getA rn_state) (\<lambda>s. record_entry (kn_de kn) (capability_entry (kn_de kn) s action ''admitted''
       [(''operation_id'', JStr (the_decision s)), (''request_digest'', JStr (json_digest (capability_request kn s action)))]))"

definition executeA :: "'p kernel \<Rightarrow> json \<Rightarrow> context_runtime option \<Rightarrow> ('p, json) act" where
  "executeA kn request cx r =
     (case execute \<lparr>ca_store = rn_store r, ca_rows = rn_rows r, ca_reader = kn_reader kn, ca_worker = kn_worker kn, ca_plane = kn_plane kn\<rparr> request cx of
        (x, ca) \<Rightarrow> (x, r\<lparr>rn_store := ca_store ca, rn_rows := ca_rows ca\<rparr>))"

text \<open>Under a Context Plane: a governed compilation, or an execution after the checks of this delivery.\<close>

definition plane_delta :: "'p kernel \<Rightarrow> plane \<Rightarrow> json \<Rightarrow> ('p, json \<times> json option) act" where
  "plane_delta kn pl action r =
     (if rn_delta r \<or> \<not> rn_observed r then (Inl (ContextError ''DENIED''), r)
      else case plane_compile pl (rn_store r) (rn_state r) (rn_binding r) (kn_spec kn) (the_decision (rn_state r)) (dget action ''input'') (Some (rn_admission r)) of
        (Inl e, st) \<Rightarrow> (Inl e, r\<lparr>rn_store := st\<rparr>)
      | (Inr (result, adm), st) \<Rightarrow> (Inr (result, Some adm), r\<lparr>rn_store := st\<rparr>))"

definition plane_run :: "'p kernel \<Rightarrow> plane \<Rightarrow> json \<Rightarrow> json \<Rightarrow> ('p, json \<times> json option) act" where
  "plane_run kn pl action request r =
     (case seqR (guard_delivery kn r)
        (raise_if (sget action ''capability'' = ''worker.run'' \<and> rn_delivered r = dget (rn_admission r) ''packet_ref'' \<or> sget action ''capability'' = ''artifact.read'')
          (ContextError ''DENIED'')) of
        Inl e \<Rightarrow> (Inl e, r)
      | Inr _ \<Rightarrow> bindA (executeA kn request (Some \<lparr>cx_state = rn_state r, cx_route = rn_binding r, cx_spec = kn_spec kn, cx_admission = rn_admission r\<rparr>))
          (\<lambda>result. retA (result, None)) r)"

definition plane_capability :: "'p kernel \<Rightarrow> plane \<Rightarrow> json \<Rightarrow> json \<Rightarrow> ('p, json \<times> json option) act" where
  "plane_capability kn pl action request r =
     (case (if sget action ''capability'' = ''context.request'' then plane_delta kn pl action r else plane_run kn pl action request r) of
        (Inl e, r') \<Rightarrow> (if is_context_error e then Inr (context_failure (the_decision (rn_state r)) e, None) else Inl e, r')
      | (Inr x, r') \<Rightarrow> (Inr x, r'))"

definition execute_capability :: "'p kernel \<Rightarrow> json \<Rightarrow> json \<Rightarrow> ('p, json \<times> json option) act" where
  "execute_capability kn action request =
     (case kn_plane kn of
        None \<Rightarrow> bindA (executeA kn request None) (\<lambda>result. retA (result, None))
      | Some pl \<Rightarrow> plane_capability kn pl action request)"

definition succeeded :: "json \<Rightarrow> bool" where
  "succeeded observation \<longleftrightarrow> dget (dget observation ''payload'') ''outcome'' = JStr ''success''"

definition adopt_admission :: "'p kernel \<Rightarrow> json \<Rightarrow> json \<Rightarrow> json option \<Rightarrow> ('p, unit) act" where
  "adopt_admission kn action observation admitted =
     (if kn_plane kn = None then retA ()
      else seqA (case admitted of None \<Rightarrow> retA () | Some a \<Rightarrow> modA (\<lambda>r. r\<lparr>rn_admission := a, rn_delta := True\<rparr>))
        (if sget action ''capability'' = ''worker.run'' \<and> succeeded observation
         then modA (\<lambda>r. r\<lparr>rn_observed := True, rn_delivered := dget (rn_admission r) ''packet_ref''\<rparr>) else retA ()))"

definition count_tool :: "json \<Rightarrow> ('p, unit) act" where
  "count_tool observation = modA (\<lambda>r. r\<lparr>rn_tools := Suc (rn_tools r), rn_tool_outcome := Some (sget (dget observation ''payload'') ''outcome'')\<rparr>)"

definition keep_observation :: "'p kernel \<Rightarrow> json \<Rightarrow> ('p, unit) act" where
  "keep_observation kn observation =
     bindA (retain (kn_de kn) observation) (\<lambda>ref. seqA (stateA (\<lambda>s. s\<lparr>ts_observation_ref := Some ref\<rparr>)) publish)"

definition observe_result :: "'p kernel \<Rightarrow> json \<Rightarrow> json \<Rightarrow> ('p, unit) act" where
  "observe_result kn action observation =
     (let artifacts = map (\<lambda>(k, v). (k, jstr v)) (jitems (dget (dget observation ''payload'') ''artifacts'')) in
      seqA (count_tool observation)
      (seqA (stateA (\<lambda>s. s\<lparr>ts_artifacts := dict_merge (ts_artifacts s) artifacts\<rparr>))
      (seqA (keep_observation kn observation)
      (if sget action ''capability'' \<noteq> ''workspace.read'' \<or> \<not> succeeded observation then
         bindA (getA rn_state) (\<lambda>s. record_entry (kn_de kn)
           (observed (the_decision s) (sget (dget observation ''payload'') ''outcome'') (jopt JStr (ts_observation_ref s))))
       else retA ()))))"

subsection \<open>A scoped workspace read\<close>

definition accept_workspace :: "'p kernel \<Rightarrow> json \<Rightarrow> string \<Rightarrow> json \<Rightarrow> ('p, json) act" where
  "accept_workspace kn action request_ref received =
     bindA (stepA (kn_de kn) (\<lambda>r. (read_json (rn_store r) (kn_task kn) (JStr request_ref), r))) (\<lambda>accepted.
     bindA (resA (validate_read_result received (dget accepted ''payload''))) (\<lambda>content.
     bindA (stepA (kn_de kn) (storeA (\<lambda>st. put st (kn_task kn) (jstr content)))) (\<lambda>ref.
     seqA (stateA (\<lambda>s. s\<lparr>ts_artifacts := AList.update (sget (dget action ''input'') ''artifact'') ref (ts_artifacts s)\<rparr>))
     (bindA (retain (kn_de kn) (legacy_receipt (kn_task kn) request_ref (dget accepted ''payload'') ref (jstr content))) (\<lambda>receipt_ref.
      bindA (getA rn_state) (\<lambda>s.
      seqA (record_entry (kn_de kn) (observed (the_decision s) ''success'' (JStr receipt_ref)))
      (seqA end_wait
      (retA (message ''WorkspaceReadObservation'' (JObj [(''operation_id'', JStr (the_decision s)), (''receipt_ref'', JStr receipt_ref),
         (''artifact'', dget (dget action ''input'') ''artifact''), (''artifact_ref'', JStr ref), (''content'', content)]))))))))))"

definition wait_workspace :: "'p kernel \<Rightarrow> events \<Rightarrow> nat \<Rightarrow> json \<Rightarrow> json \<Rightarrow> ('p, json) act" where
  "wait_workspace kn ev iteration action observation =
     (let request_ref = sget (dget (dget observation ''payload'') ''output'') ''request_ref'' in
      seqA (stateA (\<lambda>s. s\<lparr>ts_wait := Some (WaitWorkspace (ts_revision s) (''workspace/'' @ show_nat iteration) request_ref)\<rparr>))
      (seqA suspend (bindA (resA (ev_workspace ev)) (accept_workspace kn action request_ref))))"

definition human_wait :: "json \<Rightarrow> json" where
  "human_wait action = JObj [(''wait_id'', dget (dget (dget (dget action ''input'') ''request'') ''payload'') ''request_id''), (''input_type'', JStr ''human_response'')]"

definition follow_up :: "'p kernel \<Rightarrow> events \<Rightarrow> nat \<Rightarrow> json \<Rightarrow> json \<Rightarrow> ('p, json) act" where
  "follow_up kn ev iteration action observation =
     bindA (getA is_completed) (\<lambda>done.
     if done \<or> \<not> succeeded observation then retA observation
     else if sget action ''capability'' = ''workspace.read'' then wait_workspace kn ev iteration action observation
     else if sget action ''capability'' = ''human.request'' then await_input (kn_de kn) (human_wait action) (ev_waited ev)
     else retA observation)"

definition invoke_target :: "'p kernel \<Rightarrow> events \<Rightarrow> nat \<Rightarrow> json \<Rightarrow> ('p, json) act" where
  "invoke_target kn ev iteration action =
     bindA (perform_target (kn_de kn) action iteration (ev_answer ev) (ev_wins ev)) (\<lambda>observation.
     seqA (count_tool observation) (seqA (keep_observation kn observation) (seqA (settled (kn_de kn)) (retA observation))))"

definition invoke_local :: "'p kernel \<Rightarrow> events \<Rightarrow> nat \<Rightarrow> json \<Rightarrow> ('p, json) act" where
  "invoke_local kn ev iteration action =
     bindA (getA rn_state) (\<lambda>s.
     bindA (stepA (kn_de kn) (execute_capability kn action (capability_request kn s action))) (\<lambda>(observation, admitted).
     seqA (adopt_admission kn action observation admitted)
     (seqA (observe_result kn action observation)
     (seqA (settled (kn_de kn)) (follow_up kn ev iteration action observation)))))"

definition invoke_capability :: "'p kernel \<Rightarrow> events \<Rightarrow> nat \<Rightarrow> json \<Rightarrow> ('p, json) act" where
  "invoke_capability kn ev iteration action =
     seqA (admit_capability kn action)
     (if target_operation action then invoke_target kn ev iteration action else invoke_local kn ev iteration action)"

subsection \<open>Child Tasks\<close>

fun mapA :: "('b \<Rightarrow> ('p, 'a) act) \<Rightarrow> 'b list \<Rightarrow> ('p, 'a list) act" where
  "mapA f [] = retA []"
| "mapA f (x # xs) = bindA (f x) (\<lambda>y. bindA (mapA f xs) (\<lambda>ys. retA (y # ys)))"

definition put_child :: "string \<Rightarrow> json \<Rightarrow> task_state \<Rightarrow> task_state" where
  "put_child child_id v s = s\<lparr>ts_children := AList.update child_id v (ts_children s)\<rparr>"

definition set_child :: "string \<Rightarrow> string \<Rightarrow> json \<Rightarrow> ('p, unit) act" where
  "set_child child_id key v = stateA (\<lambda>s. put_child child_id
     (dset (case map_of (ts_children s) child_id of None \<Rightarrow> JObj [] | Some c \<Rightarrow> c) key v) s)"

definition launch_child :: "'p kernel \<Rightarrow> json \<times> json \<Rightarrow> ('p, string \<times> json \<times> json) act" where
  "launch_child kn x =
     (case x of (slot, spec) \<Rightarrow>
       bindA (getA rn_state) (\<lambda>s.
       bindA (resA (child_task_id (JStr (kn_task kn)) (JStr (the_decision s)) slot)) (\<lambda>child_id.
       seqA (stateA (\<lambda>s. s\<lparr>ts_remaining_children := ts_remaining_children s - child_cost spec\<rparr>))
       (bindA (retain (kn_de kn) (message ''TaskSpec'' spec)) (\<lambda>ref.
        seqA (stateA (put_child child_id (JObj [(''spec_ref'', JStr ref), (''result_ref'', JNull), (''parent_task_id'', JStr (kn_task kn)),
                (''decision_id'', JStr (the_decision s)), (''slot'', slot)])))
        (retA (child_id, slot, spec)))))))"

definition children_wait :: "json \<Rightarrow> string list \<Rightarrow> task_state \<Rightarrow> wait" where
  "children_wait action names s =
     (if has_key action ''task_specs'' then WaitChildren names (ts_revision s) else WaitChild (hd names) (ts_revision s))"

definition call_child :: "'p kernel \<Rightarrow> string \<Rightarrow> string \<times> json \<times> json \<Rightarrow> json res" where
  "call_child kn decision_id x =
     (case x of (child_id, slot, spec) \<Rightarrow>
       bindR (narrow_grant (kn_grant kn) None) (\<lambda>grant. kn_child kn child_id (child_request (kn_task kn) decision_id slot spec grant)))"

definition failed_child :: "string \<Rightarrow> json" where
  "failed_child child_id = message ''TaskResult'' (JObj [(''task_id'', JStr child_id), (''outcome'', JStr ''FAILED''), (''artifacts'', JObj []),
     (''completion_ref'', JNull), (''concerns'', JList [JStr ''Child invocation failed''])])"

text \<open>One child joined: its observation, and its entry among the outcomes unless the result is invalid.\<close>

definition keep_child :: "'p kernel \<Rightarrow> string \<Rightarrow> json \<Rightarrow> ('p, json \<times> json option) act" where
  "keep_child kn child_id observation =
     (case validate_result observation child_id of
        Inl e \<Rightarrow>
          if is_value_error e \<or> is_type_error e then
            seqA (set_child child_id ''result_error'' (JStr ''invalid_result'')) (seqA publish (retA (observation, None)))
          else throwA e
      | Inr result \<Rightarrow>
          bindA (retain (kn_de kn) observation) (\<lambda>ref.
          seqA (set_child child_id ''result_ref'' (JStr ref))
          (seqA publish (retA (observation, Some (JObj [(''task_id'', JStr child_id), (''outcome'', dget result ''outcome''),
             (''result_ref'', JStr ref), (''completion_ref'', dget result ''completion_ref'')]))))))"

definition join_child :: "'p kernel \<Rightarrow> string \<Rightarrow> string \<times> json \<times> json \<Rightarrow> ('p, json \<times> json option) act" where
  "join_child kn decision_id x =
     bindA (case call_child kn decision_id x of
              Inr v \<Rightarrow> retA v | Inl e \<Rightarrow> if is_terminal e then retA (failed_child (fst x)) else throwA e) (keep_child kn (fst x))"

definition joined_observation :: "json \<Rightarrow> (json \<times> json option) list \<Rightarrow> json" where
  "joined_observation action joined =
     (if has_key action ''task_specs'' then message ''ChildTaskResults'' (JObj [(''children'', JList (List.map_filter snd joined))])
      else fst (last joined))"

definition end_join :: "json \<Rightarrow> (json \<times> json option) list \<Rightarrow> ('p, json) act" where
  "end_join action joined =
     (if list_ex (\<lambda>(_, out). out = None) joined then throwA (TerminalError ''Invalid child result; all launched children joined'' 500)
      else seqA end_wait (seqA publish (retA (joined_observation action joined))))"

definition spawn_tasks :: "'p kernel \<Rightarrow> json \<Rightarrow> ('p, json) act" where
  "spawn_tasks kn action =
     bindA (resA (spawn_specs action)) (\<lambda>children.
     bindA (mapA (launch_child kn) children) (\<lambda>pending.
     seqA (stateA (\<lambda>s. s\<lparr>ts_wait := Some (children_wait action (map fst pending) s)\<rparr>))
     (seqA suspend
     (bindA (getA (\<lambda>r. the_decision (rn_state r))) (\<lambda>decision_id.
      bindA (mapA (join_child kn decision_id) pending) (end_join action))))))"

subsection \<open>One turn\<close>

definition hand_off :: "json \<Rightarrow> ('p, json) act" where
  "hand_off action =
     bindA (getA rn_state) (\<lambda>s.
     seqA (stateA (\<lambda>s. s\<lparr>ts_active_specialist := sget action ''specialist''\<rparr>))
     (retA (message ''HandoffResult'' (JObj [(''from'', JStr (ts_active_specialist s)), (''to'', dget action ''specialist''),
        (''decision_id'', jopt JStr (ts_decision_id s))]))))"

definition act_on :: "'p kernel \<Rightarrow> events \<Rightarrow> nat \<Rightarrow> json \<Rightarrow> ('p, json) act" where
  "act_on kn ev iteration action =
     (if dget action ''type'' = JStr ''INVOKE_CAPABILITY'' then invoke_capability kn ev iteration action
      else if dget action ''type'' = JStr ''HANDOFF'' then hand_off action
      else if dget action ''type'' = JStr ''WAIT'' then await_input (kn_de kn) action (ev_waited ev)
      else if dget action ''type'' = JStr ''SPAWN_TASK'' then spawn_tasks kn action
      else settle_task (kn_de kn))"

definition is_allowed :: "json \<Rightarrow> bool" where
  "is_allowed verdict \<longleftrightarrow> dget verdict ''outcome'' = JStr ''allow''"

definition respond :: "'p kernel \<Rightarrow> events \<Rightarrow> nat \<Rightarrow> json \<Rightarrow> json \<Rightarrow> ('p, json) act" where
  "respond kn ev iteration decision verdict =
     (if dget verdict ''outcome'' = JStr ''deny'' then deny_turn kn decision verdict
      else act_on kn ev iteration (dget (dget decision ''payload'') ''next_action''))"

definition prepare_handoff :: "'p kernel \<Rightarrow> nat \<Rightarrow> ('p, unit) act" where
  "prepare_handoff kn iteration =
     bindA (stepA (kn_de kn) (\<lambda>r. (reconstruct_owned kn ((rn_state r)\<lparr>ts_iteration := int iteration + 1\<rparr>) (rn_contract r) (rn_store r), r))) (\<lambda>packet.
     bindA (retain (kn_de kn) packet) (\<lambda>ref.
     seqA (stateA (\<lambda>s. s\<lparr>ts_context_ref := Some ref\<rparr>)) (modA (\<lambda>r. r\<lparr>rn_prepared := Some packet\<rparr>))))"

definition finish_turn :: "'p kernel \<Rightarrow> nat \<Rightarrow> json \<Rightarrow> json \<Rightarrow> json \<Rightarrow> ('p, bool) act" where
  "finish_turn kn iteration decision verdict observation =
     bindA (retain (kn_de kn) observation) (\<lambda>ref.
     seqA (stateA (\<lambda>s. s\<lparr>ts_observation_ref := Some ref, ts_revision := ts_revision s + 1\<rparr>))
     (seqA publish
     (bindA (getA is_completed) (\<lambda>d1.
      seqA (if d1 then retA () else settled (kn_de kn))
      (bindA (getA is_completed) (\<lambda>d2.
       seqA (if \<not> d2 \<and> is_allowed verdict \<and> dget (dget (dget decision ''payload'') ''next_action'') ''type'' = JStr ''HANDOFF''
             then prepare_handoff kn iteration else retA ())
       (seqA publish (getA is_completed))))))))"

definition cognitive_step :: "'p kernel \<Rightarrow> events \<Rightarrow> nat \<Rightarrow> ('p, bool) act" where
  "cognitive_step kn ev iteration =
     seqA (escalate kn iteration)
     (seqA (admit_continuation kn iteration)
     (seqA (check_fingerprint kn)
     (bindA (prepare_turn kn) (\<lambda>packet.
      bindA (obtain_decision kn iteration packet) (\<lambda>decision.
      bindA (run_gate kn decision) (\<lambda>verdict.
      bindA (respond kn ev iteration decision verdict) (finish_turn kn iteration decision verdict)))))))"

text \<open>The end of a stage: \<open>break\<close> when the Task is completed, the next stage otherwise.\<close>

definition unless_completed :: "('p, bool) act \<Rightarrow> ('p, bool) act" where
  "unless_completed m = bindA (getA is_completed) (\<lambda>d. if d then retA True else m)"

definition reconcile_boundary :: "'p deployment \<Rightarrow> ('p, unit) act" where
  "reconcile_boundary de = bindA (reconcile_effects de) (\<lambda>concluded. if concluded then settled de else retA ())"

definition turn :: "'p kernel \<Rightarrow> events \<Rightarrow> nat \<Rightarrow> ('p, bool) act" where
  "turn kn ev iteration =
     unless_completed
       (seqA (stateA (\<lambda>s. s\<lparr>ts_iteration := int iteration\<rparr>))
       (seqA (admit_amendments (kn_de kn) (ev_pending ev))
       (unless_completed
         (seqA (reconcile_boundary (kn_de kn)) (unless_completed (cognitive_step kn ev iteration))))))"

subsection \<open>The run\<close>

fun turns :: "'p kernel \<Rightarrow> (nat \<Rightarrow> events) \<Rightarrow> nat list \<Rightarrow> ('p, string list) act" where
  "turns kn evs [] = seqA (stateA (\<lambda>s. s\<lparr>ts_lifecycle := FAILED\<rparr>)) (retA [''Turn limit exhausted without verified completion''])"
| "turns kn evs (i # is) = bindA (turn kn (evs i) i) (\<lambda>stop. if stop then retA [] else turns kn evs is)"

definition compile_initial :: "'p kernel \<Rightarrow> plane \<Rightarrow> ('p, unit) act" where
  "compile_initial kn pl =
     bindA (stepA (kn_de kn) (\<lambda>r. case plane_compile pl (rn_store r) (rn_state r) (rn_binding r) (kn_spec kn) (kn_task kn @ ''/context-initial'') JNull None of
        (x, st) \<Rightarrow> (x, r\<lparr>rn_store := st\<rparr>))) (\<lambda>(result, adm).
     seqA (modA (\<lambda>r. r\<lparr>rn_admission := adm\<rparr>))
     (seqA (stateA (\<lambda>s. s\<lparr>ts_artifacts := dict_merge (ts_artifacts s)
         (map (\<lambda>(k, v). (k, jstr v)) (jitems (dget (dget result ''payload'') ''artifacts'')))\<rparr>)) publish))"

definition open_context :: "'p kernel \<Rightarrow> ('p, unit) act" where
  "open_context kn =
     bindA (getA is_completed) (\<lambda>d.
     case kn_plane kn of
       None \<Rightarrow> retA ()
     | Some pl \<Rightarrow>
         if d then retA ()
         else if \<not> {''worker.run'', ''context.request''} \<subseteq> effective_capabilities (kn_spec kn) (kn_grant kn)
         then throwA (TerminalError ''Context Plane: DENIED'' 500) else compile_initial kn pl)"

definition run_body :: "'p kernel \<Rightarrow> (nat \<Rightarrow> events) \<Rightarrow> ('p, string list) act" where
  "run_body kn evs = seqA (settled (kn_de kn)) (seqA (open_context kn) (turns kn evs [1..<Suc MAX_TURNS]))"

definition run_routing :: "'p kernel \<Rightarrow> string list \<Rightarrow> 'p run \<Rightarrow> json" where
  "run_routing kn found r =
     (let s = rn_state r; esc = rn_escalation r in message ''RoutingRecord'' (routing_payload
       \<lparr>rr_task_id = kn_task kn, rr_outcome = lifecycle_str (ts_lifecycle s), rr_externally_bounded = (kn_grant kn \<noteq> None),
        rr_effective_capabilities = sorted_list_of_set (effective_capabilities (kn_spec kn) (kn_grant kn)),
        rr_initial_binding = LOCAL_BINDING, rr_final_binding = rn_binding r, rr_local_turns = rn_local_turns r, rr_total_turns = ts_iteration s,
        rr_escalated = (case esc of None \<Rightarrow> False | Some e \<Rightarrow> adm_outcome (es_admission e) = ''admitted''),
        rr_escalation_iteration = map_option es_iteration esc, rr_escalation_reason = map_option es_reason esc,
        rr_escalation_admission = map_option (\<lambda>e. adm_outcome (es_admission e)) esc,
        rr_completion_ref = ts_completion_ref s, rr_result_ref = ts_result_ref s, rr_context_refs = rn_context_refs r,
        rr_concerns = add_concerns found (rn_last r), rr_usage = JNull\<rparr>))"

definition finish_run :: "'p kernel \<Rightarrow> string list \<Rightarrow> ('p, json) act" where
  "finish_run kn found =
     bindA (conclude (kn_de kn) found) (\<lambda>output.
     bindA (getA (run_routing kn found)) (\<lambda>routing.
     bindA (retain (kn_de kn) routing) (\<lambda>ref.
     seqA (modA (\<lambda>r. r\<lparr>rn_routing := Some ref\<rparr>)) (seqA publish (retA output)))))"

definition catch_stop :: "'p kernel \<Rightarrow> ('p, string list) act \<Rightarrow> ('p, string list) act" where
  "catch_stop kn m r = (case m r of (Inl e, r') \<Rightarrow> stop_run (kn_de kn) e r' | (Inr found, r') \<Rightarrow> (Inr found, r'))"

definition run_task :: "'p kernel \<Rightarrow> (nat \<Rightarrow> events) \<Rightarrow> ('p, json) act" where
  "run_task kn evs = bindA (catch_stop kn (run_body kn evs)) (finish_run kn)"

text \<open>
  The whole handler: what the request fixes is added to what the deployment fixes, and the accepted run is
  driven to its end. \<open>check_deployment\<close> is what \<open>create_workflow\<close> refuses when the service is built.
\<close>

definition check_deployment :: "'p kernel \<Rightarrow> unit res" where
  "check_deployment kn =
     raise_if (kn_plane kn \<noteq> None \<and> (kn_providers kn \<noteq> [] \<or> kn_escalated kn \<noteq> None))
       (ValueError ''CP.1 requires governed sources and local cognition only'')"

definition kernel_for :: "'p kernel \<Rightarrow> string \<Rightarrow> string \<Rightarrow> json \<Rightarrow> intake \<Rightarrow> json \<Rightarrow> 'p kernel" where
  "kernel_for kn key invocation request i authority = kn
     \<lparr>kn_de := (kn_de kn)\<lparr>de_task := key, de_authority := authority, de_mutating := mutating (sorted_list_of_set (in_admissible i))\<rparr>,
      kn_spec := in_spec i, kn_grant := in_grant i, kn_initial := initial_action_of request, kn_invocation := invocation\<rparr>"

definition run_workflow ::
  "(string \<times> exec_profile) list \<Rightarrow> 'p kernel \<Rightarrow> string \<Rightarrow> string \<Rightarrow> json \<Rightarrow> (nat \<Rightarrow> events) \<Rightarrow> 'p \<Rightarrow> fixture_rows \<Rightarrow> artifact_store
     \<Rightarrow> json res \<times> ('p kernel \<times> 'p run) option \<times> artifact_store" where
  "run_workflow reviewed kn key invocation request evs ps rows store =
     (case begin_run reviewed (kn_plane kn \<noteq> None) (de_runtime (kn_de kn)) key invocation request ps rows store of
        (Inl e, st) \<Rightarrow> (Inl e, None, st)
      | (Inr (i, authority, r), st) \<Rightarrow>
          let kn' = kernel_for kn key invocation request i authority in
          case run_task kn' evs r of (x, r') \<Rightarrow> (x, Some (kn', r'), rn_store r'))"

end
