(* ===== verification/Turn_Facts.thy ===== *)
theory Turn_Facts
  imports Turn Workflow_Facts
begin

section \<open>What the decision loop guarantees\<close>

text \<open>
  Facts about whole runs. Three more relations are carried through the combinators by \<open>run_order\<close>:
  \<open>framed\<close>, for what the operations below the loop leave alone (the Task's identity, the fixture table, the
  escalation, and but for amendments the contract); \<open>calm\<close>, for operations that moreover complete nothing and
  lose nothing; and \<open>steady\<close>, for the invariants of a whole run. \<open>hoare\<close> is partial correctness of an act that
  returns; it tracks what a COMPLETED Task can show for itself.
\<close>

subsection \<open>The operations below the loop\<close>

definition framed :: "bool \<Rightarrow> 'p run \<Rightarrow> 'p run \<Rightarrow> bool" where
  "framed b r r' \<longleftrightarrow> ts_task_id (rn_state r') = ts_task_id (rn_state r) \<and> rn_rows r' = rn_rows r
     \<and> rn_escalation r' = rn_escalation r \<and> rn_binding r' = rn_binding r
     \<and> (b \<longrightarrow> rn_contract r' = rn_contract r \<and> ts_contract_ref (rn_state r') = ts_contract_ref (rn_state r))"

interpretation fr: run_order "framed b" for b
  by unfold_locales (auto simp: framed_def)

lemma fr_stateA: "(\<And>s. ts_task_id (f s) = ts_task_id s \<and> ts_contract_ref (f s) = ts_contract_ref s) \<Longrightarrow> keeps (framed b) (stateA f)"
  by (simp add: keeps_def stateA_def modA_def framed_def)

lemma fr_modA: "(\<And>r. framed b r (f r)) \<Longrightarrow> keeps (framed b) (modA f)"
  by (simp add: keeps_def modA_def)

lemma fr_storeA: "keeps (framed b) (storeA f)" and fr_targetA: "keeps (framed b) (targetA g)"
  by (auto simp: keeps_def storeA_def targetA_def framed_def split: prod.splits)

lemma fr_publish: "keeps (framed b) publish" and fr_end_wait: "keeps (framed b) end_wait" and fr_set_effect: "keeps (framed b) (set_effect op kvs)"
  and fr_put_effect: "keeps (framed b) (stateA (put_effect op v))" and fr_set_wait: "keeps (framed b) (set_wait action ref)"
  by (auto simp: publish_def end_wait_def set_effect_def put_effect_def set_wait_def framed_def intro!: fr_stateA fr_modA)

lemma fr_suspend: "keeps (framed b) suspend"
  unfolding suspend_def by (intro fr.keeps_basic fr_publish fr_stateA) simp

lemma fr_retain: "keeps (framed b) (retain de v)"
  unfolding retain_def by (intro fr.keeps_stepA fr_storeA)

lemma fr_record_entry: "keeps (framed b) (record_entry de e)"
  unfolding record_entry_def by (intro fr.keeps_basic fr_storeA fr_stateA fr_publish) simp

lemmas fr_intros = fr.keeps_basic fr_storeA fr_targetA fr_publish fr_end_wait fr_set_effect fr_put_effect fr_set_wait fr_suspend fr_retain fr_record_entry

lemma fr_settle_effect: "keeps (framed b) (settle_effect de op result)"
  unfolding settle_effect_def Let_def by (auto intro!: fr_intros)

lemma fr_reconcile_effects: "keeps (framed b) (reconcile_effects de)"
proof -
  have "keeps (framed b) (reconcile_one de op)" for op
    unfolding reconcile_one_def Let_def by (auto intro!: fr_intros)
  then have "keeps (framed b) (reconcile_each de ops c)" for ops c
    by (induction ops arbitrary: c) (auto intro!: fr_intros)
  then show ?thesis unfolding reconcile_effects_def by (intro fr_intros)
qed

lemma fr_with_provider: "keeps (framed b) (with_provider de f)"
  by (auto simp: with_provider_def split: option.splits intro!: fr_intros)

lemma fr_supervise: "keeps (framed b) (supervise de request op wins)"
proof -
  have "keeps (framed b) (poll_ticks de request wins tick left)" for tick left
    by (induction left arbitrary: tick) (auto intro!: fr_intros fr_with_provider)
  then show ?thesis unfolding supervise_def by (intro fr_intros)
qed

lemma fr_await_approval: "keeps (framed b) (await_approval de request op i answer)"
  unfolding await_approval_def Let_def by (intro fr_intros) (auto split: answered.splits intro!: fr_intros fr_stateA)

lemma fr_run_effect: "keeps (framed b) (run_effect de request op ref aref wins)"
proof -
  have "keeps (framed b) (dispatch_effect de request)" unfolding dispatch_effect_def
    by (intro fr.keeps_stepA) (auto simp: keeps_def framed_def targetA_def split: sum.splits prod.splits)
  then show ?thesis
    unfolding run_effect_def deliver_effect_def by (auto intro!: fr_intros fr_supervise fr_settle_effect fr_reconcile_effects)
qed

lemma fr_close_undispatched: "keeps (framed b) (close_undispatched de op v)"
  unfolding close_undispatched_def by (intro fr_intros)

lemma fr_perform_effect: "keeps (framed b) (perform_effect de action op i answer wins)"
  unfolding perform_effect_def refuse_effect_def admit_effect_def approve_effect_def
  by (auto simp: Let_def intro!: fr_intros fr_await_approval fr_close_undispatched fr_run_effect split: prod.splits)

lemma fr_perform_target: "keeps (framed b) (perform_target de action i answer wins)"
proof -
  have "keeps (framed b) (\<lambda>r. case targetA (\<lambda>ps st. effects_read (de_provider de) ps (de_task de) op v st) r of
      (Inr x, r') \<Rightarrow> (Inr (Inr x), r') | (Inl e, r') \<Rightarrow> (if is_value_error e then Inr (Inl (py_take 512 (exn_str e))) else Inl e, r'))" for op v
    by (auto simp: keeps_def framed_def targetA_def split: sum.splits prod.splits)
  then have "keeps (framed b) (perform_read de action op)" for op
    unfolding perform_read_def Let_def by (intro fr_intros) (auto intro!: fr_intros fr_stateA split: sum.splits)
  then show ?thesis unfolding perform_target_def by (auto intro!: fr_intros fr_perform_effect)
qed

lemma fr_close_effects: "keeps (framed b) (close_effects de reason)"
proof -
  have "keeps (framed b) (close_one de reason op)" for op
    unfolding close_one_def by (auto intro!: fr_intros fr_close_undispatched fr_settle_effect)
  then show ?thesis unfolding close_effects_def Let_def
    by (auto intro!: fr_intros fr_reconcile_effects fr_modA fr_stateA simp: framed_def)
qed

lemma fr_settle: "keeps (framed b) (settle_task de)"
proof -
  have "keeps (framed b) (review_one de pre c)" for pre c
    unfolding review_one_def Let_def by (auto intro!: fr_intros fr_stateA)
  then have "keeps (framed b) (review_due de)" unfolding review_due_def by (auto intro!: fr_intros)
  then show ?thesis unfolding settle_task_def finish_settle_def Let_def by (auto intro!: fr_intros fr_modA fr_stateA simp: framed_def)
qed

lemma fr_run_amendment: "keeps (framed False) (run_amendment de v)"
proof -
  have f: "keeps (framed False) (stateA f)" if "\<And>s. ts_task_id (f s) = ts_task_id s" for f
    using that by (simp add: keeps_def stateA_def modA_def framed_def)
  show ?thesis unfolding run_amendment_def
    by (intro fr_intros) (auto intro!: fr_intros fr_modA f split: amended_result.splits simp: framed_def)
qed

lemma fr_admit_amendments: "keeps (framed False) (admit_amendments de vs)"
  by (induction vs) (auto intro!: fr_intros fr_run_amendment fr_settle)

lemma fr_resume: "keeps (framed b) (resume de v)"
  unfolding resume_def by (intro fr_intros fr_stateA) simp

lemma fr_accept_answer: "keeps (framed b) (accept_answer de action q v)"
  unfolding accept_answer_def by (auto intro!: fr_intros fr_resume fr_stateA split: option.splits)

lemma fr_withdraw: "keeps (framed False) (withdraw de action)"
  unfolding withdraw_def Let_def by (intro fr_intros fr_resume fr_settle)

lemma fr_await_input: "keeps (framed False) (await_input de action es)"
proof -
  have "keeps (framed False) (await_events de action q es)" for q
    by (induction de action q es rule: await_events.induct)
      (auto intro!: fr_intros fr_run_amendment fr_settle fr_withdraw fr_accept_answer)
  then show ?thesis unfolding await_input_def by (auto intro!: fr_intros)
qed

lemma fr_stop_run: "keeps (framed b) (stop_run de e)"
  unfolding stop_run_def Let_def by (auto intro!: fr_intros fr_close_effects fr_stateA)

subsection \<open>Operations that complete and lose nothing\<close>

definition calm :: "'p run \<Rightarrow> 'p run \<Rightarrow> bool" where
  "calm r r' \<longleftrightarrow> grows r r' \<and> no_completion r r' \<and> ts_task_id (rn_state r') = ts_task_id (rn_state r)
     \<and> rn_escalation r' = rn_escalation r \<and> rn_binding r' = rn_binding r
     \<and> rn_contract r' = rn_contract r \<and> ts_contract_ref (rn_state r') = ts_contract_ref (rn_state r)"

interpretation ca: run_order calm
proof
  show "calm r r" for r :: "'p run" by (simp add: calm_def gr.order_refl nc.order_refl)
  show "calm r t" if "calm r s" "calm s t" for r s t :: "'p run"
    using that gr.order_trans [of r s t] nc.order_trans [of r s t] by (simp add: calm_def)
qed

lemma calm_of: "keeps grows m \<Longrightarrow> keeps no_completion m \<Longrightarrow> (\<And>b. keeps (framed b) m) \<Longrightarrow> keeps calm m"
  unfolding keeps_def calm_def framed_def by blast

lemma ca_storeA: "(\<And>st x st'. f st = (x, st') \<Longrightarrow> reads_kept st st') \<Longrightarrow> keeps calm (storeA f)"
  by (rule calm_of [OF grows_storeA nc_storeA fr_storeA]) blast

lemma ca_stateA:
  "(\<And>s. ts_task_id (f s) = ts_task_id s \<and> ts_contract_ref (f s) = ts_contract_ref s \<and> (ts_lifecycle (f s) = COMPLETED \<longrightarrow> ts_lifecycle s = COMPLETED))
     \<Longrightarrow> keeps calm (stateA f)"
  by (rule calm_of [OF grows_stateA nc_stateA fr_stateA]) auto

lemma ca_modA: "(\<And>r. calm r (f r)) \<Longrightarrow> keeps calm (modA f)"
  by (simp add: keeps_def modA_def)

lemma ca_publish: "keeps calm publish"
  by (rule calm_of [OF grows_publish nc_publish fr_publish])

lemma ca_end_wait: "keeps calm end_wait"
  by (rule calm_of [OF grows_end_wait nc_end_wait fr_end_wait])

lemma ca_suspend: "keeps calm suspend"
  unfolding suspend_def by (intro ca.keeps_basic ca_publish ca_stateA) simp

lemma ca_retain: "keeps calm (retain de v)"
  by (rule calm_of [OF grows_retain nc_retain fr_retain])

lemma ca_record_entry: "keeps calm (record_entry de e)"
  by (rule calm_of [OF grows_record_entry nc_record_entry fr_record_entry])

lemma ca_set_wait: "keeps calm (set_wait action ref)"
  unfolding set_wait_def by (intro ca_stateA) simp

lemmas ca_intros = ca.keeps_basic ca_publish ca_end_wait ca_suspend ca_retain ca_record_entry ca_set_wait

lemma ca_perform_target: "keeps calm (perform_target de action i answer wins)"
  by (rule calm_of [OF grows_perform_target nc_perform_target fr_perform_target])

lemma ca_reconcile_effects: "keeps calm (reconcile_effects de)"
  by (rule calm_of [OF grows_reconcile_effects nc_reconcile_effects fr_reconcile_effects])

lemma ca_resume: "keeps calm (resume de v)"
  unfolding resume_def by (intro ca_intros ca_stateA) simp

lemma ca_accept_answer: "keeps calm (accept_answer de action q v)"
  unfolding accept_answer_def by (auto intro!: ca_intros ca_resume ca_stateA split: option.splits)

lemma reads_kept_execute:
  assumes "execute ca request cx = (x, ca')"
  shows "reads_kept (ca_store ca) (ca_store ca')"
proof -
  have k: "reads_kept st (snd (put st t c))" and kj: "reads_kept st (snd (put_json st t v))" for st t c v
    by (auto intro: reads_kept_put reads_kept_put_json prod.collapse [symmetric])
  have w: "reads_kept (ca_store ca) st" if "run_worker ca t op v cx = (y, st)" for t op v y st
    using that unfolding run_worker_def retain_result_def storing_def
    by (auto split: sum.splits prod.splits if_splits dest!: reads_kept_put_json intro: k reads_kept_trans)
  have p: "reads_kept (ca_store ca) st" if "publish_human (ca_store ca) t v = (y, st)" for t v y st
    using that unfolding publish_human_def storing_def by (auto split: sum.splits if_splits intro: kj)
  have s: "reads_kept (ca_store ca) st" if "run_stored ca capability t op v cx = (y, st)" for capability t op v y st
    using that unfolding run_stored_def Let_def storing_def
    by (auto split: sum.splits if_splits intro: w p k kj)
  from assms show ?thesis unfolding execute_def
    by (auto split: sum.splits prod.splits if_splits dest: s)
qed

lemma reads_kept_plane_compile: "plane_compile pl st s route spec op request previous = (x, st') \<Longrightarrow> reads_kept st st'"
proof -
  have d: "put_delta st t need prev op ref p = (y, st'') \<Longrightarrow> reads_kept st st''" for st t need prev op ref p y st''
    by (auto simp: put_delta_def Let_def split: option.splits if_splits sum.splits prod.splits dest: reads_kept_put_json)
  assume "plane_compile pl st s route spec op request previous = (x, st')"
  then show ?thesis unfolding plane_compile_def Let_def
    by (auto split: sum.splits prod.splits if_splits dest!: reads_kept_put_json d intro: reads_kept_trans)
qed

lemma ca_with_store: "(\<And>r x r'. f r = (x, r') \<Longrightarrow> \<exists>st rows. reads_kept (rn_store r) st \<and> r' = r\<lparr>rn_store := st, rn_rows := rows\<rparr>) \<Longrightarrow> keeps calm f"
  unfolding keeps_def
proof (rule allI)
  fix r assume f: "\<And>r x r'. f r = (x, r') \<Longrightarrow> \<exists>st rows. reads_kept (rn_store r) st \<and> r' = r\<lparr>rn_store := st, rn_rows := rows\<rparr>"
  obtain x r' where "f r = (x, r')" by force
  with f [OF this] show "calm r (snd (f r))" by (auto simp: calm_def grows_def completes_def)
qed

lemma ca_executeA: "keeps calm (executeA kn request cx)"
proof (rule ca_with_store)
  fix r x r' assume "executeA kn request cx r = (x, r')"
  then show "\<exists>st rows. reads_kept (rn_store r) st \<and> r' = r\<lparr>rn_store := st, rn_rows := rows\<rparr>"
    unfolding executeA_def by (auto split: prod.splits dest!: reads_kept_execute)
qed

lemma ca_plane_delta: "keeps calm (plane_delta kn pl action)"
proof (rule ca_with_store)
  fix r x r' assume x: "plane_delta kn pl action r = (x, r')"
  obtain y st where y: "plane_compile pl (rn_store r) (rn_state r) (rn_binding r) (kn_spec kn) (the_decision (rn_state r)) (dget action ''input'')
      (Some (rn_admission r)) = (y, st)" by force
  from x y have "r' = r \<or> r' = r\<lparr>rn_store := st\<rparr>"
    unfolding plane_delta_def by (auto split: prod.splits sum.splits if_splits)
  then have "r' = r\<lparr>rn_store := rn_store r, rn_rows := rn_rows r\<rparr> \<or> r' = r\<lparr>rn_store := st, rn_rows := rn_rows r\<rparr>" by auto
  with reads_kept_plane_compile [OF y] show "\<exists>st rows. reads_kept (rn_store r) st \<and> r' = r\<lparr>rn_store := st, rn_rows := rows\<rparr>"
    using reads_kept_refl by blast
qed

lemma ca_mapA: "(\<And>x. keeps calm (f x)) \<Longrightarrow> keeps calm (mapA f xs)"
  by (induction xs) (auto intro!: ca_intros)

lemma ca_plane_run: "keeps calm (plane_run kn pl action request)"
  unfolding keeps_def
proof
  fix r
  have "keeps calm (bindA (executeA kn request cx) (\<lambda>result. retA (result, None)))" for cx
    by (intro ca_intros ca_executeA)
  then show "calm r (snd (plane_run kn pl action request r))"
    by (auto simp: plane_run_def keeps_def ca.order_refl split: sum.splits)
qed

lemma ca_plane_capability: "keeps calm (plane_capability kn pl action request)"
  unfolding keeps_def
proof
  fix r
  have "keeps calm (if c then plane_delta kn pl action else plane_run kn pl action request)" for c
    by (simp add: ca_plane_delta ca_plane_run)
  then show "calm r (snd (plane_capability kn pl action request r))"
    by (auto simp: plane_capability_def split: sum.splits prod.splits dest: keepsD [OF ca_plane_delta] keepsD [OF ca_plane_run])
qed

lemma ca_execute_capability: "keeps calm (execute_capability kn action request)"
  unfolding execute_capability_def by (auto intro!: ca_intros ca_executeA ca_plane_capability split: option.splits)

lemma ca_vars:
  "keeps calm (modA (\<lambda>r. r\<lparr>rn_prepared := p r\<rparr>))" "keeps calm (modA (\<lambda>r. r\<lparr>rn_context_refs := q r\<rparr>))"
  "keeps calm (modA (\<lambda>r. r\<lparr>rn_admission := a r\<rparr>))" "keeps calm (modA (\<lambda>r. r\<lparr>rn_admission := a r, rn_delta := d r\<rparr>))"
  "keeps calm (modA (\<lambda>r. r\<lparr>rn_observed := o' r, rn_delivered := v r\<rparr>))" "keeps calm (modA (\<lambda>r. r\<lparr>rn_fingerprint := f r\<rparr>))"
  "keeps calm (modA (\<lambda>r. r\<lparr>rn_tools := n r, rn_tool_outcome := w r\<rparr>))" "keeps calm (modA (\<lambda>r. r\<lparr>rn_local_turns := l r\<rparr>))"
  "keeps calm (modA (\<lambda>r. r\<lparr>rn_routing := u r\<rparr>))"
  by (auto intro!: ca_modA simp: calm_def grows_def completes_def)

lemma ca_adopt_admission: "keeps calm (adopt_admission kn action observation admitted)"
  unfolding adopt_admission_def by (auto intro!: ca_intros ca_vars split: option.splits)

lemma ca_count_tool: "keeps calm (count_tool observation)"
  unfolding count_tool_def by (rule ca_vars)

lemma ca_keep_observation: "keeps calm (keep_observation kn observation)"
  unfolding keep_observation_def by (intro ca_intros ca_stateA) simp

lemma ca_observe_result: "keeps calm (observe_result kn action observation)"
  unfolding observe_result_def Let_def by (auto intro!: ca_intros ca_count_tool ca_keep_observation ca_stateA)

lemma ca_admit_capability: "keeps calm (admit_capability kn action)"
  unfolding admit_capability_def by (intro ca_intros)

lemma ca_accept_workspace: "keeps calm (accept_workspace kn action ref v)"
  unfolding accept_workspace_def by (intro ca_intros ca_stateA ca_storeA) (auto intro: reads_kept_put)

lemma ca_wait_workspace: "keeps calm (wait_workspace kn ev i action observation)"
  unfolding wait_workspace_def Let_def by (intro ca_intros ca_stateA ca_accept_workspace) simp

lemma ca_deny_turn: "keeps calm (deny_turn kn decision verdict)"
  unfolding deny_turn_def Let_def by (auto intro!: ca_intros split: option.splits)

lemma ca_hand_off: "keeps calm (hand_off action)"
  unfolding hand_off_def by (intro ca_intros ca_stateA) simp

lemma ca_set_child: "keeps calm (set_child c k v)" and ca_put_child: "keeps calm (stateA (put_child c v))"
  by (auto simp: set_child_def put_child_def intro!: ca_stateA)

lemma ca_launch_child: "keeps calm (launch_child kn x)"
  unfolding launch_child_def by (auto intro!: ca_intros ca_put_child ca_stateA split: prod.splits)

lemma ca_join_child: "keeps calm (join_child kn d x)"
proof -
  have "keeps calm (keep_child kn c v)" for c v
    unfolding keep_child_def by (auto intro!: ca_intros ca_set_child split: sum.splits)
  then show ?thesis unfolding join_child_def by (auto intro!: ca_intros split: sum.splits)
qed

lemma ca_spawn_tasks: "keeps calm (spawn_tasks kn action)"
  unfolding spawn_tasks_def end_join_def by (auto intro!: ca_intros ca_mapA ca_launch_child ca_join_child ca_stateA)

lemma ca_prepare_turn: "keeps calm (prepare_turn kn)"
  unfolding prepare_turn_def by (auto intro!: ca_intros ca_vars ca_stateA split: option.splits)

lemma ca_obtain_decision: "keeps calm (obtain_decision kn i packet)"
  unfolding obtain_decision_def by (auto intro!: ca_intros ca_stateA split: option.splits)

lemma ca_run_gate: "keeps calm (run_gate kn decision)"
  by (simp add: run_gate_def keeps_def ca.order_refl)

lemma ca_admit_continuation: "keeps calm (admit_continuation kn i)"
proof -
  have "keeps calm (\<lambda>r. case instruments_admit im (rn_poisoned r) b of (x, p) \<Rightarrow> (x, r\<lparr>rn_poisoned := p\<rparr>))" for im b
    by (auto simp: keeps_def calm_def grows_def completes_def split: prod.splits)
  then show ?thesis unfolding admit_continuation_def by (auto intro!: ca_intros)
qed

lemma ca_check_fingerprint: "keeps calm (check_fingerprint kn)"
  unfolding check_fingerprint_def by (auto intro!: ca_intros ca_vars split: option.splits)

lemma ca_prepare_handoff: "keeps calm (prepare_handoff kn i)"
  unfolding prepare_handoff_def by (intro ca_intros ca_vars ca_stateA) simp

lemma ca_open_context: "keeps calm (open_context kn)"
proof -
  have "keeps calm (\<lambda>r. case plane_compile pl (rn_store r) (rn_state r) (rn_binding r) spec op q n of (x, st) \<Rightarrow> (x, r\<lparr>rn_store := st\<rparr>))" for pl spec op q n
    by (auto simp: keeps_def calm_def grows_def completes_def split: prod.splits dest: reads_kept_plane_compile)
  then have "keeps calm (compile_initial kn pl)" for pl
    unfolding compile_initial_def by (auto intro!: ca_intros ca_vars ca_stateA split: prod.splits)
  then show ?thesis unfolding open_context_def by (auto intro!: ca_intros split: option.splits)
qed

lemma ca_conclude: "keeps calm (conclude de found)"
  unfolding conclude_def by (intro ca_intros ca_stateA) simp

lemma ca_finish_run: "keeps calm (finish_run kn found)"
  unfolding finish_run_def by (intro ca_intros ca_vars ca_conclude)

lemma nc_stop_run: "keeps no_completion (stop_run de e)"
proof -
  have "stopped_lifecycle e \<noteq> COMPLETED" by (cases e rule: stopped_lifecycle.cases) auto
  then show ?thesis unfolding stop_run_def Let_def by (auto intro!: nc_intros nc_close_effects nc_stateA)
qed

lemma ca_stop_run: "keeps calm (stop_run de e)"
  by (rule calm_of [OF grows_stop_run nc_stop_run fr_stop_run])

subsection \<open>The invariants of a run\<close>

definition contract_kept :: "string \<Rightarrow> 'p run \<Rightarrow> bool" where
  "contract_kept t r \<longleftrightarrow> (\<exists>ref. ts_contract_ref (rn_state r) = Some ref
     \<and> read (rn_store r) t (JStr ref) = Inr (encode (message ''CompletionContract'' (rn_contract r))))"

definition admitted_binding :: "'p kernel \<Rightarrow> string \<Rightarrow> bool" where
  "admitted_binding kn binding \<longleftrightarrow> kn_escalated kn \<noteq> None \<and> kn_escalation_binding kn = Some binding
     \<and> (case kn_grant kn of None \<Rightarrow> False | Some g \<Rightarrow> dget g ''escalation_binding'' = JStr binding)"

text \<open>Whether this run recorded an admitted escalation; a record is written once and never changed.\<close>

definition escalated :: "'p run \<Rightarrow> bool" where
  "escalated r \<longleftrightarrow> (case rn_escalation r of None \<Rightarrow> False | Some esc \<Rightarrow> adm_outcome (es_admission esc) = ''admitted'')"

definition bound_run :: "'p kernel \<Rightarrow> 'p run \<Rightarrow> bool" where
  "bound_run kn r \<longleftrightarrow> (if escalated r then admitted_binding kn (rn_binding r) else rn_binding r = LOCAL_BINDING)"

definition steady :: "'p kernel \<Rightarrow> 'p run \<Rightarrow> 'p run \<Rightarrow> bool" where
  "steady kn r r' \<longleftrightarrow> grows r r' \<and> ts_task_id (rn_state r') = ts_task_id (rn_state r)
     \<and> (contract_kept (kn_task kn) r \<longrightarrow> contract_kept (kn_task kn) r') \<and> (bound_run kn r \<longrightarrow> bound_run kn r')
     \<and> (escalated r \<longrightarrow> escalated r')"

interpretation st: run_order "steady kn" for kn
  by unfold_locales (auto simp: steady_def intro: gr.order_refl gr.order_trans)

lemma contract_kept_same:
  "grows r r' \<Longrightarrow> rn_contract r' = rn_contract r \<Longrightarrow> ts_contract_ref (rn_state r') = ts_contract_ref (rn_state r) \<Longrightarrow> contract_kept t r \<Longrightarrow> contract_kept t r'"
  by (auto simp: contract_kept_def grows_def reads_kept_def)

lemma calm_steady: "calm r r' \<Longrightarrow> steady kn r r'"
  using contract_kept_same [of r r' "kn_task kn"] by (auto simp: calm_def steady_def bound_run_def escalated_def)

lemma st_calm: "keeps calm m \<Longrightarrow> keeps (steady kn) m"
  by (simp add: keeps_def calm_steady)

lemma st_settle: "keeps (steady kn) (settle_task de)"
  unfolding keeps_def
proof
  fix r
  have "grows r (snd (settle_task de r))" "framed True r (snd (settle_task de r))"
    using grows_settle [of de] fr_settle [of True de] by (auto simp: keeps_def)
  then show "steady kn r (snd (settle_task de r))"
    using contract_kept_same [of r "snd (settle_task de r)" "kn_task kn"] by (simp add: steady_def framed_def bound_run_def escalated_def)
qed

lemma admit_amendment_retained:
  assumes "admit_amendment de v contract cref s st = (Inr (Applied aref sealed ref), st')"
  shows "read st' (de_task de) (JStr ref) = Inr (encode (message ''CompletionContract'' sealed))"
  using assms unfolding admit_amendment_def put_json_def
  by (auto split: sum.splits prod.splits if_splits intro: store.put_read)

lemma run_amendment_kept:
  assumes "contract_kept (de_task de) r"
  shows "contract_kept (de_task de) (snd (run_amendment de v r))"
proof -
  let ?s = "rn_state r" and ?c = "rn_contract r"
  let ?f = "admit_amendment de v ?c (case ts_contract_ref ?s of None \<Rightarrow> [] | Some c \<Rightarrow> c) ?s"
  obtain x r1 where x: "stepA de (storeA ?f) r = (x, r1)" by force
  have "keeps calm (stepA de (storeA ?f))"
    by (intro ca.keeps_stepA ca_storeA) (rule reads_kept_admit_amendment)
  from keepsD [OF this x] have c: "calm r r1" .
  with assms have k: "contract_kept (de_task de) r1" by (auto simp: calm_def intro: contract_kept_same)
  show ?thesis
  proof (cases x)
    case (Inl e)
    with x k show ?thesis by (simp add: run_amendment_def bindA_def getA_def)
  next
    case (Inr result)
    show ?thesis
    proof (cases result)
      case (Applied aref sealed ref)
      from stepA_store [OF x [unfolded Inr Applied]] obtain st st' where
        a: "?f st = (Inr (Applied aref sealed ref), st')" and r1: "r1 = r\<lparr>rn_store := st'\<rparr>" by blast
      from admit_amendment_retained [OF a] x Inr Applied r1 show ?thesis
        by (simp add: run_amendment_def bindA_def getA_def modA_def stateA_def publish_def contract_kept_def)
    next
      case (Rejected_amendment ref)
      with x Inr k show ?thesis by (simp add: run_amendment_def bindA_def getA_def modA_def contract_kept_def)
    qed
  qed
qed

lemma st_run_amendment: "keeps (steady kn) (run_amendment (kn_de kn) v)"
  unfolding keeps_def
proof
  fix r
  have "grows r (snd (run_amendment (kn_de kn) v r))" "framed False r (snd (run_amendment (kn_de kn) v r))"
    using grows_run_amendment [of "kn_de kn" v] fr_run_amendment [of "kn_de kn" v] by (auto simp: keeps_def)
  then show "steady kn r (snd (run_amendment (kn_de kn) v r))"
    using run_amendment_kept [of "kn_de kn" r v] by (simp add: steady_def framed_def bound_run_def escalated_def)
qed

lemmas st_intros = st.keeps_basic st_settle st_run_amendment

lemma st_settled: "keeps (steady kn) (settled de)"
  unfolding settled_def by (intro st_intros)

lemma st_admit_amendments: "keeps (steady kn) (admit_amendments (kn_de kn) vs)"
  by (induction vs) (auto intro!: st_intros)

lemma st_await_input: "keeps (steady kn) (await_input (kn_de kn) action es)"
proof -
  have w: "keeps (steady kn) (withdraw (kn_de kn) action)" for action
    unfolding withdraw_def Let_def by (intro st_intros st_calm [OF ca_resume])
  have "keeps (steady kn) (await_events (kn_de kn) action q es)" for q
    by (induction "kn_de kn" action q es rule: await_events.induct)
      (auto intro!: st_intros w st_calm [OF ca_accept_answer])
  then show ?thesis unfolding await_input_def
    by (auto intro!: st_intros st_calm [OF ca_set_wait] st_calm [OF ca_retain] st_calm [OF ca_suspend])
qed

lemma st_follow_up: "keeps (steady kn) (follow_up kn ev i action observation)"
  unfolding follow_up_def by (auto intro!: st_intros st_await_input st_calm [OF ca_wait_workspace])

lemma st_invoke_capability: "keeps (steady kn) (invoke_capability kn ev i action)"
proof -
  have t: "keeps (steady kn) (invoke_target kn ev i action)"
    unfolding invoke_target_def
    by (intro st_intros st_settled st_calm [OF ca_perform_target] st_calm [OF ca_count_tool] st_calm [OF ca_keep_observation])
  have l: "keeps (steady kn) (invoke_local kn ev i action)"
    unfolding invoke_local_def
    by (auto intro!: st_intros st_settled st_follow_up st_calm [OF ca_execute_capability] st_calm [OF ca_adopt_admission] st_calm [OF ca_observe_result]
        split: prod.splits)
  show ?thesis unfolding invoke_capability_def by (auto intro!: st_intros t l st_calm [OF ca_admit_capability])
qed

lemma st_respond: "keeps (steady kn) (respond kn ev i decision verdict)"
  unfolding respond_def act_on_def
  by (auto intro!: st_intros st_invoke_capability st_await_input st_calm [OF ca_deny_turn] st_calm [OF ca_hand_off] st_calm [OF ca_spawn_tasks])

lemma st_finish_turn: "keeps (steady kn) (finish_turn kn i decision verdict observation)"
proof -
  have s: "keeps (steady kn) (stateA (\<lambda>s. s\<lparr>ts_observation_ref := ref, ts_revision := f s\<rparr>))" for ref f
    by (intro st_calm ca_stateA) simp
  show ?thesis unfolding finish_turn_def
    by (auto intro!: st_intros s st_settled st_calm [OF ca_retain] st_calm [OF ca_publish] st_calm [OF ca_prepare_handoff])
qed

lemma admit_escalation_binding:
  "adm_binding (admit_escalation grant deployed) = Some b \<Longrightarrow> deployed = Some b \<and> (\<exists>g. grant = Some g \<and> dget g ''escalation_binding'' = JStr b)"
  by (auto simp: admit_escalation_def Let_def split: option.splits if_splits)

lemma admit_escalation_outcome: "adm_outcome (admit_escalation grant deployed) = ''admitted'' \<longleftrightarrow> adm_binding (admit_escalation grant deployed) \<noteq> None"
  by (auto simp: admit_escalation_def Let_def split: option.splits if_splits)

lemma st_escalate: "keeps (steady kn) (escalate kn i)"
  unfolding keeps_def
proof
  fix r
  let ?a = "admit_escalation (kn_grant kn) (if kn_escalated kn = None then None else kn_escalation_binding kn)"
  have b: "admitted_binding kn b" if "adm_binding ?a = Some b" for b
    using admit_escalation_binding [OF that] by (auto simp: admitted_binding_def split: if_splits)
  show "steady kn r (snd (escalate kn i r))"
  proof (cases "rn_escalation r")
    case None
    have "bound_run kn (r\<lparr>rn_local_turns := l, rn_escalation := Some \<lparr>es_iteration = j, es_reason = reason, es_admission = ?a\<rparr>,
        rn_binding := (case adm_binding ?a of None \<Rightarrow> rn_binding r | Some b \<Rightarrow> b), rn_published := p\<rparr>)" if "bound_run kn r" for l j reason p
      using that None b admit_escalation_outcome [of "kn_grant kn"] by (auto simp: bound_run_def escalated_def split: option.splits)
    with None show ?thesis
      by (auto simp: escalate_def bindA_def getA_def retA_def modA_def publish_def Let_def steady_def grows_def contract_kept_def bound_run_def
          escalated_def split: option.splits)
  qed (auto simp: escalate_def bindA_def getA_def retA_def steady_def grows_def reads_kept_def)
qed

lemma st_cognitive: "keeps (steady kn) (cognitive_step kn ev i)"
  unfolding cognitive_step_def
  by (intro st_intros st_escalate st_respond st_finish_turn st_calm [OF ca_admit_continuation] st_calm [OF ca_check_fingerprint]
      st_calm [OF ca_prepare_turn] st_calm [OF ca_obtain_decision] st_calm [OF ca_run_gate])

lemma st_reconcile_boundary: "keeps (steady kn) (reconcile_boundary de)"
  unfolding reconcile_boundary_def by (auto intro!: st_intros st_settled st_calm [OF ca_reconcile_effects])

lemma st_turn: "keeps (steady kn) (turn kn ev i)"
proof -
  have s: "keeps (steady kn) (stateA (\<lambda>s. s\<lparr>ts_iteration := int i\<rparr>))"
    by (intro st_calm ca_stateA) simp
  show ?thesis unfolding turn_def unless_completed_def
    by (auto intro!: st_intros s st_cognitive st_admit_amendments st_reconcile_boundary)
qed

lemma st_turns: "keeps (steady kn) (turns kn evs is)"
  by (induction "is") (auto intro!: st_intros st_turn st_calm [OF ca_stateA])

lemma st_run_body: "keeps (steady kn) (run_body kn evs)"
  unfolding run_body_def by (intro st_intros st_settled st_turns st_calm [OF ca_open_context])

lemma st_run_task: "keeps (steady kn) (run_task kn evs)"
proof -
  have "keeps (steady kn) (catch_stop kn (run_body kn evs))"
    unfolding keeps_def
  proof
    fix r
    obtain x r1 where x: "run_body kn evs r = (x, r1)" by force
    from keepsD [OF st_run_body x] have "steady kn r r1" .
    moreover have "steady kn r1 (snd (stop_run (kn_de kn) e r1))" for e
      using st_calm [OF ca_stop_run] by (auto simp: keeps_def)
    ultimately have "\<And>e. steady kn r (snd (stop_run (kn_de kn) e r1))" by (blast intro: st.order_trans)
    with \<open>steady kn r r1\<close> x show "steady kn r (snd (catch_stop kn (run_body kn evs) r))"
      by (cases x) (auto simp: catch_stop_def)
  qed
  then show ?thesis unfolding run_task_def by (intro st_intros st_calm [OF ca_finish_run])
qed

subsection \<open>Cognition stays local\<close>

text \<open>
  \<open>elsewhere f kn\<close> is the same deployment with another escalated model behind the same binding. A run that
  records no admitted escalation is the same run in both, so it never asked that model anything: \<open>agrees\<close>
  compares two acts on the runs that end unescalated, and because a record is never withdrawn an act that
  ends unescalated was unescalated at every step.
\<close>

definition elsewhere :: "(json \<Rightarrow> json res) \<Rightarrow> 'p kernel \<Rightarrow> 'p kernel" where
  "elsewhere f kn = kn\<lparr>kn_escalated := map_option (\<lambda>_. f) (kn_escalated kn)\<rparr>"

lemma elsewhere_simps [simp]:
  "kn_de (elsewhere f kn) = kn_de kn" "kn_spec (elsewhere f kn) = kn_spec kn" "kn_grant (elsewhere f kn) = kn_grant kn"
  "kn_initial (elsewhere f kn) = kn_initial kn" "kn_invocation (elsewhere f kn) = kn_invocation kn"
  "kn_cognitive (elsewhere f kn) = kn_cognitive kn" "kn_escalation_binding (elsewhere f kn) = kn_escalation_binding kn"
  "kn_providers (elsewhere f kn) = kn_providers kn" "kn_reader (elsewhere f kn) = kn_reader kn" "kn_worker (elsewhere f kn) = kn_worker kn"
  "kn_plane (elsewhere f kn) = kn_plane kn" "kn_instruments (elsewhere f kn) = kn_instruments kn" "kn_child (elsewhere f kn) = kn_child kn"
  "kn_escalated (elsewhere f kn) = None \<longleftrightarrow> kn_escalated kn = None"
  by (simp_all add: elsewhere_def)

text \<open>Nothing but the decision looks at the escalated model; the escalation only asks whether there is one.\<close>

lemma elsewhere_escalate: "escalate (elsewhere f kn) = escalate kn"
  by (intro ext) (unfold escalate_def elsewhere_simps, rule refl)

lemma elsewhere_admit_continuation: "admit_continuation (elsewhere f kn) = admit_continuation kn"
  by (intro ext) (unfold admit_continuation_def boundary_of_def elsewhere_simps, rule refl)

lemma elsewhere_check_fingerprint: "check_fingerprint (elsewhere f kn) = check_fingerprint kn"
  by (intro ext) (unfold check_fingerprint_def elsewhere_simps, rule refl)

lemma elsewhere_reconstruct_owned: "reconstruct_owned (elsewhere f kn) = reconstruct_owned kn"
  by (intro ext) (unfold reconstruct_owned_def elsewhere_simps, rule refl)

lemma elsewhere_prepare_turn: "prepare_turn (elsewhere f kn) = prepare_turn kn"
  by (intro ext) (unfold prepare_turn_def elsewhere_reconstruct_owned elsewhere_simps, rule refl)

lemma elsewhere_guard_delivery: "guard_delivery (elsewhere f kn) = guard_delivery kn"
  by (intro ext) (unfold guard_delivery_def elsewhere_simps, rule refl)

lemma elsewhere_run_gate: "run_gate (elsewhere f kn) = run_gate kn"
  by (intro ext) (unfold run_gate_def elsewhere_simps, rule refl)

lemma elsewhere_initial_decision: "initial_decision (elsewhere f kn) = initial_decision kn"
  by (intro ext) (unfold initial_decision_def elsewhere_simps, rule refl)

lemma elsewhere_deny_turn: "deny_turn (elsewhere f kn) = deny_turn kn"
  by (intro ext) (unfold deny_turn_def elsewhere_simps, rule refl)

lemma elsewhere_admit_capability: "admit_capability (elsewhere f kn) = admit_capability kn"
  by (intro ext) (unfold admit_capability_def capability_request_def elsewhere_simps, rule refl)

lemma elsewhere_executeA: "executeA (elsewhere f kn) = executeA kn"
  by (intro ext) (unfold executeA_def elsewhere_simps, rule refl)

lemma elsewhere_plane_delta: "plane_delta (elsewhere f kn) = plane_delta kn"
  by (intro ext) (unfold plane_delta_def elsewhere_simps, rule refl)

lemma elsewhere_plane_run: "plane_run (elsewhere f kn) = plane_run kn"
  by (intro ext) (unfold plane_run_def elsewhere_guard_delivery elsewhere_executeA elsewhere_simps, rule refl)

lemma elsewhere_plane_capability: "plane_capability (elsewhere f kn) = plane_capability kn"
  by (intro ext) (unfold plane_capability_def elsewhere_plane_delta elsewhere_plane_run elsewhere_simps, rule refl)

lemma elsewhere_execute_capability: "execute_capability (elsewhere f kn) = execute_capability kn"
  by (intro ext) (unfold execute_capability_def elsewhere_executeA elsewhere_plane_capability elsewhere_simps, rule refl)

lemma elsewhere_adopt_admission: "adopt_admission (elsewhere f kn) = adopt_admission kn"
  by (intro ext) (unfold adopt_admission_def elsewhere_simps, rule refl)

lemma elsewhere_keep_observation: "keep_observation (elsewhere f kn) = keep_observation kn"
  by (intro ext) (unfold keep_observation_def elsewhere_simps, rule refl)

lemma elsewhere_observe_result: "observe_result (elsewhere f kn) = observe_result kn"
  by (intro ext) (unfold observe_result_def elsewhere_keep_observation elsewhere_simps, rule refl)

lemma elsewhere_accept_workspace: "accept_workspace (elsewhere f kn) = accept_workspace kn"
  by (intro ext) (unfold accept_workspace_def elsewhere_simps, rule refl)

lemma elsewhere_wait_workspace: "wait_workspace (elsewhere f kn) = wait_workspace kn"
  by (intro ext) (unfold wait_workspace_def elsewhere_accept_workspace elsewhere_simps, rule refl)

lemma elsewhere_follow_up: "follow_up (elsewhere f kn) = follow_up kn"
  by (intro ext) (unfold follow_up_def elsewhere_wait_workspace elsewhere_simps, rule refl)

lemma elsewhere_invoke_target: "invoke_target (elsewhere f kn) = invoke_target kn"
  by (intro ext) (unfold invoke_target_def elsewhere_keep_observation elsewhere_simps, rule refl)

lemma elsewhere_invoke_local: "invoke_local (elsewhere f kn) = invoke_local kn"
  by (intro ext) (unfold invoke_local_def capability_request_def elsewhere_execute_capability elsewhere_adopt_admission elsewhere_observe_result elsewhere_follow_up elsewhere_simps, rule refl)

lemma elsewhere_invoke_capability: "invoke_capability (elsewhere f kn) = invoke_capability kn"
  by (intro ext) (unfold invoke_capability_def elsewhere_admit_capability elsewhere_invoke_target elsewhere_invoke_local elsewhere_simps, rule refl)

lemma elsewhere_launch_child: "launch_child (elsewhere f kn) = launch_child kn"
  by (intro ext) (unfold launch_child_def elsewhere_simps, rule refl)

lemma elsewhere_call_child: "call_child (elsewhere f kn) = call_child kn"
  by (intro ext) (unfold call_child_def elsewhere_simps, rule refl)

lemma elsewhere_keep_child: "keep_child (elsewhere f kn) = keep_child kn"
  by (intro ext) (unfold keep_child_def elsewhere_simps, rule refl)

lemma elsewhere_join_child: "join_child (elsewhere f kn) = join_child kn"
  by (intro ext) (unfold join_child_def elsewhere_call_child elsewhere_keep_child elsewhere_simps, rule refl)

lemma elsewhere_spawn_tasks: "spawn_tasks (elsewhere f kn) = spawn_tasks kn"
  by (intro ext) (unfold spawn_tasks_def elsewhere_launch_child elsewhere_join_child elsewhere_simps, rule refl)

lemma elsewhere_act_on: "act_on (elsewhere f kn) = act_on kn"
  by (intro ext) (unfold act_on_def elsewhere_invoke_capability elsewhere_spawn_tasks elsewhere_simps, rule refl)

lemma elsewhere_respond: "respond (elsewhere f kn) = respond kn"
  by (intro ext) (unfold respond_def elsewhere_deny_turn elsewhere_act_on elsewhere_simps, rule refl)

lemma elsewhere_prepare_handoff: "prepare_handoff (elsewhere f kn) = prepare_handoff kn"
  by (intro ext) (unfold prepare_handoff_def elsewhere_reconstruct_owned elsewhere_simps, rule refl)

lemma elsewhere_finish_turn: "finish_turn (elsewhere f kn) = finish_turn kn"
  by (intro ext) (unfold finish_turn_def elsewhere_prepare_handoff elsewhere_simps, rule refl)

lemma elsewhere_compile_initial: "compile_initial (elsewhere f kn) = compile_initial kn"
  by (intro ext) (unfold compile_initial_def elsewhere_simps, rule refl)

lemma elsewhere_open_context: "open_context (elsewhere f kn) = open_context kn"
  by (intro ext) (unfold open_context_def elsewhere_compile_initial elsewhere_simps, rule refl)

lemma elsewhere_run_routing: "run_routing (elsewhere f kn) = run_routing kn"
  by (intro ext) (unfold run_routing_def elsewhere_simps, rule refl)

lemma elsewhere_finish_run: "finish_run (elsewhere f kn) = finish_run kn"
  by (intro ext) (unfold finish_run_def elsewhere_run_routing elsewhere_simps, rule refl)

lemmas elsewhere_turn = elsewhere_escalate elsewhere_admit_continuation elsewhere_check_fingerprint elsewhere_prepare_turn elsewhere_run_gate elsewhere_respond elsewhere_finish_turn elsewhere_open_context elsewhere_finish_run

definition agrees :: "('p, 'a) act \<Rightarrow> ('p, 'a) act \<Rightarrow> bool" where
  "agrees m m' \<longleftrightarrow> (\<forall>r. \<not> escalated (snd (m r)) \<longrightarrow> m' r = m r)"

lemma agrees_refl: "agrees m m"
  by (simp add: agrees_def)

lemma agrees_bind:
  assumes m: "agrees m m'" and f: "\<And>x. agrees (f x) (f' x)" and s: "\<And>x. keeps (steady kn) (f x)"
  shows "agrees (bindA m f) (bindA m' f')"
  unfolding agrees_def
proof (intro allI impI)
  fix r assume n: "\<not> escalated (snd (bindA m f r))"
  obtain x r1 where x: "m r = (x, r1)" by force
  show "bindA m' f' r = bindA m f r"
  proof (cases x)
    case (Inl e)
    with n x m have "m' r = m r" by (simp add: agrees_def bindA_def)
    with x Inl show ?thesis by (simp add: bindA_def)
  next
    case (Inr y)
    with n x have n1: "\<not> escalated (snd (f y r1))" by (simp add: bindA_def)
    from s have "steady kn r1 (snd (f y r1))" by (simp add: keeps_def)
    with n1 have "\<not> escalated r1" by (auto simp: steady_def)
    with m x have "m' r = m r" by (simp add: agrees_def)
    with n1 f [of y] x Inr show ?thesis by (simp add: bindA_def agrees_def)
  qed
qed

lemma agrees_if: "(b \<Longrightarrow> agrees m m') \<Longrightarrow> (\<not> b \<Longrightarrow> agrees n n') \<Longrightarrow> agrees (if b then m else n) (if b then m' else n')"
  by simp

text \<open>The one place where a model is asked.\<close>

lemma adapter_elsewhere: "\<not> escalated r \<Longrightarrow> adapter (elsewhere f kn) r = adapter kn r"
  by (auto simp: adapter_def escalated_def split: option.splits)

lemma agrees_decide: "agrees (stepA de (\<lambda>r. (decide kn packet r, r))) (stepA de (\<lambda>r. (decide (elsewhere f kn) packet r, r)))"
  unfolding agrees_def
proof (intro allI impI)
  fix r assume n: "\<not> escalated (snd (stepA de (\<lambda>r. (decide kn packet r, r)) r))"
  have pure: "snd (attempts k rt (\<lambda>r. (g r, r)) r) = r" for k rt g and r :: "'p run"
    by (induction k) (auto split: sum.splits)
  have same: "attempts k rt (\<lambda>r. (g r, r)) r = attempts k rt (\<lambda>r. (h r, r)) r" if "g r = h r" for k rt g h and r :: "'p run"
    using that by (induction k) (auto split: sum.splits)
  from n have "\<not> escalated r" by (simp add: stepA_def pure)
  then have "decide (elsewhere f kn) packet r = decide kn packet r"
    by (simp add: decide_def elsewhere_guard_delivery adapter_elsewhere)
  from same [of "\<lambda>r. decide (elsewhere f kn) packet r" r "\<lambda>r. decide kn packet r", OF this] show "stepA de (\<lambda>r. (decide (elsewhere f kn) packet r, r)) r = stepA de (\<lambda>r. (decide kn packet r, r)) r"
    by (simp add: stepA_def)
qed

lemma agrees_obtain: "agrees (obtain_decision kn i packet) (obtain_decision (elsewhere f kn) i packet)"
proof -
  have k: "keeps (steady kn) (seqA (stateA (\<lambda>s. s\<lparr>ts_decision_id := Some (kn_task kn @ ''/'' @ show_nat i)\<rparr>))
     (bindA (retain (kn_de kn) decision) (\<lambda>ref. seqA (stateA (\<lambda>s. s\<lparr>ts_decision_ref := Some ref\<rparr>)) (seqA publish (retA decision)))))" for decision
    by (intro st_calm ca_intros ca_stateA) simp_all
  have c: "agrees (case kn_initial kn of
        Some action \<Rightarrow> if i = 1 then getA (\<lambda>r. initial_decision kn i action (rn_state r)) else stepA (kn_de kn) (\<lambda>r. (decide kn packet r, r))
      | None \<Rightarrow> stepA (kn_de kn) (\<lambda>r. (decide kn packet r, r)))
     (case kn_initial kn of
        Some action \<Rightarrow> if i = 1 then getA (\<lambda>r. initial_decision kn i action (rn_state r)) else stepA (kn_de kn) (\<lambda>r. (decide (elsewhere f kn) packet r, r))
      | None \<Rightarrow> stepA (kn_de kn) (\<lambda>r. (decide (elsewhere f kn) packet r, r)))"
    by (auto split: option.splits intro: agrees_refl agrees_decide)
  show ?thesis unfolding obtain_decision_def elsewhere_simps elsewhere_initial_decision
    by (rule agrees_bind [OF c agrees_refl k])
qed

lemma agrees_cognitive: "agrees (cognitive_step kn ev i) (cognitive_step (elsewhere f kn) ev i)"
proof -
  have s: "keeps (steady kn) (bindA (run_gate kn d) (\<lambda>v. bindA (respond kn ev i d v) (finish_turn kn i d v)))" for d
    by (intro st_intros st_respond st_finish_turn st_calm [OF ca_run_gate])
  have p: "keeps (steady kn) (bindA (obtain_decision kn i packet) (\<lambda>d. bindA (run_gate kn d) (\<lambda>v. bindA (respond kn ev i d v) (finish_turn kn i d v))))" for packet
    by (intro st_intros s st_calm [OF ca_obtain_decision])
  show ?thesis unfolding cognitive_step_def elsewhere_turn
    by (intro agrees_bind [where kn = kn] agrees_refl agrees_obtain st_intros s p st_calm [OF ca_admit_continuation]
        st_calm [OF ca_check_fingerprint] st_calm [OF ca_prepare_turn])
qed

lemma st_unless: "keeps (steady kn) m \<Longrightarrow> keeps (steady kn) (unless_completed m)"
  unfolding unless_completed_def by (auto intro!: st_intros)

lemma agrees_unless: "agrees m m' \<Longrightarrow> keeps (steady kn) m \<Longrightarrow> agrees (unless_completed m) (unless_completed m')"
  unfolding unless_completed_def by (intro agrees_bind [where kn = kn] agrees_refl agrees_if) (auto intro!: st_intros)

lemma agrees_turn: "agrees (turn kn ev i) (turn (elsewhere f kn) ev i)"
  unfolding turn_def elsewhere_simps
  by (intro agrees_unless [where kn = kn] agrees_bind [where kn = kn] agrees_refl agrees_cognitive st_unless st_intros st_cognitive
      st_admit_amendments st_reconcile_boundary st_calm [OF ca_stateA]) simp

lemma agrees_turns: "agrees (turns kn evs is) (turns (elsewhere f kn) evs is)"
proof (induction "is")
  case (Cons i "is")
  show ?case unfolding turns.simps
    by (intro agrees_bind [where kn = kn] agrees_turn agrees_if agrees_refl Cons.IH) (auto intro!: st_intros st_turns)
qed (simp add: agrees_refl)

lemma agrees_run_task: "agrees (run_task kn evs) (run_task (elsewhere f kn) evs)"
proof -
  have b: "agrees (run_body kn evs) (run_body (elsewhere f kn) evs)"
    unfolding run_body_def elsewhere_simps elsewhere_turn
    by (intro agrees_bind [where kn = kn] agrees_refl agrees_turns st_intros st_turns st_calm [OF ca_open_context])
  have "agrees (catch_stop kn (run_body kn evs)) (catch_stop (elsewhere f kn) (run_body (elsewhere f kn) evs))"
    unfolding agrees_def
  proof (intro allI impI)
    fix r assume n: "\<not> escalated (snd (catch_stop kn (run_body kn evs) r))"
    obtain x r1 where x: "run_body kn evs r = (x, r1)" by force
    have "steady kn r1 (snd (catch_stop kn (run_body kn evs) r))"
    proof (cases x)
      case (Inl e)
      with x keepsD [OF st_calm [OF ca_stop_run] prod.collapse [symmetric]] show ?thesis by (simp add: catch_stop_def)
    qed (simp add: catch_stop_def x st.order_refl)
    with n have "\<not> escalated r1" by (auto simp: steady_def)
    with b x have "run_body (elsewhere f kn) evs r = (x, r1)" by (simp add: agrees_def)
    with x show "catch_stop (elsewhere f kn) (run_body (elsewhere f kn) evs) r = catch_stop kn (run_body kn evs) r"
      by (cases x) (simp_all add: catch_stop_def)
  qed
  then show ?thesis unfolding run_task_def elsewhere_turn
    by (intro agrees_bind [where kn = kn] agrees_refl st_calm [OF ca_finish_run])
qed

subsection \<open>A completed Task can show why\<close>

definition hoare :: "('p run \<Rightarrow> bool) \<Rightarrow> ('p, 'a) act \<Rightarrow> ('a \<Rightarrow> 'p run \<Rightarrow> bool) \<Rightarrow> bool" where
  "hoare P m Q \<longleftrightarrow> (\<forall>r x r'. P r \<longrightarrow> m r = (Inr x, r') \<longrightarrow> Q x r')"

abbreviation going :: "'p run \<Rightarrow> bool" where
  "going r \<equiv> \<not> is_completed r"

text \<open>
  The state of the legal evaluation is the Task's state but for the fields that are written after it, and its
  document is the retained completion artifact.
\<close>

definition lasting :: "task_state \<Rightarrow> task_state" where
  "lasting s = s\<lparr>ts_lifecycle := RUNNING, ts_completion_ref := None, ts_observation_ref := None, ts_revision := 0, ts_result_ref := None\<rparr>"

definition cited :: "string \<Rightarrow> 'p run \<Rightarrow> bool" where
  "cited t r \<longleftrightarrow> (\<exists>s store ev why ref. lasting s = lasting (rn_state r) \<and> reads_kept store (rn_store r)
     \<and> evaluate_contract (rn_contract r) (ts_contract_ref s) s store = Inr (ev, True, why)
     \<and> ts_completion_ref (rn_state r) = Some ref \<and> read (rn_store r) t (JStr ref) = Inr (encode (evaluation_json (ev, True, why))))"

definition honest :: "string \<Rightarrow> 'p run \<Rightarrow> bool" where
  "honest t r \<longleftrightarrow> (is_completed r \<longrightarrow> cited t r)"

lemma hoareI: "(\<And>r x r'. P r \<Longrightarrow> m r = (Inr x, r') \<Longrightarrow> Q x r') \<Longrightarrow> hoare P m Q"
  by (auto simp: hoare_def)

lemma hoareD: "hoare P m Q \<Longrightarrow> P r \<Longrightarrow> m r = (Inr x, r') \<Longrightarrow> Q x r'"
  by (auto simp: hoare_def)

lemma hoare_bind: "hoare P m R \<Longrightarrow> (\<And>x. hoare (R x) (f x) Q) \<Longrightarrow> hoare P (bindA m f) Q"
  unfolding hoare_def bindA_Inr by blast

lemma hoare_post: "hoare P m R \<Longrightarrow> (\<And>x r. R x r \<Longrightarrow> Q x r) \<Longrightarrow> hoare P m Q"
  unfolding hoare_def by blast

lemma hoare_pre: "hoare R m Q \<Longrightarrow> (\<And>r. P r \<Longrightarrow> R r) \<Longrightarrow> hoare P m Q"
  unfolding hoare_def by blast

lemma hoare_retA: "hoare (P x) (retA x) P"
  by (simp add: hoare_def retA_def)

lemma hoare_throwA: "hoare P (throwA e) Q"
  by (simp add: hoare_def throwA_def)

lemma hoare_get: "(\<And>x. hoare (\<lambda>r. P r \<and> x = f r) (g x) Q) \<Longrightarrow> hoare P (bindA (getA f) g) Q"
  by (auto simp: hoare_def bindA_def getA_def)

lemma hoare_getA: "(\<And>x. hoare P (g x) Q) \<Longrightarrow> hoare P (bindA (getA f) g) Q"
  by (auto simp: hoare_def bindA_def getA_def)

lemma hoare_ret: "hoare P (retA x) (\<lambda>_. P)"
  by (simp add: hoare_def retA_def)

lemma hoare_resA: "hoare P (resA m) (\<lambda>_. P)"
  by (auto simp: hoare_def resA_def)

lemma hoare_calm: "keeps calm m \<Longrightarrow> hoare going m (\<lambda>_. going)"
  using keepsD [of calm m] by (fastforce simp: hoare_def calm_def completes_def is_completed_def)

lemma going_honest: "going r \<Longrightarrow> honest t r"
  by (simp add: honest_def)

lemma hoare_quiet: "keeps calm m \<Longrightarrow> hoare going m (\<lambda>_. honest t)"
  by (erule hoare_post [OF hoare_calm]) (rule going_honest)

lemma settle_honest: "hoare going (settle_task de) (\<lambda>_. honest (de_task de))"
proof (rule hoareI)
  fix r x r' assume n: "going r" and x: "settle_task de r = (Inr x, r')"
  obtain u r1 where u: "review_due de r = (Inr u, r1)" and f: "bindA (getA rn_state) (\<lambda>s. bindA (getA rn_contract) (\<lambda>contract.
      bindA (stepA de (\<lambda>r. (evaluate_contract contract (ts_contract_ref s) s (rn_store r), r))) (finish_settle de))) r1 = (Inr x, r')"
    using x unfolding settle_task_def bindA_Inr by blast
  from keepsD [OF nc_review_due u] n have n1: "going r1" by (auto simp: completes_def is_completed_def)
  from f obtain e r2 where e: "stepA de (\<lambda>r. (evaluate_contract (rn_contract r1) (ts_contract_ref (rn_state r1)) (rn_state r1) (rn_store r), r)) r1 = (Inr e, r2)"
    and g: "finish_settle de e r2 = (Inr x, r')" by (auto simp: bindA_Inr getA_def)
  from stepA_pure [OF e] have r2: "r2 = r1" and ev: "evaluate_contract (rn_contract r1) (ts_contract_ref (rn_state r1)) (rn_state r1) (rn_store r1) = Inr e" by auto
  show "honest (de_task de) r'"
  proof (cases "fst (snd e)")
    case False
    from finish_settle_illegal [OF this, of de] g r2 n1 show ?thesis
      by (auto dest!: keepsD simp: completes_def is_completed_def honest_def)
  next
    case True
    then obtain v why where ee: "e = (v, True, why)" by (cases e) auto
    let ?r = "r1\<lparr>rn_last := Some (dget (evaluation_json e) ''payload'')\<rparr>"
    from g obtain ref r3 where ref: "retain de (evaluation_json e) ?r = (Inr ref, r3)"
      and r': "rn_store r' = rn_store r3" "rn_contract r' = rn_contract r3"
        "rn_state r' = (rn_state r3)\<lparr>ts_completion_ref := Some ref, ts_lifecycle := COMPLETED\<rparr>"
      unfolding finish_settle_def Let_def ee r2
      by (auto simp: bindA_Inr modA_def stateA_def publish_def retA_def throwA_def split: if_splits)
    from stepA_store [OF ref [unfolded retain_def]] obtain st st' where
      st: "put_json st (de_task de) (evaluation_json e) = (Inr ref, st')" and r3: "r3 = ?r\<lparr>rn_store := st'\<rparr>" by blast
    from keepsD [OF grows_retain ref] have k: "reads_kept (rn_store r1) st'" by (simp add: grows_def r3)
    have "lasting (rn_state r1) = lasting (rn_state r')"
      unfolding lasting_def r' r3 by simp
    moreover have "read st' (de_task de) (JStr ref) = Inr (encode (evaluation_json e))"
      using st unfolding put_json_def by (rule store.put_read)
    ultimately have "cited (de_task de) r'"
      unfolding cited_def using k ev r' by (intro exI [of _ "rn_state r1"] exI [of _ "rn_store r1"] exI [of _ v] exI [of _ why] exI [of _ ref]) (auto simp: ee r3)
    then show ?thesis by (simp add: honest_def)
  qed
qed

subsection \<open>A human wait cannot complete\<close>

definition waiting_human :: "'p run \<Rightarrow> bool" where
  "waiting_human r \<longleftrightarrow> going r \<and> awaits_human (rn_state r)"

definition same_wait :: "'p run \<Rightarrow> 'p run \<Rightarrow> bool" where
  "same_wait r r' \<longleftrightarrow> ts_wait (rn_state r') = ts_wait (rn_state r)"

interpretation sw: run_order same_wait
  by unfold_locales (auto simp: same_wait_def)

lemma sw_store: "keeps same_wait (storeA f)"
  by (auto simp: keeps_def storeA_def same_wait_def split: prod.splits)

lemma sw_retain: "keeps same_wait (retain de v)"
  unfolding retain_def by (intro sw.keeps_stepA sw_store)

lemma sw_modA: "(\<And>r. ts_wait (rn_state (g r)) = ts_wait (rn_state r)) \<Longrightarrow> keeps same_wait (modA g)"
  and sw_stateA: "(\<And>s. ts_wait (h s) = ts_wait s) \<Longrightarrow> keeps same_wait (stateA h)"
  and sw_publish: "keeps same_wait publish"
  by (auto simp: keeps_def modA_def stateA_def publish_def same_wait_def)

lemmas sw_basic = sw.keeps_basic sw_store sw_retain sw_modA sw_stateA sw_publish

lemma sw_settle: "keeps same_wait (settle_task de)"
proof -
  have "keeps same_wait (review_one de pre c)" for pre c
    unfolding review_one_def Let_def by (intro sw_basic) simp
  then have "keeps same_wait (review_due de)" unfolding review_due_def by (auto intro!: sw.keeps_basic)
  then show ?thesis unfolding settle_task_def finish_settle_def Let_def by (auto intro!: sw_basic)
qed

lemma sw_run_amendment: "keeps same_wait (run_amendment de v)"
  unfolding run_amendment_def by (intro sw_basic) (auto intro!: sw_basic split: amended_result.splits)

lemma legal_not_waiting: "evaluate_contract contract cref s store = Inr (ev, True, why) \<Longrightarrow> \<not> awaits_human s"
  by (auto simp: evaluate_contract_def bindR_eq_Inr Let_def legality_def wait_blockers_Nil [symmetric])

lemma settle_waiting: "hoare waiting_human (settle_task de) (\<lambda>_. waiting_human)"
proof (rule hoareI)
  fix r x r' assume w: "waiting_human r" and x: "settle_task de r = (Inr x, r')"
  have "\<not> completes r (snd (settle_task de r))"
    using settle_completes [of r de] legal_not_waiting w by (fastforce simp: waiting_human_def awaits_human_def)
  with x w keepsD [OF sw_settle x] show "waiting_human r'"
    by (auto simp: waiting_human_def completes_def is_completed_def same_wait_def awaits_human_def)
qed

lemma run_amendment_waiting: "hoare waiting_human (run_amendment de v) (\<lambda>_. waiting_human)"
  using keepsD [OF sw_run_amendment] keepsD [OF nc_run_amendment]
  by (fastforce simp: hoare_def waiting_human_def completes_def is_completed_def same_wait_def awaits_human_def)

lemma hoare_if: "(b \<Longrightarrow> hoare P m Q) \<Longrightarrow> (\<not> b \<Longrightarrow> hoare P n Q) \<Longrightarrow> hoare P (if b then m else n) Q"
  by simp

lemma await_text_going: "hoare going (await_events de action None es) (\<lambda>_. going)"
proof (induction es)
  case Nil
  show ?case by (simp add: hoare_throwA)
next
  case (Cons e es)
  show ?case
  proof (cases e)
    case (Received v)
    then show ?thesis by (simp add: hoare_calm [OF ca_accept_answer])
  next
    case (Amendment v)
    have "hoare going (bindA (getA closed_revision) (\<lambda>_. await_events de action None es)) (\<lambda>_. going)"
      by (rule hoare_get) (rule hoare_pre [OF Cons.IH], simp)
    with Amendment show ?thesis by simp
  qed (simp add: hoare_throwA)
qed

lemma waiting_going: "waiting_human r \<Longrightarrow> going r"
  by (simp add: waiting_human_def)

lemma withdraw_honest: "hoare going (withdraw de action) (\<lambda>_. honest (de_task de))"
  unfolding withdraw_def Let_def
  by (intro hoare_getA hoare_bind [OF hoare_calm [OF ca_resume]] hoare_bind [OF settle_honest] hoare_ret)

lemma await_human_honest: "hoare waiting_human (await_events de action (Some q) es) (\<lambda>_. honest (de_task de))"
proof (induction es)
  case Nil
  show ?case by (simp add: hoare_throwA)
next
  case (Cons e es)
  show ?case
  proof (cases e)
    case (Received v)
    then show ?thesis using hoare_pre [OF hoare_quiet [OF ca_accept_answer] waiting_going] by simp
  next
    case (Amendment v)
    have w: "hoare waiting_human (withdraw de action) (\<lambda>_. honest (de_task de))"
      by (rule hoare_pre [OF withdraw_honest waiting_going])
    show ?thesis unfolding Amendment await_events.simps option.distinct simp_thms
      by (intro hoare_getA hoare_if Cons.IH w hoare_bind [OF run_amendment_waiting] hoare_bind [OF hoare_resA] hoare_bind [OF settle_waiting])
  qed (simp add: hoare_throwA)
qed

lemma hoare_quiet_bind: "keeps calm m \<Longrightarrow> (\<And>x. hoare going (f x) Q) \<Longrightarrow> hoare going (bindA m f) Q"
  by (rule hoare_bind [OF hoare_calm])

lemma await_input_honest: "hoare going (await_input de action es) (\<lambda>_. honest (de_task de))"
proof (cases "dget action ''input_type'' = JStr ''human_response''")
  case True
  then have h: "hoare going (seqA (set_wait action (Some ref)) (seqA suspend (await_events de action (Some q) es))) (\<lambda>_. honest (de_task de))" for ref q
  proof (intro hoareI)
    fix ref q r x r' assume n: "going r" and x: "seqA (set_wait action (Some ref)) (seqA suspend (await_events de action (Some q) es)) r = (Inr x, r')"
    let ?r = "snd (seqA (set_wait action (Some ref)) suspend r)"
    have "waiting_human ?r" using True
      by (simp add: bindA_def set_wait_def suspend_def stateA_def modA_def publish_def waiting_human_def awaits_human_def is_completed_def)
    moreover from x have "await_events de action (Some q) es ?r = (Inr x, r')"
      by (simp add: bindA_def set_wait_def suspend_def stateA_def modA_def publish_def)
    ultimately show "honest (de_task de) r'" by (rule hoareD [OF await_human_honest])
  qed
  from True show ?thesis unfolding await_input_def
    by simp (rule hoare_quiet_bind [OF ca_set_wait], rule hoare_getA, rule hoare_bind [OF hoare_resA], rule hoare_quiet_bind [OF ca_retain], rule h)
next
  case False
  have "hoare going (await_events de action None es) (\<lambda>_. honest (de_task de))"
    by (rule hoare_post [OF await_text_going]) (rule going_honest)
  with False show ?thesis unfolding await_input_def
    by (auto intro!: hoare_quiet_bind ca_set_wait ca_suspend)
qed

subsection \<open>Every path of the loop\<close>

text \<open>What follows an evaluation writes only fields the evaluation does not depend on.\<close>

definition late :: "'p run \<Rightarrow> 'p run \<Rightarrow> bool" where
  "late r r' \<longleftrightarrow> grows r r' \<and> rn_contract r' = rn_contract r \<and> ts_lifecycle (rn_state r') = ts_lifecycle (rn_state r)
     \<and> ts_completion_ref (rn_state r') = ts_completion_ref (rn_state r) \<and> lasting (rn_state r') = lasting (rn_state r)"

interpretation la: run_order late
  by unfold_locales (auto simp: late_def grows_def reads_kept_def)

lemma late_honest: "late r r' \<Longrightarrow> honest t r \<Longrightarrow> honest t r'"
proof -
  assume l: "late r r'" and h: "honest t r"
  have "cited t r'" if "cited t r"
    using that l unfolding late_def cited_def grows_def reads_kept_def by metis
  with l h show ?thesis by (auto simp: late_def honest_def is_completed_def)
qed

lemma hoare_late: "keeps late m \<Longrightarrow> hoare (honest t) m (\<lambda>_. honest t)"
  by (auto simp: hoare_def dest: keepsD intro: late_honest)

lemma la_storeA: "(\<And>st x st'. f st = (x, st') \<Longrightarrow> reads_kept st st') \<Longrightarrow> keeps late (storeA f)"
  by (auto simp: keeps_def storeA_def late_def grows_def split: prod.splits)

lemma la_retain: "keeps late (retain de v)"
  unfolding retain_def by (intro la.keeps_stepA la_storeA) (rule reads_kept_put_json)

lemma la_publish: "keeps late publish" and la_routing: "keeps late (modA (\<lambda>r. r\<lparr>rn_routing := u r\<rparr>))"
  by (auto simp: keeps_def publish_def modA_def late_def grows_def)

lemma la_observed: "keeps late (stateA (\<lambda>s. s\<lparr>ts_observation_ref := f s, ts_revision := g s\<rparr>))"
  and la_result: "keeps late (stateA (\<lambda>s. s\<lparr>ts_result_ref := h s\<rparr>))"
  by (simp_all add: keeps_def stateA_def modA_def late_def grows_def lasting_def)

lemmas la_intros = la.keeps_basic la_retain la_publish la_routing la_observed la_result

text \<open>After an honest act: go on while the Task runs, stop when it is completed.\<close>

lemma hoare_split:
  assumes "hoare (\<lambda>r. is_completed r \<and> honest t r) (f True) Q" "hoare going (f False) Q"
  shows "hoare (honest t) (bindA (getA is_completed) f) Q"
proof (rule hoareI)
  fix r x r' assume h: "honest t r" and x: "bindA (getA is_completed) f r = (Inr x, r')"
  then have "f (is_completed r) r = (Inr x, r')" by (simp add: bindA_def getA_def)
  then show "Q x r'" using h hoareD [OF assms(1), of r x r'] hoareD [OF assms(2), of r x r'] by (cases "is_completed r") auto
qed

lemma settled_honest: "hoare going (settled de) (\<lambda>_. honest (de_task de))"
  unfolding settled_def by (intro hoare_bind [OF settle_honest] hoare_ret)

lemma run_amendment_going: "hoare going (run_amendment de v) (\<lambda>_. going)"
proof (rule hoareI)
  fix r x r' assume "going r" "run_amendment de v r = (Inr x, r')"
  with keepsD [OF nc_run_amendment this(2)] show "going r'" by (simp add: completes_def is_completed_def)
qed

lemma settle_unless_honest: "hoare going (if b then seqA (settle_task de) (retA ()) else retA ()) (\<lambda>_. honest (de_task de))"
proof (rule hoare_if)
  show "hoare going (seqA (settle_task de) (retA ())) (\<lambda>_. honest (de_task de))"
    by (rule hoare_bind [OF settle_honest]) (rule hoare_ret)
  show "hoare going (retA ()) (\<lambda>_. honest (de_task de))"
    by (rule hoare_post [OF hoare_ret]) (rule going_honest)
qed

lemma amendable_going: "amendable r \<Longrightarrow> going r"
  by (simp add: amendable_def is_completed_def)

lemma admit_amendments_honest: "hoare (honest (de_task de)) (admit_amendments de vs) (\<lambda>_. honest (de_task de))"
proof (induction vs)
  case Nil
  show ?case unfolding admit_amendments.simps by (rule hoare_ret)
next
  case (Cons v vs)
  let ?go = "seqA (run_amendment de v) (bindA (getA (\<lambda>r. rn_rejected r \<noteq> Some (jint (dget (rn_contract r) ''revision'') + 1))) (\<lambda>ok.
      seqA (if ok then seqA (settle_task de) (retA ()) else retA ()) (admit_amendments de vs)))"
  have go: "hoare going ?go (\<lambda>_. honest (de_task de))"
    by (rule hoare_bind [OF run_amendment_going], rule hoare_getA, rule hoare_bind [OF settle_unless_honest], rule Cons.IH)
  have "hoare (\<lambda>r. honest (de_task de) r \<and> b = amendable r) (if \<not> b then retA () else ?go) (\<lambda>_. honest (de_task de))" for b
  proof (rule hoare_if)
    show "hoare (\<lambda>r. honest (de_task de) r \<and> b = amendable r) (retA ()) (\<lambda>_. honest (de_task de))"
      by (rule hoare_pre [OF hoare_ret]) blast
    show "hoare (\<lambda>r. honest (de_task de) r \<and> b = amendable r) ?go (\<lambda>_. honest (de_task de))" if "\<not> \<not> b"
      by (rule hoare_pre [OF go]) (use that amendable_going in blast)
  qed
  then show ?case unfolding admit_amendments.simps by (rule hoare_get)
qed

lemma going_then: "keeps calm m \<Longrightarrow> hoare going (seqA m (retA x)) (\<lambda>_. honest t)"
  by (rule hoare_quiet_bind, assumption) (rule hoare_post [OF hoare_ret], rule going_honest)

lemma settled_then: "hoare going (seqA (settled de) (retA x)) (\<lambda>_. honest (de_task de))"
  by (rule hoare_bind [OF settled_honest]) (rule hoare_ret)

lemma follow_up_honest: "hoare (honest (kn_task kn)) (follow_up kn ev i action observation) (\<lambda>_. honest (kn_task kn))"
proof -
  have stay: "hoare going (retA observation) (\<lambda>_. honest (kn_task kn))"
    by (rule hoare_post [OF hoare_ret]) (rule going_honest)
  have "hoare going (if \<not> succeeded observation then retA observation
     else if sget action ''capability'' = ''workspace.read'' then wait_workspace kn ev i action observation
     else if sget action ''capability'' = ''human.request'' then await_input (kn_de kn) (human_wait action) (ev_waited ev)
     else retA observation) (\<lambda>_. honest (kn_task kn))"
    by (intro hoare_if stay hoare_quiet [OF ca_wait_workspace] await_input_honest)
  then show ?thesis unfolding follow_up_def
    by (intro hoare_split) (auto intro: hoare_post [OF hoare_ret])
qed

lemma invoke_honest: "hoare going (invoke_capability kn ev i action) (\<lambda>_. honest (kn_task kn))"
proof -
  have t: "hoare going (invoke_target kn ev i action) (\<lambda>_. honest (kn_task kn))"
    unfolding invoke_target_def
    by (rule hoare_quiet_bind [OF ca_perform_target], rule hoare_quiet_bind [OF ca_count_tool], rule hoare_quiet_bind [OF ca_keep_observation], rule settled_then)
  have "hoare going (case x of (observation, admitted) \<Rightarrow> seqA (adopt_admission kn action observation admitted)
     (seqA (observe_result kn action observation) (seqA (settled (kn_de kn)) (follow_up kn ev i action observation)))) (\<lambda>_. honest (kn_task kn))" for x
    by (cases x, simp only: prod.case) (rule hoare_quiet_bind [OF ca_adopt_admission], rule hoare_quiet_bind [OF ca_observe_result],
        rule hoare_bind [OF settled_honest], rule follow_up_honest)
  then have l: "hoare going (invoke_local kn ev i action) (\<lambda>_. honest (kn_task kn))"
    unfolding invoke_local_def by (intro hoare_getA hoare_quiet_bind [OF ca.keeps_stepA [OF ca_execute_capability]])
  show ?thesis unfolding invoke_capability_def
    by (rule hoare_quiet_bind [OF ca_admit_capability], rule hoare_if [OF t l])
qed

lemma respond_honest: "hoare going (respond kn ev i decision verdict) (\<lambda>_. honest (kn_task kn))"
  unfolding respond_def act_on_def
  by (intro hoare_if invoke_honest await_input_honest settle_honest hoare_quiet [OF ca_deny_turn] hoare_quiet [OF ca_hand_off] hoare_quiet [OF ca_spawn_tasks])

text \<open>The flag a stage returns is whether the Task is completed.\<close>

definition told :: "string \<Rightarrow> bool \<Rightarrow> 'p run \<Rightarrow> bool" where
  "told t b r \<longleftrightarrow> honest t r \<and> b = is_completed r"

lemma hoare_told: "hoare (honest t) (getA is_completed) (told t)"
  by (auto simp: hoare_def getA_def told_def)

lemma finish_turn_told: "hoare (honest (kn_task kn)) (finish_turn kn i decision verdict observation) (told (kn_task kn))"
proof -
  let ?h = "honest (kn_task kn)"
  let ?tail = "\<lambda>d2. seqA (if \<not> d2 \<and> is_allowed verdict \<and> dget (dget (dget decision ''payload'') ''next_action'') ''type'' = JStr ''HANDOFF''
     then prepare_handoff kn i else retA ()) (seqA publish (getA is_completed))"
  have p: "hoare ?h (seqA publish (getA is_completed)) (told (kn_task kn))"
    by (rule hoare_bind [OF hoare_late [OF la_publish] hoare_told])
  have h: "hoare going (if b then prepare_handoff kn i else retA ()) (\<lambda>_. ?h)" for b
    by (rule hoare_if [OF hoare_quiet [OF ca_prepare_handoff]]) (rule hoare_post [OF hoare_ret], rule going_honest)
  have "hoare ?h (bindA (getA is_completed) ?tail) (told (kn_task kn))"
  proof (rule hoare_split)
    show "hoare (\<lambda>r. is_completed r \<and> ?h r) (?tail True) (told (kn_task kn))"
      by simp (rule hoare_bind [OF hoare_ret], rule hoare_pre [OF p], simp)
    show "hoare going (?tail False) (told (kn_task kn))"
      by (rule hoare_bind [OF h p])
  qed
  then have m: "hoare ?h (seqA (if d1 then retA () else settled (kn_de kn)) (bindA (getA is_completed) ?tail)) (told (kn_task kn))" if d1 for d1
    using that by simp (rule hoare_bind [OF hoare_ret])
  have n: "hoare going (seqA (if d1 then retA () else settled (kn_de kn)) (bindA (getA is_completed) ?tail)) (told (kn_task kn))" if "\<not> d1" for d1
    using that \<open>hoare ?h (bindA (getA is_completed) ?tail) (told (kn_task kn))\<close> by simp (rule hoare_bind [OF settled_honest])
  have "hoare ?h (bindA (getA is_completed) (\<lambda>d1. seqA (if d1 then retA () else settled (kn_de kn)) (bindA (getA is_completed) ?tail))) (told (kn_task kn))"
    by (rule hoare_split, rule hoare_pre [OF m], simp, simp, rule n, simp)
  then show ?thesis unfolding finish_turn_def
    by (intro hoare_bind [OF hoare_late [OF la_retain]] hoare_bind [OF hoare_late [OF la_observed]] hoare_bind [OF hoare_late [OF la_publish]])
qed

lemma escalate_going: "hoare going (escalate kn i) (\<lambda>_. going)"
  by (rule hoareI)
    (auto simp: escalate_def bindA_def getA_def retA_def modA_def publish_def Let_def is_completed_def split: option.splits if_splits)

lemma cognitive_step_told: "hoare going (cognitive_step kn ev i) (told (kn_task kn))"
  unfolding cognitive_step_def
  by (rule hoare_bind [OF escalate_going], rule hoare_quiet_bind [OF ca_admit_continuation], rule hoare_quiet_bind [OF ca_check_fingerprint],
      rule hoare_quiet_bind [OF ca_prepare_turn], rule hoare_quiet_bind [OF ca_obtain_decision], rule hoare_quiet_bind [OF ca_run_gate],
      rule hoare_bind [OF respond_honest], rule finish_turn_told)

lemma unless_completed_told: "hoare going m (told t) \<Longrightarrow> hoare (honest t) (unless_completed m) (told t)"
  unfolding unless_completed_def
  by (rule hoare_split) (auto simp: hoare_def retA_def told_def)

lemma turn_told: "hoare (honest (kn_task kn)) (turn kn ev i) (told (kn_task kn))"
proof -
  have i: "keeps calm (stateA (\<lambda>s. s\<lparr>ts_iteration := int i\<rparr>))" by (intro ca_stateA) simp
  have "hoare going (if b then settled (kn_de kn) else retA ()) (\<lambda>_. honest (kn_task kn))" for b
    by (rule hoare_if [OF settled_honest]) (rule hoare_post [OF hoare_ret], rule going_honest)
  then have b: "hoare going (reconcile_boundary (kn_de kn)) (\<lambda>_. honest (kn_task kn))"
    unfolding reconcile_boundary_def by (rule hoare_quiet_bind [OF ca_reconcile_effects])
  show ?thesis unfolding turn_def
    by (rule unless_completed_told, rule hoare_bind [OF hoare_quiet [OF i]], rule hoare_bind [OF admit_amendments_honest],
        rule unless_completed_told, rule hoare_bind [OF b], rule unless_completed_told, rule cognitive_step_told)
qed

lemma turns_honest: "hoare (honest (kn_task kn)) (turns kn evs is) (\<lambda>_. honest (kn_task kn))"
proof (induction "is")
  case Nil
  have "hoare P (stateA (\<lambda>s. s\<lparr>ts_lifecycle := FAILED\<rparr>)) (\<lambda>_. honest (kn_task kn))" for P :: "'p run \<Rightarrow> bool"
    by (simp add: hoare_def stateA_def modA_def honest_def is_completed_def)
  then show ?case unfolding turns.simps by (rule hoare_bind) (rule hoare_ret)
next
  case (Cons i "is")
  have "hoare (told (kn_task kn) b) (if b then retA [] else turns kn evs is) (\<lambda>_. honest (kn_task kn))" for b
    by (rule hoare_if) (rule hoare_pre [OF hoare_ret] hoare_pre [OF Cons.IH], simp add: told_def)+
  then show ?case unfolding turns.simps by (rule hoare_bind [OF turn_told])
qed

lemma open_context_honest: "hoare (honest t) (open_context kn) (\<lambda>_. honest t)"
proof (rule hoareI)
  fix r x r' assume h: "honest t r" and x: "open_context kn r = (Inr x, r')"
  show "honest t r'"
  proof (cases "is_completed r")
    case True
    with x have "r' = r" by (simp add: open_context_def bindA_def getA_def retA_def split: option.splits)
    with h show ?thesis by simp
  next
    case False
    with hoareD [OF hoare_quiet [OF ca_open_context] _ x] show ?thesis by simp
  qed
qed

lemma stop_run_going: "hoare P (stop_run de e) (\<lambda>_. going)"
proof (rule hoareI)
  fix r x r' assume s: "stop_run de e r = (Inr x, r')"
  have l: "stopped_lifecycle e \<noteq> COMPLETED" by (cases e rule: stopped_lifecycle.cases) auto
  have k: "going r''" if "close_effects de reason r1 = (y, r'')" "ts_lifecycle (rn_state r1) = stopped_lifecycle e" for reason r1 y r''
    using keepsD [OF lk_close_effects that(1)] that(2) l by (simp add: same_lifecycle_def is_completed_def)
  from s show "going r'"
    by (auto simp: stop_run_def Let_def bindA_Inr stateA_def modA_def retA_def throwA_def is_completed_def split: if_splits dest!: k)
qed

lemma run_body_honest: "hoare going (run_body kn evs) (\<lambda>_. honest (kn_task kn))"
  unfolding run_body_def
  by (rule hoare_bind [OF settled_honest], rule hoare_bind [OF open_context_honest], rule turns_honest)

lemma run_task_honest: "hoare going (run_task kn evs) (\<lambda>_. honest (kn_task kn))"
proof -
  have c: "hoare going (catch_stop kn (run_body kn evs)) (\<lambda>_. honest (kn_task kn))"
  proof (rule hoareI)
    fix r x r' assume n: "going r" and x: "catch_stop kn (run_body kn evs) r = (Inr x, r')"
    obtain y r1 where y: "run_body kn evs r = (y, r1)" by force
    show "honest (kn_task kn) r'"
    proof (cases y)
      case (Inl e)
      with x y have "stop_run (kn_de kn) e r1 = (Inr x, r')" by (simp add: catch_stop_def)
      from going_honest [OF hoareD [OF stop_run_going [of "\<lambda>_. True"] TrueI this]] show ?thesis .
    next
      case (Inr u)
      with x y have "run_body kn evs r = (Inr u, r')" by (auto simp: catch_stop_def)
      from hoareD [OF run_body_honest n this] show ?thesis .
    qed
  qed
  have f: "keeps late (finish_run kn found)" for found
    unfolding finish_run_def conclude_def by (intro la_intros)
  show ?thesis unfolding run_task_def by (rule hoare_bind [OF c hoare_late [OF f]])
qed

subsection \<open>Whole runs\<close>

lemma begin_run_start:
  assumes "begin_run reviewed planed rt key invocation request ps rows store = (Inr (i, authority, r), st)"
  shows "rn_store r = st" "going r" "ts_task_id (rn_state r) = key" "rn_binding r = LOCAL_BINDING" "reads_kept store st" "contract_kept key r" "\<not> escalated r"
proof -
  from assms obtain a s where s: "start_run rt key invocation request i a store = (Inr s, st)"
    and r: "rn_state r = s" "rn_store r = st" "rn_contract r = in_contract i" "rn_binding r = LOCAL_BINDING" "rn_escalation r = None"
    unfolding begin_run_def by (auto split: sum.splits prod.splits)
  from s obtain x st1 y st2 z where p: "put_json store key (message ''TaskSpec'' (in_spec i)) = (Inr x, st1)"
      "put_json st1 key a = (Inr y, st2)" "put_json st2 key (message ''CompletionContract'' (in_contract i)) = (Inr z, st)"
    and s': "s = initial_state key invocation request i x y z"
    unfolding start_run_def by (auto simp: stepR_def split: sum.splits prod.splits if_splits)
  from p show "reads_kept store st" by (meson reads_kept_put_json reads_kept_trans)
  have "read st key (JStr z) = Inr (encode (message ''CompletionContract'' (in_contract i)))"
    using p(3) unfolding put_json_def by (rule store.put_read)
  with r s' show "contract_kept key r" "going r" "ts_task_id (rn_state r) = key" "rn_binding r = LOCAL_BINDING" "rn_store r = st" "\<not> escalated r"
    by (simp_all add: contract_kept_def is_completed_def initial_state_def escalated_def)
qed

lemma kernel_for_task: "kn_task (kernel_for kn key invocation request i authority) = key"
  by (simp add: kernel_for_def)

lemma run_workflow_from:
  assumes "run_workflow reviewed kn key invocation request evs ps rows store = (x, Some (kn', r'), st)"
  obtains i authority r where "begin_run reviewed (kn_plane kn \<noteq> None) (de_runtime (kn_de kn)) key invocation request ps rows store = (Inr (i, authority, r), rn_store r)"
    "kn' = kernel_for kn key invocation request i authority" "run_task kn' evs r = (x, r')" "st = rn_store r'"
  using assms unfolding run_workflow_def Let_def
  by (auto split: sum.splits prod.splits dest: begin_run_start(1))

lemma conclude_output: "conclude de found r = (Inr output, r') \<Longrightarrow> output = task_result r found \<and> is_ok (validate_result output (de_task de))
    \<and> (\<exists>ref. ts_result_ref (rn_state r') = Some ref \<and> rn_state r' = (rn_state r)\<lparr>ts_result_ref := Some ref\<rparr>
         \<and> read (rn_store r') (de_task de) (JStr ref) = Inr (encode output))"
  unfolding conclude_def
  by (auto simp: bindA_Inr getA_def resA_def stateA_def modA_def retA_def retain_def put_json_def dest!: stepA_store intro: store.put_read)

lemma task_result_outcome: "dget (dget (task_result r found) ''payload'') ''outcome'' = JStr (lifecycle_str (ts_lifecycle (rn_state r)))"
  by (simp add: task_result_def Let_def message_def dget_def)

lemma lifecycle_str_terminal: "JStr (lifecycle_str l) \<in> JStr ` {''COMPLETED'', ''FAILED'', ''CANCELLED''} \<longleftrightarrow> l \<in> {COMPLETED, FAILED, CANCELLED}"
  by (cases l) auto

lemma lifecycle_str_completed: "lifecycle_str l = ''COMPLETED'' \<longleftrightarrow> l = COMPLETED"
  by (cases l) auto

lemma validate_result_payload: "validate_result v t = Inr p \<Longrightarrow> p = dget v ''payload''"
  by (auto simp: validate_result_def bindR_eq_Inr unpack_def py_fields_def Let_def raise_if_def split: if_splits)

lemma conclude_terminal: "conclude de found r = (Inr out, r') \<Longrightarrow> ts_lifecycle (rn_state r') \<in> {COMPLETED, FAILED, CANCELLED}"
proof -
  assume "conclude de found r = (Inr out, r')"
  from conclude_output [OF this] obtain p where out: "out = task_result r found" and v: "validate_result out (de_task de) = Inr p"
    and l: "ts_lifecycle (rn_state r') = ts_lifecycle (rn_state r)" by (auto simp: is_ok_def split: sum.splits)
  from validate_result_sound [OF v] validate_result_payload [OF v] have "dget (dget out ''payload'') ''outcome'' \<in> JStr ` {''COMPLETED'', ''FAILED'', ''CANCELLED''}"
    by blast
  then show ?thesis unfolding out task_result_outcome lifecycle_str_terminal l .
qed

text \<open>
  A Task that collected more than sixteen artifacts cannot be concluded. The policy gate keeps \<open>artifact.write\<close>,
  \<open>worker.run\<close> and target reads below the limit, but a published human request and its answer are not counted.
\<close>

lemma conclude_refuses: "16 < length (ts_artifacts (rn_state r)) \<Longrightarrow> \<exists>e. fst (conclude de found r) = Inl e"
proof -
  assume many: "16 < length (ts_artifacts (rn_state r))"
  obtain x r' where x: "conclude de found r = (x, r')" by force
  show ?thesis
  proof (cases x)
    case (Inr out)
    from conclude_output [OF x [unfolded Inr]] obtain p where out: "out = task_result r found" and v: "validate_result out (de_task de) = Inr p"
      by (auto simp: is_ok_def split: sum.splits)
    from validate_result_sound [OF v] validate_result_payload [OF v] have "length (jitems (dget (dget out ''payload'') ''artifacts'')) \<le> 16" by blast
    with many show ?thesis by (simp add: out task_result_def Let_def message_def dget_def)
  qed (simp add: x)
qed

definition finished :: "'p kernel \<Rightarrow> json \<Rightarrow> 'p run \<Rightarrow> bool" where
  "finished kn out r \<longleftrightarrow> ts_lifecycle (rn_state r) \<in> {COMPLETED, FAILED, CANCELLED} \<and> is_ok (validate_result out (kn_task kn))
     \<and> dget (dget out ''payload'') ''outcome'' = JStr (lifecycle_str (ts_lifecycle (rn_state r)))
     \<and> (\<exists>ref. ts_result_ref (rn_state r) = Some ref \<and> read (rn_store r) (kn_task kn) (JStr ref) = Inr (encode out))
     \<and> (\<exists>ref found. rn_routing r = Some ref \<and> read (rn_store r) (kn_task kn) (JStr ref) = Inr (encode (run_routing kn found r)))
     \<and> rn_published r = Some (rn_state r)"

lemma finish_run_finished:
  assumes "finish_run kn found r = (Inr out, r')"
  shows "finished kn out r'"
proof -
  from assms obtain r1 ref r2 where c: "conclude (kn_de kn) found r = (Inr out, r1)"
    and ref: "retain (kn_de kn) (run_routing kn found r1) r1 = (Inr ref, r2)"
    and r': "r' = r2\<lparr>rn_routing := Some ref, rn_published := Some (rn_state r2)\<rparr>"
    unfolding finish_run_def by (auto simp: bindA_Inr getA_def modA_def publish_def retA_def)
  from stepA_store [OF ref [unfolded retain_def put_json_def]] obtain st st' where
    p: "put st (kn_task kn) (encode (run_routing kn found r1)) = (Inr ref, st')" and r2: "r2 = r1\<lparr>rn_store := st'\<rparr>" by blast
  from keepsD [OF grows_retain ref] have k: "reads_kept (rn_store r1) st'" by (simp add: grows_def r2)
  have "run_routing kn found r' = run_routing kn found r1" by (simp add: run_routing_def r' r2 Let_def)
  with store.put_read [OF p] have rt: "read (rn_store r') (kn_task kn) (JStr ref) = Inr (encode (run_routing kn found r'))"
    by (simp add: r' r2)
  from conclude_output [OF c] obtain q where q: "ts_result_ref (rn_state r1) = Some q" "read (rn_store r1) (kn_task kn) (JStr q) = Inr (encode out)"
    "is_ok (validate_result out (kn_task kn))" "out = task_result r found" "ts_lifecycle (rn_state r1) = ts_lifecycle (rn_state r)" by auto
  with conclude_terminal [OF c] k rt show ?thesis
    unfolding finished_def by (auto simp: r' r2 task_result_outcome reads_kept_def)
qed

text \<open>
  C1. A result that says COMPLETED can show why. Whatever the model decides, the workers and children answer,
  the humans submit and the target reports, when the handler returns a TaskResult with outcome COMPLETED then
  the completion artifact it leaves behind is the retained document of an evaluation that was legal, of the
  contract of the run, over the state the Task ends with (but for the fields written after it: lifecycle,
  completion, observation and result references and the revision) and over artifacts that are all still
  readable with the same content.
\<close>

theorem completed_runs_cite:
  "case run_workflow reviewed kn key invocation request evs ps rows store of
     (Inr out, Some (kn', r), st) \<Rightarrow>
       if dget (dget out ''payload'') ''outcome'' = JStr ''COMPLETED'' then
         \<exists>s seen ev why ref. lasting s = lasting (rn_state r) \<and> reads_kept seen st
           \<and> evaluate_contract (rn_contract r) (ts_contract_ref s) s seen = Inr (ev, True, why)
           \<and> ts_completion_ref (rn_state r) = Some ref \<and> read st key (JStr ref) = Inr (encode (evaluation_json (ev, True, why)))
       else True
   | _ \<Rightarrow> True"
proof -
  have "\<exists>s seen ev why ref. lasting s = lasting (rn_state r) \<and> reads_kept seen st
           \<and> evaluate_contract (rn_contract r) (ts_contract_ref s) s seen = Inr (ev, True, why)
           \<and> ts_completion_ref (rn_state r) = Some ref \<and> read st key (JStr ref) = Inr (encode (evaluation_json (ev, True, why)))"
    if whole: "run_workflow reviewed kn key invocation request evs ps rows store = (Inr out, Some (kn', r), st)"
      and said: "dget (dget out ''payload'') ''outcome'' = JStr ''COMPLETED''" for out kn' r st
  proof -
    from whole obtain i a r0 where b: "begin_run reviewed (kn_plane kn \<noteq> None) (de_runtime (kn_de kn)) key invocation request ps rows store = (Inr (i, a, r0), rn_store r0)"
      and kn': "kn' = kernel_for kn key invocation request i a" and t: "run_task kn' evs r0 = (Inr out, r)" and st: "st = rn_store r"
      by (rule run_workflow_from)
    from hoareD [OF run_task_honest begin_run_start(2) [OF b] t] have h: "honest key r" by (simp add: kn' kernel_for_task)
    from t obtain found r1 where "finish_run kn' found r1 = (Inr out, r)"
      unfolding run_task_def bindA_Inr by blast
    from finish_run_finished [OF this] said have "JStr (lifecycle_str (ts_lifecycle (rn_state r))) = JStr ''COMPLETED''"
      by (simp only: finished_def)
    then have "lifecycle_str (ts_lifecycle (rn_state r)) = ''COMPLETED''" by (simp only: json.inject)
    then have "is_completed r" by (simp only: lifecycle_str_completed is_completed_def)
    with h show ?thesis by (auto simp: honest_def cited_def st)
  qed
  then show ?thesis by (auto split: sum.splits option.splits prod.splits)
qed

text \<open>
  C3. A run is accountable at every moment, also when it fails. Whatever happens in it, every artifact and
  every journal that existed before is still readable with the same content, the Task keeps its identity and the
  contract the run works with is the retained document its reference names. Cognition is local unless an
  escalation was admitted: a run that records an admitted escalation has a grant and a deployment that both name
  the binding it is then bound to, and a run that records none, be it that nothing escalated or that the
  escalation was denied, is bound to the local model and is the very same run, in its answer, its final state and
  its artifacts, whatever other model stands behind the escalation, so that model was not asked.
\<close>

theorem runs_stay_accountable:
  "case run_workflow reviewed kn key invocation request evs ps rows store of
     (x, None, st) \<Rightarrow> \<not> is_ok x
   | (x, Some (kn', r), st) \<Rightarrow>
       reads_kept store st \<and> ts_task_id (rn_state r) = key
       \<and> (\<exists>ref. ts_contract_ref (rn_state r) = Some ref \<and> read st key (JStr ref) = Inr (encode (message ''CompletionContract'' (rn_contract r))))
       \<and> (if escalated r then kn_escalated kn \<noteq> None \<and> kn_escalation_binding kn = Some (rn_binding r)
            \<and> (case kn_grant kn' of None \<Rightarrow> False | Some g \<Rightarrow> dget g ''escalation_binding'' = JStr (rn_binding r))
          else rn_binding r = LOCAL_BINDING
            \<and> run_workflow reviewed (elsewhere other kn) key invocation request evs ps rows store = (x, Some (elsewhere other kn', r), st))"
proof (cases "run_workflow reviewed kn key invocation request evs ps rows store")
  case (fields x o' st)
  show ?thesis
  proof (cases o')
    case None
    with fields show ?thesis by (auto simp: run_workflow_def is_ok_def Let_def split: sum.splits prod.splits)
  next
    case (Some p)
    then obtain kn' r where run: "run_workflow reviewed kn key invocation request evs ps rows store = (x, Some (kn', r), st)"
      using fields by (cases p) auto
    from run obtain i a r0 where b: "begin_run reviewed (kn_plane kn \<noteq> None) (de_runtime (kn_de kn)) key invocation request ps rows store = (Inr (i, a, r0), rn_store r0)"
      and kn': "kn' = kernel_for kn key invocation request i a" and t: "run_task kn' evs r0 = (x, r)" and st: "st = rn_store r"
      by (rule run_workflow_from)
    note start = begin_run_start [OF b]
    have kept: "contract_kept key r" "bound_run kn' r" "grows r0 r" "ts_task_id (rn_state r) = key"
      using keepsD [OF st_run_task t] start by (auto simp: steady_def kn' kernel_for_task bound_run_def)
    have same: "kn_escalation_binding kn' = kn_escalation_binding kn" "kn_escalated kn' = kn_escalated kn"
      "kernel_for (elsewhere other kn) key invocation request i a = elsewhere other kn'"
      by (simp_all add: kn' kernel_for_def elsewhere_def)
    have "run_workflow reviewed (elsewhere other kn) key invocation request evs ps rows store = (x, Some (elsewhere other kn', r), st)"
      if "\<not> escalated r"
    proof -
      from agrees_run_task [of kn' evs other] t that have "run_task (elsewhere other kn') evs r0 = (x, r)" by (simp add: agrees_def)
      with b st same(3) show ?thesis by (simp add: run_workflow_def Let_def)
    qed
    with kept same(1,2) start(5) show ?thesis unfolding run
      by (auto simp: contract_kept_def bound_run_def admitted_binding_def grows_def st reads_kept_def)
  qed
qed

text \<open>
  The body of a run always leaves the Task ended: the loop stops early only on a completed Task, a loop that
  is exhausted fails it, and an error the body catches fails or cancels it.
\<close>

definition run_over :: "'p run \<Rightarrow> bool" where
  "run_over r \<longleftrightarrow> ts_lifecycle (rn_state r) \<in> {COMPLETED, FAILED, CANCELLED}"

abbreviation anyhow :: "'p run \<Rightarrow> bool" where
  "anyhow \<equiv> \<lambda>_. True"

lemma hoare_any: "hoare P m (\<lambda>_. anyhow)"
  by (simp add: hoare_def)

lemma asks_completed: "hoare P (getA is_completed) (\<lambda>b r. b \<longrightarrow> is_completed r)"
  by (simp add: hoare_def getA_def)

lemma unless_completed_stops: "hoare anyhow m (\<lambda>b r. b \<longrightarrow> is_completed r) \<Longrightarrow> hoare anyhow (unless_completed m) (\<lambda>b r. b \<longrightarrow> is_completed r)"
  unfolding unless_completed_def by (rule hoare_get) (auto simp: hoare_def retA_def)

lemma cognitive_step_stops: "hoare anyhow (cognitive_step kn ev i) (\<lambda>b r. b \<longrightarrow> is_completed r)"
  unfolding cognitive_step_def finish_turn_def by (intro hoare_bind [OF hoare_any] asks_completed)

lemma turn_stops: "hoare anyhow (turn kn ev i) (\<lambda>b r. b \<longrightarrow> is_completed r)"
  unfolding turn_def by (intro unless_completed_stops hoare_bind [OF hoare_any] cognitive_step_stops)

lemma turns_end: "hoare anyhow (turns kn evs is) (\<lambda>_. run_over)"
proof (induction "is")
  case Nil
  show ?case by (auto simp: hoare_def bindA_Inr stateA_def modA_def retA_def run_over_def)
next
  case (Cons i "is")
  have "hoare (\<lambda>r. b \<longrightarrow> is_completed r) (if b then retA [] else turns kn evs is) (\<lambda>_. run_over)" for b
    by (rule hoare_if, simp add: hoare_def retA_def run_over_def is_completed_def) (rule hoare_pre [OF Cons.IH], simp)
  then show ?case unfolding turns.simps by (rule hoare_bind [OF turn_stops])
qed

lemma stop_run_ends_task: "hoare anyhow (stop_run de e) (\<lambda>_. run_over)"
proof (rule hoareI)
  fix r x r' assume s: "stop_run de e r = (Inr x, r')"
  have l: "stopped_lifecycle e \<in> {COMPLETED, FAILED, CANCELLED}" by (cases e rule: stopped_lifecycle.cases) auto
  have k: "run_over r''" if "close_effects de reason r1 = (y, r'')" "ts_lifecycle (rn_state r1) = stopped_lifecycle e" for reason r1 y r''
    using keepsD [OF lk_close_effects that(1)] that(2) l by (simp add: same_lifecycle_def run_over_def)
  from s show "run_over r'"
    by (auto simp: stop_run_def Let_def bindA_Inr stateA_def modA_def retA_def throwA_def run_over_def split: if_splits dest!: k)
qed

lemma catch_stop_ends: "hoare anyhow (catch_stop kn (run_body kn evs)) (\<lambda>_. run_over)"
proof (rule hoareI)
  fix r x r' assume x: "catch_stop kn (run_body kn evs) r = (Inr x, r')"
  have b: "hoare anyhow (run_body kn evs) (\<lambda>_. run_over)"
    unfolding run_body_def by (intro hoare_bind [OF hoare_any] turns_end)
  obtain y r1 where y: "run_body kn evs r = (y, r1)" by force
  show "run_over r'"
  proof (cases y)
    case (Inl e)
    with x y have "stop_run (kn_de kn) e r1 = (Inr x, r')" by (simp add: catch_stop_def)
    from hoareD [OF stop_run_ends_task TrueI this] show ?thesis .
  next
    case (Inr u)
    with x y have "run_body kn evs r = (Inr u, r')" by (auto simp: catch_stop_def)
    from hoareD [OF b TrueI this] show ?thesis .
  qed
qed

text \<open>
  What can still go wrong once the Task has ended: its result document is one the result contract refuses, or
  the artifact store does not keep the result or the routing record.
\<close>

definition ending_failed :: "'p kernel \<Rightarrow> string list \<Rightarrow> 'p run \<Rightarrow> exn \<Rightarrow> bool" where
  "ending_failed kn found r e \<longleftrightarrow>
     (let out = task_result r found in
      validate_result out (kn_task kn) = Inl e
      \<or> (\<exists>r'. is_ok (validate_result out (kn_task kn)) \<and> retain (kn_de kn) out r = (Inl e, r'))
      \<or> (\<exists>r1 r'. conclude (kn_de kn) found r = (Inr out, r1) \<and> retain (kn_de kn) (run_routing kn found r1) r1 = (Inl e, r')))"

lemma finish_run_failed:
  assumes "finish_run kn found r = (Inl e, r')"
  shows "ending_failed kn found r e"
proof (cases "conclude (kn_de kn) found r")
  case (Pair x r1)
  show ?thesis
  proof (cases x)
    case (Inl e')
    with assms Pair have e: "e' = e" by (simp add: finish_run_def bindA_def)
    show ?thesis
    proof (cases "validate_result (task_result r found) (kn_task kn)")
      case (Inl e2)
      with Pair \<open>x = Inl e'\<close> e show ?thesis by (simp add: conclude_def bindA_def getA_def resA_def ending_failed_def)
    next
      case (Inr p)
      obtain y r2 where y: "retain (kn_de kn) (task_result r found) r = (y, r2)" by force
      with Inr Pair \<open>x = Inl e'\<close> e have "y = Inl e"
        by (cases y) (simp_all add: conclude_def bindA_def getA_def resA_def stateA_def modA_def retA_def)
      with y Inr show ?thesis by (auto simp: ending_failed_def is_ok_def)
    qed
  next
    case (Inr out)
    from conclude_output [OF Pair [unfolded Inr]] have out: "out = task_result r found" by blast
    obtain y r2 where y: "retain (kn_de kn) (run_routing kn found r1) r1 = (y, r2)" by force
    with assms Pair Inr have "y = Inl e"
      by (cases y) (simp_all add: finish_run_def bindA_def getA_def modA_def publish_def retA_def)
    with y Pair Inr out show ?thesis by (auto simp: ending_failed_def)
  qed
qed

text \<open>
  C4. A run ends, and ends in the open. It takes at most \<open>MAX_TURNS\<close> turns. When it returns, the Task is
  COMPLETED, FAILED or CANCELLED, which is the outcome of the result; the result is valid and retained under
  the reference of the Task, so is the routing record of the final state, and the final state is published.
  Otherwise it ends with an error in one of three ways: the body raised one it may not catch (the run is
  suspended or broken off by the runtime); closing the effects of a stopped Task raised it; or the body is over,
  the Task is COMPLETED, FAILED or CANCELLED, and its result document was refused by the result contract or
  the store did not keep the result or the routing record.
\<close>

theorem runs_end_published:
  "case run_task kn evs r of
     (Inr out, r') \<Rightarrow> finished kn out r'
   | (Inl e, r') \<Rightarrow>
       (run_body kn evs r = (Inl e, r') \<and> \<not> is_terminal e \<and> \<not> is_context_error e)
       \<or> (\<exists>e0 r1. run_body kn evs r = (Inl e0, r1) \<and> is_terminal e0 \<and> stop_run (kn_de kn) e0 r1 = (Inl e, r'))
       \<or> (\<exists>found r1. catch_stop kn (run_body kn evs) r = (Inr found, r1) \<and> run_over r1
            \<and> finish_run kn found r1 = (Inl e, r') \<and> ending_failed kn found r1 e)"
proof (cases "run_task kn evs r")
  case (Pair x r')
  show ?thesis
  proof (cases x)
    case (Inr out)
    from Pair [unfolded Inr run_task_def bindA_Inr] obtain found r1 where "finish_run kn found r1 = (Inr out, r')" by blast
    from finish_run_finished [OF this] show ?thesis by (simp add: Pair Inr)
  next
    case (Inl e)
    obtain y r1 where y: "run_body kn evs r = (y, r1)" by force
    obtain z r2 where z: "catch_stop kn (run_body kn evs) r = (z, r2)" by force
    show ?thesis
    proof (cases z)
      case (Inr found)
      with z Pair Inl have f: "finish_run kn found r2 = (Inl e, r')" by (simp add: run_task_def bindA_def)
      from hoareD [OF catch_stop_ends TrueI z [unfolded Inr]] have "run_over r2" .
      with f z Inr finish_run_failed [OF f] show ?thesis unfolding Pair Inl by auto
    next
      case e: (Inl e')
      with z Pair Inl have e': "e' = e" "r2 = r'" by (simp_all add: run_task_def bindA_def)
      from z e e' y obtain e0 where e0: "y = Inl e0" and s: "stop_run (kn_de kn) e0 r1 = (Inl e, r')"
        by (cases y) (auto simp: catch_stop_def)
      show ?thesis
      proof (cases "is_terminal e0")
        case True
        with y e0 s show ?thesis unfolding Pair Inl by auto
      next
        case False
        with s have "e0 = e" "r1 = r'" "\<not> is_context_error e"
          by (auto simp: stop_run_def bindA_def stateA_def modA_def retA_def throwA_def split: if_splits)
        with y e0 False show ?thesis unfolding Pair Inl by simp
      qed
    qed
  qed
qed

subsection \<open>Admission before execution\<close>

lemma ts_with_store: "(\<And>r. rn_target (snd (f r)) = rn_target r) \<Longrightarrow> keeps target_same f"
  by (simp add: keeps_def target_same_def)

lemma ts_settle: "keeps target_same (settle_task de)"
proof -
  have "keeps target_same (review_one de pre c)" for pre c
    unfolding review_one_def Let_def by (intro ts_intros)
  then have "keeps target_same (review_due de)" unfolding review_due_def by (auto intro!: ts_intros)
  then show ?thesis unfolding settle_task_def finish_settle_def Let_def by (auto intro!: ts_intros ts_modA)
qed

lemma ts_settled: "keeps target_same (settled de)"
  unfolding settled_def by (intro ts_intros ts_settle)

lemma ts_run_amendment: "keeps target_same (run_amendment de v)"
  unfolding run_amendment_def by (intro ts_intros ts_storeA) (auto intro!: ts_intros ts_modA split: amended_result.splits)

lemma ts_resume: "keeps target_same (resume de v)"
  unfolding resume_def by (intro ts_intros)

lemma ts_accept_answer: "keeps target_same (accept_answer de action q v)"
  unfolding accept_answer_def by (auto intro!: ts_intros ts_resume split: option.splits)

lemma ts_await_input: "keeps target_same (await_input de action es)"
proof -
  have s: "keeps target_same suspend" "keeps target_same (set_wait action ref)" for ref
    unfolding suspend_def set_wait_def by (intro ts_intros)+
  have "keeps target_same (await_events de action q es)" for q
    by (induction de action q es rule: await_events.induct) (auto intro!: ts_intros ts_run_amendment ts_settle ts_accept_answer ts_resume
        simp: withdraw_def Let_def)
  then show ?thesis unfolding await_input_def by (auto intro!: ts_intros s)
qed

lemma ts_suspend: "keeps target_same suspend"
  unfolding suspend_def by (intro ts_intros)

lemma ts_execute_capability: "keeps target_same (execute_capability kn action request)"
proof -
  have x: "keeps target_same (executeA kn request cx)" for cx
    by (rule ts_with_store) (simp add: executeA_def split: prod.splits)
  have d: "keeps target_same (plane_delta kn pl action)" for pl
    by (rule ts_with_store) (simp add: plane_delta_def split: prod.splits sum.splits)
  have r: "keeps target_same (plane_run kn pl action request)" for pl
  proof -
    have "keeps target_same (bindA (executeA kn request cx) (\<lambda>result. retA (result, None)))" for cx
      by (intro ts_intros x)
    then show ?thesis by (auto simp: plane_run_def keeps_def ts.order_refl split: sum.splits)
  qed
  have "keeps target_same (plane_capability kn pl action request)" for pl
    unfolding keeps_def
  proof
    fix s
    obtain y s' where y: "(if sget action ''capability'' = ''context.request'' then plane_delta kn pl action s else plane_run kn pl action request s) = (y, s')"
      by force
    with keepsD [OF d, of pl s y s'] keepsD [OF r, of pl s y s'] have "target_same s s'" by (auto split: if_splits)
    with y show "target_same s (snd (plane_capability kn pl action request s))"
      by (cases y) (auto simp: plane_capability_def)
  qed
  then show ?thesis unfolding execute_capability_def by (auto intro!: ts_intros x split: option.splits)
qed

lemma ts_invoke_local: "keeps target_same (invoke_local kn ev i action)"
proof -
  have o': "keeps target_same (keep_observation kn v)" "keeps target_same (count_tool v)" for v
    unfolding keep_observation_def count_tool_def by (auto intro!: ts_intros ts_modA)
  have a: "keeps target_same (adopt_admission kn action v adm)" "keeps target_same (observe_result kn action v)" for v adm
    unfolding adopt_admission_def observe_result_def Let_def by (auto intro!: ts_intros ts_modA o' split: option.splits)
  have "keeps target_same (accept_workspace kn action ref v)" for ref v
    unfolding accept_workspace_def by (intro ts_intros ts_storeA)
  then have "keeps target_same (follow_up kn ev i action v)" for v
    unfolding follow_up_def wait_workspace_def Let_def by (auto intro!: ts_intros ts_suspend ts_await_input)
  then show ?thesis unfolding invoke_local_def
    by (auto intro!: ts_intros ts_execute_capability a ts_settled split: prod.splits)
qed

lemma ts_mapA: "(\<And>x. keeps target_same (f x)) \<Longrightarrow> keeps target_same (mapA f xs)"
  by (induction xs) (auto intro!: ts_intros)

lemma ts_spawn_tasks: "keeps target_same (spawn_tasks kn action)"
proof -
  have l: "keeps target_same (launch_child kn x)" for x
    unfolding launch_child_def by (auto intro!: ts_intros split: prod.splits)
  have c: "keeps target_same (set_child c key v)" for c key v
    unfolding set_child_def by (intro ts_intros)
  have "keeps target_same (keep_child kn c v)" for c v
    unfolding keep_child_def by (auto intro!: ts_intros c split: sum.splits)
  then have "keeps target_same (join_child kn d x)" for d x
    unfolding join_child_def by (auto intro!: ts_intros split: sum.splits)
  with l show ?thesis unfolding spawn_tasks_def end_join_def by (auto intro!: ts_intros ts_mapA ts_suspend)
qed

definition journal_only :: "'p run \<Rightarrow> 'p run \<Rightarrow> bool" where
  "journal_only r r' \<longleftrightarrow> rn_target r' = rn_target r \<and> rn_rows r' = rn_rows r \<and> rn_contract r' = rn_contract r
     \<and> (rn_state r')\<lparr>ts_journal_head := None, ts_journal_length := 0\<rparr> = (rn_state r)\<lparr>ts_journal_head := None, ts_journal_length := 0\<rparr>"

interpretation jo: run_order journal_only
  by unfold_locales (auto simp: journal_only_def)

lemma jo_record_entry: "keeps journal_only (record_entry de e)"
proof -
  have "keeps journal_only (storeA f)" for f :: "artifact_store \<Rightarrow> string res \<times> artifact_store"
    by (auto simp: keeps_def storeA_def journal_only_def split: prod.splits)
  then show ?thesis unfolding record_entry_def
    by (intro jo.keeps_basic) (auto simp: keeps_def stateA_def modA_def publish_def journal_only_def)
qed

lemma jo_deny_turn: "keeps journal_only (deny_turn kn decision verdict)"
  unfolding deny_turn_def Let_def by (auto intro!: jo.keeps_basic jo_record_entry split: option.splits)

lemma ts_act_on: "dget action ''type'' \<noteq> JStr ''INVOKE_CAPABILITY'' \<Longrightarrow> keeps target_same (act_on kn ev i action)"
  unfolding act_on_def hand_off_def by (auto intro!: ts_intros ts_await_input ts_spawn_tasks ts_settle)

definition admission_entry :: "'p kernel \<Rightarrow> task_state \<Rightarrow> json \<Rightarrow> (string \<times> json) list" where
  "admission_entry kn s action = capability_entry (kn_de kn) s action ''admitted''
     [(''operation_id'', JStr (the_decision s)), (''request_digest'', JStr (json_digest (capability_request kn s action)))]"

lemma admit_capability_entry: "admit_capability kn action r = record_entry (kn_de kn) (admission_entry kn (rn_state r) action) r"
  by (simp add: admit_capability_def admission_entry_def bindA_def getA_def)

lemma jo_admit_capability: "keeps journal_only (admit_capability kn action)"
  using jo_record_entry unfolding keeps_def admit_capability_entry by blast

text \<open>
  C5. Nothing runs that was not admitted, and nothing is admitted without being recorded. A denied decision
  changes nothing but the journal. A capability is invoked only when the entry that admits it, with the digest
  of exactly this request, is retained as the new head of the journal and published; if the entry cannot be
  written nothing runs. Only an admitted target operation can touch the target: every other action, and every
  capability the kernel executes itself, leaves the target's state as it was.
\<close>

theorem nothing_runs_unadmitted:
  "case respond kn ev i decision verdict r of (x, r') \<Rightarrow>
     let action = dget (dget decision ''payload'') ''next_action''; s = rn_state r in
     if dget verdict ''outcome'' = JStr ''deny'' then journal_only r r'
     else if dget action ''type'' = JStr ''INVOKE_CAPABILITY'' then
       (case admit_capability kn action r of
          (Inl e, r1) \<Rightarrow> x = Inl e \<and> r' = r1 \<and> journal_only r r1
        | (Inr _, r1) \<Rightarrow> journal_only r r1 \<and> rn_published r1 = Some (rn_state r1)
            \<and> (\<exists>head. ts_journal_head (rn_state r1) = Some head \<and> read (rn_store r1) (kn_task kn) (JStr head)
                 = Inr (encode (entry_message (kn_task kn) (ts_journal_head s) (nat (ts_journal_length s)) (admission_entry kn s action))))
            \<and> (x, r') = (if target_operation action then invoke_target kn ev i action r1 else invoke_local kn ev i action r1)
            \<and> (target_operation action \<or> target_same r r'))
     else target_same r r'"
proof (cases "respond kn ev i decision verdict r")
  case (Pair x r')
  let ?action = "dget (dget decision ''payload'') ''next_action''"
  consider "dget verdict ''outcome'' = JStr ''deny''" | "dget verdict ''outcome'' \<noteq> JStr ''deny''" "dget ?action ''type'' \<noteq> JStr ''INVOKE_CAPABILITY''"
    | "dget verdict ''outcome'' \<noteq> JStr ''deny''" "dget ?action ''type'' = JStr ''INVOKE_CAPABILITY''" by blast
  then show ?thesis
  proof cases
    case 1
    with Pair have "deny_turn kn decision verdict r = (x, r')" by (simp add: respond_def)
    from keepsD [OF jo_deny_turn this] 1 Pair show ?thesis by simp
  next
    case 2
    with Pair have "act_on kn ev i ?action r = (x, r')" by (simp add: respond_def)
    from keepsD [OF ts_act_on [OF 2(2)] this] 2 Pair show ?thesis by (simp add: Let_def)
  next
    case 3
    with Pair have inv: "invoke_capability kn ev i ?action r = (x, r')" by (simp add: respond_def act_on_def)
    obtain y r1 where y: "admit_capability kn ?action r = (y, r1)" by force
    from keepsD [OF jo_admit_capability y] have jo: "journal_only r r1" .
    show ?thesis
    proof (cases y)
      case (Inl e)
      with inv y have "x = Inl e" "r' = r1" by (simp_all add: invoke_capability_def bindA_def)
      with 3 Pair y Inl jo show ?thesis by (simp add: Let_def)
    next
      case (Inr u)
      with inv y have run: "(x, r') = (if target_operation ?action then invoke_target kn ev i ?action r1 else invoke_local kn ev i ?action r1)"
        by (cases "target_operation ?action") (simp_all add: invoke_capability_def bindA_def)
      moreover have "target_operation ?action \<or> target_same r r'"
      proof (cases "target_operation ?action")
        case False
        with run have "invoke_local kn ev i ?action r1 = (x, r')" by simp
        from keepsD [OF ts_invoke_local this] jo show ?thesis by (simp add: journal_only_def target_same_def)
      qed simp
      moreover obtain head where "ts_journal_head (rn_state r1) = Some head" "rn_published r1 = Some (rn_state r1)"
        "read (rn_store r1) (kn_task kn) (JStr head) = Inr (encode (entry_message (kn_task kn) (ts_journal_head (rn_state r))
           (nat (ts_journal_length (rn_state r))) (admission_entry kn (rn_state r) ?action)))"
        using record_entry_Inr [OF y [unfolded admit_capability_entry Inr]] by blast
      ultimately show ?thesis
        unfolding Pair prod.case Let_def y Inr sum.case using 3 jo by auto
    qed
  qed
qed

subsection \<open>Child Tasks\<close>












lemma is_ok_Inr: "is_ok (Inr x)"
  by (simp add: is_ok_def)










end
