(* ===== verification/Urls.thy ===== *)
theory Urls
  imports Contracts
begin

section \<open>Splitting addresses\<close>

text \<open>
  What the frontier bindings use of \<open>urllib.parse.urlsplit\<close>: scheme, network location, query and fragment, and
  of the network location the host name and the credentials. Text is UTF-8 bytes. Two checks of the library
  rest on tables that are not part of it here and are the parameter \<open>netloc_ok\<close>: that a bracketed host is an IP
  literal, and that a host outside ASCII does not normalise to one of the delimiters.
\<close>

record url =
  u_scheme :: string
  u_netloc :: string
  u_path :: string
  u_query :: string
  u_fragment :: string

text \<open>\<open>s.partition (c)\<close> and \<open>s.rpartition (c)\<close>, without the separator itself.\<close>

definition partition_at :: "char \<Rightarrow> string \<Rightarrow> string \<times> bool \<times> string" where
  "partition_at c s = (takeWhile (\<lambda>x. x \<noteq> c) s, c \<in> set s, tl (dropWhile (\<lambda>x. x \<noteq> c) s))"

definition rpartition_at :: "char \<Rightarrow> string \<Rightarrow> string \<times> bool \<times> string" where
  "rpartition_at c s =
     (if c \<in> set s then (case partition_at c (rev s) of (b, _, a) \<Rightarrow> (rev a, True, rev b)) else ([], False, s))"

definition ascii_alpha :: "char \<Rightarrow> bool" where
  "ascii_alpha c \<longleftrightarrow> (let n = (of_char c :: nat) in 65 \<le> n \<and> n \<le> 90 \<or> 97 \<le> n \<and> n \<le> 122)"

definition scheme_char :: "char \<Rightarrow> bool" where
  "scheme_char c \<longleftrightarrow> ascii_alpha c \<or> c \<in> set ''0123456789+-.''"

definition lower_ascii :: "string \<Rightarrow> string" where
  "lower_ascii = map (\<lambda>c. let n = (of_char c :: nat) in if 65 \<le> n \<and> n \<le> 90 then char_of (n + 32) else c)"

definition clean_url :: "string \<Rightarrow> string" where
  "clean_url s = filter (\<lambda>c. (of_char c :: nat) \<notin> {9, 10, 13}) (dropWhile (\<lambda>c. (of_char c :: nat) \<le> 32) s)"

definition split_scheme :: "string \<Rightarrow> string \<times> string" where
  "split_scheme s =
     (case partition_at (CHR '':'') s of (before, found, after) \<Rightarrow>
        if found \<and> before \<noteq> [] \<and> ascii_alpha (hd before) \<and> list_all scheme_char before then (lower_ascii before, after) else ([], s))"

definition split_netloc :: "string \<Rightarrow> string \<times> string" where
  "split_netloc s =
     (if take 2 s = ''//'' then (takeWhile (\<lambda>c. c \<notin> set ''/?#'') (drop 2 s), dropWhile (\<lambda>c. c \<notin> set ''/?#'') (drop 2 s)) else ([], s))"

definition urlsplit :: "(string \<Rightarrow> bool) \<Rightarrow> string \<Rightarrow> url res" where
  "urlsplit netloc_ok text =
     (case split_scheme (clean_url text) of (scheme, rest) \<Rightarrow>
      case split_netloc rest of (netloc, rest1) \<Rightarrow>
      case partition_at (CHR ''#'') rest1 of (rest2, _, fragment) \<Rightarrow>
      case partition_at (CHR ''?'') rest2 of (path, _, query) \<Rightarrow>
      seqR (raise_if ((CHR ''['' \<in> set netloc) \<noteq> (CHR '']'' \<in> set netloc)) (ValueError ''Invalid IPv6 URL''))
      (seqR (raise_if (\<not> netloc_ok netloc) (ValueError ''Invalid network location''))
      (Inr \<lparr>u_scheme = scheme, u_netloc = netloc, u_path = path, u_query = query, u_fragment = fragment\<rparr>)))"

definition hostname :: "url \<Rightarrow> string" where
  "hostname u =
     (case rpartition_at (CHR ''@'') (u_netloc u) of (_, _, hostinfo) \<Rightarrow>
      case partition_at (CHR ''['') hostinfo of (_, bracket, bracketed) \<Rightarrow>
      case partition_at (CHR ''%'') (if bracket then fst (partition_at (CHR '']'') bracketed) else fst (partition_at (CHR '':'') hostinfo)) of
        (name, zoned, zone) \<Rightarrow> lower_ascii name @ (if zoned then ''%'' @ zone else []))"

definition username :: "url \<Rightarrow> string" where
  "username u = (case rpartition_at (CHR ''@'') (u_netloc u) of (userinfo, _, _) \<Rightarrow> fst (partition_at (CHR '':'') userinfo))"

definition password :: "url \<Rightarrow> string" where
  "password u = (case rpartition_at (CHR ''@'') (u_netloc u) of (userinfo, _, _) \<Rightarrow> snd (snd (partition_at (CHR '':'') userinfo)))"

text \<open>An absent part and an empty one are both false in a condition, which is all the bindings ask.\<close>

lemma urlsplit_examples:
  "urlsplit (\<lambda>_. True) ''https://api.example.com/v1?x=1#f''
     = Inr \<lparr>u_scheme = ''https'', u_netloc = ''api.example.com'', u_path = ''/v1'', u_query = ''x=1'', u_fragment = ''f''\<rparr>"
  "hostname \<lparr>u_scheme = ''http'', u_netloc = ''u:p@[::1]:80'', u_path = [], u_query = [], u_fragment = []\<rparr> = ''::1''"
  by code_simp+

end
