(* ===== verification/Frontier.thy ===== *)
theory Frontier
  imports Execution Urls "HOL-Library.Product_Lexorder"
begin

section \<open>Frontier execution\<close>

text \<open>
  runtime/kernel/frontier.py, frontier_context.py and worker_routing.py: the projection of context that may
  leave, the grant and its validation, the hard authorization of one dispatch, the dispatch slots, the guarded
  call of the provider, observed usage, and the suitability recommendation.

  The frozen dataclasses that are digested or recorded (limits, bindings, the authority) are JSON objects with
  the dataclass's fields, so that \<open>asdict\<close> is the value itself; \<open>check_X\<close> is the \<open>__post_init__\<close> of X and
  \<open>make_X\<close> the constructor called with keywords. The slots, the guardrails, projected context and requests are
  records. Parameters are the network-location checks of \<open>Urls\<close>, the projector, the provider, the classifier
  and the clock. A clock reading is in microseconds and the deadline comparison is exact; the code divides by
  1000 in floating point, which agrees while seconds stay below 2 ^ 43.
\<close>

subsection \<open>Projected context\<close>

record projected =
  pc_version :: int
  pc_task_id :: string
  pc_projector_id :: string
  pc_content :: string
  pc_digest :: string

definition pc_ref :: "projected \<Rightarrow> string" where
  "pc_ref p = mk_ref (pc_task_id p) (pc_digest p)"

record projector =
  pj_id :: json
  pj_project :: "string \<Rightarrow> json res"

definition identity_projector :: projector where
  "identity_projector = \<lparr>pj_id = JStr ''identity-v1'', pj_project = \<lambda>resolved. Inr (JStr resolved)\<rparr>"

definition projection :: "json \<Rightarrow> json \<Rightarrow> projector \<Rightarrow> projected res" where
  "projection task_id resolved p =
     seqR (py_identifier task_id)
     (seqR (py_text resolved 2048)
     (seqR (py_identifier (pj_id p))
     (bindR (pj_project p (jstr resolved)) (\<lambda>content.
      seqR (py_text content 2048)
      (Inr \<lparr>pc_version = 1, pc_task_id = jstr task_id, pc_projector_id = jstr (pj_id p), pc_content = jstr content,
         pc_digest = sha256_hex (jstr content)\<rparr>)))))"

definition project_context :: "json \<Rightarrow> json \<Rightarrow> projector \<Rightarrow> projected res" where
  "project_context task_id resolved p =
     (case projection task_id resolved p of Inl _ \<Rightarrow> Inl (ProjectionError ''Frontier context projection failed'') | Inr c \<Rightarrow> Inr c)"

text \<open>\<open>None\<close> is any value that \<open>project_context\<close> did not make.\<close>

definition valid_projection :: "projected option \<Rightarrow> string \<Rightarrow> bool" where
  "valid_projection v task_id \<longleftrightarrow>
     (case v of None \<Rightarrow> False
      | Some p \<Rightarrow> is_ident (pc_projector_id p) \<and> pc_version p = 1 \<and> pc_task_id p = task_id
          \<and> is_ok (py_text (JStr (pc_content p)) 2048) \<and> sha256_hex (pc_content p) = pc_digest p)"

subsection \<open>The grant\<close>

definition nonnegative :: "json \<Rightarrow> unit res" where
  "nonnegative v = raise_if (\<not> is_int v \<or> jint v < 0) (ValueError ''Expected nonnegative integer'')"

text \<open>\<open>cls (**v)\<close>: a missing or an unexpected keyword is a \<open>TypeError\<close>.\<close>

definition kwargs :: "json \<Rightarrow> string list \<Rightarrow> (string \<times> json) list \<Rightarrow> json res" where
  "kwargs v req defaults =
     (if is_dict v \<and> set req \<subseteq> set (jkeys v) \<and> set (jkeys v) \<subseteq> set req \<union> fst ` set defaults
      then Inr (JObj (map (\<lambda>k. (k, dget v k)) req @ map (\<lambda>(k, d). (k, dget_or v k d)) defaults))
      else Inl (TypeError ''unexpected or missing keyword arguments''))"

definition LIMITS :: "string list" where
  "LIMITS = [''model_calls'', ''input_tokens'', ''output_tokens'', ''cost_microusd'']"

definition check_limits :: "json \<Rightarrow> unit res" where
  "check_limits v = forR (\<lambda>k. if dget v k = JNull then Inr () else nonnegative (dget v k)) LIMITS"

definition make_limits :: "json \<Rightarrow> json res" where
  "make_limits v = bindR (kwargs v [] (map (\<lambda>k. (k, JNull)) LIMITS)) (\<lambda>l. seqR (check_limits l) (Inr l))"

definition BINDING_FIELDS :: "string list" where
  "BINDING_FIELDS = [''binding_id'', ''worker_family'', ''provider'', ''model'', ''destination'', ''frontier'', ''capabilities'', ''quality'']"

definition approved_destination :: "(string \<Rightarrow> bool) \<Rightarrow> bool \<Rightarrow> json \<Rightarrow> unit res" where
  "approved_destination netloc_ok frontier destination =
     (if \<not> is_str destination \<and> py_true destination then Inl (AttributeError ''object has no attribute decode'')
      else bindR (urlsplit netloc_ok (jstr destination)) (\<lambda>u.
        raise_if (u_scheme u \<notin> {''http'', ''https''} \<or> hostname u = [] \<or> frontier \<and> u_scheme u \<noteq> ''https''
            \<or> \<not> frontier \<and> hostname u \<notin> {''127.0.0.1'', ''::1''}
            \<or> username u \<noteq> [] \<or> password u \<noteq> [] \<or> u_query u \<noteq> [] \<or> u_fragment u \<noteq> [])
          (ValueError ''Expected explicit approved destination'')))"

definition check_names :: "json \<Rightarrow> unit res" where
  "check_names v =
     seqR (raise_if (\<not> is_list v \<or> 8 < length (jlist v)) (ValueError ''Expected bounded immutable capabilities''))
       (forR (\<lambda>x. py_text x 128) (jlist v))"

definition check_binding :: "(string \<Rightarrow> bool) \<Rightarrow> json \<Rightarrow> unit res" where
  "check_binding netloc_ok b =
     checks
       [voidR (py_identifier (dget b ''binding_id'')),
        forR (\<lambda>k. py_text (dget b k) 128) [''worker_family'', ''provider'', ''model''],
        raise_if (dget b ''frontier'' \<notin> range JBool) (ValueError ''Invalid locality''),
        approved_destination netloc_ok (dget b ''frontier'' = JBool True) (dget b ''destination''),
        nonnegative (dget b ''quality''),
        check_names (dget b ''capabilities''),
        check_names (dget b ''native_controls''),
        raise_if (\<not> set (lget b ''native_controls'') \<subseteq> JStr ` set LIMITS) (ValueError ''Unknown provider-native control'')]"

definition make_binding :: "(string \<Rightarrow> bool) \<Rightarrow> json \<Rightarrow> json res" where
  "make_binding netloc_ok v =
     bindR (kwargs v BINDING_FIELDS [(''native_controls'', JList [])]) (\<lambda>b. seqR (check_binding netloc_ok b) (Inr b))"

record guardrails =
  gg_enabled :: bool
  gg_kill :: bool
  gg_account :: string
  gg_source :: string

definition check_guardrails :: "guardrails \<Rightarrow> unit res" where
  "check_guardrails g =
     checks
       [raise_if (gg_account g \<notin> {''not_configured'', ''available'', ''exhausted'', ''unknown''}) (ValueError ''Invalid account ceiling status''),
        voidR (py_text (JStr (gg_source g)) 256)]"

definition is_frontier :: "json \<Rightarrow> bool" where
  "is_frontier b \<longleftrightarrow> dget b ''frontier'' = JBool True"

definition global_denial :: "json \<Rightarrow> guardrails \<Rightarrow> string option" where
  "global_denial b g =
     (if \<not> is_frontier b then None
      else if gg_kill g \<or> \<not> gg_enabled g then Some ''global_frontier_disabled''
      else if gg_account g \<in> {''exhausted'', ''unknown''}
      then Some (if gg_account g = ''exhausted'' then ''global_budget_exhausted'' else ''global_guardrail_unknown'')
      else None)"

definition AUTHORITY_FIELDS :: "string list" where
  "AUTHORITY_FIELDS = [''version'', ''task_id'', ''bindings'', ''frontier_permitted'', ''approval_required'', ''approval_ref'', ''context_ref'',
     ''read_scope'', ''write_scope'', ''max_dispatches'', ''deadline_unix'', ''max_runtime_ms'']"

definition grant_scope :: "json \<Rightarrow> unit res" where
  "grant_scope scope =
     seqR (raise_if (\<not> is_list scope \<or> 8 < length (jlist scope)) (ValueError ''Invalid scope''))
       (forR (\<lambda>x. seqR (py_text x 128)
          (raise_if (py_contains ''*'' (jstr x) \<or> py_contains ''..'' (jstr x)) (ValueError ''No wildcard/traversal scopes''))) (jlist scope))"

definition check_authority :: "json \<Rightarrow> unit res" where
  "check_authority a =
     checks
       [raise_if (dget a ''version'' \<noteq> JInt 2) (ValueError ''Expected frontier authority v2; v1 is not silently migrated''),
        voidR (py_identifier (dget a ''task_id'')),
        raise_if (\<not> is_list (dget a ''bindings'') \<or> \<not> (1 \<le> length (lget a ''bindings'') \<and> length (lget a ''bindings'') \<le> 8))
          (ValueError ''Expected bounded approved bindings''),
        raise_if (\<not> distinct (map (\<lambda>b. dget b ''binding_id'') (lget a ''bindings''))) (ValueError ''Duplicate binding identity''),
        raise_if (dget a ''frontier_permitted'' \<notin> range JBool \<or> dget a ''approval_required'' \<notin> range JBool) (ValueError ''Invalid permission''),
        (if dget a ''approval_ref'' = JNull then Inr () else voidR (py_text (dget a ''approval_ref'') 256)),
        raise_if (\<not> is_str (dget a ''context_ref'') \<or> map_option fst (match_ref (sget a ''context_ref'')) \<noteq> Some (sget a ''task_id''))
          (ValueError ''Context must be an exact Task artifact''),
        forR (\<lambda>k. grant_scope (dget a k)) [''read_scope'', ''write_scope''],
        forR (\<lambda>k. nonnegative (dget a k)) [''max_dispatches'', ''deadline_unix'', ''max_runtime_ms''],
        raise_if (16 < jint (dget a ''max_dispatches'')) (ValueError ''Invalid bounded dispatch grant'')]"

text \<open>\<open>{**v, k: tuple (v[k]), ...}\<close>.\<close>

definition retuple :: "string list \<Rightarrow> json \<Rightarrow> json res" where
  "retuple ks v =
     (if \<not> is_dict v then Inl (TypeError ''object is not a mapping'')
      else foldR (\<lambda>w k. bindR (item v k) (\<lambda>x. bindR (py_iter x) (\<lambda>xs. Inr (dset w k (JList xs))))) v ks)"

definition binding_from_json :: "(string \<Rightarrow> bool) \<Rightarrow> json \<Rightarrow> json res" where
  "binding_from_json netloc_ok b = bindR (retuple [''capabilities'', ''native_controls''] b) (make_binding netloc_ok)"

definition authority_from_json :: "(string \<Rightarrow> bool) \<Rightarrow> json \<Rightarrow> json res" where
  "authority_from_json netloc_ok raw =
     (if \<not> is_dict raw then Inl (TypeError ''object is not a mapping'')
      else bindR (item raw ''bindings'') (\<lambda>bs. bindR (py_iter bs) (\<lambda>bs.
        bindR (mapR (binding_from_json netloc_ok) bs) (\<lambda>bindings.
        bindR (retuple [''read_scope'', ''write_scope''] (dset raw ''bindings'' (JList bindings))) (\<lambda>scoped.
        bindR (item raw ''required_native_limits'') (\<lambda>l. bindR (make_limits l) (\<lambda>limits.
        bindR (kwargs (dset scoped ''required_native_limits'' limits) (AUTHORITY_FIELDS @ [''required_native_limits'']) []) (\<lambda>a.
        seqR (check_authority a) (Inr a)))))))))"

subsection \<open>Dispatch slots\<close>

record dispatch_budget =
  db_dispatches :: int
  db_completed :: int
  db_pending :: "string list"
  db_settled :: "string list"

definition db_ids :: "dispatch_budget \<Rightarrow> string list" where
  "db_ids b = db_pending b @ db_settled b"

definition check_budget :: "dispatch_budget \<Rightarrow> unit res" where
  "check_budget b =
     checks
       [raise_if (db_dispatches b < 0 \<or> db_completed b < 0) (ValueError ''Expected nonnegative integer''),
        raise_if (16 < length (db_ids b) \<or> \<not> distinct (db_ids b) \<or> db_dispatches b \<noteq> int (length (db_ids b))
            \<or> int (length (db_settled b)) < db_completed b) (ValueError ''Inconsistent dispatch state''),
        forR (\<lambda>x. py_text (JStr x) 128) (db_ids b)]"

definition no_dispatches :: dispatch_budget where
  "no_dispatches = \<lparr>db_dispatches = 0, db_completed = 0, db_pending = [], db_settled = []\<rparr>"

definition identities :: "json list \<Rightarrow> string list res" where
  "identities = mapR (\<lambda>x. if is_str x then Inr (jstr x) else Inl (ValueError ''Expected bounded nonblank text''))"

definition budget_from_json :: "json \<Rightarrow> dispatch_budget res" where
  "budget_from_json raw =
     bindR (retuple [''pending'', ''settled''] raw) (\<lambda>v.
     bindR (kwargs v [] [(''dispatches'', JInt 0), (''completed_effects'', JInt 0), (''pending'', JList []), (''settled'', JList [])]) (\<lambda>w.
     seqR (nonnegative (dget w ''dispatches'')) (seqR (nonnegative (dget w ''completed_effects''))
     (bindR (identities (lget w ''pending'')) (\<lambda>pending. bindR (identities (lget w ''settled'')) (\<lambda>settled.
      let b = \<lparr>db_dispatches = jint (dget w ''dispatches''), db_completed = jint (dget w ''completed_effects''), db_pending = pending, db_settled = settled\<rparr> in
      seqR (check_budget b) (Inr b)))))))"

subsection \<open>Authorization\<close>

record authorized =
  rq_version :: int
  rq_task_id :: string
  rq_dispatch_id :: string
  rq_authority_digest :: string
  rq_binding :: json
  rq_context_ref :: string
  rq_context :: projected
  rq_context_digest :: string
  rq_read_scope :: "json list"
  rq_write_scope :: "json list"
  rq_deadline :: int
  rq_runtime_ms :: int
  rq_limits :: json
  rq_hints :: json

definition proposal_message :: "json \<Rightarrow> json" where
  "proposal_message payload = JObj [(''version'', JInt 2), (''kind'', JStr ''FrontierProposal''), (''payload'', payload)]"

definition proposal_scope :: "json \<Rightarrow> unit res" where
  "proposal_scope v =
     seqR (raise_if (\<not> is_list v \<or> 8 < length (jlist v)) (ValueError ''Invalid scope'')) (forR (\<lambda>x. py_text x 128) (jlist v))"

definition check_proposal :: "json \<Rightarrow> (json \<times> json) res" where
  "check_proposal proposal =
     bindR (py_fields proposal [''version'', ''kind'', ''payload''] []) (\<lambda>envelope.
     seqR (raise_if (dget envelope ''version'' \<noteq> JInt 2 \<or> dget envelope ''kind'' \<noteq> JStr ''FrontierProposal'' \<or> MAX_PACKET < length (encode proposal))
       (ValueError ''Unsupported frontier proposal''))
     (bindR (py_fields (dget envelope ''payload'') [''task_id'', ''binding_id'', ''provider'', ''model'', ''destination'', ''context_ref'', ''read_scope'', ''write_scope'',
         ''runtime_ms''] [''usage_hints'']) (\<lambda>v.
      seqR (forR (\<lambda>k. py_text (dget v k) 256) [''task_id'', ''binding_id'', ''provider'', ''model'', ''destination'', ''context_ref''])
      (seqR (forR (\<lambda>k. proposal_scope (dget v k)) [''read_scope'', ''write_scope''])
      (seqR (nonnegative (dget v ''runtime_ms''))
      (seqR (raise_if (dget v ''runtime_ms'' = JInt 0) (ValueError ''Positive runtime required''))
      (bindR (py_fields (dget_or v ''usage_hints'' (JObj [])) [] LIMITS) (\<lambda>h.
       bindR (make_limits h) (\<lambda>hints. Inr (v, hints))))))))))"

definition authority_digest :: "json \<Rightarrow> string" where
  "authority_digest a = sha256_hex (encode a)"

definition late_by :: "int \<Rightarrow> int \<Rightarrow> int \<Rightarrow> bool" where
  "late_by now_us runtime_ms deadline \<longleftrightarrow> deadline * 1000000 < now_us + runtime_ms * 1000"

definition needed_controls :: "json \<Rightarrow> string list" where
  "needed_controls limits = filter (\<lambda>k. dget limits k \<noteq> JNull) LIMITS"

text \<open>The denials that read the proposal, the grant and the clock, in the order of the code.\<close>

definition grant_denial :: "json \<Rightarrow> json \<Rightarrow> json \<Rightarrow> dispatch_budget \<Rightarrow> guardrails \<Rightarrow> int \<Rightarrow> projected \<Rightarrow> string option" where
  "grant_denial v a b slots g now_us context =
     (if is_frontier b \<and> dget a ''frontier_permitted'' \<noteq> JBool True then Some ''cloud_disabled''
      else case global_denial b g of Some r \<Rightarrow> Some r
      | None \<Rightarrow>
          if dget a ''approval_required'' = JBool True \<and> \<not> py_true (dget a ''approval_ref'') then Some ''approval_required''
          else if dget v ''provider'' \<noteq> dget b ''provider'' then Some ''provider_mismatch''
          else if dget v ''model'' \<noteq> dget b ''model'' then Some ''model_mismatch''
          else if dget v ''destination'' \<noteq> dget b ''destination'' then Some ''egress_denied''
          else if dget v ''context_ref'' \<noteq> dget a ''context_ref'' \<or> dget a ''context_ref'' \<noteq> JStr (pc_ref context) then Some ''context_denied''
          else if \<not> set (lget v ''read_scope'') \<subseteq> set (lget a ''read_scope'') \<or> \<not> set (lget v ''write_scope'') \<subseteq> set (lget a ''write_scope'')
          then Some ''scope_escalation''
          else if jint (dget a ''deadline_unix'') * 1000000 \<le> now_us then Some ''deadline_expired''
          else if jint (dget a ''max_runtime_ms'') < jint (dget v ''runtime_ms'') \<or> late_by now_us (jint (dget v ''runtime_ms'')) (jint (dget a ''deadline_unix''))
          then Some ''runtime_limit''
          else if jint (dget a ''max_dispatches'') \<le> db_dispatches slots then Some ''dispatch_budget_exhausted''
          else if \<not> JStr ` set (needed_controls (dget a ''required_native_limits'')) \<subseteq> set (lget b ''native_controls'')
          then Some ''required_native_control_unavailable''
          else None)"

definition denied :: "string \<Rightarrow> (json \<times> authorized option) res" where
  "denied reason = Inr (JObj [(''outcome'', JStr ''deny''), (''reason_category'', JStr reason)], None)"

definition dispatch_request :: "json \<Rightarrow> json \<Rightarrow> json \<Rightarrow> json \<Rightarrow> string \<Rightarrow> projected \<Rightarrow> authorized" where
  "dispatch_request v hints a b decision_id context =
     \<lparr>rq_version = 3, rq_task_id = sget a ''task_id'', rq_dispatch_id = ''dispatch:'' @ decision_id, rq_authority_digest = authority_digest a,
      rq_binding = b, rq_context_ref = sget a ''context_ref'', rq_context = context, rq_context_digest = pc_digest context,
      rq_read_scope = lget v ''read_scope'', rq_write_scope = lget v ''write_scope'', rq_deadline = jint (dget a ''deadline_unix''),
      rq_runtime_ms = jint (dget v ''runtime_ms''), rq_limits = dget a ''required_native_limits'', rq_hints = hints\<rparr>"

definition authorize ::
  "json \<Rightarrow> json \<Rightarrow> dispatch_budget \<Rightarrow> guardrails \<Rightarrow> task_state \<Rightarrow> json \<Rightarrow> json \<Rightarrow> int \<Rightarrow> projected option \<Rightarrow> (json \<times> authorized option) res" where
  "authorize proposal a slots g state spec decision now_us context =
     (if \<not> valid_projection context (sget a ''task_id'') then denied ''context_not_projected''
      else case check_proposal proposal of
        Inl e \<Rightarrow> if is_value_error e \<or> is_type_error e then denied ''invalid_proposal'' else Inl e
      | Inr (v, hints) \<Rightarrow>
          if dget v ''task_id'' \<noteq> dget a ''task_id'' \<or> JStr (ts_task_id state) \<noteq> dget a ''task_id'' then denied ''task_mismatch''
          else case find (\<lambda>b. dget b ''binding_id'' = dget v ''binding_id'') (lget a ''bindings'') of
            None \<Rightarrow> denied ''binding_denied''
          | Some b \<Rightarrow>
              (case grant_denial v a b slots g now_us (the context) of
                 Some reason \<Rightarrow> denied reason
               | None \<Rightarrow>
                   bindR (policy_gate decision state spec None None None) (\<lambda>verdict.
                   if dget verdict ''outcome'' \<noteq> JStr ''allow''
                     \<or> dget (dget (dget decision ''payload'') ''next_action'') ''capability'' \<noteq> JStr ''worker.run''
                   then denied ''task_policy_denied''
                   else case ts_decision_id state of
                     None \<Rightarrow> Inl (TypeError ''can only concatenate str (not NoneType) to str'')
                   | Some d \<Rightarrow> Inr (JObj [(''outcome'', JStr ''allow''), (''reason_category'', JStr ''admitted'')],
                       Some (dispatch_request v hints a b d (the context))))))"

definition reserve :: "dispatch_budget \<Rightarrow> authorized \<Rightarrow> dispatch_budget res" where
  "reserve slots rq =
     (let i = rq_dispatch_id rq in
      if i \<in> set (db_ids slots) then Inr slots
      else let s = slots\<lparr>db_dispatches := db_dispatches slots + 1, db_pending := db_pending slots @ [i]\<rparr> in seqR (check_budget s) (Inr s))"

definition settle_dispatch :: "dispatch_budget \<Rightarrow> authorized \<Rightarrow> string \<Rightarrow> dispatch_budget res" where
  "settle_dispatch slots rq outcome =
     (let i = rq_dispatch_id rq in
      if i \<in> set (db_settled slots) then Inr slots
      else if i \<notin> set (db_pending slots) then Inl (ValueError ''Dispatch was not reserved'')
      else if outcome = ''unknown'' then Inr slots
      else if outcome \<notin> {''executed'', ''not_executed''} then Inl (ValueError ''Unknown outcome'')
      else let s = slots\<lparr>db_pending := filter (\<lambda>x. x \<noteq> i) (db_pending slots), db_settled := db_settled slots @ [i],
               db_completed := db_completed slots + (if outcome = ''executed'' then 1 else 0)\<rparr> in seqR (check_budget s) (Inr s))"

subsection \<open>The guarded call of the provider\<close>

definition check_amount :: "string \<times> json \<Rightarrow> unit res" where
  "check_amount x =
     (case x of (key, amount) \<Rightarrow>
        if key = ''model_call_ids'' then
          seqR (raise_if (\<not> is_list amount \<or> 16 < length (jlist amount)) (ValueError ''Unbounded model call identities''))
            (forR (\<lambda>i. py_text i 128) (jlist amount))
        else if amount = JNull then Inr () else nonnegative amount)"

definition validate_usage :: "json \<Rightarrow> json res" where
  "validate_usage v =
     bindR (py_fields v [] (LIMITS @ [''model_call_ids''])) (\<lambda>usage.
     seqR (forR check_amount (jitems usage))
     (let ids = dget_or usage ''model_call_ids'' (JList []) in
      seqR (raise_if (dget usage ''model_calls'' \<noteq> JNull \<and> jint (dget usage ''model_calls'') < int (length (jlist ids)))
        (ValueError ''Inconsistent observed usage''))
      (Inr (JObj (map (\<lambda>k. (k, dget usage k)) LIMITS @ [(''model_call_ids'', ids)])))))"

definition no_usage :: json where
  "no_usage = JObj (map (\<lambda>k. (k, JNull)) LIMITS @ [(''model_call_ids'', JList [])])"

definition not_run :: "string \<Rightarrow> json" where
  "not_run reason = JObj [(''status'', JStr ''not_executed''), (''content'', JStr []), (''provider_invoked'', JBool False),
     (''worker_session_id'', JNull), (''usage'', no_usage), (''reason_category'', JStr reason)]"

definition unknown_run :: json where
  "unknown_run = JObj [(''status'', JStr ''unknown''), (''content'', JStr []), (''provider_invoked'', JBool True),
     (''worker_session_id'', JNull), (''usage'', no_usage), (''reason_category'', JStr ''unknown_provider_outcome'')]"

definition PRODUCER :: "string list" where
  "PRODUCER = [''worker_family'', ''provider'', ''model'', ''destination'']"

definition ANSWER :: "string list" where
  "ANSWER = [''status'', ''content'', ''worker_session_id'', ''producer'', ''usage'']"

definition check_answer :: "json \<Rightarrow> json res" where
  "check_answer answer =
     bindR (py_fields answer ANSWER []) (\<lambda>raw.
     seqR (raise_if (dget raw ''status'' \<notin> {JStr ''executed'', JStr ''not_executed''}) (ValueError ''Unknown provider outcome''))
     (seqR (py_text (dget raw ''worker_session_id'') 128)
     (bindR (py_fields (dget raw ''producer'') PRODUCER []) (\<lambda>producer.
      seqR (forR (\<lambda>(_, v). py_text v 256) (jitems producer))
      (validate_usage (dget raw ''usage''))))))"

definition breached :: "json \<Rightarrow> json \<Rightarrow> bool" where
  "breached limits usage \<longleftrightarrow> list_ex (\<lambda>k. dget limits k \<noteq> JNull \<and> dget usage k \<noteq> JNull \<and> jint (dget limits k) < jint (dget usage k)) LIMITS"

definition check_content :: "json \<Rightarrow> unit res" where
  "check_content raw =
     (if dget raw ''status'' = JStr ''executed'' then voidR (py_text (dget raw ''content'') 2048)
      else raise_if (dget raw ''content'' \<noteq> JStr []) (ValueError ''Unexpected non-execution content''))"

definition updated :: "json \<Rightarrow> (string \<times> json) list \<Rightarrow> json" where
  "updated v kvs = JObj (dict_merge (jitems v) kvs)"

text \<open>What one answer of the provider makes of the result; every exception leaves the result as far as it got.\<close>

definition observe_answer :: "authorized \<Rightarrow> json \<Rightarrow> json" where
  "observe_answer rq raw =
     (case check_answer raw of
        Inl _ \<Rightarrow> unknown_run
      | Inr usage \<Rightarrow>
          let r = updated unknown_run [(''worker_session_id'', dget raw ''worker_session_id''), (''producer'', dget raw ''producer''), (''usage'', usage)] in
          if list_ex (\<lambda>k. dget (dget raw ''producer'') k \<noteq> dget (rq_binding rq) k) PRODUCER
          then updated r [(''reason_category'', JStr ''binding_mismatch'')]
          else if breached (rq_limits rq) usage then updated r [(''reason_category'', JStr ''native_limit_violation'')]
          else case check_content raw of
            Inl _ \<Rightarrow> r
          | Inr _ \<Rightarrow> updated r (map (\<lambda>k. (k, dget raw k)) ANSWER @ [(''usage'', usage), (''reason_category'', JStr ''observed_result'')]))"

definition still_granted :: "authorized \<Rightarrow> json \<Rightarrow> bool" where
  "still_granted rq a \<longleftrightarrow> valid_projection (Some (rq_context rq)) (sget a ''task_id'') \<and> JStr (rq_task_id rq) = dget a ''task_id''
     \<and> rq_authority_digest rq = authority_digest a \<and> JStr (rq_context_ref rq) = dget a ''context_ref''
     \<and> JStr (pc_ref (rq_context rq)) = dget a ''context_ref'' \<and> rq_context_digest rq = pc_digest (rq_context rq)"

definition invoke :: "authorized \<Rightarrow> (authorized \<Rightarrow> json res) \<Rightarrow> guardrails \<Rightarrow> json \<Rightarrow> int \<Rightarrow> int \<Rightarrow> json res" where
  "invoke rq dispatch g a now_us elapsed_ms =
     (if rq_version rq \<noteq> 3 then Inl (ValueError ''Authorized projected-context request v3 required'')
      else if \<not> still_granted rq a then Inr (dset (not_run ''context_authorization_mismatch'') ''runtime_ms'' (JInt 0))
      else case global_denial (rq_binding rq) g of
        Some denial \<Rightarrow> Inr (dset (not_run denial) ''runtime_ms'' (JInt 0))
      | None \<Rightarrow>
          if late_by now_us (rq_runtime_ms rq) (rq_deadline rq) then Inr (dset (not_run ''deadline_expired'') ''runtime_ms'' (JInt 0))
          else Inr (dset (case dispatch rq of Inl _ \<Rightarrow> unknown_run | Inr raw \<Rightarrow> observe_answer rq raw) ''runtime_ms'' (JInt (max 0 elapsed_ms))))"

definition usage_record :: "authorized \<Rightarrow> json \<Rightarrow> json" where
  "usage_record rq result = JObj
     ([(''version'', JInt 2), (''task_id'', JStr (rq_task_id rq)), (''worker_dispatch_id'', JStr (rq_dispatch_id rq)), (''binding'', rq_binding rq),
       (''worker_session_id'', dget result ''worker_session_id''), (''status'', dget result ''status''), (''provider_invoked'', dget result ''provider_invoked''),
       (''runtime_ms'', dget result ''runtime_ms''), (''usage'', dget result ''usage''), (''accounting_mode'', JStr ''observed_only'')]
      @ (if has_key result ''producer'' then [(''observed_producer'', dget result ''producer'')] else []))"

definition record_usage :: "(string \<times> json) list \<Rightarrow> authorized \<Rightarrow> json \<Rightarrow> (string \<times> json) list res" where
  "record_usage ledger rq result =
     (let i = rq_dispatch_id rq; r = usage_record rq result in
      case map_of ledger i of
        Some old \<Rightarrow> if \<not> py_eq old r then Inl (ValueError ''Conflicting accounting identity'') else Inr ledger
      | None \<Rightarrow> if 16 \<le> length ledger then Inl (ValueError ''Bounded accounting record limit'') else Inr (ledger @ [(i, r)]))"

subsection \<open>Suitability\<close>

record workload =
  wl_capabilities :: "json list"
  wl_minimum :: int

definition check_workload :: "workload \<Rightarrow> unit res" where
  "check_workload w =
     checks
       [raise_if (wl_minimum w < 0) (ValueError ''Expected nonnegative integer''),
        raise_if (\<not> (1 \<le> length (wl_capabilities w) \<and> length (wl_capabilities w) \<le> 8)) (ValueError ''Bounded capability requirements required''),
        forR (\<lambda>c. py_text c 128) (wl_capabilities w)]"

record assessment =
  am_binding_id :: json
  am_suitability :: string
  am_rank :: int
  am_reason :: string

definition make_assessment :: "json \<Rightarrow> string \<Rightarrow> int \<Rightarrow> string \<Rightarrow> assessment res" where
  "make_assessment binding_id suitability ordinal reason =
     seqR (checks
       [raise_if (suitability \<notin> {''UNDERPOWERED'', ''JUST_RIGHT'', ''OVERKILL''}) (ValueError ''Unknown suitability''),
        raise_if (ordinal < 0) (ValueError ''Expected nonnegative integer''),
        voidR (py_text binding_id 128), voidR (py_text (JStr reason) 256)])
     (Inr \<lparr>am_binding_id = binding_id, am_suitability = suitability, am_rank = ordinal, am_reason = reason\<rparr>)"

definition scripted_assess :: "(string \<times> int) list \<Rightarrow> workload \<Rightarrow> json \<Rightarrow> assessment res" where
  "scripted_assess ranks w b =
     (let sufficient = (set (wl_capabilities w) \<subseteq> set (lget b ''capabilities'') \<and> wl_minimum w \<le> jint (dget b ''quality''));
          suitability = (if \<not> sufficient then ''UNDERPOWERED'' else if jint (dget b ''quality'') = wl_minimum w then ''JUST_RIGHT'' else ''OVERKILL'') in
      case map_of ranks (sget b ''binding_id'') of
        None \<Rightarrow> Inl (KeyError (py_repr (sget b ''binding_id'')))
      | Some r \<Rightarrow> make_assessment (dget b ''binding_id'') suitability r ''Scripted capability/quality threshold; ordinal expected cost-to-success'')"

record candidate =
  ca_binding :: json
  ca_assessment :: assessment
  ca_authorization :: json

definition assess_candidate :: "(json \<Rightarrow> assessment res) \<Rightarrow> (string \<times> json) list \<Rightarrow> json \<Rightarrow> candidate res" where
  "assess_candidate classify authorization b =
     bindR (classify b) (\<lambda>x.
     seqR (raise_if (am_binding_id x \<noteq> dget b ''binding_id'') (ValueError ''Classifier changed binding identity''))
     (case map_of authorization (sget b ''binding_id'') of
        None \<Rightarrow> Inl (KeyError (py_repr (sget b ''binding_id'')))
      | Some v \<Rightarrow> Inr \<lparr>ca_binding = b, ca_assessment = x, ca_authorization = v\<rparr>))"

definition is_adequate :: "candidate \<Rightarrow> bool" where
  "is_adequate c \<longleftrightarrow> am_suitability (ca_assessment c) \<noteq> ''UNDERPOWERED'' \<and> dget (ca_authorization c) ''outcome'' = JStr ''allow''"

definition check_outcome :: "candidate \<Rightarrow> unit res" where
  "check_outcome c = (if am_suitability (ca_assessment c) = ''UNDERPOWERED'' then Inr () else voidR (item (ca_authorization c) ''outcome''))"

definition candidate_key :: "candidate \<Rightarrow> bool \<times> int \<times> string" where
  "candidate_key c = (is_frontier (ca_binding c), am_rank (ca_assessment c), sget (ca_binding c) ''binding_id'')"

text \<open>\<open>min\<close>: the first candidate with the least key.\<close>

fun min_candidate :: "candidate \<Rightarrow> candidate list \<Rightarrow> candidate" where
  "min_candidate c [] = c"
| "min_candidate c (d # ds) = min_candidate (if candidate_key d < candidate_key c then d else c) ds"

definition best_candidate :: "candidate list \<Rightarrow> candidate option" where
  "best_candidate cs = (case filter is_adequate cs of [] \<Rightarrow> None | c # ds \<Rightarrow> Some (min_candidate c ds))"

definition assessment_json :: "assessment \<Rightarrow> json" where
  "assessment_json x = JObj [(''binding_id'', am_binding_id x), (''suitability'', JStr (am_suitability x)),
     (''cost_to_success_rank'', JInt (am_rank x)), (''reason'', JStr (am_reason x))]"

definition selection :: "workload \<Rightarrow> candidate list \<Rightarrow> candidate option \<Rightarrow> json" where
  "selection w cs chosen = JObj
     [(''version'', JInt 1), (''workload'', JObj [(''capabilities'', JList (wl_capabilities w)), (''minimum_quality'', JInt (wl_minimum w))]),
      (''candidates'', JList (map (\<lambda>c. JObj [(''binding'', ca_binding c), (''assessment'', assessment_json (ca_assessment c)),
         (''authorization'', ca_authorization c)]) cs)),
      (''outcome'', JStr (if chosen = None then ''STOP_OR_ESCALATE'' else ''selected'')),
      (''selected_binding'', (case chosen of None \<Rightarrow> JNull | Some c \<Rightarrow> dget (ca_binding c) ''binding_id'')),
      (''classification_source'', JStr ''scripted recommendation; not authority or measured pricing'')]"

definition select_binding :: "workload \<Rightarrow> json list \<Rightarrow> (json \<Rightarrow> assessment res) \<Rightarrow> (string \<times> json) list \<Rightarrow> json res" where
  "select_binding w bindings classify authorization =
     seqR (raise_if (\<not> (1 \<le> length bindings \<and> length bindings \<le> 8) \<or> \<not> distinct (map (\<lambda>b. dget b ''binding_id'') bindings))
       (ValueError ''Expected unique bounded candidates''))
     (bindR (mapR (assess_candidate classify authorization) bindings) (\<lambda>cs.
      seqR (forR check_outcome cs) (Inr (selection w cs (best_candidate cs)))))"

subsection \<open>What an authorization establishes\<close>

lemma grant_denial_None:
  assumes "grant_denial v a b slots g now_us p = None"
  shows "is_frontier b \<Longrightarrow> dget a ''frontier_permitted'' = JBool True" "global_denial b g = None"
    "dget a ''approval_required'' = JBool True \<Longrightarrow> py_true (dget a ''approval_ref'')"
    "dget v ''provider'' = dget b ''provider''" "dget v ''model'' = dget b ''model''" "dget v ''destination'' = dget b ''destination''"
    "dget a ''context_ref'' = JStr (pc_ref p)"
    "set (lget v ''read_scope'') \<subseteq> set (lget a ''read_scope'')" "set (lget v ''write_scope'') \<subseteq> set (lget a ''write_scope'')"
    "now_us < jint (dget a ''deadline_unix'') * 1000000" "jint (dget v ''runtime_ms'') \<le> jint (dget a ''max_runtime_ms'')"
    "\<not> late_by now_us (jint (dget v ''runtime_ms'')) (jint (dget a ''deadline_unix''))"
    "db_dispatches slots < jint (dget a ''max_dispatches'')"
    "JStr ` set (needed_controls (dget a ''required_native_limits'')) \<subseteq> set (lget b ''native_controls'')"
  using assms unfolding grant_denial_def by (auto split: if_splits option.splits)

lemma check_proposal_runtime: "check_proposal p = Inr (v, h) \<Longrightarrow> 0 < jint (dget v ''runtime_ms'')"
  by (auto simp: check_proposal_def bindR_eq_Inr raise_if_eq_Inr nonnegative_def is_int_iff)

lemma authorize_Some:
  assumes "authorize proposal a slots g state spec decision now_us context = Inr (verdict, Some rq)"
  obtains v hints b p d where "context = Some p" "valid_projection context (sget a ''task_id'')" "check_proposal proposal = Inr (v, hints)"
    "dget v ''task_id'' = dget a ''task_id''" "dget a ''task_id'' = JStr (ts_task_id state)"
    "b \<in> set (lget a ''bindings'')" "dget b ''binding_id'' = dget v ''binding_id''"
    "grant_denial v a b slots g now_us p = None" "policy_gate decision state spec None None None = Inr allow_verdict"
    "dget (dget (dget decision ''payload'') ''next_action'') ''capability'' = JStr ''worker.run''"
    "ts_decision_id state = Some d" "rq = dispatch_request v hints a b d p" "dget verdict ''outcome'' = JStr ''allow''"
proof -
  from assms have vp: "valid_projection context (sget a ''task_id'')" by (auto simp: authorize_def denied_def split: if_splits)
  then obtain p where p: "context = Some p" by (auto simp: valid_projection_def split: option.splits)
  from assms vp obtain v hints where c: "check_proposal proposal = Inr (v, hints)"
    by (auto simp: authorize_def denied_def split: if_splits sum.splits)
  from assms vp c have t: "dget v ''task_id'' = dget a ''task_id''" "dget a ''task_id'' = JStr (ts_task_id state)"
    by (auto simp: authorize_def denied_def split: if_splits)
  from assms vp c t obtain b where f: "find (\<lambda>b. dget b ''binding_id'' = dget v ''binding_id'') (lget a ''bindings'') = Some b"
    by (auto simp: authorize_def denied_def split: option.splits)
  then have b: "b \<in> set (lget a ''bindings'')" "dget b ''binding_id'' = dget v ''binding_id''"
    by (auto simp: find_Some_iff)
  from assms vp c t f p have n: "grant_denial v a b slots g now_us p = None"
    by (auto simp: authorize_def denied_def split: option.splits)
  from assms vp c t f p n obtain w where w: "policy_gate decision state spec None None None = Inr w" and a: "dget w ''outcome'' = JStr ''allow''"
    "dget (dget (dget decision ''payload'') ''next_action'') ''capability'' = JStr ''worker.run''"
    by (auto simp: authorize_def denied_def bindR_eq_Inr split: if_splits)
  from w a(1) have "w = allow_verdict"
    by (auto simp: policy_gate_def deny_verdict_def dget_def split: sum.splits if_splits)
  moreover from assms vp c t f p n w a obtain d where "ts_decision_id state = Some d" "rq = dispatch_request v hints a b d p" "dget verdict ''outcome'' = JStr ''allow''"
    by (auto simp: authorize_def dget_def split: option.splits)
  ultimately show thesis using that p vp c t b n w a by blast
qed

text \<open>
  What the request may ask for, written from the two documents it joins. Of the grant: its Task, its digest, its
  context reference, its deadline and the native limits it requires. Of the proposal: the binding by name, with
  the provider, model and destination that binding has, the scopes, the runtime and the usage hints.
\<close>

definition as_granted :: "json \<Rightarrow> string \<Rightarrow> authorized \<Rightarrow> bool" where
  "as_granted a decision_id rq \<longleftrightarrow>
     rq_version rq = 3 \<and> JStr (rq_task_id rq) = dget a ''task_id'' \<and> rq_dispatch_id rq = ''dispatch:'' @ decision_id
     \<and> rq_authority_digest rq = sha256_hex (encode a) \<and> JStr (rq_context_ref rq) = dget a ''context_ref''
     \<and> rq_context_ref rq = pc_ref (rq_context rq) \<and> rq_context_digest rq = sha256_hex (pc_content (rq_context rq))
     \<and> rq_deadline rq = jint (dget a ''deadline_unix'') \<and> rq_limits rq = dget a ''required_native_limits''"

definition as_proposed :: "json \<Rightarrow> authorized \<Rightarrow> bool" where
  "as_proposed proposal rq \<longleftrightarrow>
     (let v = dget proposal ''payload'' in
      dget v ''task_id'' = JStr (rq_task_id rq) \<and> dget v ''context_ref'' = JStr (rq_context_ref rq)
      \<and> list_all (\<lambda>k. dget v k = dget (rq_binding rq) k) [''binding_id'', ''provider'', ''model'', ''destination'']
      \<and> rq_read_scope rq = lget v ''read_scope'' \<and> rq_write_scope rq = lget v ''write_scope''
      \<and> dget v ''runtime_ms'' = JInt (rq_runtime_ms rq) \<and> make_limits (dget_or v ''usage_hints'' (JObj [])) = Inr (rq_hints rq))"

lemma check_proposal_Inr:
  assumes "check_proposal proposal = Inr (v, hints)"
  shows "v = dget proposal ''payload''" "make_limits (dget_or v ''usage_hints'' (JObj [])) = Inr hints"
    "dget v ''runtime_ms'' = JInt (jint (dget v ''runtime_ms''))"
  using assms by (auto simp: check_proposal_def bindR_eq_Inr py_fields_eq_Inr nonnegative_def raise_if_eq_Inr is_int_iff)

lemma dispatch_request_granted:
  assumes "dget a ''task_id'' = JStr t" "dget a ''context_ref'' = JStr (pc_ref p)" "pc_digest p = sha256_hex (pc_content p)"
  shows "as_granted a d (dispatch_request v hints a b d p)"
  using assms by (simp add: as_granted_def dispatch_request_def authority_digest_def)

lemma dispatch_request_proposed:
  assumes "check_proposal proposal = Inr (v, hints)" "grant_denial v a b slots g now_us p = None"
    "dget v ''task_id'' = dget a ''task_id''" "dget a ''task_id'' = JStr t" "dget b ''binding_id'' = dget v ''binding_id''"
  shows "as_proposed proposal (dispatch_request v hints a b d p)"
proof -
  have "dget v ''context_ref'' = dget a ''context_ref''" using assms(2) by (auto simp: grant_denial_def split: if_splits option.splits)
  with assms(3-5) grant_denial_None(4-7) [OF assms(2)] check_proposal_Inr [OF assms(1)] show ?thesis
    by (simp add: as_proposed_def dispatch_request_def)
qed

text \<open>
  C28. An authorized dispatch is within its grant, and it asks for nothing else. The binding is one of the approved ones, and a
  frontier binding is permitted, enabled and not stopped by the guardrails; a required approval is present; the
  context is a projection of this Task whose digest is that of its bounded content and whose reference the
  grant names; the scopes are within the granted ones; the runtime is positive, within the limit and ends before
  the deadline; a slot is free; every native control the request's limits need is available; and the policy gate
  allows this worker run. Every field of the request is fixed by the grant (\<open>as_granted\<close>: its digest, Task, deadline
  and native limits) or by the proposal (\<open>as_proposed\<close>: binding, scopes, runtime and usage hints), under the
  identity of the current decision.
\<close>

theorem authorize_sound:
  "case authorize proposal a slots g state spec decision now_us context of
     Inr (verdict, Some rq) \<Rightarrow>
       rq_binding rq \<in> set (lget a ''bindings'')
       \<and> (if is_frontier (rq_binding rq) then dget a ''frontier_permitted'' = JBool True \<and> gg_enabled g \<and> \<not> gg_kill g
            \<and> gg_account g \<notin> {''exhausted'', ''unknown''} else True)
       \<and> (if dget a ''approval_required'' = JBool True then py_true (dget a ''approval_ref'') else True)
       \<and> context = Some (rq_context rq) \<and> dget a ''context_ref'' = JStr (pc_ref (rq_context rq)) \<and> pc_task_id (rq_context rq) = ts_task_id state
       \<and> pc_digest (rq_context rq) = sha256_hex (pc_content (rq_context rq)) \<and> length (pc_content (rq_context rq)) \<le> 2048
       \<and> set (rq_read_scope rq) \<subseteq> set (lget a ''read_scope'') \<and> set (rq_write_scope rq) \<subseteq> set (lget a ''write_scope'')
       \<and> 0 < rq_runtime_ms rq \<and> rq_runtime_ms rq \<le> jint (dget a ''max_runtime_ms'')
       \<and> now_us + rq_runtime_ms rq * 1000 \<le> jint (dget a ''deadline_unix'') * 1000000
       \<and> db_dispatches slots < jint (dget a ''max_dispatches'')
       \<and> JStr ` set (filter (\<lambda>k. dget (rq_limits rq) k \<noteq> JNull) LIMITS) \<subseteq> set (lget (rq_binding rq) ''native_controls'')
       \<and> policy_gate decision state spec None None None = Inr allow_verdict
       \<and> dget (dget (dget decision ''payload'') ''next_action'') ''capability'' = JStr ''worker.run''
       \<and> rq_task_id rq = ts_task_id state \<and> as_proposed proposal rq
       \<and> (case ts_decision_id state of None \<Rightarrow> False | Some d \<Rightarrow> as_granted a d rq)
   | _ \<Rightarrow> True"
proof -
  have "?thesis" if "authorize proposal a slots g state spec decision now_us context = Inr (verdict, Some rq)" for verdict rq
    using that
  proof (rule authorize_Some)
    fix v hints b p d
    assume h: "context = Some p" "valid_projection context (sget a ''task_id'')" "check_proposal proposal = Inr (v, hints)"
      "dget v ''task_id'' = dget a ''task_id''" "dget b ''binding_id'' = dget v ''binding_id''"
      "dget a ''task_id'' = JStr (ts_task_id state)" "b \<in> set (lget a ''bindings'')" "grant_denial v a b slots g now_us p = None"
      "policy_gate decision state spec None None None = Inr allow_verdict"
      "dget (dget (dget decision ''payload'') ''next_action'') ''capability'' = JStr ''worker.run''"
      "ts_decision_id state = Some d" "rq = dispatch_request v hints a b d p"
    note n = grant_denial_None [OF h(8)]
    have g: "gg_enabled g \<and> \<not> gg_kill g \<and> gg_account g \<notin> {''exhausted'', ''unknown''}" if "is_frontier b"
      using n(2) that by (auto simp: global_denial_def split: if_splits)
    have vp: "pc_task_id p = ts_task_id state" "pc_digest p = sha256_hex (pc_content p)" "length (pc_content p) \<le> 2048"
      using h(2) by (auto simp: h(1) h(6) valid_projection_def is_ok_iff py_text_eq_Inr)
    from n(12) have late: "now_us + jint (dget v ''runtime_ms'') * 1000 \<le> jint (dget a ''deadline_unix'') * 1000000" by (simp add: late_by_def)
    have granted: "as_granted a d rq" unfolding h(12) by (rule dispatch_request_granted [OF h(6) n(7) vp(2)])
    have proposed: "as_proposed proposal rq" unfolding h(12) by (rule dispatch_request_proposed [OF h(3,8,4,6,5)])
    have fields: "rq_binding rq = b" "rq_context rq = p" "rq_read_scope rq = lget v ''read_scope''" "rq_write_scope rq = lget v ''write_scope''"
      "rq_runtime_ms rq = jint (dget v ''runtime_ms'')" "rq_limits rq = dget a ''required_native_limits''" "rq_task_id rq = ts_task_id state"
      by (simp_all add: h(12) dispatch_request_def h(6))
    from that h(1,7,9-11) n g vp late granted proposed check_proposal_runtime [OF h(3)] show ?thesis
      by (simp add: fields needed_controls_def)
  qed
  then show ?thesis by (auto split: sum.splits option.splits prod.splits)
qed

subsection \<open>Dispatch slots are bounded and never freed\<close>

datatype slot_op =
    Dispatched json guardrails task_state json json int "projected option"
  | Concluded authorized string

fun slot_step :: "json \<Rightarrow> dispatch_budget \<Rightarrow> slot_op \<Rightarrow> dispatch_budget" where
  "slot_step a s (Dispatched proposal g state spec decision now_us context) =
     (case authorize proposal a s g state spec decision now_us context of
        Inr (_, Some rq) \<Rightarrow> (case reserve s rq of Inr s' \<Rightarrow> s' | Inl _ \<Rightarrow> s)
      | _ \<Rightarrow> s)"
| "slot_step a s (Concluded rq outcome) = (case settle_dispatch s rq outcome of Inr s' \<Rightarrow> s' | Inl _ \<Rightarrow> s)"

definition slots_ok :: "json \<Rightarrow> dispatch_budget \<Rightarrow> bool" where
  "slots_ok a s \<longleftrightarrow> check_budget s = Inr () \<and> db_dispatches s \<le> max 0 (jint (dget a ''max_dispatches''))"

definition slots_kept :: "dispatch_budget \<Rightarrow> dispatch_budget \<Rightarrow> bool" where
  "slots_kept s s' \<longleftrightarrow> set (db_ids s) \<subseteq> set (db_ids s') \<and> set (db_settled s) \<subseteq> set (db_settled s') \<and> db_completed s \<le> db_completed s'"

lemma check_budget_Inr:
  assumes "check_budget b = Inr ()"
  shows "distinct (db_ids b)" "length (db_ids b) \<le> 16" "db_dispatches b = int (length (db_ids b))" "db_completed b \<le> int (length (db_settled b))"
  using assms by (auto simp: check_budget_def bindR_eq_Inr raise_if_eq_Inr)

lemma reserve_Inr: "reserve s rq = Inr s' \<Longrightarrow> s' = s \<or> check_budget s' = Inr () \<and> db_dispatches s' = db_dispatches s + 1"
  by (auto simp: reserve_def Let_def bindR_eq_Inr split: if_splits)

lemma reserve_kept: "reserve s rq = Inr s' \<Longrightarrow> slots_kept s s'"
  by (auto simp: reserve_def Let_def bindR_eq_Inr slots_kept_def db_ids_def split: if_splits)

lemma settle_Inr: "settle_dispatch s rq o' = Inr s' \<Longrightarrow> s' = s \<or> check_budget s' = Inr () \<and> db_dispatches s' = db_dispatches s"
  by (auto simp: settle_dispatch_def Let_def bindR_eq_Inr split: if_splits)

lemma settle_kept: "settle_dispatch s rq o' = Inr s' \<Longrightarrow> slots_kept s s'"
  by (auto simp: settle_dispatch_def Let_def bindR_eq_Inr slots_kept_def db_ids_def split: if_splits)

lemma slot_step_ok: "slots_ok a s \<Longrightarrow> slots_ok a (slot_step a s op)"
proof (cases op)
  case (Dispatched proposal g state spec decision now_us cx)
  assume ok: "slots_ok a s"
  show ?thesis
  proof (cases "authorize proposal a s g state spec decision now_us cx")
    case (Inr x)
    show ?thesis
    proof (cases "snd x")
      case (Some rq)
      then obtain verdict where x: "authorize proposal a s g state spec decision now_us cx = Inr (verdict, Some rq)"
        using Inr by (cases x) auto
      then have "db_dispatches s < jint (dget a ''max_dispatches'')"
        by (rule authorize_Some) (rule grant_denial_None(13))
      with ok x reserve_Inr [of s rq] show ?thesis by (auto simp: Dispatched slots_ok_def split: sum.splits)
    qed (use ok Inr in \<open>(cases x, simp add: Dispatched)\<close>)
  qed (use ok in \<open>simp add: Dispatched\<close>)
next
  case (Concluded rq outcome)
  assume "slots_ok a s"
  with settle_Inr [of s rq outcome] show ?thesis by (auto simp: Concluded slots_ok_def split: sum.splits)
qed

lemma slot_step_kept: "slots_kept s (slot_step a s op)"
proof -
  have "slots_kept s s" by (simp add: slots_kept_def)
  then show ?thesis
    by (cases op) (auto split: sum.splits prod.splits option.splits dest: reserve_kept settle_kept)
qed

lemma slots_kept_trans: "slots_kept s t \<Longrightarrow> slots_kept t u \<Longrightarrow> slots_kept s u"
  by (auto simp: slots_kept_def)

lemma slot_steps_kept: "slots_kept s (foldl (slot_step a) s ops)"
proof (induction ops arbitrary: s)
  case (Cons op ops)
  from slots_kept_trans [OF slot_step_kept Cons.IH] show ?case by simp
qed (simp add: slots_kept_def)

lemma slot_steps_ok: "slots_ok a s \<Longrightarrow> slots_ok a (foldl (slot_step a) s ops)"
  by (induction ops arbitrary: s) (simp_all add: slot_step_ok)

text \<open>
  Dispatch slots are a hard bound. Under one grant, whatever is proposed, authorized, reserved and concluded in
  whatever order, the slots stay consistent: at most the granted number of dispatch identities, all
  distinct, and no more completed effects than settled dispatches. Nothing gives a slot back: an
  identity once reserved is counted for ever and a settled one stays settled.
\<close>

lemma slots_bounded:
  "let s = foldl (slot_step a) no_dispatches ops; s' = foldl (slot_step a) s later in
     check_budget s = Inr () \<and> distinct (db_ids s) \<and> int (length (db_ids s)) \<le> max 0 (jint (dget a ''max_dispatches''))
     \<and> length (db_ids s) \<le> 16 \<and> db_completed s \<le> int (length (db_settled s))
     \<and> set (db_ids s) \<subseteq> set (db_ids s') \<and> set (db_settled s) \<subseteq> set (db_settled s') \<and> db_completed s \<le> db_completed s'"
proof -
  let ?s = "foldl (slot_step a) no_dispatches ops"
  have "slots_ok a no_dispatches" by (simp add: slots_ok_def no_dispatches_def check_budget_def db_ids_def raise_if_def)
  then have ok: "slots_ok a ?s" by (rule slot_steps_ok)
  then have c: "check_budget ?s = Inr ()" by (simp add: slots_ok_def)
  from ok check_budget_Inr [OF c] slot_steps_kept [of ?s a later] show ?thesis
    unfolding slots_ok_def slots_kept_def Let_def by simp
qed

subsection \<open>The provider answers within the grant or not at all\<close>

lemma dget_updated: "dget (updated v kvs) k = (case map_of (rev kvs) k of None \<Rightarrow> dget v k | Some w \<Rightarrow> w)"
  by (simp add: updated_def dget_def map_of_dict_merge split: option.splits)

lemma observe_answer_executed:
  assumes e: "dget (observe_answer rq raw) ''status'' = JStr ''executed''"
  shows "list_all (\<lambda>k. dget (dget (observe_answer rq raw) ''producer'') k = dget (rq_binding rq) k) PRODUCER
    \<and> \<not> breached (rq_limits rq) (dget (observe_answer rq raw) ''usage'')
    \<and> dget (observe_answer rq raw) ''content'' = dget raw ''content'' \<and> is_ok (py_text (dget raw ''content'') 2048)"
proof -
  have unknown: "dget unknown_run ''status'' = JStr ''unknown''" by (simp add: unknown_run_def dget_def)
  then obtain usage where u: "check_answer raw = Inr usage" using e by (auto simp: observe_answer_def split: sum.splits)
  let ?r = "updated unknown_run [(''worker_session_id'', dget raw ''worker_session_id''), (''producer'', dget raw ''producer''), (''usage'', usage)]"
  have r: "dget (updated ?r [(''reason_category'', v)]) ''status'' = JStr ''unknown''" "dget ?r ''status'' = JStr ''unknown''" for v
    by (simp_all add: dget_updated unknown)
  from e u r have p: "\<not> list_ex (\<lambda>k. dget (dget raw ''producer'') k \<noteq> dget (rq_binding rq) k) PRODUCER"
    and b: "\<not> breached (rq_limits rq) usage" and c: "check_content raw = Inr ()"
    by (auto simp: observe_answer_def Let_def split: if_splits sum.splits)
  have o': "observe_answer rq raw = updated ?r (map (\<lambda>k. (k, dget raw k)) ANSWER @ [(''usage'', usage), (''reason_category'', JStr ''observed_result'')])"
    using u p b c by (simp add: observe_answer_def Let_def)
  then have "dget (observe_answer rq raw) ''producer'' = dget raw ''producer''" "dget (observe_answer rq raw) ''usage'' = usage"
    "dget (observe_answer rq raw) ''content'' = dget raw ''content''" "dget (observe_answer rq raw) ''status'' = dget raw ''status''"
    by (simp_all add: dget_updated ANSWER_def)
  moreover from this e c have "is_ok (py_text (dget raw ''content'') 2048)"
    by (auto simp: check_content_def voidR_def is_ok_def split: sum.splits)
  moreover from p have "list_all (\<lambda>k. dget (dget raw ''producer'') k = dget (rq_binding rq) k) PRODUCER"
    by (auto simp: list_all_iff list_ex_iff)
  ultimately show ?thesis using b by simp
qed

text \<open>
  C29. The provider is entered only under the grant as it is now: if it was invoked, the request still matches the
  accepted authority (its digest, Task, context, and the projection behind it), no guardrail stops it and it ends
  before the deadline; otherwise the result is \<open>not_executed\<close>, whatever the provider would have answered.
  A result says \<open>executed\<close> only when the provider was invoked and answered as the granted binding, within every
  required native limit, with bounded content; everything else is an unknown outcome.
\<close>

theorem invoke_sound:
  "case invoke rq dispatch g a now_us elapsed_ms of
     Inl e \<Rightarrow> rq_version rq \<noteq> 3
   | Inr r \<Rightarrow>
       (if dget r ''provider_invoked'' = JBool True
        then still_granted rq a \<and> global_denial (rq_binding rq) g = None \<and> \<not> late_by now_us (rq_runtime_ms rq) (rq_deadline rq)
        else dget r ''status'' = JStr ''not_executed'' \<and> (\<forall>dispatch'. invoke rq dispatch' g a now_us elapsed_ms = Inr r))
       \<and> (if dget r ''status'' = JStr ''executed''
          then dget r ''provider_invoked'' = JBool True
            \<and> list_all (\<lambda>k. dget (dget r ''producer'') k = dget (rq_binding rq) k) PRODUCER
            \<and> \<not> breached (rq_limits rq) (dget r ''usage'')
            \<and> (\<exists>raw. dispatch rq = Inr raw \<and> dget r ''content'' = dget raw ''content'' \<and> is_ok (py_text (dget raw ''content'') 2048))
          else True)"
proof -
  have s: "dget (dset v ''runtime_ms'' w) k = dget v k" if "k \<noteq> ''runtime_ms''" for v w k
    using that by (simp add: dget_def dset_def update_conv)
  have n: "dget (not_run x) ''status'' = JStr ''not_executed''" "dget (not_run x) ''provider_invoked'' = JBool False" for x
    by (simp_all add: not_run_def dget_def)
  have i: "dget unknown_run ''provider_invoked'' = JBool True" "dget unknown_run ''status'' = JStr ''unknown''"
    by (simp_all add: unknown_run_def dget_def)
  have o': "dget (observe_answer rq raw) ''provider_invoked'' = JBool True" for raw
    by (auto simp: observe_answer_def Let_def dget_updated i ANSWER_def split: sum.splits if_splits)
  show ?thesis
    by (auto simp: invoke_def s n i o' split: sum.splits option.splits if_splits dest!: observe_answer_executed)
qed

subsection \<open>Routing prefers a sufficient local binding\<close>

lemma min_candidate_least:
  "min_candidate c ds \<in> set (c # ds)" "\<forall>d\<in>set (c # ds). candidate_key (min_candidate c ds) \<le> candidate_key d"
proof (induction ds arbitrary: c)
  case (Cons d ds)
  { case 1 with Cons.IH(1) [of d] Cons.IH(1) [of c] show ?case by auto }
  { case 2
    show ?case
    proof (cases "candidate_key d < candidate_key c")
      case True
      with Cons.IH(2) [of d] show ?thesis by (auto intro: order_trans less_imp_le)
    next
      case False
      with Cons.IH(2) [of c] show ?thesis by (auto intro: order_trans simp: not_less)
    qed }
qed simp_all

text \<open>
  A routing recommendation is authorized, sufficient and local if it can be. The recommended binding is a
  candidate that the hard gate allowed and the classifier did not find underpowered; it is a frontier one only
  when no local candidate is sufficient and allowed, and of those left it has the least expected
  cost-to-success rank, then the least identity. Without such a candidate nothing is recommended.
\<close>

lemma select_prefers_local:
  "case select_binding w bindings classify authorization of
     Inl e \<Rightarrow> True
   | Inr v \<Rightarrow> \<exists>cs. mapR (assess_candidate classify authorization) bindings = Inr cs \<and> map ca_binding cs = bindings
       \<and> (case best_candidate cs of
            None \<Rightarrow> filter is_adequate cs = [] \<and> v = selection w cs None
          | Some c \<Rightarrow> v = selection w cs (Some c) \<and> ca_binding c \<in> set bindings \<and> is_adequate c
              \<and> map_of authorization (sget (ca_binding c) ''binding_id'') = Some (ca_authorization c)
              \<and> dget (ca_authorization c) ''outcome'' = JStr ''allow''
              \<and> (if is_frontier (ca_binding c) then list_all (\<lambda>d. is_frontier (ca_binding d)) (filter is_adequate cs) else True)
              \<and> list_all (\<lambda>d. candidate_key c \<le> candidate_key d) (filter is_adequate cs))"
proof (cases "select_binding w bindings classify authorization")
  case (Inr v)
  then obtain cs where cs: "mapR (assess_candidate classify authorization) bindings = Inr cs" and v: "v = selection w cs (best_candidate cs)"
    by (auto simp: select_binding_def bindR_eq_Inr)
  have a: "ca_binding c = b \<and> map_of authorization (sget b ''binding_id'') = Some (ca_authorization c)"
    if "assess_candidate classify authorization b = Inr c" for b c
    using that by (auto simp: assess_candidate_def bindR_eq_Inr split: option.splits)
  have l: "list_all2 (\<lambda>b c. assess_candidate classify authorization b = Inr c) bindings cs"
    using cs by (simp add: mapR_eq_Inr)
  then have m: "map ca_binding cs = bindings" by (induction rule: list_all2_induct) (auto dest: a)
  have auth: "map_of authorization (sget (ca_binding c) ''binding_id'') = Some (ca_authorization c)" if "c \<in> set cs" for c
    using l that by (induction rule: list_all2_induct) (auto dest: a)
  show ?thesis
  proof (cases "filter is_adequate cs")
    case Nil
    then have "best_candidate cs = None" by (simp add: best_candidate_def)
    with Inr cs v m Nil show ?thesis by simp
  next
    case (Cons d ds)
    let ?c = "min_candidate d ds"
    have b: "best_candidate cs = Some ?c" by (simp add: best_candidate_def Cons)
    from min_candidate_least(1) [of d ds] have in_ad: "?c \<in> set (filter is_adequate cs)" by (simp only: Cons)
    then have c: "?c \<in> set cs" "is_adequate ?c" by auto
    have least: "list_all (\<lambda>d. candidate_key ?c \<le> candidate_key d) (filter is_adequate cs)"
      using min_candidate_least(2) [of d ds] unfolding Cons list_all_iff .
    then have "list_all (\<lambda>d. is_frontier (ca_binding d)) (filter is_adequate cs)" if "is_frontier (ca_binding ?c)"
      using that by (auto simp: list_all_iff candidate_key_def less_eq_prod_def le_bool_def less_bool_def)
    moreover from c(1) m have "ca_binding ?c \<in> set bindings" by force
    moreover from c(2) have "dget (ca_authorization ?c) ''outcome'' = JStr ''allow''" by (simp add: is_adequate_def)
    ultimately show ?thesis using Inr cs v m b c auth [OF c(1)] least by simp
  qed
qed simp

text \<open>Accounting is idempotent: a recorded dispatch keeps its first record, and the ledger is bounded.\<close>

lemma record_usage_keeps:
  assumes "record_usage ledger rq result = Inr ledger'"
  shows "map_of ledger i = Some r \<Longrightarrow> map_of ledger' i = Some r" "length ledger \<le> 16 \<Longrightarrow> length ledger' \<le> 16"
    "\<exists>r. map_of ledger' (rq_dispatch_id rq) = Some r"
  using assms by (auto simp: record_usage_def Let_def map_add_Some_iff split: option.splits if_splits)

end
