(* ===== verification/Providers.thy ===== *)
theory Providers
  imports Cognitive_Context Model_Cognition
begin

section \<open>Supplemental context providers\<close>

text \<open>
  runtime/kernel/memory.py, project_knowledge.py and youtrack.py: bounded retrieval from a memory service, from a
  derived index of the project and from a card tracker. What they return is marked derived (or as human
  coordination) and never carries authority. The services, the files, \<open>str.lower\<close> and \<open>str\<close> of a value that is
  not text are parameters; a file that does not exist is \<open>Inr None\<close>.
  The byte limit is read from the request before the loop, which is the same for every request of the kernel.
\<close>

definition provider_item :: "string \<Rightarrow> string \<Rightarrow> json \<Rightarrow> string list \<Rightarrow> json" where
  "provider_item source revision content unknowns = JObj
     [(''source'', JStr source), (''revision'', JStr revision), (''authority'', JStr ''derived''), (''content'', content),
      (''unknowns'', JList (map JStr unknowns))]"

definition text_of :: "(json \<Rightarrow> string) \<Rightarrow> json \<Rightarrow> string" where
  "text_of show_other v = (if is_str v then jstr v else show_other v)"

definition text_or :: "(json \<Rightarrow> string) \<Rightarrow> json \<Rightarrow> string \<Rightarrow> string" where
  "text_or show_other v d = (if py_true v then text_of show_other v else d)"

definition rstrip_slash :: "string \<Rightarrow> string" where
  "rstrip_slash s = rev (dropWhile (\<lambda>c. c = CHR ''/'') (rev s))"

subsection \<open>Semantic memory\<close>

record mirix =
  mx_client_id :: json
  mx_user_id :: "string option"
  mx_endpoint :: string
  mx_filter_tags :: json
  mx_transport :: "json \<Rightarrow> json res"
  mx_audit :: "json \<Rightarrow> unit res"

definition check_mirix :: "(string \<Rightarrow> bool) \<Rightarrow> mirix \<Rightarrow> unit res" where
  "check_mirix netloc_ok mx =
     seqR (loopback netloc_ok ''MIRIX must use a configured loopback endpoint'' (mx_endpoint mx))
       (raise_if (\<not> is_str (mx_client_id mx) \<or> jstr (mx_client_id mx) = []) (ValueError ''An existing MIRIX client identity is required''))"

definition mirix_query :: "mirix \<Rightarrow> json \<Rightarrow> json" where
  "mirix_query mx objective = JObj
     ([(''query'', JStr (py_take 512 (jstr objective))), (''memory_type'', JStr ''semantic''), (''search_field'', JStr ''details''),
       (''search_method'', JStr ''embedding''), (''limit'', JInt 2), (''similarity_threshold'', JFloat 5 1), (''include_core_memory'', JStr ''false'')]
      @ (case mx_user_id mx of None \<Rightarrow> [] | Some u \<Rightarrow> if u = [] then [] else [(''user_id'', JStr u)])
      @ (if py_true (mx_filter_tags mx) then [(''filter_tags'', JStr (encode (mx_filter_tags mx)))] else []))"

definition check_search :: "json \<Rightarrow> unit res" where
  "check_search v =
     raise_if (\<not> is_dict v \<or> dget v ''success'' \<noteq> JBool True \<or> \<not> is_list (dget v ''results'') \<or> 2 < length (lget v ''results'')
         \<or> dget v ''search_method'' \<noteq> JStr ''embedding'')
       (ValueError ''Invalid MIRIX semantic search response'')"

definition check_row :: "json \<Rightarrow> unit res" where
  "check_row row =
     seqR (get_attr row ''memory_type'')
     (raise_if (dget row ''memory_type'' \<noteq> JStr ''semantic'' \<or> \<not> is_str (dget row ''id'') \<or> sget row ''id'' = []
         \<or> \<not> is_str (dget row ''details'') \<or> \<not> is_str (dget row ''summary''))
       (ValueError ''MIRIX semantic identity/content required''))"

definition memory_item :: "(json \<Rightarrow> string) \<Rightarrow> mirix \<Rightarrow> json \<Rightarrow> json" where
  "memory_item show_other mx row =
     provider_item (rstrip_slash (mx_endpoint mx) @ ''/memory/semantic/'' @ sget row ''id'') (''sha256:'' @ sha256_hex (encode row))
       (JObj [(''classification'', JStr ''semantic_memory''), (''memory_id'', dget row ''id''), (''summary'', JStr (py_take 512 (sget row ''summary''))),
          (''details'', JStr (py_take 1024 (sget row ''details''))), (''reported_source'', JStr (py_take 256 (text_or show_other (dget row ''source'') ''unknown'')))])
       (''Retrieved memory is unverified; current Task and exact evidence take precedence.''
        # (if 1024 < py_len (sget row ''details'') \<or> 512 < py_len (sget row ''summary'') then [''Memory text truncated to context budget.''] else []))"

fun memory_items :: "(json \<Rightarrow> string) \<Rightarrow> mirix \<Rightarrow> int \<Rightarrow> json list \<Rightarrow> json list \<Rightarrow> json list res" where
  "memory_items show_other mx limit found [] = Inr found"
| "memory_items show_other mx limit found (row # rows) =
     seqR (check_row row)
     (let i = memory_item show_other mx row in
      if limit < int (length (encode (JList (found @ [i])))) then Inr found else memory_items show_other mx limit (found @ [i]) rows)"

definition mirix_call :: "(json \<Rightarrow> string) \<Rightarrow> mirix \<Rightarrow> json \<Rightarrow> json res" where
  "mirix_call show_other mx request =
     bindR (item request ''objective'') (\<lambda>objective.
     let query = mirix_query mx objective in
     bindR (mx_transport mx query) (\<lambda>result.
     seqR (check_search result)
     (bindR (item request ''max_bytes'') (\<lambda>max_bytes.
      bindR (memory_items show_other mx (min (jint max_bytes) 4096) [] (lget result ''results'')) (\<lambda>items.
      bindR (item request ''task_id'') (\<lambda>task_id.
      seqR (mx_audit mx (JObj [(''task_id'', task_id), (''endpoint'', JStr (mx_endpoint mx)), (''client_id'', mx_client_id mx), (''query'', query),
          (''response'', result), (''context'', JList items), (''context_bytes'', JInt (int (length (encode (JList items)))))]))
      (Inr (JList items))))))))"

subsection \<open>Project knowledge\<close>

record knowledge =
  pk_snapshot :: "string res option"
  pk_inside :: "string \<Rightarrow> bool"
  pk_source :: "string \<Rightarrow> string option res"
  pk_indexed :: "(string \<times> string) list"
  pk_lower :: "string \<Rightarrow> string"
  pk_show :: "json \<Rightarrow> string"
  pk_audit :: "json \<Rightarrow> unit res"

definition word_start :: "char \<Rightarrow> bool" where
  "word_start c \<longleftrightarrow> ascii_alpha c \<or> c = CHR ''_''"

definition word_char :: "char \<Rightarrow> bool" where
  "word_char c \<longleftrightarrow> word_start c \<or> is_digit c"

text \<open>\<open>re.findall (r'[a-zA-Z_][a-zA-Z0-9_]*', s)\<close>.\<close>

function words_in :: "string \<Rightarrow> string list" where
  "words_in s =
     (case dropWhile (\<lambda>c. \<not> word_start c) s of
        [] \<Rightarrow> []
      | c # r \<Rightarrow> (c # takeWhile word_char r) # words_in (dropWhile word_char r))"
  by pat_completeness auto

termination
proof (relation "measure length")
  fix s :: string and c r
  assume "dropWhile (\<lambda>c. \<not> word_start c) s = c # r"
  then have "length (c # r) \<le> length s" by (metis length_dropWhile_le)
  then show "(dropWhile word_char r, s) \<in> measure length"
    using length_dropWhile_le [of word_char r] by simp
qed simp

declare words_in.simps [simp del]

definition SNAPSHOT_LIMIT :: nat where
  "SNAPSHOT_LIMIT = 2 * 1024 * 1024"

definition is_candidate :: "knowledge \<Rightarrow> string list \<Rightarrow> json \<Rightarrow> bool" where
  "is_candidate pk wanted n \<longleftrightarrow> is_dict n \<and> is_str (dget n ''label'') \<and> (\<exists>w\<in>set (words_in (pk_lower pk (sget n ''label''))). w \<in> set wanted)"

definition candidates_of :: "knowledge \<Rightarrow> json \<Rightarrow> json list \<Rightarrow> json list" where
  "candidates_of pk objective nodes =
     sort_key (\<lambda>n. text_of (pk_show pk) (dget_or n ''id'' (JStr [])))
       (filter (is_candidate pk (words_in (pk_lower pk (jstr objective)))) nodes)"

definition check_relative :: "knowledge \<Rightarrow> json \<Rightarrow> unit res" where
  "check_relative pk relative =
     checks
       [raise_if (\<not> is_str relative \<or> take 1 (jstr relative) = ''/'') (ValueError ''Relative source provenance is required''),
        raise_if (\<not> pk_inside pk (jstr relative)) (ValueError ''Source escapes selected project'')]"

definition knowledge_item :: "knowledge \<Rightarrow> string \<Rightarrow> json \<Rightarrow> string \<Rightarrow> string \<Rightarrow> json" where
  "knowledge_item pk digest node relative sha =
     provider_item (''graphify:sha256:'' @ digest) digest
       (JObj [(''classification'', JStr ''project_knowledge''), (''node_id'', dget node ''id''), (''label'', dget node ''label''), (''source_file'', JStr relative),
          (''source_location'', dget node ''source_location''), (''source_sha256'', JStr sha), (''freshness'', JStr ''source_digest_matches''),
          (''derivation'', JStr (''Graphify navigation; reported origin: '' @ py_take 80 (text_of (pk_show pk) (dget_or node ''_origin'' (JStr ''unknown'')))))])
       [''Matching source bytes do not certify extractor claims. Recheck consequential claims against current source.'']"

text \<open>One candidate: the item it adds, or the reason it is excluded, each with its row of the trace.\<close>

definition excluded_row :: "json \<Rightarrow> string \<Rightarrow> json" where
  "excluded_row row reason = dset row ''reason'' (JStr reason)"

definition index_row :: "json \<Rightarrow> string \<Rightarrow> string option \<Rightarrow> json" where
  "index_row node relative expected = JObj
     [(''id'', dget node ''id''), (''source_file'', JStr relative), (''indexed_source_sha256'', jopt JStr expected)]"

definition examine :: "knowledge \<Rightarrow> int \<Rightarrow> string \<Rightarrow> json list \<Rightarrow> json \<Rightarrow> (json option \<times> json) res" where
  "examine pk limit digest found node =
     (let relative = sget node ''source_file''; expected = map_of (pk_indexed pk) relative; row = index_row node relative expected in
      seqR (check_relative pk (dget node ''source_file''))
      (case expected of
         None \<Rightarrow> Inr (None, excluded_row row ''source revision unknown'')
       | Some sha \<Rightarrow>
           seqR (raise_if (\<not> is_hex64 sha) (ValueError ''Expected exact indexed source SHA-256''))
           (bindR (pk_source pk relative) (\<lambda>source.
            case source of
              None \<Rightarrow> Inr (None, excluded_row row ''source no longer exists'')
            | Some bytes \<Rightarrow>
                seqR (raise_if (65536 < length bytes) (ValueError ''Source exceeds bounded verification read''))
                (let seen = dset row ''current_source_sha256'' (JStr (sha256_hex bytes)); i = knowledge_item pk digest node relative (sha256_hex bytes) in
                 if sha256_hex bytes \<noteq> sha then Inr (None, excluded_row seen ''source digest mismatch'')
                 else if 1536 < length (encode i) \<or> limit < int (length (encode (JList (found @ [i]))))
                 then Inr (None, excluded_row seen ''context budget'')
                 else Inr (Some i, seen))))))"

fun examine_all :: "knowledge \<Rightarrow> int \<Rightarrow> string \<Rightarrow> json list \<Rightarrow> json list \<Rightarrow> json list \<Rightarrow> json list \<Rightarrow> (json list \<times> json list \<times> json list) res" where
  "examine_all pk limit digest found taken left [] = Inr (found, taken, left)"
| "examine_all pk limit digest found taken left (node # nodes) =
     (if length found = 3 then Inr (found, taken, left)
      else bindR (examine pk limit digest found node) (\<lambda>(i, row). case i of
        None \<Rightarrow> examine_all pk limit digest found taken (left @ [row]) nodes
      | Some x \<Rightarrow> examine_all pk limit digest (found @ [x]) (taken @ [row]) left nodes))"

definition knowledge_call :: "knowledge \<Rightarrow> json \<Rightarrow> json res" where
  "knowledge_call pk request =
     bindR (item request ''objective'') (\<lambda>objective.
     case pk_snapshot pk of
       None \<Rightarrow> seqR (pk_audit pk (JObj [(''query'', objective), (''selected'', JList []), (''excluded'', JList []), (''status'', JStr ''absent'')])) (Inr (JList []))
     | Some snapshot \<Rightarrow>
         bindR snapshot (\<lambda>raw.
         seqR (raise_if (SNAPSHOT_LIMIT < length raw) (ValueError ''Project index exceeds bounded snapshot size''))
         (bindR (json_loads raw) (\<lambda>graph.
          bindR (get_attr graph ''nodes'') (\<lambda>nodes.
          seqR (raise_if (\<not> is_list nodes \<or> 10000 < length (jlist nodes)) (ValueError ''Expected bounded Graphify nodes''))
          (bindR (item request ''max_bytes'') (\<lambda>max_bytes.
           bindR (examine_all pk (min (jint max_bytes) (int MAX_CONTENT)) (sha256_hex raw) [] [] [] (take 8 (candidates_of pk objective (jlist nodes))))
             (\<lambda>(items, taken, left).
           seqR (pk_audit pk (JObj [(''query'', objective), (''selected'', JList taken), (''excluded'', JList left), (''index_sha256'', JStr (sha256_hex raw)),
               (''status'', JStr ''retrieved''), (''context_bytes'', JInt (int (length (encode (JList items))))), (''context'', JList items)]))
           (Inr (JList items))))))))))"

subsection \<open>Cards\<close>

definition youtrack_read :: "(json \<Rightarrow> string) \<Rightarrow> (string \<Rightarrow> json res) \<Rightarrow> string list \<Rightarrow> json \<Rightarrow> json res" where
  "youtrack_read show_other fetch allowed issue_id =
     seqR (py_text issue_id 80)
     (seqR (raise_if (jstr issue_id \<notin> set allowed) (ValueError ''Card read outside deployment-approved scope''))
     (bindR (fetch (jstr issue_id)) (\<lambda>raw.
      seqR (raise_if (\<not> is_dict raw \<or> 65536 < length (encode raw) \<or> dget raw ''id'' \<noteq> issue_id) (ValueError ''Invalid or misaddressed Card response''))
      (seqR (raise_if (\<not> is_str (dget raw ''summary'') \<or> \<not> is_str (dget raw ''url'')) (ValueError ''Card identity/source missing''))
      (Inr (JObj [(''issue_id'', issue_id), (''summary'', JStr (py_take 512 (sget raw ''summary''))), (''url'', JStr (py_take 512 (sget raw ''url''))),
         (''description'', JStr (py_take 1600 (text_or show_other (dget raw ''description'') []))), (''authority'', JStr ''human_coordination''),
         (''unknowns'', JList [JStr ''Bounded snapshot; Card status is not Task lifecycle or completion evidence.''])]))))))"

subsection \<open>The kernel admits what they return\<close>

lemma length_dumps_elem: "x \<in> set xs \<Longrightarrow> length (dumps x) \<le> length (dumps_list xs)"
  by (induction xs) auto

lemma encode_elem: "i \<in> set xs \<Longrightarrow> length (encode i) \<le> length (encode (JList xs))"
  using length_dumps_elem [of "canon i" "canon_list xs"] by (simp add: encode_def canon_list_map)

lemma provider_item_supplied:
  assumes "source \<noteq> []" "revision \<noteq> []" "length (encode (provider_item source revision content unknowns)) \<le> MAX_CONTENT"
  shows "check_supplied (provider_item source revision content unknowns) = Inr ()"
  using assms by (simp add: check_supplied_def checks_eq_Inr check_item_fields_def provider_item_def dget_JObj jkeys_JObj ITEM_FIELDS_def
      nonempty_text_def list_all_iff insert_commute)

text \<open>A bounded list of items, each of which the reconstruction of a packet accepts.\<close>

definition supplied :: "nat \<Rightarrow> json list \<Rightarrow> bool" where
  "supplied n items \<longleftrightarrow> length items \<le> n \<and> (\<forall>i\<in>set items. check_supplied i = Inr ())
     \<and> (items = [] \<or> length (encode (JList items)) \<le> MAX_CONTENT)"

lemma supplied_snoc:
  assumes "supplied n items" "length items < n" "length (encode (JList (items @ [i]))) \<le> MAX_CONTENT"
    and i: "i = provider_item source revision content unknowns" "source \<noteq> []" "revision \<noteq> []"
  shows "supplied n (items @ [i])"
proof -
  have "length (encode i) \<le> MAX_CONTENT" using encode_elem [of i "items @ [i]"] assms(3) by simp
  then have "check_supplied i = Inr ()" using provider_item_supplied i by simp
  with assms(1-3) show ?thesis by (auto simp: supplied_def)
qed

lemma supply_items_supplied: "provider request = Inr (JList items) \<Longrightarrow> supplied 8 items \<Longrightarrow> supply_items request provider = Inr items"
  by (auto simp: supply_items_def supplied_def forR_eq_Inr bindR_eq_Inr)

lemma supplied_mono: "supplied m items \<Longrightarrow> m \<le> n \<Longrightarrow> supplied n items"
  by (auto simp: supplied_def)

lemma memory_items_supplied:
  "memory_items show_other mx limit found rows = Inr items \<Longrightarrow> limit \<le> int MAX_CONTENT \<Longrightarrow> supplied n found \<Longrightarrow> length found + length rows \<le> n
     \<Longrightarrow> supplied n items"
proof (induction rows arbitrary: found)
  case (Cons row rows)
  show ?case
  proof (cases "limit < int (length (encode (JList (found @ [memory_item show_other mx row]))))")
    case True
    with Cons.prems show ?thesis by (auto simp: bindR_eq_Inr Let_def)
  next
    case False
    with Cons.prems have r: "memory_items show_other mx limit (found @ [memory_item show_other mx row]) rows = Inr items"
      by (auto simp: bindR_eq_Inr Let_def)
    have "supplied n (found @ [memory_item show_other mx row])"
      using False Cons.prems(2-4) by (intro supplied_snoc [OF _ _ _ memory_item_def]) auto
    with Cons.IH [OF r] Cons.prems(2,4) show ?thesis by simp
  qed
qed simp

lemma mirix_call_supplied: "mirix_call show_other mx request = Inr v \<Longrightarrow> \<exists>items. v = JList items \<and> supplied 2 items"
proof -
  assume "mirix_call show_other mx request = Inr v"
  then obtain result limit items where "check_search result = Inr ()" and i: "v = JList items"
    and m: "memory_items show_other mx (min (jint limit) 4096) [] (lget result ''results'') = Inr items"
    unfolding mirix_call_def Let_def bindR_eq_Inr by auto
  then have "length (lget result ''results'') \<le> 2" by (auto simp: check_search_def)
  with memory_items_supplied [OF m, of 2] i show ?thesis by (simp add: supplied_def MAX_CONTENT_def)
qed

text \<open>An item names a source file of the project whose bytes now have the digest that was indexed.\<close>

definition fresh_item :: "knowledge \<Rightarrow> json \<Rightarrow> bool" where
  "fresh_item pk i \<longleftrightarrow> (\<exists>relative bytes. dget (dget i ''content'') ''source_file'' = JStr relative \<and> pk_inside pk relative
     \<and> pk_source pk relative = Inr (Some bytes) \<and> map_of (pk_indexed pk) relative = Some (sha256_hex bytes)
     \<and> dget (dget i ''content'') ''source_sha256'' = JStr (sha256_hex bytes))"

lemma examine_Some:
  assumes "examine pk limit digest found node = Inr (Some i, row)"
  shows "fresh_item pk i" "\<exists>relative sha. i = knowledge_item pk digest node relative sha"
    "int (length (encode (JList (found @ [i])))) \<le> limit"
proof -
  let ?r = "sget node ''source_file''"
  from assms obtain sha bytes where c: "check_relative pk (dget node ''source_file'') = Inr ()" "map_of (pk_indexed pk) ?r = Some sha"
    "pk_source pk ?r = Inr (Some bytes)" "sha256_hex bytes = sha" "i = knowledge_item pk digest node ?r (sha256_hex bytes)"
    "int (length (encode (JList (found @ [i])))) \<le> limit"
    unfolding examine_def Let_def bindR_eq_Inr by (auto simp: bindR_eq_Inr Let_def split: option.splits if_splits)
  from c(1) have "pk_inside pk ?r" unfolding check_relative_def checks_eq_Inr by simp
  with c show "fresh_item pk i" by (auto simp: fresh_item_def knowledge_item_def provider_item_def dget_JObj)
  from c show "\<exists>relative sha. i = knowledge_item pk digest node relative sha" "int (length (encode (JList (found @ [i])))) \<le> limit" by auto
qed

lemma examine_all_supplied:
  "examine_all pk limit digest found taken left nodes = Inr (items, x) \<Longrightarrow> limit \<le> int MAX_CONTENT \<Longrightarrow> digest \<noteq> []
     \<Longrightarrow> supplied 3 found \<Longrightarrow> list_all (fresh_item pk) found \<Longrightarrow> supplied 3 items \<and> list_all (fresh_item pk) items"
proof (induction nodes arbitrary: found taken left)
  case (Cons node nodes)
  show ?case
  proof (cases "length found = 3")
    case False
    with Cons.prems obtain i row where e: "examine pk limit digest found node = Inr (i, row)"
      and r: "(case i of None \<Rightarrow> examine_all pk limit digest found taken (left @ [row]) nodes
        | Some x \<Rightarrow> examine_all pk limit digest (found @ [x]) (taken @ [row]) left nodes) = Inr (items, x)"
      by (auto simp: bindR_eq_Inr)
    show ?thesis
    proof (cases i)
      case None
      with Cons.IH r Cons.prems(2-5) show ?thesis by simp
    next
      case (Some y)
      note y = examine_Some [OF e [unfolded Some]]
      from y(2) obtain relative sha where k: "y = knowledge_item pk digest node relative sha" by blast
      have "supplied 3 (found @ [y])"
        using y(3) k False Cons.prems(2-4) by (intro supplied_snoc [OF _ _ _ k [unfolded knowledge_item_def]]) (auto simp: supplied_def)
      with Cons.IH [of "found @ [y]"] r Some y(1) Cons.prems(2,3,5) show ?thesis by simp
    qed
  qed (use Cons.prems in simp)
qed simp

lemma sha256_hex_nonempty: "sha256_hex s \<noteq> []"
  using sha256_hex64 [of s] by (auto simp: is_hex64_def)

lemma knowledge_call_supplied:
  assumes "knowledge_call pk request = Inr v"
  shows "\<exists>items. v = JList items \<and> supplied 3 items \<and> list_all (fresh_item pk) items"
proof (cases "pk_snapshot pk")
  case None
  with assms show ?thesis by (auto simp: knowledge_call_def bindR_eq_Inr supplied_def)
next
  case (Some snapshot)
  with assms obtain raw limit items x nodes where i: "v = JList items"
    and e: "examine_all pk (min (jint limit) (int MAX_CONTENT)) (sha256_hex raw) [] [] [] nodes = Inr (items, x)"
    by (auto simp: knowledge_call_def bindR_eq_Inr split: prod.splits)
  from examine_all_supplied [OF e _ sha256_hex_nonempty] i show ?thesis by (simp add: supplied_def)
qed

text \<open>
  The kernel takes what the memory and the project provider return, and cannot be flooded or fooled by them.
  Whatever the service answered or the index holds, the reconstruction of a packet accepts the returned items as
  they are (each with provenance, marked derived, within the budget), there are at most two memories and at most
  three project items, together they fit the content budget, and a project item names a file inside the project
  whose bytes now have exactly the digest that was indexed.
\<close>

lemma providers_admitted:
  "(case mirix_call show_other mx request of
      Inl _ \<Rightarrow> True
    | Inr v \<Rightarrow> supply_items request (mirix_call show_other mx) = Inr (jlist v) \<and> supplied 2 (jlist v))
   \<and> (case knowledge_call pk request of
      Inl _ \<Rightarrow> True
    | Inr v \<Rightarrow> supply_items request (knowledge_call pk) = Inr (jlist v) \<and> supplied 3 (jlist v) \<and> list_all (fresh_item pk) (jlist v))"
proof (rule conjI)
  show "case mirix_call show_other mx request of
      Inl _ \<Rightarrow> True
    | Inr v \<Rightarrow> supply_items request (mirix_call show_other mx) = Inr (jlist v) \<and> supplied 2 (jlist v)"
    using mirix_call_supplied supply_items_supplied supplied_mono [of 2 _ 8] by (auto split: sum.splits) (metis jlist.simps(1))+
  show "case knowledge_call pk request of
      Inl _ \<Rightarrow> True
    | Inr v \<Rightarrow> supply_items request (knowledge_call pk) = Inr (jlist v) \<and> supplied 3 (jlist v) \<and> list_all (fresh_item pk) (jlist v)"
    using knowledge_call_supplied supply_items_supplied supplied_mono [of 3 _ 8] by (auto split: sum.splits) (metis jlist.simps(1))+
qed

end
