(* ===== verification/Events.thy ===== *)
theory Events
  imports Canonical "HOL-Library.Sublist"
begin

section \<open>Execution events\<close>

text \<open>
  runtime/kernel/events.py and event_sinks.py: the closed schema of a diagnostic event, its construction, guarded
  publication, and the forensic JSON-lines sink, which keeps each event identity once. The parser of timestamps
  (\<open>datetime.fromisoformat\<close>: whether there is a time zone, and the instant) and the clock are parameters. Opening
  and locking the file is not modelled: a publication sees the bytes of the file and leaves new ones.
\<close>

subsection \<open>The schema\<close>

type_synonym stamps = "string \<Rightarrow> (bool \<times> int) res"

definition EVENT_OUTCOMES :: "(string \<times> string list) list" where
  "EVENT_OUTCOMES =
     [(''task.started'', [''RUNNING'']), (''task.child_created'', [''recorded'']),
      (''task.child_observed'', [''COMPLETED'', ''FAILED'', ''CANCELLED'', ''INVALID'']), (''task.suspended'', [''WAITING'']),
      (''task.resumed'', [''RUNNING'']), (''cognition.decided'', [''recorded'']), (''policy.evaluated'', [''allow'', ''deny'']),
      (''capability.finished'', [''success'', ''failure'']), (''artifact.produced'', [''recorded'']),
      (''verifier.evaluated'', [''satisfied'', ''unsatisfied'', ''unknown'']), (''contract.amended'', [''applied'', ''rejected'']),
      (''completion.finished'', [''COMPLETED'', ''FAILED'', ''CANCELLED'']), (''operation.prepared'', [''recorded'']),
      (''personal_agent.control'', [''accepted'', ''rejected'', ''submitted'', ''uncertain''])]"

definition ACTIONS :: "string list" where
  "ACTIONS = [''INVOKE_CAPABILITY'', ''HANDOFF'', ''SPAWN_TASK'', ''WAIT'', ''COMPLETE'']"

definition REF_KEYS :: "string list" where
  "REF_KEYS = [''model_call_id'', ''capability_call_id'', ''artifact_ids'', ''human_decision_id'', ''worker_session_id'', ''restate_invocation_id'',
     ''decision_id'', ''parent_task_id'', ''child_task_id'']"

definition EVENT_FIELDS :: "string list" where
  "EVENT_FIELDS = [''schema_version'', ''event_id'', ''event_type'', ''occurred_at'', ''recorded_at'', ''task_id'', ''run_id'', ''producer'',
     ''references'', ''outcome'', ''sensitivity'', ''payload'', ''payload_refs'']"

text \<open>In the order \<open>sorted\<close> gives them.\<close>

definition EVENT_OPTIONS :: "string list" where
  "EVENT_OPTIONS = [''attempt_id'', ''causation_event_id'', ''parent_event_id'', ''span_id'', ''step_id'', ''trace_id'']"

definition in_set :: "json \<Rightarrow> string list \<Rightarrow> exn \<Rightarrow> unit res" where
  "in_set v names e = bindR (in_strs v names) (\<lambda>found. raise_if (\<not> found) e)"

definition check_outcome_of :: "json \<Rightarrow> unit res" where
  "check_outcome_of raw =
     seqR (in_set (dget raw ''event_type'') (map fst EVENT_OUTCOMES) (ValueError ''Unknown event type/outcome''))
     (case map_of EVENT_OUTCOMES (sget raw ''event_type'') of
        None \<Rightarrow> Inl (ValueError ''Unknown event type/outcome'')
      | Some outcomes \<Rightarrow> in_set (dget raw ''outcome'') outcomes (ValueError ''Unknown event type/outcome''))"

definition instant :: "stamps \<Rightarrow> json \<Rightarrow> int res" where
  "instant stamp v =
     bindR (py_text v 40) (\<lambda>t. bindR (stamp (jstr t)) (\<lambda>(zoned, at).
     seqR (raise_if (\<not> zoned) (ValueError ''Timestamp must include timezone'')) (Inr at)))"

definition check_times :: "stamps \<Rightarrow> json \<Rightarrow> unit res" where
  "check_times stamp raw =
     bindR (instant stamp (dget raw ''occurred_at'')) (\<lambda>occurred.
     bindR (instant stamp (dget raw ''recorded_at'')) (\<lambda>recorded.
     raise_if (recorded < occurred) (ValueError ''Recorded time precedes occurrence'')))"

definition check_trace :: "json \<Rightarrow> unit res" where
  "check_trace raw =
     checks
       [forR (\<lambda>(key, n). raise_if (has_key raw key \<and> (length (sget raw key) \<noteq> n \<or> \<not> list_all hex_char (sget raw key)
            \<or> list_all (\<lambda>c. c = CHR ''0'') (sget raw key))) (ValueError ''Invalid trace correlation'')) [(''trace_id'', 32), (''span_id'', 16)],
        raise_if (has_key raw ''span_id'' \<and> \<not> has_key raw ''trace_id'') (ValueError ''Span needs a trace''),
        raise_if (dget raw ''trace_id'' \<in> {dget raw ''task_id'', dget raw ''run_id''}) (ValueError ''Logical and physical identities must be distinct'')]"

definition check_producer :: "json \<Rightarrow> unit res" where
  "check_producer v =
     bindR (py_fields v [''kind'', ''component''] [''component_version'', ''code_revision'']) (\<lambda>p. forR (\<lambda>(_, x). py_text x 128) (jitems p))"

definition check_reference :: "string \<times> json \<Rightarrow> unit res" where
  "check_reference x =
     (case x of (key, v) \<Rightarrow>
        if key = ''artifact_ids'' then
          seqR (raise_if (\<not> is_list v \<or> 16 < length (jlist v)) (ValueError ''Artifact reference limit''))
            (forR (\<lambda>r. raise_if (\<not> is_str r \<or> \<not> is_ref (jstr r)) (ValueError ''Invalid artifact reference'')) (jlist v))
        else voidR (py_text v 256))"

definition check_metadata :: "json \<Rightarrow> unit res" where
  "check_metadata v =
     bindR (py_fields v [] [''iteration'', ''action'', ''capability'']) (\<lambda>p.
     checks
       [raise_if (has_key p ''iteration'' \<and> (\<not> is_int (dget p ''iteration'') \<or> jint (dget p ''iteration'') < 0)) (ValueError ''Invalid iteration''),
        (if has_key p ''action'' then in_set (dget p ''action'') ACTIONS (ValueError ''Unknown action metadata'') else Inr ()),
        (if has_key p ''capability'' then in_set (dget p ''capability'') CAPABILITIES (ValueError ''Unknown capability metadata'') else Inr ())])"

definition check_payload_ref :: "json \<Rightarrow> json \<Rightarrow> unit res" where
  "check_payload_ref task_id i =
     seqR (py_fields i [''ref'', ''sensitivity''] [])
     (checks
       [in_set (dget i ''sensitivity'') [''NORMAL'', ''SENSITIVE''] (ValueError ''SECRET payload reference forbidden''),
        raise_if (\<not> is_str (dget i ''ref'') \<or> \<not> is_ref (sget i ''ref'')) (ValueError ''Invalid payload reference''),
        raise_if (\<not> prefix (''artifact://'' @ jstr task_id @ ''/'') (sget i ''ref'')) (ValueError ''Cross-Task payload reference'')])"

definition validate_event :: "stamps \<Rightarrow> json \<Rightarrow> json res" where
  "validate_event stamp raw =
     seqR (py_fields raw EVENT_FIELDS EVENT_OPTIONS)
     (seqR (checks
       [raise_if (dget raw ''schema_version'' \<noteq> JInt 1) (ValueError ''Unsupported ExecutionEvent version''),
        check_outcome_of raw,
        in_set (dget raw ''sensitivity'') [''NORMAL'', ''SENSITIVE''] (ValueError ''SECRET cannot enter telemetry''),
        forR (\<lambda>k. py_text (dget raw k) 256) ([''event_id'', ''task_id'', ''run_id''] @ filter (has_key raw) EVENT_OPTIONS),
        check_times stamp raw,
        check_trace raw,
        check_producer (dget raw ''producer''),
        bindR (py_fields (dget raw ''references'') [] REF_KEYS) (\<lambda>refs. forR check_reference (jitems refs)),
        check_metadata (dget raw ''payload''),
        raise_if (\<not> is_list (dget raw ''payload_refs'') \<or> 16 < length (lget raw ''payload_refs'')) (ValueError ''Payload reference limit''),
        forR (check_payload_ref (dget raw ''task_id'')) (lget raw ''payload_refs''),
        raise_if (8192 < length (encode raw)) (ValueError ''Event exceeds 8 KiB'')])
     (Inr raw))"

subsection \<open>Construction and guarded publication\<close>

definition event_identity :: "string \<Rightarrow> string \<Rightarrow> string" where
  "event_identity run_id step_id = ''event-'' @ sha256_hex (encode (JList [JStr run_id, JStr step_id]))"

record event_args =
  ea_task_id :: json
  ea_run_id :: string
  ea_step_id :: string
  ea_type :: json
  ea_outcome :: json
  ea_producer :: json
  ea_cause :: json
  ea_references :: json
  ea_payload :: json
  ea_payload_refs :: "json list"
  ea_correlation :: "(string \<times> json) list"

definition event_document :: "string \<Rightarrow> event_args \<Rightarrow> json" where
  "event_document now ea = JObj (dict_merge
     ([(''schema_version'', JInt 1), (''event_id'', JStr (event_identity (ea_run_id ea) (ea_step_id ea))), (''event_type'', ea_type ea),
       (''occurred_at'', JStr now), (''recorded_at'', JStr now), (''task_id'', ea_task_id ea), (''run_id'', JStr (ea_run_id ea)),
       (''step_id'', JStr (ea_step_id ea)), (''producer'', ea_producer ea),
       (''references'', if py_true (ea_references ea) then ea_references ea else JObj []), (''outcome'', ea_outcome ea),
       (''sensitivity'', JStr ''NORMAL''), (''payload'', if py_true (ea_payload ea) then ea_payload ea else JObj []),
       (''payload_refs'', JList (map (\<lambda>r. JObj [(''ref'', r), (''sensitivity'', JStr ''SENSITIVE'')]) (filter py_true (ea_payload_refs ea))))]
      @ (if py_true (ea_cause ea) then [(''causation_event_id'', ea_cause ea)] else []))
     (ea_correlation ea))"

definition make_event :: "stamps \<Rightarrow> string \<Rightarrow> event_args \<Rightarrow> json res" where
  "make_event stamp now ea = validate_event stamp (event_document now ea)"

definition safe_prepare :: "stamps \<Rightarrow> string \<Rightarrow> event_args \<Rightarrow> json option" where
  "safe_prepare stamp now ea = (case make_event stamp now ea of Inl _ \<Rightarrow> None | Inr e \<Rightarrow> Some e)"

text \<open>A publisher acts on a world of its own.\<close>

definition safe_publish :: "stamps \<Rightarrow> (json \<Rightarrow> 'w \<Rightarrow> unit res \<times> 'w) \<Rightarrow> json option \<Rightarrow> 'w \<Rightarrow> string \<times> 'w" where
  "safe_publish stamp publish event w =
     (case event of
        None \<Rightarrow> (''invalid_event'', w)
      | Some e \<Rightarrow>
          (case validate_event stamp e of
             Inl _ \<Rightarrow> (''publication_failed'', w)
           | Inr v \<Rightarrow> (case publish v w of (Inl _, w') \<Rightarrow> (''publication_failed'', w') | (Inr _, w') \<Rightarrow> (''published'', w'))))"

subsection \<open>The JSON-lines sink\<close>

text \<open>\<open>for line in stream\<close>: up to and including each newline; an unfinished last line is a line.\<close>

fun file_lines :: "string \<Rightarrow> string list" where
  "file_lines [] = []"
| "file_lines (c # cs) =
     (if c = CHR 0x0A then [c] # file_lines cs
      else case file_lines cs of [] \<Rightarrow> [[c]] | l # ls \<Rightarrow> (c # l) # ls)"

fun find_prior :: "json \<Rightarrow> string list \<Rightarrow> bool res" where
  "find_prior e [] = Inr False"
| "find_prior e (l # ls) =
     bindR (json_loads l) (\<lambda>prior.
     bindR (item prior ''event_id'') (\<lambda>identity.
     if py_eq identity (dget e ''event_id'')
     then (if encode prior \<noteq> encode e then Inl (ValueError ''Conflicting event identity'') else Inr True)
     else find_prior e ls))"

definition log_line :: "json \<Rightarrow> string" where
  "log_line e = encode e @ [CHR 0x0A]"

definition jsonl_publish :: "stamps \<Rightarrow> json \<Rightarrow> string \<Rightarrow> unit res \<times> string" where
  "jsonl_publish stamp e file =
     (case validate_event stamp e of
        Inl x \<Rightarrow> (Inl x, file)
      | Inr v \<Rightarrow>
          (case find_prior e (file_lines file) of
             Inl x \<Rightarrow> (Inl x, file)
           | Inr found \<Rightarrow> (Inr (), if found then file else file @ log_line v)))"

text \<open>A sequence of publications, each with its answer.\<close>

fun publish_log :: "stamps \<Rightarrow> string \<Rightarrow> json list \<Rightarrow> unit res list \<times> string" where
  "publish_log stamp file [] = ([], file)"
| "publish_log stamp file (e # es) =
     (case jsonl_publish stamp e file of (r, file1) \<Rightarrow>
      case publish_log stamp file1 es of (rs, file2) \<Rightarrow> (r # rs, file2))"

subsection \<open>The log holds each event once\<close>

definition printable :: "string \<Rightarrow> bool" where
  "printable s \<longleftrightarrow> list_all (\<lambda>c. 32 \<le> (of_char c :: nat)) s"

lemma printable_simps [simp]:
  "printable []" "printable (c # s) \<longleftrightarrow> 32 \<le> (of_char c :: nat) \<and> printable s" "printable (s @ t) \<longleftrightarrow> printable s \<and> printable t"
  "printable (concat ss) \<longleftrightarrow> list_all printable ss"
  by (auto simp: printable_def list_all_iff)

lemma hex_digit_code: "n < 16 \<Longrightarrow> 32 \<le> (of_char (hex_digit n) :: nat)"
  by (simp add: hex_digit_def)

lemma printable_esc: "printable (esc_char c)"
proof -
  have "(of_char c :: nat) < 256" by simp
  then have "(of_char c :: nat) div 16 < 16" "(of_char c :: nat) mod 16 < 16" by presburger+
  then show ?thesis by (simp add: esc_char_def hex_digit_code)
qed

lemma printable_digits: "\<forall>c\<in>set s. is_digit c \<Longrightarrow> printable s"
  by (auto simp: printable_def list_all_iff is_digit_def)

lemma printable_show: "printable (show_int i)" "printable (show_decimal m e)"
  using printable_digits [OF show_nat_digits] printable_digits [OF show_padded_digits]
  by (auto simp: show_int_def show_decimal_def Let_def)

lemma printable_dumps_str: "printable (dumps_str s)"
  by (simp add: dumps_str_def list_all_iff printable_esc)

lemma printable_dumps: "printable (dumps v)" "printable (dumps_list xs)" "printable (dumps_items d)"
  by (induction v and xs and d rule: dumps_dumps_list_dumps_items.induct) (auto simp: printable_show printable_dumps_str)

lemma no_newline: "printable s \<Longrightarrow> CHR 0x0A \<notin> set s"
  by (auto simp: printable_def list_all_iff)

lemma file_lines_line: "CHR 0x0A \<notin> set l \<Longrightarrow> file_lines (l @ CHR 0x0A # rest) = (l @ [CHR 0x0A]) # file_lines rest"
  by (induction l) auto

lemma file_lines_log: "file_lines (concat (map log_line kept)) = map log_line kept"
  by (induction kept) (simp_all add: log_line_def file_lines_line encode_def no_newline printable_dumps(1))

lemma loads_line:
  assumes "wfj v" "is_dict v" "jitems v \<noteq> []"
  shows "json_loads (log_line v) = Inr (canon v)"
proof -
  obtain d where d: "canon v = JObj d" "d \<noteq> []" using assms(2,3)
    by (cases v) (auto, metis canon_keys map_is_Nil_conv length_0_conv length_sort)
  have w: "wfj_items d" "distinct (map fst d)" using wfj_canon(1) [OF assms(1)] d(1) by auto
  let ?s = "dumps_items d @ CHR ''}'' # [CHR 0x0A]"
  have e: "log_line v = CHR ''{'' # ?s" by (simp add: log_line_def encode_def d)
  have "parse_members (length (log_line v)) ?s = Some (d, [CHR 0x0A])"
    by (rule parse_dumps(3) [OF w(1) d(2)]) (simp add: e)
  moreover obtain c q where s: "?s = c # q" "skip_ws ?s = ?s" "c \<noteq> CHR ''}''"
  proof -
    obtain k x d' where "d = (k, x) # d'" using d(2) by (cases d) auto
    then show thesis using that by (simp add: dumps_str_def skip_ws_def json_space_def)
  qed
  ultimately have p: "parse_value (Suc (length (log_line v))) (log_line v) = Some (JObj d, [CHR 0x0A])"
    unfolding e using w(2) dict_merge_distinct [of "[]" d] by (simp del: append.simps)
  have u: "utf8_valid (map of_char (log_line v))"
  proof -
    have "utf8_str (encode v @ [CHR 0x0A])"
      using utf8_str_append [OF utf8_str_dumps(1) [OF wfj_canon(1) [OF assms(1)]]] by (simp add: encode_def utf8_str_ascii)
    then show ?thesis by (simp add: utf8_str_def log_line_def)
  qed
  have "skip_ws (log_line v) = log_line v" "skip_ws [CHR 0x0A] = []" by (simp_all add: e skip_ws_def json_space_def)
  with p u d(1) show ?thesis unfolding json_loads_def by simp
qed

lemma validate_event_Inr:
  assumes "validate_event stamp raw = Inr v"
  shows "v = raw" "is_dict raw" "jitems raw \<noteq> []" "has_key raw ''event_id''" "is_str (dget raw ''event_id'')" "length (encode raw) \<le> 8192"
proof -
  from assms have f: "py_fields raw EVENT_FIELDS EVENT_OPTIONS = Inr raw" and v: "v = raw"
    and t: "forR (\<lambda>k. py_text (dget raw k) 256) ([''event_id'', ''task_id'', ''run_id''] @ filter (has_key raw) EVENT_OPTIONS) = Inr ()"
    and n: "raise_if (8192 < length (encode raw)) (ValueError ''Event exceeds 8 KiB'') = Inr ()"
    unfolding validate_event_def bindR_eq_Inr py_fields_eq_Inr checks_eq_Inr by auto
  show "v = raw" by (rule v)
  from f have "''event_id'' \<in> set (jkeys raw)" and d: "is_dict raw" by (auto simp: py_fields_eq_Inr EVENT_FIELDS_def)
  then show "is_dict raw" "has_key raw ''event_id''" "jitems raw \<noteq> []" by (auto simp: has_key_iff jkeys_def)
  from t show "is_str (dget raw ''event_id'')" by (auto simp: bindR_eq_Inr py_text_eq_Inr)
  from n show "length (encode raw) \<le> 8192" by simp
qed

definition event_id :: "json \<Rightarrow> string" where
  "event_id e = sget e ''event_id''"

text \<open>The bytes of a log: one line per kept event, no identity twice.\<close>

definition log_of :: "stamps \<Rightarrow> string \<Rightarrow> json list \<Rightarrow> bool" where
  "log_of stamp file kept \<longleftrightarrow> file = concat (map log_line kept) \<and> distinct (map event_id kept)
     \<and> list_all (\<lambda>e. wfj e \<and> is_ok (validate_event stamp e)) kept"

definition same_event :: "json \<Rightarrow> json \<Rightarrow> bool" where
  "same_event e k \<longleftrightarrow> encode k = encode e"

lemma find_prior_log:
  assumes "list_all (\<lambda>k. wfj k \<and> is_ok (validate_event stamp k)) kept" "dget e ''event_id'' = JStr i"
  shows "find_prior e (map log_line kept) =
    (case find (\<lambda>k. event_id k = i) kept of None \<Rightarrow> Inr False
     | Some k \<Rightarrow> if same_event e k then Inr True else Inl (ValueError ''Conflicting event identity''))"
  using assms(1)
proof (induction kept)
  case (Cons k kept)
  then have "wfj k" and "is_ok (validate_event stamp k)" by auto
  then obtain v where v: "validate_event stamp k = Inr v" by (auto simp: is_ok_iff)
  note f = validate_event_Inr [OF v]
  from f(5) obtain s where s: "dget k ''event_id'' = JStr s" by (auto simp: is_str_iff)
  have "item (canon k) ''event_id'' = Inr (JStr s)"
    using f(4) \<open>wfj k\<close> by (simp add: item_eq_Inr has_key_canon dget_canon wfj_key_distinct s)
  moreover have "event_id k = s" by (simp add: event_id_def s)
  ultimately show ?case
    using Cons by (simp add: loads_line [OF \<open>wfj k\<close> f(2,3)] assms(2) encode_canon same_event_def)
qed simp

lemma publish_one:
  assumes l: "log_of stamp bytes kept" and w: "wfj e" and p: "jsonl_publish stamp e bytes = (r, bytes2)"
  shows "\<exists>kept'. log_of stamp bytes2 kept' \<and> (kept' = kept \<or> kept' = kept @ [e]) \<and> (is_ok r \<longrightarrow> (\<exists>k\<in>set kept'. same_event e k))"
proof (cases "validate_event stamp e")
  case (Inl x)
  with p l show ?thesis by (intro exI [of _ kept]) (auto simp: jsonl_publish_def is_ok_def)
next
  case (Inr v)
  note f = validate_event_Inr [OF Inr]
  from f(5) obtain i where i: "dget e ''event_id'' = JStr i" by (auto simp: is_str_iff)
  from l have k: "bytes = concat (map log_line kept)" "list_all (\<lambda>e. wfj e \<and> is_ok (validate_event stamp e)) kept" by (auto simp: log_of_def)
  note prior = find_prior_log [OF k(2) i]
  show ?thesis
  proof (cases "find (\<lambda>k. event_id k = i) kept")
    case None
    then have "event_id e \<notin> event_id ` set kept" by (auto simp: find_None_iff event_id_def i)
    moreover from None prior p Inr have "r = Inr ()" "bytes2 = bytes @ log_line e"
      by (auto simp: jsonl_publish_def k(1) file_lines_log f(1))
    ultimately have "log_of stamp bytes2 (kept @ [e])" using l w Inr by (auto simp: log_of_def is_ok_def)
    then show ?thesis by (intro exI [of _ "kept @ [e]"]) (simp add: same_event_def)
  next
    case (Some k)
    with prior p Inr have "bytes2 = bytes" "is_ok r \<longrightarrow> same_event e k" by (auto simp: jsonl_publish_def k(1) file_lines_log is_ok_def split: if_splits)
    moreover from Some have "k \<in> set kept" by (auto simp: find_Some_iff)
    ultimately show ?thesis using l by (intro exI [of _ kept]) auto
  qed
qed

lemma publish_log_keeps:
  "publish_log stamp bytes events = (results, bytes2) \<Longrightarrow> list_all wfj events \<Longrightarrow> log_of stamp bytes kept \<Longrightarrow>
     \<exists>added. log_of stamp bytes2 (kept @ added) \<and> subseq added events
       \<and> list_all2 (\<lambda>e r. is_ok r \<longrightarrow> (\<exists>k\<in>set (kept @ added). same_event e k)) events results"
proof (induction events arbitrary: bytes kept results)
  case Nil
  then show ?case by (intro exI [of _ "[]"]) simp
next
  case (Cons e events)
  from Cons.prems(1) obtain r bytes1 rs where p: "jsonl_publish stamp e bytes = (r, bytes1)" and q: "publish_log stamp bytes1 events = (rs, bytes2)"
    and rs: "results = r # rs" by (auto split: prod.splits)
  from publish_one [OF Cons.prems(3) _ p] Cons.prems(2) obtain kept1 where k: "log_of stamp bytes1 kept1" "kept1 = kept \<or> kept1 = kept @ [e]"
    "is_ok r \<longrightarrow> (\<exists>k\<in>set kept1. same_event e k)" by auto
  from Cons.IH [OF q _ k(1)] Cons.prems(2) obtain added where a: "log_of stamp bytes2 (kept1 @ added)" "subseq added events"
    "list_all2 (\<lambda>e r. is_ok r \<longrightarrow> (\<exists>k\<in>set (kept1 @ added). same_event e k)) events rs" by auto
  from k(2) show ?case
  proof
    assume "kept1 = kept"
    with a k(3) rs show ?thesis by (intro exI [of _ added]) (auto simp: subseq_Cons')
  next
    assume "kept1 = kept @ [e]"
    with a k(3) rs show ?thesis by (intro exI [of _ "e # added"]) auto
  qed
qed

text \<open>
  C33. The forensic log keeps each event once. From an empty file, any sequence of publications, repeated or
  conflicting as it may be, leaves exactly the lines of a subsequence of the published events in their order,
  each valid and at most 8 KiB, no event identity twice; and every publication that was acknowledged is in the
  log with exactly its bytes. So a repetition after a crash between append and acknowledgement is harmless, and a
  different event under a used identity is refused.
\<close>

theorem event_log_once:
  "case publish_log stamp [] events of (results, bytes) \<Rightarrow>
     if list_all wfj events
     then \<exists>kept. bytes = concat (map log_line kept) \<and> subseq kept events \<and> distinct (map event_id kept)
       \<and> list_all (\<lambda>e. is_ok (validate_event stamp e) \<and> length (encode e) \<le> 8192) kept
       \<and> list_all2 (\<lambda>e r. case r of Inl _ \<Rightarrow> True | Inr _ \<Rightarrow> list_ex (same_event e) kept) events results
     else True"
proof (cases "publish_log stamp [] events")
  case (Pair results bytes)
  have "\<exists>kept. bytes = concat (map log_line kept) \<and> subseq kept events \<and> distinct (map event_id kept)
       \<and> list_all (\<lambda>e. is_ok (validate_event stamp e) \<and> length (encode e) \<le> 8192) kept
       \<and> list_all2 (\<lambda>e r. case r of Inl _ \<Rightarrow> True | Inr _ \<Rightarrow> list_ex (same_event e) kept) events results" if "list_all wfj events"
  proof -
    have "log_of stamp [] []" by (simp add: log_of_def)
    from publish_log_keeps [OF Pair that this] obtain kept where k: "log_of stamp bytes kept" "subseq kept events"
      and r: "list_all2 (\<lambda>e r. is_ok r \<longrightarrow> (\<exists>k\<in>set kept. same_event e k)) events results" by auto
    from r have "list_all2 (\<lambda>e r. case r of Inl _ \<Rightarrow> True | Inr _ \<Rightarrow> list_ex (same_event e) kept) events results"
      by (rule list_all2_mono) (auto simp: is_ok_def list_ex_iff split: sum.splits)
    moreover from k(1) have "list_all (\<lambda>e. is_ok (validate_event stamp e) \<and> length (encode e) \<le> 8192) kept"
      by (auto simp: log_of_def list_all_iff is_ok_iff dest: validate_event_Inr(6))
    ultimately show ?thesis using k by (auto simp: log_of_def)
  qed
  with Pair show ?thesis by simp
qed

end
