(* ===== verification/Paths.thy ===== *)
theory Paths
  imports Effect_Contracts
begin

section \<open>POSIX paths\<close>

text \<open>
  What the host-side modules use of \<open>pathlib.PurePosixPath\<close> and \<open>os.path.join\<close>: a path is its root (two leading
  slashes are kept) and its parts; printing joins them, and an empty relative path prints as a dot.
\<close>

definition posix_path :: "string \<Rightarrow> string \<times> string list" where
  "posix_path p =
     (if prefix ''//'' p \<and> \<not> prefix ''///'' p then ''//'' else if prefix ''/'' p then ''/'' else [], path_parts p)"

definition posix_str :: "string \<times> string list \<Rightarrow> string" where
  "posix_str p = (if p = ([], []) then ''.'' else fst p @ join_with ''/'' (snd p))"

text \<open>\<open>base / relative\<close> for a relative path.\<close>

definition join_path :: "string \<Rightarrow> string \<Rightarrow> string" where
  "join_path base relative = posix_str (fst (posix_path base), snd (posix_path base) @ path_parts relative)"

definition os_join :: "string \<Rightarrow> string \<Rightarrow> string" where
  "os_join base name = (if base = [] \<or> last base = CHR ''/'' then base @ name else base @ ''/'' @ name)"

lemma posix_examples:
  "join_path ''/home/x/'' ''bin/python'' = ''/home/x/bin/python''" "posix_path ''//a/./b'' = (''//'', [''a'', ''b''])" "posix_str (posix_path []) = ''.''"
  by (simp_all add: join_path_def posix_path_def posix_str_def path_parts_def)

end
