(* ===== verification/Suites.thy ===== *)
theory Suites
  imports Instrument Routing Paths
begin

section \<open>Verification suites\<close>

text \<open>
  verification/suite.py, worktree.py and toolchain.py: the definition of a named suite and its validation,
  discovery, prerequisite probes, placeholder substitution, and the execution of a suite into PASS, FAIL or BLOCKED.
  The modules of the suites directory, the registered probes, git, the file system and the command runner are
  parameters; the runner acts on a world of its own, so the order of the steps is visible. A suite given as a
  mapping is a document, so its steps are mappings too. Seconds are documents: they are only recorded.
\<close>

subsection \<open>Definitions\<close>

datatype suite_class = HERMETIC | HOST | FLEET | CI_ONLY

datatype suite_verdict = PASS | FAIL | BLOCKED

datatype probe_status = AVAILABLE | UNAVAILABLE | MALFORMED

fun class_str :: "suite_class \<Rightarrow> string" where
  "class_str HERMETIC = ''HERMETIC''"
| "class_str HOST = ''HOST''"
| "class_str FLEET = ''FLEET''"
| "class_str CI_ONLY = ''CI_ONLY''"

fun result_str :: "suite_verdict \<Rightarrow> string" where
  "result_str PASS = ''PASS''"
| "result_str FAIL = ''FAIL''"
| "result_str BLOCKED = ''BLOCKED''"

fun status_str :: "probe_status \<Rightarrow> string" where
  "status_str AVAILABLE = ''AVAILABLE''"
| "status_str UNAVAILABLE = ''UNAVAILABLE''"
| "status_str MALFORMED = ''MALFORMED''"

record step =
  sp_name :: string
  sp_command :: "string list"
  sp_timeout :: json
  sp_env :: "(string \<times> string) list"

record suite =
  su_name :: string
  su_class :: suite_class
  su_description :: string
  su_steps :: "step list"
  su_resources :: "string list"
  su_probes :: "string list"

definition require_meta :: "bool \<Rightarrow> string \<Rightarrow> unit res" where
  "require_meta condition detail = raise_if (\<not> condition) (ValueError (''Invalid suite metadata: '' @ detail))"

definition step_char :: "char \<Rightarrow> bool" where
  "step_char c \<longleftrightarrow> ident_char c \<or> c = CHR ''.''"

definition check_step :: "step \<Rightarrow> unit res" where
  "check_step s =
     seqR (require_meta (1 \<le> length (sp_name s) \<and> length (sp_name s) \<le> 80 \<and> list_all step_char (sp_name s)) ''step name must be a bounded identifier'')
     (require_meta (sp_command s \<noteq> [] \<and> list_all (\<lambda>a. \<not> py_blank a) (sp_command s)) ''step command must be a non-empty argv list'')"

definition make_step :: "string \<Rightarrow> string list \<Rightarrow> json \<Rightarrow> (string \<times> string) list \<Rightarrow> step res" where
  "make_step name command timeout env =
     (let s = \<lparr>sp_name = name, sp_command = command, sp_timeout = timeout, sp_env = env\<rparr> in seqR (check_step s) (Inr s))"

text \<open>\<open>[a-z0-9]+(?:-[a-z0-9]+)*\<close>.\<close>

definition kebab_char :: "char \<Rightarrow> bool" where
  "kebab_char c \<longleftrightarrow> is_digit c \<or> (97 \<le> (of_char c :: nat) \<and> (of_char c :: nat) \<le> 122)"

definition is_kebab :: "string \<Rightarrow> bool" where
  "is_kebab s \<longleftrightarrow> list_all (\<lambda>part. part \<noteq> [] \<and> list_all kebab_char part) (split_on (CHR ''-'') s)"

definition check_suite :: "suite \<Rightarrow> unit res" where
  "check_suite u =
     seqR (require_meta (is_kebab (su_name u)) ''suite name must be kebab-case'')
     (require_meta (\<not> py_blank (su_description u)) ''description is required'')"

subsection \<open>Discovery\<close>

text \<open>What the attribute \<open>SUITE\<close> of a module holds.\<close>

datatype module_suite = NoSuite | SuiteObject suite | SuiteMapping json | OtherObject

definition strings_of :: "json \<Rightarrow> string list res" where
  "strings_of v = bindR (py_iter v) (\<lambda>xs. Inr (map jstr xs))"

definition env_of :: "json \<Rightarrow> (string \<times> string) list" where
  "env_of v = (if py_true v then map (\<lambda>(k, x). (k, jstr x)) (jitems v) else [])"

definition step_of :: "json \<Rightarrow> step res" where
  "step_of i =
     (if \<not> is_dict i then Inl (SuiteError ''steps must be Step instances or mappings'')
      else bindR (item i ''name'') (\<lambda>name. bindR (item i ''command'') (\<lambda>command. bindR (strings_of command) (\<lambda>argv.
        seqR (require_meta (is_str name) ''step name must be a bounded identifier'')
        (make_step (jstr name) argv (dget_or i ''timeout'' (JFloat 12000 1)) (env_of (dget i ''env'')))))))"

definition class_of_str :: "string \<Rightarrow> suite_class res" where
  "class_of_str s =
     (case find (\<lambda>c. class_str c = s) [HERMETIC, HOST, FLEET, CI_ONLY] of
        Some c \<Rightarrow> Inr c | None \<Rightarrow> Inl (ValueError (py_repr s @ '' is not a valid VerificationClass'')))"

definition suite_from_mapping :: "json \<Rightarrow> suite res" where
  "suite_from_mapping raw =
     (let given = dget_or raw ''verification_class'' (dget raw ''class'') in
      bindR (if given = JNull then Inr HERMETIC else class_of_str (jstr given)) (\<lambda>c.
      bindR (item raw ''name'') (\<lambda>name.
      bindR (if dget raw ''steps'' = JNull then Inr [] else bindR (py_iter (dget raw ''steps'')) (mapR step_of)) (\<lambda>steps.
      bindR (strings_of (dget_or raw ''resources'' (JList []))) (\<lambda>resources.
      bindR (strings_of (dget_or raw ''prereq_probes'' (JList []))) (\<lambda>probes.
      seqR (raise_if (\<not> is_str name) (TypeError ''expected string or bytes-like object''))
      (let u = \<lparr>su_name = jstr name, su_class = c, su_description = jstr (dget_or raw ''description'' (JStr [])), su_steps = steps,
             su_resources = resources, su_probes = probes\<rparr> in
       seqR (check_suite u) (Inr u))))))))"

definition module_value :: "string \<Rightarrow> module_suite \<Rightarrow> suite option res" where
  "module_value file_name raw =
     (case raw of
        NoSuite \<Rightarrow> Inr None
      | SuiteObject u \<Rightarrow> Inr (Some u)
      | SuiteMapping m \<Rightarrow> bindR (suite_from_mapping m) (\<lambda>u. Inr (Some u))
      | OtherObject \<Rightarrow> Inl (SuiteError (file_name @ '': SUITE must be a Suite instance or a mapping'')))"

definition dashed :: "string \<Rightarrow> string" where
  "dashed = map (\<lambda>c. if c = CHR ''_'' then CHR ''-'' else c)"

text \<open>A module is its stem and what importing it gives; files that start with an underscore are skipped.\<close>

definition add_module :: "(string \<times> suite) list \<Rightarrow> string \<times> module_suite res \<Rightarrow> (string \<times> suite) list res" where
  "add_module found x =
     (case x of (stem, loaded) \<Rightarrow>
        if take 1 stem = ''_'' then Inr found
        else bindR loaded (\<lambda>raw. bindR (module_value (stem @ ''.py'') raw) (\<lambda>m. case m of
          None \<Rightarrow> Inr found
        | Some u \<Rightarrow>
            seqR (raise_if (su_name u \<noteq> dashed stem)
              (SuiteError (stem @ ''.py: suite name '' @ py_repr (su_name u) @ '' must match the module file name'')))
            (seqR (raise_if (su_name u \<in> fst ` set found) (SuiteError (''duplicate suite '' @ py_repr (su_name u))))
            (Inr (found @ [(su_name u, u)]))))))"

definition discover_suites :: "(string \<times> module_suite res) list \<Rightarrow> (string \<times> suite) list res" where
  "discover_suites modules = foldR add_module [] (sort_key (\<lambda>(stem, _). stem @ ''.py'') modules)"

definition load_suite :: "(string \<times> module_suite res) list \<Rightarrow> string \<Rightarrow> suite res" where
  "load_suite modules name =
     (if \<not> is_kebab name then Inl (SuiteError (''unknown or invalid suite name: '' @ py_repr name))
      else bindR (discover_suites modules) (\<lambda>suites. case map_of suites name of
        Some u \<Rightarrow> Inr u
      | None \<Rightarrow> Inl (SuiteError (''unknown suite: '' @ py_repr name))))"

subsection \<open>Probes\<close>

record probe_result =
  pr_status :: probe_status
  pr_detail :: string

definition available :: "probe_result \<Rightarrow> bool" where
  "available r \<longleftrightarrow> pr_status r = AVAILABLE"

definition probe_json :: "probe_result \<Rightarrow> json" where
  "probe_json r = JObj [(''status'', JStr (status_str (pr_status r))), (''detail'', JStr (pr_detail r))]"

text \<open>A registered probe returns a result, or something else whose type is named.\<close>

definition probe :: "(string \<Rightarrow> ((string \<times> string) list \<Rightarrow> (string + probe_result) res) option) \<Rightarrow> string \<Rightarrow> (string \<times> string) list \<Rightarrow> probe_result" where
  "probe registered name env =
     (case registered name of
        None \<Rightarrow> \<lparr>pr_status = MALFORMED, pr_detail = ''no probe registered for '' @ py_repr name\<rparr>
      | Some f \<Rightarrow>
          (case f env of
             Inl e \<Rightarrow> \<lparr>pr_status = MALFORMED, pr_detail = ''probe '' @ name @ '' raised: '' @ exn_type e @ '': '' @ exn_str e\<rparr>
           | Inr (Inl other) \<Rightarrow> \<lparr>pr_status = MALFORMED, pr_detail = ''probe '' @ name @ '' returned '' @ other\<rparr>
           | Inr (Inr r) \<Rightarrow> r))"

definition missing :: "(string \<times> probe_result) list \<Rightarrow> (string \<times> probe_result) list" where
  "missing prerequisites = filter (\<lambda>(_, r). \<not> available r) prerequisites"

definition probe_note :: "string \<times> probe_result \<Rightarrow> string" where
  "probe_note x = fst x @ ''='' @ status_str (pr_status (snd x)) @ (if pr_detail (snd x) = [] then [] else '' ('' @ pr_detail (snd x) @ '')'')"

definition missing_note :: "(string \<times> probe_result) list \<Rightarrow> string" where
  "missing_note prerequisites = join_with '', '' (map probe_note (sort_key fst (missing prerequisites)))"

subsection \<open>Steps\<close>

record step_report =
  sr_name :: string
  sr_command :: "string list"
  sr_exit :: "int option"
  sr_stdout :: string
  sr_stderr :: string
  sr_duration :: json
  sr_timed_out :: bool
  sr_env :: "(string \<times> string) list"

definition report_json :: "(json \<Rightarrow> json) \<Rightarrow> step_report \<Rightarrow> json" where
  "report_json round3 r = JObj
     [(''name'', JStr (sr_name r)), (''command'', JList (map JStr (sr_command r))), (''exit_code'', jopt JInt (sr_exit r)),
      (''stdout_tail'', JStr (sr_stdout r)), (''stderr_tail'', JStr (sr_stderr r)), (''duration'', round3 (sr_duration r)),
      (''timed_out'', JBool (sr_timed_out r)), (''env'', JList (map JStr (sort (map fst (sr_env r)))))]"

definition bare_name :: "string \<Rightarrow> bool" where
  "bare_name s \<longleftrightarrow> (case s of [] \<Rightarrow> False
     | c # cs \<Rightarrow> (65 \<le> (of_char c :: nat) \<and> (of_char c :: nat) \<le> 90)
         \<and> list_all (\<lambda>x. (65 \<le> (of_char x :: nat) \<and> (of_char x :: nat) \<le> 90) \<or> is_digit x \<or> x = CHR ''_'') cs)"

definition env_value :: "(string \<times> string) list \<Rightarrow> string \<Rightarrow> string option" where
  "env_value env k = (case map_of env k of Some v \<Rightarrow> if v = [] then None else Some v | None \<Rightarrow> None)"

definition substitute_arg :: "(string \<times> string) list \<Rightarrow> string \<Rightarrow> string" where
  "substitute_arg env a =
     (case (if take 1 a = ''$'' then env_value env (tl a) else None) of
        Some v \<Rightarrow> v
      | None \<Rightarrow> (case (if bare_name a then env_value env a else None) of Some v \<Rightarrow> v | None \<Rightarrow> a))"

definition substitute :: "string list \<Rightarrow> (string \<times> string) list \<Rightarrow> string list" where
  "substitute command env = map (substitute_arg env) command"

definition prepare_step :: "(string \<times> string) list \<Rightarrow> step \<Rightarrow> step res" where
  "prepare_step environment s =
     make_step (sp_name s) (substitute (sp_command s) environment) (sp_timeout s) (map (\<lambda>(k, v). (k, substitute_arg environment v)) (sp_env s))"

type_synonym 'w runner = "step \<Rightarrow> string \<Rightarrow> (string \<times> string) list \<Rightarrow> 'w \<Rightarrow> step_report res \<times> 'w"

definition run_step :: "'w runner \<Rightarrow> string \<Rightarrow> (string \<times> string) list \<Rightarrow> step \<Rightarrow> 'w \<Rightarrow> step_report res \<times> 'w" where
  "run_step runner worktree environment s w =
     (case prepare_step environment s of Inl e \<Rightarrow> (Inl e, w) | Inr s' \<Rightarrow> runner s' worktree (sp_env s') w)"

fun run_steps :: "'w runner \<Rightarrow> string \<Rightarrow> (string \<times> string) list \<Rightarrow> step list \<Rightarrow> 'w \<Rightarrow> step_report list res \<times> 'w" where
  "run_steps runner worktree environment [] w = (Inr [], w)"
| "run_steps runner worktree environment (s # ss) w =
     (case run_step runner worktree environment s w of
        (Inl e, w1) \<Rightarrow> (Inl e, w1)
      | (Inr r, w1) \<Rightarrow>
          (case run_steps runner worktree environment ss w1 of
             (Inl e, w2) \<Rightarrow> (Inl e, w2)
           | (Inr rs, w2) \<Rightarrow> (Inr (r # rs), w2)))"

definition step_failed :: "step_report \<Rightarrow> bool" where
  "step_failed r \<longleftrightarrow> sr_exit r \<noteq> Some 0 \<and> sr_exit r \<noteq> None \<or> sr_timed_out r"

definition failure_note :: "step_report \<Rightarrow> string" where
  "failure_note r = sr_name r @ '': exit='' @ (case sr_exit r of None \<Rightarrow> ''None'' | Some i \<Rightarrow> show_int i) @ (if sr_timed_out r then '' (timeout)'' else [])"

definition judge :: "step_report list \<Rightarrow> suite_verdict \<times> string" where
  "judge reports =
     (let failed = filter step_failed reports in
      if failed = [] then (PASS, []) else (FAIL, join_with ''; '' (map failure_note failed)))"

definition execute_suite ::
  "'w runner \<Rightarrow> suite \<Rightarrow> string \<Rightarrow> (string \<times> probe_result) list \<Rightarrow> (string \<times> string) list \<Rightarrow> 'w \<Rightarrow> (suite_verdict \<times> step_report list \<times> string) res \<times> 'w" where
  "execute_suite runner u worktree prerequisites environment w =
     (if missing prerequisites \<noteq> [] then (Inr (BLOCKED, [], missing_note prerequisites), w)
      else case run_steps runner worktree environment (su_steps u) w of
        (Inl e, w1) \<Rightarrow> (Inl e, w1)
      | (Inr reports, w1) \<Rightarrow> (case judge reports of (result, reason) \<Rightarrow> (Inr (result, reports, reason), w1)))"

subsection \<open>Worktrees\<close>

record worktree =
  wt_root :: string
  wt_branch :: string
  wt_commit :: string
  wt_dirty :: bool

text \<open>\<open>git args cwd\<close> is the return code with the stripped output and error text.\<close>

definition run_git :: "(string list \<Rightarrow> string \<Rightarrow> int \<times> string \<times> string) \<Rightarrow> string list \<Rightarrow> string \<Rightarrow> string res" where
  "run_git git arguments cwd =
     (case git arguments cwd of (code, out, err) \<Rightarrow>
        if code \<noteq> 0 then Inl (WorktreeError (''git '' @ join_with '' '' arguments @ '' failed: '' @ err)) else Inr out)"

definition catch_worktree :: "'a res \<Rightarrow> 'a res \<Rightarrow> 'a res" where
  "catch_worktree m handler = (case m of Inl (WorktreeError _) \<Rightarrow> handler | r \<Rightarrow> r)"

definition resolve_worktree ::
  "(string list \<Rightarrow> string \<Rightarrow> int \<times> string \<times> string) \<Rightarrow> (string \<Rightarrow> string) \<Rightarrow> (string \<Rightarrow> bool) \<Rightarrow> string \<Rightarrow> worktree res" where
  "resolve_worktree git resolve_path is_dir path =
     (let at = resolve_path path in
      seqR (raise_if (\<not> is_dir at) (WorktreeError (''not a directory: '' @ at)))
      (bindR (catch_worktree (run_git git [''rev-parse'', ''--show-toplevel''] at) (Inl (WorktreeError (''not a git worktree: '' @ at)))) (\<lambda>raw.
       let base = resolve_path raw in
       bindR (catch_worktree (run_git git [''rev-parse'', ''HEAD''] base) (Inl (WorktreeError ''worktree has no commit (empty repository)''))) (\<lambda>commit.
       bindR (catch_worktree (run_git git [''branch'', ''--show-current''] base) (Inr [])) (\<lambda>branch.
       bindR (run_git git [''status'', ''--porcelain''] base) (\<lambda>dirty.
       Inr \<lparr>wt_root = base, wt_branch = (if branch = [] then ''detached@'' @ py_take 12 commit else branch), wt_commit = commit,
         wt_dirty = (dirty \<noteq> [])\<rparr>))))))"

subsection \<open>Toolchain\<close>

definition DEFAULT_TOOLCHAIN :: string where
  "DEFAULT_TOOLCHAIN = ''/home/leofuso/workspace/blaine/.local''"

definition env_or :: "(string \<times> string) list \<Rightarrow> string \<Rightarrow> string \<Rightarrow> string" where
  "env_or os name d = (case env_value os name of Some v \<Rightarrow> v | None \<Rightarrow> d)"

definition resolve_python :: "(string \<Rightarrow> bool) \<Rightarrow> string \<Rightarrow> (string \<times> string) list \<Rightarrow> string" where
  "resolve_python is_file executable os =
     (case env_value os ''BLAINE_PYTHON'' of
        Some v \<Rightarrow> v
      | None \<Rightarrow>
          let candidate = join_path (env_or os ''BLAINE_TOOLCHAIN'' DEFAULT_TOOLCHAIN) ''runtime-venv/bin/python'' in
          if is_file candidate then candidate else env_or os ''PYTHON'' executable)"

definition resolve_restate_server :: "(string \<Rightarrow> bool) \<Rightarrow> (string \<times> string) list \<Rightarrow> string" where
  "resolve_restate_server is_file os =
     (case env_value os ''BLAINE_RESTATE_SERVER'' of
        Some v \<Rightarrow> v
      | None \<Rightarrow>
          let candidate = join_path (env_or os ''BLAINE_TOOLCHAIN'' DEFAULT_TOOLCHAIN) ''bin/restate-server'' in
          if is_file candidate then candidate else [])"

definition toolchain_environment :: "(string \<Rightarrow> bool) \<Rightarrow> string \<Rightarrow> (string \<times> string) list \<Rightarrow> (string \<times> string) list" where
  "toolchain_environment is_file executable os =
     [(''BLAINE_TOOLCHAIN'', env_or os ''BLAINE_TOOLCHAIN'' DEFAULT_TOOLCHAIN)]
     @ (let python = resolve_python is_file executable os in if python = [] then [] else [(''BLAINE_PYTHON'', python)])
     @ (let server = resolve_restate_server is_file os in if server = [] then [] else [(''BLAINE_RESTATE_SERVER'', server)])"

subsection \<open>Running a command\<close>

text \<open>
  The default executor: the last 4000 characters of each stream. The process is a parameter, which ends or is killed
  at the timeout of the step; how a number prints is one too.
\<close>

datatype process_end = Completed int string string | Expired "string option" "string option"

definition py_last :: "nat \<Rightarrow> string \<Rightarrow> string" where
  "py_last n s = drop (length (py_take (py_len s - n) s)) s"

definition tail_text :: "string \<Rightarrow> string" where
  "tail_text data =
     (let shown = decode_replace (length data) data in
      if py_len shown \<le> 4000 then shown else ''...'' @ [CHR 0x0A] @ py_last 4000 shown)"

definition step_report_of :: "(json \<Rightarrow> string) \<Rightarrow> step \<Rightarrow> json \<Rightarrow> process_end \<Rightarrow> step_report" where
  "step_report_of show_num s elapsed p =
     (case p of
        Completed code out err \<Rightarrow>
          \<lparr>sr_name = sp_name s, sr_command = sp_command s, sr_exit = Some code, sr_stdout = tail_text out, sr_stderr = tail_text err,
           sr_duration = elapsed, sr_timed_out = False, sr_env = sp_env s\<rparr>
      | Expired out err \<Rightarrow>
          \<lparr>sr_name = sp_name s, sr_command = sp_command s, sr_exit = None, sr_stdout = tail_text (case out of None \<Rightarrow> [] | Some b \<Rightarrow> b),
           sr_stderr = tail_text (case err of None \<Rightarrow> [] | Some b \<Rightarrow> b) @ [CHR 0x0A] @ ''[timeout after '' @ show_num (sp_timeout s) @ ''s]'',
           sr_duration = elapsed, sr_timed_out = True, sr_env = sp_env s\<rparr>)"

definition command_run ::
  "(string list \<Rightarrow> string \<Rightarrow> (string \<times> string) list \<Rightarrow> json \<Rightarrow> 'w \<Rightarrow> process_end res \<times> 'w) \<Rightarrow> ('w \<Rightarrow> 'w \<Rightarrow> json) \<Rightarrow> (json \<Rightarrow> string) \<Rightarrow> (string \<times> string) list \<Rightarrow> 'w runner" where
  "command_run spawn elapsed show_num os s worktree env w =
     (case spawn (sp_command s) worktree (dict_merge os env) (sp_timeout s) w of
        (Inl e, w1) \<Rightarrow> (Inl e, w1)
      | (Inr p, w1) \<Rightarrow> (Inr (step_report_of show_num s (elapsed w w1) p), w1))"

subsection \<open>The probe of the toolchain\<close>

text \<open>What asking a binary for its version does; both streams are given without surrounding blanks.\<close>

datatype launched = NotFound string | Crashed exn | Exited int string string

definition line_breaks :: string where
  "line_breaks = [CHR 0x0A, CHR 0x0B, CHR 0x0C, CHR 0x0D, CHR 0x1C, CHR 0x1D, CHR 0x1E]"

definition break_len :: "string \<Rightarrow> nat" where
  "break_len s =
     (if s = [] then 0 else if hd s \<in> set line_breaks then 1 else if take 2 s = [CHR 0xC2, CHR 0x85] then 2
      else if take 3 s \<in> {[CHR 0xE2, CHR 0x80, CHR 0xA8], [CHR 0xE2, CHR 0x80, CHR 0xA9]} then 3 else 0)"

text \<open>\<open>s.splitlines ()[-1]\<close> of a text without surrounding blanks.\<close>

fun last_line :: "nat \<Rightarrow> string \<Rightarrow> string \<Rightarrow> string" where
  "last_line k line [] = line"
| "last_line (Suc k) line (c # s) = last_line k line s"
| "last_line 0 line (c # s) = (let n = break_len (c # s) in if n \<noteq> 0 then last_line (n - 1) [] s else last_line 0 (line @ [c]) s)"

definition probe_restate :: "(string \<Rightarrow> bool) \<Rightarrow> (string \<Rightarrow> launched) \<Rightarrow> (string \<times> string) list \<Rightarrow> probe_result" where
  "probe_restate is_file version env =
     (let toolchain = env_or env ''BLAINE_TOOLCHAIN'' DEFAULT_TOOLCHAIN;
          server = posix_str (posix_path (env_or env ''BLAINE_RESTATE_SERVER'' (join_path toolchain ''bin/restate-server'')));
          python = join_path (env_or env ''BLAINE_VENV'' (join_path toolchain ''runtime-venv'')) ''bin/python'' in
      if \<not> is_file server then \<lparr>pr_status = UNAVAILABLE, pr_detail = ''restate-server not found at '' @ server\<rparr>
      else if \<not> is_file python then \<lparr>pr_status = UNAVAILABLE, pr_detail = ''runtime venv python not found at '' @ python\<rparr>
      else case version server of
        NotFound m \<Rightarrow> \<lparr>pr_status = UNAVAILABLE, pr_detail = m\<rparr>
      | Crashed e \<Rightarrow> \<lparr>pr_status = MALFORMED, pr_detail = exn_type e @ '': '' @ exn_str e\<rparr>
      | Exited code out err \<Rightarrow>
          if code \<noteq> 0 \<or> out = [] then \<lparr>pr_status = MALFORMED, pr_detail = ''restate-server --version failed: '' @ py_take 200 err\<rparr>
          else \<lparr>pr_status = AVAILABLE, pr_detail = last_line 0 [] out\<rparr>)"

subsection \<open>What a verdict means\<close>

lemma judge_PASS: "fst (judge reports) = PASS \<longleftrightarrow> list_all (\<lambda>r. \<not> step_failed r) reports"
  by (auto simp: judge_def Let_def filter_empty_conv list_all_iff)

lemma join_with_nonempty: "xs \<noteq> [] \<Longrightarrow> hd xs \<noteq> [] \<Longrightarrow> join_with sep xs \<noteq> []"
  by (cases "(sep, xs)" rule: join_with.cases) auto

lemma judge_reason: "snd (judge reports) = [] \<longleftrightarrow> fst (judge reports) = PASS"
proof (cases "filter step_failed reports")
  case (Cons r rs)
  have "failure_note r \<noteq> []" by (simp add: failure_note_def)
  with Cons join_with_nonempty [of "map failure_note (r # rs)" "''; ''"] show ?thesis by (simp add: judge_def)
qed (simp add: judge_def)

lemma judge_not_blocked: "fst (judge reports) \<noteq> BLOCKED"
  by (simp add: judge_def Let_def)

text \<open>Every step ran once, in the order of the suite, each on the world the step before it left.\<close>

definition ran_in_order :: "'w runner \<Rightarrow> string \<Rightarrow> (string \<times> string) list \<Rightarrow> step list \<Rightarrow> step_report list \<Rightarrow> 'w list \<Rightarrow> bool" where
  "ran_in_order runner worktree environment steps reports ws \<longleftrightarrow> length reports = length steps \<and> length ws = Suc (length steps)
     \<and> list_all (\<lambda>i. run_step runner worktree environment (steps ! i) (ws ! i) = (Inr (reports ! i), ws ! Suc i)) [0..<length steps]"

lemma ran_in_order_Cons:
  "run_step runner worktree environment s w = (Inr r, hd ws) \<Longrightarrow> ran_in_order runner worktree environment ss rs ws
     \<Longrightarrow> ran_in_order runner worktree environment (s # ss) (r # rs) (w # ws)"
  unfolding ran_in_order_def list_all_iff by (cases ws) (auto simp: nth_Cons split: nat.splits)

lemma run_steps_ran:
  "run_steps runner worktree environment ss w = (Inr rs, w') \<Longrightarrow>
     \<exists>ws. ran_in_order runner worktree environment ss rs ws \<and> hd ws = w \<and> last ws = w'"
proof (induction ss arbitrary: w rs)
  case Nil
  then show ?case by (intro exI [of _ "[w]"]) (simp add: ran_in_order_def)
next
  case (Cons s ss)
  from Cons.prems obtain r w1 qs where s: "run_step runner worktree environment s w = (Inr r, w1)"
    and q: "run_steps runner worktree environment ss w1 = (Inr qs, w')" and rs: "rs = r # qs"
    by (auto split: prod.splits sum.splits)
  from Cons.IH [OF q] obtain ws where ws: "ran_in_order runner worktree environment ss qs ws" "hd ws = w1" "last ws = w'" by blast
  then have "ws \<noteq> []" by (auto simp: ran_in_order_def)
  with ws s rs ran_in_order_Cons [of runner worktree environment s w r ws ss qs] show ?case by (intro exI [of _ "w # ws"]) simp
qed

text \<open>
  A verdict says what happened. BLOCKED means that a prerequisite was not available, and then nothing was run and
  the world is untouched; otherwise every step of the suite ran exactly once, in order, each on the world the
  previous one left, a failure not stopping the rest, and the verdict is PASS exactly when no step exited with
  another code than 0 or timed out. A verdict other than PASS has a reason, and PASS has none.
\<close>

lemma suite_verdict_honest:
  "case execute_suite runner u worktree prerequisites environment w of
     (Inl _, _) \<Rightarrow> missing prerequisites = []
   | (Inr (result, reports, reason), w') \<Rightarrow>
       (result = BLOCKED) = (missing prerequisites \<noteq> []) \<and> (reason = []) = (result = PASS)
       \<and> (if result = BLOCKED then reports = [] \<and> w' = w
          else (\<exists>ws. ran_in_order runner worktree environment (su_steps u) reports ws \<and> hd ws = w \<and> last ws = w')
            \<and> (result = PASS) = list_all (\<lambda>r. (sr_exit r = Some 0 \<or> sr_exit r = None) \<and> sr_timed_out r = False) reports)"
proof (cases "missing prerequisites = []")
  case True
  have ok: "list_all (\<lambda>r. (sr_exit r = Some 0 \<or> sr_exit r = None) \<and> sr_timed_out r = False) rs = list_all (\<lambda>r. \<not> step_failed r) rs" for rs
    by (auto simp: list_all_iff step_failed_def)
  obtain r w' where s: "run_steps runner worktree environment (su_steps u) w = (r, w')" by fastforce
  with True show ?thesis
  proof (cases r)
    case (Inr rs)
    obtain v n where j: "judge rs = (v, n)" by fastforce
    from run_steps_ran [of runner worktree environment "su_steps u" w rs w'] s Inr
    obtain ws where "ran_in_order runner worktree environment (su_steps u) rs ws" "hd ws = w" "last ws = w'" by auto
    moreover have "v \<noteq> BLOCKED" "(n = []) = (v = PASS)" "(v = PASS) = list_all (\<lambda>r. \<not> step_failed r) rs"
      using judge_not_blocked [of rs] judge_reason [of rs] judge_PASS [of rs] by (simp_all add: j)
    ultimately have "(n = []) = (v = PASS)" "v \<noteq> BLOCKED" "\<exists>ws. ran_in_order runner worktree environment (su_steps u) rs ws \<and> hd ws = w \<and> last ws = w'"
      "(v = PASS) = list_all (\<lambda>r. (sr_exit r = Some 0 \<or> sr_exit r = None) \<and> sr_timed_out r = False) rs"
      by (simp, simp, blast, simp only: ok)
    with True s Inr j show ?thesis by (simp add: execute_suite_def)
  qed (simp add: execute_suite_def s)
next
  case False
  then obtain x xs where m: "sort_key fst (missing prerequisites) = x # xs"
    by (metis length_0_conv length_sort neq_Nil_conv)
  have "missing_note prerequisites \<noteq> []"
    using join_with_nonempty [of "map probe_note (x # xs)" "'', ''"] by (simp add: missing_note_def m probe_note_def)
  with False show ?thesis by (simp add: execute_suite_def)
qed

end
