(* ===== verification/Scheduler.thy ===== *)
theory Scheduler
  imports Suites
begin

section \<open>The verification scheduler\<close>

text \<open>
  verification/scheduler.py, report.py and the exit code of cli.py: strict FIFO admission of host-bound runs with at
  most one active, and the lifecycle of a run. A run is its identity in the map of records, so \<open>self.active is record\<close>
  compares identities. Suites, worktrees, preflight, the command runner and the clock are services of the deployment,
  and act on a world of their own. The durable scheduler over the same suites is the theory \<open>Durable\<close>.
\<close>

subsection \<open>Runs\<close>

datatype run_state = RS_SUBMITTED | RS_QUEUED | RS_PREFLIGHT | RS_RUNNING | RS_COLLECTING_RESULT | RS_PASS | RS_FAIL | RS_BLOCKED | RS_INTERRUPTED

fun state_str :: "run_state \<Rightarrow> string" where
  "state_str RS_SUBMITTED = ''SUBMITTED''"
| "state_str RS_QUEUED = ''QUEUED''"
| "state_str RS_PREFLIGHT = ''PREFLIGHT''"
| "state_str RS_RUNNING = ''RUNNING''"
| "state_str RS_COLLECTING_RESULT = ''COLLECTING_RESULT''"
| "state_str RS_PASS = ''PASS''"
| "state_str RS_FAIL = ''FAIL''"
| "state_str RS_BLOCKED = ''BLOCKED''"
| "state_str RS_INTERRUPTED = ''INTERRUPTED''"

definition TERMINAL_STATES :: "run_state list" where
  "TERMINAL_STATES = [RS_PASS, RS_FAIL, RS_BLOCKED, RS_INTERRUPTED]"

fun state_of_verdict :: "suite_verdict \<Rightarrow> run_state" where
  "state_of_verdict PASS = RS_PASS"
| "state_of_verdict FAIL = RS_FAIL"
| "state_of_verdict BLOCKED = RS_BLOCKED"

record run_record =
  rr_run_id :: string
  rr_suite :: suite
  rr_worktree :: worktree
  rr_state :: run_state
  rr_prerequisites :: "(string \<times> probe_result) list"
  rr_steps :: "step_report list"
  rr_result :: "suite_verdict option"
  rr_reason :: string
  rr_admitted :: "int option"
  rr_started :: "int option"
  rr_completed :: "int option"
  rr_duration :: "int option"

definition new_record :: "string \<Rightarrow> suite \<Rightarrow> worktree \<Rightarrow> run_record" where
  "new_record run_id u wt = \<lparr>rr_run_id = run_id, rr_suite = u, rr_worktree = wt, rr_state = RS_SUBMITTED, rr_prerequisites = [], rr_steps = [],
     rr_result = None, rr_reason = [], rr_admitted = None, rr_started = None, rr_completed = None, rr_duration = None\<rparr>"

record queue_entry =
  qe_run_id :: string
  qe_submission :: nat
  qe_suite :: string
  qe_at :: int

record scheduler =
  sc_queue :: "queue_entry list"
  sc_active :: "string option"
  sc_runs :: "string \<Rightarrow> run_record option"
  sc_counter :: nat
  sc_admissions :: nat

definition new_scheduler :: scheduler where
  "new_scheduler = \<lparr>sc_queue = [], sc_active = None, sc_runs = (\<lambda>_. None), sc_counter = 1, sc_admissions = 0\<rparr>"

record 'w services =
  sv_load :: "string \<Rightarrow> suite res"
  sv_resolve :: "string \<Rightarrow> worktree res"
  sv_preflight :: "suite \<Rightarrow> (string \<times> string) list \<Rightarrow> 'w \<Rightarrow> (string \<times> probe_result) list res \<times> 'w"
  sv_runner :: "'w runner"
  sv_environment :: "(string \<times> string) list"
  sv_clock :: "'w \<Rightarrow> int"

type_synonym ('a, 'w) sched_outcome = "'a res \<times> scheduler \<times> 'w"

definition set_run :: "string \<Rightarrow> (run_record \<Rightarrow> run_record) \<Rightarrow> scheduler \<Rightarrow> scheduler" where
  "set_run run_id f s = s\<lparr>sc_runs := (sc_runs s)(run_id := map_option f (sc_runs s run_id))\<rparr>"

definition release :: "scheduler \<Rightarrow> scheduler" where
  "release s = s\<lparr>sc_active := None\<rparr>"

definition or_clock :: "int option \<Rightarrow> int \<Rightarrow> int" where
  "or_clock now t = (case now of Some n \<Rightarrow> if n = 0 then t else n | None \<Rightarrow> t)"

definition blocked_record :: "(string \<times> probe_result) list \<Rightarrow> int \<Rightarrow> run_record \<Rightarrow> run_record" where
  "blocked_record prerequisites at r = r\<lparr>rr_prerequisites := prerequisites, rr_result := Some BLOCKED,
     rr_reason := ''missing prerequisites: '' @ missing_note prerequisites, rr_state := RS_BLOCKED, rr_completed := Some at\<rparr>"

definition ended_record :: "suite_verdict \<Rightarrow> string \<Rightarrow> run_state \<Rightarrow> int \<Rightarrow> run_record \<Rightarrow> run_record" where
  "ended_record result reason state at r = r\<lparr>rr_result := Some result, rr_reason := reason, rr_state := state, rr_completed := Some at,
     rr_duration := Some (at - (case rr_started r of None \<Rightarrow> 0 | Some t \<Rightarrow> t))\<rparr>"

definition collected_record :: "suite_verdict \<Rightarrow> step_report list \<Rightarrow> string \<Rightarrow> int \<Rightarrow> run_record \<Rightarrow> run_record" where
  "collected_record result reports reason at r = ended_record result reason (state_of_verdict result) at (r\<lparr>rr_steps := reports\<rparr>)"

subsection \<open>Operations\<close>

definition advance :: "'w services \<Rightarrow> string \<Rightarrow> run_record \<Rightarrow> scheduler \<Rightarrow> 'w \<Rightarrow> (unit, 'w) sched_outcome" where
  "advance sv run_id r s w =
     (let s1 = set_run run_id (\<lambda>r. r\<lparr>rr_state := RS_PREFLIGHT\<rparr>) s in
      case sv_preflight sv (rr_suite r) (sv_environment sv) w of
        (Inl e, w1) \<Rightarrow> (Inl e, s1, w1)
      | (Inr prerequisites, w1) \<Rightarrow>
          if missing prerequisites \<noteq> [] then (Inr (), set_run run_id (blocked_record prerequisites (sv_clock sv w1)) s1, w1)
          else
            let s2 = set_run run_id (\<lambda>r. r\<lparr>rr_prerequisites := prerequisites, rr_state := RS_RUNNING, rr_started := Some (sv_clock sv w1)\<rparr>) s1 in
            (case execute_suite (sv_runner sv) (rr_suite r) (wt_root (rr_worktree r)) prerequisites (sv_environment sv) w1 of
               (Inl e, w2) \<Rightarrow> (Inl e, s2, w2)
             | (Inr (result, reports, reason), w2) \<Rightarrow> (Inr (), set_run run_id (collected_record result reports reason (sv_clock sv w2)) s2, w2)))"

definition run_name :: "nat \<Rightarrow> string" where
  "run_name n = ''run-'' @ show_nat n"

definition submit_error :: "exn \<Rightarrow> exn" where
  "submit_error e = (case e of SuiteError m \<Rightarrow> SubmitError m | WorktreeError m \<Rightarrow> SubmitError m | _ \<Rightarrow> e)"

definition admit_suite :: "'w services \<Rightarrow> string \<Rightarrow> string + worktree \<Rightarrow> (suite \<times> worktree) res" where
  "admit_suite sv name wt =
     (case bindR (sv_load sv name) (\<lambda>u. bindR (case wt of Inl path \<Rightarrow> sv_resolve sv path | Inr identity \<Rightarrow> Inr identity) (\<lambda>identity. Inr (u, identity))) of
        Inl e \<Rightarrow> Inl (submit_error e) | Inr x \<Rightarrow> Inr x)"

definition submit :: "'w services \<Rightarrow> string \<Rightarrow> string + worktree \<Rightarrow> scheduler \<Rightarrow> 'w \<Rightarrow> (string, 'w) sched_outcome" where
  "submit sv name wt s w =
     (case admit_suite sv name wt of
        Inl e \<Rightarrow> (Inl e, s, w)
      | Inr (u, identity) \<Rightarrow>
          let run_id = run_name (sc_counter s); r = new_record run_id u identity;
              s1 = s\<lparr>sc_counter := Suc (sc_counter s), sc_runs := (sc_runs s)(run_id := Some r)\<rparr> in
          if su_class u = HERMETIC then
            (case advance sv run_id r s1 w of (Inl e, s2, w2) \<Rightarrow> (Inl e, s2, w2) | (Inr _, s2, w2) \<Rightarrow> (Inr run_id, s2, w2))
          else
            (Inr run_id,
             set_run run_id (\<lambda>r. r\<lparr>rr_state := RS_QUEUED\<rparr>)
               (s1\<lparr>sc_counter := Suc (sc_counter s1),
                   sc_queue := sc_queue s @ [\<lparr>qe_run_id = run_id, qe_submission = sc_counter s1, qe_suite = name, qe_at = sv_clock sv w\<rparr>]\<rparr>), w))"

definition tick :: "'w services \<Rightarrow> int option \<Rightarrow> scheduler \<Rightarrow> 'w \<Rightarrow> (string option, 'w) sched_outcome" where
  "tick sv now s w =
     (case (sc_active s, sc_queue s) of
        (None, e # rest) \<Rightarrow>
          (let run_id = qe_run_id e; s0 = s\<lparr>sc_queue := rest\<rparr> in
           case sc_runs s run_id of
             None \<Rightarrow> (Inl (KeyError (py_repr run_id)), s0, w)
           | Some r \<Rightarrow>
               let s1 = set_run run_id (\<lambda>r. r\<lparr>rr_state := RS_PREFLIGHT\<rparr>) s0 in
               (case sv_preflight sv (rr_suite r) (sv_environment sv) w of
                  (Inl x, w1) \<Rightarrow> (Inl x, s1, w1)
                | (Inr prerequisites, w1) \<Rightarrow>
                    let at = or_clock now (sv_clock sv w1) in
                    if missing prerequisites \<noteq> [] then (Inr (Some run_id), release (set_run run_id (blocked_record prerequisites at) s1), w1)
                    else (Inr (Some run_id),
                      (set_run run_id (\<lambda>r. r\<lparr>rr_prerequisites := prerequisites, rr_admitted := Some at, rr_state := RS_RUNNING, rr_started := Some at\<rparr>) s1)
                        \<lparr>sc_active := Some run_id, sc_admissions := Suc (sc_admissions s)\<rparr>, w1)))
      | _ \<Rightarrow> (Inr None, s, w))"

definition run_active :: "'w services \<Rightarrow> string \<Rightarrow> scheduler \<Rightarrow> 'w \<Rightarrow> (unit, 'w) sched_outcome" where
  "run_active sv run_id s w =
     (case sc_runs s run_id of
        None \<Rightarrow> (Inl (KeyError (py_repr run_id)), s, w)
      | Some r \<Rightarrow>
          if sc_active s \<noteq> Some run_id then (Inl (ValueError (run_id @ '' is not the active run'')), s, w)
          else
            (case execute_suite (sv_runner sv) (rr_suite r) (wt_root (rr_worktree r)) (rr_prerequisites r) (sv_environment sv) w of
               (Inl e, w1) \<Rightarrow>
                 (Inr (), release (set_run run_id (ended_record FAIL (''executor error: '' @ exn_type e @ '': '' @ exn_str e) RS_FAIL (sv_clock sv w1)) s), w1)
             | (Inr (result, reports, reason), w1) \<Rightarrow>
                 (Inr (), release (set_run run_id (collected_record result reports reason (sv_clock sv w1)) s), w1)))"

definition interrupt :: "'w services \<Rightarrow> string \<Rightarrow> string \<Rightarrow> scheduler \<Rightarrow> 'w \<Rightarrow> (unit, 'w) sched_outcome" where
  "interrupt sv run_id reason s w =
     (case sc_runs s run_id of
        None \<Rightarrow> (Inl (KeyError (py_repr run_id)), s, w)
      | Some r \<Rightarrow>
          if sc_active s \<noteq> Some run_id then (Inr (), s, w)
          else (Inr (), release (set_run run_id
            (ended_record BLOCKED (if reason = [] then ''interrupted'' else ''interrupted: '' @ reason) RS_INTERRUPTED (sv_clock sv w)) s), w))"

subsection \<open>Calls in any order\<close>

datatype sched_op = Submit string "string + worktree" | Tick "int option" | Run string | Interrupt string string

fun sched_step :: "'w services \<Rightarrow> sched_op \<Rightarrow> scheduler \<Rightarrow> 'w \<Rightarrow> (string option, 'w) sched_outcome" where
  "sched_step sv (Submit name wt) s w = (case submit sv name wt s w of (r, s1, w1) \<Rightarrow> (map_sum id Some r, s1, w1))"
| "sched_step sv (Tick now) s w = tick sv now s w"
| "sched_step sv (Run run_id) s w = (case run_active sv run_id s w of (r, s1, w1) \<Rightarrow> (map_sum id (\<lambda>_. None) r, s1, w1))"
| "sched_step sv (Interrupt run_id reason) s w = (case interrupt sv run_id reason s w of (r, s1, w1) \<Rightarrow> (map_sum id (\<lambda>_. None) r, s1, w1))"

definition after :: "'w services \<Rightarrow> sched_op \<Rightarrow> scheduler \<times> 'w \<Rightarrow> scheduler \<times> 'w" where
  "after sv op x = snd (sched_step sv op (fst x) (snd x))"

definition after_all :: "'w services \<Rightarrow> sched_op list \<Rightarrow> scheduler \<times> 'w \<Rightarrow> scheduler \<times> 'w" where
  "after_all sv ops x = fold (after sv) ops x"

subsection \<open>Reports\<close>

definition progress_json :: "(json \<Rightarrow> json) \<Rightarrow> run_record \<Rightarrow> json" where
  "progress_json round3 r = JObj
     [(''run_id'', JStr (rr_run_id r)), (''suite'', JStr (su_name (rr_suite r))), (''state'', JStr (state_str (rr_state r))),
      (''result'', jopt (\<lambda>v. JStr (result_str v)) (rr_result r)), (''reason'', JStr (rr_reason r)),
      (''verification_class'', JStr (class_str (su_class (rr_suite r)))), (''resources'', JList (map JStr (su_resources (rr_suite r)))),
      (''prerequisites'', JObj (map (\<lambda>(k, v). (k, probe_json v)) (rr_prerequisites r))), (''steps'', JList (map (report_json round3) (rr_steps r))),
      (''worktree'', JStr (wt_root (rr_worktree r))), (''branch'', JStr (wt_branch (rr_worktree r))), (''commit'', JStr (wt_commit (rr_worktree r))),
      (''dirty'', JBool (wt_dirty (rr_worktree r))), (''admitted_at'', jopt JInt (rr_admitted r)), (''started_at'', jopt JInt (rr_started r)),
      (''completed_at'', jopt JInt (rr_completed r)), (''duration'', jopt JInt (rr_duration r))]"

definition run_report :: "(json \<Rightarrow> json) \<Rightarrow> string \<Rightarrow> json \<Rightarrow> run_record \<Rightarrow> json" where
  "run_report round3 generated_at host r =
     (let progress = progress_json round3 r in JObj
       [(''schema_version'', JInt 1), (''generated_at'', JStr generated_at), (''run_id'', JStr (rr_run_id r)), (''suite'', JStr (su_name (rr_suite r))),
        (''verification_class'', JStr (class_str (su_class (rr_suite r)))),
        (''result'', (case rr_result r of Some v \<Rightarrow> JStr (result_str v) | None \<Rightarrow> dget progress ''state'')), (''reason'', JStr (rr_reason r)),
        (''resources'', JList (map JStr (su_resources (rr_suite r)))), (''prerequisites'', dget progress ''prerequisites''), (''steps'', dget progress ''steps''),
        (''worktree'', JObj [(''root'', dget progress ''worktree''), (''branch'', dget progress ''branch''), (''commit'', dget progress ''commit''),
           (''dirty'', dget progress ''dirty'')]),
        (''timing'', JObj [(''admitted_at'', jopt JInt (rr_admitted r)), (''started_at'', jopt JInt (rr_started r)),
           (''completed_at'', jopt JInt (rr_completed r)), (''duration'', jopt JInt (rr_duration r))]),
        (''state'', dget progress ''state''), (''environment'', host)])"

definition summarize_report :: "json \<Rightarrow> string" where
  "summarize_report report =
     (let work = dget report ''worktree'' in
      join_with '' ''
        ([sget report ''run_id'' @ '': '' @ sget report ''suite'' @ '' -> '' @ sget report ''result'', ''['' @ sget report ''verification_class'' @ '']'']
         @ (if sget report ''reason'' = [] then [] else [''reason: '' @ sget report ''reason''])
         @ [''worktree='' @ sget work ''root'' @ '' commit='' @ py_take 12 (sget work ''commit'') @ '' dirty='' @ (if dget work ''dirty'' = JBool True then ''True'' else ''False'')]))"

text \<open>The exit code of \<open>run SUITE\<close> in a worktree.\<close>

definition cmd_run :: "'w services \<Rightarrow> string \<Rightarrow> string \<Rightarrow> 'w \<Rightarrow> nat res \<times> 'w" where
  "cmd_run sv name path w =
     (case sv_resolve sv path of
        Inl (WorktreeError _) \<Rightarrow> (Inr 2, w)
      | Inl e \<Rightarrow> (Inl e, w)
      | Inr identity \<Rightarrow>
          (case submit sv name (Inr identity) new_scheduler w of
             (Inl (SubmitError _), _, w1) \<Rightarrow> (Inr 2, w1)
           | (Inl e, _, w1) \<Rightarrow> (Inl e, w1)
           | (Inr run_id, s, w1) \<Rightarrow>
               (case sc_runs s run_id of
                  None \<Rightarrow> (Inl (KeyError (py_repr run_id)), w1)
                | Some r \<Rightarrow> (Inr (if su_class (rr_suite r) \<noteq> HERMETIC then 2 else if rr_result r = Some PASS then 0 else 1), w1))))"

subsection \<open>The interface of a first-in first-out admission\<close>

datatype queue_event = Enqueue string | Dequeue string

text \<open>The abstract queue: an element enters at the end and leaves only from the front.\<close>

fun fifo :: "string list \<Rightarrow> queue_event list \<Rightarrow> string list option" where
  "fifo q [] = Some q"
| "fifo q (Enqueue x # es) = fifo (q @ [x]) es"
| "fifo [] (Dequeue x # es) = None"
| "fifo (y # q) (Dequeue x # es) = (if x = y then fifo q es else None)"

fun enqueued :: "queue_event list \<Rightarrow> string list" where
  "enqueued [] = []"
| "enqueued (Enqueue x # es) = x # enqueued es"
| "enqueued (Dequeue x # es) = enqueued es"

fun dequeued :: "queue_event list \<Rightarrow> string list" where
  "dequeued [] = []"
| "dequeued (Enqueue x # es) = dequeued es"
| "dequeued (Dequeue x # es) = x # dequeued es"

fun trace_events :: "('op \<Rightarrow> 's \<Rightarrow> 's) \<Rightarrow> ('op \<Rightarrow> 's \<Rightarrow> queue_event list) \<Rightarrow> 'op list \<Rightarrow> 's \<Rightarrow> queue_event list" where
  "trace_events step events [] s = []"
| "trace_events step events (op # ops) s = events op s @ trace_events step events ops (step op s)"

lemma fifo_append: "fifo q (es @ fs) = Option.bind (fifo q es) (\<lambda>r. fifo r fs)"
  by (induction q es rule: fifo.induct) auto

lemma fifo_order: "fifo q es = Some r \<Longrightarrow> q @ enqueued es = dequeued es @ r"
  by (induction q es rule: fifo.induct) (auto split: if_splits)

lemma enqueued_append [simp]: "enqueued (es @ fs) = enqueued es @ enqueued fs"
  by (induction es rule: enqueued.induct) auto

locale fifo_system =
  fixes step :: "'op \<Rightarrow> 's \<Rightarrow> 's"
    and events :: "'op \<Rightarrow> 's \<Rightarrow> queue_event list"
    and queue :: "'s \<Rightarrow> string list"
  assumes step_fifo: "fifo (queue s) (events op s) = Some (queue (step op s))"
begin

lemma run_fifo: "fifo (queue s) (trace_events step events ops s) = Some (queue (fold step ops s))"
  by (induction ops arbitrary: s) (simp_all add: fifo_append step_fifo)

lemma run_order: "queue s @ enqueued (trace_events step events ops s) = dequeued (trace_events step events ops s) @ queue (fold step ops s)"
  using fifo_order [OF run_fifo] .

end

subsection \<open>The scheduler admits first in, first out\<close>

definition queued_ids :: "scheduler \<Rightarrow> string list" where
  "queued_ids s = map qe_run_id (sc_queue s)"

text \<open>What a caller sees of the queue: a host submission that returned an identity, and the run a tick took.\<close>

fun sched_events :: "'w services \<Rightarrow> sched_op \<Rightarrow> scheduler \<times> 'w \<Rightarrow> queue_event list" where
  "sched_events sv (Submit name wt) (s, w) =
     (case (fst (submit sv name wt s w), admit_suite sv name wt) of
        (Inr run_id, Inr (u, _)) \<Rightarrow> if su_class u = HERMETIC then [] else [Enqueue run_id]
      | _ \<Rightarrow> [])"
| "sched_events sv (Tick now) (s, w) =
     (case fst (tick sv now s w) of Inr None \<Rightarrow> [] | Inr (Some run_id) \<Rightarrow> [Dequeue run_id] | Inl _ \<Rightarrow> map Dequeue (take 1 (queued_ids s)))"
| "sched_events sv (Run run_id) x = []"
| "sched_events sv (Interrupt run_id reason) x = []"

lemma set_run_same [simp]: "sc_queue (set_run i f s) = sc_queue s" "sc_active (set_run i f s) = sc_active s" "sc_counter (set_run i f s) = sc_counter s"
  "sc_runs (set_run i f s) j = (if j = i then map_option f (sc_runs s i) else sc_runs s j)"
  by (simp_all add: set_run_def)

lemma release_same [simp]: "sc_queue (release s) = sc_queue s" "sc_runs (release s) = sc_runs s" "sc_counter (release s) = sc_counter s"
  "sc_active (release s) = None"
  by (simp_all add: release_def)

text \<open>How the records may change: only the named run does.\<close>

definition only_run :: "string \<Rightarrow> scheduler \<Rightarrow> scheduler \<Rightarrow> bool" where
  "only_run i s t \<longleftrightarrow> sc_queue t = sc_queue s \<and> sc_counter t = sc_counter s \<and> (\<forall>j. j \<noteq> i \<longrightarrow> sc_runs t j = sc_runs s j)"

lemma advance_only:
  "advance sv i r s w = (x, t, w1) \<Longrightarrow> only_run i s t \<and> sc_active t = sc_active s"
  by (auto simp: advance_def Let_def only_run_def split: prod.splits sum.splits if_splits)

lemma submit_cases:
  assumes "submit sv name wt s w = (x, t, w1)"
  obtains e where "admit_suite sv name wt = Inl e" "x = Inl e" "t = s"
  | u identity s1 where "admit_suite sv name wt = Inr (u, identity)" "su_class u = HERMETIC"
      "s1 = s\<lparr>sc_counter := Suc (sc_counter s), sc_runs := (sc_runs s)(run_name (sc_counter s) := Some (new_record (run_name (sc_counter s)) u identity))\<rparr>"
      "\<exists>y. advance sv (run_name (sc_counter s)) (new_record (run_name (sc_counter s)) u identity) s1 w = (y, t, w1)"
      "x = Inr (run_name (sc_counter s)) \<or> (\<exists>e. x = Inl e)"
  | u identity where "admit_suite sv name wt = Inr (u, identity)" "su_class u \<noteq> HERMETIC" "x = Inr (run_name (sc_counter s))"
      "sc_counter t = Suc (Suc (sc_counter s))" "sc_active t = sc_active s" "queued_ids t = queued_ids s @ [run_name (sc_counter s)]"
      "sc_runs t = (sc_runs s)(run_name (sc_counter s) := Some ((new_record (run_name (sc_counter s)) u identity)\<lparr>rr_state := RS_QUEUED\<rparr>))"
proof (cases "admit_suite sv name wt")
  case (Inl e)
  with assms that(1) show thesis by (simp add: submit_def)
next
  case (Inr p)
  obtain u identity where p: "p = (u, identity)" by fastforce
  show thesis
  proof (cases "su_class u = HERMETIC")
    case True
    with assms Inr p that(2) show thesis by (auto simp: submit_def Let_def split: prod.splits sum.splits)
  next
    case False
    with assms Inr p that(3) show thesis by (auto simp: submit_def Let_def queued_ids_def set_run_def)
  qed
qed

lemma submit_fifo: "fifo (queued_ids s) (sched_events sv (Submit name wt) (s, w)) = Some (queued_ids (fst (after sv (Submit name wt) (s, w))))"
proof -
  obtain x t w1 where r: "submit sv name wt s w = (x, t, w1)" by (metis prod_cases3)
  show ?thesis
    using r
  proof (cases rule: submit_cases)
    case 1
    with r show ?thesis by (simp add: after_def)
  next
    case (2 u identity s1)
    then have "queued_ids t = queued_ids s" by (auto simp: queued_ids_def only_run_def dest: advance_only)
    with 2 r show ?thesis by (auto simp: after_def)
  next
    case (3 u identity)
    with r show ?thesis by (simp add: after_def)
  qed
qed

lemma tick_fifo: "fifo (queued_ids s) (sched_events sv (Tick now) (s, w)) = Some (queued_ids (fst (after sv (Tick now) (s, w))))"
proof (cases "(sc_active s, sc_queue s)" rule: prod.exhaust)
  case (Pair a q)
  then show ?thesis
    by (cases a; cases q) (auto simp: after_def tick_def queued_ids_def Let_def split: option.splits prod.splits sum.splits)
qed

lemma run_queue: "queued_ids (fst (snd (run_active sv i s w))) = queued_ids s" "queued_ids (fst (snd (interrupt sv i reason s w))) = queued_ids s"
  by (auto simp: run_active_def interrupt_def queued_ids_def split: option.splits prod.splits sum.splits)

interpretation admission: fifo_system "after sv" "sched_events sv" "\<lambda>x. queued_ids (fst x)" for sv
proof
  fix s :: "scheduler \<times> 'a" and op
  obtain c w where s: "s = (c, w)" by fastforce
  show "fifo (queued_ids (fst s)) (sched_events sv op s) = Some (queued_ids (fst (after sv op s)))"
  proof (cases op)
    case (Submit name wt)
    then show ?thesis using submit_fifo s by simp
  next
    case (Tick now)
    then show ?thesis using tick_fifo s by simp
  next
    case (Run i)
    then show ?thesis using run_queue(1) [of sv i c w] s by (auto simp: after_def split: prod.splits)
  next
    case (Interrupt i reason)
    then show ?thesis using run_queue(2) [of sv i reason c w] s by (auto simp: after_def split: prod.splits)
  qed
qed

subsection \<open>One host run at a time\<close>

definition result_of_state :: "run_state \<Rightarrow> suite_verdict option" where
  "result_of_state st = (case st of RS_PASS \<Rightarrow> Some PASS | RS_FAIL \<Rightarrow> Some FAIL | RS_BLOCKED \<Rightarrow> Some BLOCKED | RS_INTERRUPTED \<Rightarrow> Some BLOCKED | _ \<Rightarrow> None)"

definition host_run :: "run_record \<Rightarrow> bool" where
  "host_run r \<longleftrightarrow> su_class (rr_suite r) \<noteq> HERMETIC"

text \<open>
  Identities are fresh, the queue holds the queued host runs, the active run is the one host run that is running,
  and a record has a result exactly when it has ended, and that one.
\<close>

definition sched_ok :: "scheduler \<Rightarrow> bool" where
  "sched_ok s \<longleftrightarrow>
     (\<forall>i r. sc_runs s i = Some r \<longrightarrow> (\<exists>n < sc_counter s. i = run_name n) \<and> rr_run_id r = i \<and> rr_result r = result_of_state (rr_state r))
     \<and> distinct (queued_ids s)
     \<and> (\<forall>i\<in>set (queued_ids s). \<exists>r. sc_runs s i = Some r \<and> rr_state r = RS_QUEUED \<and> host_run r)
     \<and> (\<forall>i. sc_active s = Some i \<longleftrightarrow> (\<exists>r. sc_runs s i = Some r \<and> rr_state r = RS_RUNNING \<and> host_run r))"

lemma show_nat_inj: "show_nat m = show_nat n \<longleftrightarrow> m = n"
  by (metis show_nat_val)

lemma run_name_inj [simp]: "run_name m = run_name n \<longleftrightarrow> m = n"
  by (simp add: run_name_def show_nat_inj)

lemma sched_okD:
  assumes "sched_ok s"
  shows "sc_runs s i = Some r \<Longrightarrow> (\<exists>n < sc_counter s. i = run_name n) \<and> rr_run_id r = i \<and> rr_result r = result_of_state (rr_state r)"
    "distinct (queued_ids s)" "i \<in> set (queued_ids s) \<Longrightarrow> \<exists>r. sc_runs s i = Some r \<and> rr_state r = RS_QUEUED \<and> host_run r"
    "sc_active s = Some i \<longleftrightarrow> (\<exists>r. sc_runs s i = Some r \<and> rr_state r = RS_RUNNING \<and> host_run r)"
  using assms unfolding sched_ok_def by blast+

lemma fresh_name: "sched_ok s \<Longrightarrow> sc_runs s (run_name (sc_counter s)) = None"
  by (cases "sc_runs s (run_name (sc_counter s))") (auto dest: sched_okD(1))

text \<open>Replacing the record of one run: what has to be shown of it.\<close>

lemma sched_ok_change:
  assumes ok: "sched_ok s"
    and runs: "\<And>j. sc_runs t j = (if j = i then Some r else sc_runs s j)"
    and counter: "sc_counter s \<le> sc_counter t" "\<exists>n < sc_counter t. i = run_name n"
    and own: "rr_run_id r = i" "rr_result r = result_of_state (rr_state r)"
    and queue: "distinct (queued_ids t)" "set (queued_ids t) - {i} \<subseteq> set (queued_ids s)"
      "i \<in> set (queued_ids t) \<Longrightarrow> rr_state r = RS_QUEUED \<and> host_run r"
    and active: "sc_active t = Some i \<longleftrightarrow> rr_state r = RS_RUNNING \<and> host_run r" "\<And>j. j \<noteq> i \<Longrightarrow> sc_active t = Some j \<longleftrightarrow> sc_active s = Some j"
  shows "sched_ok t"
proof -
  have "(\<exists>n < sc_counter t. j = run_name n) \<and> rr_run_id q = j \<and> rr_result q = result_of_state (rr_state q)" if "sc_runs t j = Some q" for j q
    using that runs [of j] counter own sched_okD(1) [OF ok, of j q] by (cases "j = i") (auto intro: less_le_trans)
  moreover have "\<exists>q. sc_runs t j = Some q \<and> rr_state q = RS_QUEUED \<and> host_run q" if "j \<in> set (queued_ids t)" for j
    using that runs [of j] queue sched_okD(3) [OF ok, of j] by (cases "j = i") auto
  moreover have "sc_active t = Some j \<longleftrightarrow> (\<exists>q. sc_runs t j = Some q \<and> rr_state q = RS_RUNNING \<and> host_run q)" for j
    using runs [of j] active sched_okD(4) [OF ok, of j] by (cases "j = i") auto
  ultimately show ?thesis using queue(1) unfolding sched_ok_def by blast
qed

lemma sched_ok_new: "sched_ok new_scheduler"
  by (simp add: sched_ok_def new_scheduler_def queued_ids_def)

lemma result_of_verdict [simp]: "result_of_state (state_of_verdict v) = Some v" "state_of_verdict v \<noteq> RS_RUNNING" "state_of_verdict v \<noteq> RS_QUEUED"
  by (cases v; simp add: result_of_state_def)+

lemma submit_ok:
  assumes "sched_ok s" "submit sv name wt s w = (x, t, w1)"
  shows "sched_ok t"
  using assms(2)
proof (cases rule: submit_cases)
  case 1
  with assms(1) show ?thesis by simp
next
  case (2 u identity s1)
  let ?i = "run_name (sc_counter s)"
  from 2(4) obtain y where a: "advance sv ?i (new_record ?i u identity) s1 w = (y, t, w1)" by blast
  note o = advance_only [OF a]
  have "\<exists>r. sc_runs t ?i = Some r \<and> rr_run_id r = ?i \<and> rr_suite r = u \<and> rr_result r = result_of_state (rr_state r)"
    using a 2(3) by (auto simp: advance_def Let_def new_record_def blocked_record_def collected_record_def ended_record_def result_of_state_def
        split: prod.splits sum.splits if_splits) (metis result_of_verdict(1) result_of_state_def)+
  then obtain r where r: "sc_runs t ?i = Some r" "rr_run_id r = ?i" "rr_suite r = u" "rr_result r = result_of_state (rr_state r)" by blast
  have nh: "\<not> host_run r" using r(3) 2(2) by (simp add: host_run_def)
  have na: "sc_active s \<noteq> Some ?i" using sched_okD(4) [OF assms(1), of ?i] fresh_name [OF assms(1)] by simp
  have nq: "?i \<notin> set (queued_ids s)" using sched_okD(3) [OF assms(1), of ?i] fresh_name [OF assms(1)] by auto
  have q: "queued_ids t = queued_ids s" "sc_active t = sc_active s" "sc_counter t = Suc (sc_counter s)"
    using o 2(3) by (auto simp: only_run_def queued_ids_def)
  show ?thesis
  proof (rule sched_ok_change [OF assms(1), of t ?i r])
    show "sc_runs t j = (if j = ?i then Some r else sc_runs s j)" for j using o 2(3) r(1) by (auto simp: only_run_def)
    show "distinct (queued_ids t)" using q(1) sched_okD(2) [OF assms(1)] by simp
  qed (use q r nh na nq in auto)
next
  case (3 u identity)
  let ?i = "run_name (sc_counter s)"
  have na: "sc_active s \<noteq> Some ?i" using sched_okD(4) [OF assms(1), of ?i] fresh_name [OF assms(1)] by simp
  have nq: "?i \<notin> set (queued_ids s)" using sched_okD(3) [OF assms(1), of ?i] fresh_name [OF assms(1)] by auto
  show ?thesis
    by (rule sched_ok_change [OF assms(1), of t ?i "(new_record ?i u identity)\<lparr>rr_state := RS_QUEUED\<rparr>"])
      (use 3 na nq sched_okD(2) [OF assms(1)] in \<open>auto simp: new_record_def host_run_def result_of_state_def\<close>)
qed

lemma tick_cases:
  assumes "sched_ok s" "tick sv now s w = (x, t, w1)"
  obtains "t = s"
  | e rest r r' where "sc_queue s = e # rest" "sc_active s = None" "sc_queue t = rest" "sc_counter t = sc_counter s"
      "sc_runs s (qe_run_id e) = Some r" "rr_state r = RS_QUEUED" "host_run r"
      "\<And>j. sc_runs t j = (if j = qe_run_id e then Some r' else sc_runs s j)" "rr_run_id r' = rr_run_id r" "host_run r'"
      "rr_result r' = result_of_state (rr_state r')" "rr_state r' \<noteq> RS_QUEUED"
      "sc_active t = (if rr_state r' = RS_RUNNING then Some (qe_run_id e) else None)"
proof (cases "sc_active s")
  case (Some a)
  with assms(2) that(1) show thesis by (simp add: tick_def)
next
  case None
  show thesis
  proof (cases "sc_queue s")
    case Nil
    with None assms(2) that(1) show thesis by (simp add: tick_def)
  next
    case (Cons e rest)
    then have "qe_run_id e \<in> set (queued_ids s)" by (simp add: queued_ids_def)
    with sched_okD(3) [OF assms(1)] obtain r where r: "sc_runs s (qe_run_id e) = Some r" "rr_state r = RS_QUEUED" "host_run r" by blast
    have n: "rr_result r = None" using sched_okD(1) [OF assms(1) r(1)] r(2) by (simp add: result_of_state_def)
    obtain p w2 where p: "sv_preflight sv (rr_suite r) (sv_environment sv) w = (p, w2)" by fastforce
    show thesis
    proof (cases p)
      case (Inl y)
      with None Cons r p n assms(2) show thesis
        by (intro that(2) [of e rest r "r\<lparr>rr_state := RS_PREFLIGHT\<rparr>"]) (auto simp: tick_def Let_def host_run_def result_of_state_def)
    next
      case (Inr ps)
      show thesis
      proof (cases "missing ps = []")
        case False
        with Inr None Cons r p n assms(2) show thesis
          by (intro that(2) [of e rest r "blocked_record ps (or_clock now (sv_clock sv w2)) (r\<lparr>rr_state := RS_PREFLIGHT\<rparr>)"])
            (auto simp: tick_def Let_def host_run_def result_of_state_def blocked_record_def)
      next
        case True
        let ?at = "or_clock now (sv_clock sv w2)"
        from True Inr None Cons r p n assms(2) show thesis
          by (intro that(2) [of e rest r "r\<lparr>rr_prerequisites := ps, rr_admitted := Some ?at, rr_state := RS_RUNNING, rr_started := Some ?at\<rparr>"])
            (auto simp: tick_def Let_def host_run_def result_of_state_def)
      qed
    qed
  qed
qed

lemma tick_ok:
  assumes "sched_ok s" "tick sv now s w = (x, t, w1)"
  shows "sched_ok t"
  using assms
proof (cases rule: tick_cases)
  case 1
  with assms(1) show ?thesis by simp
next
  case (2 e rest r r')
  let ?i = "qe_run_id e"
  have q: "queued_ids s = ?i # queued_ids t" using 2(1,3) by (simp add: queued_ids_def)
  with sched_okD(2) [OF assms(1)] have d: "?i \<notin> set (queued_ids t)" "distinct (queued_ids t)" by auto
  note own = sched_okD(1) [OF assms(1) 2(5)]
  show ?thesis
    by (rule sched_ok_change [OF assms(1) 2(8)]) (use 2 own q d in auto)
qed

text \<open>Ending the active run.\<close>

lemma end_active_ok:
  assumes ok: "sched_ok s" and r: "sc_runs s i = Some r" and a: "sc_active s = Some i"
    and f: "rr_run_id (f r) = i" "rr_result (f r) = result_of_state (rr_state (f r))" "rr_state (f r) \<notin> {RS_RUNNING, RS_QUEUED}"
  shows "sched_ok (release (set_run i f s))"
proof -
  from a r sched_okD(4) [OF ok, of i] have "rr_state r = RS_RUNNING" by auto
  with sched_okD(3) [OF ok, of i] r have "i \<notin> set (queued_ids s)" by auto
  moreover have "sc_active s = Some j \<longleftrightarrow> j = i" for j using a by auto
  ultimately show ?thesis
    by (intro sched_ok_change [OF ok, of _ i "f r"])
      (use r f sched_okD(1) [OF ok r] sched_okD(2) [OF ok] in \<open>auto simp: queued_ids_def\<close>)
qed

lemma run_ok:
  assumes "sched_ok s" "run_active sv i s w = (x, t, w1)"
  shows "sched_ok t"
proof (cases "sc_runs s i")
  case (Some r)
  note own = sched_okD(1) [OF assms(1) Some]
  show ?thesis
  proof (cases "sc_active s = Some i")
    case True
    obtain v w2 where v: "execute_suite (sv_runner sv) (rr_suite r) (wt_root (rr_worktree r)) (rr_prerequisites r) (sv_environment sv) w = (v, w2)"
      by fastforce
    have "\<exists>f. t = release (set_run i f s) \<and> rr_run_id (f r) = i \<and> rr_result (f r) = result_of_state (rr_state (f r))
        \<and> rr_state (f r) \<notin> {RS_RUNNING, RS_QUEUED}"
    proof (cases v)
      case (Inl e)
      with v True Some assms(2) own show ?thesis
        by (intro exI [of _ "ended_record FAIL (''executor error: '' @ exn_type e @ '': '' @ exn_str e) RS_FAIL (sv_clock sv w2)"])
          (auto simp: run_active_def ended_record_def result_of_state_def)
    next
      case (Inr y)
      obtain result reports reason where "y = (result, reports, reason)" by (metis prod_cases3)
      with Inr v True Some assms(2) own show ?thesis
        by (intro exI [of _ "collected_record result reports reason (sv_clock sv w2)"]) (auto simp: run_active_def collected_record_def ended_record_def)
    qed
    with end_active_ok [OF assms(1) Some True] show ?thesis by blast
  next
    case False
    with Some assms show ?thesis by (simp add: run_active_def)
  qed
qed (use assms in \<open>simp add: run_active_def\<close>)

lemma interrupt_ok:
  assumes "sched_ok s" "interrupt sv i reason s w = (x, t, w1)"
  shows "sched_ok t"
proof (cases "sc_runs s i")
  case (Some r)
  note own = sched_okD(1) [OF assms(1) Some]
  show ?thesis
  proof (cases "sc_active s = Some i")
    case True
    let ?f = "ended_record BLOCKED (if reason = [] then ''interrupted'' else ''interrupted: '' @ reason) RS_INTERRUPTED (sv_clock sv w)"
    have "t = release (set_run i ?f s)" using True Some assms(2) by (auto simp: interrupt_def)
    moreover have "sched_ok (release (set_run i ?f s))"
      by (rule end_active_ok [OF assms(1) Some True]) (use own in \<open>simp_all add: ended_record_def result_of_state_def\<close>)
    ultimately show ?thesis by simp
  next
    case False
    with Some assms show ?thesis by (simp add: interrupt_def)
  qed
qed (use assms in \<open>simp add: interrupt_def\<close>)

lemma after_ok: "sched_ok (fst x) \<Longrightarrow> sched_ok (fst (after sv op x))"
proof (cases op)
  case (Submit name wt)
  assume "sched_ok (fst x)"
  with Submit submit_ok [of "fst x" sv name wt "snd x"] show ?thesis by (auto simp: after_def split: prod.splits)
next
  case (Tick now)
  assume "sched_ok (fst x)"
  with Tick tick_ok [of "fst x" sv now "snd x"] show ?thesis by (cases "tick sv now (fst x) (snd x)") (auto simp: after_def)
next
  case (Run i)
  assume "sched_ok (fst x)"
  with Run run_ok [of "fst x" sv i "snd x"] show ?thesis by (auto simp: after_def split: prod.splits)
next
  case (Interrupt i reason)
  assume "sched_ok (fst x)"
  with Interrupt interrupt_ok [of "fst x" sv i reason "snd x"] show ?thesis by (auto simp: after_def split: prod.splits)
qed

lemma after_all_ok: "sched_ok (fst x) \<Longrightarrow> sched_ok (fst (after_all sv ops x))"
  unfolding after_all_def by (induction ops arbitrary: x) (simp_all add: after_ok)

text \<open>The record of an ended run is never written again.\<close>

definition run_ended :: "run_record \<Rightarrow> bool" where
  "run_ended r \<longleftrightarrow> rr_state r \<in> set TERMINAL_STATES"

lemma set_run_ended: "sched_ok s \<Longrightarrow> sc_runs s j = Some r \<Longrightarrow> run_ended r \<Longrightarrow> sc_active s = Some i \<Longrightarrow> sc_runs (release (set_run i f s)) j = Some r"
  using sched_okD(4) [of s i] by (auto simp: run_ended_def TERMINAL_STATES_def)

lemma after_ended:
  assumes ok: "sched_ok (fst x)" and r: "sc_runs (fst x) j = Some r" "run_ended r"
  shows "sc_runs (fst (after sv op x)) j = Some r"
proof (cases op)
  case (Submit name wt)
  obtain y t w1 where s: "submit sv name wt (fst x) (snd x) = (y, t, w1)" by (metis prod_cases3)
  have new: "j \<noteq> run_name (sc_counter (fst x))" using fresh_name [OF ok] r by auto
  have "sc_runs t j = Some r"
    using s
  proof (cases rule: submit_cases)
    case (2 u identity s1)
    then show ?thesis using new r by (auto simp: only_run_def dest: advance_only)
  qed (use r new in auto)
  with s Submit show ?thesis by (simp add: after_def)
next
  case (Tick now)
  obtain y t w1 where s: "tick sv now (fst x) (snd x) = (y, t, w1)" by (metis prod_cases3)
  have "sc_runs t j = Some r"
    using ok s
  proof (cases rule: tick_cases)
    case (2 e rest q q')
    then show ?thesis using r by (auto simp: run_ended_def TERMINAL_STATES_def)
  qed (use r in simp)
  with s Tick show ?thesis by (simp add: after_def)
next
  case (Run i)
  have "sc_runs (fst (snd (run_active sv i (fst x) (snd x)))) j = Some r"
    using r set_run_ended [OF ok r] by (auto simp: run_active_def simp del: set_run_same(4) split: option.splits prod.splits sum.splits)
  with Run show ?thesis by (auto simp: after_def split: prod.splits)
next
  case (Interrupt i reason)
  have "sc_runs (fst (snd (interrupt sv i reason (fst x) (snd x)))) j = Some r"
    using r set_run_ended [OF ok r] by (auto simp: interrupt_def simp del: set_run_same(4) split: option.splits)
  with Interrupt show ?thesis by (auto simp: after_def split: prod.splits)
qed

lemma after_all_ended: "sched_ok (fst x) \<Longrightarrow> sc_runs (fst x) j = Some r \<Longrightarrow> run_ended r \<Longrightarrow> sc_runs (fst (after_all sv ops x)) j = Some r"
  unfolding after_all_def by (induction ops arbitrary: x) (simp_all add: after_ok after_ended)

text \<open>The run of the active slot always comes to its end and frees the slot.\<close>

lemma run_releases:
  assumes "sched_ok s" "sc_active s = Some i"
  shows "sc_active (fst (after sv (Run i) (s, w))) = None \<and> (\<exists>r. sc_runs (fst (after sv (Run i) (s, w))) i = Some r \<and> run_ended r)"
proof -
  obtain q where q: "sc_runs s i = Some q" using sched_okD(4) [OF assms(1), of i] assms(2) by blast
  obtain v w2 where v: "execute_suite (sv_runner sv) (rr_suite q) (wt_root (rr_worktree q)) (rr_prerequisites q) (sv_environment sv) w = (v, w2)"
    by fastforce
  have state: "state_of_verdict y \<in> set TERMINAL_STATES" for y by (cases y) (simp_all add: TERMINAL_STATES_def)
  show ?thesis
    using q v assms(2) state
    by (cases v) (auto simp: after_def run_active_def run_ended_def ended_record_def collected_record_def TERMINAL_STATES_def split: prod.splits)
qed

text \<open>Identities are given out in order.\<close>

lemma after_counter:
  "sc_counter (fst x) \<le> sc_counter (fst (after sv op x)) \<and>
   (enqueued (sched_events sv op x) = [] \<or>
    enqueued (sched_events sv op x) = [run_name (sc_counter (fst x))] \<and> sc_counter (fst x) < sc_counter (fst (after sv op x)))"
proof -
  obtain s w where x: "x = (s, w)" by fastforce
  show ?thesis
  proof (cases op)
    case (Submit name wt)
    obtain y t w1 where r: "submit sv name wt s w = (y, t, w1)" by (metis prod_cases3)
    then show ?thesis
    proof (cases rule: submit_cases)
      case (2 u identity s1)
      then have "sc_counter t = Suc (sc_counter s)" by (auto simp: only_run_def dest: advance_only)
      with 2 r x Submit show ?thesis by (auto simp: after_def)
    qed (use r x Submit in \<open>simp_all add: after_def\<close>)
  next
    case (Tick now)
    have "enqueued (map Dequeue is) = []" for "is" by (induction "is") simp_all
    moreover have "sc_counter (fst (snd (tick sv now s w))) = sc_counter s"
      by (auto simp: tick_def Let_def split: option.splits prod.splits sum.splits list.splits)
    ultimately show ?thesis using Tick x by (auto simp: after_def split: sum.splits option.splits prod.splits)
  next
    case (Run i)
    have "sc_counter (fst (snd (run_active sv i s w))) = sc_counter s"
      by (auto simp: run_active_def split: option.splits prod.splits sum.splits)
    with Run x show ?thesis by (auto simp: after_def split: prod.splits)
  next
    case (Interrupt i reason)
    have "sc_counter (fst (snd (interrupt sv i reason s w))) = sc_counter s"
      by (auto simp: interrupt_def split: option.splits prod.splits sum.splits)
    with Interrupt x show ?thesis by (auto simp: after_def split: prod.splits)
  qed
qed

lemma trace_fresh:
  "distinct (enqueued (trace_events (after sv) (sched_events sv) ops x)) \<and>
   (\<forall>i \<in> set (enqueued (trace_events (after sv) (sched_events sv) ops x)). \<exists>n \<ge> sc_counter (fst x). i = run_name n)"
proof (induction ops arbitrary: x)
  case (Cons op ops)
  note ih = Cons [of "after sv op x"]
  from after_counter [of x sv op] show ?case
  proof (elim conjE disjE)
    assume "sc_counter (fst x) \<le> sc_counter (fst (after sv op x))" "enqueued (sched_events sv op x) = []"
    with ih show ?thesis by (auto dest: order_trans)
  next
    assume "enqueued (sched_events sv op x) = [run_name (sc_counter (fst x))]" "sc_counter (fst x) < sc_counter (fst (after sv op x))"
    with ih show ?thesis by (fastforce dest: less_imp_le order_trans)
  qed
qed simp

text \<open>The records that had ended in one state are the same in another.\<close>

definition ends_kept :: "scheduler \<Rightarrow> scheduler \<Rightarrow> bool" where
  "ends_kept s t \<longleftrightarrow> (\<forall>i r. sc_runs s i = Some r \<and> run_ended r \<longrightarrow> sc_runs t i = Some r)"

text \<open>
  C14. The scheduler admits host runs strictly first in, first out. Over any sequence of submissions, ticks, runs and
  interruptions, with any suites, worktrees, preflights and command results: the identities that host submissions
  returned, in the order of the submissions, are the runs the ticks took from the queue, in the order of the ticks,
  followed by the queue as it stands. No two submissions get the same identity, so no run is skipped, overtaken,
  dropped or admitted twice. The abstract queue, in which an element enters at the end and leaves only from the
  front, accepts the whole trace.
\<close>

theorem scheduler_strict_fifo:
  "let x = after_all sv ops (new_scheduler, w); es = trace_events (after sv) (sched_events sv) ops (new_scheduler, w) in
     enqueued es = dequeued es @ queued_ids (fst x) \<and> distinct (enqueued es) \<and> fifo [] es = Some (queued_ids (fst x))"
proof -
  have empty: "queued_ids new_scheduler = []" by (simp add: queued_ids_def new_scheduler_def)
  show ?thesis
    using admission.run_order [of "(new_scheduler, w)" sv ops] admission.run_fifo [of "(new_scheduler, w)" sv ops]
      trace_fresh [of sv ops "(new_scheduler, w)"]
    unfolding after_all_def Let_def by (simp add: empty)
qed

text \<open>
  C15. At most one host run is active, and the slot never outlives its run. After any sequence of calls on a new
  scheduler: the active slot names exactly the host run whose record is RUNNING, every queued identity is a distinct
  QUEUED host run, every record carries its own identity, and a record has a verdict exactly when it has ended, and
  the verdict of its state (an interrupted run is BLOCKED). No later call writes the record of a run that has ended.
  And the run in the slot ends whatever its execution does, an exception of the executor included: the call that
  runs it leaves the slot free and the record in a terminal state.
\<close>

theorem single_host_run:
  "let x = after_all sv ops (new_scheduler, w); s = fst x in
     sched_ok s \<and> ends_kept s (fst (after_all sv later x)) \<and>
     (case sc_active s of
        None \<Rightarrow> True
      | Some i \<Rightarrow> (case after sv (Run i) x of (t, _) \<Rightarrow> sc_active t = None \<and> (case sc_runs t i of None \<Rightarrow> False | Some r \<Rightarrow> run_ended r)))"
proof -
  define x where "x = after_all sv ops (new_scheduler, w)"
  have ok: "sched_ok (fst x)" unfolding x_def by (rule after_all_ok) (simp add: sched_ok_new)
  have kept: "ends_kept (fst x) (fst (after_all sv later x))"
    unfolding ends_kept_def using after_all_ended [OF ok] by blast
  show ?thesis
    unfolding Let_def x_def [symmetric]
    using ok kept run_releases [OF ok, of _ sv "snd x"] by (auto split: option.splits prod.splits)
qed

end
