(* ===== verification/Durable.thy ===== *)
theory Durable
  imports Scheduler
begin

section \<open>The durable scheduler\<close>

text \<open>
  verification/scheduler_restate.py: the same scheduling over durable state. A submission is an exclusive handler of the
  scheduler object: it appends its entry and then admits and runs the queue, one blocking call of a run workflow
  after the other. A handler keeps the state it has set when it ends with an exception. The suite modules, git, the
  toolchain variables, the registered probes and the command runner are parameters, as for the in-process scheduler.
\<close>

subsection \<open>Admission of suites and worktrees\<close>

definition refuse :: "string \<Rightarrow> exn" where
  "refuse m = TerminalError m 400"

definition suite_refused :: "exn \<Rightarrow> exn" where
  "suite_refused e = (case e of SuiteError m \<Rightarrow> refuse m | _ \<Rightarrow> e)"

definition catch_refused :: "(exn \<Rightarrow> exn) \<Rightarrow> 'a res \<Rightarrow> 'a res" where
  "catch_refused f r = (case r of Inl e \<Rightarrow> Inl (f e) | Inr x \<Rightarrow> Inr x)"

definition stem_of :: "string \<Rightarrow> string" where
  "stem_of = map (\<lambda>c. if c = CHR ''-'' then CHR ''_'' else c)"

text \<open>The modules of an override directory, by stem.\<close>

definition load_override :: "(string \<Rightarrow> module_suite res option) \<Rightarrow> json \<Rightarrow> suite res" where
  "load_override directory name =
     (let unknown = ''unknown suite: '' @ py_repr (jstr name) in
      if \<not> is_str name \<or> \<not> is_kebab (jstr name) then Inl (refuse (''unknown or invalid suite name: '' @ py_repr (jstr name)))
      else case directory (stem_of (jstr name)) of
        None \<Rightarrow> Inl (refuse unknown)
      | Some loaded \<Rightarrow>
          bindR loaded (\<lambda>raw.
          bindR (case raw of
                   NoSuite \<Rightarrow> Inl (refuse (unknown @ '' (no SUITE)''))
                 | SuiteObject u \<Rightarrow> Inr u
                 | SuiteMapping m \<Rightarrow> suite_from_mapping m
                 | OtherObject \<Rightarrow> Inl (AttributeError ''object has no attribute 'get' '')) (\<lambda>u.
          seqR (raise_if (su_name u \<noteq> dashed (stem_of (jstr name))) (refuse (''suite name '' @ py_repr (su_name u) @ '' does not match file'')))
          (Inr u))))"

definition durable_load :: "(string \<times> module_suite res) list \<Rightarrow> (string \<Rightarrow> module_suite res option) option \<Rightarrow> json \<Rightarrow> suite res" where
  "durable_load modules override name =
     (case override of
        Some directory \<Rightarrow> load_override directory name
      | None \<Rightarrow>
          catch_refused suite_refused
            (if is_str name then load_suite modules (jstr name)
             else Inl (SuiteError (''unknown or invalid suite name: '' @ py_repr (jstr name)))))"

definition identity_json :: "worktree \<Rightarrow> json" where
  "identity_json wt = JObj [(''root'', JStr (wt_root wt)), (''branch'', JStr (wt_branch wt)), (''commit'', JStr (wt_commit wt)), (''dirty'', JBool (wt_dirty wt))]"

definition worktree_refused :: "exn \<Rightarrow> exn" where
  "worktree_refused e = (case e of WorktreeError m \<Rightarrow> refuse (''invalid worktree: '' @ m) | _ \<Rightarrow> e)"

definition resolve_identity :: "(string \<Rightarrow> worktree res) \<Rightarrow> json \<Rightarrow> worktree res" where
  "resolve_identity resolve path =
     (if \<not> is_str path then Inl (TypeError ''expected str, bytes or os.PathLike object'')
      else catch_refused worktree_refused (resolve (jstr path)))"

subsection \<open>One run\<close>

record 'w host =
  ho_name :: string
  ho_scheduler :: string
  ho_load :: "json \<Rightarrow> suite res"
  ho_resolve :: "string \<Rightarrow> worktree res"
  ho_environment :: "suite \<Rightarrow> (string \<times> string) list"
  ho_probes :: "string \<Rightarrow> ((string \<times> string) list \<Rightarrow> (string + probe_result) res) option"
  ho_runner :: "'w runner"
  ho_round3 :: "json \<Rightarrow> json"

text \<open>\<open>os.environ\<close> with the defaults of the toolchain.\<close>

definition set_default :: "(string \<times> string) list \<Rightarrow> string \<Rightarrow> string \<Rightarrow> (string \<times> string) list" where
  "set_default env k v = (case map_of env k of None \<Rightarrow> env @ [(k, v)] | Some _ \<Rightarrow> env)"

definition environment_for :: "(string \<times> string) list \<Rightarrow> string \<Rightarrow> string \<Rightarrow> suite \<Rightarrow> (string \<times> string) list" where
  "environment_for os tmp pid u =
     set_default (set_default (set_default os
       ''BLAINE_PYTHON'' (DEFAULT_TOOLCHAIN @ ''/runtime-venv/bin/python''))
       ''BLAINE_RESTATE_SERVER'' (DEFAULT_TOOLCHAIN @ ''/bin/restate-server''))
       ''BLAINE_E10_OUTPUT'' (os_join tmp (''e10-'' @ su_name u @ ''-'' @ pid))"

definition probe_all :: "(string \<Rightarrow> ((string \<times> string) list \<Rightarrow> (string + probe_result) res) option) \<Rightarrow> (string \<times> string) list \<Rightarrow> string list \<Rightarrow> (string \<times> probe_result) list" where
  "probe_all probes environment names = fold (\<lambda>p d. AList.update p (probe probes p environment) d) names []"

text \<open>\<open>summarize\<close> reads the serialised step reports.\<close>

definition report_failed :: "json \<Rightarrow> bool" where
  "report_failed s \<longleftrightarrow> (dget s ''exit_code'' \<noteq> JInt 0 \<and> dget s ''exit_code'' \<noteq> JNull) \<or> dget s ''timed_out'' = JBool True"

definition report_note :: "json \<Rightarrow> string" where
  "report_note s = sget s ''name'' @ '': exit='' @ (if dget s ''exit_code'' = JNull then ''None'' else show_int (jint (dget s ''exit_code'')))
     @ (if dget s ''timed_out'' = JBool True then '' (timeout)'' else [])"

definition summarize_steps :: "json list \<Rightarrow> suite_verdict \<times> string" where
  "summarize_steps steps =
     (let failed = filter report_failed steps in
      if failed = [] then (PASS, []) else (FAIL, join_with ''; '' (map report_note failed)))"

definition run_doc :: "string \<Rightarrow> json \<Rightarrow> string \<Rightarrow> json \<Rightarrow> (string \<times> json) list" where
  "run_doc run_id suite_name state identity =
     [(''run_id'', JStr run_id), (''suite'', suite_name), (''state'', JStr state), (''worktree'', identity)]"

definition report_doc :: "'w host \<Rightarrow> string \<Rightarrow> json \<Rightarrow> suite \<Rightarrow> json \<Rightarrow> (string \<times> probe_result) list \<Rightarrow> json list \<Rightarrow> suite_verdict \<Rightarrow> string \<Rightarrow> json" where
  "report_doc ho run_id request u identity prerequisites steps result reason = JObj
     [(''schema_version'', JInt 1), (''run_id'', JStr run_id), (''suite'', JStr (su_name u)), (''result'', JStr (result_str result)),
      (''reason'', JStr reason), (''verification_class'', JStr (class_str (su_class u))), (''state'', JStr (result_str result)),
      (''host'', dget_or request ''host'' (JStr (ho_name ho))), (''worktree'', identity), (''resources'', JList (map JStr (su_resources u))),
      (''prerequisites'', JObj (map (\<lambda>(k, v). (k, probe_json v)) prerequisites)), (''steps'', JList steps)]"

text \<open>A run: its answer, with the last \<open>run\<close> document it set; the steps are serialised one by one.\<close>

definition durable_steps :: "'w host \<Rightarrow> suite \<Rightarrow> worktree \<Rightarrow> (string \<times> string) list \<Rightarrow> 'w \<Rightarrow> json list res \<times> 'w" where
  "durable_steps ho u wt environment w =
     (case run_steps (ho_runner ho) (wt_root wt) environment (su_steps u) w of
        (Inl e, w1) \<Rightarrow> (Inl e, w1)
      | (Inr reports, w1) \<Rightarrow> (Inr (map (report_json (ho_round3 ho)) reports), w1))"

definition run_inputs :: "'w host \<Rightarrow> json \<Rightarrow> (suite \<times> worktree) res" where
  "run_inputs ho request =
     bindR (item request ''suite'') (\<lambda>name. bindR (ho_load ho name) (\<lambda>u.
     bindR (item request ''worktree'') (\<lambda>path. bindR (resolve_identity (ho_resolve ho) path) (\<lambda>wt. Inr (u, wt)))))"

definition run_main :: "'w host \<Rightarrow> string \<Rightarrow> json \<Rightarrow> 'w \<Rightarrow> json res \<times> json \<times> 'w" where
  "run_main ho run_id request w =
     (case run_inputs ho request of
        Inl e \<Rightarrow> (Inl e, JNull, w)
      | Inr (u, wt) \<Rightarrow>
          (let identity = identity_json wt; doc = run_doc run_id (dget request ''suite''); environment = ho_environment ho u;
               prerequisites = probe_all (ho_probes ho) environment (su_probes u);
               finish = (\<lambda>result reason steps. (Inr (report_doc ho run_id request u identity prerequisites steps result reason),
                 JObj (doc (result_str result) identity @ [(''result'', JStr (result_str result))]))) in
           if missing prerequisites \<noteq> [] then
             (case finish BLOCKED (''missing prerequisites: '' @ missing_note prerequisites) [] of (r, d) \<Rightarrow> (r, d, w))
           else
             (case durable_steps ho u wt environment w of
                (Inl e, w1) \<Rightarrow> (Inl e, JObj (doc ''RUNNING'' identity), w1)
              | (Inr steps, w1) \<Rightarrow>
                  (case summarize_steps steps of (result, reason) \<Rightarrow> (case finish result reason steps of (r, d) \<Rightarrow> (r, d, w1))))))"

definition run_status :: "string \<Rightarrow> json \<Rightarrow> json" where
  "run_status run_id doc = (if py_true doc then doc else JObj [(''run_id'', JStr run_id), (''state'', JStr ''NOT_FOUND'')])"

subsection \<open>The scheduler object\<close>

record durable_entry =
  de_run_id :: string
  de_suite :: json
  de_worktree :: json

record durable =
  du_queue :: "durable_entry list"
  du_active :: "string option"

definition new_durable :: durable where
  "new_durable = \<lparr>du_queue = [], du_active = None\<rparr>"

type_synonym 'w main = "string \<Rightarrow> json \<Rightarrow> 'w \<Rightarrow> json res \<times> 'w"

definition run_request :: "string \<Rightarrow> string \<Rightarrow> durable_entry \<Rightarrow> json" where
  "run_request name host e =
     JObj [(''suite'', de_suite e), (''worktree'', de_worktree e), (''scheduler'', JStr name), (''host'', JStr host)]"

function full_dispatch :: "(durable_entry \<Rightarrow> 'w \<Rightarrow> json res \<times> 'w) \<Rightarrow> durable \<Rightarrow> 'w \<Rightarrow> unit res \<times> durable \<times> 'w" where
  "full_dispatch call s w =
     (if du_active s \<noteq> None then (Inr (), s, w)
      else case du_queue s of
        [] \<Rightarrow> (Inr (), s, w)
      | e # rest \<Rightarrow>
          let s1 = s\<lparr>du_queue := rest, du_active := Some (de_run_id e)\<rparr> in
          (case call e w of
             (Inl x, w1) \<Rightarrow> (Inl x, s1, w1)
           | (Inr _, w1) \<Rightarrow> full_dispatch call (s1\<lparr>du_active := None\<rparr>) w1))"
  by pat_completeness auto

termination full_dispatch
  by (relation "measure (\<lambda>(call, s, w). length (du_queue s))") auto

declare full_dispatch.simps [simp del]

definition durable_call :: "'w main \<Rightarrow> 'v host \<Rightarrow> durable_entry \<Rightarrow> 'w \<Rightarrow> json res \<times> 'w" where
  "durable_call main ho e w = main (de_run_id e) (run_request (ho_scheduler ho) (ho_name ho) e) w"

definition admit_submission :: "'w host \<Rightarrow> json \<Rightarrow> (json \<times> json) res" where
  "admit_submission ho request =
     bindR (get_attr request ''suite'') (\<lambda>suite_name. bindR (get_attr request ''worktree'') (\<lambda>path.
     seqR (raise_if (\<not> py_true suite_name \<or> \<not> py_true path)
       (refuse (''submission requires a known suite name and a worktree; '' @ ''arbitrary commands are not admissible'')))
     (seqR (voidR (ho_load ho suite_name)) (seqR (voidR (resolve_identity (ho_resolve ho) path))
     (Inr (suite_name, path))))))"

definition durable_submit :: "'v host \<Rightarrow> 'w main \<Rightarrow> string \<Rightarrow> json \<Rightarrow> durable \<Rightarrow> 'w \<Rightarrow> json res \<times> durable \<times> 'w" where
  "durable_submit ho main uuid request s w =
     (case admit_submission ho request of
        Inl e \<Rightarrow> (Inl e, s, w)
      | Inr (suite_name, path) \<Rightarrow>
          (let run_id = ''run-'' @ take 16 uuid in
           case full_dispatch (durable_call main ho)
             (s\<lparr>du_queue := du_queue s @ [\<lparr>de_run_id = run_id, de_suite = suite_name, de_worktree = path\<rparr>]\<rparr>) w of
             (Inl e, s1, w1) \<Rightarrow> (Inl e, s1, w1)
           | (Inr _, s1, w1) \<Rightarrow>
               (Inr (JObj [(''run_id'', JStr run_id), (''state'', JStr ''QUEUED''), (''suite'', suite_name), (''worktree'', path)]), s1, w1)))"

definition durable_status :: "string \<Rightarrow> durable \<Rightarrow> json" where
  "durable_status host s = JObj
     [(''queue'', JList (map (\<lambda>e. JStr (de_run_id e)) (du_queue s))), (''active'', jopt JStr (du_active s)), (''host'', JStr host)]"

subsection \<open>The durable run gives the verdict of the scheduler\<close>

lemma report_json_parts:
  "dget (report_json f r) ''exit_code'' = jopt JInt (sr_exit r)" "dget (report_json f r) ''timed_out'' = JBool (sr_timed_out r)"
  "dget (report_json f r) ''name'' = JStr (sr_name r)"
  by (simp_all add: report_json_def py_defs)

lemma report_failed_json: "report_failed (report_json f r) = step_failed r"
  by (cases "sr_exit r") (auto simp: report_failed_def report_json_parts step_failed_def jopt_def)

lemma report_note_json: "report_note (report_json f r) = failure_note r"
  by (cases "sr_exit r") (auto simp: report_note_def report_json_parts failure_note_def jopt_def)

lemma summarize_judge: "summarize_steps (map (report_json f) rs) = judge rs"
  by (simp add: summarize_steps_def judge_def Let_def filter_map comp_def report_failed_json report_note_json)

text \<open>
  The in-process scheduler takes its preflight, its executor and its environment as arguments of its constructor.
  Here it is given those of the durable run (its own default preflight, which fails on an unbound name, is not used), and
  it finds the suite the durable run has loaded. One run is submitted to a new scheduler, admitted and executed.
\<close>

definition injected :: "'w host \<Rightarrow> suite \<Rightarrow> ('w \<Rightarrow> int) \<Rightarrow> 'w services" where
  "injected ho u clock =
     \<lparr>sv_load = (\<lambda>_. Inr u), sv_resolve = ho_resolve ho,
      sv_preflight = (\<lambda>u environment w. (Inr (probe_all (ho_probes ho) environment (su_probes u)), w)),
      sv_runner = ho_runner ho, sv_environment = ho_environment ho u, sv_clock = clock\<rparr>"

definition in_process :: "'w services \<Rightarrow> string \<Rightarrow> worktree \<Rightarrow> 'w \<Rightarrow> (unit, 'w) sched_outcome" where
  "in_process sv name wt w =
     (case submit sv name (Inr wt) new_scheduler w of
        (Inl e, s, w1) \<Rightarrow> (Inl e, s, w1)
      | (Inr run_id, s, w1) \<Rightarrow>
          (case tick sv None s w1 of
             (Inl e, s1, w2) \<Rightarrow> (Inl e, s1, w2)
           | (Inr _, s1, w2) \<Rightarrow> if sc_active s1 = Some run_id then run_active sv run_id s1 w2 else (Inr (), s1, w2)))"

definition same_verdict :: "(json \<Rightarrow> json) \<Rightarrow> json \<Rightarrow> run_record \<Rightarrow> bool" where
  "same_verdict f report r \<longleftrightarrow>
     dget report ''result'' = jopt (\<lambda>v. JStr (result_str v)) (rr_result r) \<and> dget report ''reason'' = JStr (rr_reason r)
     \<and> dget report ''state'' = JStr (state_str (rr_state r)) \<and> dget report ''steps'' = JList (map (report_json f) (rr_steps r))
     \<and> dget report ''prerequisites'' = JObj (map (\<lambda>(k, v). (k, probe_json v)) (rr_prerequisites r))"

lemma state_of_verdict_str: "state_str (state_of_verdict v) = result_str v"
  by (cases v) simp_all

text \<open>The record of a run the executor did not return from.\<close>

definition executor_failed :: "exn \<Rightarrow> run_record \<Rightarrow> bool" where
  "executor_failed e q \<longleftrightarrow> rr_result q = Some FAIL \<and> rr_state q = RS_FAIL \<and> rr_steps q = []
     \<and> rr_reason q = ''executor error: '' @ exn_type e @ '': '' @ exn_str e"

lemma submitted_first: "run_name (Suc 0) = ''run-1''"
  by code_simp

lemma run_main_cases:
  assumes "run_inputs ho request = Inr (u, wt)" "missing (probe_all (ho_probes ho) (ho_environment ho u) (su_probes u)) = []"
    "run_steps (ho_runner ho) (wt_root wt) (ho_environment ho u) (su_steps u) w = (s, w1)"
  shows "fst (run_main ho run_id request w) = (case s of Inl e \<Rightarrow> Inl e | Inr rs \<Rightarrow> (case judge rs of (result, reason) \<Rightarrow>
       Inr (report_doc ho run_id request u (identity_json wt) (probe_all (ho_probes ho) (ho_environment ho u) (su_probes u))
         (map (report_json (ho_round3 ho)) rs) result reason)))"
    "snd (snd (run_main ho run_id request w)) = w1"
  using assms by (cases s; simp add: run_main_def durable_steps_def summarize_judge Let_def split: prod.splits)+

lemmas in_process_simps = in_process_def submit_def admit_suite_def injected_def new_scheduler_def Let_def tick_def run_active_def advance_def
  set_run_def release_def new_record_def or_clock_def submitted_first

lemma in_process_blocked:
  assumes "missing (probe_all (ho_probes ho) (ho_environment ho u) (su_probes u)) \<noteq> []"
  obtains t q where "in_process (injected ho u clock) name wt w = (Inr (), t, w)" "sc_active t = None" "sc_queue t = []"
    "sc_runs t ''run-1'' = Some q" "rr_state q = RS_BLOCKED" "rr_result q = Some BLOCKED" "rr_steps q = []"
    "rr_prerequisites q = probe_all (ho_probes ho) (ho_environment ho u) (su_probes u)"
    "rr_reason q = ''missing prerequisites: '' @ missing_note (probe_all (ho_probes ho) (ho_environment ho u) (su_probes u))"
  using assms
  by (cases "su_class u = HERMETIC") (auto simp: in_process_simps blocked_record_def)

lemma in_process_failed:
  assumes "missing (probe_all (ho_probes ho) (ho_environment ho u) (su_probes u)) = []"
    "run_steps (ho_runner ho) (wt_root wt) (ho_environment ho u) (su_steps u) w = (Inl e, w1)"
  obtains t q where "in_process (injected ho u clock) name wt w = ((if su_class u = HERMETIC then Inl e else Inr ()), t, w1)"
    "sc_active t = None" "sc_queue t = []" "sc_runs t ''run-1'' = Some q" "su_class u = HERMETIC \<or> executor_failed e q"
  using assms
  by (cases "su_class u = HERMETIC") (auto simp: in_process_simps ended_record_def execute_suite_def executor_failed_def)

lemma in_process_finished:
  assumes "missing (probe_all (ho_probes ho) (ho_environment ho u) (su_probes u)) = []"
    "run_steps (ho_runner ho) (wt_root wt) (ho_environment ho u) (su_steps u) w = (Inr rs, w1)" "judge rs = (result, reason)"
  obtains t q where "in_process (injected ho u clock) name wt w = (Inr (), t, w1)" "sc_active t = None" "sc_queue t = []"
    "sc_runs t ''run-1'' = Some q" "rr_state q = state_of_verdict result" "rr_result q = Some result" "rr_steps q = rs" "rr_reason q = reason"
    "rr_prerequisites q = probe_all (ho_probes ho) (ho_environment ho u) (su_probes u)"
  using assms
  by (cases "su_class u = HERMETIC") (auto simp: in_process_simps ended_record_def collected_record_def execute_suite_def)

text \<open>
  C21. The durable run workflow gives the verdict of the in-process scheduler that is constructed with the same preflight,
  executor and environment. For every request whose suite and
  worktree are admitted, over any suite, probes, toolchain variables and command results, the durable run and a run that is
  submitted, admitted and executed in process run the same commands
  in the same order on the same world. When the durable run returns, so does the in-process one, with its slot
  free, and the report has
  the result, reason, terminal state, prerequisites and step reports of the record the scheduler keeps,
  although it is decided from the serialised step reports with its own code. The two differ when the executor raises: the
  durable run raises the exception, as a hermetic in-process run does, while a host run in process returns and is
  recorded as failed, with the exception as its reason.
\<close>

theorem durable_matches_core:
  "case (run_inputs ho request, run_main ho run_id request w) of
     (Inl e, (r, _, w1)) \<Rightarrow> r = Inl e \<and> w1 = w
   | (Inr (u, wt), (r, _, w1)) \<Rightarrow>
       (case in_process (injected ho u clock) name wt w of (x, t, w2) \<Rightarrow>
          w2 = w1 \<and> sc_active t = None \<and> sc_queue t = []
          \<and> (case (r, sc_runs t ''run-1'') of
               (_, None) \<Rightarrow> False
             | (Inr report, Some q) \<Rightarrow> x = Inr () \<and> same_verdict (ho_round3 ho) report q
             | (Inl e, Some q) \<Rightarrow> if su_class u = HERMETIC then x = Inl e else x = Inr () \<and> executor_failed e q))"
proof (cases "run_inputs ho request")
  case (Inr p)
  obtain u wt where p: "p = (u, wt)" by fastforce
  obtain s w1 where s: "run_steps (ho_runner ho) (wt_root wt) (ho_environment ho u) (su_steps u) w = (s, w1)" by fastforce
  show ?thesis
  proof (cases "missing (probe_all (ho_probes ho) (ho_environment ho u) (su_probes u)) = []")
    case True
    note m = run_main_cases [OF Inr [unfolded p] True s, of run_id]
    obtain r d where main: "run_main ho run_id request w = (r, d, w1)" using m(2) by (cases "run_main ho run_id request w") auto
    show ?thesis
    proof (cases s)
      case (Inl e)
      from in_process_failed [OF True s [unfolded Inl]] obtain t q where "in_process (injected ho u clock) name wt w = ((if su_class u = HERMETIC then Inl e else Inr ()), t, w1)"
        "sc_active t = None" "sc_queue t = []" "sc_runs t ''run-1'' = Some q" "su_class u = HERMETIC \<or> executor_failed e q" .
      with \<open>run_inputs ho request = Inr p\<close> p main m(1) Inl show ?thesis by auto
    next
      case (Inr rs)
      obtain result reason where j: "judge rs = (result, reason)" by fastforce
      from in_process_finished [OF True s [unfolded Inr] j] obtain t q where "in_process (injected ho u clock) name wt w = (Inr (), t, w1)"
        "sc_active t = None" "sc_queue t = []" "sc_runs t ''run-1'' = Some q" "rr_state q = state_of_verdict result" "rr_result q = Some result"
        "rr_steps q = rs" "rr_reason q = reason" "rr_prerequisites q = probe_all (ho_probes ho) (ho_environment ho u) (su_probes u)" .
      with \<open>run_inputs ho request = Inr p\<close> p main m(1) Inr j show ?thesis
        by (simp add: same_verdict_def report_doc_def py_defs state_of_verdict_str jopt_def)
    qed
  next
    case False
    from in_process_blocked [OF this] obtain t q where "in_process (injected ho u clock) name wt w = (Inr (), t, w)" "sc_active t = None" "sc_queue t = []"
      "sc_runs t ''run-1'' = Some q" "rr_state q = RS_BLOCKED" "rr_result q = Some BLOCKED" "rr_steps q = []"
      "rr_prerequisites q = probe_all (ho_probes ho) (ho_environment ho u) (su_probes u)"
      "rr_reason q = ''missing prerequisites: '' @ missing_note (probe_all (ho_probes ho) (ho_environment ho u) (su_probes u))" .
    with Inr p False show ?thesis
      by (simp add: run_main_def Let_def same_verdict_def report_doc_def py_defs jopt_def)
  qed
qed (simp add: run_main_def)

subsection \<open>The durable queue\<close>

definition entry_ids :: "durable \<Rightarrow> string list" where
  "entry_ids s = map de_run_id (du_queue s)"

text \<open>The world with the identities of the runs that were called.\<close>

definition logged_main :: "'w main \<Rightarrow> ('w \<times> string list) main" where
  "logged_main main run_id request x = (case main run_id request (fst x) of (r, w) \<Rightarrow> (r, (w, snd x @ [run_id])))"

type_synonym 'w durable_world = "durable \<times> 'w \<times> string list"

definition durable_step :: "'v host \<Rightarrow> 'w main \<Rightarrow> string \<times> json \<Rightarrow> 'w durable_world \<Rightarrow> 'w durable_world" where
  "durable_step ho main op x = snd (durable_submit ho (logged_main main) (fst op) (snd op) (fst x) (snd x))"

definition submitted_id :: "'v host \<Rightarrow> string \<times> json \<Rightarrow> string list" where
  "submitted_id ho op = (if is_ok (admit_submission ho (snd op)) then [''run-'' @ take 16 (fst op)] else [])"

definition durable_events :: "'v host \<Rightarrow> 'w main \<Rightarrow> string \<times> json \<Rightarrow> 'w durable_world \<Rightarrow> queue_event list" where
  "durable_events ho main op x =
     map Enqueue (submitted_id ho op) @ map Dequeue (drop (length (snd (snd x))) (snd (snd (durable_step ho main op x))))"

lemma fifo_dequeues: "fifo (xs @ q) (map Dequeue xs) = Some q"
  by (induction xs) auto

lemma fifo_enqueues: "fifo q (map Enqueue xs @ es) = fifo (q @ xs) es"
  by (induction xs arbitrary: q) auto

lemma full_dispatch_runs:
  "full_dispatch (durable_call (logged_main main) ho) s (w, l) = (r, t, (w1, l1)) \<Longrightarrow>
     \<exists>ran. l1 = l @ ran \<and> entry_ids s = ran @ entry_ids t
       \<and> (if du_active s = None then (case r of Inl _ \<Rightarrow> ran \<noteq> [] \<and> du_active t = Some (last ran) | Inr _ \<Rightarrow> du_active t = None \<and> du_queue t = [])
          else ran = [] \<and> t = s)"
proof (induction "durable_call (logged_main main) ho" s "(w, l)" arbitrary: w l rule: full_dispatch.induct)
  case (1 s w l)
  show ?case
  proof (cases "du_active s = None")
    case False
    with 1(2) have "t = s" "l1 = l" by (auto simp: full_dispatch.simps [of _ s])
    with False show ?thesis by auto
  next
    case True
    show ?thesis
    proof (cases "du_queue s")
      case Nil
      with 1(2) True show ?thesis by (auto simp: full_dispatch.simps)
    next
      case (Cons e rest)
      obtain x w2 where m: "main (de_run_id e) (run_request (ho_scheduler ho) (ho_name ho) e) w = (x, w2)" by fastforce
      then have c: "durable_call (logged_main main) ho e (w, l) = (x, (w2, l @ [de_run_id e]))"
        by (simp add: durable_call_def logged_main_def)
      show ?thesis
      proof (cases x)
        case (Inl err)
        with 1(2) True Cons c show ?thesis by (auto simp: full_dispatch.simps [of _ s] entry_ids_def Let_def)
      next
        case (Inr v)
        let ?s1 = "s\<lparr>du_queue := rest, du_active := Some (de_run_id e)\<rparr>\<lparr>du_active := None\<rparr>"
        have d: "full_dispatch (durable_call (logged_main main) ho) ?s1 (w2, l @ [de_run_id e]) = (r, t, (w1, l1))"
          using 1(2) True Cons c Inr by (simp add: full_dispatch.simps [of _ s] Let_def)
        have "\<exists>ran. l1 = (l @ [de_run_id e]) @ ran \<and> entry_ids ?s1 = ran @ entry_ids t
            \<and> (if du_active ?s1 = None then (case r of Inl _ \<Rightarrow> ran \<noteq> [] \<and> du_active t = Some (last ran) | Inr _ \<Rightarrow> du_active t = None \<and> du_queue t = [])
               else ran = [] \<and> t = ?s1)"
          using 1(1) [OF _ Cons refl c [symmetric] Inr d] True by simp
        then obtain ran where "l1 = l @ de_run_id e # ran" "entry_ids s = (de_run_id e # ran) @ entry_ids t"
          "case r of Inl _ \<Rightarrow> ran \<noteq> [] \<and> du_active t = Some (last ran) | Inr _ \<Rightarrow> du_active t = None \<and> du_queue t = []"
          using Cons by (auto simp: entry_ids_def)
        with True show ?thesis
          by (intro exI [of _ "de_run_id e # ran"]) (auto split: sum.splits)
      qed
    qed
  qed
qed

lemma durable_step_cases:
  assumes "durable_step ho main op (s, w, l) = (t, w1, l1)"
  obtains "submitted_id ho op = []" "t = s" "w1 = w" "l1 = l"
  | r ran where "submitted_id ho op = [''run-'' @ take 16 (fst op)]" "l1 = l @ ran" "entry_ids s @ submitted_id ho op = ran @ entry_ids t"
      "if du_active s = None then (case (r :: unit res) of Inl _ \<Rightarrow> ran \<noteq> [] \<and> du_active t = Some (last ran) | Inr _ \<Rightarrow> du_active t = None \<and> du_queue t = [])
       else ran = [] \<and> du_active t = du_active s \<and> w1 = w"
proof (cases "admit_submission ho (snd op)")
  case (Inl e)
  with assms that(1) show thesis by (simp add: durable_step_def durable_submit_def submitted_id_def)
next
  case (Inr p)
  obtain a b where p: "p = (a, b)" by fastforce
  let ?e = "\<lparr>de_run_id = ''run-'' @ take 16 (fst op), de_suite = a, de_worktree = b\<rparr>"
  let ?s = "s\<lparr>du_queue := du_queue s @ [?e]\<rparr>"
  obtain r t' w' l' where d: "full_dispatch (durable_call (logged_main main) ho) ?s (w, l) = (r, t', (w', l'))"
    by (metis prod_cases3 surj_pair)
  with assms Inr p have eq: "t' = t" "w' = w1" "l' = l1"
    by (auto simp: durable_step_def durable_submit_def Let_def split: sum.splits)
  have new: "submitted_id ho op = [''run-'' @ take 16 (fst op)]" using Inr by (simp add: submitted_id_def)
  have ids: "entry_ids ?s = entry_ids s @ submitted_id ho op" using new by (simp add: entry_ids_def)
  have same: "w1 = w" if "du_active s \<noteq> None"
  proof -
    have "full_dispatch (durable_call (logged_main main) ho) ?s (w, l) = (Inr (), ?s, (w, l))"
      by (subst full_dispatch.simps) (use that in simp)
    with d eq show ?thesis by simp
  qed
  obtain ran where ran: "l1 = l @ ran" "entry_ids ?s = ran @ entry_ids t"
    "if du_active ?s = None then (case r of Inl _ \<Rightarrow> ran \<noteq> [] \<and> du_active t = Some (last ran) | Inr _ \<Rightarrow> du_active t = None \<and> du_queue t = [])
          else ran = [] \<and> t = ?s"
    using full_dispatch_runs [OF d] eq by blast
  show thesis
    by (rule that(2) [of ran r]) (use new ids ran same in \<open>auto split: if_splits\<close>)
qed

interpretation dispatch: fifo_system "durable_step ho main" "durable_events ho main" "\<lambda>x. entry_ids (fst x)"
  for ho :: "'v host" and main :: "'w main"
proof
  fix x :: "'w durable_world" and op
  obtain s w l where x: "x = (s, w, l)" by (metis prod_cases3)
  obtain t w1 l1 where d: "durable_step ho main op (s, w, l) = (t, w1, l1)" by (metis prod_cases3)
  then show "fifo (entry_ids (fst x)) (durable_events ho main op x) = Some (entry_ids (fst (durable_step ho main op x)))"
  proof (cases rule: durable_step_cases)
    case 1
    with x d show ?thesis by (simp add: durable_events_def)
  next
    case (2 r ran)
    with x d show ?thesis by (simp add: durable_events_def fifo_enqueues fifo_dequeues)
  qed
qed

text \<open>The slot is free with an empty queue, or it is kept by the run that was called last.\<close>

definition slot_kept :: "'w durable_world \<Rightarrow> bool" where
  "slot_kept x =
     (case du_active (fst x) of
        None \<Rightarrow> du_queue (fst x) = []
      | Some i \<Rightarrow> snd (snd x) \<noteq> [] \<and> i = last (snd (snd x)))"

lemma slot_step: "slot_kept x \<Longrightarrow> slot_kept (durable_step ho main op x)"
proof -
  assume k: "slot_kept x"
  obtain s w l where x: "x = (s, w, l)" by (metis prod_cases3)
  obtain t w1 l1 where d: "durable_step ho main op (s, w, l) = (t, w1, l1)" by (metis prod_cases3)
  then show ?thesis
  proof (cases rule: durable_step_cases)
    case 1
    with x d k show ?thesis by (simp add: slot_kept_def)
  next
    case (2 r ran)
    with x d k show ?thesis by (cases "du_active s"; cases r) (auto simp: slot_kept_def)
  qed
qed

lemma slot_run: "slot_kept x \<Longrightarrow> slot_kept (fold (durable_step ho main) ops x)"
  by (induction ops arbitrary: x) (simp_all add: slot_step)

lemma held_run:
  "du_active (fst x) \<noteq> None \<Longrightarrow>
     du_active (fst (fold (durable_step ho main) ops x)) = du_active (fst x) \<and> snd (fold (durable_step ho main) ops x) = snd x"
proof (induction ops arbitrary: x)
  case (Cons op ops)
  obtain s w l where x: "x = (s, w, l)" by (metis prod_cases3)
  obtain t w1 l1 where d: "durable_step ho main op (s, w, l) = (t, w1, l1)" by (metis prod_cases3)
  then have "du_active t = du_active s \<and> w1 = w \<and> l1 = l"
    using Cons.prems x by (cases rule: durable_step_cases) auto
  with Cons x d show ?case by simp
qed simp

lemma durable_trace:
  "enqueued (trace_events (durable_step ho main) (durable_events ho main) ops x) = concat (map (submitted_id ho) ops)
   \<and> snd (snd (fold (durable_step ho main) ops x)) = snd (snd x) @ dequeued (trace_events (durable_step ho main) (durable_events ho main) ops x)"
proof (induction ops arbitrary: x)
  case (Cons op ops)
  have e: "enqueued (map Enqueue is) = is" "enqueued (map Dequeue is) = []" for "is" :: "string list"
    by (induction "is") auto
  have q: "dequeued (map Enqueue is @ map Dequeue js @ es) = js @ dequeued es" for "is" js :: "string list" and es
  proof -
    have "dequeued (map Dequeue js @ es) = js @ dequeued es" by (induction js) auto
    then show ?thesis by (induction "is") auto
  qed
  obtain s w l where x: "x = (s, w, l)" by (metis prod_cases3)
  obtain t w1 l1 where d: "durable_step ho main op (s, w, l) = (t, w1, l1)" by (metis prod_cases3)
  then have "\<exists>ran. l1 = l @ ran" by (cases rule: durable_step_cases) auto
  with Cons [of "(t, w1, l1)"] x d show ?case by (auto simp: durable_events_def e q)
qed simp

text \<open>
  C22. The durable scheduler runs every admitted submission once, strictly first in, first out, until a run fails to
  return. After any sequence of submissions, whatever the run workflow answers: the runs called so far, in the order
  of the calls, followed by the queue, are the admitted submissions in the order of their admission. The slot is
  free and then nothing is queued, or it is kept by the run that was called last, whose call raised. And a kept slot
  is never freed: whatever is submitted later, no run is called again.
\<close>

theorem durable_dispatch_order:
  "let x = fold (durable_step ho main) ops (new_durable, w, []) in
     snd (snd x) @ entry_ids (fst x) = concat (map (submitted_id ho) ops) \<and> slot_kept x
     \<and> (case du_active (fst x) of
          None \<Rightarrow> True
        | Some i \<Rightarrow> (let y = fold (durable_step ho main) later x in du_active (fst y) = Some i \<and> snd y = snd x))"
proof -
  define x where "x = fold (durable_step ho main) ops (new_durable, w, [])"
  have order: "snd (snd x) @ entry_ids (fst x) = concat (map (submitted_id ho) ops)"
    using dispatch.run_order [of "(new_durable, w, [])" ho main ops] durable_trace [of ho main ops "(new_durable, w, [])"]
    unfolding x_def by (simp add: entry_ids_def new_durable_def)
  have kept: "slot_kept x" unfolding x_def by (rule slot_run) (simp add: slot_kept_def new_durable_def)
  show ?thesis
    unfolding Let_def x_def [symmetric]
    using order kept held_run [of x ho main later] by (auto split: option.splits)
qed

end
