(* ===== verification/Personal.thy ===== *)
theory Personal
  imports Handlers Urls Events
begin

section \<open>The Personal Agent\<close>

text \<open>
  runtime/personal_agent.py and runtime/personal_acp.py: the Task controls of the user. The agent derives the identity
  of a Task from the request identity, builds two kinds of requests, and turns one control into at most two calls of
  the kernel's handlers; every control is reported as one diagnostic event. The ACP front parses text commands into
  controls and delivers a file only for a read the kernel has pending. The ingress is a transport on a world of its
  own; the identity and clock sources are read from that world. Framing of ACP messages is left to its library.
\<close>

subsection \<open>Requests\<close>

definition USER_ACTOR :: json where
  "USER_ACTOR = JObj [(''kind'', JStr ''user''), (''via'', JStr ''modify-constraints''), (''binding'', JStr ''personal-agent'')]"

definition task_identity :: "json \<Rightarrow> string res" where
  "task_identity request_id = seqR (py_identifier request_id) (Inr (''task-'' @ sha256_hex (jstr request_id)))"

definition capability_action :: "string \<Rightarrow> json \<Rightarrow> json" where
  "capability_action capability v = JObj [(''type'', JStr ''INVOKE_CAPABILITY''), (''capability'', JStr capability), (''input'', v)]"

text \<open>A specification with one criterion and one capability, wrapped with its first action and a grant of just that capability.\<close>

definition one_step_request :: "string \<Rightarrow> string \<Rightarrow> json \<Rightarrow> string \<Rightarrow> json \<Rightarrow> json" where
  "one_step_request objective criterion evidence capability v = message ''TaskRequest'' (JObj
     [(''task_spec'', message ''TaskSpec'' (JObj
         [(''objective'', JStr objective),
          (''completion'', JList [JObj [(''criterion'', JStr criterion), (''evidence'', evidence)]]),
          (''capabilities'', JList [JStr capability]), (''autonomy'', JObj [(''allowed'', JList [JStr capability])])])),
      (''initial_action'', capability_action capability v),
      (''grant'', JObj [(''capabilities'', JList [JStr capability]), (''escalation_binding'', JNull)])])"

definition small_request :: "string \<Rightarrow> json res" where
  "small_request objective =
     seqR (py_text (JStr objective) 1024)
     (Inr (one_step_request objective ''Exact deterministic objective summary''
        (JObj [(''artifact'', JStr ''answer''), (''sha256'', JStr (sha256_hex (encode (summarize_objective objective))))])
        ''text.stats'' (JObj [(''text'', JStr objective)])))"

definition human_question :: "string \<Rightarrow> string \<Rightarrow> json" where
  "human_question task_id question = message ''HumanDecisionRequest'' (JObj
     [(''task_id'', JStr task_id), (''origin_task_id'', JStr task_id), (''request_id'', JStr ''decision-1''), (''revision'', JInt 0),
      (''question'', JStr question), (''allowed_responses'', JList [JStr ''YES'', JStr ''NO''])])"

definition decision_request :: "string \<Rightarrow> string \<Rightarrow> json res" where
  "decision_request request_id question =
     bindR (task_identity (JStr request_id)) (\<lambda>task_id.
     let human = human_question task_id question in
     Inr (one_step_request question ''Scoped human response recorded''
       (JObj [(''artifact'', JStr ''response''), (''verifier'', JStr ''human_response''), (''request'', human)])
       ''human.request'' (JObj [(''request'', human)])))"

subsection \<open>The binding to the kernel\<close>

text \<open>What the ingress does with one POST: a successful answer with its bytes, an HTTP error, or no answer.\<close>

datatype reply = Body string | HttpError nat string | Unreachable string

type_synonym 'w transport = "string \<Rightarrow> string option \<Rightarrow> 'w \<Rightarrow> reply \<times> 'w"

type_synonym 'w binding = "string \<Rightarrow> string \<Rightarrow> json option \<Rightarrow> 'w \<Rightarrow> json res \<times> 'w"

definition check_ingress :: "(string \<Rightarrow> bool) \<Rightarrow> string \<Rightarrow> unit res" where
  "check_ingress netloc_ok ingress =
     bindR (urlsplit netloc_ok ingress) (\<lambda>u.
     raise_if (u_scheme u \<noteq> ''http'' \<or> hostname u \<noteq> ''127.0.0.1'' \<or> username u \<noteq> [] \<or> password u \<noteq> []
         \<or> u_path u \<noteq> [] \<or> u_query u \<noteq> [] \<or> u_fragment u \<noteq> [])
       (ValueError ''D2 requires a loopback Restate ingress; use trusted SSH for remote ACP''))"

definition reply_json :: "reply \<Rightarrow> json res" where
  "reply_json r =
     (case r of
        Body bytes \<Rightarrow> json_loads bytes
      | HttpError code reason \<Rightarrow>
          if 400 \<le> code \<and> code < 500 then Inl (ControlRejected (''Control request rejected (HTTP '' @ show_nat code @ '')''))
          else Inl (OSError (''HTTP Error '' @ show_nat code @ '': '' @ reason))
      | Unreachable m \<Rightarrow> Inl (OSError m))"

definition restate_call :: "string \<Rightarrow> 'w transport \<Rightarrow> 'w binding" where
  "restate_call ingress send task_id handler body w =
     (case py_identifier (JStr task_id) of
        Inl e \<Rightarrow> (Inl e, w)
      | Inr _ \<Rightarrow>
          (case send (ingress @ ''/CognitiveTaskV1/'' @ task_id @ ''/'' @ handler) (map_option encode body) w of (r, w1) \<Rightarrow> (reply_json r, w1)))"

subsection \<open>Controls\<close>

fun is_rejected :: "exn \<Rightarrow> bool" where
  "is_rejected (ControlRejected m) = True"
| "is_rejected e = False"

text \<open>What the final report says of a control: the Task, the operation and the outcome.\<close>

type_synonym control_note = "string \<times> string \<times> string"

definition check_origins :: "string \<Rightarrow> json \<Rightarrow> unit res" where
  "check_origins task_id spec =
     forR (\<lambda>c. let evidence = dget c ''evidence'' in
       raise_if (is_human evidence \<and> dget (dget (dget evidence ''request'') ''payload'') ''task_id'' \<noteq> JStr task_id)
         (ValueError ''Human request Task identity mismatch''))
     (lget spec ''completion'')"

definition check_creation :: "string \<Rightarrow> json \<Rightarrow> unit res" where
  "check_creation task_id raw =
     bindR (accept_task_request raw task_id) (\<lambda>(spec, parent, grant).
     seqR (raise_if (parent \<noteq> None) (ValueError ''Child Tasks are submitted by their parent runtime''))
     (check_origins task_id spec))"

definition submission_error :: "string \<Rightarrow> exn \<Rightarrow> exn" where
  "submission_error task_id e =
     (if is_os_error e then ValueError (''Submission uncertain for '' @ task_id @ ''; retry the same request_id and input'') else e)"

definition send_task :: "'w binding \<Rightarrow> string \<Rightarrow> json \<Rightarrow> 'w \<Rightarrow> json res \<times> string \<times> 'w" where
  "send_task call task_id raw w =
     (case call task_id ''run/send'' (Some raw) w of
        (Inl e, w1) \<Rightarrow> (Inl (submission_error task_id e), if is_rejected e then ''rejected'' else ''uncertain'', w1)
      | (Inr receipt, w1) \<Rightarrow>
          (Inr (JObj [(''task_id'', JStr task_id), (''submission'', JStr ''SUBMITTED''), (''receipt'', receipt)]), ''submitted'', w1))"

definition submit_task :: "'w binding \<Rightarrow> string \<Rightarrow> json \<Rightarrow> 'w \<Rightarrow> json res \<times> string \<times> 'w" where
  "submit_task call task_id raw w =
     (case call task_id ''inspect'' None w of
        (Inl e, w1) \<Rightarrow> (Inl e, ''rejected'', w1)
      | (Inr before, w1) \<Rightarrow>
          (case item before ''lifecycle'' of
             Inl e \<Rightarrow> (Inl e, ''rejected'', w1)
           | Inr lifecycle \<Rightarrow>
               if lifecycle = JStr ''UNAVAILABLE'' then send_task call task_id raw w1
               else if dget before ''request_digest'' \<noteq> JStr (sha256_hex (encode raw)) then
                 (Inl (ValueError ''Request identity already belongs to different input''), ''rejected'', w1)
               else (Inr (JObj [(''task_id'', JStr task_id), (''submission'', JStr ''EXISTING''), (''state'', before)]), ''accepted'', w1)))"

definition create_task :: "'w binding \<Rightarrow> json \<Rightarrow> 'w \<Rightarrow> json res \<times> control_note \<times> 'w" where
  "create_task call request w =
     (case seqR (py_fields request [''operation'', ''request_id'', ''task_request''] []) (task_identity (dget request ''request_id'')) of
        Inl e \<Rightarrow> (Inl e, (''unassigned'', ''create'', ''rejected''), w)
      | Inr task_id \<Rightarrow>
          (case check_creation task_id (dget request ''task_request'') of
             Inl e \<Rightarrow> (Inl e, (task_id, ''create'', ''rejected''), w)
           | Inr _ \<Rightarrow>
               (case submit_task call task_id (dget request ''task_request'') w of (r, out, w1) \<Rightarrow> (r, (task_id, ''create'', out), w1))))"

text \<open>The handler a control calls, and with what.\<close>

definition handler_of :: "string \<Rightarrow> json \<Rightarrow> (string \<times> json option) res" where
  "handler_of operation request =
     (if operation \<in> {''inspect'', ''result'', ''cancel''} then
        seqR (py_fields request [''operation'', ''task_id''] []) (Inr (if operation = ''cancel'' then ''cancel'' else ''inspect'', None))
      else if operation = ''artifact'' then
        seqR (py_fields request [''operation'', ''task_id'', ''name''] [])
        (seqR (py_identifier (dget request ''name'')) (Inr (''artifact'', Some (JObj [(''name'', dget request ''name'')]))))
      else if operation \<in> {''respond'', ''workspace-result'', ''signal''} then
        seqR (py_fields request [''operation'', ''task_id'', ''response''] [])
        (Inr (if operation = ''respond'' then ''submit_human_response'' else if operation = ''signal'' then ''submit_input'' else ''submit_workspace_result'',
           Some (dget request ''response'')))
      else if operation = ''amend'' then
        seqR (py_fields request [''operation'', ''task_id'', ''amendment''] [])
        (Inr (''amend_contract'', Some (message ''CompletionContractAmendmentSubmission''
           (JObj [(''actor'', USER_ACTOR), (''amendment'', dget request ''amendment'')]))))
      else Inl (ValueError ''Unsupported Task control operation''))"

definition control_task :: "'w binding \<Rightarrow> string \<Rightarrow> json \<Rightarrow> 'w \<Rightarrow> json res \<times> control_note \<times> 'w" where
  "control_task call operation request w =
     (case py_identifier (dget request ''task_id'') of
        Inl e \<Rightarrow> (Inl e, (''unassigned'', operation, ''rejected''), w)
      | Inr v \<Rightarrow>
          (case handler_of operation request of
             Inl e \<Rightarrow> (Inl e, (jstr v, operation, ''rejected''), w)
           | Inr (handler, body) \<Rightarrow>
               (case call (jstr v) handler body w of
                  (Inl e, w1) \<Rightarrow> (Inl e, (jstr v, operation, ''rejected''), w1)
                | (Inr result, w1) \<Rightarrow> (Inr result, (jstr v, operation, ''accepted''), w1))))"

definition CONTROL_OPTIONS :: "string list" where
  "CONTROL_OPTIONS = [''request_id'', ''task_request'', ''task_id'', ''response'', ''name'', ''amendment'']"

definition attempt_control :: "'w binding \<Rightarrow> json \<Rightarrow> 'w \<Rightarrow> json res \<times> control_note \<times> 'w" where
  "attempt_control call request w =
     (case seqR (py_fields request [''operation''] CONTROL_OPTIONS) (py_text (dget request ''operation'') 32) of
        Inl e \<Rightarrow> (Inl e, (''unassigned'', ''invalid'', ''rejected''), w)
      | Inr v \<Rightarrow> if jstr v = ''create'' then create_task call request w else control_task call (jstr v) request w)"

record 'w agent =
  ag_call :: "'w binding"
  ag_publisher :: "(json \<Rightarrow> 'w \<Rightarrow> unit res \<times> 'w) option"
  ag_stamp :: stamps
  ag_now :: "'w \<Rightarrow> string"
  ag_uuid :: "'w \<Rightarrow> string"

definition CONTROL_OPERATIONS :: "string list" where
  "CONTROL_OPERATIONS = [''create'', ''inspect'', ''result'', ''cancel'', ''artifact'', ''respond'', ''workspace-result'', ''signal'', ''amend'']"

definition control_event :: "control_note \<Rightarrow> string \<Rightarrow> event_args" where
  "control_event note uuid =
     (case note of (task_id, operation, out) \<Rightarrow>
       \<lparr>ea_task_id = JStr task_id, ea_run_id = ''control-'' @ uuid, ea_step_id = (if operation \<in> set CONTROL_OPERATIONS then operation else ''invalid''),
        ea_type = JStr ''personal_agent.control'', ea_outcome = JStr out,
        ea_producer = JObj [(''kind'', JStr ''deterministic_application''), (''component'', JStr ''blaine.personal_agent'')],
        ea_cause = JNull, ea_references = JNull, ea_payload = JNull, ea_payload_refs = [], ea_correlation = []\<rparr>)"

definition execute_control :: "'w agent \<Rightarrow> json \<Rightarrow> 'w \<Rightarrow> json res \<times> 'w" where
  "execute_control ag request w =
     (case attempt_control (ag_call ag) request w of (r, note, w1) \<Rightarrow>
        (case ag_publisher ag of
           None \<Rightarrow> (r, w1)
         | Some publish \<Rightarrow>
             (r, snd (safe_publish (ag_stamp ag) publish (safe_prepare (ag_stamp ag) (ag_now ag w1) (control_event note (ag_uuid ag w1))) w1))))"

subsection \<open>The handlers of the kernel behind the binding\<close>

text \<open>
  The ingress answers a terminal error with its status; any other failure is retried by the runtime until the client
  gives up. An amendment is served without another handler in between.
\<close>

definition served :: "json res \<Rightarrow> json res" where
  "served r =
     (case r of
        Inr v \<Rightarrow> Inr v
      | Inl (TerminalError m code) \<Rightarrow> reply_json (HttpError code m)
      | Inl _ \<Rightarrow> reply_json (Unreachable ''timed out''))"

definition serve_amendment :: "runtime \<Rightarrow> json \<Rightarrow> shared \<Rightarrow> json res \<times> shared" where
  "serve_amendment rt request sh =
     (case amend_begin rt request sh of
        (Inl e, sh1) \<Rightarrow> (Inl e, sh1)
      | (Inr (Answered v), sh1) \<Rightarrow> (Inr v, sh1)
      | (Inr (Pending_amendment p), sh1) \<Rightarrow> amend_finish rt p sh1)"

definition serve :: "runtime \<Rightarrow> (json \<Rightarrow> shared \<Rightarrow> json res \<times> shared) \<Rightarrow> string \<Rightarrow> json \<Rightarrow> shared \<Rightarrow> json res \<times> shared" where
  "serve rt start handler body sh =
     (if handler = ''inspect'' then (inspect rt sh, sh)
      else if handler = ''artifact'' then (artifact rt body sh, sh)
      else if handler = ''cancel'' then cancel_task sh
      else if handler = ''submit_input'' then submit_input rt body sh
      else if handler = ''submit_human_response'' then submit_human_response rt body sh
      else if handler = ''submit_workspace_result'' then submit_workspace_result rt body sh
      else if handler = ''amend_contract'' then serve_amendment rt body sh
      else if handler = ''run/send'' then start body sh
      else (Inl (TerminalError ''handler not found'' 404), sh))"

definition kernel_binding :: "runtime \<Rightarrow> (json \<Rightarrow> shared \<Rightarrow> json res \<times> shared) \<Rightarrow> (string \<Rightarrow> shared) binding" where
  "kernel_binding rt start task_id handler body ws =
     (case serve rt start handler (case body of None \<Rightarrow> JNull | Some v \<Rightarrow> v) (ws task_id) of
        (r, sh) \<Rightarrow> (served r, ws(task_id := sh)))"

definition create_control :: "json \<Rightarrow> json \<Rightarrow> json" where
  "create_control request_id raw = JObj [(''operation'', JStr ''create''), (''request_id'', request_id), (''task_request'', raw)]"

subsection \<open>Identities\<close>

lemma task_identity_Inr: "task_identity r = Inr t \<longleftrightarrow> is_ok (py_identifier r) \<and> t = ''task-'' @ sha256_hex (jstr r)"
  by (auto simp: task_identity_def bindR_eq_Inr is_ok_iff)

lemma task_identity_ident: "task_identity r = Inr t \<Longrightarrow> is_ident t"
  using is_ident_prefix_hex [OF sha.hexdigest_hex64, of "''task-''"] unfolding task_identity_Inr
  by (simp add: is_ident_def ident_char_def)

subsection \<open>Every control is a bounded sequence of addressed calls\<close>

type_synonym control_call = "string \<times> string \<times> json option"

definition logged :: "'w binding \<Rightarrow> ('w \<times> control_call list) binding" where
  "logged call task_id handler body x =
     (case call task_id handler body (fst x) of (r, w) \<Rightarrow> (r, (w, snd x @ [(task_id, handler, body)])))"

text \<open>An amendment goes out under the one principal of this binding.\<close>

definition as_user :: "control_call \<Rightarrow> bool" where
  "as_user c =
     (case c of (_, handler, body) \<Rightarrow>
        if handler = ''amend_contract'' then
          (case body of None \<Rightarrow> False | Some v \<Rightarrow> dget (dget v ''payload'') ''actor'' = USER_ACTOR)
        else True)"

text \<open>The calls one control may make: none, one of its handler, or a look and a submission.\<close>

definition calls_allowed :: "json \<Rightarrow> control_call list \<Rightarrow> bool" where
  "calls_allowed request calls =
     (if dget request ''operation'' = JStr ''create'' then
        (case task_identity (dget request ''request_id'') of
           Inl _ \<Rightarrow> calls = []
         | Inr t \<Rightarrow>
             prefix calls [(t, ''inspect'', None), (t, ''run/send'', Some (dget request ''task_request''))]
             \<and> (if calls = [] then True else check_creation t (dget request ''task_request'') = Inr ()))
      else
        (case calls of
           [] \<Rightarrow> True
         | [(t, h, b)] \<Rightarrow> dget request ''task_id'' = JStr t \<and> is_ident t \<and> handler_of (sget request ''operation'') request = Inr (h, b)
         | _ \<Rightarrow> False))"

lemma handler_of_user: "handler_of operation request = Inr (h, b) \<Longrightarrow> as_user (t, h, b)"
  by (auto simp: handler_of_def as_user_def bindR_eq_Inr py_defs split: if_splits)

text \<open>The outcome a control reports, against what it did.\<close>

definition honest :: "json res \<Rightarrow> string \<Rightarrow> control_call list \<Rightarrow> bool" where
  "honest r out calls \<longleftrightarrow>
     out \<in> {''accepted'', ''submitted'', ''rejected'', ''uncertain''}
     \<and> (out = ''accepted'' \<or> out = ''submitted'') = is_ok r
     \<and> (out = ''submitted'') = (is_ok r \<and> length calls = 2)
     \<and> (out = ''uncertain'') = (length calls = 2 \<and> (case r of Inl e \<Rightarrow> \<not> is_rejected e | Inr _ \<Rightarrow> False))
     \<and> (case r of Inl e \<Rightarrow> if length calls = 2 then \<not> is_os_error e else True | Inr _ \<Rightarrow> True)"

lemma submit_task_logged:
  assumes "submit_task (logged call) t raw (w, []) = (r, out, (w1, calls))"
  shows "honest r out calls \<and> calls \<noteq> [] \<and> prefix calls [(t, ''inspect'', None), (t, ''run/send'', Some raw)]"
proof -
  obtain x w2 where a: "call t ''inspect'' None w = (x, w2)" by fastforce
  obtain y w3 where b: "call t ''run/send'' (Some raw) w2 = (y, w3)" by fastforce
  have os: "\<not> is_os_error (submission_error t e)" "is_rejected (submission_error t e) = is_rejected e" for e
    by (cases e; simp add: submission_error_def)+
  show ?thesis
    using assms a b os
    by (cases x; cases y)
      (auto simp: submit_task_def send_task_def logged_def honest_def split: sum.splits if_splits)
qed

lemma rejected_honest: "honest (Inl e) ''rejected'' []"
  by (simp add: honest_def)

text \<open>
  C16. A control of the Personal Agent is a bounded sequence of calls of the one Task it names. A create derives the
  Task identity from the request identity, calls nothing before the intake validator has accepted the request as a
  root Task whose human questions name this very Task, then looks, and at most once submits exactly these bytes; any
  other control is at most one call of its own handler, on the Task of the request, and an amendment always carries
  the user principal of this binding, whatever the request says. And the reported outcome is the truth: accepted or
  submitted exactly when the control returned, submitted only after the submission was answered, uncertain exactly
  when a submission was sent and not refused; a broken connection at that point never looks like a plain failure.
\<close>

theorem controls_addressed:
  "case attempt_control (logged call) request (w, []) of (r, (task_id, operation, out), (w1, calls)) \<Rightarrow>
     calls_allowed request calls \<and> list_all as_user calls \<and> honest r out calls
     \<and> list_all (\<lambda>(t, _, _). t = task_id) calls"
proof -
  obtain r t out w1 calls operation where x: "attempt_control (logged call) request (w, []) = (r, (t, operation, out), (w1, calls))"
    by (metis prod_cases3 surj_pair)
  consider (bad) e where "r = Inl e" "out = ''rejected''" "calls = []"
    | (create) "dget request ''operation'' = JStr ''create''"
        "create_task (logged call) request (w, []) = (r, (t, operation, out), (w1, calls))"
    | (other) "dget request ''operation'' \<noteq> JStr ''create''"
        "control_task (logged call) (sget request ''operation'') request (w, []) = (r, (t, operation, out), (w1, calls))"
  proof (cases "seqR (py_fields request [''operation''] CONTROL_OPTIONS) (py_text (dget request ''operation'') 32)")
    case (Inl e)
    with x bad [of e] show thesis by (simp add: attempt_control_def)
  next
    case (Inr v)
    then obtain op where v: "v = JStr op" "dget request ''operation'' = JStr op" by (auto simp: bindR_eq_Inr py_text_eq_Inr is_str_iff)
    show thesis
    proof (cases "op = ''create''")
      case True
      with x Inr v create show thesis by (simp add: attempt_control_def)
    next
      case False
      with x Inr v other show thesis by (simp add: attempt_control_def)
    qed
  qed
  then show ?thesis
  proof cases
    case bad
    with x rejected_honest show ?thesis by (auto simp: calls_allowed_def split: sum.splits)
  next
    case create
    then show ?thesis
    proof (cases "task_identity (dget request ''request_id'')")
      case (Inl e)
      with create x show ?thesis
        by (auto simp: create_task_def calls_allowed_def rejected_honest bindR_def split: sum.splits)
    next
      case (Inr i)
      show ?thesis
      proof (cases "calls = []")
        case True
        with create x Inr show ?thesis
          by (auto simp: create_task_def calls_allowed_def rejected_honest bindR_def split: sum.splits prod.splits dest: submit_task_logged)
      next
        case False
        with create(2) Inr have "check_creation i (dget request ''task_request'') = Inr ()" "t = i"
          "submit_task (logged call) i (dget request ''task_request'') (w, []) = (r, out, (w1, calls))"
          by (auto simp: create_task_def bindR_def split: sum.splits prod.splits)
        with x Inr create(1) submit_task_logged [OF this(3)] show ?thesis
          by (auto simp: calls_allowed_def as_user_def prefix_Cons)
      qed
    qed
  next
    case other
    then show ?thesis
      using x by (auto simp: control_task_def calls_allowed_def rejected_honest logged_def honest_def py_identifier_eq_Inr handler_of_user
          split: sum.splits prod.splits)
  qed
qed

end
