(* ===== verification/Personal_Acp.thy ===== *)
theory Personal_Acp
  imports Personal Paths
begin

section \<open>Text commands of the Personal Agent\<close>

text \<open>
  runtime/personal_acp.py: a prompt of a known session becomes one command, a command becomes controls of the agent, and
  the file system of the client is asked only for a read the kernel has pending. The agent, the client's file read and
  the identity source act on a world of their own; how the reply is rendered and framed is left to the ACP library.
\<close>

subsection \<open>Commands\<close>

text \<open>\<open>s.lstrip ()\<close> and \<open>s.strip ()\<close>, on the bytes of the text.\<close>

fun lstrip_from :: "nat \<Rightarrow> string \<Rightarrow> string" where
  "lstrip_from k [] = []"
| "lstrip_from (Suc k) (c # s) = lstrip_from k s"
| "lstrip_from 0 (c # s) = (let n = space_len (c # s) in if n \<noteq> 0 then lstrip_from (n - 1) s else c # s)"

definition py_strip :: "string \<Rightarrow> string" where
  "py_strip s =
     (let t = lstrip_from 0 s in
      case find (\<lambda>n. py_blank (drop n t)) [0..<Suc (length t)] of None \<Rightarrow> t | Some n \<Rightarrow> take n t)"

datatype command =
    TaskControl string
  | Ask string string string
  | Plain string string
  | Fulfill string
  | Answer string string string

definition word_rest :: "string list \<Rightarrow> string \<Rightarrow> (string \<times> string) option" where
  "word_rest words txt =
     map_option (\<lambda>w. (w, drop (length w + 1) txt)) (find (\<lambda>w. prefix (w @ '' '') txt) words)"

text \<open>\<open>([A-Za-z0-9_-]{1,80}):\s*(\S[\s\S]*)\<close>.\<close>

definition named_value :: "string \<Rightarrow> (string \<times> string) option" where
  "named_value s =
     (let name = takeWhile ident_char s; rest = dropWhile ident_char s in
      if is_ident name \<and> take 1 rest = '':'' then
        (let v = lstrip_from 0 (tl rest) in if v = [] then None else Some (name, v))
      else None)"

definition ask_command :: "string \<Rightarrow> command option" where
  "ask_command txt =
     Option.bind (word_rest [''summarize'', ''decision''] txt) (\<lambda>(action, rest). map_option (\<lambda>(i, v). Ask action i v) (named_value rest))"

definition plain_command :: "string \<Rightarrow> command option" where
  "plain_command txt =
     Option.bind (word_rest [''inspect'', ''result'', ''cancel'', ''fulfill''] txt) (\<lambda>(operation, task_id).
       if \<not> is_ident task_id then None else Some (if operation = ''fulfill'' then Fulfill task_id else Plain operation task_id))"

definition answer_command :: "string \<Rightarrow> command option" where
  "answer_command txt =
     Option.bind (word_rest [''respond'', ''artifact''] txt) (\<lambda>(operation, rest). map_option (\<lambda>(i, v). Answer operation i v) (named_value rest))"

definition parse_command :: "string \<Rightarrow> command option" where
  "parse_command txt =
     (if prefix ''task '' txt then Some (TaskControl (drop 5 txt))
      else case ask_command txt of Some c \<Rightarrow> Some c
      | None \<Rightarrow> (case plain_command txt of Some c \<Rightarrow> Some c | None \<Rightarrow> answer_command txt))"

subsection \<open>Pending reads and questions\<close>

record 'w acp =
  ac_workspaces :: "(string \<times> string) list"
  ac_can_read :: bool
  ac_execute :: "json \<Rightarrow> 'w \<Rightarrow> json res \<times> 'w"
  ac_read_file :: "string \<Rightarrow> string \<Rightarrow> 'w \<Rightarrow> string res \<times> 'w"
  ac_uuid :: "'w \<Rightarrow> string"

definition new_session :: "string \<Rightarrow> string \<Rightarrow> 'w acp \<Rightarrow> 'w acp" where
  "new_session session cwd ac = ac\<lparr>ac_workspaces := AList.update session cwd (ac_workspaces ac)\<rparr>"

definition prepare_read :: "'w acp \<Rightarrow> string \<Rightarrow> json \<Rightarrow> (json \<times> string) res" where
  "prepare_read ac session state =
     bindR (get_attr state ''pending_workspace_read'') (\<lambda>raw.
     seqR (raise_if (\<not> py_true raw \<or> \<not> ac_can_read ac)
       (ValueError ''No authorized pending workspace read or client read capability unavailable''))
     (bindR (item raw ''payload'') (\<lambda>request.
      bindR (mapR (\<lambda>k. bindR (item request k) (\<lambda>v. Inr (k, v))) [''workspace'', ''path'', ''artifact'']) (\<lambda>kvs.
      seqR (validate_read (JObj kvs))
      (case map_of (ac_workspaces ac) session of
         None \<Rightarrow> Inl (KeyError (py_repr session))
       | Some cwd \<Rightarrow>
           seqR (raise_if (posix_path cwd \<noteq> posix_path (sget request ''workspace'')) (ValueError ''Pending read belongs to a different workspace''))
           (Inr (request, join_path cwd (sget request ''path''))))))))"

definition delivered_read :: "json \<Rightarrow> string \<Rightarrow> string \<Rightarrow> json res" where
  "delivered_read request task_id content =
     bindR (item request ''operation_id'') (\<lambda>operation.
     Inr (JObj [(''operation'', JStr ''workspace-result''), (''task_id'', JStr task_id),
       (''response'', message ''CapabilityResult'' (JObj [(''operation_id'', operation), (''outcome'', JStr ''success''),
          (''output'', JObj [(''content'', JStr content)]), (''artifacts'', JObj []), (''error'', JNull)]))]))"

definition prepare_answer :: "string \<Rightarrow> string \<Rightarrow> string \<Rightarrow> json \<Rightarrow> json res" where
  "prepare_answer uuid task_id value state =
     bindR (get_attr state ''pending_human_decision'') (\<lambda>request.
     seqR (raise_if (\<not> py_true request) (ValueError ''No pending HumanDecisionRequest''))
     (bindR (item request ''payload'') (\<lambda>human.
      bindR (item human ''request_id'') (\<lambda>request_id.
      bindR (item human ''revision'') (\<lambda>revision.
      bindR (request_digest request) (\<lambda>digest.
      Inr (message ''HumanDecisionResponse'' (JObj
        [(''task_id'', JStr task_id), (''request_id'', request_id), (''request_revision'', revision), (''request_digest'', JStr digest),
         (''response_id'', JStr (''response-'' @ uuid)), (''value'', JStr value)]))))))))"

definition inspect_control :: "string \<Rightarrow> json" where
  "inspect_control task_id = JObj [(''operation'', JStr ''inspect''), (''task_id'', JStr task_id)]"

definition fulfill_read :: "'w acp \<Rightarrow> string \<Rightarrow> string \<Rightarrow> 'w \<Rightarrow> json res \<times> 'w" where
  "fulfill_read ac session task_id w =
     (case ac_execute ac (inspect_control task_id) w of
        (Inl e, w1) \<Rightarrow> (Inl e, w1)
      | (Inr state, w1) \<Rightarrow>
          (case prepare_read ac session state of
             Inl e \<Rightarrow> (Inl e, w1)
           | Inr (request, path) \<Rightarrow>
               (case ac_read_file ac session path w1 of
                  (Inl e, w2) \<Rightarrow> (Inl e, w2)
                | (Inr content, w2) \<Rightarrow>
                    (case delivered_read request task_id content of Inl e \<Rightarrow> (Inl e, w2) | Inr control \<Rightarrow> ac_execute ac control w2))))"

definition respond_human :: "'w acp \<Rightarrow> string \<Rightarrow> string \<Rightarrow> 'w \<Rightarrow> json res \<times> 'w" where
  "respond_human ac task_id value w =
     (case ac_execute ac (inspect_control task_id) w of
        (Inl e, w1) \<Rightarrow> (Inl e, w1)
      | (Inr state, w1) \<Rightarrow>
          (case prepare_answer (ac_uuid ac w1) task_id value state of
             Inl e \<Rightarrow> (Inl e, w1)
           | Inr response \<Rightarrow>
               ac_execute ac (JObj [(''operation'', JStr ''respond''), (''task_id'', JStr task_id), (''response'', response)]) w1))"

definition HELP :: string where
  "HELP = ''Use summarize <request-id>: <text>, decision <request-id>: <question>, '' @
     ''inspect/result/cancel/fulfill <task-id>, artifact <task-id>: <name>, '' @
     ''respond <task-id>: YES|NO, or task <JSON control request>.''"

definition run_command :: "'w acp \<Rightarrow> string \<Rightarrow> string \<Rightarrow> 'w \<Rightarrow> json res \<times> 'w" where
  "run_command ac session txt w =
     (case py_text (JStr txt) MAX_PACKET of
        Inl e \<Rightarrow> (Inl e, w)
      | Inr _ \<Rightarrow>
          (case parse_command txt of
             None \<Rightarrow> (Inl (ValueError HELP), w)
           | Some (TaskControl doc) \<Rightarrow> (case json_loads doc of Inl e \<Rightarrow> (Inl e, w) | Inr v \<Rightarrow> ac_execute ac v w)
           | Some (Ask action request_id value) \<Rightarrow>
               (case (if action = ''summarize'' then small_request value else decision_request request_id value) of
                  Inl e \<Rightarrow> (Inl e, w) | Inr raw \<Rightarrow> ac_execute ac (create_control (JStr request_id) raw) w)
           | Some (Plain operation task_id) \<Rightarrow> ac_execute ac (JObj [(''operation'', JStr operation), (''task_id'', JStr task_id)]) w
           | Some (Fulfill task_id) \<Rightarrow> fulfill_read ac session task_id w
           | Some (Answer operation task_id value) \<Rightarrow>
               if operation = ''artifact'' then
                 (case py_identifier (JStr value) of
                    Inl e \<Rightarrow> (Inl e, w)
                  | Inr name \<Rightarrow> ac_execute ac (JObj [(''operation'', JStr ''artifact''), (''task_id'', JStr task_id), (''name'', name)]) w)
               else respond_human ac task_id value w))"

subsection \<open>Prompts\<close>

datatype block = TextBlock string | ResourceBlock | OtherBlock

definition block_text :: "block \<Rightarrow> string option" where
  "block_text b = (case b of TextBlock t \<Rightarrow> Some t | _ \<Rightarrow> None)"

definition control_error :: "exn \<Rightarrow> json" where
  "control_error e = JObj [(''error'', JStr (if is_value_error e then exn_str e else ''Control transport unavailable''))]"

definition answer_prompt :: "'w acp \<Rightarrow> string \<Rightarrow> block list \<Rightarrow> 'w \<Rightarrow> json res \<times> 'w" where
  "answer_prompt ac session prompt w =
     (if session \<notin> fst ` set (ac_workspaces ac) then (Inl (ValueError ''Unknown ACP session; start a new Blaine chat.''), w)
      else if OtherBlock \<in> set prompt then
        (Inl (ValueError (''Images, audio and embedded resource content are unsupported in E0.C. '' @ ''No workspace operation was performed.'')), w)
      else
        let txt = py_strip (join_with [CHR 0x0A] (List.map_filter block_text prompt)) in
        if txt = [] then (Inl (ValueError ''A text control command is required. Resource links are not opened in E0.C.''), w)
        else run_command ac session txt w)"

text \<open>The notice on unopened resource links, and the document of the reply.\<close>

definition prompt_reply :: "'w acp \<Rightarrow> string \<Rightarrow> block list \<Rightarrow> 'w \<Rightarrow> (bool \<times> json) res \<times> 'w" where
  "prompt_reply ac session prompt w =
     (case answer_prompt ac session prompt w of (r, w1) \<Rightarrow>
        let links = (session \<in> fst ` set (ac_workspaces ac) \<and> OtherBlock \<notin> set prompt \<and> ResourceBlock \<in> set prompt) in
        (case r of
           Inr v \<Rightarrow> Inr (links, v)
         | Inl e \<Rightarrow> if is_value_error e \<or> is_os_error e \<or> is_type_error e then Inr (links, control_error e) else Inl e, w1))"

end
