(* ===== verification/Personal_Facts.thy ===== *)
theory Personal_Facts
  imports Personal_Acp
begin

section \<open>What the Personal Agent submits and answers\<close>

text \<open>
  The requests the agent builds are the ones the kernel accepts, and its small request is completed by its first
  action; a Task that exists is never started again; the client's files are read only on demand of the kernel; and an
  answer is built for exactly the pending question.
\<close>

subsection \<open>Requests the kernel accepts\<close>

definition one_step_spec :: "string \<Rightarrow> string \<Rightarrow> json \<Rightarrow> string \<Rightarrow> json" where
  "one_step_spec objective criterion evidence capability = JObj
     [(''objective'', JStr objective), (''completion'', JList [JObj [(''criterion'', JStr criterion), (''evidence'', evidence)]]),
      (''capabilities'', JList [JStr capability]), (''autonomy'', JObj [(''allowed'', JList [JStr capability])])]"

definition one_step_grant :: "string \<Rightarrow> json" where
  "one_step_grant capability = JObj [(''capabilities'', JList [JStr capability]), (''escalation_binding'', JNull)]"

definition one_step_body :: "string \<Rightarrow> string \<Rightarrow> json \<Rightarrow> string \<Rightarrow> json \<Rightarrow> json" where
  "one_step_body objective criterion evidence capability v = JObj
     [(''task_spec'', message ''TaskSpec'' (one_step_spec objective criterion evidence capability)),
      (''initial_action'', capability_action capability v), (''grant'', one_step_grant capability)]"

lemma one_step_request_eq:
  "one_step_request objective criterion evidence capability v = message ''TaskRequest'' (one_step_body objective criterion evidence capability v)"
  by (simp add: one_step_request_def one_step_body_def one_step_spec_def one_step_grant_def)

lemma one_step_spec_wf:
  assumes "is_ok (py_text (JStr objective) 1024)" "is_ok (py_text (JStr criterion) 512)" "check_evidence evidence = Inr ()"
    "capability \<in> set CAPABILITIES"
  shows "wf_spec (one_step_spec objective criterion evidence capability)"
proof -
  have "wf_criterion (JObj [(''criterion'', JStr criterion), (''evidence'', evidence)])"
    using assms(2,3) by (auto simp: wf_criterion_iff [symmetric] check_criterion_def py_fields_def py_defs is_ok_iff bindR_eq_Inr)
  then show ?thesis
    using assms(1,4) by (simp add: wf_spec_def one_step_spec_def py_defs py_fields_def human_ids_def wf_capabilities_def
        exact_fields_def is_ok_iff bounded_text_iff)
qed

lemma one_step_grant_ok:
  "capability \<in> set CAPABILITIES \<Longrightarrow> validate_grant (one_step_grant capability) = Inr (one_step_grant capability)"
  using capability_text [of "JStr capability"]
  by (auto simp: validate_grant_def one_step_grant_def py_fields_def py_defs bounded_unique_def py_hashable_all_def grant_list_def
      sorted_strs_def py_text_eq_Inr bindR_eq_Inr)

lemma accept_one_step:
  assumes texts: "is_ok (py_text (JStr objective) 1024)" "is_ok (py_text (JStr criterion) 512)" "check_evidence evidence = Inr ()"
    and cap: "capability \<in> set CAPABILITIES" and v: "is_dict v" and tid: "is_ident task_id"
    and fits: "length (encode (message ''TaskSpec'' (one_step_spec objective criterion evidence capability))) \<le> MAX_PACKET"
      "length (encode (one_step_request objective criterion evidence capability v)) \<le> MAX_PACKET"
      "length (encode (intake_decision task_id (capability_action capability v))) \<le> MAX_PACKET"
  shows "accept_task_request (one_step_request objective criterion evidence capability v) task_id =
    Inr (one_step_spec objective criterion evidence capability, None, Some (one_step_grant capability))"
proof -
  let ?spec = "one_step_spec objective criterion evidence capability"
  let ?body = "one_step_body objective criterion evidence capability v"
  let ?action = "capability_action capability v"
  define dec where "dec = JObj [(''task_id'', JStr task_id), (''task_revision'', JInt 0), (''turn_id'', JStr (task_id @ ''/1'')), (''next_action'', ?action)]"
  have turn: "py_text (JStr (task_id @ ''/1'')) 100 = Inr (JStr (task_id @ ''/1''))"
  proof -
    obtain c cs where c: "task_id = c # cs" "ident_char c" using tid by (cases task_id) (auto simp: is_ident_def)
    then have "33 \<le> (of_char c :: nat)" "(of_char c :: nat) < 127" by (auto simp: ident_char_def Let_def)
    then have "\<not> py_blank (task_id @ ''/1'')" using c by simp
    with tid show ?thesis by (simp add: py_text_eq_Inr is_ident_def)
  qed
  have act: "check_action ?action = Inr ()"
    using capability_text [of "JStr capability"] cap v
    by (simp add: check_action_def capability_action_def py_fields_def py_defs)
  have "unpack (message ''CognitiveDecision'' dec) ''CognitiveDecision'' = Inr dec"
    using fits(3) by (simp add: unpack_message intake_decision_def dec_def)
  then have d: "validate_decision (intake_decision task_id ?action) = Inr dec"
    using tid turn act
    by (simp add: validate_decision_def intake_decision_def dec_def [symmetric])
      (simp add: dec_def py_fields_def py_defs py_identifier_def capability_action_def)
  have u: "unpack (message ''TaskRequest'' ?body) ''TaskRequest'' = Inr ?body"
    using fits(2) by (simp add: unpack_message one_step_request_eq) (simp add: one_step_body_def)
  have parts: "py_fields ?body [''task_spec''] [''initial_action'', ''grant'', ''contract''] = Inr ?body"
    "has_key ?body ''initial_action''" "has_key ?body ''grant''" "dget ?body ''initial_action'' = ?action"
    "dget ?body ''grant'' = one_step_grant capability" "dget ?body ''task_spec'' = message ''TaskSpec'' ?spec"
    by (simp_all add: one_step_body_def py_fields_def py_defs)
  have ty: "dget (dget dec ''next_action'') ''type'' = JStr ''INVOKE_CAPABILITY''"
    by (simp add: dec_def capability_action_def py_defs)
  show ?thesis
    unfolding accept_task_request_def one_step_request_eq
    by (simp add: u parts d ty accept_grant_def one_step_grant_ok [OF cap] wf_spec_revalidate [OF one_step_spec_wf [OF texts cap] fits(1)])
qed

lemma one_step_effective:
  "effective_capabilities (one_step_spec objective criterion evidence capability) (Some (one_step_grant capability)) = {capability}"
  by (simp add: effective_capabilities_def one_step_spec_def one_step_grant_def py_defs str_set_def)

text \<open>The small request: its bytes always fit, and its first action writes the artifact its criterion asks for.\<close>

definition summary_evidence :: "string \<Rightarrow> json" where
  "summary_evidence objective = JObj [(''artifact'', JStr ''answer''), (''sha256'', JStr (sha256_hex (encode (summarize_objective objective))))]"

abbreviation summary_criterion :: string where
  "summary_criterion \<equiv> ''Exact deterministic objective summary''"

lemma summary_fits:
  assumes "length objective \<le> 1024" "length task_id \<le> 80"
  shows "length (encode (message ''TaskSpec'' (one_step_spec objective summary_criterion (summary_evidence objective) ''text.stats''))) \<le> MAX_PACKET"
    "length (encode (one_step_request objective summary_criterion (summary_evidence objective) ''text.stats'' (JObj [(''text'', JStr objective)]))) \<le> MAX_PACKET"
    "length (encode (intake_decision task_id (capability_action ''text.stats'' (JObj [(''text'', JStr objective)])))) \<le> MAX_PACKET"
  by (rule length_encode_le;
      use assms in \<open>simp add: message_def one_step_spec_def one_step_request_def summary_evidence_def capability_action_def intake_decision_def
        MAX_PACKET_def sha.digest_length jsize_eval\<close>)+

text \<open>The decision request, whose question and answers are fixed by the agent.\<close>

definition question_body :: "string \<Rightarrow> string \<Rightarrow> json" where
  "question_body task_id question = JObj
     [(''task_id'', JStr task_id), (''origin_task_id'', JStr task_id), (''request_id'', JStr ''decision-1''), (''revision'', JInt 0),
      (''question'', JStr question), (''allowed_responses'', JList [JStr ''YES'', JStr ''NO''])]"

definition question_evidence :: "string \<Rightarrow> string \<Rightarrow> json" where
  "question_evidence task_id question =
     JObj [(''artifact'', JStr ''response''), (''verifier'', JStr ''human_response''), (''request'', human_question task_id question)]"

abbreviation question_criterion :: string where
  "question_criterion \<equiv> ''Scoped human response recorded''"

lemma question_valid:
  assumes "is_ident task_id" "is_ok (py_text (JStr question) 512)"
  shows "validate_request (human_question task_id question) = Inr (question_body task_id question)"
proof -
  have len: "length task_id \<le> 80" "length question \<le> 512" "\<not> py_blank question"
    using assms by (auto simp: is_ident_def is_ok_iff py_text_eq_Inr)
  have eq: "human_question task_id question = message ''HumanDecisionRequest'' (question_body task_id question)"
    by (simp add: human_question_def question_body_def)
  have "length (encode (human_question task_id question)) \<le> MAX_PACKET"
    by (rule length_encode_le) (use len in \<open>simp add: human_question_def message_def MAX_PACKET_def jsize_eval\<close>)
  then have u: "unpack (human_question task_id question) ''HumanDecisionRequest'' = Inr (question_body task_id question)"
    unfolding eq by (simp add: unpack_message) (simp add: question_body_def)
  show ?thesis
    using assms len unfolding validate_request_def u
    by (simp add: question_body_def py_fields_def py_defs py_identifier_def py_text_def)
      (simp add: is_ident_def ident_char_def)
qed

lemma question_fits:
  assumes "length task_id \<le> 80" "length question \<le> 512"
  shows "length (encode (message ''TaskSpec'' (one_step_spec question question_criterion (question_evidence task_id question) ''human.request''))) \<le> MAX_PACKET"
    "length (encode (one_step_request question question_criterion (question_evidence task_id question) ''human.request''
       (JObj [(''request'', human_question task_id question)]))) \<le> MAX_PACKET"
    "length (encode (intake_decision task_id (capability_action ''human.request'' (JObj [(''request'', human_question task_id question)])))) \<le> MAX_PACKET"
  by (rule length_encode_le;
      use assms in \<open>simp add: message_def one_step_spec_def one_step_request_def question_evidence_def human_question_def capability_action_def
        intake_decision_def MAX_PACKET_def jsize_eval\<close>)+

lemma check_creation_one_step:
  "accept_task_request raw t = Inr (one_step_spec objective criterion evidence capability, None, g)
   \<Longrightarrow> is_human evidence \<Longrightarrow> dget (dget (dget evidence ''request'') ''payload'') ''task_id'' = JStr t
   \<Longrightarrow> check_creation t raw = Inr ()"
  "accept_task_request raw t = Inr (one_step_spec objective criterion evidence capability, None, g)
   \<Longrightarrow> \<not> is_human evidence \<Longrightarrow> check_creation t raw = Inr ()"
  by (simp_all add: check_creation_def check_origins_def one_step_spec_def py_defs)

lemma small_request_accepted:
  assumes "task_identity r = Inr t" "small_request objective = Inr raw"
  shows "raw = one_step_request objective summary_criterion (summary_evidence objective) ''text.stats'' (JObj [(''text'', JStr objective)])"
    "accept_task_request raw t =
       Inr (one_step_spec objective summary_criterion (summary_evidence objective) ''text.stats'', None, Some (one_step_grant ''text.stats''))"
    "check_creation t raw = Inr ()"
proof -
  have t: "is_ident t" using task_identity_ident [OF assms(1)] .
  from assms(2) show raw: "raw = one_step_request objective summary_criterion (summary_evidence objective) ''text.stats'' (JObj [(''text'', JStr objective)])"
    by (simp add: small_request_def bindR_eq_Inr summary_evidence_def)
  have short: "is_ok (py_text (JStr objective) 1024)" using assms(2) by (auto simp: small_request_def bindR_eq_Inr is_ok_iff)
  then have len: "length objective \<le> 1024" "length t \<le> 80" using t by (auto simp: is_ok_iff py_text_eq_Inr is_ident_def)
  have ev: "check_evidence (summary_evidence objective) = Inr ()"
    using sha.hexdigest_hex64 by (simp add: summary_evidence_def check_evidence_def is_human_def py_fields_def py_defs py_identifier_def is_ident_def ident_char_def)
  show a: "accept_task_request raw t =
       Inr (one_step_spec objective summary_criterion (summary_evidence objective) ''text.stats'', None, Some (one_step_grant ''text.stats''))"
    unfolding raw by (rule accept_one_step [OF short _ ev _ _ t summary_fits(1) [OF len] summary_fits(2) [OF len] summary_fits(3) [OF len]]) (simp_all add: py_text_def CAPABILITIES_def)
  show "check_creation t raw = Inr ()"
    by (rule check_creation_one_step(2) [OF a]) (simp add: summary_evidence_def is_human_def py_defs)
qed

lemma decision_request_accepted:
  assumes "task_identity (JStr r) = Inr t" "decision_request r question = Inr raw" "is_ok (py_text (JStr question) 512)"
  shows "raw = one_step_request question question_criterion (question_evidence t question) ''human.request''
       (JObj [(''request'', human_question t question)])"
    "accept_task_request raw t =
       Inr (one_step_spec question question_criterion (question_evidence t question) ''human.request'', None, Some (one_step_grant ''human.request''))"
    "check_creation t raw = Inr ()"
proof -
  have t: "is_ident t" using task_identity_ident [OF assms(1)] .
  from assms(1,2) show raw: "raw = one_step_request question question_criterion (question_evidence t question) ''human.request''
       (JObj [(''request'', human_question t question)])"
    by (simp add: decision_request_def question_evidence_def Let_def)
  have short: "is_ok (py_text (JStr question) 1024)" and len: "length question \<le> 512" "length t \<le> 80"
    using assms(3) t by (auto simp: is_ok_iff py_text_eq_Inr is_ident_def)
  have ev: "check_evidence (question_evidence t question) = Inr ()"
    using question_valid [OF t assms(3)]
    by (simp add: question_evidence_def check_evidence_def is_human_def py_fields_def py_defs py_identifier_def is_ident_def ident_char_def)
  show a: "accept_task_request raw t =
       Inr (one_step_spec question question_criterion (question_evidence t question) ''human.request'', None, Some (one_step_grant ''human.request''))"
    unfolding raw by (rule accept_one_step [OF short _ ev _ _ t question_fits(1) [OF len(2,1)] question_fits(2) [OF len(2,1)] question_fits(3) [OF len(2,1)]]) (simp_all add: py_text_def CAPABILITIES_def)
  show "check_creation t raw = Inr ()"
    by (rule check_creation_one_step(1) [OF a]) (simp_all add: question_evidence_def human_question_def is_human_def py_defs)
qed

text \<open>What a capability left in the store is what every criterion of the specification names.\<close>

definition meets_criteria :: "string \<Rightarrow> json \<Rightarrow> executed \<Rightarrow> artifact_store \<Rightarrow> bool" where
  "meets_criteria task_id spec result store =
     (case result of
        Produced _ artifacts \<Rightarrow> list_all (\<lambda>c. let e = dget c ''evidence'' in
          list_ex (\<lambda>(name, ref). JStr name = dget e ''artifact''
            \<and> (case read store task_id ref of Inl _ \<Rightarrow> False | Inr content \<Rightarrow> dget e ''sha256'' = JStr (sha256_hex content))) artifacts)
          (lget spec ''completion'')
      | WorkerFailed _ \<Rightarrow> False)"

text \<open>A question outside the bound is refused by the kernel: the criterion it would need is not well formed.\<close>

lemma decision_request_refused:
  assumes "task_identity (JStr r) = Inr t" "decision_request r question = Inr raw" "is_ok (accept_task_request raw t)"
  shows "is_ok (py_text (JStr question) 512)"
proof -
  from assms(1,2) have raw: "raw = one_step_request question question_criterion (question_evidence t question) ''human.request''
       (JObj [(''request'', human_question t question)])"
    by (simp add: decision_request_def question_evidence_def Let_def)
  obtain x where "accept_task_request raw t = Inr x" using assms(3) by (auto simp: is_ok_iff)
  then obtain spec where "validate_spec (message ''TaskSpec'' (one_step_spec question question_criterion (question_evidence t question) ''human.request'')) = Inr spec"
    unfolding accept_task_request_def raw one_step_request_eq
    by (auto simp: one_step_body_def bindR_eq_Inr unpack_message py_fields_eq_Inr py_defs split: if_splits)
  then obtain s where "validate_spec_body (one_step_spec question question_criterion (question_evidence t question) ''human.request'') = Inr s"
    unfolding validate_spec_Inr unpack_message by auto
  then have "list_all wf_criterion (lget (one_step_spec question question_criterion (question_evidence t question) ''human.request'') ''completion'')"
    unfolding validate_spec_body_Inr Let_def by simp
  then have "wf_criterion (JObj [(''criterion'', JStr question_criterion), (''evidence'', question_evidence t question)])"
    by (simp add: one_step_spec_def py_defs)
  then have "wf_request (human_question t question)"
    by (simp add: wf_criterion_def digest_evidence_def human_evidence_def exact_fields_def question_evidence_def py_defs)
  then show ?thesis
    by (simp add: wf_request_def human_question_def py_defs is_ok_iff bounded_text_iff Let_def)
qed

text \<open>
  What the first action publishes is what the criterion needs: the artifact a digest criterion names,
  or the question a human criterion asks. The only way not to get there is a store that refuses to
  keep the document.
\<close>

definition publishes :: "string \<Rightarrow> string \<Rightarrow> json \<Rightarrow> executed \<Rightarrow> artifact_store \<Rightarrow> bool" where
  "publishes task_id name document result store =
     (case result of
        Produced _ artifacts \<Rightarrow> (\<exists>ref. artifacts = [(name, JStr ref)] \<and> read store task_id (JStr ref) = Inr (encode document))
      | WorkerFailed _ \<Rightarrow> False)"

lemma small_first_action:
  assumes t: "task_identity (JStr request_id) = Inr t"
  shows "case small_request objective of
          Inl _ \<Rightarrow> \<not> bounded_text (JStr objective) 1024
        | Inr raw \<Rightarrow> bounded_text (JStr objective) 1024 \<and> check_creation t raw = Inr () \<and>
            (\<exists>spec grant. accept_task_request raw t = Inr (spec, None, Some grant) \<and> effective_capabilities spec (Some grant) = {''text.stats''}
               \<and> (case run_stored ca ''text.stats'' t operation (dget (dget (dget raw ''payload'') ''initial_action'') ''input'') cx of
                    (Inr result, store) \<Rightarrow> meets_criteria t spec result store
                  | (Inl e, store) \<Rightarrow> put_json (ca_store ca) t (summarize_objective objective) = (Inl e, store)))"
proof (cases "small_request objective")
  case (Inl e)
  then have "\<not> is_ok (py_text (JStr objective) 1024)" by (auto simp: small_request_def is_ok_iff)
  with Inl show ?thesis by (simp add: is_ok_iff bounded_text_iff)
next
  case (Inr raw)
  have b: "bounded_text (JStr objective) 1024" using Inr by (auto simp: small_request_def bindR_eq_Inr bounded_text_iff)
  note a = small_request_accepted [OF t Inr]
  have i: "dget (dget (dget raw ''payload'') ''initial_action'') ''input'' = JObj [(''text'', JStr objective)]"
    unfolding a(1) by (simp add: one_step_request_eq one_step_body_def capability_action_def py_defs)
  obtain r store where p: "put_json (ca_store ca) t (summarize_objective objective) = (r, store)" by fastforce
  have run: "run_stored ca ''text.stats'' t operation (JObj [(''text'', JStr objective)]) cx =
      (bindR r (\<lambda>ref. Inr (Produced (summarize_objective objective) [(''answer'', JStr ref)])), store)"
    using p by (simp add: run_stored_def storing_def Let_def py_defs)
  have "meets_criteria t (one_step_spec objective summary_criterion (summary_evidence objective) ''text.stats'')
      (Produced (summarize_objective objective) [(''answer'', JStr ref)]) store" if "r = Inr ref" for ref
    using put_Inr(2) [of "ca_store ca" t "encode (summarize_objective objective)" ref store] p that
    by (simp add: meets_criteria_def one_step_spec_def summary_evidence_def py_defs put_json_def)
  with Inr a b i run p one_step_effective show ?thesis by (cases r) auto
qed

lemma decision_first_action:
  assumes t: "task_identity (JStr request_id) = Inr t" and raw: "decision_request request_id question = Inr raw"
  shows "if bounded_text (JStr question) 512 then check_creation t raw = Inr () \<and>
            (\<exists>spec grant asked. accept_task_request raw t = Inr (spec, None, Some grant) \<and> effective_capabilities spec (Some grant) = {''human.request''}
               \<and> human_requirement spec (JStr ''decision-1'') = Inr (question_evidence t question) \<and> dget (question_evidence t question) ''request'' = asked
               \<and> (case run_stored ca ''human.request'' t operation (dget (dget (dget raw ''payload'') ''initial_action'') ''input'') cx of
                    (Inr result, store) \<Rightarrow> publishes t ''human-request-decision-1'' asked result store
                  | (Inl e, store) \<Rightarrow> put_json (ca_store ca) t asked = (Inl e, store)))
         else \<not> is_ok (accept_task_request raw t)"
proof (cases "bounded_text (JStr question) 512")
  case False
  then have "\<not> is_ok (py_text (JStr question) 512)" by (simp add: is_ok_iff bounded_text_iff)
  then have "\<not> is_ok (accept_task_request raw t)" using decision_request_refused [OF t raw] by blast
  with False show ?thesis by simp
next
  case True
  then have b: "is_ok (py_text (JStr question) 512)" by (simp add: is_ok_iff bounded_text_iff)
  note a = decision_request_accepted [OF t raw b]
  have i: "dget (dget (dget raw ''payload'') ''initial_action'') ''input'' = JObj [(''request'', human_question t question)]"
    unfolding a(1) by (simp add: one_step_request_eq one_step_body_def capability_action_def py_defs)
  have h: "human_requirement (one_step_spec question question_criterion (question_evidence t question) ''human.request'') (JStr ''decision-1'')
      = Inr (question_evidence t question)" "dget (question_evidence t question) ''request'' = human_question t question"
    by (simp_all add: human_requirement_def one_step_spec_def question_evidence_def is_human_def human_request_id_def human_question_def py_defs)
  have v: "validate_request (human_question t question) = Inr (question_body t question)"
    by (rule question_valid [OF task_identity_ident [OF t] b])
  obtain r store where p: "put_json (ca_store ca) t (human_question t question) = (r, store)" by fastforce
  have run: "run_stored ca ''human.request'' t operation (JObj [(''request'', human_question t question)]) cx =
      (bindR r (\<lambda>ref. Inr (Produced (JObj [(''request_ref'', JStr ref), (''request_id'', JStr ''decision-1''),
          (''delivery'', JStr ''controlled-input adapter; no external notification'')]) [(''human-request-decision-1'', JStr ref)])), store)"
    using p v by (simp add: run_stored_def publish_human_def storing_def Let_def py_defs question_body_def)
  have "publishes t ''human-request-decision-1'' (human_question t question) (Produced out [(''human-request-decision-1'', JStr ref)]) store"
    if "r = Inr ref" for out ref
    using put_Inr(2) [of "ca_store ca" t "encode (human_question t question)" ref store] p that
    by (simp add: publishes_def put_json_def)
  with True a(2,3) i h run p one_step_effective show ?thesis by (cases r) auto
qed

text \<open>
  C17. What the Personal Agent builds is what the kernel accepts and can finish. For every request identity it admits,
  the small request exists exactly for a non-blank objective of at most 1024 characters; the kernel accepts it as a
  root Task with exactly one effective capability, and when that capability runs the first action it leaves, for each
  completion criterion, the named artifact with the required digest. The decision request is accepted exactly for a
  non-blank question of at most 512 characters, with exactly the capability to ask; its first action publishes exactly
  the question the completion criterion requires an answer to, under the name the kernel looks it up by. Either first
  action can fail in one way only: the artifact store refuses to keep that document.
\<close>

theorem agent_requests_accepted:
  "case task_identity (JStr request_id) of
     Inl _ \<Rightarrow> True
   | Inr t \<Rightarrow>
       (case small_request objective of
          Inl _ \<Rightarrow> \<not> bounded_text (JStr objective) 1024
        | Inr raw \<Rightarrow> bounded_text (JStr objective) 1024 \<and> check_creation t raw = Inr () \<and>
            (\<exists>spec grant. accept_task_request raw t = Inr (spec, None, Some grant) \<and> effective_capabilities spec (Some grant) = {''text.stats''}
               \<and> (case run_stored ca ''text.stats'' t operation (dget (dget (dget raw ''payload'') ''initial_action'') ''input'') cx of
                    (Inr result, store) \<Rightarrow> meets_criteria t spec result store
                  | (Inl e, store) \<Rightarrow> put_json (ca_store ca) t (summarize_objective objective) = (Inl e, store))))
       \<and> (case decision_request request_id question of
            Inl _ \<Rightarrow> False
          | Inr raw \<Rightarrow>
              if bounded_text (JStr question) 512 then check_creation t raw = Inr () \<and>
                (\<exists>spec grant asked. accept_task_request raw t = Inr (spec, None, Some grant) \<and> effective_capabilities spec (Some grant) = {''human.request''}
                   \<and> human_requirement spec (JStr ''decision-1'') = Inr (question_evidence t question) \<and> dget (question_evidence t question) ''request'' = asked
                   \<and> (case run_stored ca ''human.request'' t operation (dget (dget (dget raw ''payload'') ''initial_action'') ''input'') cx of
                        (Inr result, store) \<Rightarrow> publishes t ''human-request-decision-1'' asked result store
                      | (Inl e, store) \<Rightarrow> put_json (ca_store ca) t asked = (Inl e, store)))
              else \<not> is_ok (accept_task_request raw t))"
proof (cases "task_identity (JStr request_id)")
  case (Inr t)
  have "\<exists>raw. decision_request request_id question = Inr raw" using Inr by (simp add: decision_request_def Let_def)
  then obtain raw2 where raw2: "decision_request request_id question = Inr raw2" by blast
  have small: "case small_request objective of
          Inl _ \<Rightarrow> \<not> bounded_text (JStr objective) 1024
        | Inr raw \<Rightarrow> bounded_text (JStr objective) 1024 \<and> check_creation t raw = Inr () \<and>
            (\<exists>spec grant. accept_task_request raw t = Inr (spec, None, Some grant) \<and> effective_capabilities spec (Some grant) = {''text.stats''}
               \<and> (case run_stored ca ''text.stats'' t operation (dget (dget (dget raw ''payload'') ''initial_action'') ''input'') cx of
                    (Inr result, store) \<Rightarrow> meets_criteria t spec result store
                  | (Inl e, store) \<Rightarrow> put_json (ca_store ca) t (summarize_objective objective) = (Inl e, store)))"
    by (rule small_first_action [OF Inr])
  have ask: "if bounded_text (JStr question) 512 then check_creation t raw2 = Inr () \<and>
                (\<exists>spec grant asked. accept_task_request raw2 t = Inr (spec, None, Some grant) \<and> effective_capabilities spec (Some grant) = {''human.request''}
                   \<and> human_requirement spec (JStr ''decision-1'') = Inr (question_evidence t question) \<and> dget (question_evidence t question) ''request'' = asked
                   \<and> (case run_stored ca ''human.request'' t operation (dget (dget (dget raw2 ''payload'') ''initial_action'') ''input'') cx of
                        (Inr result, store) \<Rightarrow> publishes t ''human-request-decision-1'' asked result store
                      | (Inl e, store) \<Rightarrow> put_json (ca_store ca) t asked = (Inl e, store)))
              else \<not> is_ok (accept_task_request raw2 t)"
    by (rule decision_first_action [OF Inr raw2])
  from small ask raw2 Inr show ?thesis by simp
qed simp

subsection \<open>A Task that exists is never started again\<close>

lemma inspect_existing:
  assumes "sh_task sh = Some s" "inspect rt sh = Inr v"
  shows "is_dict v" "has_key v ''lifecycle''" "dget v ''lifecycle'' = JStr (lifecycle_str (ts_lifecycle s))"
    "dget v ''request_digest'' = jopt JStr (ts_request_digest s)"
  using assms by (auto simp: inspect_def bindR_eq_Inr inspect_view_def py_defs)

lemma lifecycle_available: "lifecycle_str l \<noteq> ''UNAVAILABLE''"
  by (cases l) simp_all

lemma kernel_inspect: "kernel_binding rt start t ''inspect'' None ws = (served (inspect rt (ws t)), ws)"
  by (simp add: kernel_binding_def serve_def)

lemma served_Inr: "served r = Inr v \<longleftrightarrow> r = Inr v"
  by (cases r) (auto simp: served_def reply_json_def split: exn.splits)

text \<open>
  C18. Retrying a submission is safe. Over the handlers of the kernel, whatever starting a Task would do: a create for
  an identity whose Task exists changes nothing, neither that Task nor any other, and never starts one; it answers
  only with the existing Task, and only when that Task was accepted from exactly the same request bytes.
\<close>

theorem existing_never_restarted:
  "case task_identity request_id of
     Inl _ \<Rightarrow> True
   | Inr t \<Rightarrow>
       (case sh_task (ws t) of
          None \<Rightarrow> True
        | Some s \<Rightarrow>
            (case attempt_control (kernel_binding rt start) (create_control request_id raw) ws of (r, _, ws') \<Rightarrow>
               ws' = ws
               \<and> (case r of
                    Inl _ \<Rightarrow> True
                  | Inr v \<Rightarrow> dget v ''submission'' = JStr ''EXISTING'' \<and> dget v ''task_id'' = JStr t
                      \<and> ts_request_digest s = Some (sha256_hex (encode raw)))))"
proof (cases "task_identity request_id")
  case (Inr t)
  show ?thesis
  proof (cases "sh_task (ws t)")
    case (Some s)
    have req: "py_fields (create_control request_id raw) [''operation''] CONTROL_OPTIONS = Inr (create_control request_id raw)"
      "py_fields (create_control request_id raw) [''operation'', ''request_id'', ''task_request''] [] = Inr (create_control request_id raw)"
      "dget (create_control request_id raw) ''operation'' = JStr ''create''" "dget (create_control request_id raw) ''request_id'' = request_id"
      "dget (create_control request_id raw) ''task_request'' = raw"
      by (simp_all add: create_control_def py_fields_def py_defs CONTROL_OPTIONS_def)
    have a: "attempt_control (kernel_binding rt start) (create_control request_id raw) ws =
        (case check_creation t raw of
           Inl e \<Rightarrow> (Inl e, (t, ''create'', ''rejected''), ws)
         | Inr _ \<Rightarrow> (case submit_task (kernel_binding rt start) t raw ws of (r, out, w1) \<Rightarrow> (r, (t, ''create'', out), w1)))"
      by (cases "check_creation t raw") (simp_all add: attempt_control_def req create_task_def Inr py_text_def)
    have "w1 = ws \<and> (case r of Inl _ \<Rightarrow> True | Inr v \<Rightarrow> dget v ''submission'' = JStr ''EXISTING'' \<and> dget v ''task_id'' = JStr t
        \<and> ts_request_digest s = Some (sha256_hex (encode raw)))"
      if "submit_task (kernel_binding rt start) t raw ws = (r, out, w1)" for r out w1
    proof (cases "inspect rt (ws t)")
      case (Inr v)
      then have "kernel_binding rt start t ''inspect'' None ws = (Inr v, ws)" by (simp add: kernel_inspect served_def)
      moreover note inspect_existing [OF Some Inr]
      moreover have "item v ''lifecycle'' = Inr (JStr (lifecycle_str (ts_lifecycle s)))" using inspect_existing [OF Some Inr] by (simp add: item_eq_Inr)
      ultimately show ?thesis
        using that lifecycle_available by (cases "ts_request_digest s") (auto simp: submit_task_def jopt_def py_defs split: if_splits)
    next
      case (Inl e)
      then have "\<exists>x. kernel_binding rt start t ''inspect'' None ws = (Inl x, ws)"
        using served_Inr [of "inspect rt (ws t)"] by (cases "served (inspect rt (ws t))") (auto simp: kernel_inspect)
      with that show ?thesis by (auto simp: submit_task_def)
    qed
    with Inr Some a show ?thesis by (auto split: sum.splits prod.splits)
  qed (use Inr in simp)
qed simp

subsection \<open>The client's files\<close>

text \<open>The front over a world that records the files read.\<close>

definition lift_call :: "('a \<Rightarrow> 'w \<Rightarrow> 'b \<times> 'w) \<Rightarrow> 'a \<Rightarrow> 'w \<times> 'l \<Rightarrow> 'b \<times> ('w \<times> 'l)" where
  "lift_call f a x = (case f a (fst x) of (r, w) \<Rightarrow> (r, (w, snd x)))"

definition watched :: "'w acp \<Rightarrow> ('w \<times> (string \<times> string) list) acp" where
  "watched ac =
     \<lparr>ac_workspaces = ac_workspaces ac, ac_can_read = ac_can_read ac, ac_execute = lift_call (ac_execute ac),
      ac_read_file = (\<lambda>session path x. case ac_read_file ac session path (fst x) of (r, w) \<Rightarrow> (r, (w, snd x @ [(session, path)]))),
      ac_uuid = (\<lambda>x. ac_uuid ac (fst x))\<rparr>"

lemma watched_parts [simp]:
  "ac_workspaces (watched ac) = ac_workspaces ac" "ac_can_read (watched ac) = ac_can_read ac" "ac_execute (watched ac) = lift_call (ac_execute ac)"
  by (simp_all add: watched_def)

lemma lift_same: "lift_call f a x = (r, y) \<Longrightarrow> snd y = snd x"
  by (auto simp: lift_call_def split: prod.splits)

text \<open>A file read the kernel has pending, inside the workspace of the session.\<close>

definition read_admitted :: "'w acp \<Rightarrow> string \<Rightarrow> json \<Rightarrow> string \<Rightarrow> bool" where
  "read_admitted ac session state path \<longleftrightarrow>
     ac_can_read ac \<and>
     (\<exists>request cwd. dget (dget state ''pending_workspace_read'') ''payload'' = request \<and> map_of (ac_workspaces ac) session = Some cwd
        \<and> posix_path cwd = posix_path (sget request ''workspace'') \<and> path = join_path cwd (sget request ''path'')
        \<and> \<not> is_absolute (sget request ''path'') \<and> ''..'' \<notin> set (path_parts (sget request ''path'')) \<and> path_parts (sget request ''path'') \<noteq> [])"

lemma prepare_read_Inr:
  assumes "prepare_read ac session state = Inr (request, path)"
  shows "read_admitted ac session state path"
proof -
  from assms obtain raw kvs where g: "get_attr state ''pending_workspace_read'' = Inr raw" and p: "item raw ''payload'' = Inr request"
    and c: "ac_can_read ac" and m: "mapR (\<lambda>k. bindR (item request k) (\<lambda>v. Inr (k, v))) [''workspace'', ''path'', ''artifact''] = Inr kvs"
    and v: "\<exists>x. validate_read (JObj kvs) = Inr x"
    and l: "(case map_of (ac_workspaces ac) session of
         None \<Rightarrow> Inl (KeyError (py_repr session))
       | Some cwd \<Rightarrow>
           seqR (raise_if (posix_path cwd \<noteq> posix_path (sget request ''workspace'')) (ValueError ''Pending read belongs to a different workspace''))
           (Inr (request, join_path cwd (sget request ''path'')))) = Inr (request, path)"
    unfolding prepare_read_def bindR_eq_Inr by (auto split: option.splits simp: bindR_eq_Inr)
  from m have k: "kvs = [(''workspace'', dget request ''workspace''), (''path'', dget request ''path''), (''artifact'', dget request ''artifact'')]"
    by (auto simp: bindR_eq_Inr item_eq_Inr split: sum.splits)
  with v have "\<not> is_absolute (sget request ''path'') \<and> ''..'' \<notin> set (path_parts (sget request ''path'')) \<and> path_parts (sget request ''path'') \<noteq> []"
    by (auto simp: validate_read_def bindR_eq_Inr Let_def py_defs split: if_splits)
  with g p c l show ?thesis
    by (auto simp: read_admitted_def get_attr_eq_Inr item_eq_Inr bindR_eq_Inr split: option.splits)
qed

lemma fulfill_watched:
  assumes "fulfill_read (watched ac) session t (w, []) = (r, (w1, reads))"
  shows "reads = [] \<or> (\<exists>state w2 path. ac_execute ac (inspect_control t) w = (Inr state, w2) \<and> reads = [(session, path)] \<and> read_admitted ac session state path)"
proof -
  obtain x w2 where e: "ac_execute ac (inspect_control t) w = (x, w2)" by fastforce
  show ?thesis
  proof (cases x)
    case (Inl err)
    with assms e show ?thesis by (simp add: fulfill_read_def lift_call_def)
  next
    case (Inr state)
    show ?thesis
    proof (cases "prepare_read (watched ac) session state")
      case (Inl err)
      with assms e Inr show ?thesis by (simp add: fulfill_read_def lift_call_def)
    next
      case p: (Inr q)
      obtain request path where q: "q = (request, path)" by fastforce
      have ok: "read_admitted ac session state path"
        using prepare_read_Inr [OF p [unfolded q]] by (simp add: read_admitted_def)
      obtain y w3 where f: "ac_read_file ac session path w2 = (y, w3)" by fastforce
      have "reads = [(session, path)]"
        using assms e Inr p q f
        by (auto simp: fulfill_read_def lift_call_def watched_def split: sum.splits prod.splits)
      with e Inr ok show ?thesis by blast
    qed
  qed
qed

text \<open>
  C19. The client's file system is asked only for what the kernel wants. Whatever the user types in a session, at most
  one file is read, and only for the command that fulfils a pending read: the state the agent has just inspected
  holds a pending workspace read, the client can read, the workspace of the request is the directory the session was
  opened in, and the path read is the requested relative path under that directory, never absolute and never upwards.
\<close>

theorem files_read_on_demand:
  "case run_command (watched ac) session txt (w, []) of (_, (_, reads)) \<Rightarrow>
     (case reads of
        [] \<Rightarrow> True
      | [(s, path)] \<Rightarrow> s = session \<and>
          (\<exists>t state w2. parse_command txt = Some (Fulfill t) \<and> ac_execute ac (inspect_control t) w = (Inr state, w2) \<and> read_admitted ac session state path)
      | _ \<Rightarrow> False)"
proof -
  obtain r w1 reads where run: "run_command (watched ac) session txt (w, []) = (r, (w1, reads))" by (metis prod_cases3)
  show ?thesis
  proof (cases "\<exists>t. parse_command txt = Some (Fulfill t) \<and> is_ok (py_text (JStr txt) MAX_PACKET)")
    case True
    then obtain t where t: "parse_command txt = Some (Fulfill t)" "is_ok (py_text (JStr txt) MAX_PACKET)" by blast
    with run have "fulfill_read (watched ac) session t (w, []) = (r, (w1, reads))"
      by (auto simp: run_command_def is_ok_iff)
    from fulfill_watched [OF this] t run show ?thesis by auto
  next
    case False
    have "reads = []"
      using run False
      by (auto simp: run_command_def respond_human_def is_ok_def split: sum.splits option.splits command.splits if_splits prod.splits dest!: lift_same)
    with run show ?thesis by simp
  qed
qed

subsection \<open>Answers\<close>

text \<open>
  C20. An answer the front builds is an answer to exactly the pending question. When the question names the Task the
  user typed and the response identity is an identifier, the kernel accepts the response for that question exactly
  if the value is one of the allowed responses and the response fits its packet; nothing else about it can be wrong.
\<close>

theorem answers_match_question:
  "case prepare_answer uuid task_id value state of
     Inl _ \<Rightarrow> True
   | Inr response \<Rightarrow>
       let request = dget state ''pending_human_decision''; human = dget request ''payload'' in
       if is_ident (''response-'' @ uuid) \<and> dget human ''task_id'' = JStr task_id then
         is_ok (validate_response response request task_id)
           = (JStr value \<in> set (lget human ''allowed_responses'') \<and> length (encode response) \<le> MAX_PACKET)
       else True"
proof (cases "prepare_answer uuid task_id value state")
  case (Inr response)
  then obtain request human request_id revision digest where q: "dget state ''pending_human_decision'' = request"
    "item request ''payload'' = Inr human" "item human ''request_id'' = Inr request_id" "item human ''revision'' = Inr revision"
    "request_digest request = Inr digest"
    and resp: "response = message ''HumanDecisionResponse'' (JObj
        [(''task_id'', JStr task_id), (''request_id'', request_id), (''request_revision'', revision), (''request_digest'', JStr digest),
         (''response_id'', JStr (''response-'' @ uuid)), (''value'', JStr value)])"
    unfolding prepare_answer_def bindR_eq_Inr get_attr_eq_Inr by blast
  define body where "body = JObj
        [(''task_id'', JStr task_id), (''request_id'', request_id), (''request_revision'', revision), (''request_digest'', JStr digest),
         (''response_id'', JStr (''response-'' @ uuid)), (''value'', JStr value)]"
  from q(5) obtain req where req: "validate_request request = Inr req" and digest: "digest = sha256_hex (encode request)"
    by (auto simp: request_digest_def bindR_eq_Inr)
  from validate_request_Inr(1) [OF req] have human: "req = human" using q(2) by (auto simp: unpack_eq_Inr item_eq_Inr)
  have rev: "is_int revision" using validate_request_Inr(3) [OF req] q(4) human by (auto simp: item_eq_Inr)
  have parts: "py_fields body [''task_id'', ''request_id'', ''request_revision'', ''request_digest'', ''response_id'', ''value''] [] = Inr body"
    "dget body ''task_id'' = JStr task_id" "dget body ''request_id'' = request_id" "dget body ''request_revision'' = revision"
    "dget body ''request_digest'' = JStr digest" "dget body ''response_id'' = JStr (''response-'' @ uuid)" "dget body ''value'' = JStr value"
    by (simp_all add: body_def py_fields_def py_defs)
  have unpacked: "unpack response ''HumanDecisionResponse'' = (if length (encode response) \<le> MAX_PACKET then Inr body else unpack response ''HumanDecisionResponse'')"
    "is_ok (unpack response ''HumanDecisionResponse'') \<Longrightarrow> length (encode response) \<le> MAX_PACKET"
    unfolding resp body_def [symmetric] is_ok_iff by (auto simp: unpack_message body_def)
  have "is_ok (validate_response response request task_id)
           = (JStr value \<in> set (lget human ''allowed_responses'') \<and> length (encode response) \<le> MAX_PACKET)"
    if "is_ident (''response-'' @ uuid)" "dget human ''task_id'' = JStr task_id"
  proof (cases "length (encode response) \<le> MAX_PACKET")
    case True
    with unpacked(1) have u: "unpack response ''HumanDecisionResponse'' = Inr body" by simp
    show ?thesis
      using that True q(3,4) rev human
      by (auto simp: validate_response_def req u parts q(5) digest request_digest_def py_identifier_def item_eq_Inr py_mem_strs is_ok_def
          raise_if_def split: if_splits)
  next
    case False
    with unpacked(2) obtain e where "unpack response ''HumanDecisionResponse'' = Inl e" by (cases "unpack response ''HumanDecisionResponse''") auto
    with False req show ?thesis by (simp add: validate_response_def)
  qed
  with Inr q(1,2) show ?thesis by (auto simp: Let_def item_eq_Inr)
qed simp

end
