(* ===== verification/Host_Boundary.thy ===== *)
theory Host_Boundary
  imports Providers
begin

section \<open>The host boundary\<close>

text \<open>
  runtime/host_connection.py and runtime/direct_readiness.py: the bounded decoding of control input, the handshake
  with a workstation, and the read-only readiness report of the deployed services. The peer comes from the transport
  and the answers of the services from \<open>fetch\<close>; both are parameters, as is the encoding of a query string.
\<close>

subsection \<open>Control input\<close>

definition LIMIT :: nat where "LIMIT = 65536"

definition FEATURES :: "string list" where "FEATURES = [''handshake-v1'', ''acp-ndjson'', ''no-workspace-effects'']"

definition SERVICES :: "string list" where "SERVICES = [''runtime'', ''restate'', ''mirix'', ''generation'', ''embeddings'']"

definition decode_control :: "string \<Rightarrow> json res" where
  "decode_control data =
     (if LIMIT < length data then Inl (BoundaryError ''control input too large'')
      else case strict_json data of Inl e \<Rightarrow> Inl (BoundaryError ''malformed control JSON'') | Inr v \<Rightarrow> Inr v)"

subsection \<open>The handshake\<close>

definition label_text :: "bool \<Rightarrow> json \<Rightarrow> bool" where
  "label_text dots v \<longleftrightarrow>
     is_str v \<and> 1 \<le> length (jstr v) \<and> length (jstr v) \<le> 128 \<and> list_all (\<lambda>c. ident_char c \<or> dots \<and> c = CHR ''.'') (jstr v)"

definition HANDSHAKE_FIELDS :: "string list" where
  "HANDSHAKE_FIELDS = [''schema_version'', ''client_version'', ''protocol'', ''expected_server_id'', ''client_id'']"

definition exact_keys :: "json \<Rightarrow> string list \<Rightarrow> bool" where
  "exact_keys v ks \<longleftrightarrow> is_dict v \<and> set (jkeys v) = set ks"

definition speaks_one :: "json \<Rightarrow> bool" where
  "speaks_one request =
     (let protocol = dget request ''protocol'' in
      dget request ''schema_version'' = JInt 1 \<and> exact_keys protocol [''min'', ''max'']
      \<and> is_int (dget protocol ''min'') \<and> is_int (dget protocol ''max'')
      \<and> 1 \<le> jint (dget protocol ''min'') \<and> jint (dget protocol ''min'') \<le> 1 \<and> 1 \<le> jint (dget protocol ''max''))"

definition check_peer :: "json \<Rightarrow> json \<Rightarrow> unit res" where
  "check_peer config peer =
     (let unverified = Inl (BoundaryError ''PEER_UNVERIFIED: trusted device/principal/user required'') in
      if \<not> exact_keys peer [''device_id'', ''principal_id'', ''ssh_user'', ''source''] \<or> dget peer ''source'' \<noteq> JStr ''trusted-transport'' then unverified
      else bindR (item config ''ssh_user'') (\<lambda>user.
        if \<not> py_eq (dget peer ''ssh_user'') user \<or> \<not> label_text False (dget peer ''device_id'') \<or> \<not> label_text False (dget peer ''principal_id'')
        then unverified else Inr ()))"

definition handshake_answer :: "json \<Rightarrow> json \<Rightarrow> json \<Rightarrow> json" where
  "handshake_answer server_id peer readiness = JObj
     [(''schema_version'', JInt 1), (''server_id'', server_id), (''server_version'', JStr ''0.1.0-e0c''),
      (''protocol'', JObj [(''min'', JInt 1), (''max'', JInt 1)]), (''selected_protocol'', JInt 1), (''peer'', peer),
      (''registration_status'', JStr ''not-implemented''), (''features'', JList (map JStr FEATURES)),
      (''readiness'', JObj (map (\<lambda>name. (name, dget_or readiness name (JStr ''UNKNOWN''))) SERVICES))]"

definition check_expected :: "json \<Rightarrow> json \<Rightarrow> unit res" where
  "check_expected config expected =
     (let differs = BoundaryError ''IDENTITY_MISMATCH: expected server differs'' in
      if \<not> is_str expected then Inl differs
      else bindR (item config ''server_id'') (\<lambda>server. raise_if (jstr expected \<noteq> [] \<and> \<not> py_eq expected server) differs))"

definition handshake :: "json \<Rightarrow> json \<Rightarrow> json \<Rightarrow> json \<Rightarrow> json res" where
  "handshake request config peer readiness =
     seqR (raise_if (\<not> exact_keys request HANDSHAKE_FIELDS) (BoundaryError ''invalid handshake fields''))
     (seqR (raise_if (\<not> speaks_one request) (BoundaryError ''INCOMPATIBLE: host supports Blaine protocol 1''))
     (seqR (forR (\<lambda>key. raise_if (\<not> label_text True (dget request key)) (BoundaryError ''invalid client metadata'')) [''client_id'', ''client_version''])
     (seqR (check_expected config (dget request ''expected_server_id''))
     (seqR (check_peer config peer)
     (bindR (item config ''server_id'') (\<lambda>server. Inr (handshake_answer server peer readiness)))))))"

text \<open>The launcher refuses before it reads anything: the peer of a caller cannot be established here.\<close>

definition trusted_peer :: "json res" where
  "trusted_peer = Inl (BoundaryError ''PEER_UNVERIFIED: second-workstation trusted transport binding pending; no launch'')"

definition launch :: "string list \<Rightarrow> nat" where
  "launch argv = (if argv \<noteq> [''handshake''] \<and> argv \<noteq> [''acp''] then 64 else case trusted_peer of Inl _ \<Rightarrow> 2 | Inr _ \<Rightarrow> 2)"

subsection \<open>Readiness\<close>

text \<open>\<open>any (f (x) for x in v)\<close>, which stops at the first hit.\<close>

fun any_of :: "('a \<Rightarrow> bool res) \<Rightarrow> 'a list \<Rightarrow> bool res" where
  "any_of f [] = Inr False"
| "any_of f (x # xs) = (case f x of Inl e \<Rightarrow> Inl e | Inr b \<Rightarrow> if b then Inr True else any_of f xs)"

definition named :: "string \<Rightarrow> json \<Rightarrow> bool res" where
  "named name s = bindR (item s ''name'') (\<lambda>v. Inr (v = JStr name))"

fun first_named :: "string \<Rightarrow> json list \<Rightarrow> json res" where
  "first_named name [] = Inl (ValueError ''StopIteration'')"
| "first_named name (s # ss) = bindR (named name s) (\<lambda>b. if b then Inr s else first_named name ss)"

type_synonym fetch = "string \<Rightarrow> json res"

definition runtime_ready :: "fetch \<Rightarrow> string res" where
  "runtime_ready fetch =
     bindR (fetch ''http://127.0.0.1:49080/discover'') (\<lambda>manifest.
     bindR (item manifest ''services'') (\<lambda>services. bindR (py_iter services) (\<lambda>ss.
     bindR (first_named ''CognitiveTaskV1'' ss) (\<lambda>service.
     bindR (item service ''handlers'') (\<lambda>handlers. bindR (py_iter handlers) (\<lambda>hs.
     bindR (mapR (\<lambda>h. item h ''name'') hs) (\<lambda>names.
     seqR (py_hashable_all names)
     (Inr (if list_all (\<lambda>k. JStr k \<in> set names) [''run'', ''inspect'', ''cancel''] then ''PASS'' else ''FAIL'')))))))))"

definition deployment_ready :: "json \<Rightarrow> json \<Rightarrow> bool res" where
  "deployment_ready expected d =
     bindR (item d ''id'') (\<lambda>i. if \<not> py_eq i expected then Inr False else
     bindR (item d ''uri'') (\<lambda>uri.
     if \<not> is_str uri then Inl (AttributeError ''object has no attribute 'rstrip' '')
     else if rstrip_slash (jstr uri) \<noteq> ''http://127.0.0.1:49080'' then Inr False
     else bindR (item d ''services'') (\<lambda>services. bindR (py_iter services) (any_of (named ''CognitiveTaskV1'')))))"

definition restate_ready :: "json \<Rightarrow> fetch \<Rightarrow> string res" where
  "restate_ready config fetch =
     bindR (fetch ''http://127.0.0.1:49070/deployments'') (\<lambda>answer. bindR (item answer ''deployments'') (\<lambda>deployments.
     bindR (get_attr config ''deployment_id'') (\<lambda>expected.
     if \<not> py_true expected then Inr ''UNKNOWN''
     else bindR (py_iter deployments) (\<lambda>ds. bindR (any_of (deployment_ready expected) ds) (\<lambda>b. Inr (if b then ''PASS'' else ''UNKNOWN''))))))"

definition mirix_ready :: "fetch \<Rightarrow> string res" where
  "mirix_ready fetch =
     bindR (fetch ''http://127.0.0.1:8531/health'') (\<lambda>health. bindR (get_attr health ''status'') (\<lambda>status.
     Inr (if status = JStr ''healthy'' then ''UNKNOWN'' else ''FAIL'')))"

definition model_ready :: "json \<Rightarrow> fetch \<Rightarrow> string \<Rightarrow> string res" where
  "model_ready config fetch name =
     (let base = ''http://127.0.0.1:'' @ (if name = ''generation'' then ''8000'' else ''8001'') in
      seqR (fetch (base @ ''/health''))
      (bindR (fetch (base @ ''/v1/models'')) (\<lambda>models.
       bindR (get_attr config (name @ ''_model'')) (\<lambda>expected.
       if \<not> py_true expected then Inr ''FAIL''
       else bindR (item models ''data'') (\<lambda>data. bindR (py_iter data) (\<lambda>ms.
         bindR (any_of (\<lambda>m. bindR (get_attr m ''id'') (\<lambda>i. Inr (py_eq i expected))) ms) (\<lambda>b. Inr (if b then ''PASS'' else ''FAIL''))))))))"

fun probe_caught :: "exn \<Rightarrow> bool" where
  "probe_caught (AttributeError m) = True"
| "probe_caught e = (is_os_error e \<or> is_value_error e \<or> is_key_error e \<or> is_type_error e)"

definition or_fail :: "string res \<Rightarrow> string res" where
  "or_fail r = (case r of Inl e \<Rightarrow> if probe_caught e then Inr ''FAIL'' else Inl e | Inr s \<Rightarrow> Inr s)"

definition probe_service :: "json \<Rightarrow> fetch \<Rightarrow> string \<Rightarrow> string res" where
  "probe_service config fetch name =
     or_fail (if name = ''runtime'' then runtime_ready fetch
       else if name = ''restate'' then restate_ready config fetch
       else if name = ''mirix'' then mirix_ready fetch
       else model_ready config fetch name)"

definition host_readiness :: "json \<Rightarrow> fetch \<Rightarrow> (string \<times> string) list res" where
  "host_readiness config fetch = mapR (\<lambda>name. bindR (probe_service config fetch name) (\<lambda>s. Inr (name, s))) SERVICES"

subsection \<open>Deployed readiness\<close>

definition READINESS_QUERY :: "(string \<times> json) list" where
  "READINESS_QUERY =
     [(''query'', JStr ''Blaine host connection readiness''), (''memory_type'', JStr ''semantic''), (''search_field'', JStr ''details''),
      (''search_method'', JStr ''embedding''), (''limit'', JInt 1), (''similarity_threshold'', JFloat 99 2), (''include_core_memory'', JStr ''false'')]"

definition memory_ready :: "(json \<Rightarrow> string res) \<Rightarrow> json \<Rightarrow> (string \<Rightarrow> (string \<times> json) list \<Rightarrow> json res) \<Rightarrow> string res" where
  "memory_ready urlencode deployment fetch =
     or_fail
       (bindR (item deployment ''memory'') (\<lambda>m. bindR (item m ''endpoint'') (\<lambda>endpoint.
        if \<not> is_str endpoint then Inl (AttributeError ''object has no attribute 'rstrip' '')
        else if rstrip_slash (jstr endpoint) \<noteq> ''http://127.0.0.1:8531'' then Inr ''FAIL''
        else bindR (item m ''user_id'') (\<lambda>user_id.
        bindR (urlencode (JObj (READINESS_QUERY @ [(''user_id'', user_id)]))) (\<lambda>query.
        bindR (item m ''client_id'') (\<lambda>client_id.
        bindR (fetch (rstrip_slash (jstr endpoint) @ ''/memory/search?'' @ query) [(''x-client-id'', client_id)]) (\<lambda>data.
        bindR (get_attr data ''success'') (\<lambda>success.
        Inr (if success = JBool True \<and> dget data ''search_method'' = JStr ''embedding'' \<and> is_list (dget data ''results'') \<and> length (lget data ''results'') \<le> 1
             then ''PASS'' else ''FAIL'')))))))))"

definition ends_with :: "string \<Rightarrow> string \<Rightarrow> bool" where
  "ends_with suf s = prefix (rev suf) (rev s)"

definition accept_header :: "string \<Rightarrow> (string \<times> json) list" where
  "accept_header url =
     (if ends_with ''/discover'' url then [(''Accept'', JStr ''application/vnd.restate.endpointmanifest.v3+json'')] else [])"

definition inspect_deployment :: "(json \<Rightarrow> string res) \<Rightarrow> json \<Rightarrow> json \<Rightarrow> (string \<Rightarrow> (string \<times> json) list \<Rightarrow> json res) \<Rightarrow> (string \<times> string) list res" where
  "inspect_deployment urlencode config deployment fetch =
     bindR (host_readiness config (\<lambda>url. fetch url (accept_header url))) (\<lambda>report.
     bindR (memory_ready urlencode deployment fetch) (\<lambda>m. Inr (AList.update ''mirix'' m report)))"

text \<open>The command: the configuration and deployment documents as read, the printed report and the exit code.\<close>

definition direct_report :: "(json \<Rightarrow> string res) \<Rightarrow> json res \<Rightarrow> json res \<Rightarrow> (string \<Rightarrow> (string \<times> json) list \<Rightarrow> json res) \<Rightarrow> (string \<times> string) list res" where
  "direct_report urlencode config deployment fetch =
     (case bindR config (\<lambda>c. bindR deployment (\<lambda>d.
         bindR (item c ''generation_model'') (\<lambda>configured. bindR (item d ''cognition'') (\<lambda>cognition. bindR (item cognition ''model'') (\<lambda>deployed.
         seqR (raise_if (\<not> py_eq configured deployed) (ValueError ''configured runtime model mismatch''))
         (inspect_deployment urlencode c d fetch)))))) of
        Inl e \<Rightarrow>
          if is_os_error e \<or> is_value_error e \<or> is_key_error e \<or> is_type_error e then Inr (map (\<lambda>name. (name, ''FAIL'')) SERVICES) else Inl e
      | Inr report \<Rightarrow> Inr report)"

definition exit_code :: "(string \<times> string) list \<Rightarrow> nat" where
  "exit_code report = (if set (map snd report) = {''PASS''} then 0 else 2)"

subsection \<open>What an accepted handshake means\<close>

definition trusted :: "json \<Rightarrow> json \<Rightarrow> bool" where
  "trusted config peer \<longleftrightarrow>
     dget peer ''source'' = JStr ''trusted-transport'' \<and> py_eq (dget peer ''ssh_user'') (dget config ''ssh_user'')
     \<and> label_text False (dget peer ''device_id'') \<and> label_text False (dget peer ''principal_id'')
     \<and> set (jkeys peer) = {''device_id'', ''principal_id'', ''ssh_user'', ''source''}"

lemma handshake_Inr:
  assumes "handshake request config peer readiness = Inr v"
  shows "v = handshake_answer (dget config ''server_id'') peer readiness" "trusted config peer" "speaks_one request"
    "dget request ''expected_server_id'' = JStr [] \<or> py_eq (dget request ''expected_server_id'') (dget config ''server_id'')"
  using assms unfolding handshake_def bindR_eq_Inr raise_if_eq_Inr item_eq_Inr
  by (auto simp: check_peer_def check_expected_def trusted_def exact_keys_def Let_def bindR_eq_Inr item_eq_Inr is_str_iff split: if_splits)

text \<open>
  A handshake admits only a peer the transport has authenticated, and tells every caller the same. An answer is
  given only when the peer observation comes from the trusted transport for the configured user with well-formed
  identities, the caller speaks protocol 1 and expects no other server; the answer names that peer, and nothing in it
  depends on the request: two admitted requests on one connection get the same document. The launcher never succeeds.
\<close>

lemma handshake_trusted:
  "(case handshake request config peer readiness of
      Inl _ \<Rightarrow> True
    | Inr v \<Rightarrow> trusted config peer \<and> speaks_one request \<and> dget v ''peer'' = peer \<and> dget v ''server_id'' = dget config ''server_id''
        \<and> (dget request ''expected_server_id'' = JStr [] \<or> py_eq (dget request ''expected_server_id'') (dget config ''server_id''))
        \<and> jkeys (dget v ''readiness'') = SERVICES
        \<and> (case handshake other config peer readiness of Inl _ \<Rightarrow> True | Inr u \<Rightarrow> u = v))
   \<and> launch argv \<noteq> 0"
proof -
  have "jkeys (dget (handshake_answer server peer readiness) ''readiness'') = SERVICES" for server
    by (simp add: handshake_answer_def SERVICES_def py_defs)
  then show ?thesis
    using handshake_Inr [of request config peer readiness] handshake_Inr(1) [of other config peer readiness]
    by (auto simp: launch_def trusted_peer_def split: sum.splits) (simp_all add: handshake_answer_def py_defs)
qed

subsection \<open>What a ready host has shown\<close>

lemma or_fail_PASS: "or_fail r = Inr ''PASS'' \<longleftrightarrow> r = Inr ''PASS''"
  by (auto simp: or_fail_def split: sum.splits if_splits)

lemma any_of_True: "any_of f xs = Inr True \<Longrightarrow> \<exists>x\<in>set xs. f x = Inr True"
  by (induction xs) (auto split: sum.splits if_splits)

lemma first_named_Inr: "first_named name ss = Inr s \<Longrightarrow> s \<in> set ss \<and> dget s ''name'' = JStr name"
  by (induction ss) (auto simp: named_def bindR_eq_Inr item_eq_Inr split: if_splits)

text \<open>The manifest offers the Task service with the handlers the controls need.\<close>

definition serves_tasks :: "json \<Rightarrow> bool" where
  "serves_tasks manifest \<longleftrightarrow>
     (\<exists>ss s hs. py_iter (dget manifest ''services'') = Inr ss \<and> s \<in> set ss \<and> dget s ''name'' = JStr ''CognitiveTaskV1''
        \<and> py_iter (dget s ''handlers'') = Inr hs \<and> {JStr ''run'', JStr ''inspect'', JStr ''cancel''} \<subseteq> set (map (\<lambda>h. dget h ''name'') hs))"

definition serves_model :: "json \<Rightarrow> json \<Rightarrow> bool" where
  "serves_model models expected \<longleftrightarrow>
     py_true expected \<and> (\<exists>ms m. py_iter (dget models ''data'') = Inr ms \<and> m \<in> set ms \<and> py_eq (dget m ''id'') expected)"

lemma mapR_item_names: "mapR (\<lambda>h. item h k) hs = Inr names \<Longrightarrow> names = map (\<lambda>h. dget h k) hs"
  by (induction hs arbitrary: names) (auto simp: item_eq_Inr split: sum.splits)

lemma runtime_ready_PASS:
  assumes "runtime_ready fetch = Inr ''PASS''"
  shows "\<exists>manifest. fetch ''http://127.0.0.1:49080/discover'' = Inr manifest \<and> serves_tasks manifest"
proof -
  from assms obtain manifest ss s hs names where
    m: "fetch ''http://127.0.0.1:49080/discover'' = Inr manifest" "py_iter (dget manifest ''services'') = Inr ss"
      "first_named ''CognitiveTaskV1'' ss = Inr s" "py_iter (dget s ''handlers'') = Inr hs" "mapR (\<lambda>h. item h ''name'') hs = Inr names"
    and p: "(if list_all (\<lambda>k. JStr k \<in> set names) [''run'', ''inspect'', ''cancel''] then ''PASS'' else ''FAIL'') = ''PASS''"
    unfolding runtime_ready_def bindR_eq_Inr item_eq_Inr by blast
  from p have "list_all (\<lambda>k. JStr k \<in> set names) [''run'', ''inspect'', ''cancel'']" by (simp split: if_splits)
  with mapR_item_names [OF m(5)] m first_named_Inr [OF m(3)] show ?thesis
    by (intro exI [of _ manifest]) (auto simp: serves_tasks_def)
qed

lemma model_ready_PASS:
  assumes "model_ready config fetch name = Inr ''PASS''"
  shows "\<exists>url models. fetch url = Inr models \<and> serves_model models (dget config (name @ ''_model''))"
proof -
  from assms obtain url models data ms b where
    m: "fetch url = Inr models" "py_true (dget config (name @ ''_model''))" "item models ''data'' = Inr data" "py_iter data = Inr ms"
      "any_of (\<lambda>m. bindR (get_attr m ''id'') (\<lambda>i. Inr (py_eq i (dget config (name @ ''_model''))))) ms = Inr b" "b"
    unfolding model_ready_def bindR_eq_Inr get_attr_eq_Inr Let_def by (auto simp: bindR_eq_Inr split: if_splits)
  have "\<exists>m\<in>set ms. bindR (get_attr m ''id'') (\<lambda>i. Inr (py_eq i (dget config (name @ ''_model'')))) = Inr True"
    using m(5,6) by (intro any_of_True) simp
  then obtain m where "m \<in> set ms" "py_eq (dget m ''id'') (dget config (name @ ''_model''))"
    by (auto simp: bindR_eq_Inr get_attr_eq_Inr)
  with m(1-4) show ?thesis by (auto simp: serves_model_def item_eq_Inr)
qed

lemma ready_states:
  assumes "host_readiness config fetch = Inr report"
  shows "map fst report = SERVICES" "(name, state) \<in> set report \<Longrightarrow> probe_service config fetch name = Inr state"
proof -
  from assms have l: "list_all2 (\<lambda>name x. bindR (probe_service config fetch name) (\<lambda>s. Inr (name, s)) = Inr x) SERVICES report"
    by (simp add: host_readiness_def mapR_eq_Inr)
  then have a: "list_all2 (\<lambda>name x. fst x = name \<and> probe_service config fetch name = Inr (snd x)) SERVICES report"
    by (rule list_all2_mono) (auto simp: bindR_eq_Inr)
  then have "list_all2 (\<lambda>name x. fst x = name) SERVICES report" by (rule list_all2_mono) simp
  then show "map fst report = SERVICES" by (simp add: list_all2_conv_all_nth list_eq_iff_nth_eq)
  show "(name, state) \<in> set report \<Longrightarrow> probe_service config fetch name = Inr state"
    using a by (auto simp: list_all2_conv_all_nth in_set_conv_nth)
qed

lemma probe_states: "probe_service config fetch name = Inr s \<Longrightarrow> s \<in> {''PASS'', ''FAIL'', ''UNKNOWN''}"
  unfolding probe_service_def or_fail_def runtime_ready_def restate_ready_def mirix_ready_def model_ready_def Let_def
  by (auto simp: bindR_eq_Inr split: sum.splits if_splits)

text \<open>Nothing but a real retrieval makes the memory of a deployment ready.\<close>

lemma memory_ready_PASS:
  assumes "memory_ready urlencode deployment fetch = Inr ''PASS''"
  shows "\<exists>url headers data. fetch url headers = Inr data \<and> dget data ''success'' = JBool True \<and> is_list (dget data ''results'')"
  using assms unfolding memory_ready_def or_fail_PASS
  by (auto simp: bindR_eq_Inr get_attr_eq_Inr split: if_splits)

lemma memory_states: "memory_ready urlencode deployment fetch = Inr s \<Longrightarrow> s \<in> {''PASS'', ''FAIL'', ''UNKNOWN''}"
  unfolding memory_ready_def or_fail_def by (auto simp: bindR_eq_Inr split: sum.splits if_splits)

text \<open>
  The deployed readiness report says what was observed. It always lists the five services, each PASS, FAIL or
  UNKNOWN; and the command succeeds only if the configured model is the deployed one, the runtime's manifest offered
  the Task service with its run, inspect and cancel handlers, both model servers listed the configured models, and a
  semantic retrieval from the memory service was answered. Whatever a service answers, the report is not aborted.
\<close>

lemma ready_means_observed:
  "case direct_report urlencode config deployment fetch of
     Inl _ \<Rightarrow> True
   | Inr report \<Rightarrow>
       map fst report = SERVICES \<and> list_all (\<lambda>(_, s). s \<in> {''PASS'', ''FAIL'', ''UNKNOWN''}) report
       \<and> (if exit_code report = 0 then
            (\<exists>c d. config = Inr c \<and> deployment = Inr d \<and> py_eq (dget c ''generation_model'') (dget (dget d ''cognition'') ''model'')
               \<and> (\<exists>url headers manifest. fetch url headers = Inr manifest \<and> serves_tasks manifest)
               \<and> (\<exists>url headers models. fetch url headers = Inr models \<and> serves_model models (dget c ''generation_model''))
               \<and> (\<exists>url headers models. fetch url headers = Inr models \<and> serves_model models (dget c ''embeddings_model''))
               \<and> (\<exists>url headers data. fetch url headers = Inr data \<and> dget data ''success'' = JBool True \<and> is_list (dget data ''results'')))
          else True)"
proof (cases "direct_report urlencode config deployment fetch")
  case (Inr report)
  have failed: "map fst (map (\<lambda>name. (name, ''FAIL'')) SERVICES) = SERVICES" "exit_code (map (\<lambda>name. (name, ''FAIL'')) SERVICES) = 2"
    "list_all (\<lambda>(_, s). s \<in> {''PASS'', ''FAIL'', ''UNKNOWN''}) (map (\<lambda>name. (name, ''FAIL'')) SERVICES)"
    by (simp_all add: SERVICES_def exit_code_def)
  show ?thesis
  proof (cases "report = map (\<lambda>name. (name, ''FAIL'')) SERVICES")
    case True
    with Inr failed show ?thesis by simp
  next
    case False
    with Inr obtain c d where cd: "config = Inr c" "deployment = Inr d" "py_eq (dget c ''generation_model'') (dget (dget d ''cognition'') ''model'')"
      and i: "inspect_deployment urlencode c d fetch = Inr report"
      by (auto simp: direct_report_def bindR_eq_Inr item_eq_Inr split: sum.splits if_splits)
    let ?get = "\<lambda>url. fetch url (accept_header url)"
    from i obtain base m where b: "host_readiness c ?get = Inr base" and m: "memory_ready urlencode d fetch = Inr m"
      and r: "report = AList.update ''mirix'' m base"
      by (auto simp: inspect_deployment_def bindR_eq_Inr)
    note base = ready_states [OF b]
    have keys: "map fst report = SERVICES" unfolding r using base(1) by (simp add: update_keys SERVICES_def)
    have dist: "distinct (map fst base)" unfolding base(1) by (simp add: SERVICES_def)
    have look: "map_of report k = (if k = ''mirix'' then Some m else map_of base k)" for k unfolding r by (simp add: update_conv')
    have state: "if k = ''mirix'' then s = m else probe_service c ?get k = Inr s" if "(k, s) \<in> set report" for k s
    proof -
      have "map_of report k = Some s" using that keys by (simp add: SERVICES_def map_of_eq_Some_iff)
      with look [of k] have "if k = ''mirix'' then s = m else map_of base k = Some s" by (simp split: if_splits)
      then show ?thesis using base(2) [of k s] map_of_SomeD [of base k s] by (auto split: if_splits)
    qed
    have states: "list_all (\<lambda>(_, s). s \<in> {''PASS'', ''FAIL'', ''UNKNOWN''}) report"
      using state probe_states memory_states [OF m] by (fastforce simp: list_all_iff split: if_splits)
    have observed: "(\<exists>url headers manifest. fetch url headers = Inr manifest \<and> serves_tasks manifest)
               \<and> (\<exists>url headers models. fetch url headers = Inr models \<and> serves_model models (dget c ''generation_model''))
               \<and> (\<exists>url headers models. fetch url headers = Inr models \<and> serves_model models (dget c ''embeddings_model''))
               \<and> (\<exists>url headers data. fetch url headers = Inr data \<and> dget data ''success'' = JBool True \<and> is_list (dget data ''results''))"
      if "exit_code report = 0"
    proof -
      have all: "\<forall>k\<in>set SERVICES. (k, ''PASS'') \<in> set report"
      proof
        fix k assume "k \<in> set SERVICES"
        then obtain s where s: "(k, s) \<in> set report" unfolding keys [symmetric] by auto
        from that have "set (map snd report) = {''PASS''}" by (simp add: exit_code_def split: if_splits)
        with s have "s = ''PASS''" by (metis image_eqI list.set_map singletonD snd_conv)
        with s show "(k, ''PASS'') \<in> set report" by simp
      qed
      then have pass: "probe_service c ?get k = Inr ''PASS''" if "k \<in> set SERVICES" "k \<noteq> ''mirix''" for k
        using state [of k "''PASS''"] that by auto
      have "m = ''PASS''" using all state [of "''mirix''" "''PASS''"] by (auto simp: SERVICES_def)
      then have "memory_ready urlencode d fetch = Inr ''PASS''" using m by simp
      moreover have "runtime_ready ?get = Inr ''PASS''" "model_ready c ?get ''generation'' = Inr ''PASS''" "model_ready c ?get ''embeddings'' = Inr ''PASS''"
        using pass [of "''runtime''"] pass [of "''generation''"] pass [of "''embeddings''"]
        by (simp_all add: SERVICES_def probe_service_def or_fail_PASS)
      ultimately show ?thesis
        using memory_ready_PASS runtime_ready_PASS model_ready_PASS [of c ?get "''generation''"] model_ready_PASS [of c ?get "''embeddings''"]
        by (simp, blast)
    qed
    show ?thesis using Inr cd keys states observed by auto
  qed
qed simp

end
