(* ===== verification/Interactive.thy ===== *)
theory Interactive
  imports Execution
begin

section \<open>The small Task workflows\<close>

text \<open>
  runtime/task.py, app.py and interactive.py: the deterministic operation behind a durable timer, and the Task that waits
  for one message of the user. The run handler alone writes the Task document; a message is checked against that
  document and then resolves a promise that can be resolved once, and other handlers may run between the two.
\<close>

definition validate_task_request :: "json \<Rightarrow> (string \<times> int) res" where
  "validate_task_request request =
     (if \<not> is_dict request then Inl (ValueError ''request must be a JSON object'')
      else
        let objective = dget request ''objective''; delay = dget_or request ''delay_seconds'' (JInt 30) in
        seqR (raise_if (\<not> is_str objective \<or> py_blank (jstr objective)) (ValueError ''objective must be a non-empty string''))
        (seqR (raise_if (\<not> is_int delay \<or> \<not> (0 \<le> jint delay \<and> jint delay \<le> 300))
           (ValueError ''delay_seconds must be an integer between 0 and 300''))
        (Inr (jstr objective, jint delay))))"

definition terminal_400 :: "exn \<Rightarrow> exn" where
  "terminal_400 e = (if is_value_error e then TerminalError (exn_str e) 400 else e)"

definition running_doc :: "string \<Rightarrow> string \<Rightarrow> json" where
  "running_doc key objective = JObj [(''task_id'', JStr key), (''objective'', JStr objective), (''status'', JStr ''RUNNING'')]"

definition status_doc :: "string \<Rightarrow> json \<Rightarrow> json" where
  "status_doc key doc = (if py_true doc then doc else JObj [(''task_id'', JStr key), (''status'', JStr ''NOT_FOUND'')])"

subsection \<open>The timer workflow\<close>

text \<open>The documents it sets, the seconds it sleeps before the last one, and its result.\<close>

definition timer_run :: "string \<Rightarrow> json \<Rightarrow> (json list \<times> int \<times> json) res" where
  "timer_run key request =
     (case validate_task_request request of
        Inl e \<Rightarrow> Inl (terminal_400 e)
      | Inr (objective, delay) \<Rightarrow>
          let result = summarize_objective objective;
              finished = JObj [(''task_id'', JStr key), (''status'', JStr ''COMPLETED''), (''result'', result)] in
          Inr ([running_doc key objective,
                JObj (jitems (running_doc key objective) @ [(''phase'', JStr ''durable-timer''), (''operation_result'', result)]),
                finished], delay, finished))"

subsection \<open>The interactive workflow\<close>

record talk =
  tk_key :: string
  tk_task :: json
  tk_promise :: "string option"
  tk_checked :: "string list"
  tk_accepted :: "string list"

definition new_talk :: "string \<Rightarrow> talk" where
  "new_talk key = \<lparr>tk_key = key, tk_task = JNull, tk_promise = None, tk_checked = [], tk_accepted = []\<rparr>"

definition waiting_doc :: "json \<Rightarrow> json" where
  "waiting_doc task =
     dset (dset (dset task ''status'' (JStr ''WAITING_FOR_USER'')) ''operation_result'' (summarize_objective (sget task ''objective'')))
       ''question'' (JStr ''Continue with a message to approve completion.'')"

definition completed_doc :: "json \<Rightarrow> string \<Rightarrow> json" where
  "completed_doc task m =
     dset (dset task ''status'' (JStr ''COMPLETED'')) ''result'' (dset (dget task ''operation_result'') ''user_input'' (JStr m))"

definition has_status :: "talk \<Rightarrow> string \<Rightarrow> bool" where
  "has_status s status \<longleftrightarrow> dget (tk_task s) ''status'' = JStr status"

text \<open>The first half of \<open>proceed\<close>: the completed Task, or the message it will resolve the promise with.\<close>

definition proceed_check :: "talk \<Rightarrow> json \<Rightarrow> (json + string) res" where
  "proceed_check s request =
     bindR (get_attr request ''message'') (\<lambda>m.
     seqR (raise_if (\<not> is_str m \<or> py_blank (jstr m)) (TerminalError ''message must be nonblank'' 400))
     (seqR (raise_if (\<not> py_true (tk_task s)) (TerminalError ''Task not found (or not yet initialized)'' 404))
     (if has_status s ''COMPLETED'' then Inr (Inl (tk_task s))
      else seqR (raise_if (\<not> has_status s ''WAITING_FOR_USER'') (TerminalError ''Task is not waiting for input'' 409))
        (Inr (Inr (jstr m))))))"

definition proceed_receipt :: "talk \<Rightarrow> json" where
  "proceed_receipt s = JObj [(''task_id'', JStr (tk_key s)), (''status'', JStr ''SIGNAL_ACCEPTED'')]"

text \<open>The second half: the runtime resolves the promise once, and refuses a second value.\<close>

definition proceed_resolve :: "exn \<Rightarrow> string \<Rightarrow> talk \<Rightarrow> json res \<times> talk" where
  "proceed_resolve already m s =
     (let s1 = s\<lparr>tk_checked := remove1 m (tk_checked s)\<rparr> in
      if tk_promise s = None then (Inr (proceed_receipt s), s1\<lparr>tk_promise := Some m, tk_accepted := tk_accepted s @ [m]\<rparr>)
      else (Inl already, s1))"

datatype talk_event = Begin json | Ask_user | Check json | Resolve string | Finish

text \<open>What may happen next; an event that is not enabled changes nothing.\<close>

fun talk_happen :: "exn \<Rightarrow> talk_event \<Rightarrow> talk \<Rightarrow> talk" where
  "talk_happen already (Begin request) s =
     (if tk_task s \<noteq> JNull then s
      else case validate_task_request request of Inl _ \<Rightarrow> s | Inr (objective, _) \<Rightarrow> s\<lparr>tk_task := running_doc (tk_key s) objective\<rparr>)"
| "talk_happen already Ask_user s = (if has_status s ''RUNNING'' then s\<lparr>tk_task := waiting_doc (tk_task s)\<rparr> else s)"
| "talk_happen already (Check request) s =
     (case proceed_check s request of Inr (Inr m) \<Rightarrow> s\<lparr>tk_checked := m # tk_checked s\<rparr> | _ \<Rightarrow> s)"
| "talk_happen already (Resolve m) s = (if m \<in> set (tk_checked s) then snd (proceed_resolve already m s) else s)"
| "talk_happen already Finish s =
     (case tk_promise s of
        None \<Rightarrow> s
      | Some m \<Rightarrow> if has_status s ''WAITING_FOR_USER'' then s\<lparr>tk_task := completed_doc (tk_task s) m\<rparr> else s)"

subsection \<open>One message decides\<close>

definition talk_ok :: "talk \<Rightarrow> bool" where
  "talk_ok s \<longleftrightarrow>
     tk_accepted s = (case tk_promise s of None \<Rightarrow> [] | Some m \<Rightarrow> [m])
     \<and> (tk_checked s = [] \<and> tk_promise s = None \<or> has_status s ''WAITING_FOR_USER'' \<or> has_status s ''COMPLETED'')
     \<and> (if tk_task s = JNull then True else has_status s ''RUNNING'' \<or> has_status s ''WAITING_FOR_USER'' \<or> has_status s ''COMPLETED'')
     \<and> (if has_status s ''WAITING_FOR_USER'' \<or> has_status s ''COMPLETED''
        then dget (tk_task s) ''operation_result'' = summarize_objective (sget (tk_task s) ''objective'') else True)
     \<and> (if has_status s ''COMPLETED''
        then \<exists>m. tk_promise s = Some m \<and> dget (tk_task s) ''result'' = dset (summarize_objective (sget (tk_task s) ''objective'')) ''user_input'' (JStr m)
        else True)"

lemma new_talk_ok: "talk_ok (new_talk key)"
  by (simp add: talk_ok_def new_talk_def has_status_def dget_def)

lemma running_doc_facts [simp]:
  "dget (running_doc k objective) ''status'' = JStr ''RUNNING''" "running_doc k objective \<noteq> JNull"
  by (simp_all add: running_doc_def dget_def)

lemma waiting_doc_facts [simp]:
  "dget (waiting_doc t) ''status'' = JStr ''WAITING_FOR_USER''"
  "dget (waiting_doc t) ''operation_result'' = summarize_objective (sget t ''objective'')"
  "dget (waiting_doc t) ''objective'' = dget t ''objective''"
  "waiting_doc t \<noteq> JNull"
  by (simp_all add: waiting_doc_def) (simp add: dset_def)

lemma completed_doc_facts [simp]:
  "dget (completed_doc t m) ''status'' = JStr ''COMPLETED''"
  "dget (completed_doc t m) ''operation_result'' = dget t ''operation_result''"
  "dget (completed_doc t m) ''objective'' = dget t ''objective''"
  "dget (completed_doc t m) ''result'' = dset (dget t ''operation_result'') ''user_input'' (JStr m)"
  "completed_doc t m \<noteq> JNull"
  by (simp_all add: completed_doc_def) (simp add: dset_def)

lemma dget_JNull: "dget JNull k = JNull"
  by (simp add: dget_def)

lemma has_status_other:
  "has_status s ''RUNNING'' \<Longrightarrow> \<not> has_status s ''WAITING_FOR_USER'' \<and> \<not> has_status s ''COMPLETED''"
  "has_status s ''WAITING_FOR_USER'' \<Longrightarrow> \<not> has_status s ''RUNNING'' \<and> \<not> has_status s ''COMPLETED''"
  "tk_task s = JNull \<Longrightarrow> \<not> has_status s x"
  by (simp_all add: has_status_def) (simp add: dget_def)

lemma talk_begin_ok: "talk_ok s \<Longrightarrow> talk_ok (talk_happen already (Begin request) s)"
  by (auto simp: talk_ok_def has_status_def dget_JNull split: option.splits sum.splits)

lemma talk_ask_ok:
  assumes "talk_ok s"
  shows "talk_ok (talk_happen already Ask_user s)"
proof (cases "has_status s ''RUNNING''")
  case True
  then show ?thesis
    using assms by (cases "tk_promise s") (simp_all add: talk_ok_def has_status_def dget_JNull)
qed (simp add: assms)

lemma proceed_check_waits: "proceed_check s request = Inr (Inr m) \<Longrightarrow> has_status s ''WAITING_FOR_USER''"
  by (auto simp: proceed_check_def bindR_eq_Inr split: if_splits)

lemma talk_check_ok: "talk_ok s \<Longrightarrow> talk_ok (talk_happen already (Check request) s)"
  using proceed_check_waits [of s request] by (auto simp: talk_ok_def has_status_def split: sum.splits)

lemma talk_resolve_ok: "talk_ok s \<Longrightarrow> talk_ok (talk_happen already (Resolve m) s)"
  by (cases "has_status s ''WAITING_FOR_USER''"; cases "has_status s ''COMPLETED''"; cases "tk_promise s")
    (simp_all add: talk_ok_def proceed_resolve_def has_status_def Let_def split: if_splits)

lemma talk_finish_ok: "talk_ok s \<Longrightarrow> talk_ok (talk_happen already Finish s)"
  using has_status_other(2) [of s] by (auto simp: talk_ok_def has_status_def split: option.splits)

lemma talk_happen_ok: "talk_ok s \<Longrightarrow> talk_ok (talk_happen already e s)"
  by (cases e) (simp_all only: talk_begin_ok talk_ask_ok talk_check_ok talk_resolve_ok talk_finish_ok)

lemma talk_completed: "talk_ok s \<Longrightarrow> has_status s ''COMPLETED'' \<Longrightarrow>
    tk_task (talk_happen already e s) = tk_task s \<and> tk_promise (talk_happen already e s) = tk_promise s"
  by (cases e) (auto simp: talk_ok_def has_status_def proceed_resolve_def py_defs Let_def dget_def split: option.splits sum.splits)

lemma talk_run_ok: "talk_ok s \<Longrightarrow> talk_ok (fold (talk_happen already) es s)"
  by (induction es arbitrary: s) (simp_all add: talk_happen_ok)

lemma talk_run_completed: "talk_ok s \<Longrightarrow> has_status s ''COMPLETED'' \<Longrightarrow> tk_task (fold (talk_happen already) es s) = tk_task s"
  by (induction es arbitrary: s) (simp_all add: talk_happen_ok talk_completed has_status_def)

text \<open>
  C23. One message decides an interactive Task. Under any interleaving of the run handler with any number of
  concurrent submissions, each of which may be overtaken between its check and its signal: at most one message is
  acknowledged, none before the Task asked; a completed Task carries exactly that message with the summary of its
  own objective; and a completed Task never changes again.
\<close>

theorem one_message_decides:
  "let s = fold (talk_happen already) es (new_talk key) in
     length (tk_accepted s) \<le> 1
     \<and> (if tk_accepted s = [] then True else has_status s ''WAITING_FOR_USER'' \<or> has_status s ''COMPLETED'')
     \<and> (if has_status s ''COMPLETED'' then
          (\<exists>m. tk_accepted s = [m] \<and> dget (tk_task s) ''result'' = dset (summarize_objective (sget (tk_task s) ''objective'')) ''user_input'' (JStr m))
          \<and> tk_task (fold (talk_happen already) later s) = tk_task s
        else True)"
proof -
  define s where "s = fold (talk_happen already) es (new_talk key)"
  have ok: "talk_ok s" unfolding s_def by (rule talk_run_ok) (rule new_talk_ok)
  show ?thesis
    unfolding Let_def s_def [symmetric]
    using ok talk_run_completed [OF ok, of already later] by (auto simp: talk_ok_def split: option.splits if_splits)
qed

end
