(* ===== verification/Backup.thy ===== *)
theory Backup
  imports Personal_Acp Providers
begin

section \<open>Backup of the artifact store\<close>

text \<open>
  infra/backup/backup.py and restore-generation.py: the capacity check, the snapshot of databases and kernel
  artifacts into a fresh directory that is published by one rename, its verification, pruning, and the restore of a
  snapshot into a disposable cluster. A directory holds its entries in the order of \<open>os.walk\<close>; what lies below a
  directory that cannot be listed is there but is silently skipped by the walk, as in the code. External commands and the clock are parameters.
  File contents do not change while they are read, and calls of the operating system other than opening an existing
  name for creation do not fail.
\<close>

subsection \<open>Directories and commands\<close>

datatype kind = Regular string | Folder | Unlistable | Link | Special

record entry =
  en_path :: "string list"
  en_device :: nat
  en_kind :: kind

record tree =
  tr_device :: nat
  tr_entries :: "entry list"

datatype place = Directory tree | Not_directory

type_synonym directory = "(string \<times> place) list"

type_synonym contents = "(string list \<times> string) list"

definition COVERAGE :: string where "COVERAGE = ''postgresql-and-kernel-artifacts-only''"

text \<open>\<open>\d{8}T\d{6}Z-[0-9a-f]{12}\<close>, with ASCII digits.\<close>

definition is_generation :: "string \<Rightarrow> bool" where
  "is_generation s \<longleftrightarrow>
     length s = 29 \<and> list_all is_digit (take 8 s) \<and> s ! 8 = CHR ''T'' \<and> list_all is_digit (take 6 (drop 9 s))
     \<and> s ! 15 = CHR ''Z'' \<and> s ! 16 = CHR ''-'' \<and> list_all hex_char (drop 17 s)"

fun collect_files :: "nat \<Rightarrow> entry list \<Rightarrow> contents res" where
  "collect_files device [] = Inr []"
| "collect_files device (e # es) =
     (if en_device e \<noteq> device then Inl (Refused ''snapshot tree contains a link, mount or special file'')
      else case en_kind e of
        Regular content \<Rightarrow> bindR (collect_files device es) (\<lambda>fs. Inr ((en_path e, content) # fs))
      | Folder \<Rightarrow> collect_files device es
      | Unlistable \<Rightarrow> collect_files device es
      | _ \<Rightarrow> Inl (Refused ''snapshot tree contains a link, mount or special file''))"

text \<open>What \<open>os.walk\<close> shows of a tree: \<open>onerror\<close> is not given, so a directory that cannot be listed has no contents.\<close>

definition walked :: "tree \<Rightarrow> tree" where
  "walked t = t\<lparr>tr_entries := filter (\<lambda>e. list_all (\<lambda>d. en_kind d \<noteq> Unlistable \<or> \<not> strict_prefix (en_path d) (en_path e)) (tr_entries t)) (tr_entries t)\<rparr>"

definition safe_files :: "tree \<Rightarrow> contents res" where
  "safe_files t = collect_files (tr_device t) (tr_entries (walked t))"

definition check_exit :: "string \<Rightarrow> int \<Rightarrow> unit res" where
  "check_exit program code =
     raise_if (code \<noteq> 0)
       (Refused ((case rev (path_parts program) of [] \<Rightarrow> [] | name # _ \<Rightarrow> name)
          @ '' failed (exit '' @ show_int code @ ''); inspect access and server logs locally''))"

text \<open>The exit code and the output of a command; the arguments may be values of the configuration.\<close>

type_synonym spawn = "string list \<Rightarrow> (int \<times> string) res"

definition start_command :: "spawn \<Rightarrow> json list \<Rightarrow> (int \<times> string) res" where
  "start_command spawn command =
     (if list_all is_str command then spawn (map jstr command) else Inl (TypeError ''expected str, bytes or os.PathLike object''))"

definition run_command_out :: "spawn \<Rightarrow> json list \<Rightarrow> string res" where
  "run_command_out spawn command =
     bindR (start_command spawn command) (\<lambda>(code, out). seqR (check_exit (jstr (hd command)) code) (Inr out))"

definition pg_command :: "(json \<Rightarrow> string) \<Rightarrow> json \<Rightarrow> string \<Rightarrow> string \<Rightarrow> json list res" where
  "pg_command show_other config program database =
     bindR (item config ''postgres'') (\<lambda>p. bindR (item p ''host'') (\<lambda>host.
     seqR (raise_if (\<not> prefix ''/'' (text_of show_other host)) (Refused ''D1 PostgreSQL backup requires a local Unix socket''))
     (bindR (item p ''bin'') (\<lambda>bin.
      seqR (raise_if (\<not> is_str bin) (TypeError ''expected str, bytes or os.PathLike object''))
      (bindR (item p ''port'') (\<lambda>port. bindR (item p ''user'') (\<lambda>user.
       Inr ((if py_true (dget p ''os_user'') then [JStr ''/usr/sbin/runuser'', JStr ''-u'', dget p ''os_user'', JStr ''--''] else [])
            @ [JStr (join_path (jstr bin) program), JStr ''--no-password'', JStr ''--host'', host, JStr ''--port'', JStr (text_of show_other port),
               JStr ''--username'', user]
            @ (if database \<noteq> [] then [JStr ''--dbname'', JStr database] else [])))))))))"

subsection \<open>Documents on disk\<close>

text \<open>\<open>json.dump (value, stream, indent=2)\<close>, with everything outside printable ASCII escaped.\<close>

definition unicode_escape :: "nat \<Rightarrow> string" where
  "unicode_escape n =
     [CHR 0x5C, CHR ''u'', hex_digit (n div 4096 mod 16), hex_digit (n div 256 mod 16), hex_digit (n div 16 mod 16), hex_digit (n mod 16)]"

definition escape_point :: "nat \<Rightarrow> string" where
  "escape_point n =
     (if n < 65536 then unicode_escape n
      else unicode_escape (55296 + (n - 65536) div 1024 mod 1024) @ unicode_escape (56320 + (n - 65536) mod 1024))"

definition low :: "char \<Rightarrow> nat" where "low c = of_char c mod 64"

fun ascii_body :: "string \<Rightarrow> string" where
  "ascii_body [] = []"
| "ascii_body (c # s) =
     (let a = (of_char c :: nat) in
      if a < 127 then esc_char c @ ascii_body s
      else if a = 127 then unicode_escape 127 @ ascii_body s
      else if a < 224 then
        (case s of b # r \<Rightarrow> escape_point (a mod 32 * 64 + low b) @ ascii_body r | _ \<Rightarrow> [])
      else if a < 240 then
        (case s of b # b' # r \<Rightarrow> escape_point (a mod 16 * 4096 + low b * 64 + low b') @ ascii_body r | _ \<Rightarrow> [])
      else
        (case s of b # b' # b'' # r \<Rightarrow> escape_point (a mod 8 * 262144 + low b * 4096 + low b' * 64 + low b'') @ ascii_body r | _ \<Rightarrow> []))"

definition ascii_str :: "string \<Rightarrow> string" where
  "ascii_str s = CHR 0x22 # ascii_body s @ [CHR 0x22]"

definition new_line :: "nat \<Rightarrow> string" where
  "new_line k = CHR 0x0A # replicate k (CHR 0x20)"

fun pretty :: "nat \<Rightarrow> json \<Rightarrow> string"
  and pretty_list :: "nat \<Rightarrow> json list \<Rightarrow> string"
  and pretty_items :: "nat \<Rightarrow> (string \<times> json) list \<Rightarrow> string" where
  "pretty k (JStr s) = ascii_str s"
| "pretty k (JList xs) = (if xs = [] then ''[]'' else CHR ''['' # new_line (k + 2) @ pretty_list (k + 2) xs @ new_line k @ '']'')"
| "pretty k (JObj d) = (if d = [] then ''{}'' else CHR ''{'' # new_line (k + 2) @ pretty_items (k + 2) d @ new_line k @ ''}'')"
| "pretty k v = dumps v"
| "pretty_list k [] = []"
| "pretty_list k (x # xs) = pretty k x @ (if xs = [] then [] else CHR '','' # new_line k @ pretty_list k xs)"
| "pretty_items k [] = []"
| "pretty_items k ((n, v) # d) =
     ascii_str n @ '': '' @ pretty k v @ (if d = [] then [] else CHR '','' # new_line k @ pretty_items k d)"

definition json_bytes :: "json \<Rightarrow> string" where
  "json_bytes v = pretty 0 v @ [CHR 0x0A]"

subsection \<open>Verification and pruning\<close>

definition slashed :: "string list \<Rightarrow> string" where
  "slashed = join_with ''/''"

definition check_listed :: "(string \<Rightarrow> int res) \<Rightarrow> string \<Rightarrow> (string \<times> string) list \<Rightarrow> string \<times> json \<Rightarrow> unit res" where
  "check_listed list_dump pg_restore names x =
     (case x of (name, digest) \<Rightarrow>
        (case map_of names name of
           None \<Rightarrow> Inl (KeyError (py_repr name))
         | Some content \<Rightarrow>
             seqR (raise_if (digest \<noteq> JStr (sha256_hex content)) (Refused ''snapshot checksum mismatch''))
             (if prefix (rev ''.dump'') (rev name) then bindR (list_dump content) (check_exit pg_restore) else Inr ())))"

text \<open>The exit code of \<open>pg_restore --list\<close> on an archive with the given bytes is a parameter.\<close>

definition verify_snapshot :: "(string \<Rightarrow> int res) \<Rightarrow> string \<Rightarrow> place \<Rightarrow> json res" where
  "verify_snapshot list_dump bin p =
     (case p of
        Not_directory \<Rightarrow> Inl (Refused ''invalid snapshot directory'')
      | Directory t \<Rightarrow>
          bindR (safe_files t) (\<lambda>fs.
          let names = map (\<lambda>(path, content). (slashed path, content)) fs in
          bindR (case map_of names ''manifest.json'' of None \<Rightarrow> Inl (OSError ''No such file or directory'') | Some bytes \<Rightarrow> decode_utf8 bytes) (\<lambda>txt.
          bindR (json_loads txt) (\<lambda>manifest.
          bindR (get_attr manifest ''coverage'') (\<lambda>coverage.
          seqR (raise_if (coverage \<noteq> JStr COVERAGE \<or> dget manifest ''complete_durable_brain'' \<noteq> JBool False) (Refused ''unknown backup coverage''))
          (bindR (item manifest ''files'') (\<lambda>expected. bindR (py_iter expected) (\<lambda>ks. seqR (py_hashable_all ks)
          (seqR (raise_if (set (map (\<lambda>(n, _). JStr n) names) \<noteq> insert (JStr ''manifest.json'') (set ks)) (Refused ''snapshot file set mismatch''))
          (if \<not> is_dict expected then Inl (AttributeError ''object has no attribute 'items' '')
           else seqR (forR (check_listed list_dump (join_path bin ''pg_restore'') names) (jitems expected)) (Inr manifest)))))))))))"

text \<open>
  \<open>generations.sort (key=...)\<close>: dates are text, and a single one is not compared. How other values rank, if they
  compare at all, is a parameter.
\<close>

definition sort_created :: "(json list \<Rightarrow> (json \<Rightarrow> nat) res) \<Rightarrow> (string \<times> json) list \<Rightarrow> (string \<times> json) list res" where
  "sort_created rank_other created =
     (if list_all (\<lambda>(_, v). is_str v) created then Inr (sort_key (\<lambda>(_, v). jstr v) created)
      else if length created \<le> 1 then Inr created
      else bindR (rank_other (map snd created)) (\<lambda>f. Inr (sort_key (\<lambda>(_, v). f v) created)))"

definition created_of :: "(string \<times> place \<Rightarrow> json res) \<Rightarrow> directory \<Rightarrow> (string \<times> json) list res" where
  "created_of verified root =
     mapR (\<lambda>(n, p). bindR (verified (n, p)) (\<lambda>manifest. bindR (item manifest ''created_at'') (\<lambda>created. Inr (n, created))))
       (filter (\<lambda>(n, _). is_generation n) root)"

definition prune :: "(json list \<Rightarrow> (json \<Rightarrow> nat) res) \<Rightarrow> (place \<Rightarrow> json res) \<Rightarrow> nat \<Rightarrow> directory \<Rightarrow> unit res \<times> directory" where
  "prune rank_other verified keep root =
     (case bindR (created_of (\<lambda>(_, p). verified p) root) (sort_created rank_other) of
        Inl e \<Rightarrow> (Inl e, root)
      | Inr order \<Rightarrow>
          let victims = map fst (if keep = 0 then [] else take (length order - keep) order) in
          (Inr (), filter (\<lambda>(n, _). n \<notin> set victims) root))"

subsection \<open>Capacity\<close>

record volume =
  vo_available :: int
  vo_read_only :: bool

definition free_space :: "volume \<Rightarrow> json \<Rightarrow> int \<Rightarrow> json res" where
  "free_space vol config estimated =
     seqR (get_attr config ''min_free_bytes'')
     (let reserve = dget_or config ''min_free_bytes'' (JInt (1024 ^ 3)); needed = estimated + jint reserve in
      seqR (raise_if (\<not> is_int reserve \<or> jint reserve < 1024 ^ 2) (Refused ''min_free_bytes must be an integer of at least one MiB''))
      (seqR (raise_if (vo_read_only vol) (Refused ''backup filesystem is read-only''))
      (seqR (raise_if (vo_available vol < needed)
         (Refused (''insufficient backup space: available='' @ show_int (vo_available vol) @ '', required='' @ show_int needed)))
      (Inr (JObj [(''available_bytes'', JInt (vo_available vol)), (''required_bytes'', JInt needed), (''reserve_bytes'', reserve)])))))"

text \<open>\<open>int (s)\<close> on ASCII text: white space around, one sign, digits with single underscores between them.\<close>

definition int_digits :: "string \<Rightarrow> int res" where
  "int_digits s =
     (let parts = split_on (CHR ''_'') s in
      if list_all (\<lambda>p. p \<noteq> [] \<and> list_all is_digit p) parts then Inr (int (digits_val (concat parts)))
      else Inl (ValueError ''invalid literal for int() with base 10''))"

definition to_int :: "string \<Rightarrow> int res" where
  "to_int s =
     (let t = py_strip s in
      if take 1 t = ''-'' then bindR (int_digits (tl t)) (\<lambda>n. Inr (- n))
      else int_digits (if take 1 t = ''+'' then tl t else t))"

record sources =
  so_spawn :: spawn
  so_list :: "string \<Rightarrow> int res"
  so_tree :: "string \<Rightarrow> tree option"
  so_volume :: volume
  so_show :: "json \<Rightarrow> string"
  so_rank :: "json list \<Rightarrow> (json \<Rightarrow> nat) res"

text \<open>\<open>plain_directory\<close>: the tree of an absolute path without links that is a directory.\<close>

definition plain_directory :: "(string \<Rightarrow> tree option) \<Rightarrow> json \<Rightarrow> tree res" where
  "plain_directory tree_of path =
     (if \<not> is_str path then Inl (TypeError ''expected str, bytes or os.PathLike object'')
      else case tree_of (jstr path) of
        None \<Rightarrow> Inl (Refused ''directory must exist, be absolute, and contain no symlinks'')
      | Some t \<Rightarrow> Inr t)"

definition database_names :: "json \<Rightarrow> json list res" where
  "database_names databases =
     (let refused = Refused ''explicit distinct simple database names required'' in
      if \<not> py_true databases then Inl refused
      else bindR (py_iter databases) (\<lambda>ds.
        seqR (py_hashable_all ds)
        (seqR (raise_if (\<not> py_distinct ds) refused)
        (seqR (forR (\<lambda>d. if \<not> is_str d then Inl (TypeError ''expected string or bytes-like object'') else raise_if (\<not> is_ident (jstr d)) refused) ds)
        (Inr ds)))))"

definition check_keep :: "json \<Rightarrow> unit res" where
  "check_keep keep = raise_if (\<not> is_int keep \<or> \<not> (1 \<le> jint keep \<and> jint keep \<le> 365)) (Refused ''keep_last must be between 1 and 365'')"

definition artifact_sources :: "(string \<Rightarrow> tree option) \<Rightarrow> json \<Rightarrow> (string \<times> tree) list res" where
  "artifact_sources tree_of roots =
     (if \<not> py_true roots then Inl (Refused ''explicit kernel artifact sources required; no S3 source discovered'')
      else if \<not> is_dict roots then Inl (AttributeError ''object has no attribute 'items' '')
      else mapR (\<lambda>(name, path).
        seqR (raise_if (\<not> is_ident name) (Refused ''invalid artifact source label''))
        (bindR (plain_directory tree_of path) (\<lambda>t. Inr (name, t)))) (jitems roots))"

definition size_query :: "json list \<Rightarrow> string" where
  "size_query ds =
     ''SELECT COALESCE(sum(pg_database_size(oid)), 0), count(*) FROM pg_database WHERE datname IN ('' @
       join_with '','' (map (\<lambda>d. CHR 0x27 # jstr d @ [CHR 0x27]) ds) @ '')''"

definition database_size :: "sources \<Rightarrow> json \<Rightarrow> json list \<Rightarrow> int res" where
  "database_size so config ds =
     bindR (pg_command (so_show so) config ''psql'' ''postgres'') (\<lambda>command.
     bindR (run_command_out (so_spawn so) (command @ map JStr [''-X'', ''--set'', ''ON_ERROR_STOP=1'', ''-Atc'', size_query ds])) (\<lambda>out.
     bindR (decode_utf8 out) (\<lambda>txt.
     bindR (mapR to_int (split_on (CHR ''|'') (py_strip txt))) (\<lambda>ns.
     case ns of
       [stored, found] \<Rightarrow> seqR (raise_if (found \<noteq> int (length ds)) (Refused ''one or more selected databases do not exist'')) (Inr stored)
     | _ \<Rightarrow> Inl (ValueError ''values to unpack'')))))"

definition stored_bytes :: "contents \<Rightarrow> int" where
  "stored_bytes fs = sum_list (map (\<lambda>(_, content). int (length content)) fs)"

definition source_capacity :: "sources \<Rightarrow> json \<Rightarrow> json res" where
  "source_capacity so config =
     bindR (get_attr config ''coverage'') (\<lambda>coverage.
     seqR (raise_if (coverage \<noteq> JStr COVERAGE) (Refused ''explicit partial coverage acknowledgement is required; S3 is not implemented''))
     (bindR (item config ''postgres'') (\<lambda>p. bindR (item p ''databases'') (\<lambda>databases. bindR (database_names databases) (\<lambda>ds.
      bindR (item config ''keep_last'') (\<lambda>keep. seqR (check_keep keep)
      (bindR (item config ''artifact_roots'') (\<lambda>roots. bindR (artifact_sources (so_tree so) roots) (\<lambda>trees.
       bindR (database_size so config ds) (\<lambda>stored.
       bindR (mapR (\<lambda>(_, t). safe_files t) trees) (\<lambda>fss.
       free_space (so_volume so) config (2 * (stored + sum_list (map stored_bytes fss))))))))))))))"

subsection \<open>The snapshot\<close>

text \<open>Opening for exclusive creation; a command that writes into it leaves what it printed, also when it fails.\<close>

definition create_file :: "string list \<Rightarrow> string \<Rightarrow> contents \<Rightarrow> unit res \<times> contents" where
  "create_file path content fs =
     (if path \<in> fst ` set fs then (Inl (OSError ''File exists''), fs) else (Inr (), fs @ [(path, content)]))"

definition dump_into :: "spawn \<Rightarrow> json list res \<Rightarrow> string list \<Rightarrow> contents \<Rightarrow> unit res \<times> contents" where
  "dump_into spawn command path fs =
     (case bindR command (start_command spawn) of
        Inl e \<Rightarrow> (case create_file path [] fs of (Inl x, fs1) \<Rightarrow> (Inl x, fs1) | (Inr _, fs1) \<Rightarrow> (Inl e, fs1))
      | Inr (code, out) \<Rightarrow>
          (case create_file path out fs of
             (Inl x, fs1) \<Rightarrow> (Inl x, fs1)
           | (Inr _, fs1) \<Rightarrow> (bindR command (\<lambda>c. check_exit (jstr (hd c)) code), fs1)))"

fun each_file :: "('a \<Rightarrow> contents \<Rightarrow> unit res \<times> contents) \<Rightarrow> 'a list \<Rightarrow> contents \<Rightarrow> unit res \<times> contents" where
  "each_file f [] fs = (Inr (), fs)"
| "each_file f (x # xs) fs = (case f x fs of (Inl e, fs1) \<Rightarrow> (Inl e, fs1) | (Inr _, fs1) \<Rightarrow> each_file f xs fs1)"

definition copy_artifact :: "string \<Rightarrow> string list \<times> string \<Rightarrow> contents \<Rightarrow> unit res \<times> contents" where
  "copy_artifact label x fs =
     (case x of
        ([task_id, digest], content) \<Rightarrow>
          if \<not> is_ident task_id \<or> \<not> is_hex64 digest then (Inl (Refused ''artifact source is not a quiescent kernel content-addressed store''), fs)
          else (case create_file [''artifacts'', label, task_id, digest] content fs of
              (Inl e, fs1) \<Rightarrow> (Inl e, fs1)
            | (Inr _, fs1) \<Rightarrow> (raise_if (sha256_hex content \<noteq> digest) (Refused ''artifact content hash mismatch''), fs1))
      | _ \<Rightarrow> (Inl (Refused ''artifact source is not a quiescent kernel content-addressed store''), fs))"

definition copy_source :: "string \<times> tree \<Rightarrow> contents \<Rightarrow> unit res \<times> contents" where
  "copy_source s fs =
     (case s of (label, t) \<Rightarrow>
        (case safe_files t of Inl e \<Rightarrow> (Inl e, fs) | Inr artifacts \<Rightarrow> each_file (copy_artifact label) (sort_key fst artifacts) fs))"

definition dump_database :: "sources \<Rightarrow> json \<Rightarrow> json \<Rightarrow> contents \<Rightarrow> unit res \<times> contents" where
  "dump_database so config d =
     dump_into (so_spawn so)
       (bindR (pg_command (so_show so) config ''pg_dump'' (jstr d)) (\<lambda>c. Inr (c @ map JStr [''--format=custom'', ''--create''])))
       [''postgres'', jstr d @ ''.dump'']"

definition collect_snapshot :: "sources \<Rightarrow> json \<Rightarrow> json list \<Rightarrow> (string \<times> tree) list \<Rightarrow> unit res \<times> contents" where
  "collect_snapshot so config ds trees =
     (case dump_into (so_spawn so)
             (bindR (pg_command (so_show so) config ''pg_dumpall'' []) (\<lambda>c. Inr (c @ map JStr [''--globals-only'', ''--no-role-passwords''])))
             [''postgres'', ''globals.sql''] [] of
        (Inl e, fs) \<Rightarrow> (Inl e, fs)
      | (Inr _, fs) \<Rightarrow>
          (case each_file (dump_database so config) ds fs of
             (Inl e, fs1) \<Rightarrow> (Inl e, fs1)
           | (Inr _, fs1) \<Rightarrow> each_file copy_source trees fs1))"

definition manifest_doc :: "string \<Rightarrow> json \<Rightarrow> json \<Rightarrow> contents \<Rightarrow> json" where
  "manifest_doc created config capacity fs = JObj
     [(''version'', JInt 1), (''created_at'', JStr created), (''coverage'', JStr COVERAGE), (''capacity_before'', capacity),
      (''complete_durable_brain'', JBool False), (''restore_test'', JStr ''not-performed''),
      (''databases'', dget (dget config ''postgres'') ''databases''), (''artifact_sources'', JList (map JStr (jkeys (dget config ''artifact_roots'')))),
      (''files'', JObj (map (\<lambda>(path, content). (slashed path, JStr (sha256_hex content))) fs))]"

text \<open>The directory a list of files makes on the device of the backup.\<close>

definition written :: "nat \<Rightarrow> contents \<Rightarrow> tree" where
  "written device fs = \<lparr>tr_device = device, tr_entries = map (\<lambda>(path, content). \<lparr>en_path = path, en_device = device, en_kind = Regular content\<rparr>) fs\<rparr>"

definition with_manifest :: "string \<Rightarrow> json \<Rightarrow> json \<Rightarrow> contents \<Rightarrow> contents" where
  "with_manifest created config capacity fs = fs @ [([''manifest.json''], json_bytes (manifest_doc created config capacity fs))]"

text \<open>A directory can be renamed to a name that is free or that of an empty directory.\<close>

definition occupied :: "string \<Rightarrow> directory \<Rightarrow> bool" where
  "occupied name root =
     (case map_of root name of None \<Rightarrow> False | Some (Directory t) \<Rightarrow> tr_entries t \<noteq> [] | Some Not_directory \<Rightarrow> True)"

definition incomplete :: "string \<Rightarrow> string" where
  "incomplete generation = ''.incomplete-'' @ generation"

definition verified_by :: "sources \<Rightarrow> json \<Rightarrow> place \<Rightarrow> json res" where
  "verified_by so config = verify_snapshot (so_list so) (sget (dget config ''postgres'') ''bin'')"

definition publish_snapshot :: "sources \<Rightarrow> string \<Rightarrow> json \<Rightarrow> tree \<Rightarrow> directory \<Rightarrow> string res \<times> directory" where
  "publish_snapshot so generation config t root =
     (let partial = root @ [(incomplete generation, Directory t)] in
      case verified_by so config (Directory t) of
        Inl e \<Rightarrow> (Inl e, partial)
      | Inr _ \<Rightarrow>
          if occupied generation root then (Inl (OSError ''Directory not empty''), partial)
          else
            (case prune (so_rank so) (verified_by so config) (nat (jint (dget config ''keep_last''))) (AList.update generation (Directory t) root) of
               (Inl e, root1) \<Rightarrow> (Inl e, root1)
             | (Inr _, root1) \<Rightarrow> (Inr generation, root1)))"

definition snapshot_inputs :: "sources \<Rightarrow> json \<Rightarrow> (json list \<times> (string \<times> tree) list) res" where
  "snapshot_inputs so config =
     bindR (database_names (dget (dget config ''postgres'') ''databases'')) (\<lambda>ds.
     bindR (artifact_sources (so_tree so) (dget config ''artifact_roots'')) (\<lambda>trees. Inr (ds, trees)))"

text \<open>The identity of a generation and the time in its manifest are given.\<close>

definition take_snapshot :: "sources \<Rightarrow> nat \<Rightarrow> string \<Rightarrow> string \<Rightarrow> json \<Rightarrow> directory \<Rightarrow> string res \<times> directory" where
  "take_snapshot so device generation created config root =
     (case bindR (source_capacity so config) (\<lambda>capacity. bindR (snapshot_inputs so config) (\<lambda>inputs. Inr (capacity, inputs))) of
        Inl e \<Rightarrow> (Inl e, root)
      | Inr (capacity, ds, trees) \<Rightarrow>
          if incomplete generation \<in> fst ` set root then (Inl (OSError ''File exists''), root)
          else
            (case collect_snapshot so config ds trees of
               (Inl e, fs) \<Rightarrow> (Inl e, root @ [(incomplete generation, Directory (written device fs))])
             | (Inr _, fs) \<Rightarrow> publish_snapshot so generation config (written device (with_manifest created config capacity fs)) root))"

subsection \<open>Restoring\<close>

text \<open>
  \<open>restore\<close> verifies a snapshot, refuses names that are not database names and globals that create tablespaces, starts
  a disposable cluster under a temporary directory, replays the globals and every dump into it, counts the tables,
  reads the row of the proof when one is asked for, checks and copies the artifacts into a directory of their own, and
  stops the cluster whatever happened. The commands act on a state \<open>'w\<close> of their own and get their standard input.
\<close>

type_synonym ('w, 'a) job = "'w \<Rightarrow> 'a res \<times> 'w"

definition retJ :: "'a \<Rightarrow> ('w, 'a) job" where "retJ x w = (Inr x, w)"

definition resJ :: "'a res \<Rightarrow> ('w, 'a) job" where "resJ r w = (r, w)"

definition bindJ :: "('w, 'a) job \<Rightarrow> ('a \<Rightarrow> ('w, 'b) job) \<Rightarrow> ('w, 'b) job" where
  "bindJ m f w = (case m w of (Inl e, w') \<Rightarrow> (Inl e, w') | (Inr x, w') \<Rightarrow> f x w')"

fun mapJ :: "('a \<Rightarrow> ('w, 'b) job) \<Rightarrow> 'a list \<Rightarrow> ('w, 'b list) job" where
  "mapJ f [] = retJ []"
| "mapJ f (x # xs) = bindJ (f x) (\<lambda>y. bindJ (mapJ f xs) (\<lambda>ys. retJ (y # ys)))"

record 'w restorer =
  re_command :: "string list \<Rightarrow> string \<Rightarrow> ('w, int \<times> string) job"
  re_list :: "string \<Rightarrow> int res"
  re_superuser :: bool
  re_account :: "unit res"
  re_bootstrap :: string
  re_temporary :: string

definition PG :: string where "PG = ''/usr/lib/postgresql/18/bin''"

definition cluster_tool :: "'w restorer \<Rightarrow> string \<Rightarrow> string list \<Rightarrow> string \<Rightarrow> ('w, string) job" where
  "cluster_tool rs program args input =
     (let command = (if re_superuser rs then [''/usr/sbin/runuser'', ''-u'', ''postgres'', ''--''] else []) @ [join_path PG program] @ args in
      bindJ (re_command rs command input) (\<lambda>(code, out). resJ (seqR (check_exit (hd command) code) (Inr out))))"

definition data_of :: "'w restorer \<Rightarrow> string" where "data_of rs = join_path (re_temporary rs) ''data''"

definition socket_of :: "'w restorer \<Rightarrow> string" where "socket_of rs = join_path (re_temporary rs) ''socket''"

definition cluster_address :: "'w restorer \<Rightarrow> string list" where
  "cluster_address rs = [''-h'', socket_of rs, ''-p'', ''15432'', ''-U'', re_bootstrap rs]"

definition cluster_sql :: "'w restorer \<Rightarrow> string \<Rightarrow> string \<Rightarrow> ('w, string) job" where
  "cluster_sql rs database query =
     bindJ (cluster_tool rs ''psql'' ([''-X''] @ cluster_address rs @ [''-d'', database, ''--set'', ''ON_ERROR_STOP=1'', ''-Atc'', query]) [])
       (\<lambda>out. resJ (bindR (decode_utf8 out) (\<lambda>txt. Inr (py_strip txt))))"

definition start_cluster :: "'w restorer \<Rightarrow> ('w, string) job" where
  "start_cluster rs =
     bindJ (cluster_tool rs ''initdb'' [''-D'', data_of rs, ''--username'', re_bootstrap rs, ''--auth-local=trust'', ''--auth-host=reject'', ''--no-locale''] [])
       (\<lambda>_. cluster_tool rs ''pg_ctl'' [''-D'', data_of rs, ''-l'', join_path (re_temporary rs) ''postgres.log'', ''-o'',
               ''-h '' @ [CHR 0x27, CHR 0x27] @ '' -k '' @ socket_of rs @ '' -p 15432'', ''-w'', ''start''] [])"

definition stop_cluster :: "'w restorer \<Rightarrow> ('w, string) job" where
  "stop_cluster rs = cluster_tool rs ''pg_ctl'' [''-D'', data_of rs, ''-m'', ''fast'', ''-w'', ''stop''] []"

text \<open>A file opened by its name, which needs no listing of its directory.\<close>

definition open_file :: "tree \<Rightarrow> string list \<Rightarrow> string res" where
  "open_file t path =
     (case find (\<lambda>e. en_path e = path) (tr_entries t) of
        Some e \<Rightarrow> (case en_kind e of Regular content \<Rightarrow> Inr content | _ \<Rightarrow> Inl (OSError ''Is a directory''))
      | None \<Rightarrow> Inl (OSError ''No such file or directory''))"

definition restore_checks :: "'w restorer \<Rightarrow> tree \<Rightarrow> (json \<times> json list) res" where
  "restore_checks rs t =
     bindR (verify_snapshot (re_list rs) PG (Directory t)) (\<lambda>manifest.
     bindR (item manifest ''databases'') (\<lambda>databases. bindR (py_iter databases) (\<lambda>names.
     seqR (forR (\<lambda>d. if \<not> is_str d then Inl (TypeError ''expected string or bytes-like object'')
                      else raise_if (\<not> is_ident (jstr d)) (Refused ''invalid database names in manifest'')) names)
     (bindR (open_file t [''postgres'', ''globals.sql'']) (\<lambda>bytes. bindR (decode_utf8 bytes) (\<lambda>txt.
      seqR (raise_if (sublist ''CREATE TABLESPACE'' txt) (Refused ''tablespace relocation requires a separately reviewed restore''))
      (seqR (re_account rs) (Inr (databases, names)))))))))"

definition in_databases :: "string \<Rightarrow> json \<Rightarrow> json list \<Rightarrow> bool" where
  "in_databases d databases names = (case databases of JStr s \<Rightarrow> sublist d s | _ \<Rightarrow> JStr d \<in> set names)"

definition COUNT_TABLES :: string where
  "COUNT_TABLES = ''SELECT count(*) FROM pg_tables WHERE schemaname NOT IN ('' @ CHR 0x27 # ''pg_catalog'' @ [CHR 0x27, CHR 0x2C, CHR 0x27]
     @ ''information_schema'' @ CHR 0x27 # '')''"

definition restore_database :: "'w restorer \<Rightarrow> tree \<Rightarrow> string \<Rightarrow> ('w, json) job" where
  "restore_database rs t name =
     bindJ (resJ (open_file t [''postgres'', name @ ''.dump''])) (\<lambda>dump.
     bindJ (cluster_tool rs ''pg_restore'' (cluster_address rs @ [''-d'', ''template1'', ''--create'', ''--exit-on-error'']) dump) (\<lambda>_.
     bindJ (cluster_sql rs name COUNT_TABLES) (\<lambda>out.
     bindJ (resJ (to_int out)) (\<lambda>tables. retJ (JObj [(''database'', JStr name), (''user_tables'', JInt tables)])))))"

definition prove_row :: "'w restorer \<Rightarrow> string option \<Rightarrow> json \<Rightarrow> json list \<Rightarrow> ('w, string option) job" where
  "prove_row rs proof_database databases names =
     (case proof_database of
        None \<Rightarrow> retJ None
      | Some d \<Rightarrow>
          if d = [] then retJ None
          else if \<not> in_databases d databases names then resJ (Inl (Refused ''proof database is absent from the snapshot''))
          else bindJ (cluster_sql rs d ''SELECT value FROM d1_proof WHERE id=1'') (\<lambda>proof.
            if proof \<noteq> ''ACME physical SSD proof'' then resJ (Inl (Refused ''restored synthetic row differs'')) else retJ (Some proof)))"

definition restore_databases :: "'w restorer \<Rightarrow> string option \<Rightarrow> tree \<Rightarrow> json \<Rightarrow> json list \<Rightarrow> ('w, json list \<times> string option) job" where
  "restore_databases rs proof_database t databases names =
     bindJ (resJ (open_file t [''postgres'', ''globals.sql''])) (\<lambda>globals.
     bindJ (cluster_tool rs ''psql'' ([''-X''] @ cluster_address rs @ [''-d'', ''template1'', ''--set'', ''ON_ERROR_STOP=1'', ''-f'', ''-'']) globals) (\<lambda>_.
     bindJ (if in_databases ''postgres'' databases names then cluster_sql rs ''template1'' ''DROP DATABASE postgres'' else retJ []) (\<lambda>_.
     bindJ (mapJ (restore_database rs t) (map jstr names)) (\<lambda>restored.
     bindJ (prove_row rs proof_database databases names) (\<lambda>proof. retJ (restored, proof))))))"

fun restore_files :: "contents \<Rightarrow> contents res" where
  "restore_files [] = Inr []"
| "restore_files ((path, content) # fs) =
     (if path = [] \<or> \<not> is_hex64 (last path) \<or> sha256_hex content \<noteq> last path then Inl (Refused ''restored artifact key/content mismatch'')
      else bindR (restore_files fs) (\<lambda>rs. Inr ((path, content) # rs)))"

definition below :: "string list \<Rightarrow> contents \<Rightarrow> contents" where
  "below base fs = map (\<lambda>(path, content). (drop (length base) path, content)) (filter (\<lambda>(path, _). prefix base path \<and> path \<noteq> base) fs)"

definition restore_artifacts :: "tree \<Rightarrow> contents res" where
  "restore_artifacts t = bindR (safe_files t) (\<lambda>fs. restore_files (below [''artifacts''] fs))"

definition restore_report :: "json list \<Rightarrow> string option \<Rightarrow> contents \<Rightarrow> json" where
  "restore_report restored proof copies = JObj
     [(''result'', JStr ''PASS''), (''databases'', JList restored), (''artifact_count'', JInt (int (length copies))),
      (''synthetic_row_verified'', JBool (proof \<noteq> None)), (''isolated_cluster'', JBool True), (''tcp_listeners'', JBool False),
      (''complete_durable_brain'', JBool False)]"

text \<open>The report, and the artifacts as they were restored next to the cluster.\<close>

definition restore_started :: "'w restorer \<Rightarrow> string option \<Rightarrow> tree \<Rightarrow> json \<Rightarrow> json list \<Rightarrow> ('w, json \<times> contents) job" where
  "restore_started rs proof_database t databases names =
     bindJ (restore_databases rs proof_database t databases names) (\<lambda>(restored, proof).
     bindJ (resJ (restore_artifacts t)) (\<lambda>copies. retJ (restore_report restored proof copies, copies)))"

definition finally_stop :: "'w restorer \<Rightarrow> ('w, 'a) job \<Rightarrow> ('w, 'a) job" where
  "finally_stop rs m w = (case m w of (x, w1) \<Rightarrow> (case stop_cluster rs w1 of (Inl e, w2) \<Rightarrow> (Inl e, w2) | (Inr _, w2) \<Rightarrow> (x, w2)))"

definition restore_tree :: "'w restorer \<Rightarrow> string option \<Rightarrow> tree \<Rightarrow> ('w, json \<times> contents) job" where
  "restore_tree rs proof_database t =
     bindJ (resJ (restore_checks rs t)) (\<lambda>(databases, names).
     bindJ (start_cluster rs) (\<lambda>_. finally_stop rs (restore_started rs proof_database t databases names)))"

definition restore :: "'w restorer \<Rightarrow> (string \<Rightarrow> tree option) \<Rightarrow> string option \<Rightarrow> json \<Rightarrow> ('w, json \<times> contents) job" where
  "restore rs tree_of proof_database snapshot = bindJ (resJ (plain_directory tree_of snapshot)) (restore_tree rs proof_database)"

end
