(* ===== verification/Backup_Facts.thy ===== *)
theory Backup_Facts
  imports Backup
begin

section \<open>What a backup guarantees\<close>

text \<open>
  Pruning removes only verified generations and keeps the newest; a snapshot publishes nothing that does not verify;
  and the artifact store of the kernel reads the same from a restored snapshot.
\<close>

subsection \<open>Files of a directory\<close>

lemma safe_files_written: "safe_files (written d fs) = Inr fs"
proof -
  have "collect_files d (map (\<lambda>(path, content). \<lparr>en_path = path, en_device = d, en_kind = Regular content\<rparr>) fs) = Inr fs"
    by (induction fs) auto
  moreover have "tr_entries (walked (written d fs)) = tr_entries (written d fs)"
    by (auto simp: walked_def written_def list_all_iff intro!: filter_True)
  ultimately show ?thesis by (simp add: safe_files_def written_def)
qed

definition all_listable :: "tree \<Rightarrow> bool" where
  "all_listable t \<longleftrightarrow> list_all (\<lambda>e. en_kind e \<noteq> Unlistable) (tr_entries t)"

lemma walked_all: "all_listable t \<Longrightarrow> walked t = t"
  by (auto simp: all_listable_def walked_def list_all_iff intro!: tree.equality filter_True)

text \<open>The artifact store a directory holds, and the one a list of files makes.\<close>

definition tree_store :: "tree \<Rightarrow> artifact_store" where
  "tree_store t =
     \<lparr>files = (\<lambda>(task_id, digest). map_of (List.map_filter
          (\<lambda>e. case en_kind e of Regular c \<Rightarrow> Some (en_path e, Bytes c) | Folder \<Rightarrow> None | Unlistable \<Rightarrow> None | _ \<Rightarrow> Some (en_path e, Symlink)) (tr_entries t)) [task_id, digest]),
      dir_links = {task_id. \<exists>e\<in>set (tr_entries t). en_path e = [task_id] \<and> en_kind e = Link}\<rparr>"

definition contents_store :: "contents \<Rightarrow> artifact_store" where
  "contents_store fs = \<lparr>files = (\<lambda>(task_id, digest). map_option Bytes (map_of fs [task_id, digest])), dir_links = {}\<rparr>"

lemma collect_files_kinds: "collect_files d es = Inr fs \<Longrightarrow> e \<in> set es \<Longrightarrow> en_kind e \<noteq> Link"
  by (induction es arbitrary: fs) (auto simp: bindR_eq_Inr split: if_splits kind.splits)

lemma collect_files_map:
  "collect_files d es = Inr fs \<Longrightarrow>
     List.map_filter (\<lambda>e. case en_kind e of Regular c \<Rightarrow> Some (en_path e, Bytes c) | Folder \<Rightarrow> None | Unlistable \<Rightarrow> None | _ \<Rightarrow> Some (en_path e, Symlink)) es
       = map (\<lambda>(p, c). (p, Bytes c)) fs"
  by (induction es arbitrary: fs) (auto simp: bindR_eq_Inr List.map_filter_simps split: if_splits kind.splits)

lemma tree_store_files: "safe_files t = Inr fs \<Longrightarrow> tree_store (walked t) = contents_store fs"
  using collect_files_kinds [of "tr_device t" "tr_entries (walked t)" fs]
  by (auto simp: tree_store_def contents_store_def safe_files_def collect_files_map map_of_map)

subsection \<open>Copying\<close>

lemma create_file_Inr: "create_file p c fs = (Inr u, fs1) \<longleftrightarrow> p \<notin> fst ` set fs \<and> fs1 = fs @ [(p, c)]"
  by (auto simp: create_file_def)

definition is_artifact :: "string list \<times> string \<Rightarrow> bool" where
  "is_artifact x \<longleftrightarrow> (\<exists>task_id content. x = ([task_id, sha256_hex content], content) \<and> is_ident task_id)"

definition under :: "string \<Rightarrow> contents \<Rightarrow> contents" where
  "under label fs = map (\<lambda>(p, c). ([''artifacts'', label] @ p, c)) fs"

lemma copy_artifact_Inr:
  "copy_artifact label x fs = (Inr u, fs1) \<longleftrightarrow> is_artifact x \<and> [''artifacts'', label] @ fst x \<notin> fst ` set fs \<and> fs1 = fs @ under label [x]"
  by (cases x) (auto simp: copy_artifact_def is_artifact_def under_def create_file_def sha256_hex64 split: list.splits prod.splits if_splits sum.splits)

lemma copy_artifacts_Inr:
  "each_file (copy_artifact label) xs fs = (Inr u, fs1) \<Longrightarrow> distinct (map fst fs) \<Longrightarrow>
     fs1 = fs @ under label xs \<and> list_all is_artifact xs \<and> distinct (map fst fs1)"
proof (induction xs arbitrary: fs)
  case (Cons x xs)
  then obtain fs2 where c: "copy_artifact label x fs = (Inr (), fs2)" and e: "each_file (copy_artifact label) xs fs2 = (Inr u, fs1)"
    by (auto split: prod.splits sum.splits)
  from c have x: "is_artifact x" "[''artifacts'', label] @ fst x \<notin> fst ` set fs" "fs2 = fs @ under label [x]"
    by (simp_all add: copy_artifact_Inr)
  then have "distinct (map fst fs2)" using Cons.prems(2) by (cases x) (simp add: under_def)
  from Cons.IH [OF e this] have r: "fs1 = fs2 @ under label xs" "list_all is_artifact xs" "distinct (map fst fs1)" by blast+
  have "fs1 = fs @ under label (x # xs)" unfolding r(1) x(3) by (simp add: under_def)
  then show ?case using r(2,3) x(1) by simp
qed (simp add: under_def)

lemma copy_source_Inr:
  assumes "copy_source (label, t) fs = (Inr u, fs1)" "distinct (map fst fs)"
  shows "\<exists>xs. safe_files t = Inr xs \<and> fs1 = fs @ under label (sort_key fst xs) \<and> list_all is_artifact xs \<and> distinct (map fst fs1) \<and> distinct (map fst xs)"
proof -
  from assms obtain xs where s: "safe_files t = Inr xs" and e: "each_file (copy_artifact label) (sort_key fst xs) fs = (Inr u, fs1)"
    by (auto simp: copy_source_def split: sum.splits)
  from copy_artifacts_Inr [OF e assms(2)] have r: "fs1 = fs @ under label (sort_key fst xs)" "list_all is_artifact (sort_key fst xs)" "distinct (map fst fs1)"
    by blast+
  then have "distinct (map fst (under label (sort_key fst xs)))" by simp
  then have "distinct (map fst (sort_key fst xs))"
    by (simp add: under_def distinct_map inj_on_def comp_def case_prod_unfold)
  then have "distinct (map fst xs)" by (simp add: distinct_map)
  with s r show ?thesis by (auto simp: list_all_iff)
qed

lemma copy_sources_Inr:
  "each_file copy_source trees fs = (Inr u, fs1) \<Longrightarrow> distinct (map fst fs) \<Longrightarrow>
     \<exists>xss. fs1 = fs @ concat (map2 (\<lambda>(label, _) xs. under label (sort_key fst xs)) trees xss) \<and> distinct (map fst fs1)
       \<and> list_all2 (\<lambda>(_, t) xs. safe_files t = Inr xs \<and> list_all is_artifact xs \<and> distinct (map fst xs)) trees xss"
proof (induction trees arbitrary: fs)
  case (Cons x trees)
  obtain label t where x: "x = (label, t)" by fastforce
  from Cons.prems x obtain fs2 where c: "copy_source (label, t) fs = (Inr (), fs2)" and e: "each_file copy_source trees fs2 = (Inr u, fs1)"
    by (auto split: prod.splits sum.splits)
  from copy_source_Inr [OF c Cons.prems(2)] obtain xs where xs: "safe_files t = Inr xs" "fs2 = fs @ under label (sort_key fst xs)"
    "list_all is_artifact xs" "distinct (map fst fs2)" "distinct (map fst xs)" by blast
  from Cons.IH [OF e xs(4)] obtain xss where
    "fs1 = fs2 @ concat (map2 (\<lambda>(label, _) xs. under label (sort_key fst xs)) trees xss)" "distinct (map fst fs1)"
    "list_all2 (\<lambda>(_, t) xs. safe_files t = Inr xs \<and> list_all is_artifact xs \<and> distinct (map fst xs)) trees xss" by blast
  with x xs show ?case by (intro exI [of _ "xs # xss"]) simp
qed simp

subsection \<open>What a snapshot holds\<close>

definition elsewhere :: "contents \<Rightarrow> bool" where
  "elsewhere fs \<longleftrightarrow> list_all (\<lambda>(p, _). case p of [] \<Rightarrow> False | x # _ \<Rightarrow> x \<noteq> ''artifacts'') fs"

lemma start_command_Inr: "start_command spawn c = Inr x \<Longrightarrow> spawn (map jstr c) = Inr x"
  by (simp add: start_command_def split: if_splits)

lemma dump_into_Inr:
  assumes "dump_into spawn command (''postgres'' # p) fs = (Inr u, fs1)"
  shows "\<exists>c out. command = Inr c \<and> spawn (map jstr c) = Inr (0, out) \<and> fs1 = fs @ [(''postgres'' # p, out)] \<and> ''postgres'' # p \<notin> fst ` set fs"
  using assms
  by (auto simp: dump_into_def create_file_def check_exit_def bindR_eq_Inr raise_if_eq_Inr split: sum.splits prod.splits if_splits dest!: start_command_Inr)

text \<open>What a file of the snapshot was printed by: this program, on this database, with this format, and it exited well.\<close>

definition printed_by :: "sources \<Rightarrow> string \<Rightarrow> string list \<Rightarrow> string \<Rightarrow> bool" where
  "printed_by so program args out \<longleftrightarrow>
     (\<exists>front bin middle. so_spawn so (front @ [join_path bin program, ''--no-password''] @ middle @ args) = Inr (0, out))"

lemma pg_command_parts:
  assumes "pg_command f config program database = Inr c"
  shows "\<exists>front bin middle. map jstr c = front @ [join_path bin program, ''--no-password''] @ middle @ (if database \<noteq> [] then [''--dbname'', database] else [])"
proof -
  define os where "os = (if py_true (dget (dget config ''postgres'') ''os_user'') then [JStr ''/usr/sbin/runuser'', JStr ''-u'', dget (dget config ''postgres'') ''os_user'', JStr ''--''] else [])"
  from assms obtain p host port user bin where "Inr c = (Inr ((if py_true (dget p ''os_user'') then [JStr ''/usr/sbin/runuser'', JStr ''-u'', dget p ''os_user'', JStr ''--''] else [])
            @ [JStr (join_path (jstr bin) program), JStr ''--no-password'', JStr ''--host'', host, JStr ''--port'', JStr (text_of f port),
               JStr ''--username'', user] @ (if database \<noteq> [] then [JStr ''--dbname'', JStr database] else [])) :: json list res)"
    unfolding pg_command_def bindR_eq_Inr by (elim exE conjE) (rule that, erule sym)
  then have c: "map jstr c = map jstr (if py_true (dget p ''os_user'') then [JStr ''/usr/sbin/runuser'', JStr ''-u'', dget p ''os_user'', JStr ''--''] else [])
      @ [join_path (jstr bin) program, ''--no-password''] @ [''--host'', jstr host, ''--port'', text_of f port, ''--username'', jstr user]
      @ (if database \<noteq> [] then [''--dbname'', database] else [])"
    by (simp only: sum.inject map_append list.map jstr.simps append_Cons append_Nil if_distrib [of "map jstr"])
  show ?thesis unfolding c by (intro exI) (rule refl)
qed

lemma printed_command:
  assumes "bindR (pg_command f config program database) (\<lambda>c. Inr (c @ map JStr extra)) = Inr c" "so_spawn so (map jstr c) = Inr (0, out)"
  shows "printed_by so program ((if database \<noteq> [] then [''--dbname'', database] else []) @ extra) out"
proof -
  from assms(1) obtain c0 where c0: "pg_command f config program database = Inr c0" "c = c0 @ map JStr extra" by (auto simp: bindR_eq_Inr)
  have "map jstr c = map jstr c0 @ extra" by (simp add: c0(2) comp_def)
  with pg_command_parts [OF c0(1)] assms(2) show ?thesis unfolding printed_by_def by (metis append_assoc)
qed

definition dumped :: "sources \<Rightarrow> json \<Rightarrow> string list \<times> string \<Rightarrow> bool" where
  "dumped so d x \<longleftrightarrow> fst x = [''postgres'', jstr d @ ''.dump'']
     \<and> printed_by so ''pg_dump'' [''--dbname'', jstr d, ''--format=custom'', ''--create''] (snd x)"

lemma dump_databases_Inr:
  "each_file (dump_database so config) ds fs = (Inr u, fs1) \<Longrightarrow> list_all (\<lambda>d. jstr d \<noteq> []) ds \<Longrightarrow> elsewhere fs \<Longrightarrow> distinct (map fst fs) \<Longrightarrow>
     elsewhere fs1 \<and> distinct (map fst fs1) \<and> (\<exists>gs. fs1 = fs @ gs \<and> list_all2 (dumped so) ds gs)"
proof (induction ds arbitrary: fs)
  case (Cons d ds)
  then obtain fs2 where c: "dump_database so config d fs = (Inr (), fs2)" and e: "each_file (dump_database so config) ds fs2 = (Inr u, fs1)"
    by (auto split: prod.splits sum.splits)
  from dump_into_Inr [OF c [unfolded dump_database_def]] obtain k b where
    k: "bindR (pg_command (so_show so) config ''pg_dump'' (jstr d)) (\<lambda>c. Inr (c @ map JStr [''--format=custom'', ''--create''])) = Inr k"
      "so_spawn so (map jstr k) = Inr (0, b)" and
    b: "fs2 = fs @ [([''postgres'', jstr d @ ''.dump''], b)]" "[''postgres'', jstr d @ ''.dump''] \<notin> fst ` set fs" by (elim exE conjE) (rule that)
  from printed_command [OF k] Cons.prems(2) have "dumped so d ([''postgres'', jstr d @ ''.dump''], b)" by (simp add: dumped_def)
  moreover from b have fs2: "elsewhere fs2" "distinct (map fst fs2)" using Cons.prems(3,4) by (simp_all add: elsewhere_def)
  moreover from Cons.prems(2) have "list_all (\<lambda>d. jstr d \<noteq> []) ds" by simp
  from Cons.IH [OF e this fs2] obtain gs where "elsewhere fs1" "distinct (map fst fs1)" "fs1 = fs2 @ gs" "list_all2 (dumped so) ds gs" by blast
  ultimately show ?case using b(1) by (intro conjI exI [of _ "([''postgres'', jstr d @ ''.dump''], b) # gs"]) simp_all
qed simp

lemma collect_snapshot_Inr:
  assumes "collect_snapshot so config ds trees = (Inr u, fs)" "list_all (\<lambda>d. jstr d \<noteq> []) ds"
  shows "\<exists>globals gs xss. fs = (([''postgres'', ''globals.sql''], globals) # gs) @ concat (map2 (\<lambda>(label, _) xs. under label (sort_key fst xs)) trees xss)
     \<and> elsewhere (([''postgres'', ''globals.sql''], globals) # gs) \<and> distinct (map fst fs)
     \<and> printed_by so ''pg_dumpall'' [''--globals-only'', ''--no-role-passwords''] globals \<and> list_all2 (dumped so) ds gs
     \<and> list_all2 (\<lambda>(_, t) xs. safe_files t = Inr xs \<and> list_all is_artifact xs \<and> distinct (map fst xs)) trees xss"
proof -
  from assms(1) obtain f0 f1 where
    g: "dump_into (so_spawn so) (bindR (pg_command (so_show so) config ''pg_dumpall'' []) (\<lambda>c. Inr (c @ map JStr [''--globals-only'', ''--no-role-passwords''])))
             [''postgres'', ''globals.sql''] [] = (Inr (), f0)"
    and d: "each_file (dump_database so config) ds f0 = (Inr (), f1)" and c: "each_file copy_source trees f1 = (Inr u, fs)"
    unfolding collect_snapshot_def by (simp split: prod.splits sum.splits)
  from dump_into_Inr [OF g] obtain k b where
    k: "bindR (pg_command (so_show so) config ''pg_dumpall'' []) (\<lambda>c. Inr (c @ map JStr [''--globals-only'', ''--no-role-passwords''])) = Inr k"
      "so_spawn so (map jstr k) = Inr (0, b)" and f0: "f0 = [([''postgres'', ''globals.sql''], b)]" by (elim exE conjE) (rule that, assumption, assumption, simp only: append_Nil)
  from printed_command [OF k] have pr: "printed_by so ''pg_dumpall'' [''--globals-only'', ''--no-role-passwords''] b" by simp
  have e0: "elsewhere f0" "distinct (map fst f0)" unfolding f0 by (simp_all add: elsewhere_def)
  from dump_databases_Inr [OF d assms(2) e0] obtain hs where hs: "elsewhere f1" "distinct (map fst f1)" "f1 = f0 @ hs" "list_all2 (dumped so) ds hs" by blast
  from copy_sources_Inr [OF c hs(2)] obtain xss where
    "fs = f1 @ concat (map2 (\<lambda>(label, _) xs. under label (sort_key fst xs)) trees xss)" "distinct (map fst fs)"
    "list_all2 (\<lambda>(_, t) xs. safe_files t = Inr xs \<and> list_all is_artifact xs \<and> distinct (map fst xs)) trees xss" by blast
  moreover have "f1 = ([''postgres'', ''globals.sql''], b) # hs" unfolding hs(3) f0 by simp
  ultimately show ?thesis using hs(1,4) pr by (intro exI [of _ b] exI [of _ hs] exI [of _ xss] conjI) simp_all
qed

subsection \<open>Restoring\<close>

lemma below_Nil [simp]: "below b [] = []"
  by (simp add: below_def)

lemma below_append: "below b (fs @ gs) = below b fs @ below b gs"
  by (simp add: below_def)

lemma below_elsewhere: "elsewhere fs \<Longrightarrow> below [''artifacts''] fs = []"
  by (auto simp: below_def elsewhere_def filter_empty_conv list_all_iff split: list.splits)

definition labelled :: "string \<Rightarrow> contents \<Rightarrow> contents" where
  "labelled label fs = map (\<lambda>(p, c). (label # p, c)) fs"

lemma below_under: "below [''artifacts''] (under label fs) = labelled label fs"
  by (induction fs) (auto simp: below_def under_def labelled_def)

lemma below_artifacts:
  "below [''artifacts''] (concat (map2 (\<lambda>(label, _) xs. under label (sort_key fst xs)) trees xss))
     = concat (map2 (\<lambda>(label, _) xs. labelled label (sort_key fst xs)) trees xss)"
proof (induction trees arbitrary: xss)
  case (Cons x trees)
  then show ?case by (cases x; cases xss) (simp_all add: below_append below_under)
qed (simp add: below_def)

lemma restore_files_artifacts: "list_all (\<lambda>(p, c). p \<noteq> [] \<and> last p = sha256_hex c) fs \<Longrightarrow> restore_files fs = Inr fs"
  by (induction fs rule: restore_files.induct) (auto simp: sha256_hex64)

lemma labelled_last: "list_all is_artifact fs \<Longrightarrow> list_all (\<lambda>(p, c). p \<noteq> [] \<and> last p = sha256_hex c) (labelled label fs)"
  by (induction fs) (auto simp: labelled_def is_artifact_def)

lemma below_label: "list_all is_artifact fs \<Longrightarrow> below [l] (labelled label fs) = (if l = label then fs else [])"
  by (induction fs) (auto simp: below_def labelled_def is_artifact_def)

text \<open>The copy of each source, in a snapshot whose artifacts are restored.\<close>

lemma restored_source:
  assumes "list_all2 (\<lambda>(_, t) xs. safe_files t = Inr xs \<and> list_all is_artifact xs \<and> distinct (map fst xs)) trees xss"
    "distinct (map fst trees)" "(label, t) \<in> set trees"
  shows "\<exists>xs. safe_files t = Inr xs \<and> distinct (map fst xs)
     \<and> below [label] (concat (map2 (\<lambda>(label, _) xs. labelled label (sort_key fst xs)) trees xss)) = sort_key fst xs"
  using assms
proof (induction rule: list_all2_induct)
  case (Cons x trees xs xss)
  obtain l s where x: "x = (l, s)" by fastforce
  with Cons have xs: "safe_files s = Inr xs" "list_all is_artifact (sort_key fst xs)" "distinct (map fst xs)" by (auto simp: list_all_iff)
  have skip: "below [label] (concat (map2 (\<lambda>(label, _) xs. labelled label (sort_key fst xs)) trees xss)) = []" if "label \<notin> fst ` set trees"
    using Cons.hyps(2) that
  proof (induction rule: list_all2_induct)
    case (Cons y ys zs zss)
    then show ?case by (cases y) (auto simp: below_append below_label list_all_iff)
  qed (simp add: below_def)
  show ?case
  proof (cases "label = l")
    case True
    with Cons.prems x have "t = s" "label \<notin> fst ` set trees" by force+
    with True x xs skip show ?thesis by (simp add: below_append below_label)
  next
    case False
    with Cons.prems Cons.IH x xs show ?thesis by (auto simp: below_append below_label)
  qed
qed simp

lemma map_of_sort_key: "distinct (map fst xs) \<Longrightarrow> map_of (sort_key fst xs) = map_of xs"
  by (rule map_of_eqI) (auto simp: map_of_eq_Some_iff distinct_map)

lemma restored_reads: "safe_files t = Inr xs \<Longrightarrow> distinct (map fst xs) \<Longrightarrow> contents_store (sort_key fst xs) = tree_store (walked t)"
  by (simp add: tree_store_files contents_store_def map_of_sort_key)

subsection \<open>Pruning\<close>

definition created :: "(place \<Rightarrow> json res) \<Rightarrow> string \<times> place \<Rightarrow> json" where
  "created verified x = (case verified (snd x) of Inl _ \<Rightarrow> JNull | Inr manifest \<Rightarrow> dget manifest ''created_at'')"

definition generations :: "directory \<Rightarrow> directory" where
  "generations root = filter (\<lambda>(n, _). is_generation n) root"

lemma created_of_Inr:
  assumes "created_of (\<lambda>(_, p). verified p) root = Inr cs"
  shows "cs = map (\<lambda>x. (fst x, created verified x)) (generations root)" "list_all (\<lambda>(_, p). is_ok (verified p)) (generations root)"
proof -
  have l: "list_all2 (\<lambda>x c. is_ok (verified (snd x)) \<and> c = (fst x, created verified x)) (generations root) cs"
    using assms unfolding created_of_def mapR_eq_Inr generations_def
    by (rule list_all2_mono) (auto simp: bindR_eq_Inr item_eq_Inr created_def)
  then show "cs = map (\<lambda>x. (fst x, created verified x)) (generations root)"
    by (auto simp: list_all2_conv_all_nth intro: nth_equalityI)
  show "list_all (\<lambda>(_, p). is_ok (verified p)) (generations root)"
    using l by (auto simp: list_all2_conv_all_nth list_all_length case_prod_unfold)
qed

lemma sort_created_perm: "sort_created rank_other cs = Inr order \<Longrightarrow> set order = set cs \<and> length order = length cs \<and> (distinct (map fst cs) \<longrightarrow> distinct (map fst order))"
  by (auto simp: sort_created_def bindR_eq_Inr distinct_map split: if_splits)

lemma sort_created_text:
  assumes "sort_created rank_other cs = Inr order" "list_all (\<lambda>(_, v). is_str v) cs" "c \<in> set (take k order)" "c' \<in> set (drop k order)"
  shows "jstr (snd c) \<le> jstr (snd c')"
proof -
  from assms(1,2) have "order = sort_key (\<lambda>(_, v). jstr v) cs" by (simp add: sort_created_def)
  then have "sorted (map (\<lambda>(_, v). jstr v) order)" by (simp only: sorted_sort_key)
  then have "sorted (map (\<lambda>(_, v). jstr v) (take k order @ drop k order))" by simp
  with assms(3,4) show ?thesis unfolding map_append sorted_append by (force simp: case_prod_unfold)
qed

lemma length_filter_notin:
  assumes "distinct xs" "distinct ys" "set ys \<subseteq> set xs"
  shows "length (filter (\<lambda>x. x \<notin> set ys) xs) = length xs - length ys"
proof -
  have "length (filter (\<lambda>x. x \<notin> set ys) xs) = card (set xs - set ys)"
    using assms(1) by (simp add: distinct_card [symmetric] set_diff_eq)
  also have "\<dots> = length xs - length ys" using assms by (simp add: card_Diff_subset distinct_card)
  finally show ?thesis .
qed

text \<open>The names pruning removes, and what they are.\<close>

lemma prune_Inr:
  assumes "prune rank_other verified keep root = (Inr (), root')" "distinct (map fst root)"
  shows "\<exists>victims. root' = filter (\<lambda>(n, _). n \<notin> set victims) root \<and> set victims \<subseteq> fst ` set (generations root) \<and> distinct victims
     \<and> length victims = (if keep = 0 then 0 else length (generations root) - keep) \<and> list_all (\<lambda>(_, p). is_ok (verified p)) (generations root)
     \<and> (list_all (\<lambda>x. is_str (created verified x)) (generations root) \<longrightarrow>
          (\<forall>old\<in>set (generations root). \<forall>new\<in>set (generations root). fst old \<in> set victims \<longrightarrow> fst new \<notin> set victims \<longrightarrow>
             jstr (created verified old) \<le> jstr (created verified new)))"
proof -
  from assms(1) obtain cs order where c: "created_of (\<lambda>(_, p). verified p) root = Inr cs" and o: "sort_created rank_other cs = Inr order"
    and r: "root' = filter (\<lambda>(n, _). n \<notin> set (map fst (if keep = 0 then [] else take (length order - keep) order))) root"
    by (auto simp: prune_def bindR_eq_Inr Let_def split: sum.splits)
  note cs = created_of_Inr [OF c] and perm = sort_created_perm [OF o]
  define k where "k = (if keep = 0 then 0 else length order - keep)"
  have tk: "(if keep = 0 then [] else take (length order - keep) order) = take k order" unfolding k_def by simp
  define victims where "victims = map fst (take k order)"
  have gd: "distinct (map fst (generations root))" unfolding generations_def using assms(2) by (simp add: distinct_map_filter)
  have names: "map fst cs = map fst (generations root)" unfolding cs(1) by simp
  have len: "length order = length (generations root)" using perm cs(1) by simp
  have dist: "distinct (map fst order)" using perm gd names by simp
  have sub: "set victims \<subseteq> fst ` set (generations root)"
    using perm names set_take_subset [of k order] unfolding victims_def by (metis image_mono list.set_map)
  have vd: "distinct victims" unfolding victims_def take_map [symmetric] using dist by (rule distinct_take)
  have vl: "length victims = (if keep = 0 then 0 else length (generations root) - keep)" unfolding victims_def k_def using len by simp
  have later: "jstr (created verified old) \<le> jstr (created verified new)"
    if dates: "list_all (\<lambda>x. is_str (created verified x)) (generations root)" and old: "old \<in> set (generations root)" "fst old \<in> set victims"
      and new: "new \<in> set (generations root)" "fst new \<notin> set victims" for old new
  proof -
    have "list_all (\<lambda>(_, v). is_str v) cs" using dates unfolding cs(1) by (simp add: list_all_iff)
    note le = sort_created_text [OF o this]
    have inj: "x = y" if "x \<in> set (generations root)" "y \<in> set (generations root)" "fst x = fst y" for x y
      using gd that by (simp add: distinct_map inj_on_def)
    from old(2) obtain c where c': "c \<in> set (take k order)" "fst c = fst old" unfolding victims_def by auto
    then have "c \<in> set cs" using perm in_set_takeD by metis
    then obtain x where x: "x \<in> set (generations root)" "c = (fst x, created verified x)" unfolding cs(1) by auto
    have "x = old" using x c'(2) old(1) by (intro inj) simp_all
    with x(2) have c1: "snd c = created verified old" by simp
    have "(fst new, created verified new) \<in> set cs" unfolding cs(1) using new(1) by auto
    then have "(fst new, created verified new) \<in> set (take k order) \<union> set (drop k order)"
      using perm by (metis append_take_drop_id set_append)
    moreover have "(fst new, created verified new) \<notin> set (take k order)" using new(2) unfolding victims_def by force
    ultimately have "(fst new, created verified new) \<in> set (drop k order)" by blast
    from le [OF c'(1) this] c1 show ?thesis by simp
  qed
  show ?thesis
    using r sub vd vl cs(2) later unfolding tk victims_def [symmetric]
    by (intro exI [of _ victims]) auto
qed

text \<open>
  C25. Pruning a backup directory is safe. If anything about a candidate is wrong, nothing is deleted. Otherwise every
  generation has just been verified; only generations are deleted, everything else in the directory stays; exactly
  the configured number remains, or all when there are fewer or the number is 0 (\<open>[:-0]\<close> is empty); and none that
  remains was created before one that was deleted.
\<close>

theorem prune_keeps_newest:
  "case prune rank_other verified keep root of
     (Inl _, root') \<Rightarrow> root' = root
   | (Inr _, root') \<Rightarrow>
       (if distinct (map fst root) then
          (let kept = generations root'; gone = filter (\<lambda>x. x \<notin> set root') root in
             root' = filter (\<lambda>x. x \<notin> set gone) root \<and> list_all (\<lambda>(n, p). is_generation n \<and> is_ok (verified p)) gone
             \<and> list_all (\<lambda>(_, p). is_ok (verified p)) kept \<and> length kept = (if keep = 0 then length (generations root) else min keep (length (generations root)))
             \<and> (if list_all (\<lambda>x. is_str (created verified x)) (generations root) then
                  list_all (\<lambda>old. list_all (\<lambda>new. jstr (created verified old) \<le> jstr (created verified new)) kept) gone
                else True))
        else True)"
proof (cases "prune rank_other verified keep root")
  case (Pair r root')
  show ?thesis
  proof (cases r)
    case (Inl e)
    with Pair show ?thesis by (auto simp: prune_def Let_def split: sum.splits)
  next
    case (Inr u)
    show ?thesis
    proof (cases "distinct (map fst root)")
      case True
      from prune_Inr [of rank_other verified keep root root'] Pair Inr True obtain victims where
        v: "root' = filter (\<lambda>(n, _). n \<notin> set victims) root" "set victims \<subseteq> fst ` set (generations root)" "distinct victims"
          "length victims = (if keep = 0 then 0 else length (generations root) - keep)" "list_all (\<lambda>(_, p). is_ok (verified p)) (generations root)"
        and o: "list_all (\<lambda>x. is_str (created verified x)) (generations root) \<Longrightarrow>
          \<forall>old\<in>set (generations root). \<forall>new\<in>set (generations root). fst old \<in> set victims \<longrightarrow> fst new \<notin> set victims \<longrightarrow>
             jstr (created verified old) \<le> jstr (created verified new)" by auto
      define gone where "gone = filter (\<lambda>x. x \<notin> set root') root"
      have inj: "x = y" if "x \<in> set root" "y \<in> set root" "fst x = fst y" for x y
        using True that by (simp add: distinct_map inj_on_def)
      have gone: "set gone = {x \<in> set root. fst x \<in> set victims}" unfolding gone_def v(1) by (auto simp: case_prod_unfold)
      have gen: "x \<in> set (generations root)" if "x \<in> set gone" for x
      proof -
        from that gone have "x \<in> set root" "fst x \<in> set victims" by auto
        with v(2) obtain y where "y \<in> set (generations root)" "fst y = fst x" by force
        with \<open>x \<in> set root\<close> inj [of y x] show ?thesis by (auto simp: generations_def)
      qed
      have kept: "generations root' = filter (\<lambda>x. fst x \<notin> set victims) (generations root)"
        unfolding v(1) generations_def by (simp add: case_prod_unfold conj_commute)
      have a: "root' = filter (\<lambda>x. x \<notin> set gone) root" unfolding v(1) gone by (rule filter_cong) (auto simp: case_prod_unfold)
      have b: "list_all (\<lambda>(n, p). is_generation n \<and> is_ok (verified p)) gone"
        using gen v(5) by (fastforce simp: list_all_iff generations_def)
      have c: "list_all (\<lambda>(_, p). is_ok (verified p)) (generations root')" unfolding kept using v(5) by (auto simp: list_all_iff)
      have d: "length (generations root') = (if keep = 0 then length (generations root) else min keep (length (generations root)))"
      proof -
        have "distinct (map fst (generations root))" unfolding generations_def using True by (simp add: distinct_map_filter)
        from length_filter_notin [OF this v(3)] v(2) have
          "length (filter (\<lambda>n. n \<notin> set victims) (map fst (generations root))) = length (generations root) - length victims" by simp
        then show ?thesis unfolding kept using v(4) by (auto simp: filter_map comp_def min_def)
      qed
      have e: "if list_all (\<lambda>x. is_str (created verified x)) (generations root) then
          list_all (\<lambda>old. list_all (\<lambda>new. jstr (created verified old) \<le> jstr (created verified new)) (generations root')) gone else True"
        using o gen gone unfolding kept by (auto simp: list_all_iff)
      show ?thesis
        unfolding Pair Inr Let_def prod.case sum.case if_P [OF True] gone_def [symmetric] by (intro conjI a b c d e)
    next
      case False
      with Pair Inr show ?thesis by simp
    qed
  qed
qed

subsection \<open>Published snapshots\<close>

definition kept_last :: "json \<Rightarrow> nat" where
  "kept_last config = nat (jint (dget config ''keep_last''))"

text \<open>
  What a snapshot is for. The artifact phase of a restore accepts it, and the copies it makes are, for each configured
  source, the store of the files of that source that are not below a directory that cannot be listed, so the whole
  store when there is none; a restore that returns has restored exactly these copies and counts them. The globals
  are what \<open>pg_dumpall\<close> printed, and for each selected database the file a restore opens as its dump holds what
  \<open>pg_dump\<close> printed for that database.
\<close>

definition source_restored :: "sources \<Rightarrow> contents \<Rightarrow> string \<times> json \<Rightarrow> bool" where
  "source_restored so copies x =
     (case so_tree so (jstr (snd x)) of
        None \<Rightarrow> False
      | Some s \<Rightarrow> contents_store (below [fst x] copies) = tree_store (walked s)
          \<and> (if all_listable s then contents_store (below [fst x] copies) = tree_store s else True))"

definition database_dumped :: "sources \<Rightarrow> tree \<Rightarrow> json \<Rightarrow> bool" where
  "database_dumped so t d \<longleftrightarrow> (\<exists>out. open_file t [''postgres'', jstr d @ ''.dump''] = Inr out
     \<and> printed_by so ''pg_dump'' [''--dbname'', jstr d, ''--format=custom'', ''--create''] out)"

definition restorable :: "sources \<Rightarrow> json \<Rightarrow> 'w restorer \<Rightarrow> string option \<Rightarrow> 'w \<Rightarrow> tree \<Rightarrow> bool" where
  "restorable so config rs proof_database w t \<longleftrightarrow>
     (\<exists>copies ds globals. restore_artifacts t = Inr copies
        \<and> (if distinct (jkeys (dget config ''artifact_roots'')) then list_all (source_restored so copies) (jitems (dget config ''artifact_roots'')) else True)
        \<and> (case restore_tree rs proof_database t w of
             (Inl _, _) \<Rightarrow> True
           | (Inr (report, restored), _) \<Rightarrow> restored = copies \<and> dget report ''artifact_count'' = JInt (int (length copies)))
        \<and> open_file t [''postgres'', ''globals.sql''] = Inr globals
        \<and> printed_by so ''pg_dumpall'' [''--globals-only'', ''--no-role-passwords''] globals
        \<and> py_iter (dget (dget config ''postgres'') ''databases'') = Inr ds \<and> list_all (database_dumped so t) ds)"

lemma bindJ_Inr: "bindJ m f w = (Inr y, w') \<longleftrightarrow> (\<exists>x w1. m w = (Inr x, w1) \<and> f x w1 = (Inr y, w'))"
  by (auto simp: bindJ_def split: prod.splits sum.splits)

lemma finally_stop_Inr: "finally_stop rs m w = (Inr y, w') \<Longrightarrow> \<exists>w1. m w = (Inr y, w1)"
  by (auto simp: finally_stop_def split: prod.splits sum.splits)

lemma restore_tree_Inr:
  assumes "restore_tree rs proof_database t w = (Inr (report, restored), w')"
  shows "restore_artifacts t = Inr restored \<and> dget report ''artifact_count'' = JInt (int (length restored))"
proof -
  from assms obtain databases names w1 w2 where "restore_started rs proof_database t databases names w1 = (Inr (report, restored), w2)"
    unfolding restore_tree_def bindJ_Inr by (fastforce simp: bindJ_Inr split: prod.splits dest!: finally_stop_Inr)
  then show ?thesis unfolding restore_started_def bindJ_Inr
    by (auto simp: bindJ_Inr retJ_def resJ_def restore_report_def py_defs split: prod.splits)
qed

lemma open_written: "distinct (map fst fs) \<Longrightarrow> (path, c) \<in> set fs \<Longrightarrow> open_file (written device fs) path = Inr c"
proof (induction fs)
  case (Cons x fs)
  then show ?case by (cases x) (force simp: open_file_def written_def)
qed simp

lemma artifact_sources_Inr:
  assumes "artifact_sources tree_of roots = Inr trees"
  shows "list_all2 (\<lambda>(name, path) (label, t). label = name \<and> tree_of (jstr path) = Some t) (jitems roots) trees"
  using assms
  by (auto simp: artifact_sources_def mapR_eq_Inr plain_directory_def bindR_eq_Inr split: if_splits option.splits elim!: list_all2_mono)

lemma list_all2_member: "list_all2 P xs ys \<Longrightarrow> x \<in> set xs \<Longrightarrow> \<exists>y\<in>set ys. P x y"
  by (induction rule: list_all2_induct) auto

lemma list_all2_names: "list_all2 (\<lambda>(name, path) (label, t). label = name \<and> Q path t) xs ys \<Longrightarrow> map fst ys = map fst xs"
  by (induction rule: list_all2_induct) auto

lemma database_names_Inr: "database_names v = Inr ds \<Longrightarrow> py_iter v = Inr ds \<and> list_all (\<lambda>d. jstr d \<noteq> []) ds"
  by (auto simp: database_names_def bindR_eq_Inr Let_def forR_eq_Inr list_all_iff is_ident_def raise_if_eq_Inr split: if_splits)

lemma list_all2_each: "list_all2 P xs ys \<Longrightarrow> x \<in> set xs \<Longrightarrow> \<exists>y. y \<in> set ys \<and> P x y"
  by (induction rule: list_all2_induct) auto

lemma snapshot_restorable:
  assumes c: "collect_snapshot so config ds trees = (Inr (), fs)"
    and ds: "database_names (dget (dget config ''postgres'') ''databases'') = Inr ds"
    and ts: "artifact_sources (so_tree so) (dget config ''artifact_roots'') = Inr trees"
    and t: "t = written device (with_manifest at config capacity fs)"
  shows "restorable so config rs proof_database w t"
proof -
  let ?cat = "\<lambda>f xss. concat (map2 (\<lambda>(label, _) xs. f label (sort_key fst xs)) trees xss)"
  note names = database_names_Inr [OF ds]
  from collect_snapshot_Inr [OF c conjunct2 [OF names]] obtain globals gs xss where fs: "fs = (([''postgres'', ''globals.sql''], globals) # gs) @ ?cat under xss"
    "elsewhere (([''postgres'', ''globals.sql''], globals) # gs)" and dist: "distinct (map fst fs)"
    and pr: "printed_by so ''pg_dumpall'' [''--globals-only'', ''--no-role-passwords''] globals" and dumps: "list_all2 (dumped so) ds gs"
    and l: "list_all2 (\<lambda>(_, t) xs. safe_files t = Inr xs \<and> list_all is_artifact xs \<and> distinct (map fst xs)) trees xss"
    by (elim exE conjE) (rule that)
  define all where "all = with_manifest at config capacity fs"
  define copies where "copies = ?cat labelled xss"
  have sf: "safe_files t = Inr all" unfolding t all_def by (rule safe_files_written)
  have man: "below [''artifacts''] [([''manifest.json''], x)] = []" for x by (simp add: below_def)
  have b: "below [''artifacts''] all = copies"
    unfolding all_def with_manifest_def fs(1) below_append below_elsewhere [OF fs(2)] below_artifacts man copies_def by simp
  have "list_all (\<lambda>(p, c). p \<noteq> [] \<and> last p = sha256_hex c) copies"
    unfolding copies_def using l
  proof (induction rule: list_all2_induct)
    case (Cons x xs ys yss)
    then have "list_all is_artifact (sort_key fst ys)" by (auto simp: list_all_iff)
    note labelled_last [OF this, of "fst x"]
    with Cons.IH show ?case by (cases x) simp
  qed simp
  note restore_files_artifacts [OF this]
  then have r: "restore_artifacts t = Inr copies" using sf b by (simp add: restore_artifacts_def)
  note names2 = artifact_sources_Inr [OF ts]
  have keys: "map fst trees = jkeys (dget config ''artifact_roots'')"
    using list_all2_names [OF names2] by (simp add: jkeys_def)
  have stores: "list_all (source_restored so copies) (jitems (dget config ''artifact_roots''))" if d: "distinct (jkeys (dget config ''artifact_roots''))"
    unfolding list_all_iff
  proof
    fix x assume "x \<in> set (jitems (dget config ''artifact_roots''))"
    from list_all2_member [OF names2 this] obtain s where s: "(fst x, s) \<in> set trees" "so_tree so (jstr (snd x)) = Some s"
      by (auto simp: case_prod_unfold)
    from restored_source [OF l _ s(1)] d keys obtain xs where
      "safe_files s = Inr xs" "distinct (map fst xs)" "below [fst x] copies = sort_key fst xs" unfolding copies_def by auto
    with restored_reads walked_all s(2) show "source_restored so copies x" by (simp add: source_restored_def)
  qed
  then have i: "if distinct (jkeys (dget config ''artifact_roots'')) then list_all (source_restored so copies) (jitems (dget config ''artifact_roots'')) else True"
    by (cases "distinct (jkeys (dget config ''artifact_roots''))") (simp_all only: if_True if_False)
  have run: "case restore_tree rs proof_database t w of (Inl _, _) \<Rightarrow> True
      | (Inr (report, restored), _) \<Rightarrow> restored = copies \<and> dget report ''artifact_count'' = JInt (int (length copies))"
    using restore_tree_Inr [of rs proof_database t w] r by (auto split: prod.splits sum.splits)
  have new: "''manifest.json'' # p \<notin> fst ` set (?cat under xss)" for p
  proof -
    have front: "take 1 (fst x) = [''artifacts'']" if "x \<in> set (?cat under xss)" for x
      using that unfolding under_def by auto
    show ?thesis
    proof
      assume "''manifest.json'' # p \<in> fst ` set (?cat under xss)"
      then obtain x where "x \<in> set (?cat under xss)" "fst x = ''manifest.json'' # p" by force
      with front [OF this(1)] show False by simp
    qed
  qed
  have "[''manifest.json''] \<notin> fst ` set gs"
  proof
    assume "[''manifest.json''] \<in> fst ` set gs"
    then obtain y where y: "y \<in> set gs" "fst y = [''manifest.json'']" by force
    from dumps y(1) obtain d where "dumped so d y" by (auto simp: list_all2_conv_all_nth in_set_conv_nth)
    with y(2) show False by (simp add: dumped_def)
  qed
  with new dist have distinct: "distinct (map fst all)" unfolding all_def with_manifest_def fs(1) by simp
  have g: "open_file t [''postgres'', ''globals.sql''] = Inr globals"
    unfolding t all_def [symmetric] by (rule open_written [OF distinct]) (simp add: all_def with_manifest_def fs(1))
  have "database_dumped so t d" if "d \<in> set ds" for d
  proof -
    from list_all2_each [OF dumps that] obtain y where y: "y \<in> set gs" "dumped so d y" by blast
    then have "(fst y, snd y) \<in> set all" by (simp add: all_def with_manifest_def fs(1))
    from open_written [OF distinct this, of device] y(2) show ?thesis
      unfolding database_dumped_def t all_def [symmetric] dumped_def by auto
  qed
  then have dd: "list_all (database_dumped so t) ds" by (simp add: list_all_iff)
  show ?thesis unfolding restorable_def
    by (rule exI [of _ copies], rule exI [of _ ds], rule exI [of _ globals]) (intro conjI r i run g pr conjunct1 [OF names] dd)
qed

lemma incomplete_hidden: "\<not> is_generation (incomplete generation)"
  by (simp add: is_generation_def is_digit_def incomplete_def)

lemma publish_cases:
  "case publish_snapshot so generation config t root of
     (Inl _, root') \<Rightarrow> root' = root @ [(incomplete generation, Directory t)]
       \<or> root' = AList.update generation (Directory t) root \<and> is_ok (verified_by so config (Directory t))
   | (Inr g, root') \<Rightarrow> g = generation \<and> is_ok (verified_by so config (Directory t))
       \<and> prune (so_rank so) (verified_by so config) (kept_last config) (AList.update generation (Directory t) root) = (Inr (), root')"
proof -
  have "root1 = r" if "prune f v k r = (Inl e, root1)" for f v k r e root1
    using that by (auto simp: prune_def Let_def split: sum.splits)
  then show ?thesis by (auto simp: publish_snapshot_def kept_last_def Let_def split: sum.splits prod.splits)
qed

text \<open>
  C24. A snapshot publishes nothing that could not be restored. When it succeeds, a generation of the given name was
  added to the backup directory and verifies; its artifacts pass the artifact checks of a restore, and what that phase
  copies is for each configured source the store of exactly the files outside directories that cannot be listed, so
  every reference of the kernel to such a file reads the same from the restored store as from the live one; a restore
  that returns has restored these artifacts; the globals and the dump of each selected database are what the database
  tools printed for exactly that database; then old generations were pruned. When it fails, nothing was deleted: the
  directory is unchanged, or has one more entry, the incomplete one, which is never a generation, or the whole
  published generation. Whether the commands of the restored cluster accept the dumps, and whether the globals create
  tablespaces, which a restore refuses, is not decided here.
\<close>

theorem backup_restores_store:
  "case take_snapshot so device generation at config root of
     (Inl _, root') \<Rightarrow>
       root' = root \<or> (\<exists>p. root' = root @ [(incomplete generation, p)] \<and> is_generation (incomplete generation) = False)
       \<or> (\<exists>t. root' = AList.update generation (Directory t) root \<and> is_ok (verified_by so config (Directory t))
            \<and> restorable so config rs proof_database w t)
   | (Inr g, root') \<Rightarrow>
       g = generation
       \<and> (\<exists>t. is_ok (verified_by so config (Directory t)) \<and> restorable so config rs proof_database w t
            \<and> prune (so_rank so) (verified_by so config) (kept_last config) (AList.update generation (Directory t) root) = (Inr (), root'))"
proof (cases "bindR (source_capacity so config) (\<lambda>capacity. bindR (snapshot_inputs so config) (\<lambda>inputs. Inr (capacity, inputs)))")
  case (Inl e)
  then show ?thesis by (simp add: take_snapshot_def)
next
  case (Inr p)
  obtain capacity ds trees where p: "p = (capacity, ds, trees)" by (metis prod_cases3)
  with Inr have ds: "database_names (dget (dget config ''postgres'') ''databases'') = Inr ds"
    and ts: "artifact_sources (so_tree so) (dget config ''artifact_roots'') = Inr trees"
    unfolding snapshot_inputs_def bindR_eq_Inr by blast+
  obtain r fs where c: "collect_snapshot so config ds trees = (r, fs)" by fastforce
  let ?t = "written device (with_manifest at config capacity fs)"
  show ?thesis
  proof (cases r)
    case (Inl e)
    with \<open>_ = Inr p\<close> p c show ?thesis using incomplete_hidden by (simp add: take_snapshot_def)
  next
    case (Inr u)
    have ok: "restorable so config rs proof_database w ?t"
      using c Inr by (intro snapshot_restorable [OF _ ds ts refl]) simp_all
    show ?thesis
    proof (cases "incomplete generation \<in> fst ` set root")
      case True
      with \<open>_ = Inr p\<close> p show ?thesis by (simp add: take_snapshot_def)
    next
      case False
      with \<open>_ = Inr p\<close> p c Inr have
        "take_snapshot so device generation at config root = publish_snapshot so generation config ?t root" by (simp add: take_snapshot_def)
      then show ?thesis
        using publish_cases [where so = so and generation = generation and config = config and t = ?t and root = root] ok incomplete_hidden by (auto split: prod.splits sum.splits)
    qed
  qed
qed

end
